(* ===== verification/Prelude.thy ===== *)
theory Prelude
  imports Main "HOL-Library.Word" "HOL-Library.AList" "HOL-Library.List_Lexorder" "HOL-Library.Char_ord"
begin

text \<open>
  What every component of the model shares: Go's error results, its maps, its string
  checks and its machine integers, with the lemmas that carry the component proofs.

  \<^item> An \<open>error\<close> return is the message as a \<^typ>\<open>string\<close>. A function that only returns an
    \<open>error\<close> is of type \<open>string option\<close> (\<open>None\<close> is Go's \<open>nil\<close>); a function that returns a
    value and an \<open>error\<close> is of type \<open>string + 'a\<close> (\<open>Inl\<close> the error). Messages that the
    source formats with arguments keep the constant part of the format.
  \<^item> A run of \<open>if err := check; err != nil { return err }\<close> is \<open>first_err\<close> of the checks in
    the source's order.
  \<^item> A Go \<open>map\<close> is an association list with distinct keys: reads are \<^const>\<open>map_of\<close>,
    assignment is \<open>gput\<close>, iteration is recursion over the list.
  \<^item> Go strings and byte slices are byte lists, of type \<^typ>\<open>string\<close> (a \<^typ>\<open>char\<close> is one
    byte); Go's \<open><=\<close> on strings is the lexicographic order of \<open>List_Lexorder\<close>.
  \<^item> \<open>uint32\<close> and \<open>uint64\<close> are words of their width.
\<close>

named_theorems gomap_simps \<open>reads of updated Go maps\<close>
named_theorems keys_simps \<open>key lists of updated Go maps\<close>

section \<open>Machine integers, time\<close>

type_synonym u32 = "32 word"
type_synonym u64 = "64 word"

text \<open>An instant (\<open>time.Time\<close>), in nanoseconds after Go's zero time; the zero time is 0.\<close>

type_synonym gtime = int

section \<open>Error results\<close>

type_synonym 'a res = "string + 'a"

fun first_err :: "'e option list \<Rightarrow> 'e option" where
  "first_err [] = None"
| "first_err (c # cs) = (case c of None \<Rightarrow> first_err cs | Some e \<Rightarrow> Some e)"

lemma case_err_None [simp]:
  "(case c of None \<Rightarrow> d | Some e \<Rightarrow> Some e) = None \<longleftrightarrow> c = None \<and> d = None"
  by (cases c) auto

definition fail_if :: "bool \<Rightarrow> 'e \<Rightarrow> 'e option" where
  "fail_if b msg = (if b then Some msg else None)"

lemma fail_if_None [simp]: "fail_if b msg = None \<longleftrightarrow> \<not> b"
  by (simp add: fail_if_def)

lemma fail_if_Some [simp]: "fail_if b msg = Some e \<longleftrightarrow> b \<and> e = msg"
  by (auto simp: fail_if_def)

lemma fail_if_simps [simp]: "fail_if True msg = Some msg" "fail_if False msg = None"
  by (simp_all add: fail_if_def)

lemma first_err_None [simp]: "first_err cs = None \<longleftrightarrow> (\<forall>c \<in> set cs. c = None)"
  by (induction cs) (auto split: option.splits)

lemma first_err_Some_mem: "first_err cs = Some e \<Longrightarrow> Some e \<in> set cs"
  by (induction cs) (auto split: option.splits)

lemma first_err_append: "first_err (xs @ ys) = (case first_err xs of None \<Rightarrow> first_err ys | Some e \<Rightarrow> Some e)"
  by (induction xs) (simp_all del: first_err_None split: option.split)

text \<open>Running a list of steps that may fail, stopping at the first error.\<close>

fun fold_res :: "('s \<Rightarrow> 'a \<Rightarrow> 'e + 's) \<Rightarrow> 's \<Rightarrow> 'a list \<Rightarrow> 'e + 's" where
  "fold_res f s [] = Inr s"
| "fold_res f s (x # xs) = (case f s x of Inl e \<Rightarrow> Inl e | Inr s' \<Rightarrow> fold_res f s' xs)"

lemma fold_res_append:
  "fold_res f s (xs @ ys) = (case fold_res f s xs of Inl e \<Rightarrow> Inl e | Inr t \<Rightarrow> fold_res f t ys)"
  by (induction xs arbitrary: s) (auto split: sum.splits)

lemma fold_res_inv:
  assumes "fold_res f s xs = Inr t" and "P s"
    and "\<And>s x t. P s \<Longrightarrow> x \<in> set xs \<Longrightarrow> f s x = Inr t \<Longrightarrow> P t"
  shows "P t"
  using assms
proof (induction xs arbitrary: s)
  case Nil
  then show ?case by simp
next
  case (Cons x xs)
  obtain s' where s': "f s x = Inr s'" and rest: "fold_res f s' xs = Inr t"
    using Cons.prems(1) by (auto split: sum.splits)
  have "P s'" by (rule Cons.prems(3) [OF Cons.prems(2) _ s']) simp
  moreover have "P t'" if "P r" "y \<in> set xs" "f r y = Inr t'" for r y t'
    using Cons.prems(3) that by (meson list.set_intros(2))
  ultimately show ?case by (rule Cons.IH [OF rest])
qed

section \<open>Go maps\<close>

type_synonym ('k, 'v) gomap = "('k \<times> 'v) list"

definition gput :: "'k \<Rightarrow> 'v \<Rightarrow> ('k, 'v) gomap \<Rightarrow> ('k, 'v) gomap" where
  "gput k v m = AList.update k v m"

definition gkeys :: "('k, 'v) gomap \<Rightarrow> 'k list" where
  "gkeys m = map fst m"

definition gmap_ok :: "('k, 'v) gomap \<Rightarrow> bool" where
  "gmap_ok m \<longleftrightarrow> distinct (gkeys m)"

lemma gput_Nil [simp]: "gput k v [] = [(k, v)]"
  by (simp add: gput_def)

lemma gput_Cons [simp]:
  "gput k v ((k', v') # m) = (if k' = k then (k, v) # m else (k', v') # gput k v m)"
  by (simp add: gput_def)

lemma map_of_gput [simp, gomap_simps]: "map_of (gput k v m) = (map_of m)(k \<mapsto> v)"
  by (simp add: gput_def update_conv')

lemma gkeys_gput [simp, keys_simps]:
  "gkeys (gput k v m) = (if k \<in> set (gkeys m) then gkeys m else gkeys m @ [k])"
  by (simp add: gkeys_def gput_def update_keys)

lemma gkeys_Nil [simp]: "gkeys [] = []"
  by (simp add: gkeys_def)

lemma gmap_ok_Nil [simp]: "gmap_ok []"
  by (simp add: gmap_ok_def)

lemma gmap_ok_gput [simp, intro]: "gmap_ok m \<Longrightarrow> gmap_ok (gput k v m)"
  by (simp add: gmap_ok_def)

lemma in_gkeys_iff: "k \<in> set (gkeys m) \<longleftrightarrow> map_of m k \<noteq> None"
  by (auto simp: gkeys_def map_of_eq_None_iff)

lemma set_gput: "x \<in> set (gput k v m) \<Longrightarrow> x = (k, v) \<or> x \<in> set m"
  by (induction m) (auto split: if_splits)

lemma gput_new: "map_of m k = None \<Longrightarrow> gput k v m = m @ [(k, v)]"
  by (induction m) (auto split: if_splits)

lemma gmap_ok_mem: "gmap_ok m \<Longrightarrow> (k, v) \<in> set m \<longleftrightarrow> map_of m k = Some v"
  by (simp add: gmap_ok_def gkeys_def)

lemma map_of_mem: "map_of m k = Some v \<Longrightarrow> (k, v) \<in> set m"
  by (rule map_of_SomeD)

text \<open>Iterating over a map and writing every entry back (\<open>for k, v := range m { m[k] = f(v) }\<close>).\<close>

definition gmap_vals :: "('v \<Rightarrow> 'w) \<Rightarrow> ('k, 'v) gomap \<Rightarrow> ('k, 'w) gomap" where
  "gmap_vals f m = map (\<lambda>(k, v). (k, f v)) m"

lemma map_of_gmap_vals [simp, gomap_simps]: "map_of (gmap_vals f m) k = map_option f (map_of m k)"
  by (induction m) (auto simp: gmap_vals_def)

lemma gkeys_gmap_vals [simp, keys_simps]: "gkeys (gmap_vals f m) = gkeys m"
  by (induction m) (auto simp: gmap_vals_def gkeys_def)

lemma gmap_ok_gmap_vals [simp]: "gmap_ok (gmap_vals f m) = gmap_ok m"
  by (simp add: gmap_ok_def)

lemma gmap_vals_Nil [simp]: "gmap_vals f [] = []"
  by (simp add: gmap_vals_def)

lemma gmap_vals_Cons [simp]: "gmap_vals f ((k, v) # m) = (k, f v) # gmap_vals f m"
  by (simp add: gmap_vals_def)

lemma set_gmap_vals: "(k, w) \<in> set (gmap_vals f m) \<longleftrightarrow> (\<exists>v. (k, v) \<in> set m \<and> w = f v)"
  by (induction m) auto

section \<open>Sorted, unique, nonempty lists of strings\<close>

text \<open>
  The loop \<open>for index, value := range values { if value == "" || (index > 0 && value <= previous)
  { return err }; previous = value }\<close>, over the list of values.
\<close>

fun sorted_unique_from :: "string option \<Rightarrow> string list \<Rightarrow> bool" where
  "sorted_unique_from prev [] = True"
| "sorted_unique_from prev (v # vs) =
     (v \<noteq> '''' \<and> (case prev of None \<Rightarrow> True | Some p \<Rightarrow> \<not> v \<le> p) \<and> sorted_unique_from (Some v) vs)"

lemma sorted_unique_from_iff:
  "sorted_unique_from prev vs \<longleftrightarrow>
     '''' \<notin> set vs \<and> sorted_wrt (<) ((case prev of None \<Rightarrow> [] | Some p \<Rightarrow> [p]) @ vs)"
proof (induction vs arbitrary: prev)
  case Nil
  then show ?case by (auto split: option.splits)
next
  case (Cons v vs)
  then show ?case by (cases prev) (auto simp: not_le)
qed

end
