(* ===== verification/Json.thy ===== *)
theory Json
  imports Prelude
begin

text \<open>
  JSON as the program reads and writes it: the tokens Go's \<open>json.Decoder\<close> hands out (strings
  unquoted, with ill-formed UTF-8 replaced, numbers kept as text), the validator
  \<open>validateRawJSON\<close> of \<open>internal/protocol/ids.go\<close>, and the parser and writer of
  \<open>internal/canonicaljson/canonical.go\<close>. The source pulls tokens one at a time; here the input
  is cut into tokens first, which accepts the same inputs because every token of an accepted
  input is read.
\<close>

section \<open>Limits\<close>

abbreviation MaxJSONDepth :: nat where "MaxJSONDepth \<equiv> 64"
abbreviation MaxStringBytes :: int where "MaxStringBytes \<equiv> 1048576"
abbreviation MaxByteFieldBytes :: int where "MaxByteFieldBytes \<equiv> 1048576"
abbreviation MaxCollectionMembers :: int where "MaxCollectionMembers \<equiv> 4096"
abbreviation MaxEventBytes :: int where "MaxEventBytes \<equiv> 2097152"

section \<open>UTF-8 and string literals\<close>

abbreviation byte_of :: "char \<Rightarrow> nat" where "byte_of c \<equiv> of_char c"

definition is_cont :: "char \<Rightarrow> bool" where
  "is_cont c \<longleftrightarrow> 128 \<le> byte_of c \<and> byte_of c < 192"

text \<open>
  The number of bytes of the first rune (\<open>utf8.DecodeRune\<close>), 0 where the bytes are ill-formed:
  overlong forms, surrogates and values above U+10FFFF are.
\<close>

definition second_ok :: "nat \<Rightarrow> nat \<Rightarrow> bool" where
  "second_ok b0 b1 \<longleftrightarrow>
     (if b0 = 224 then 160 \<le> b1 \<and> b1 < 192
      else if b0 = 237 then 128 \<le> b1 \<and> b1 < 160
      else if b0 = 240 then 144 \<le> b1 \<and> b1 < 192
      else if b0 = 244 then 128 \<le> b1 \<and> b1 < 144
      else 128 \<le> b1 \<and> b1 < 192)"

fun rune_len :: "string \<Rightarrow> nat" where
  "rune_len [] = 0"
| "rune_len (c # cs) =
     (let b = byte_of c in
      if b < 128 then 1
      else if b < 194 then 0
      else if b < 224 then
        (case cs of c1 # _ \<Rightarrow> if is_cont c1 then 2 else 0 | [] \<Rightarrow> 0)
      else if b < 240 then
        (case cs of c1 # c2 # _ \<Rightarrow> if second_ok b (byte_of c1) \<and> is_cont c2 then 3 else 0 | _ \<Rightarrow> 0)
      else if b < 245 then
        (case cs of c1 # c2 # c3 # _ \<Rightarrow>
           if second_ok b (byte_of c1) \<and> is_cont c2 \<and> is_cont c3 then 4 else 0 | _ \<Rightarrow> 0)
      else 0)"

definition replacement :: string where
  "replacement = [char_of (239::nat), char_of (191::nat), char_of (189::nat)]"

text \<open>\<open>utf8.EncodeRune\<close>, on a rune that is not a surrogate.\<close>

definition encode_rune :: "nat \<Rightarrow> string" where
  "encode_rune r =
     (if r < 128 then [char_of r]
      else if r < 2048 then [char_of (192 + r div 64), char_of (128 + r mod 64)]
      else if r < 65536 then
        [char_of (224 + r div 4096), char_of (128 + r div 64 mod 64), char_of (128 + r mod 64)]
      else
        [char_of (240 + r div 262144), char_of (128 + r div 4096 mod 64),
         char_of (128 + r div 64 mod 64), char_of (128 + r mod 64)])"

definition hex_val :: "char \<Rightarrow> nat option" where
  "hex_val c =
     (let b = byte_of c in
      if 48 \<le> b \<and> b \<le> 57 then Some (b - 48)
      else if 97 \<le> b \<and> b \<le> 102 then Some (b - 87)
      else if 65 \<le> b \<and> b \<le> 70 then Some (b - 55)
      else None)"

text \<open>The comparisons on bytes evaluate in binary.\<close>

lemma of_char_int: "of_char c = int (byte_of c)"
  by (simp only: of_nat_of_char)

lemma hex_val_code [code]:
  "hex_val c = (let b = (of_char c :: int) in
     if 48 \<le> b \<and> b \<le> 57 then Some (nat (b - 48))
     else if 97 \<le> b \<and> b \<le> 102 then Some (nat (b - 87))
     else if 65 \<le> b \<and> b \<le> 70 then Some (nat (b - 55))
     else None)"
  unfolding hex_val_def Let_def of_char_int by (simp add: nat_minus_as_int)

definition hex4 :: "char \<Rightarrow> char \<Rightarrow> char \<Rightarrow> char \<Rightarrow> nat option" where
  "hex4 a b c d =
     (case (hex_val a, hex_val b, hex_val c, hex_val d) of
        (Some w, Some x, Some y, Some z) \<Rightarrow> Some (4096 * w + 256 * x + 16 * y + z)
      | _ \<Rightarrow> None)"

text \<open>The simple escapes: the character after the backslash and the byte it stands for.\<close>

definition simple_escape :: "char \<Rightarrow> char option" where
  "simple_escape c =
     (if c \<in> {CHR 0x22, CHR 0x5C, CHR 0x2F} then Some c
      else if c = CHR ''b'' then Some (CHR 0x08)
      else if c = CHR ''f'' then Some (CHR 0x0C)
      else if c = CHR ''n'' then Some (CHR 0x0A)
      else if c = CHR ''r'' then Some (CHR 0x0D)
      else if c = CHR ''t'' then Some (CHR 0x09)
      else None)"

text \<open>
  A \<open>\u\<close> escape with the characters after it: the bytes it stands for and the number of further
  characters it takes (6 for the second half of a surrogate pair). A surrogate without its
  partner is the replacement character.
\<close>

definition unicode_escape :: "nat \<Rightarrow> string \<Rightarrow> string \<times> nat" where
  "unicode_escape r rest =
     (if 55296 \<le> r \<and> r < 57344 then
        (case rest of
           e # u # a # b # c # d # _ \<Rightarrow>
             (if r < 56320 \<and> e = CHR 0x5C \<and> u = CHR ''u'' then
                (case hex4 a b c d of
                   Some r1 \<Rightarrow> if 56320 \<le> r1 \<and> r1 < 57344
                     then (encode_rune (65536 + (r - 55296) * 1024 + (r1 - 56320)), 6)
                     else (replacement, 0)
                 | None \<Rightarrow> (replacement, 0))
              else (replacement, 0))
         | _ \<Rightarrow> (replacement, 0))
      else (encode_rune r, 0))"

text \<open>
  One item of a string literal, \<open>c\<close> with the characters after it: the bytes it stands for and
  how many further characters it takes. Control characters and malformed escapes are errors.
\<close>

definition literal_item :: "char \<Rightarrow> string \<Rightarrow> (string \<times> nat) option" where
  "literal_item c cs =
     (if byte_of c < 32 then None
      else if c = CHR 0x5C then
        (case cs of
           e # a # b # x # d # rest \<Rightarrow>
             if e = CHR ''u'' then
               map_option (\<lambda>r. let (bs, n) = unicode_escape r rest in (bs, 5 + n)) (hex4 a b x d)
             else map_option (\<lambda>b. ([b], 1)) (simple_escape e)
         | e # _ \<Rightarrow> map_option (\<lambda>b. ([b], 1)) (simple_escape e)
         | [] \<Rightarrow> None)
      else if byte_of c < 128 then Some ([c], 0)
      else
        (let n = rune_len (c # cs) in
         if n = 0 then Some (replacement, 0) else Some (take n (c # cs), n - 1)))"

text \<open>The rest of a string literal, after its opening quote: its value and what follows it.\<close>

fun unquote :: "string \<Rightarrow> (string \<times> string) option" where
  "unquote [] = None"
| "unquote (c # cs) =
     (if c = CHR 0x22 then Some ([], cs)
      else case literal_item c cs of
          None \<Rightarrow> None
        | Some (bs, n) \<Rightarrow> map_option (\<lambda>(v, t). (bs @ v, t)) (unquote (drop n cs)))"

lemma unquote_length: "unquote s = Some (v, t) \<Longrightarrow> length t < length s"
proof (induction s arbitrary: v rule: unquote.induct)
  case 1
  then show ?case by simp
next
  case (2 c cs)
  show ?case
  proof (cases "c = CHR 0x22")
    case True
    with "2.prems" show ?thesis by simp
  next
    case False
    with "2.prems" obtain bs n v' where i: "literal_item c cs = Some (bs, n)"
      and u: "unquote (drop n cs) = Some (v', t)"
      by (auto split: option.splits)
    have "length t < length (drop n cs)"
      using "2.IH" [OF False i refl u] .
    then show ?thesis by simp
  qed
qed

section \<open>Tokens\<close>

datatype token = TLBrace | TRBrace | TLBrack | TRBrack | TColon | TComma
  | TStr string | TNum string | TTrue | TFalse | TNull

definition is_space :: "char \<Rightarrow> bool" where
  "is_space c \<longleftrightarrow> c \<in> {CHR 0x20, CHR 0x09, CHR 0x0A, CHR 0x0D}"

definition is_digit :: "char \<Rightarrow> bool" where
  "is_digit c \<longleftrightarrow> 48 \<le> byte_of c \<and> byte_of c \<le> 57"

lemma is_digit_code [code]: "is_digit c \<longleftrightarrow> 48 \<le> (of_char c :: int) \<and> (of_char c :: int) \<le> 57"
  unfolding is_digit_def of_char_int by simp

text \<open>
  A number as the decoder's scanner cuts it: an optional minus sign, then \<open>0\<close> or a run of
  digits that does not start with \<open>0\<close>. A fraction or an exponent is refused here; the source
  refuses the number later, in \<open>validInteger\<close> (or in the scanner, where it is malformed).
\<close>

definition lex_digits :: "string \<Rightarrow> (string \<times> string) option" where
  "lex_digits s =
     (case s of
        [] \<Rightarrow> None
      | c # cs \<Rightarrow>
          if c = CHR ''0'' then Some ([c], cs)
          else if is_digit c then Some (takeWhile is_digit s, dropWhile is_digit s)
          else None)"

definition lex_number :: "string \<Rightarrow> (string \<times> string) option" where
  "lex_number s =
     (let r = (case s of
                 c # cs \<Rightarrow> if c = CHR ''-'' then map_option (\<lambda>(d, t). (c # d, t)) (lex_digits cs)
                            else lex_digits s
               | [] \<Rightarrow> None)
      in case r of
           Some (d, t) \<Rightarrow>
             if t \<noteq> [] \<and> hd t \<in> {CHR ''.'', CHR ''e'', CHR ''E''} then None else Some (d, t)
         | None \<Rightarrow> None)"

definition lex_literal :: "string \<Rightarrow> (token \<times> string) option" where
  "lex_literal s =
     (if take 4 s = ''true'' then Some (TTrue, drop 4 s)
      else if take 5 s = ''false'' then Some (TFalse, drop 5 s)
      else if take 4 s = ''null'' then Some (TNull, drop 4 s)
      else None)"

definition delims :: "(char \<times> token) list" where
  "delims =
     [(CHR ''{'', TLBrace), (CHR ''}'', TRBrace), (CHR ''['', TLBrack), (CHR '']'', TRBrack),
      (CHR '':'', TColon), (CHR '','', TComma)]"

definition lex_one :: "char \<Rightarrow> string \<Rightarrow> (token \<times> string) option" where
  "lex_one c cs =
     (case map_of delims c of
        Some tok \<Rightarrow> Some (tok, cs)
      | None \<Rightarrow>
          if c = CHR 0x22 then map_option (\<lambda>(v, t). (TStr v, t)) (unquote cs)
          else if c = CHR ''-'' \<or> is_digit c then
            map_option (\<lambda>(d, t). (TNum d, t)) (lex_number (c # cs))
          else lex_literal (c # cs))"

lemma lex_digits_length: "lex_digits s = Some (d, t) \<Longrightarrow> length t < length s"
  by (auto simp: lex_digits_def length_dropWhile_le le_imp_less_Suc split: list.splits if_splits)

lemma lex_number_length: "lex_number s = Some (d, t) \<Longrightarrow> length t < length s"
  by (auto simp: lex_number_def Let_def split: list.splits if_splits option.splits
      dest!: lex_digits_length)

lemma lex_literal_length: "lex_literal (c # cs) = Some (tok, t) \<Longrightarrow> length t < Suc (length cs)"
  unfolding lex_literal_def
  by (auto simp del: take_Suc_Cons drop_Suc_Cons split: if_split_asm)

lemma lex_one_cases:
  assumes "lex_one c cs = Some (tok, t)"
  shows "t = cs \<or> (\<exists>v. unquote cs = Some (v, t)) \<or> (\<exists>d. lex_number (c # cs) = Some (d, t))
    \<or> lex_literal (c # cs) = Some (tok, t)"
  using assms unfolding lex_one_def by (auto split: if_split_asm option.split_asm)

lemma lex_one_length: "lex_one c cs = Some (tok, t) \<Longrightarrow> length t < Suc (length cs)"
  using lex_one_cases [of c cs tok t] unquote_length [of cs _ t] lex_number_length [of "c # cs" _ t]
    lex_literal_length [of c cs tok t] by fastforce

function lex :: "string \<Rightarrow> token list option" where
  "lex [] = Some []"
| "lex (c # cs) =
     (if is_space c then lex cs
      else case lex_one c cs of
          None \<Rightarrow> None
        | Some (tok, t) \<Rightarrow> map_option ((#) tok) (lex t))"
  by pat_completeness auto
termination
  by (relation "measure length") (auto dest: lex_one_length)

section \<open>The validator\<close>

definition validInteger :: "string \<Rightarrow> bool" where
  "validInteger value =
     (if value = [] then False
      else if hd value = CHR ''-'' \<and> length value = 1 then False
      else
        (let start = (if hd value = CHR ''-'' then 1 else 0); c = value ! start in
         if c = CHR ''0'' then length value = start + 1
         else if byte_of c < 49 \<or> 57 < byte_of c then False
         else list_all is_digit (drop (start + 1) value)))"

text \<open>
  \<open>validateJSONValue\<close> on the tokens that are left: \<open>None\<close> where the source returns an error,
  else the tokens after the value. \<open>validate_members\<close> and \<open>validate_items\<close> are its two loops,
  \<open>More\<close> and the separator included; the flag says whether a member was read before.
\<close>

fun validate_value :: "nat \<Rightarrow> nat \<Rightarrow> token list \<Rightarrow> token list option"
  and validate_members :: "nat \<Rightarrow> nat \<Rightarrow> string list \<Rightarrow> token list \<Rightarrow> token list option"
  and validate_items :: "nat \<Rightarrow> nat \<Rightarrow> nat \<Rightarrow> token list \<Rightarrow> token list option" where
  "validate_value 0 depth ts = None"
| "validate_value (Suc n) depth ts =
     (case ts of
        TLBrace # r \<Rightarrow> if MaxJSONDepth \<le> depth then None else validate_members n depth [] r
      | TLBrack # r \<Rightarrow> if MaxJSONDepth \<le> depth then None else validate_items n depth 0 r
      | TStr v # r \<Rightarrow> if MaxStringBytes < int (length v) then None else Some r
      | TNum v # r \<Rightarrow> if validInteger v then Some r else None
      | TTrue # r \<Rightarrow> Some r
      | TFalse # r \<Rightarrow> Some r
      | TNull # r \<Rightarrow> Some r
      | _ \<Rightarrow> None)"
| "validate_members 0 depth seen ts = None"
| "validate_members (Suc n) depth seen ts =
     (if ts \<noteq> [] \<and> hd ts = TRBrace then Some (tl ts)
      else case (if seen = [] then ts else if ts \<noteq> [] \<and> hd ts = TComma then tl ts else []) of
          TStr key # TColon # r \<Rightarrow>
            if MaxStringBytes < int (length key) \<or> key \<in> set seen
               \<or> MaxCollectionMembers < int (length seen + 1) then None
            else (case validate_value n (depth + 1) r of
                    None \<Rightarrow> None
                  | Some r' \<Rightarrow> validate_members n depth (key # seen) r')
        | _ \<Rightarrow> None)"
| "validate_items 0 depth count ts = None"
| "validate_items (Suc n) depth count ts =
     (if ts \<noteq> [] \<and> hd ts = TRBrack then Some (tl ts)
      else if MaxCollectionMembers < int (count + 1) then None
      else if count \<noteq> 0 \<and> (ts = [] \<or> hd ts \<noteq> TComma) then None
      else case validate_value n (depth + 1) (if count = 0 then ts else tl ts) of
          None \<Rightarrow> None
        | Some r \<Rightarrow> validate_items n depth (count + 1) r)"

text \<open>Twice the number of tokens is enough fuel: every second call reads a token.\<close>

definition json_fuel :: "token list \<Rightarrow> nat" where
  "json_fuel ts = Suc (Suc (length ts + length ts))"

definition validateRawJSON :: "string \<Rightarrow> int \<Rightarrow> string option" where
  "validateRawJSON raw maxBytes =
     (if raw = [] then Some ''JSON value is required''
      else if maxBytes < int (length raw) then Some ''JSON value exceeds bytes''
      else case lex raw of
          None \<Rightarrow> Some ''invalid JSON''
        | Some ts \<Rightarrow>
            (case validate_value (json_fuel ts) 0 ts of
               None \<Rightarrow> Some ''invalid JSON''
             | Some [] \<Rightarrow> None
             | Some (_ # _) \<Rightarrow> Some ''trailing JSON token''))"

definition ValidateRawJSON :: "string \<Rightarrow> string option" where
  "ValidateRawJSON raw = validateRawJSON raw MaxByteFieldBytes"

end
