(* ===== verification/Protocol.thy ===== *)
theory Protocol
  imports Json
begin

text \<open>
  The vocabulary of \<open>internal/protocol/ids.go\<close> and the tool and evidence references of
  \<open>tool.go\<close> and \<open>evidence.go\<close> that every component shares: identifiers, digests, journal
  references and cursors, actors, value states, and \<open>ValidateBounds\<close>, the structural bounds
  every wire value is held to. \<open>ValidateBounds\<close> walks a value by reflection; here a value is
  shown as a \<open>gval\<close>, its Go kind with its parts, by one \<open>gv_\<close> function for each struct.
\<close>

section \<open>Identifiers and constants\<close>

type_synonym journal_id = string
type_synonym session_id = string
type_synonym task_id = string
type_synonym outcome_contract_id = string
type_synonym turn_id = string
type_synonym activity_id = string
type_synonym event_id = string
type_synonym evidence_id = string
type_synonym receipt_id = string
type_synonym runtime_generation_id = string
type_synonym transaction_id = string
type_synonym command_id = string
type_synonym control_operation_id = string
type_synonym decision_nonce = string

text \<open>A \<open>json.RawMessage\<close>: \<open>None\<close> is the nil slice.\<close>

type_synonym raw_message = "string option"

abbreviation EnvelopeVersion :: u32 where "EnvelopeVersion \<equiv> 2"
abbreviation ApplicationProtocolVersion :: u32 where "ApplicationProtocolVersion \<equiv> 1"
abbreviation DigestSHA256 :: string where "DigestSHA256 \<equiv> ''sha256''"
abbreviation JournalWorkspaceControl :: string where "JournalWorkspaceControl \<equiv> ''workspace_control''"
abbreviation JournalSession :: string where "JournalSession \<equiv> ''session''"

definition JournalKind_Valid :: "string \<Rightarrow> bool" where
  "JournalKind_Valid k \<longleftrightarrow> k = JournalWorkspaceControl \<or> k = JournalSession"

section \<open>Digests\<close>

record digest =
  dg_Algorithm :: string
  dg_Value :: string

text \<open>
  \<open>strings.ToLower\<close> on ASCII letters. On bytes above 127 it may differ, but a digest value with
  such a byte is no hexadecimal string.
\<close>

definition lower_char :: "char \<Rightarrow> char" where
  "lower_char c = (if 65 \<le> byte_of c \<and> byte_of c \<le> 90 then char_of (byte_of c + 32) else c)"

lemma lower_char_code [code]:
  "lower_char c = (if 65 \<le> (of_char c :: int) \<and> (of_char c :: int) \<le> 90 then char_of ((of_char c :: int) + 32) else c)"
proof -
  have "char_of ((of_char c :: int) + 32) = char_of (byte_of c + 32)"
    using char_of_nat [of "byte_of c + 32", where ?'a = int] by (simp add: of_char_int)
  then show ?thesis by (simp add: lower_char_def of_char_int)
qed

definition to_lower :: "string \<Rightarrow> string" where
  "to_lower s = map lower_char s"

text \<open>\<open>hex.DecodeString\<close> returns no error.\<close>

definition hex_ok :: "string \<Rightarrow> bool" where
  "hex_ok s \<longleftrightarrow> even (length s) \<and> list_all (\<lambda>c. hex_val c \<noteq> None) s"

definition Digest_Validate :: "digest \<Rightarrow> string option" where
  "Digest_Validate d = first_err
     [fail_if (dg_Algorithm d \<noteq> DigestSHA256 \<or> length (dg_Value d) \<noteq> 64
               \<or> to_lower (dg_Value d) \<noteq> dg_Value d) ''invalid digest'',
      fail_if (\<not> hex_ok (dg_Value d)) ''invalid digest'']"

definition Digest_IsZero :: "digest \<Rightarrow> bool" where
  "Digest_IsZero d \<longleftrightarrow> dg_Algorithm d = '''' \<and> dg_Value d = ''''"

section \<open>Journal references and committed cursors\<close>

record journal_ref =
  jr_Kind :: string
  jr_ID :: journal_id

definition JournalRef_Validate :: "journal_ref \<Rightarrow> string option" where
  "JournalRef_Validate r =
     fail_if (\<not> JournalKind_Valid (jr_Kind r) \<or> jr_ID r = '''') ''invalid journal reference''"

record cursor =
  cu_JournalKind :: string
  cu_JournalID :: journal_id
  cu_CommitSeq :: u64
  cu_TransactionID :: transaction_id

definition zero_cursor :: cursor where
  "zero_cursor = \<lparr>cu_JournalKind = '''', cu_JournalID = '''', cu_CommitSeq = 0, cu_TransactionID = ''''\<rparr>"

definition CommittedCursor_Validate :: "cursor \<Rightarrow> string option" where
  "CommittedCursor_Validate c =
     fail_if (\<not> JournalKind_Valid (cu_JournalKind c) \<or> cu_JournalID c = ''''
              \<or> cu_CommitSeq c = 0 \<or> cu_TransactionID c = '''') ''invalid committed cursor''"

section \<open>Actors and value states\<close>

record actor_ref =
  ar_ID :: string
  ar_Kind :: string
  ar_Source :: string

abbreviation ActorUser :: string where "ActorUser \<equiv> ''user''"

definition ActorRef_Validate :: "actor_ref \<Rightarrow> string option" where
  "ActorRef_Validate a = first_err
     [fail_if (ar_ID a = '''') ''actor ID is required'',
      fail_if (ar_Kind a \<notin> {''system'', ''user'', ''agent'', ''provider'', ''tool'', ''control''})
        ''invalid actor kind'']"

abbreviation ValueKnown :: string where "ValueKnown \<equiv> ''known''"
abbreviation ValueUnknown :: string where "ValueUnknown \<equiv> ''unknown''"
abbreviation ValueUnavailable :: string where "ValueUnavailable \<equiv> ''unavailable''"

definition ValueState_Valid :: "string \<Rightarrow> bool" where
  "ValueState_Valid s \<longleftrightarrow> s = ValueKnown \<or> s = ValueUnknown \<or> s = ValueUnavailable"

section \<open>Subjects, tool identities and resources\<close>

record subject_ref =
  sr_Kind :: string
  sr_ID :: string

definition SubjectRef_Validate :: "subject_ref \<Rightarrow> string option" where
  "SubjectRef_Validate s =
     fail_if (sr_Kind s = '''' \<or> sr_ID s = '''') ''subject reference is incomplete''"

record tool_identity =
  ti_Source :: string
  ti_Authority :: string
  ti_Name :: string

definition ToolIdentity_Validate :: "tool_identity \<Rightarrow> string option" where
  "ToolIdentity_Validate i =
     fail_if (ti_Source i = '''' \<or> ti_Authority i = '''' \<or> ti_Name i = '''')
       ''tool identity is incomplete''"

record resource_attribute =
  ra_Name :: string
  ra_Value :: string

record resource_target =
  rt_Kind :: string
  rt_CanonicalID :: string
  rt_ParentID :: string
  rt_Digest :: string
  rt_Attributes :: "resource_attribute list"

definition nul :: string where
  "nul = [CHR 0x00]"

definition resource_key :: "resource_target \<Rightarrow> string" where
  "resource_key r = rt_Kind r @ nul @ rt_CanonicalID r @ nul @ rt_ParentID r @ nul @ rt_Digest r"

definition attribute_key :: "resource_attribute \<Rightarrow> string" where
  "attribute_key a = ra_Name a @ nul @ ra_Value a"

text \<open>The inner loop over \<open>resource.Attributes\<close>, with the previous key.\<close>

fun validate_attributes :: "string option \<Rightarrow> resource_attribute list \<Rightarrow> string option" where
  "validate_attributes prev [] = None"
| "validate_attributes prev (a # as) =
     (if ra_Name a = '''' then Some ''resource attribute name is required''
      else if prev \<noteq> None \<and> attribute_key a \<le> the prev then
        Some ''resource attributes must be sorted and unique''
      else validate_attributes (Some (attribute_key a)) as)"

fun validate_resources :: "string option \<Rightarrow> resource_target list \<Rightarrow> string option" where
  "validate_resources prev [] = None"
| "validate_resources prev (r # rs) =
     (if rt_Kind r = '''' \<or> rt_CanonicalID r = '''' then Some ''resource target is incomplete''
      else if prev \<noteq> None \<and> resource_key r \<le> the prev then
        Some ''resources must be sorted and unique''
      else case validate_attributes None (rt_Attributes r) of
          Some e \<Rightarrow> Some e
        | None \<Rightarrow> validate_resources (Some (resource_key r)) rs)"

definition validateSortedUniqueResources :: "resource_target list \<Rightarrow> string option" where
  "validateSortedUniqueResources rs =
     (if MaxCollectionMembers < int (length rs) then Some ''too many resources''
      else validate_resources None rs)"

definition validateSortedUniqueNonemptyStrings :: "string list \<Rightarrow> string option" where
  "validateSortedUniqueNonemptyStrings vs =
     fail_if (\<not> sorted_unique_from None vs) ''must be nonempty, sorted, and unique''"

definition validateSortedUniqueEvidenceIDs :: "evidence_id list \<Rightarrow> string option" where
  "validateSortedUniqueEvidenceIDs vs =
     fail_if (\<not> sorted_unique_from None vs) ''evidence IDs must be nonempty, sorted, and unique''"

definition validateSortedUniqueStrings :: "string list \<Rightarrow> string option" where
  "validateSortedUniqueStrings vs =
     fail_if (\<not> sorted_unique_from None vs) ''must be nonempty, sorted, and unique''"

section \<open>Structural bounds\<close>

datatype gval = GScalar | GTime | GRaw raw_message | GStr string | GBytes string
  | GSlice "gval list" | GMap "(gval \<times> gval) list" | GStruct "gval list" | GPtr "gval option"

fun validateBoundsValue :: "gval \<Rightarrow> nat \<Rightarrow> string option" where
  "validateBoundsValue GScalar depth = None"
| "validateBoundsValue GTime depth = None"
| "validateBoundsValue (GRaw r) depth = (case r of None \<Rightarrow> None | Some bs \<Rightarrow> ValidateRawJSON bs)"
| "validateBoundsValue (GStr s) depth = fail_if (MaxStringBytes < int (length s)) ''string exceeds bytes''"
| "validateBoundsValue (GBytes s) depth =
     fail_if (MaxByteFieldBytes < int (length s)) ''byte field exceeds bytes''"
| "validateBoundsValue (GPtr p) depth = (case p of None \<Rightarrow> None | Some v \<Rightarrow> validateBoundsValue v depth)"
| "validateBoundsValue (GSlice vs) depth =
     (if MaxJSONDepth \<le> depth then Some ''value depth exceeds''
      else if MaxCollectionMembers < int (length vs) then Some ''slice exceeds members''
      else first_err (map (\<lambda>v. validateBoundsValue v (depth + 1)) vs))"
| "validateBoundsValue (GMap kvs) depth =
     (if MaxJSONDepth \<le> depth then Some ''value depth exceeds''
      else if MaxCollectionMembers < int (length kvs) then Some ''map exceeds members''
      else first_err (map (\<lambda>kv. first_err
             [validateBoundsValue (fst kv) (depth + 1), validateBoundsValue (snd kv) (depth + 1)]) kvs))"
| "validateBoundsValue (GStruct fs) depth =
     (if MaxJSONDepth \<le> depth then Some ''value depth exceeds''
      else first_err (map (\<lambda>f. validateBoundsValue f (depth + 1)) fs))"

definition ValidateBounds :: "gval \<Rightarrow> string option" where
  "ValidateBounds v = validateBoundsValue v 0"

definition gv_strs :: "string list \<Rightarrow> gval" where
  "gv_strs ss = GSlice (map GStr ss)"

definition gv_digest :: "digest \<Rightarrow> gval" where
  "gv_digest d = GStruct [GStr (dg_Algorithm d), GStr (dg_Value d)]"

definition gv_actor :: "actor_ref \<Rightarrow> gval" where
  "gv_actor a = GStruct [GStr (ar_ID a), GStr (ar_Kind a), GStr (ar_Source a)]"

definition gv_subject :: "subject_ref \<Rightarrow> gval" where
  "gv_subject s = GStruct [GStr (sr_Kind s), GStr (sr_ID s)]"

definition gv_tool_identity :: "tool_identity \<Rightarrow> gval" where
  "gv_tool_identity i = GStruct [GStr (ti_Source i), GStr (ti_Authority i), GStr (ti_Name i)]"

definition gv_resource_attribute :: "resource_attribute \<Rightarrow> gval" where
  "gv_resource_attribute a = GStruct [GStr (ra_Name a), GStr (ra_Value a)]"

definition gv_resource :: "resource_target \<Rightarrow> gval" where
  "gv_resource r = GStruct
     [GStr (rt_Kind r), GStr (rt_CanonicalID r), GStr (rt_ParentID r), GStr (rt_Digest r),
      GSlice (map gv_resource_attribute (rt_Attributes r))]"

section \<open>Lemmas\<close>

lemma Digest_Validate_None:
  "Digest_Validate d = None \<longleftrightarrow>
     dg_Algorithm d = DigestSHA256 \<and> length (dg_Value d) = 64 \<and> to_lower (dg_Value d) = dg_Value d
     \<and> hex_ok (dg_Value d)"
  by (auto simp: Digest_Validate_def)

lemma JournalRef_Validate_None [simp]:
  "JournalRef_Validate r = None \<longleftrightarrow> JournalKind_Valid (jr_Kind r) \<and> jr_ID r \<noteq> ''''"
  by (auto simp: JournalRef_Validate_def)

lemma CommittedCursor_Validate_None [simp]:
  "CommittedCursor_Validate c = None \<longleftrightarrow> JournalKind_Valid (cu_JournalKind c)
     \<and> cu_JournalID c \<noteq> '''' \<and> cu_CommitSeq c \<noteq> 0 \<and> cu_TransactionID c \<noteq> ''''"
  by (auto simp: CommittedCursor_Validate_def)

text \<open>A list of resources that passes has strictly increasing keys, so it names no resource twice.\<close>

lemma validate_resources_sorted:
  "validate_resources prev rs = None \<Longrightarrow>
     sorted_wrt (<) ((case prev of None \<Rightarrow> [] | Some p \<Rightarrow> [p]) @ map resource_key rs)"
proof (induction rs arbitrary: prev)
  case Nil
  then show ?case by (cases prev) auto
next
  case (Cons r rs)
  then have "sorted_wrt (<) (resource_key r # map resource_key rs)"
    and "prev \<noteq> None \<Longrightarrow> the prev < resource_key r"
    by (auto split: if_splits option.splits simp: not_le dest: Cons.IH)
  then show ?case by (cases prev) (auto intro: less_trans)
qed

lemma validateSortedUniqueResources_sorted:
  "validateSortedUniqueResources rs = None \<Longrightarrow> sorted_wrt (<) (map resource_key rs)"
  using validate_resources_sorted [of None rs]
  by (auto simp: validateSortedUniqueResources_def split: if_splits)

lemma validateSortedUniqueResources_distinct:
  assumes "validateSortedUniqueResources rs = None"
  shows "distinct (map resource_key rs)"
  using validateSortedUniqueResources_sorted [OF assms] by (simp add: strict_sorted_iff)

end
