(* ===== verification/Wire_Types.thy ===== *)
theory Wire_Types
  imports Protocol
begin

text \<open>
  The wire structures the projections and the authorization path read, with their validators:
  authorization requests, decisions and consumptions (\<open>internal/protocol/authorization.go\<close>,
  \<open>payloads.go\<close>), tool descriptors and action plans (\<open>tool.go\<close>), usage values
  (\<open>model.go\<close>) and evidence records (\<open>evidence.go\<close>).
\<close>

section \<open>Authorization requests\<close>

abbreviation LifetimeOnce :: string where "LifetimeOnce \<equiv> ''once''"
abbreviation LifetimeSession :: string where "LifetimeSession \<equiv> ''session''"

record auth_constraint =
  ac_Name :: string
  ac_Operator :: string
  ac_Value :: raw_message

record policy_provenance =
  pp_Source :: string
  pp_Revision :: string
  pp_Generation :: string
  pp_HardDeny :: bool

record auth_request =
  rq_RequestID :: string
  rq_Principal :: actor_ref
  rq_Actor :: actor_ref
  rq_SessionID :: session_id
  rq_ControlOperationID :: control_operation_id
  rq_TaskID :: task_id
  rq_TurnID :: turn_id
  rq_ActivityID :: activity_id
  rq_ParentActivityID :: activity_id
  rq_CallID :: string
  rq_QueueID :: string
  rq_Source :: tool_identity
  rq_SourceRevision :: string
  rq_DescriptorDigest :: digest
  rq_Action :: string
  rq_Resources :: "resource_target list"
  rq_ExecutionLocus :: string
  rq_RequestedProfile :: string
  rq_EffectiveProfile :: string
  rq_Effect :: string
  rq_Boundary :: string
  rq_Reversibility :: string
  rq_VerificationCoverage :: string
  rq_RuntimeGenerationID :: runtime_generation_id
  rq_PolicyGeneration :: string
  rq_PolicyProvenance :: "policy_provenance list"
  rq_PlanDigest :: digest
  rq_RequestDigest :: digest
  rq_DispatchDigest :: digest

definition gv_provenance :: "policy_provenance \<Rightarrow> gval" where
  "gv_provenance p = GStruct [GStr (pp_Source p), GStr (pp_Revision p), GStr (pp_Generation p), GScalar]"

definition gv_constraint :: "auth_constraint \<Rightarrow> gval" where
  "gv_constraint c = GStruct [GStr (ac_Name c), GStr (ac_Operator c), GRaw (ac_Value c)]"

definition gv_request :: "auth_request \<Rightarrow> gval" where
  "gv_request r = GStruct
     [GStr (rq_RequestID r), gv_actor (rq_Principal r), gv_actor (rq_Actor r), GStr (rq_SessionID r),
      GStr (rq_ControlOperationID r), GStr (rq_TaskID r), GStr (rq_TurnID r), GStr (rq_ActivityID r),
      GStr (rq_ParentActivityID r), GStr (rq_CallID r), GStr (rq_QueueID r),
      gv_tool_identity (rq_Source r), GStr (rq_SourceRevision r), gv_digest (rq_DescriptorDigest r),
      GStr (rq_Action r), GSlice (map gv_resource (rq_Resources r)), GStr (rq_ExecutionLocus r),
      GStr (rq_RequestedProfile r), GStr (rq_EffectiveProfile r), GStr (rq_Effect r),
      GStr (rq_Boundary r), GStr (rq_Reversibility r), GStr (rq_VerificationCoverage r),
      GStr (rq_RuntimeGenerationID r), GStr (rq_PolicyGeneration r),
      GSlice (map gv_provenance (rq_PolicyProvenance r)), gv_digest (rq_PlanDigest r),
      gv_digest (rq_RequestDigest r), gv_digest (rq_DispatchDigest r)]"

definition AuthorizationRequest_Validate :: "auth_request \<Rightarrow> string option" where
  "AuthorizationRequest_Validate r = first_err
     [ValidateBounds (gv_request r),
      fail_if ((rq_SessionID r = '''') = (rq_ControlOperationID r = ''''))
        ''authorization request requires exactly one session or control operation'',
      fail_if ('''' \<in> {rq_RequestID r, rq_CallID r, rq_QueueID r, rq_SourceRevision r, rq_Action r,
           rq_ExecutionLocus r, rq_RequestedProfile r, rq_EffectiveProfile r, rq_Effect r,
           rq_Boundary r, rq_Reversibility r, rq_VerificationCoverage r, rq_RuntimeGenerationID r,
           rq_PolicyGeneration r})
        ''authorization request is incomplete'',
      fail_if (rq_SessionID r \<noteq> '''' \<and> rq_ActivityID r = '''')
        ''session authorization requires activity ID'',
      ActorRef_Validate (rq_Principal r), ActorRef_Validate (rq_Actor r),
      ToolIdentity_Validate (rq_Source r),
      Digest_Validate (rq_DescriptorDigest r), Digest_Validate (rq_PlanDigest r),
      Digest_Validate (rq_RequestDigest r), Digest_Validate (rq_DispatchDigest r),
      fail_if (rq_PolicyProvenance r = []) ''authorization request requires policy provenance'',
      first_err (map (\<lambda>p. fail_if (pp_Source p = '''' \<or> pp_Revision p = '''' \<or> pp_Generation p = '''')
          ''policy provenance is incomplete'') (rq_PolicyProvenance r)),
      validateSortedUniqueResources (rq_Resources r)]"

section \<open>Authorization decisions\<close>

record auth_scope =
  sc_Capability :: string
  sc_Source :: tool_identity
  sc_Resources :: "resource_target list"
  sc_Constraints :: "auth_constraint list"

record auth_decision =
  dc_Request :: auth_request
  dc_Action :: string
  dc_Scope :: auth_scope
  dc_Constraints :: "auth_constraint list"
  dc_Lifetime :: string
  dc_PolicySource :: string
  dc_PolicyGeneration :: string
  dc_Reason :: string
  dc_ResolvedActor :: "actor_ref option"
  dc_DecidedAt :: gtime
  dc_ExpiresAt :: "gtime option"
  dc_PlanDigest :: digest
  dc_DecisionNonce :: decision_nonce

definition gv_scope :: "auth_scope \<Rightarrow> gval" where
  "gv_scope s = GStruct [GStr (sc_Capability s), gv_tool_identity (sc_Source s),
     GSlice (map gv_resource (sc_Resources s)), GSlice (map gv_constraint (sc_Constraints s))]"

definition gv_decision :: "auth_decision \<Rightarrow> gval" where
  "gv_decision d = GStruct
     [gv_request (dc_Request d), GStr (dc_Action d), gv_scope (dc_Scope d),
      GSlice (map gv_constraint (dc_Constraints d)), GStr (dc_Lifetime d), GStr (dc_PolicySource d),
      GStr (dc_PolicyGeneration d), GStr (dc_Reason d), GPtr (map_option gv_actor (dc_ResolvedActor d)),
      GTime, GPtr (map_option (\<lambda>_. GTime) (dc_ExpiresAt d)), gv_digest (dc_PlanDigest d),
      GStr (dc_DecisionNonce d)]"

definition constraint_key :: "auth_constraint \<Rightarrow> string" where
  "constraint_key c = ac_Name c @ nul @ ac_Operator c"

definition raw_bytes :: "raw_message \<Rightarrow> string" where
  "raw_bytes r = (case r of None \<Rightarrow> [] | Some bs \<Rightarrow> bs)"

fun validate_constraints :: "string option \<Rightarrow> auth_constraint list \<Rightarrow> string option" where
  "validate_constraints prev [] = None"
| "validate_constraints prev (c # cs) =
     (if ac_Name c = '''' \<or> ac_Operator c = '''' then Some ''authorization constraint is incomplete''
      else case ValidateRawJSON (raw_bytes (ac_Value c)) of
          Some e \<Rightarrow> Some e
        | None \<Rightarrow>
            if prev \<noteq> None \<and> constraint_key c \<le> the prev then
              Some ''authorization constraints must be sorted and unique''
            else validate_constraints (Some (constraint_key c)) cs)"

definition validateAuthorizationConstraints :: "auth_constraint list \<Rightarrow> string option" where
  "validateAuthorizationConstraints cs = validate_constraints None cs"

definition AuthorizationDecision_Validate :: "auth_decision \<Rightarrow> string option" where
  "AuthorizationDecision_Validate d = first_err
     [ValidateBounds (gv_decision d),
      AuthorizationRequest_Validate (dc_Request d),
      fail_if (dc_Action d \<notin> {''allow'', ''deny'', ''ask''}) ''invalid authorization action'',
      fail_if (dc_Lifetime d \<notin> {LifetimeOnce, LifetimeSession}) ''invalid authorization lifetime'',
      fail_if (dc_PolicySource d = '''' \<or> dc_PolicyGeneration d = '''' \<or> dc_Reason d = ''''
               \<or> dc_DecidedAt d = 0 \<or> dc_DecisionNonce d = '''') ''authorization decision is incomplete'',
      fail_if (case dc_ExpiresAt d of None \<Rightarrow> False | Some t \<Rightarrow> \<not> dc_DecidedAt d < t)
        ''authorization decision expiry is not after decision'',
      (case dc_ResolvedActor d of None \<Rightarrow> None | Some a \<Rightarrow> ActorRef_Validate a),
      Digest_Validate (dc_PlanDigest d),
      fail_if (dc_PolicyGeneration d \<noteq> rq_PolicyGeneration (dc_Request d))
        ''authorization policy generation binding mismatch'',
      fail_if (dc_PlanDigest d \<noteq> rq_PlanDigest (dc_Request d))
        ''authorization plan digest binding mismatch'',
      fail_if (sc_Capability (dc_Scope d) = '''' \<or> sc_Capability (dc_Scope d) \<noteq> rq_Action (dc_Request d))
        ''authorization scope capability binding mismatch'',
      ToolIdentity_Validate (sc_Source (dc_Scope d)),
      fail_if (sc_Source (dc_Scope d) \<noteq> rq_Source (dc_Request d))
        ''authorization scope source binding mismatch'',
      validateSortedUniqueResources (sc_Resources (dc_Scope d)),
      fail_if (sc_Resources (dc_Scope d) \<noteq> rq_Resources (dc_Request d))
        ''authorization scope resource binding mismatch'',
      validateAuthorizationConstraints (sc_Constraints (dc_Scope d)),
      validateAuthorizationConstraints (dc_Constraints d),
      fail_if (sc_Constraints (dc_Scope d) \<noteq> dc_Constraints d)
        ''authorization constraint binding mismatch'']"

section \<open>Consumption of a decision\<close>

record auth_consumed =
  cn_DecisionNonce :: decision_nonce
  cn_DecisionEventID :: event_id
  cn_DecisionDigest :: digest
  cn_RequestID :: string
  cn_ActivityID :: activity_id
  cn_ControlOperationID :: control_operation_id
  cn_CallID :: string
  cn_PlanDigest :: digest
  cn_RequestDigest :: digest
  cn_DispatchDigest :: digest
  cn_RuntimeGenerationID :: runtime_generation_id

definition AuthorizationDecisionConsumed_Validate :: "auth_consumed \<Rightarrow> string option" where
  "AuthorizationDecisionConsumed_Validate p = first_err
     [fail_if ((cn_ActivityID p = '''') = (cn_ControlOperationID p = ''''))
        ''authorization consumption requires exactly one activity or control operation'',
      fail_if (cn_DecisionNonce p = '''' \<or> cn_DecisionEventID p = '''' \<or> cn_RequestID p = ''''
               \<or> cn_CallID p = '''' \<or> cn_RuntimeGenerationID p = '''')
        ''authorization consumption is incomplete'',
      Digest_Validate (cn_DecisionDigest p), Digest_Validate (cn_PlanDigest p),
      Digest_Validate (cn_RequestDigest p), Digest_Validate (cn_DispatchDigest p)]"

section \<open>Tool descriptors and action plans\<close>

record tool_descriptor_body =
  tb_Identity :: tool_identity
  tb_SourceRevision :: string
  tb_DisplayName :: string
  tb_Description :: string
  tb_InputSchema :: raw_message
  tb_OutputSchema :: raw_message
  tb_Effect :: string
  tb_Mutation :: string
  tb_ExecutionLoci :: "string list"
  tb_ClassificationSource :: string
  tb_Idempotency :: string
  tb_Retry :: string

record tool_descriptor =
  td_Body :: tool_descriptor_body
  td_DescriptorDigest :: digest

definition gv_descriptor_body :: "tool_descriptor_body \<Rightarrow> gval" where
  "gv_descriptor_body b = GStruct
     [gv_tool_identity (tb_Identity b), GStr (tb_SourceRevision b), GStr (tb_DisplayName b),
      GStr (tb_Description b), GRaw (tb_InputSchema b), GRaw (tb_OutputSchema b), GStr (tb_Effect b),
      GStr (tb_Mutation b), gv_strs (tb_ExecutionLoci b), GStr (tb_ClassificationSource b),
      GStr (tb_Idempotency b), GStr (tb_Retry b)]"

text \<open>
  \<open>validateJSONObject\<close>: the value passes \<open>ValidateRawJSON\<close> and its first token opens an object
  (the text \<open>null\<close> decodes to a nil map, which is refused).
\<close>

definition validateJSONObject :: "raw_message \<Rightarrow> string option" where
  "validateJSONObject r = first_err
     [ValidateRawJSON (raw_bytes r),
      fail_if (case lex (raw_bytes r) of Some (TLBrace # _) \<Rightarrow> False | _ \<Rightarrow> True)
        ''must be a JSON object'']"

definition ToolDescriptorBody_Validate :: "tool_descriptor_body \<Rightarrow> string option" where
  "ToolDescriptorBody_Validate b = first_err
     [ValidateBounds (gv_descriptor_body b),
      ToolIdentity_Validate (tb_Identity b),
      fail_if ('''' \<in> {tb_SourceRevision b, tb_DisplayName b, tb_Description b, tb_Effect b,
          tb_Mutation b, tb_ClassificationSource b, tb_Idempotency b, tb_Retry b})
        ''tool descriptor body is incomplete'',
      validateJSONObject (tb_InputSchema b),
      (if tb_OutputSchema b \<noteq> None then validateJSONObject (tb_OutputSchema b) else None),
      fail_if (tb_ExecutionLoci b = []) ''tool descriptor requires at least one execution locus'',
      validateSortedUniqueNonemptyStrings (tb_ExecutionLoci b)]"

record action_plan_body =
  pb_CallID :: string
  pb_Tool :: tool_identity
  pb_SourceRevision :: string
  pb_DescriptorDigest :: digest
  pb_Action :: string
  pb_Purpose :: string
  pb_Resources :: "resource_target list"
  pb_ExecutionLocus :: string
  pb_Effect :: string
  pb_Boundary :: string
  pb_Reversibility :: string
  pb_VerificationCoverage :: string
  pb_RequestedProfile :: string
  pb_EffectiveProfile :: string
  pb_RuntimeGenerationID :: runtime_generation_id

definition ActionPlanBody_Validate :: "action_plan_body \<Rightarrow> string option" where
  "ActionPlanBody_Validate b = first_err
     [fail_if ('''' \<in> {pb_CallID b, pb_SourceRevision b, pb_Action b, pb_Purpose b,
          pb_ExecutionLocus b, pb_Effect b, pb_Boundary b, pb_Reversibility b,
          pb_VerificationCoverage b, pb_RequestedProfile b, pb_EffectiveProfile b,
          pb_RuntimeGenerationID b}) ''action plan body is incomplete'',
      ToolIdentity_Validate (pb_Tool b), Digest_Validate (pb_DescriptorDigest b),
      validateSortedUniqueResources (pb_Resources b)]"

record action_plan =
  pl_Body :: action_plan_body
  pl_Digest :: digest

section \<open>Usage values\<close>

record usage_value =
  uv_State :: string
  uv_Value :: int
  uv_Provenance :: string

definition UsageValue_Validate :: "usage_value \<Rightarrow> string option" where
  "UsageValue_Validate v = first_err
     [fail_if (uv_State v \<notin> {''provider_reported'', ''estimated'', ''unknown''}) ''invalid usage state'',
      fail_if (uv_Value v < 0 \<or> (uv_State v = ''unknown'' \<and> uv_Value v \<noteq> 0)) ''invalid usage value'']"

record model_usage =
  mu_Input :: usage_value
  mu_Output :: usage_value
  mu_Cached :: usage_value
  mu_CacheWrite :: usage_value
  mu_Reasoning :: usage_value

definition ModelUsage_Validate :: "model_usage \<Rightarrow> string option" where
  "ModelUsage_Validate u = first_err (map UsageValue_Validate
     [mu_Input u, mu_Output u, mu_Cached u, mu_CacheWrite u, mu_Reasoning u])"

section \<open>Evidence records\<close>

abbreviation ContentAvailable :: string where "ContentAvailable \<equiv> ''available''"
abbreviation ContentWithheldSecret :: string where "ContentWithheldSecret \<equiv> ''withheld_secret''"
abbreviation ContentMissing :: string where "ContentMissing \<equiv> ''missing''"
abbreviation ContentCorrupt :: string where "ContentCorrupt \<equiv> ''corrupt''"

record evidence_body =
  ev_ID :: evidence_id
  ev_Kind :: string
  ev_WorkspaceID :: string
  ev_SessionID :: session_id
  ev_Availability :: string
  ev_Blob :: "digest option"
  ev_MediaType :: string
  ev_Size :: int
  ev_ProducingActivityID :: activity_id
  ev_Actor :: actor_ref
  ev_Subject :: subject_ref
  ev_CreatedAt :: gtime
  ev_Redacted :: bool
  ev_Truncated :: bool
  ev_OriginalSize :: int
  ev_LegacyArtifactAliases :: "string list"

definition gv_evidence_body :: "evidence_body \<Rightarrow> gval" where
  "gv_evidence_body b = GStruct
     [GStr (ev_ID b), GStr (ev_Kind b), GStr (ev_WorkspaceID b), GStr (ev_SessionID b),
      GStr (ev_Availability b), GPtr (map_option (\<lambda>d. GStruct [gv_digest d]) (ev_Blob b)),
      GStr (ev_MediaType b), GScalar, GStr (ev_ProducingActivityID b), gv_actor (ev_Actor b),
      gv_subject (ev_Subject b), GTime, GScalar, GScalar, GScalar, gv_strs (ev_LegacyArtifactAliases b)]"

definition evidence_availability_check :: "evidence_body \<Rightarrow> string option" where
  "evidence_availability_check b =
     (if ev_Availability b = ContentAvailable then
        (case ev_Blob b of
           None \<Rightarrow> Some ''available evidence requires a blob and must not be redacted''
         | Some d \<Rightarrow> if ev_Redacted b
             then Some ''available evidence requires a blob and must not be redacted''
             else Digest_Validate d)
      else if ev_Availability b = ContentWithheldSecret then
        fail_if (ev_Blob b \<noteq> None \<or> \<not> ev_Redacted b)
          ''withheld evidence must be redacted and have no blob''
      else if ev_Availability b = ContentMissing \<or> ev_Availability b = ContentCorrupt then
        fail_if (ev_Blob b \<noteq> None) ''unavailable evidence must not have a blob''
      else Some ''invalid content availability'')"

definition EvidenceRecordBody_Validate :: "evidence_body \<Rightarrow> string option" where
  "EvidenceRecordBody_Validate b = first_err
     [ValidateBounds (gv_evidence_body b),
      fail_if (ev_ID b = '''' \<or> ev_Kind b = '''' \<or> ev_WorkspaceID b = '''' \<or> ev_MediaType b = ''''
               \<or> ev_Size b < 0 \<or> ev_ProducingActivityID b = '''' \<or> ev_CreatedAt b = 0)
        ''evidence record body is incomplete'',
      ActorRef_Validate (ev_Actor b), SubjectRef_Validate (ev_Subject b),
      evidence_availability_check b,
      (if ev_Truncated b then
         fail_if (ev_OriginalSize b \<le> ev_Size b) ''truncated evidence requires larger original size''
       else fail_if (ev_OriginalSize b \<noteq> 0) ''untruncated evidence must not have original size''),
      validateSortedUniqueStrings (ev_LegacyArtifactAliases b)]"

record evidence_record =
  er_Body :: evidence_body
  er_Digest :: digest

definition EvidenceRecord_Validate :: "evidence_record \<Rightarrow> string option" where
  "EvidenceRecord_Validate r = first_err [EvidenceRecordBody_Validate (er_Body r), Digest_Validate (er_Digest r)]"

end
