(* ===== verification/Events.thy ===== *)
theory Events
  imports Wire_Types
begin

text \<open>
  Durable events: the envelope and the decoded record (\<open>internal/protocol/events.go\<close>), the payloads
  the projections read (\<open>payloads.go\<close>), the table of event kinds with their payload types, and the
  semantic rules the event codec applies before an event is stored
  (\<open>internal/eventcodec/foundation.go\<close>). A payload type that no modelled component reads is
  \<open>P_Opaque\<close> with the name of its Go type.
\<close>

section \<open>Event kinds\<close>

abbreviation EventTaskCreated :: string where "EventTaskCreated \<equiv> ''task.created''"
abbreviation EventTaskStatusChanged :: string where "EventTaskStatusChanged \<equiv> ''task.status_changed''"
abbreviation EventOutcomeContractDeclared :: string where
  "EventOutcomeContractDeclared \<equiv> ''outcome.contract_declared''"
abbreviation EventOutcomeContractAmended :: string where
  "EventOutcomeContractAmended \<equiv> ''outcome.contract_amended''"
abbreviation EventOutcomeCriterionAssessed :: string where
  "EventOutcomeCriterionAssessed \<equiv> ''outcome.criterion_assessed''"
abbreviation EventOutcomeFinalAssessed :: string where
  "EventOutcomeFinalAssessed \<equiv> ''outcome.final_assessed''"
abbreviation EventTurnAccepted :: string where "EventTurnAccepted \<equiv> ''turn.accepted''"
abbreviation EventTurnStateChanged :: string where "EventTurnStateChanged \<equiv> ''turn.state_changed''"
abbreviation EventTurnCompleted :: string where "EventTurnCompleted \<equiv> ''turn.completed''"
abbreviation EventTurnFailed :: string where "EventTurnFailed \<equiv> ''turn.failed''"
abbreviation EventTurnInterrupted :: string where "EventTurnInterrupted \<equiv> ''turn.interrupted''"
abbreviation EventActivityPlanned :: string where "EventActivityPlanned \<equiv> ''activity.planned''"
abbreviation EventActivityAuthorized :: string where "EventActivityAuthorized \<equiv> ''activity.authorized''"
abbreviation EventActivityStarted :: string where "EventActivityStarted \<equiv> ''activity.started''"
abbreviation EventActivitySucceeded :: string where "EventActivitySucceeded \<equiv> ''activity.succeeded''"
abbreviation EventActivityFailed :: string where "EventActivityFailed \<equiv> ''activity.failed''"
abbreviation EventActivityDenied :: string where "EventActivityDenied \<equiv> ''activity.denied''"
abbreviation EventActivityCancelled :: string where "EventActivityCancelled \<equiv> ''activity.cancelled''"
abbreviation EventActivityInterruptedNoEffect :: string where
  "EventActivityInterruptedNoEffect \<equiv> ''activity.interrupted_no_effect''"
abbreviation EventActivityUncertain :: string where "EventActivityUncertain \<equiv> ''activity.uncertain''"
abbreviation EventAuthorizationRequested :: string where
  "EventAuthorizationRequested \<equiv> ''authorization.requested''"
abbreviation EventAuthorizationDecided :: string where
  "EventAuthorizationDecided \<equiv> ''authorization.decided''"
abbreviation EventAuthorizationDecisionConsumed :: string where
  "EventAuthorizationDecisionConsumed \<equiv> ''authorization.decision_consumed''"
abbreviation EventAuthorizationGrantRevoked :: string where
  "EventAuthorizationGrantRevoked \<equiv> ''authorization.grant_revoked''"
abbreviation EventEvidenceRecorded :: string where "EventEvidenceRecorded \<equiv> ''evidence.recorded''"
abbreviation EventEvidenceLinked :: string where "EventEvidenceLinked \<equiv> ''evidence.linked''"
abbreviation EventCommandAccepted :: string where "EventCommandAccepted \<equiv> ''command.accepted''"
abbreviation EventCommandCompleted :: string where "EventCommandCompleted \<equiv> ''command.completed''"
abbreviation EventRecoveryDiagnostic :: string where "EventRecoveryDiagnostic \<equiv> ''recovery.diagnostic''"
abbreviation EventMigrationDiagnostic :: string where "EventMigrationDiagnostic \<equiv> ''migration.diagnostic''"
abbreviation EventMigrationCompatibilityDeclared :: string where
  "EventMigrationCompatibilityDeclared \<equiv> ''migration.compatibility_declared''"
abbreviation EventTransactionCommitted :: string where "EventTransactionCommitted \<equiv> ''transaction.committed''"
abbreviation EventSessionCreated :: string where "EventSessionCreated \<equiv> ''session.created''"
abbreviation EventSessionTitleChanged :: string where "EventSessionTitleChanged \<equiv> ''session.title_changed''"
abbreviation EventModeChanged :: string where "EventModeChanged \<equiv> ''mode.changed''"
abbreviation EventModelChanged :: string where "EventModelChanged \<equiv> ''model.changed''"
abbreviation EventTrustedExecutionAcknowledged :: string where
  "EventTrustedExecutionAcknowledged \<equiv> ''trusted_execution.acknowledged''"
abbreviation EventUserMessage :: string where "EventUserMessage \<equiv> ''user.message''"
abbreviation EventAssistantMessage :: string where "EventAssistantMessage \<equiv> ''assistant.message''"
abbreviation EventToolMessage :: string where "EventToolMessage \<equiv> ''tool.message''"
abbreviation EventContextCompacted :: string where "EventContextCompacted \<equiv> ''context.compacted''"
abbreviation EventExecutionPlanDeclared :: string where
  "EventExecutionPlanDeclared \<equiv> ''execution.plan_declared''"
abbreviation EventVerificationReceiptRecorded :: string where
  "EventVerificationReceiptRecorded \<equiv> ''verification.receipt_recorded''"
abbreviation EventProviderAttemptTerminal :: string where
  "EventProviderAttemptTerminal \<equiv> ''provider.attempt_terminal''"
abbreviation EventSubagentRequested :: string where "EventSubagentRequested \<equiv> ''subagent_requested_v1''"
abbreviation EventSubagentWaiting :: string where "EventSubagentWaiting \<equiv> ''subagent_waiting_v1''"
abbreviation EventSubagentResultAttached :: string where
  "EventSubagentResultAttached \<equiv> ''subagent_result_attached_v1''"
abbreviation EventSubagentManifest :: string where "EventSubagentManifest \<equiv> ''subagent_manifest_v1''"
abbreviation EventSubagentReceipt :: string where "EventSubagentReceipt \<equiv> ''subagent_receipt_v1''"
abbreviation EventActivityProgress :: string where "EventActivityProgress \<equiv> ''activity.progress''"
abbreviation EventFileChanged :: string where "EventFileChanged \<equiv> ''file.changed''"

section \<open>Payloads\<close>

record state_changed =
  sh_From :: string
  sh_To :: string
  sh_Reason :: string

record task_created =
  tc_Goal :: string
  tc_OutcomeContractID :: outcome_contract_id
  tc_ContractVersion :: u32

record task_status_changed =
  ts_From :: string
  ts_To :: string
  ts_Reason :: string

record criterion_def =
  cd_ID :: string
  cd_Required :: bool
  cd_Description :: string
  cd_VerificationMethod :: string
  cd_ExpectedEvidenceKind :: string
  cd_HumanJudgmentRequired :: bool

record contract_declared =
  od_OutcomeContractID :: outcome_contract_id
  od_Version :: u32
  od_Goal :: string
  od_Source :: string
  od_Frozen :: bool
  od_Criteria :: "criterion_def list"

record contract_amended =
  oa_OutcomeContractID :: outcome_contract_id
  oa_FromVersion :: u32
  oa_ToVersion :: u32
  oa_Reason :: string
  oa_Actor :: actor_ref
  oa_Criteria :: "criterion_def list"
  oa_Frozen :: bool

record criterion_assessed =
  ca_OutcomeContractID :: outcome_contract_id
  ca_ContractVersion :: u32
  ca_CriterionID :: string
  ca_Status :: string
  ca_EvidenceIDs :: "evidence_id list"
  ca_ReceiptIDs :: "receipt_id list"
  ca_Reason :: string

record final_assessed =
  fa_OutcomeContractID :: outcome_contract_id
  fa_ContractVersion :: u32
  fa_Status :: string
  fa_CriterionIDs :: "string list"
  fa_ReceiptIDs :: "receipt_id list"
  fa_UnknownEffects :: "subject_ref list"

record turn_accepted =
  ta_CommandID :: command_id
  ta_Goal :: string
  ta_OutcomeContractID :: outcome_contract_id
  ta_ContractVersion :: u32

record turn_terminal =
  tt_Status :: string
  tt_Reason :: string
  tt_ErrorCode :: string
  tt_UnknownEffects :: "subject_ref list"

record activity_planned =
  ap_Kind :: string
  ap_Purpose :: string
  ap_PurposeActor :: actor_ref
  ap_Source :: string
  ap_Plan :: "action_plan option"
  ap_InputEvidenceIDs :: "evidence_id list"
  ap_RequestedProfile :: string
  ap_EffectiveProfile :: string
  ap_CompactionTrigger :: string

record activity_authorized =
  aa_DecisionNonce :: decision_nonce
  aa_DecisionEventID :: event_id
  aa_PlanDigest :: digest
  aa_RequestDigest :: digest
  aa_DispatchDigest :: digest

record activity_started =
  as_DecisionNonce :: decision_nonce
  as_DecisionEventID :: event_id
  as_ActivityID :: activity_id
  as_CallID :: string
  as_PlanDigest :: digest
  as_RequestDigest :: digest
  as_DispatchDigest :: digest
  as_RuntimeGenerationID :: runtime_generation_id
  as_DispatchState :: string

record activity_outcome =
  ao_Status :: string
  ao_Reason :: string
  ao_ErrorCode :: string
  ao_OutputEvidenceIDs :: "evidence_id list"
  ao_UnknownEffects :: "subject_ref list"
  ao_Usage :: "model_usage option"
  ao_OutputBytes :: int

record grant_revoked =
  gr_GrantID :: string
  gr_Reason :: string
  gr_RevocationEpoch :: u64

record evidence_linked =
  el_EvidenceID :: evidence_id
  el_Subject :: subject_ref
  el_Relation :: string

record command_accepted =
  cc_CommandID :: command_id
  cc_RequestDigest :: digest
  cc_IdempotencyKey :: string

text \<open>The payload's optional \<open>Error\<close> (a \<open>PublicError\<close>) is not read by any modelled component.\<close>

record command_completed =
  cp_CommandID :: command_id
  cp_RequestDigest :: digest
  cp_Status :: string
  cp_Result :: string

record diagnostic =
  di_Code :: string
  di_Message :: string
  di_Journal :: journal_ref
  di_AtSeq :: u64
  di_EventID :: event_id
  di_Details :: raw_message

record transaction_committed =
  tm_TransactionID :: transaction_id
  tm_FirstSeq :: u64
  tm_LastSeq :: u64
  tm_EventCount :: u32
  tm_Digest :: digest

record compatibility_declared =
  mc_ReaderVersion :: u32
  mc_WriterVersion :: u32
  mc_LegacyHead :: cursor
  mc_DowngradeStatus :: string

record session_created =
  ssn_WorkspaceID :: string
  ssn_CanonicalPath :: string
  ssn_Title :: string
  ssn_Mode :: string
  ssn_ProviderID :: string
  ssn_ModelID :: string

record tool_use_block =
  tub_CallID :: string
  tub_Alias :: string
  tub_Arguments :: raw_message

record tool_result_block =
  trb_CallID :: string
  trb_Status :: string
  trb_Text :: string
  trb_JSON :: raw_message
  trb_EvidenceIDs :: "evidence_id list"

record content_reference =
  cref_URI :: string
  cref_Name :: string
  cref_MediaType :: string
  cref_Digest :: digest

record refusal_block =
  rfb_Code :: string
  rfb_Message :: string

record content_block =
  cb_Kind :: string
  cb_Text :: string
  cb_ToolUse :: "tool_use_block option"
  cb_ToolResult :: "tool_result_block option"
  cb_Reference :: "content_reference option"
  cb_JSON :: raw_message
  cb_ReasoningSummary :: string
  cb_Refusal :: "refusal_block option"

definition empty_block :: "string \<Rightarrow> content_block" where
  "empty_block kind = \<lparr>cb_Kind = kind, cb_Text = '''', cb_ToolUse = None, cb_ToolResult = None, cb_Reference = None,
     cb_JSON = None, cb_ReasoningSummary = '''', cb_Refusal = None\<rparr>"

record activity_progress =
  pgs_Message :: string
  pgs_Completed :: int
  pgs_Total :: int
  pgs_Truncated :: bool

record file_changed =
  fch_CallID :: string
  fch_Subject :: subject_ref
  fch_Before :: digest
  fch_After :: digest
  fch_EvidenceIDs :: "evidence_id list"

record context_compacted =
  cmp_From :: cursor
  cmp_Through :: cursor
  cmp_SummaryEvidenceID :: evidence_id
  cmp_Revision :: string

text \<open>Delegation to a child session (\<open>internal/protocol/subagent.go\<close>).\<close>

type_synonym delegation_attempt_id = string

record subagent_call =
  sgc_Task :: string
  sgc_ExpectedOutput :: string
  sgc_Context :: string

record subagent_manifest =
  sgm_AttemptID :: delegation_attempt_id
  sgm_ParentSessionID :: session_id
  sgm_ParentCursor :: cursor
  sgm_ChildSessionID :: session_id
  sgm_ChildTaskID :: task_id
  sgm_ChildTurnID :: turn_id
  sgm_RuntimeGenerationID :: runtime_generation_id
  sgm_SkillCatalogRevision :: string
  sgm_MaxToolCalls :: int
  sgm_Deadline :: gtime

record subagent_requested =
  sgq_Call :: subagent_call
  sgq_Manifest :: subagent_manifest

record subagent_waiting =
  sgw_AttemptID :: delegation_attempt_id
  sgw_ChildSessionID :: session_id

record public_error =
  per_Code :: string
  per_Message :: string
  per_Retryable :: bool

record subagent_receipt =
  sgr_Status :: string
  sgr_Summary :: string
  sgr_Manifest :: subagent_manifest
  sgr_TerminalCursor :: cursor
  sgr_ChangedFiles :: "string list"
  sgr_CommandsAndTests :: "string list"
  sgr_Usage :: model_usage
  sgr_EvidenceIDs :: "evidence_id list"
  sgr_UnknownEffects :: "activity_id list"
  sgr_Error :: "public_error option"

record subagent_attached =
  sga_AttemptID :: delegation_attempt_id
  sga_ChildSessionID :: session_id
  sga_TerminalCursor :: cursor
  sga_ReceiptDigest :: digest
  sga_ReceiptEvidenceID :: evidence_id

datatype payload =
    P_TaskCreated task_created
  | P_TaskStatusChanged task_status_changed
  | P_ContractDeclared contract_declared
  | P_ContractAmended contract_amended
  | P_CriterionAssessed criterion_assessed
  | P_FinalAssessed final_assessed
  | P_TurnAccepted turn_accepted
  | P_StateChanged state_changed
  | P_TurnTerminal turn_terminal
  | P_ActivityPlanned activity_planned
  | P_ActivityAuthorized activity_authorized
  | P_ActivityStarted activity_started
  | P_ActivityOutcome activity_outcome
  | P_AuthorizationRequested auth_request
  | P_AuthorizationDecided auth_decision
  | P_AuthorizationConsumed auth_consumed
  | P_GrantRevoked grant_revoked
  | P_EvidenceRecorded evidence_record
  | P_EvidenceLinked evidence_linked
  | P_CommandAccepted command_accepted
  | P_CommandCompleted command_completed
  | P_Diagnostic diagnostic
  | P_TransactionCommitted transaction_committed
  | P_CompatibilityDeclared compatibility_declared
  | P_SessionCreated session_created
  | P_TitleChanged string
  | P_ModeChanged string
  | P_ModelChanged string string
  | P_TrustedExecution bool string
  | P_UserMessage string
  | P_AssistantMessage "content_block list" "tool_use_block list"
  | P_ActivityProgress activity_progress
  | P_FileChanged file_changed
  | P_ToolMessage "tool_result_block list"
  | P_ContextCompacted context_compacted
  | P_SubagentRequested subagent_requested
  | P_SubagentWaiting subagent_waiting
  | P_SubagentResultAttached subagent_attached
  | P_SubagentManifest subagent_manifest
  | P_SubagentReceipt subagent_receipt
  | P_Opaque string

text \<open>The Go type of a payload (\<open>reflect.TypeOf\<close>, the pointer left out).\<close>

fun payload_type :: "payload \<Rightarrow> string" where
  "payload_type (P_TaskCreated _) = ''TaskCreatedV1''"
| "payload_type (P_TaskStatusChanged _) = ''TaskStatusChangedV1''"
| "payload_type (P_ContractDeclared _) = ''OutcomeContractDeclaredV1''"
| "payload_type (P_ContractAmended _) = ''OutcomeContractAmendedV1''"
| "payload_type (P_CriterionAssessed _) = ''CriterionAssessedV1''"
| "payload_type (P_FinalAssessed _) = ''OutcomeFinalAssessedV1''"
| "payload_type (P_TurnAccepted _) = ''TurnAcceptedV1''"
| "payload_type (P_StateChanged _) = ''StateChangedV1''"
| "payload_type (P_TurnTerminal _) = ''TurnTerminalV1''"
| "payload_type (P_ActivityPlanned _) = ''ActivityPlannedV1''"
| "payload_type (P_ActivityAuthorized _) = ''ActivityAuthorizedV1''"
| "payload_type (P_ActivityStarted _) = ''ActivityStartedV1''"
| "payload_type (P_ActivityOutcome _) = ''ActivityOutcomeV1''"
| "payload_type (P_AuthorizationRequested _) = ''AuthorizationRequestedV1''"
| "payload_type (P_AuthorizationDecided _) = ''AuthorizationDecidedV1''"
| "payload_type (P_AuthorizationConsumed _) = ''AuthorizationDecisionConsumedV1''"
| "payload_type (P_GrantRevoked _) = ''AuthorizationGrantRevokedV1''"
| "payload_type (P_EvidenceRecorded _) = ''EvidenceRecordedV1''"
| "payload_type (P_EvidenceLinked _) = ''EvidenceLinkedV1''"
| "payload_type (P_CommandAccepted _) = ''CommandAcceptedV1''"
| "payload_type (P_CommandCompleted _) = ''CommandCompletedV1''"
| "payload_type (P_Diagnostic _) = ''DiagnosticV1''"
| "payload_type (P_TransactionCommitted _) = ''TransactionCommittedV1''"
| "payload_type (P_CompatibilityDeclared _) = ''MigrationCompatibilityDeclaredV1''"
| "payload_type (P_SessionCreated _) = ''SessionCreatedV1''"
| "payload_type (P_TitleChanged _) = ''SessionTitleChangedV1''"
| "payload_type (P_ModeChanged _) = ''ModeChangedV1''"
| "payload_type (P_ModelChanged _ _) = ''ModelChangedV1''"
| "payload_type (P_TrustedExecution _ _) = ''TrustedExecutionAcknowledgedV1''"
| "payload_type (P_UserMessage _) = ''UserMessageV1''"
| "payload_type (P_AssistantMessage _ _) = ''AssistantMessageV1''"
| "payload_type (P_ActivityProgress _) = ''ActivityProgressV1''"
| "payload_type (P_FileChanged _) = ''FileChangedV1''"
| "payload_type (P_ToolMessage _) = ''ToolMessageV1''"
| "payload_type (P_ContextCompacted _) = ''ContextCompactedV1''"
| "payload_type (P_SubagentRequested _) = ''SubagentRequestedV1''"
| "payload_type (P_SubagentWaiting _) = ''SubagentWaitingV1''"
| "payload_type (P_SubagentResultAttached _) = ''SubagentResultAttachedV1''"
| "payload_type (P_SubagentManifest _) = ''SubagentManifestV1''"
| "payload_type (P_SubagentReceipt _) = ''SubagentReceiptV1''"
| "payload_type (P_Opaque t) = t"

section \<open>Envelopes and records\<close>

record envelope =
  en_SchemaVersion :: u32
  en_PayloadVersion :: u32
  en_JournalKind :: string
  en_JournalID :: journal_id
  en_EventID :: event_id
  en_SessionID :: session_id
  en_Seq :: u64
  en_Time :: gtime
  en_Kind :: string
  en_TaskID :: task_id
  en_TurnID :: turn_id
  en_ActivityID :: activity_id
  en_ParentActivityID :: activity_id
  en_CausationEventID :: event_id
  en_Actor :: "actor_ref option"
  en_RuntimeGenerationID :: runtime_generation_id
  en_TransactionID :: transaction_id
  en_Payload :: raw_message

record legacy_source =
  lg_SchemaVersion :: u32
  lg_EventID :: event_id
  lg_SessionID :: session_id
  lg_Seq :: u64
  lg_Time :: gtime
  lg_Kind :: string
  lg_Payload :: raw_message
  lg_RawEnvelope :: raw_message

record event =
  e_Envelope :: envelope
  e_Decoded :: "payload option"
  e_RawEnvelope :: raw_message
  e_Legacy :: "legacy_source option"

definition gv_envelope :: "envelope \<Rightarrow> gval" where
  "gv_envelope e = GStruct
     [GScalar, GScalar, GStr (en_JournalKind e), GStr (en_JournalID e), GStr (en_EventID e),
      GStr (en_SessionID e), GScalar, GTime, GStr (en_Kind e), GStr (en_TaskID e), GStr (en_TurnID e),
      GStr (en_ActivityID e), GStr (en_ParentActivityID e), GStr (en_CausationEventID e),
      GPtr (map_option gv_actor (en_Actor e)), GStr (en_RuntimeGenerationID e),
      GStr (en_TransactionID e), GRaw (en_Payload e)]"

text \<open>
  \<open>ValidateEnvelope\<close>; \<open>enc_len\<close> is the length of the envelope's JSON encoding (\<open>json.Marshal\<close>), whose
  first error the source returns before the field checks.
\<close>

definition ValidateEnvelope :: "(envelope \<Rightarrow> nat) \<Rightarrow> envelope \<Rightarrow> string option" where
  "ValidateEnvelope enc_len e = first_err
     [ValidateBounds (gv_envelope e),
      fail_if (MaxEventBytes < int (enc_len e)) ''event envelope exceeds bytes'',
      fail_if (en_SchemaVersion e \<noteq> EnvelopeVersion \<or> en_PayloadVersion e = 0
               \<or> \<not> JournalKind_Valid (en_JournalKind e) \<or> en_JournalID e = '''' \<or> en_EventID e = ''''
               \<or> en_Seq e = 0 \<or> en_Time e = 0 \<or> en_Kind e = '''' \<or> en_TransactionID e = '''')
        ''invalid v2 event envelope'',
      (if en_JournalKind e = JournalSession then
         fail_if (en_SessionID e = '''' \<or> en_SessionID e \<noteq> en_JournalID e)
           ''session journal identity mismatch''
       else if en_JournalKind e = JournalWorkspaceControl then
         fail_if (en_SessionID e \<noteq> '''') ''workspace-control event must not carry session ID''
       else None),
      (case en_Actor e of None \<Rightarrow> None | Some a \<Rightarrow> ActorRef_Validate a),
      ValidateRawJSON (raw_bytes (en_Payload e))]"

end
