(* ===== verification/Event_Rules.thy ===== *)
theory Event_Rules
  imports Events
begin

text \<open>
  The rules an event must pass before it is stored: the transition tables of the wire format
  (\<open>StateChangedV1.ValidateTask\<close>, \<open>ValidateTurn\<close>, \<open>ValidateActivity\<close> of
  \<open>internal/protocol/payloads.go\<close>), the cases of \<open>validateFoundationSemantic\<close>
  (\<open>internal/eventcodec/foundation.go\<close>) for the modelled payloads, and the foundation table with
  \<open>ValidateFoundationEvent\<close> (\<open>internal/projection/store.go\<close>).
\<close>

section \<open>Text that is only white space\<close>

text \<open>
  \<open>strings.TrimSpace(s) == ""\<close>: every rune is a Unicode space. The spaces above ASCII are
  U+0085, U+00A0, U+1680, U+2000 to U+200A, U+2028, U+2029, U+202F, U+205F and U+3000.
\<close>

definition space2 :: "nat \<Rightarrow> nat \<Rightarrow> bool" where
  "space2 a b \<longleftrightarrow> a = 194 \<and> b \<in> {133, 160}"

definition space3 :: "nat \<Rightarrow> nat \<Rightarrow> nat \<Rightarrow> bool" where
  "space3 a b c \<longleftrightarrow>
     (a = 225 \<and> b = 154 \<and> c = 128)
     \<or> (a = 226 \<and> b = 128 \<and> (128 \<le> c \<and> c \<le> 138 \<or> c \<in> {168, 169, 175}))
     \<or> (a = 226 \<and> b = 129 \<and> c = 159)
     \<or> (a = 227 \<and> b = 128 \<and> c = 128)"

fun is_blank :: "string \<Rightarrow> bool" where
  "is_blank [] = True"
| "is_blank (c # cs) =
     (if byte_of c \<in> {9, 10, 11, 12, 13, 32} then is_blank cs
      else case cs of
          c1 # ds \<Rightarrow>
            if space2 (byte_of c) (byte_of c1) then is_blank ds
            else (case ds of
                c2 # es \<Rightarrow> space3 (byte_of c) (byte_of c1) (byte_of c2) \<and> is_blank es
              | [] \<Rightarrow> False)
        | [] \<Rightarrow> False)"

section \<open>Transition tables of the wire format\<close>

abbreviation task_states :: "string list" where
  "task_states \<equiv> [''pending'', ''draft'', ''contract_drafting'', ''contract_proposed'',
     ''contract_frozen'', ''running'', ''verifying'', ''verified'', ''completed_with_waivers'',
     ''partial'', ''completed'', ''failed'', ''unknown'', ''cancelled'', ''reopened'']"

abbreviation turn_states :: "string list" where
  "turn_states \<equiv> [''accepted'', ''contract_drafting'', ''freezing_contract'', ''planning_context'',
     ''waiting_provider'', ''receiving_provider'', ''planning_action'', ''checkpointing'',
     ''awaiting_permission'', ''executing'', ''recording_evidence'', ''returning_result'',
     ''verifying'', ''running'', ''completed'', ''failed'', ''interrupted'']"

abbreviation activity_states :: "string list" where
  "activity_states \<equiv> [''planned'', ''authorized'', ''started'', ''succeeded'', ''failed'', ''denied'',
     ''cancelled'', ''interrupted_no_effect'', ''uncertain'']"

definition validTaskState :: "string \<Rightarrow> bool" where
  "validTaskState s \<longleftrightarrow> s \<in> set task_states"

definition validTurnState :: "string \<Rightarrow> bool" where
  "validTurnState s \<longleftrightarrow> s \<in> set turn_states"

definition validActivityState :: "string \<Rightarrow> bool" where
  "validActivityState s \<longleftrightarrow> s \<in> set activity_states"

definition wire_terminalTurnState :: "string \<Rightarrow> bool" where
  "wire_terminalTurnState s \<longleftrightarrow> s = ''completed'' \<or> s = ''failed'' \<or> s = ''interrupted''"

definition wire_terminalActivityState :: "string \<Rightarrow> bool" where
  "wire_terminalActivityState s \<longleftrightarrow>
     s \<in> {''succeeded'', ''failed'', ''denied'', ''cancelled'', ''interrupted_no_effect'', ''uncertain''}"

definition ValidateTask :: "string \<Rightarrow> string \<Rightarrow> string option" where
  "ValidateTask from to = first_err
     [fail_if (\<not> validTaskState from \<or> \<not> validTaskState to \<or> from = to) ''invalid task transition'',
      fail_if (\<not>
        ((from = ''pending'' \<and> (to = ''running'' \<or> to = ''cancelled'')) \<or>
         (from = ''draft'' \<and> to = ''contract_drafting'') \<or>
         (from = ''contract_drafting'' \<and> to = ''contract_proposed'') \<or>
         (from = ''contract_proposed'' \<and> to = ''contract_frozen'') \<or>
         (from = ''contract_frozen'' \<and> to = ''running'') \<or>
         (from = ''running'' \<and> (to = ''completed'' \<or> to = ''failed'' \<or> to = ''cancelled'' \<or> to = ''verifying'')) \<or>
         (from = ''verifying'' \<and> (to = ''verified'' \<or> to = ''completed_with_waivers'' \<or> to = ''partial''
            \<or> to = ''failed'' \<or> to = ''unknown'' \<or> to = ''cancelled'')) \<or>
         ((from = ''partial'' \<or> from = ''failed'' \<or> from = ''unknown'' \<or> from = ''completed_with_waivers'')
            \<and> to = ''reopened'') \<or>
         (from = ''reopened'' \<and> to = ''running''))) ''invalid task transition'']"

definition ValidateTurn :: "string \<Rightarrow> string \<Rightarrow> string option" where
  "ValidateTurn from to = first_err
     [fail_if (\<not> validTurnState from \<or> \<not> validTurnState to \<or> from = to \<or> wire_terminalTurnState from)
        ''invalid turn transition'',
      fail_if (\<not>
        ((from = ''accepted'' \<and> (to = ''running'' \<or> to = ''contract_drafting'' \<or> to = ''failed'' \<or> to = ''interrupted'')) \<or>
         (from = ''contract_drafting'' \<and> to = ''freezing_contract'') \<or>
         (from = ''freezing_contract'' \<and> to = ''planning_context'') \<or>
         (from = ''planning_context'' \<and> to = ''waiting_provider'') \<or>
         (from = ''waiting_provider'' \<and> to = ''receiving_provider'') \<or>
         (from = ''receiving_provider'' \<and> to = ''planning_action'') \<or>
         (from = ''planning_action'' \<and> to = ''checkpointing'') \<or>
         (from = ''checkpointing'' \<and> to = ''awaiting_permission'') \<or>
         (from = ''awaiting_permission'' \<and> to = ''executing'') \<or>
         (from = ''executing'' \<and> to = ''recording_evidence'') \<or>
         (from = ''recording_evidence'' \<and> to = ''returning_result'') \<or>
         (from = ''returning_result'' \<and> to = ''verifying'') \<or>
         (from = ''verifying'' \<and> (to = ''completed'' \<or> to = ''failed'' \<or> to = ''interrupted'')) \<or>
         (from = ''running'' \<and> (to = ''completed'' \<or> to = ''failed'' \<or> to = ''interrupted''))))
        ''invalid turn transition'']"

definition ValidateActivity :: "string \<Rightarrow> string \<Rightarrow> string option" where
  "ValidateActivity from to = first_err
     [fail_if (\<not> validActivityState from \<or> \<not> validActivityState to \<or> from = to
               \<or> wire_terminalActivityState from) ''invalid activity transition'',
      fail_if (\<not>
        ((from = ''planned'' \<and> (to = ''authorized'' \<or> to = ''denied'' \<or> to = ''cancelled'')) \<or>
         (from = ''authorized'' \<and> (to = ''started'' \<or> to = ''cancelled'' \<or> to = ''interrupted_no_effect'')) \<or>
         (from = ''started'' \<and> wire_terminalActivityState to))) ''invalid activity transition'']"

section \<open>Semantic rules of the event codec\<close>

fun validateCriteria_loop :: "string set \<Rightarrow> nat \<Rightarrow> criterion_def list \<Rightarrow> nat res" where
  "validateCriteria_loop seen required [] = Inr required"
| "validateCriteria_loop seen required (c # cs) =
     (if cd_ID c = '''' \<or> is_blank (cd_Description c) \<or> cd_VerificationMethod c = ''''
         \<or> cd_ExpectedEvidenceKind c = '''' then Inl ''criterion is incomplete''
      else if cd_ID c \<in> seen then Inl ''duplicate criterion''
      else validateCriteria_loop (insert (cd_ID c) seen)
             (if cd_Required c then required + 1 else required) cs)"

definition validateCriteria :: "criterion_def list \<Rightarrow> bool \<Rightarrow> string option" where
  "validateCriteria cs requireRequired =
     (case validateCriteria_loop {} 0 cs of
        Inl e \<Rightarrow> Some e
      | Inr required \<Rightarrow> fail_if (requireRequired \<and> required = 0)
          ''frozen contract requires at least one required criterion'')"

definition validateAuthorizationBindings :: "decision_nonce \<Rightarrow> event_id \<Rightarrow> digest list \<Rightarrow> string option" where
  "validateAuthorizationBindings nonce eid ds = first_err
     (fail_if (nonce = '''' \<or> eid = '''') ''authorization binding is incomplete'' # map Digest_Validate ds)"

definition semantic_task_created :: "task_created \<Rightarrow> string option" where
  "semantic_task_created v = fail_if (is_blank (tc_Goal v) \<or> tc_OutcomeContractID v = ''''
     \<or> tc_ContractVersion v = 0) ''task creation is incomplete''"

definition semantic_contract_declared :: "contract_declared \<Rightarrow> string option" where
  "semantic_contract_declared v = first_err
     [fail_if (od_OutcomeContractID v = '''' \<or> od_Version v = 0 \<or> is_blank (od_Goal v) \<or> od_Source v = '''')
        ''outcome contract is incomplete'',
      validateCriteria (od_Criteria v) (od_Frozen v)]"

definition semantic_contract_amended :: "contract_amended \<Rightarrow> string option" where
  "semantic_contract_amended v = first_err
     [fail_if (oa_OutcomeContractID v = '''' \<or> oa_FromVersion v = 0 \<or> oa_ToVersion v \<noteq> oa_FromVersion v + 1
               \<or> is_blank (oa_Reason v) \<or> ActorRef_Validate (oa_Actor v) \<noteq> None)
        ''outcome contract amendment is invalid'',
      validateCriteria (oa_Criteria v) (oa_Frozen v)]"

definition semantic_criterion_assessed :: "criterion_assessed \<Rightarrow> string option" where
  "semantic_criterion_assessed v = first_err
     [fail_if (ca_OutcomeContractID v = '''' \<or> ca_ContractVersion v = 0 \<or> ca_CriterionID v = ''''
               \<or> ca_Status v \<notin> {''verified'', ''failed'', ''unknown''} \<or> is_blank (ca_Reason v))
        ''criterion assessment is invalid'',
      validateSortedUniqueEvidenceIDs (ca_EvidenceIDs v),
      fail_if (\<not> sorted_unique_from None (ca_ReceiptIDs v)) ''receipt IDs must be nonempty, sorted, and unique'']"

definition semantic_final_assessed :: "final_assessed \<Rightarrow> string option" where
  "semantic_final_assessed v = first_err
     [fail_if (fa_OutcomeContractID v = '''' \<or> fa_ContractVersion v = 0
               \<or> fa_Status v \<notin> {''verified'', ''failed'', ''unknown''}) ''final outcome assessment is invalid'',
      fail_if (\<not> sorted_unique_from None (fa_CriterionIDs v)) ''must be nonempty, sorted, and unique'',
      fail_if (\<not> sorted_unique_from None (fa_ReceiptIDs v)) ''receipt IDs must be nonempty, sorted, and unique'']"

definition semantic_turn_accepted :: "turn_accepted \<Rightarrow> string option" where
  "semantic_turn_accepted v = fail_if (ta_CommandID v = '''' \<or> is_blank (ta_Goal v)
     \<or> ta_OutcomeContractID v = '''' \<or> ta_ContractVersion v = 0) ''accepted turn is incomplete''"

definition semantic_state_changed :: "string \<Rightarrow> state_changed \<Rightarrow> string option" where
  "semantic_state_changed kind v =
     (if kind = EventTurnStateChanged then ValidateTurn (sh_From v) (sh_To v)
      else fail_if (sh_From v = '''' \<or> sh_To v = '''' \<or> sh_From v = sh_To v) ''state transition is invalid'')"

definition turn_terminal_want :: "string \<Rightarrow> string" where
  "turn_terminal_want kind =
     (if kind = EventTurnCompleted then ''completed''
      else if kind = EventTurnFailed then ''failed''
      else if kind = EventTurnInterrupted then ''interrupted'' else '''')"

definition semantic_turn_terminal :: "string \<Rightarrow> turn_terminal \<Rightarrow> string option" where
  "semantic_turn_terminal kind v = first_err
     [fail_if (tt_Status v \<notin> {''completed'', ''failed'', ''interrupted''} \<or> is_blank (tt_Reason v))
        ''turn terminal payload is invalid'',
      fail_if (turn_terminal_want kind \<noteq> '''' \<and> tt_Status v \<noteq> turn_terminal_want kind)
        ''turn terminal status does not match event'']"

definition activity_outcome_want :: "string \<Rightarrow> string" where
  "activity_outcome_want kind =
     (if kind = EventActivitySucceeded then ''succeeded''
      else if kind = EventActivityFailed then ''failed''
      else if kind = EventActivityDenied then ''denied''
      else if kind = EventActivityCancelled then ''cancelled''
      else if kind = EventActivityInterruptedNoEffect then ''interrupted_no_effect''
      else if kind = EventActivityUncertain then ''uncertain'' else '''')"

definition semantic_activity_planned :: "(action_plan_body \<Rightarrow> digest res) \<Rightarrow> activity_planned \<Rightarrow> string option" where
  "semantic_activity_planned plan_digest v = first_err
     [fail_if (ap_Kind v = '''' \<or> is_blank (ap_Purpose v) \<or> ActorRef_Validate (ap_PurposeActor v) \<noteq> None
               \<or> ap_Source v = '''' \<or> ap_RequestedProfile v = '''' \<or> ap_EffectiveProfile v = '''')
        ''planned activity lacks durable purpose'',
      validateSortedUniqueEvidenceIDs (ap_InputEvidenceIDs v),
      fail_if (ap_CompactionTrigger v \<notin> {'''', ''manual'', ''automatic''}) ''invalid compaction trigger'',
      (case ap_Plan v of
         None \<Rightarrow> None
       | Some p \<Rightarrow> first_err
           [ActionPlanBody_Validate (pl_Body p),
            (case plan_digest (pl_Body p) of
               Inl e \<Rightarrow> Some e
             | Inr d \<Rightarrow> fail_if (pl_Digest p \<noteq> d) ''body digest mismatch'')])]"

definition semantic_activity_authorized :: "activity_authorized \<Rightarrow> string option" where
  "semantic_activity_authorized v = validateAuthorizationBindings (aa_DecisionNonce v) (aa_DecisionEventID v)
     [aa_PlanDigest v, aa_RequestDigest v, aa_DispatchDigest v]"

definition semantic_activity_started :: "activity_started \<Rightarrow> string option" where
  "semantic_activity_started v = first_err
     [fail_if (as_ActivityID v = '''' \<or> as_CallID v = '''' \<or> as_RuntimeGenerationID v = '''' \<or> as_DispatchState v = '''')
        ''started activity is incomplete'',
      validateAuthorizationBindings (as_DecisionNonce v) (as_DecisionEventID v)
        [as_PlanDigest v, as_RequestDigest v, as_DispatchDigest v]]"

definition semantic_activity_outcome :: "string \<Rightarrow> activity_outcome \<Rightarrow> string option" where
  "semantic_activity_outcome kind v = first_err
     [fail_if (ao_Status v \<notin> {''succeeded'', ''failed'', ''denied'', ''cancelled'', ''interrupted_no_effect'', ''uncertain''})
        ''invalid activity outcome status'',
      fail_if (activity_outcome_want kind \<noteq> '''' \<and> ao_Status v \<noteq> activity_outcome_want kind)
        ''activity outcome status does not match event'',
      fail_if (ao_OutputBytes v < 0) ''activity output bytes is invalid'',
      (case ao_Usage v of None \<Rightarrow> None | Some u \<Rightarrow> ModelUsage_Validate u),
      validateSortedUniqueEvidenceIDs (ao_OutputEvidenceIDs v)]"

definition semantic_grant_revoked :: "grant_revoked \<Rightarrow> string option" where
  "semantic_grant_revoked v = fail_if (gr_GrantID v = '''' \<or> is_blank (gr_Reason v) \<or> gr_RevocationEpoch v = 0)
     ''grant revocation is incomplete''"

definition semantic_evidence_recorded :: "(evidence_body \<Rightarrow> digest res) \<Rightarrow> evidence_record \<Rightarrow> string option" where
  "semantic_evidence_recorded body_digest r = first_err
     [EvidenceRecordBody_Validate (er_Body r),
      (case body_digest (er_Body r) of
         Inl e \<Rightarrow> Some e
       | Inr d \<Rightarrow> fail_if (er_Digest r \<noteq> d) ''body digest mismatch'')]"

definition semantic_evidence_linked :: "evidence_linked \<Rightarrow> string option" where
  "semantic_evidence_linked v = fail_if (el_EvidenceID v = '''' \<or> SubjectRef_Validate (el_Subject v) \<noteq> None
     \<or> el_Relation v = '''') ''evidence link is incomplete''"

definition semantic_command_accepted :: "command_accepted \<Rightarrow> string option" where
  "semantic_command_accepted v = first_err
     [fail_if (cc_CommandID v = '''' \<or> cc_IdempotencyKey v = '''') ''accepted command is incomplete'',
      Digest_Validate (cc_RequestDigest v)]"

definition semantic_command_completed :: "command_completed \<Rightarrow> string option" where
  "semantic_command_completed v = fail_if (cp_CommandID v = '''' \<or> cp_Status v = ''''
     \<or> Digest_Validate (cp_RequestDigest v) \<noteq> None \<or> ValidateRawJSON (cp_Result v) \<noteq> None)
     ''completed command is invalid''"

definition semantic_diagnostic :: "diagnostic \<Rightarrow> string option" where
  "semantic_diagnostic v = first_err
     [fail_if (di_Code v = '''' \<or> di_Message v = '''' \<or> JournalRef_Validate (di_Journal v) \<noteq> None)
        ''diagnostic is incomplete'',
      (case di_Details v of None \<Rightarrow> None | Some bs \<Rightarrow> ValidateRawJSON bs)]"

section \<open>Foundation events\<close>

text \<open>
  The table of \<open>FoundationDescriptors\<close>, as far as the projections use it: each kind with the
  Go type of its payload. Every descriptor has version 1.
\<close>

definition foundation_descriptors :: "(string \<times> string) list" where
  "foundation_descriptors =
     [(''session.created'', ''SessionCreatedV1''), (''session.forked'', ''SessionForkedV1''),
      (''session.title_changed'', ''SessionTitleChangedV1''),
      (''session.lifecycle_changed'', ''StateChangedV1''), (''mode.changed'', ''ModeChangedV1''),
      (''model.changed'', ''ModelChangedV1''),
      (''trusted_execution.acknowledged'', ''TrustedExecutionAcknowledgedV1''),
      (''user.message'', ''UserMessageV1''), (''assistant.message'', ''AssistantMessageV1''),
      (''tool.message'', ''ToolMessageV1''), (''context.compacted'', ''ContextCompactedV1''),
      (''file.change_planned'', ''FileChangePlannedV1''), (''file.changed'', ''FileChangedV1''),
      (EventTaskCreated, ''TaskCreatedV1''), (EventTaskStatusChanged, ''TaskStatusChangedV1''),
      (EventOutcomeContractDeclared, ''OutcomeContractDeclaredV1''),
      (EventOutcomeContractAmended, ''OutcomeContractAmendedV1''),
      (EventOutcomeCriterionAssessed, ''CriterionAssessedV1''),
      (EventOutcomeFinalAssessed, ''OutcomeFinalAssessedV1''), (EventTurnAccepted, ''TurnAcceptedV1''),
      (EventTurnStateChanged, ''StateChangedV1''), (EventTurnCompleted, ''TurnTerminalV1''),
      (EventTurnFailed, ''TurnTerminalV1''), (EventTurnInterrupted, ''TurnTerminalV1''),
      (EventActivityPlanned, ''ActivityPlannedV1''), (EventActivityAuthorized, ''ActivityAuthorizedV1''),
      (EventActivityStarted, ''ActivityStartedV1''), (''activity.progress'', ''ActivityProgressV1''),
      (EventActivitySucceeded, ''ActivityOutcomeV1''), (EventActivityFailed, ''ActivityOutcomeV1''),
      (EventActivityDenied, ''ActivityOutcomeV1''), (EventActivityCancelled, ''ActivityOutcomeV1''),
      (EventActivityInterruptedNoEffect, ''ActivityOutcomeV1''),
      (EventActivityUncertain, ''ActivityOutcomeV1''),
      (''provider.capability_decided'', ''ProviderCapabilityDecidedV1''),
      (''provider.attempt_terminal'', ''ProviderAttemptTerminalV1''),
      (''execution.plan_declared'', ''ExecutionPlanDeclaredV1''),
      (EventAuthorizationRequested, ''AuthorizationRequestedV1''),
      (EventAuthorizationDecided, ''AuthorizationDecidedV1''),
      (EventAuthorizationDecisionConsumed, ''AuthorizationDecisionConsumedV1''),
      (EventAuthorizationGrantRevoked, ''AuthorizationGrantRevokedV1''),
      (EventEvidenceRecorded, ''EvidenceRecordedV1''), (EventEvidenceLinked, ''EvidenceLinkedV1''),
      (''checkpoint.planned'', ''CheckpointPlannedV1''), (''checkpoint.ready'', ''CheckpointReadyV1''),
      (''checkpoint.failed'', ''CheckpointFailedV1''),
      (''verification.receipt_recorded'', ''VerificationReceiptRecordedV1''),
      (''context.plan_recorded'', ''ContextPlanRecordedV1''),
      (''context.usage_recorded'', ''ContextUsageRecordedV1''),
      (''runtime_generation.activated'', ''RuntimeGenerationActivatedV1''),
      (''project_skill_trust_changed_v1'', ''ProjectSkillTrustChangedV1''),
      (''control_operation.planned'', ''ControlOperationPlannedV1''),
      (''control_operation.authorized'', ''ControlOperationAuthorizedV1''),
      (''control_operation.started'', ''ControlOperationStartedV1''),
      (''control_operation.completed'', ''ControlOperationTerminalV1''),
      (''control_operation.failed'', ''ControlOperationTerminalV1''),
      (''control_operation.interrupted'', ''ControlOperationTerminalV1''),
      (EventCommandAccepted, ''CommandAcceptedV1''), (EventCommandCompleted, ''CommandCompletedV1''),
      (''migration.compatibility_declared'', ''MigrationCompatibilityDeclaredV1''),
      (''migration.diagnostic'', ''DiagnosticV1''), (EventRecoveryDiagnostic, ''DiagnosticV1''),
      (''transaction.committed'', ''TransactionCommittedV1''),
      (''subagent_requested_v1'', ''SubagentRequestedV1''), (''subagent_waiting_v1'', ''SubagentWaitingV1''),
      (''subagent_result_attached_v1'', ''SubagentResultAttachedV1''),
      (''subagent_manifest_v1'', ''SubagentManifestV1''), (''subagent_receipt_v1'', ''SubagentReceiptV1'')]"

definition ValidateFoundationEvent :: "event \<Rightarrow> string option" where
  "ValidateFoundationEvent e =
     (case map_of foundation_descriptors (en_Kind (e_Envelope e)) of
        None \<Rightarrow> Some ''unknown stateful event''
      | Some ty \<Rightarrow> first_err
          [fail_if (en_PayloadVersion (e_Envelope e) \<noteq> 1) ''unsupported payload version'',
           fail_if (map_option payload_type (e_Decoded e) \<noteq> Some ty)
             ''decoded payload does not match its foundation descriptor''])"

end
