(* ===== verification/Canonical_Json.thy ===== *)
theory Canonical_Json
  imports Json
begin

text \<open>
  \<open>internal/canonicaljson/canonical.go\<close> on JSON text: \<open>parse\<close> builds a tree of nodes with the
  same limits as the wire validator, \<open>writeNode\<close> prints it with sorted keys and no white space.
  Two JSON texts with the same canonical form have the same digest. The SHA-256 function itself
  is a parameter wherever a digest is taken.
\<close>

section \<open>Nodes and the parser\<close>

text \<open>An object's members are kept in the order they were read, with distinct keys.\<close>

datatype json = JNull | JBool bool | JStr string | JNum string | JArr "json list"
  | JObj "(string \<times> json) list"

fun parse_value :: "nat \<Rightarrow> nat \<Rightarrow> token list \<Rightarrow> (json \<times> token list) option"
  and parse_members :: "nat \<Rightarrow> nat \<Rightarrow> (string \<times> json) list \<Rightarrow> token list \<Rightarrow> (json \<times> token list) option"
  and parse_items :: "nat \<Rightarrow> nat \<Rightarrow> json list \<Rightarrow> token list \<Rightarrow> (json \<times> token list) option" where
  "parse_value 0 depth ts = None"
| "parse_value (Suc n) depth ts =
     (case ts of
        TNull # r \<Rightarrow> Some (JNull, r)
      | TTrue # r \<Rightarrow> Some (JBool True, r)
      | TFalse # r \<Rightarrow> Some (JBool False, r)
      | TStr v # r \<Rightarrow> if MaxStringBytes < int (length v) then None else Some (JStr v, r)
      | TNum v # r \<Rightarrow> if validInteger v then Some (JNum v, r) else None
      | TLBrack # r \<Rightarrow> if MaxJSONDepth \<le> depth then None else parse_items n depth [] r
      | TLBrace # r \<Rightarrow> if MaxJSONDepth \<le> depth then None else parse_members n depth [] r
      | _ \<Rightarrow> None)"
| "parse_members 0 depth ms ts = None"
| "parse_members (Suc n) depth ms ts =
     (if ts \<noteq> [] \<and> hd ts = TRBrace then Some (JObj ms, tl ts)
      else if int (length ms) = MaxCollectionMembers then None
      else case (if ms = [] then ts else if ts \<noteq> [] \<and> hd ts = TComma then tl ts else []) of
          TStr key # TColon # r \<Rightarrow>
            if MaxStringBytes < int (length key) then None
            else if key \<in> fst ` set ms then None
            else (case parse_value n (depth + 1) r of
                    None \<Rightarrow> None
                  | Some (v, r') \<Rightarrow> parse_members n depth (ms @ [(key, v)]) r')
        | _ \<Rightarrow> None)"
| "parse_items 0 depth xs ts = None"
| "parse_items (Suc n) depth xs ts =
     (if ts \<noteq> [] \<and> hd ts = TRBrack then Some (JArr xs, tl ts)
      else if int (length xs) = MaxCollectionMembers then None
      else if xs \<noteq> [] \<and> (ts = [] \<or> hd ts \<noteq> TComma) then None
      else case parse_value n (depth + 1) (if xs = [] then ts else tl ts) of
          None \<Rightarrow> None
        | Some (v, r) \<Rightarrow> parse_items n depth (xs @ [v]) r)"

definition parse_json :: "string \<Rightarrow> json res" where
  "parse_json raw =
     (if raw = [] then Inl ''canonical JSON input is empty''
      else case lex raw of
          None \<Rightarrow> Inl ''decode canonical JSON''
        | Some ts \<Rightarrow>
            (case parse_value (json_fuel ts) 0 ts of
               None \<Rightarrow> Inl ''decode canonical JSON''
             | Some (v, []) \<Rightarrow> Inr v
             | Some (v, _ # _) \<Rightarrow> Inl ''trailing JSON token''))"

section \<open>The writer\<close>

definition hex_digit :: "nat \<Rightarrow> char" where
  "hex_digit n = (if n < 10 then char_of (48 + n) else char_of (87 + n))"

text \<open>
  \<open>json.Marshal\<close> of a string: quotes, backslashes, control characters, the HTML characters
  \<open><\<close>, \<open>>\<close>, \<open>&\<close>, the separators U+2028 and U+2029 and ill-formed bytes are escaped.
\<close>

definition escape_char :: "char \<Rightarrow> string" where
  "escape_char c =
     (if c = CHR 0x22 \<or> c = CHR 0x5C then [CHR 0x5C, c]
      else if c = CHR 0x08 then [CHR 0x5C, CHR ''b'']
      else if c = CHR 0x0C then [CHR 0x5C, CHR ''f'']
      else if c = CHR 0x0A then [CHR 0x5C, CHR ''n'']
      else if c = CHR 0x0D then [CHR 0x5C, CHR ''r'']
      else if c = CHR 0x09 then [CHR 0x5C, CHR ''t'']
      else if byte_of c < 32 \<or> c \<in> {CHR ''<'', CHR ''>'', CHR ''&''} then
        [CHR 0x5C, CHR ''u'', CHR ''0'', CHR ''0'',
         hex_digit (byte_of c div 16), hex_digit (byte_of c mod 16)]
      else [c])"

definition line_separators :: "string list" where
  "line_separators =
     [[char_of (226::nat), char_of (128::nat), char_of (168::nat)],
      [char_of (226::nat), char_of (128::nat), char_of (169::nat)]]"

fun escape_string :: "string \<Rightarrow> string" where
  "escape_string [] = []"
| "escape_string (c # cs) =
     (if byte_of c < 128 then escape_char c @ escape_string cs
      else
        (let n = rune_len (c # cs) in
         if n = 0 then [CHR 0x5C] @ ''ufffd'' @ escape_string cs
         else if take n (c # cs) = line_separators ! 0 then
           [CHR 0x5C] @ ''u2028'' @ escape_string (drop (n - 1) cs)
         else if take n (c # cs) = line_separators ! 1 then
           [CHR 0x5C] @ ''u2029'' @ escape_string (drop (n - 1) cs)
         else take n (c # cs) @ escape_string (drop (n - 1) cs)))"

definition write_string :: "string \<Rightarrow> string" where
  "write_string s = [CHR 0x22] @ escape_string s @ [CHR 0x22]"

text \<open>The separator before every element but the first.\<close>

fun comma_sep :: "string list \<Rightarrow> string" where
  "comma_sep [] = []"
| "comma_sep [s] = s"
| "comma_sep (s # t # ss) = s @ '','' @ comma_sep (t # ss)"

fun writeNode :: "json \<Rightarrow> string" where
  "writeNode JNull = ''null''"
| "writeNode (JBool b) = (if b then ''true'' else ''false'')"
| "writeNode (JStr s) = write_string s"
| "writeNode (JNum t) = t"
| "writeNode (JArr xs) = ''['' @ comma_sep (map writeNode xs) @ '']''"
| "writeNode (JObj ms) = ''{'' @
     comma_sep (map snd (sort_key fst (map (\<lambda>(k, v). (k, write_string k @ '':'' @ writeNode v)) ms))) @ ''}''"

text \<open>\<open>Marshal\<close> of a \<open>json.RawMessage\<close>.\<close>

definition canonical_marshal :: "string \<Rightarrow> string res" where
  "canonical_marshal raw = (case parse_json raw of Inl e \<Rightarrow> Inl e | Inr v \<Rightarrow> Inr (writeNode v))"

section \<open>The validator and the parser accept the same texts\<close>

lemma validate_parse:
  "validate_value n d ts = map_option snd (parse_value n d ts)"
  "distinct (map fst ms) \<Longrightarrow> int (length ms) \<le> MaxCollectionMembers \<Longrightarrow>
     validate_members n d (rev (map fst ms)) ts = map_option snd (parse_members n d ms ts)"
  "int (length xs) \<le> MaxCollectionMembers \<Longrightarrow>
     validate_items n d (length xs) ts = map_option snd (parse_items n d xs ts)"
proof (induction n d ts and n d ms ts and n d xs ts rule: parse_value_parse_members_parse_items.induct)
  case (2 n depth ts)
  show ?case
    by (cases ts; cases "hd ts") (use "2.IH" in \<open>auto split: token.splits\<close>)
next
  case (4 n depth ms ts)
  let ?us = "if ms = [] then ts else if ts \<noteq> [] \<and> hd ts = TComma then tl ts else []"
  show ?case
  proof (cases "(ts \<noteq> [] \<and> hd ts = TRBrace) \<or> int (length ms) = MaxCollectionMembers")
    case True
    then show ?thesis by (auto split: list.splits token.splits)
  next
    case False
    then have lt: "int (length ms) < MaxCollectionMembers" using "4.prems"(2) by simp
    show ?thesis
    proof (cases "\<exists>key r. ?us = TStr key # TColon # r \<and> int (length key) \<le> MaxStringBytes \<and> key \<notin> fst ` set ms")
      case True
      then obtain key r where us: "?us = TStr key # TColon # r"
        and key: "int (length key) \<le> MaxStringBytes" "key \<notin> fst ` set ms" by blast
      show ?thesis
        using False lt us key "4.prems" "4.IH"(1) [OF _ _ us refl refl] "4.IH"(2) [OF _ _ us refl refl]
        by (auto split: option.splits)
    next
      case no: False
      then show ?thesis
        using False lt by (auto split: list.splits token.splits if_splits)
    qed
  qed
next
  case (6 n depth xs ts)
  then show ?case
    by (auto split: option.splits)
qed simp_all

end
