(* ===== verification/Task_Projection.thy ===== *)
theory Task_Projection
  imports Event_Rules Canonical_Json
begin

text \<open>
  The task projection, \<open>internal/task/projection.go\<close>: tasks with their outcome contracts and
  criteria, turns, and the availability of evidence, computed from the durable events one at a
  time. \<open>Apply\<close> returns the old projection with an error, so the model returns the error alone.
\<close>

section \<open>State\<close>

abbreviation StateDraft :: string where "StateDraft \<equiv> ''draft''"
abbreviation StatePending :: string where "StatePending \<equiv> ''pending''"
abbreviation StateContractDrafting :: string where "StateContractDrafting \<equiv> ''contract_drafting''"
abbreviation StateContractProposed :: string where "StateContractProposed \<equiv> ''contract_proposed''"
abbreviation StateContractFrozen :: string where "StateContractFrozen \<equiv> ''contract_frozen''"
abbreviation StateRunning :: string where "StateRunning \<equiv> ''running''"
abbreviation StateVerifying :: string where "StateVerifying \<equiv> ''verifying''"
abbreviation StateVerified :: string where "StateVerified \<equiv> ''verified''"
abbreviation StateCompletedWithWaivers :: string where "StateCompletedWithWaivers \<equiv> ''completed_with_waivers''"
abbreviation StatePartial :: string where "StatePartial \<equiv> ''partial''"
abbreviation StateFailed :: string where "StateFailed \<equiv> ''failed''"
abbreviation StateUnknown :: string where "StateUnknown \<equiv> ''unknown''"
abbreviation StateCancelled :: string where "StateCancelled \<equiv> ''cancelled''"
abbreviation StateReopened :: string where "StateReopened \<equiv> ''reopened''"
abbreviation StateCompleted :: string where "StateCompleted \<equiv> ''completed''"

abbreviation TurnStateAccepted :: string where "TurnStateAccepted \<equiv> ''accepted''"
abbreviation TurnStateVerifying :: string where "TurnStateVerifying \<equiv> ''verifying''"
abbreviation TurnStateRunning :: string where "TurnStateRunning \<equiv> ''running''"
abbreviation TurnStateCompleted :: string where "TurnStateCompleted \<equiv> ''completed''"
abbreviation TurnStateFailed :: string where "TurnStateFailed \<equiv> ''failed''"
abbreviation TurnStateInterrupted :: string where "TurnStateInterrupted \<equiv> ''interrupted''"

abbreviation CriterionPending :: string where "CriterionPending \<equiv> ''pending''"
abbreviation CriterionVerified :: string where "CriterionVerified \<equiv> ''verified''"
abbreviation CriterionUnknown :: string where "CriterionUnknown \<equiv> ''unknown''"

record criterion =
  cr_Definition :: criterion_def
  cr_Status :: string
  cr_EvidenceIDs :: "evidence_id list"
  cr_ReceiptIDs :: "receipt_id list"
  cr_Reason :: string

record outcome =
  ou_ContractVersion :: u32
  ou_State :: string
  ou_Status :: string
  ou_CriterionIDs :: "string list"
  ou_ReceiptIDs :: "receipt_id list"
  ou_UnknownEffects :: "subject_ref list"

text \<open>\<open>Criteria\<close> may be a nil map, which the code tests for: \<open>None\<close>.\<close>

record contract_version =
  cv_Version :: u32
  cv_Goal :: string
  cv_Source :: string
  cv_Frozen :: bool
  cv_Criteria :: "(string, criterion) gomap option"
  cv_AmendmentReason :: string
  cv_AmendmentActor :: "actor_ref option"

record assessment =
  am_ContractVersion :: u32
  am_CriterionID :: string
  am_Status :: string
  am_EvidenceIDs :: "evidence_id list"
  am_ReceiptIDs :: "receipt_id list"
  am_Reason :: string

record task_record =
  tr_TaskID :: task_id
  tr_Goal :: string
  tr_State :: string
  tr_OutcomeContractID :: outcome_contract_id
  tr_ContractVersion :: u32
  tr_ContractSource :: string
  tr_ContractFrozen :: bool
  tr_Criteria :: "(string, criterion) gomap"
  tr_Contracts :: "(u32, contract_version) gomap"
  tr_Assessments :: "assessment list"
  tr_VerificationState :: string
  tr_Outcome :: outcome
  tr_OutcomeHistory :: "outcome list"
  tr_Legacy :: bool

record turn_record =
  tu_TurnID :: turn_id
  tu_TaskID :: task_id
  tu_CommandID :: command_id
  tu_Goal :: string
  tu_OutcomeContractID :: outcome_contract_id
  tu_ContractVersion :: u32
  tu_State :: string
  tu_Reason :: string
  tu_ErrorCode :: string
  tu_UnknownEffects :: "subject_ref list"

record task_projection =
  tp_Journal :: journal_ref
  tp_Tasks :: "(task_id, task_record) gomap"
  tp_Turns :: "(turn_id, turn_record) gomap"
  tp_EvidenceAvailability :: "(evidence_id, string) gomap"
  tp_Diagnostics :: "diagnostic list"

definition task_Version :: u32 where
  "task_Version = 1"

definition task_Zero :: "journal_ref \<Rightarrow> task_projection" where
  "task_Zero ref = \<lparr>tp_Journal = ref, tp_Tasks = [], tp_Turns = [], tp_EvidenceAvailability = [],
     tp_Diagnostics = []\<rparr>"

section \<open>Helpers\<close>

definition allowedTaskTransition :: "bool \<Rightarrow> string \<Rightarrow> string \<Rightarrow> bool" where
  "allowedTaskTransition legacy from to =
     (if legacy then
        (from = StatePending \<and> (to = StateRunning \<or> to = StateCancelled)) \<or>
        (from = StateRunning \<and> (to = StateCompleted \<or> to = StateFailed \<or> to = StateCancelled))
      else if from = StateDraft then to = StateContractDrafting
      else if from = StateContractDrafting then to = StateContractProposed
      else if from = StateContractProposed then to = StateContractFrozen
      else if from = StateContractFrozen then to = StateRunning
      else if from = StateRunning then to = StateVerifying
      else if from = StateVerifying then
        to = StateVerified \<or> to = StateCompletedWithWaivers \<or> to = StatePartial \<or> to = StateFailed
        \<or> to = StateUnknown \<or> to = StateCancelled
      else if from = StatePartial \<or> from = StateFailed \<or> from = StateUnknown
              \<or> from = StateCompletedWithWaivers then to = StateReopened
      else if from = StateReopened then to = StateRunning
      else False)"

definition terminalTurnState :: "string \<Rightarrow> bool" where
  "terminalTurnState s \<longleftrightarrow> s = TurnStateCompleted \<or> s = TurnStateFailed \<or> s = TurnStateInterrupted"

definition turn_path :: "(string \<times> string) list" where
  "turn_path =
     [(TurnStateAccepted, ''contract_drafting''), (''contract_drafting'', ''freezing_contract''),
      (''freezing_contract'', ''planning_context''), (''planning_context'', ''waiting_provider''),
      (''waiting_provider'', ''receiving_provider''), (''receiving_provider'', ''planning_action''),
      (''planning_action'', ''checkpointing''), (''checkpointing'', ''awaiting_permission''),
      (''awaiting_permission'', ''executing''), (''executing'', ''recording_evidence''),
      (''recording_evidence'', ''returning_result''), (''returning_result'', TurnStateVerifying)]"

text \<open>Reading a missing key of the map gives the empty string, as in Go.\<close>

definition allowedTurnTransition :: "string \<Rightarrow> string \<Rightarrow> bool" where
  "allowedTurnTransition from to =
     (if from = TurnStateAccepted \<and> (to = TurnStateRunning \<or> to = TurnStateFailed \<or> to = TurnStateInterrupted)
      then True
      else if from = TurnStateVerifying \<and> (to = TurnStateCompleted \<or> to = TurnStateFailed \<or> to = TurnStateInterrupted)
      then True
      else (case map_of turn_path from of None \<Rightarrow> '''' | Some s \<Rightarrow> s) = to)"

definition allowedTurnTerminal :: "string \<Rightarrow> string \<Rightarrow> bool" where
  "allowedTurnTerminal from to =
     (if from = TurnStateAccepted then to = TurnStateFailed \<or> to = TurnStateInterrupted
      else from = TurnStateVerifying \<or> from = TurnStateRunning)"

definition turnTerminalState :: "string \<Rightarrow> string" where
  "turnTerminalState kind =
     (if kind = EventTurnCompleted then TurnStateCompleted
      else if kind = EventTurnFailed then TurnStateFailed
      else if kind = EventTurnInterrupted then TurnStateInterrupted else '''')"

definition pending_criterion :: "criterion_def \<Rightarrow> criterion" where
  "pending_criterion d = \<lparr>cr_Definition = d, cr_Status = CriterionPending, cr_EvidenceIDs = [],
     cr_ReceiptIDs = [], cr_Reason = ''''\<rparr>"

fun newCriteria_loop :: "(string, criterion) gomap \<Rightarrow> criterion_def list \<Rightarrow> (string, criterion) gomap res" where
  "newCriteria_loop m [] = Inr m"
| "newCriteria_loop m (d # ds) =
     (if cd_ID d = '''' then Inl ''criterion ID is required''
      else if map_of m (cd_ID d) \<noteq> None then Inl ''duplicate criterion''
      else newCriteria_loop (gput (cd_ID d) (pending_criterion d) m) ds)"

definition newCriteria :: "criterion_def list \<Rightarrow> (string, criterion) gomap res" where
  "newCriteria ds = newCriteria_loop [] ds"

definition validCriterionStatus :: "string \<Rightarrow> bool" where
  "validCriterionStatus s \<longleftrightarrow> s \<in> {''pending'', ''verified'', ''failed'', ''unknown'', ''waived_by_user''}"

definition evidenceAvailable :: "(evidence_id, string) gomap \<Rightarrow> evidence_id list \<Rightarrow> bool" where
  "evidenceAvailable avail evs =
     (if evs = [] then False else list_all (\<lambda>i. map_of avail i = Some ContentAvailable) evs)"

definition aggregateVerification :: "(string, criterion) gomap \<Rightarrow> string" where
  "aggregateVerification m =
     (if m = [] then ValueUnknown
      else if list_ex (\<lambda>(i, c). cd_Required (cr_Definition c) \<and> cr_Status c \<noteq> CriterionVerified) m
      then ValueUnknown
      else ValueKnown)"

definition unknown_outcome :: outcome where
  "unknown_outcome = \<lparr>ou_ContractVersion = 0, ou_State = ValueUnknown, ou_Status = '''',
     ou_CriterionIDs = [], ou_ReceiptIDs = [], ou_UnknownEffects = []\<rparr>"

text \<open>Writing a criterion into the copy the current contract keeps, where it has one.\<close>

definition put_contract_criterion ::
  "u32 \<Rightarrow> string \<Rightarrow> criterion \<Rightarrow> (u32, contract_version) gomap \<Rightarrow> (u32, contract_version) gomap" where
  "put_contract_criterion v cid c cs =
     (case map_of cs v of
        None \<Rightarrow> cs
      | Some cv \<Rightarrow>
          (case cv_Criteria cv of
             None \<Rightarrow> cs
           | Some m \<Rightarrow> gput v (cv\<lparr>cv_Criteria := Some (gput cid c m)\<rparr>) cs))"

definition depends_on :: "evidence_id \<Rightarrow> criterion \<Rightarrow> bool" where
  "depends_on ev c \<longleftrightarrow> cr_Status c = CriterionVerified \<and> ev \<in> set (cr_EvidenceIDs c)"

definition downgrade :: "criterion \<Rightarrow> criterion" where
  "downgrade c = c\<lparr>cr_Status := CriterionUnknown, cr_Reason := ''dependent evidence is unavailable''\<rparr>"

text \<open>One round of the inner loop of \<open>invalidateEvidence\<close>, then the loop over a task's criteria.\<close>

definition invalidate_criterion :: "evidence_id \<Rightarrow> task_record \<Rightarrow> string \<times> criterion \<Rightarrow> task_record" where
  "invalidate_criterion ev r = (\<lambda>(cid, c).
     if depends_on ev c then
       (let c' = downgrade c;
            wasVerified = (tr_State r = StateVerified \<or>
              (ou_State (tr_Outcome r) = ValueKnown \<and> ou_Status (tr_Outcome r) = ''verified''))
        in r\<lparr>tr_Criteria := gput cid c' (tr_Criteria r),
             tr_Contracts := put_contract_criterion (tr_ContractVersion r) cid c' (tr_Contracts r),
             tr_VerificationState := ValueUnknown,
             tr_Outcome := unknown_outcome,
             tr_State := (if wasVerified then StateUnknown else tr_State r)\<rparr>)
     else r)"

definition invalidate_record :: "evidence_id \<Rightarrow> task_record \<Rightarrow> task_record" where
  "invalidate_record ev r = foldl (invalidate_criterion ev) r (tr_Criteria r)"

definition invalidateEvidence :: "evidence_id \<Rightarrow> diagnostic \<Rightarrow> task_projection \<Rightarrow> task_projection" where
  "invalidateEvidence ev d p =
     (let changed = list_ex (\<lambda>(t, r). list_ex (\<lambda>(cid, c). depends_on ev c) (tr_Criteria r)) (tp_Tasks p);
          q = p\<lparr>tp_Tasks := gmap_vals (invalidate_record ev) (tp_Tasks p)\<rparr>
      in if changed then q\<lparr>tp_Diagnostics := tp_Diagnostics q @ [d]\<rparr> else q)"

definition missingEvidenceDiagnostic :: "journal_ref \<Rightarrow> event \<Rightarrow> string \<Rightarrow> diagnostic" where
  "missingEvidenceDiagnostic ref e cid =
     \<lparr>di_Code = ''evidence.unavailable'', di_Message = ''criterion evidence is unavailable'',
      di_Journal = ref, di_AtSeq = 0, di_EventID = en_EventID (e_Envelope e),
      di_Details = Some (''{'' @ write_string ''criterion_id'' @ '':'' @ write_string cid @ ''}'')\<rparr>"

text \<open>
  \<open>json.Unmarshal\<close> of a diagnostic's details into a structure with the one field
  \<open>evidence_id\<close>: \<open>None\<close> where it returns an error. Keys match without regard to case, the last
  member wins, \<open>null\<close> leaves the field as it is.
\<close>

fun unmarshal_evidence_members :: "string \<Rightarrow> (string \<times> json) list \<Rightarrow> string option" where
  "unmarshal_evidence_members cur [] = Some cur"
| "unmarshal_evidence_members cur ((k, v) # ms) =
     (if to_lower k = ''evidence_id'' then
        (case v of
           JStr s \<Rightarrow> unmarshal_evidence_members s ms
         | JNull \<Rightarrow> unmarshal_evidence_members cur ms
         | _ \<Rightarrow> None)
      else unmarshal_evidence_members cur ms)"

definition unmarshal_evidence_id :: "raw_message \<Rightarrow> string option" where
  "unmarshal_evidence_id r =
     (case parse_json (raw_bytes r) of
        Inr (JObj ms) \<Rightarrow> unmarshal_evidence_members '''' ms
      | Inr JNull \<Rightarrow> Some ''''
      | _ \<Rightarrow> None)"

section \<open>The cases of Apply\<close>

definition apply_task_created :: "task_projection \<Rightarrow> event \<Rightarrow> task_projection res" where
  "apply_task_created p e =
     (let t = en_TaskID (e_Envelope e) in
      case e_Decoded e of
        Some (P_TaskCreated v) \<Rightarrow>
          if t = '''' then Inl ''invalid task creation''
          else if map_of (tp_Tasks p) t \<noteq> None then Inl ''task already exists''
          else Inr (p\<lparr>tp_Tasks := gput t
            \<lparr>tr_TaskID = t, tr_Goal = tc_Goal v,
             tr_State = (if e_Legacy e \<noteq> None then StatePending else StateDraft),
             tr_OutcomeContractID = tc_OutcomeContractID v, tr_ContractVersion = tc_ContractVersion v,
             tr_ContractSource = '''', tr_ContractFrozen = False, tr_Criteria = [], tr_Contracts = [],
             tr_Assessments = [], tr_VerificationState = ValueUnknown, tr_Outcome = unknown_outcome,
             tr_OutcomeHistory = [], tr_Legacy = (e_Legacy e \<noteq> None)\<rparr> (tp_Tasks p)\<rparr>)
      | _ \<Rightarrow> Inl ''invalid task creation'')"

definition apply_task_status :: "task_projection \<Rightarrow> event \<Rightarrow> task_projection res" where
  "apply_task_status p e =
     (case e_Decoded e of
        Some (P_TaskStatusChanged v) \<Rightarrow>
          (case map_of (tp_Tasks p) (en_TaskID (e_Envelope e)) of
             None \<Rightarrow> Inl ''task is unknown''
           | Some r0 \<Rightarrow>
               (let from = ts_From v; to = ts_To v;
                    r = (if \<not> tr_Legacy r0 \<and> tr_State r0 = StateDraft \<and> from = StatePending
                            \<and> allowedTaskTransition True from to
                         then r0\<lparr>tr_State := StatePending, tr_Legacy := True\<rparr> else r0)
                in if tr_State r \<noteq> from \<or> \<not> allowedTaskTransition (tr_Legacy r) from to
                   then Inl ''invalid task transition''
                   else Inr (p\<lparr>tp_Tasks := gput (tr_TaskID r) (r\<lparr>tr_State := to\<rparr>) (tp_Tasks p)\<rparr>)))
      | _ \<Rightarrow> Inl ''invalid task transition'')"

definition apply_contract_declared :: "task_projection \<Rightarrow> event \<Rightarrow> task_projection res" where
  "apply_contract_declared p e =
     (case e_Decoded e of
        Some (P_ContractDeclared v) \<Rightarrow>
          (case map_of (tp_Tasks p) (en_TaskID (e_Envelope e)) of
             None \<Rightarrow> Inl ''outcome contract binding mismatch''
           | Some r \<Rightarrow>
               if od_OutcomeContractID v \<noteq> tr_OutcomeContractID r \<or> od_Version v \<noteq> tr_ContractVersion r
               then Inl ''outcome contract binding mismatch''
               else if map_of (tr_Contracts r) (od_Version v) \<noteq> None
               then Inl ''outcome contract version is already declared''
               else (case newCriteria (od_Criteria v) of
                   Inl m \<Rightarrow> Inl m
                 | Inr cs \<Rightarrow> Inr (p\<lparr>tp_Tasks := gput (tr_TaskID r)
                     (r\<lparr>tr_Goal := od_Goal v, tr_ContractSource := od_Source v,
                        tr_ContractFrozen := od_Frozen v, tr_Criteria := cs,
                        tr_Contracts := gput (od_Version v)
                          \<lparr>cv_Version = od_Version v, cv_Goal = od_Goal v, cv_Source = od_Source v,
                           cv_Frozen = od_Frozen v, cv_Criteria = Some cs, cv_AmendmentReason = '''',
                           cv_AmendmentActor = None\<rparr> (tr_Contracts r)\<rparr>) (tp_Tasks p)\<rparr>)))
      | _ \<Rightarrow> Inl ''invalid outcome contract'')"

definition apply_contract_amended :: "task_projection \<Rightarrow> event \<Rightarrow> task_projection res" where
  "apply_contract_amended p e =
     (case e_Decoded e of
        Some (P_ContractAmended v) \<Rightarrow>
          (case map_of (tp_Tasks p) (en_TaskID (e_Envelope e)) of
             None \<Rightarrow> Inl ''outcome contract amendment binding mismatch''
           | Some r \<Rightarrow>
               if oa_OutcomeContractID v \<noteq> tr_OutcomeContractID r \<or> oa_FromVersion v \<noteq> tr_ContractVersion r
                  \<or> oa_ToVersion v \<noteq> oa_FromVersion v + 1
               then Inl ''outcome contract amendment binding mismatch''
               else (case newCriteria (oa_Criteria v) of
                   Inl m \<Rightarrow> Inl m
                 | Inr cs \<Rightarrow> Inr (p\<lparr>tp_Tasks := gput (tr_TaskID r)
                     (r\<lparr>tr_ContractVersion := oa_ToVersion v, tr_ContractFrozen := oa_Frozen v,
                        tr_Criteria := cs,
                        tr_Contracts := gput (oa_ToVersion v)
                          \<lparr>cv_Version = oa_ToVersion v, cv_Goal = tr_Goal r, cv_Source = ''amendment'',
                           cv_Frozen = oa_Frozen v, cv_Criteria = Some cs,
                           cv_AmendmentReason = oa_Reason v, cv_AmendmentActor = Some (oa_Actor v)\<rparr>
                          (tr_Contracts r),
                        tr_VerificationState := ValueUnknown, tr_Outcome := unknown_outcome\<rparr>)
                     (tp_Tasks p)\<rparr>)))
      | _ \<Rightarrow> Inl ''invalid outcome contract amendment'')"

text \<open>The assessed criterion, downgraded where it claims verification without available evidence.\<close>

definition assessed_criterion :: "(evidence_id, string) gomap \<Rightarrow> criterion_assessed \<Rightarrow> criterion \<Rightarrow> criterion" where
  "assessed_criterion avail v c =
     (let c1 = c\<lparr>cr_Status := ca_Status v, cr_EvidenceIDs := ca_EvidenceIDs v,
                 cr_ReceiptIDs := ca_ReceiptIDs v, cr_Reason := ca_Reason v\<rparr>
      in if cr_Status c1 = CriterionVerified \<and> \<not> evidenceAvailable avail (cr_EvidenceIDs c1)
         then c1\<lparr>cr_Status := CriterionUnknown\<rparr> else c1)"

definition assessed_record ::
  "(evidence_id, string) gomap \<Rightarrow> criterion_assessed \<Rightarrow> criterion \<Rightarrow> task_record \<Rightarrow> task_record" where
  "assessed_record avail v c0 r =
     (let c = assessed_criterion avail v c0;
          cs = gput (ca_CriterionID v) c (tr_Criteria r)
      in r\<lparr>tr_Criteria := cs,
           tr_Contracts := put_contract_criterion (ca_ContractVersion v) (ca_CriterionID v) c (tr_Contracts r),
           tr_Assessments := tr_Assessments r @
             [\<lparr>am_ContractVersion = ca_ContractVersion v, am_CriterionID = ca_CriterionID v,
               am_Status = cr_Status c, am_EvidenceIDs = cr_EvidenceIDs c,
               am_ReceiptIDs = cr_ReceiptIDs c, am_Reason = cr_Reason c\<rparr>],
           tr_VerificationState := aggregateVerification cs\<rparr>)"

definition apply_criterion_assessed :: "task_projection \<Rightarrow> event \<Rightarrow> task_projection res" where
  "apply_criterion_assessed p e =
     (case e_Decoded e of
        Some (P_CriterionAssessed v) \<Rightarrow>
          (case map_of (tp_Tasks p) (en_TaskID (e_Envelope e)) of
             None \<Rightarrow> Inl ''criterion assessment contract binding mismatch''
           | Some r \<Rightarrow>
               if ca_OutcomeContractID v \<noteq> tr_OutcomeContractID r \<or> ca_ContractVersion v \<noteq> tr_ContractVersion r
               then Inl ''criterion assessment contract binding mismatch''
               else (case map_of (tr_Criteria r) (ca_CriterionID v) of
                   None \<Rightarrow> Inl ''criterion is unknown''
                 | Some c0 \<Rightarrow>
                     if \<not> validCriterionStatus (ca_Status v) then Inl ''invalid criterion status''
                     else Inr (p\<lparr>
                       tp_Diagnostics :=
                         (if ca_Status v = CriterionVerified
                             \<and> \<not> evidenceAvailable (tp_EvidenceAvailability p) (ca_EvidenceIDs v)
                          then tp_Diagnostics p
                            @ [missingEvidenceDiagnostic (tp_Journal p) e (ca_CriterionID v)]
                          else tp_Diagnostics p),
                       tp_Tasks := gput (tr_TaskID r)
                         (assessed_record (tp_EvidenceAvailability p) v c0 r) (tp_Tasks p)\<rparr>)))
      | _ \<Rightarrow> Inl ''invalid criterion assessment'')"

definition apply_final_assessed :: "task_projection \<Rightarrow> event \<Rightarrow> task_projection res" where
  "apply_final_assessed p e =
     (case e_Decoded e of
        Some (P_FinalAssessed v) \<Rightarrow>
          (case map_of (tp_Tasks p) (en_TaskID (e_Envelope e)) of
             None \<Rightarrow> Inl ''final outcome contract binding mismatch''
           | Some r \<Rightarrow>
               if fa_OutcomeContractID v \<noteq> tr_OutcomeContractID r \<or> fa_ContractVersion v \<noteq> tr_ContractVersion r
               then Inl ''final outcome contract binding mismatch''
               else if fa_Status v = ''verified''
                 \<and> list_ex (\<lambda>(i, c). cd_Required (cr_Definition c) \<and> cr_Status c \<noteq> CriterionVerified) (tr_Criteria r)
               then Inl ''required criterion is not verified''
               else
                 (let o1 = \<lparr>ou_ContractVersion = fa_ContractVersion v, ou_State = ValueKnown,
                           ou_Status = fa_Status v, ou_CriterionIDs = fa_CriterionIDs v,
                           ou_ReceiptIDs = fa_ReceiptIDs v, ou_UnknownEffects = fa_UnknownEffects v\<rparr>
                  in Inr (p\<lparr>tp_Tasks := gput (tr_TaskID r)
                       (r\<lparr>tr_Outcome := o1, tr_OutcomeHistory := tr_OutcomeHistory r @ [o1]\<rparr>) (tp_Tasks p)\<rparr>)))
      | _ \<Rightarrow> Inl ''invalid final outcome'')"

definition apply_turn_accepted :: "task_projection \<Rightarrow> event \<Rightarrow> task_projection res" where
  "apply_turn_accepted p e =
     (let t = en_TurnID (e_Envelope e) in
      case e_Decoded e of
        Some (P_TurnAccepted v) \<Rightarrow>
          if t = '''' then Inl ''invalid accepted turn''
          else if map_of (tp_Turns p) t \<noteq> None then Inl ''turn already exists''
          else if list_ex (\<lambda>(i, u). \<not> terminalTurnState (tu_State u)) (tp_Turns p) then Inl ''turn is still active''
          else Inr (p\<lparr>tp_Turns := gput t
            \<lparr>tu_TurnID = t, tu_TaskID = en_TaskID (e_Envelope e), tu_CommandID = ta_CommandID v,
             tu_Goal = ta_Goal v, tu_OutcomeContractID = ta_OutcomeContractID v,
             tu_ContractVersion = ta_ContractVersion v, tu_State = TurnStateAccepted, tu_Reason = '''',
             tu_ErrorCode = '''', tu_UnknownEffects = []\<rparr> (tp_Turns p)\<rparr>)
      | _ \<Rightarrow> Inl ''invalid accepted turn'')"

definition apply_turn_state_changed :: "task_projection \<Rightarrow> event \<Rightarrow> task_projection res" where
  "apply_turn_state_changed p e =
     (case e_Decoded e of
        Some (P_StateChanged v) \<Rightarrow>
          (case map_of (tp_Turns p) (en_TurnID (e_Envelope e)) of
             None \<Rightarrow> Inl ''invalid turn transition''
           | Some u \<Rightarrow>
               if tu_State u \<noteq> sh_From v \<or> \<not> allowedTurnTransition (sh_From v) (sh_To v)
               then Inl ''invalid turn transition''
               else Inr (p\<lparr>tp_Turns := gput (tu_TurnID u) (u\<lparr>tu_State := sh_To v\<rparr>) (tp_Turns p)\<rparr>))
      | _ \<Rightarrow> Inl ''invalid turn transition'')"

definition apply_turn_terminal :: "task_projection \<Rightarrow> event \<Rightarrow> task_projection res" where
  "apply_turn_terminal p e =
     (case e_Decoded e of
        Some (P_TurnTerminal v) \<Rightarrow>
          (case map_of (tp_Turns p) (en_TurnID (e_Envelope e)) of
             None \<Rightarrow> Inl ''invalid turn transition''
           | Some u \<Rightarrow>
               (let to = turnTerminalState (en_Kind (e_Envelope e)) in
                if \<not> allowedTurnTerminal (tu_State u) to \<or> tt_Status v \<noteq> to
                then Inl ''invalid turn transition''
                else Inr (p\<lparr>tp_Turns := gput (tu_TurnID u)
                  (u\<lparr>tu_State := to, tu_Reason := tt_Reason v, tu_ErrorCode := tt_ErrorCode v,
                     tu_UnknownEffects := tt_UnknownEffects v\<rparr>) (tp_Turns p)\<rparr>)))
      | _ \<Rightarrow> Inl ''invalid terminal turn'')"

definition apply_evidence_recorded :: "task_projection \<Rightarrow> event \<Rightarrow> task_projection res" where
  "apply_evidence_recorded p e =
     (case e_Decoded e of
        Some (P_EvidenceRecorded v) \<Rightarrow>
          (let b = er_Body v;
               q = p\<lparr>tp_EvidenceAvailability := gput (ev_ID b) (ev_Availability b) (tp_EvidenceAvailability p)\<rparr>
           in if ev_Availability b \<noteq> ContentAvailable then
                Inr (invalidateEvidence (ev_ID b)
                  \<lparr>di_Code = ''evidence.'' @ ev_Availability b, di_Message = ''evidence content is unavailable'',
                   di_Journal = tp_Journal q, di_AtSeq = 0, di_EventID = en_EventID (e_Envelope e),
                   di_Details = None\<rparr> q)
              else Inr q)
      | _ \<Rightarrow> Inl ''invalid evidence record'')"

definition apply_recovery_diagnostic :: "task_projection \<Rightarrow> event \<Rightarrow> task_projection res" where
  "apply_recovery_diagnostic p e =
     (case e_Decoded e of
        Some (P_Diagnostic d) \<Rightarrow>
          if di_Code d = ''evidence.missing'' \<or> di_Code d = ''evidence.corrupt'' then
            (case unmarshal_evidence_id (di_Details d) of
               Some ev \<Rightarrow>
                 if ev \<noteq> '''' then
                   Inr (invalidateEvidence ev d (p\<lparr>tp_EvidenceAvailability :=
                     gput ev ContentMissing (tp_EvidenceAvailability p)\<rparr>))
                 else Inr p
             | None \<Rightarrow> Inr p)
          else Inr p
      | _ \<Rightarrow> Inl ''invalid recovery diagnostic'')"

text \<open>The \<open>switch\<close> on the kind, as the table of its cases; every other kind leaves the projection as it is.\<close>

definition task_cases :: "(string \<times> (task_projection \<Rightarrow> event \<Rightarrow> task_projection res)) list" where
  "task_cases =
     [(EventTaskCreated, apply_task_created), (EventTaskStatusChanged, apply_task_status),
      (EventOutcomeContractDeclared, apply_contract_declared),
      (EventOutcomeContractAmended, apply_contract_amended),
      (EventOutcomeCriterionAssessed, apply_criterion_assessed),
      (EventOutcomeFinalAssessed, apply_final_assessed), (EventTurnAccepted, apply_turn_accepted),
      (EventTurnStateChanged, apply_turn_state_changed), (EventTurnCompleted, apply_turn_terminal),
      (EventTurnFailed, apply_turn_terminal), (EventTurnInterrupted, apply_turn_terminal),
      (EventEvidenceRecorded, apply_evidence_recorded),
      (EventRecoveryDiagnostic, apply_recovery_diagnostic)]"

definition task_Apply :: "task_projection \<Rightarrow> event \<Rightarrow> task_projection res" where
  "task_Apply p e =
     (case ValidateFoundationEvent e of
        Some m \<Rightarrow> Inl m
      | None \<Rightarrow> (case map_of task_cases (en_Kind (e_Envelope e)) of None \<Rightarrow> Inr p | Some h \<Rightarrow> h p e))"

end
