(* ===== verification/Projection_Store.thy ===== *)
theory Projection_Store
  imports Events
begin

text \<open>
  The projection store, \<open>internal/projection/store.go\<close>: applying the records of a journal one
  committed transaction at a time, rebuilding a projection, projecting it at one cursor, bringing
  a snapshot up to date page by page, and the cache of snapshots.

  The projector is a record of its three methods. The journal repository is an interface whose
  implementation is another component: it is a record of the reads the store makes, its
  \<open>ReadRange\<close> also given the number of the read, so that the journal may change between reads.
  The digest of a snapshot's body (canonical JSON and SHA-256) is the argument \<open>dig\<close>. A cache is
  \<open>MemoryCache\<close>, or none. Go's deep copies have no counterpart: values are immutable here.
\<close>

section \<open>State\<close>

record 's projector =
  pj_Version :: u32
  pj_Zero :: "journal_ref \<Rightarrow> 's"
  pj_Apply :: "'s \<Rightarrow> event \<Rightarrow> 's res"

record 's snapshot =
  sn_ProjectionVersion :: u32
  sn_Head :: cursor
  sn_State :: 's
  sn_Digest :: digest

record inspection =
  in_Journal :: journal_ref
  in_Head :: cursor
  in_Events :: "event list"
  in_Writable :: bool

record event_page =
  pg_Events :: "event list"
  pg_Cursor :: cursor
  pg_Head :: cursor
  pg_More :: bool

record read_range_request =
  rr_Journal :: journal_ref
  rr_After :: cursor
  rr_Limit :: int

record repository =
  rp_Inspect :: "journal_ref \<Rightarrow> inspection res"
  rp_Head :: "journal_ref \<Rightarrow> cursor res"
  rp_ReadRange :: "nat \<Rightarrow> read_range_request \<Rightarrow> event_page res"

abbreviation ErrReadOnlyPrefix :: string where
  "ErrReadOnlyPrefix \<equiv> ''projection source is a read-only validated prefix''"

text \<open>
  A method's two results: the snapshot (\<open>None\<close> the zero snapshot) and the errors it joins
  (\<open>[]\<close> is \<open>nil\<close>).
\<close>

type_synonym 's reply = "'s snapshot option \<times> string list"
type_synonym 's digester = "u32 \<Rightarrow> cursor \<Rightarrow> 's \<Rightarrow> digest res"
type_synonym 's mem_cache = "(string, 's snapshot) gomap"

section \<open>Transactions\<close>

definition sameCommittedTransaction :: "event \<Rightarrow> event \<Rightarrow> bool" where
  "sameCommittedTransaction left right =
     (case (e_Legacy left, e_Legacy right) of
        (None, None) \<Rightarrow> en_TransactionID (e_Envelope left) \<noteq> ''''
          \<and> en_TransactionID (e_Envelope left) = en_TransactionID (e_Envelope right)
      | (Some l, Some r) \<Rightarrow> lg_EventID l = lg_EventID r
      | _ \<Rightarrow> False)"

fun contiguous :: "transaction_id \<Rightarrow> u64 \<Rightarrow> event list \<Rightarrow> bool" where
  "contiguous t s [] = True"
| "contiguous t s (r # rs) = (e_Legacy r = None \<and> en_TransactionID (e_Envelope r) = t
     \<and> en_Seq (e_Envelope r) = s \<and> contiguous t (s + 1) rs)"

definition committedTransactionCursor :: "journal_ref \<Rightarrow> event list \<Rightarrow> cursor res" where
  "committedTransactionCursor ref rs =
     (case rs of
        [] \<Rightarrow> Inl ''projection transaction is empty''
      | first # _ \<Rightarrow>
          (case e_Legacy first of
             Some l \<Rightarrow>
               if length rs \<noteq> 1 \<or> lg_EventID l = '''' \<or> lg_Seq l = 0
               then Inl ''invalid legacy projection transaction''
               else Inr \<lparr>cu_JournalKind = jr_Kind ref, cu_JournalID = jr_ID ref, cu_CommitSeq = lg_Seq l,
                         cu_TransactionID = ''legacy:'' @ lg_EventID l\<rparr>
           | None \<Rightarrow>
               (let f = e_Envelope first; l = e_Envelope (last rs) in
                if en_TransactionID f = '''' \<or> en_Seq f = 0 \<or> en_Seq l < en_Seq f
                then Inl ''invalid v2 projection transaction identity''
                else if \<not> contiguous (en_TransactionID f) (en_Seq f) rs
                then Inl ''noncontiguous projection transaction''
                else Inr \<lparr>cu_JournalKind = jr_Kind ref, cu_JournalID = jr_ID ref,
                          cu_CommitSeq = en_Seq l + 1, cu_TransactionID = en_TransactionID f\<rparr>)))"

text \<open>The first transaction of a nonempty run of records, and the records after it.\<close>

definition first_tx :: "event \<Rightarrow> event list \<Rightarrow> event list" where
  "first_tx r rs = r # takeWhile (sameCommittedTransaction r) rs"

definition rest_tx :: "event \<Rightarrow> event list \<Rightarrow> event list" where
  "rest_tx r rs = dropWhile (sameCommittedTransaction r) rs"

lemma length_rest_tx [termination_simp]: "length (rest_tx r rs) < Suc (length rs)"
  by (simp add: rest_tx_def less_Suc_eq_le length_dropWhile_le)

lemma first_rest_tx: "first_tx r rs @ rest_tx r rs = r # rs"
  by (simp add: first_tx_def rest_tx_def)

text \<open>
  \<open>applyCommittedTransactions\<close>: the state and head reached, and the error that stopped it. A
  transaction counts as a whole: an error in it leaves the state before it.
\<close>

fun applyCommittedTransactions ::
  "('s \<Rightarrow> event \<Rightarrow> 's res) \<Rightarrow> journal_ref \<Rightarrow> 's \<Rightarrow> cursor \<Rightarrow> event list \<Rightarrow> 's \<times> cursor \<times> string option" where
  "applyCommittedTransactions apply ref state head [] = (state, head, None)"
| "applyCommittedTransactions apply ref state head (r # rs) =
     (case fold_res apply state (first_tx r rs) of
        Inl m \<Rightarrow> (state, head, Some m)
      | Inr candidate \<Rightarrow>
          (case committedTransactionCursor ref (first_tx r rs) of
             Inl m \<Rightarrow> (state, head, Some m)
           | Inr c \<Rightarrow>
               if head \<noteq> zero_cursor \<and> cu_CommitSeq c \<le> cu_CommitSeq head
               then (state, head, Some ''projection transaction cursor did not advance'')
               else applyCommittedTransactions apply ref candidate c (rest_tx r rs)))"

section \<open>Snapshots\<close>

definition cursorJournal :: "cursor \<Rightarrow> journal_ref" where
  "cursorJournal c = \<lparr>jr_Kind = cu_JournalKind c, jr_ID = cu_JournalID c\<rparr>"

definition make_snapshot :: "'s projector \<Rightarrow> 's digester \<Rightarrow> cursor \<Rightarrow> 's \<Rightarrow> 's snapshot res" where
  "make_snapshot pj dig head state =
     (case dig (pj_Version pj) head state of
        Inl m \<Rightarrow> Inl m
      | Inr d \<Rightarrow> Inr \<lparr>sn_ProjectionVersion = pj_Version pj, sn_Head = head, sn_State = state, sn_Digest = d\<rparr>)"

definition validateSnapshot :: "'s digester \<Rightarrow> 's snapshot \<Rightarrow> string option" where
  "validateSnapshot dig sn = first_err
     [fail_if (sn_ProjectionVersion sn = 0) ''projection version is required'',
      CommittedCursor_Validate (sn_Head sn),
      (case dig (sn_ProjectionVersion sn) (sn_Head sn) (sn_State sn) of
         Inl m \<Rightarrow> Some m
       | Inr d \<Rightarrow> fail_if (sn_Digest sn \<noteq> d) ''projection snapshot digest mismatch'')]"

definition cacheKey :: "journal_ref \<Rightarrow> string" where
  "cacheKey ref = jr_Kind ref @ nul @ jr_ID ref"

definition cache_Load :: "'s mem_cache \<Rightarrow> journal_ref \<Rightarrow> 's snapshot option" where
  "cache_Load c ref = map_of c (cacheKey ref)"

definition cache_Store :: "'s mem_cache \<Rightarrow> journal_ref \<Rightarrow> 's snapshot \<Rightarrow> 's mem_cache res" where
  "cache_Store c ref sn =
     (case JournalRef_Validate ref of Some m \<Rightarrow> Inl m | None \<Rightarrow> Inr (gput (cacheKey ref) sn c))"

definition cache_Delete :: "'s mem_cache \<Rightarrow> journal_ref \<Rightarrow> 's mem_cache" where
  "cache_Delete c ref = filter (\<lambda>(k, sn). k \<noteq> cacheKey ref) c"

text \<open>The last steps of \<open>Rebuild\<close> and \<open>Update\<close>: write the cache, if there is one, and return.\<close>

definition store_and_return ::
  "'s mem_cache option \<Rightarrow> journal_ref \<Rightarrow> 's snapshot \<Rightarrow> 's snapshot option \<Rightarrow> 's reply \<times> 's mem_cache option" where
  "store_and_return cache ref sn failed =
     (case cache of
        None \<Rightarrow> ((Some sn, []), None)
      | Some c \<Rightarrow> (case cache_Store c ref sn of
          Inl m \<Rightarrow> ((failed, [m]), cache)
        | Inr c' \<Rightarrow> ((Some sn, []), Some c')))"

definition Rebuild ::
  "'s projector \<Rightarrow> 's digester \<Rightarrow> repository \<Rightarrow> 's mem_cache option \<Rightarrow> journal_ref \<Rightarrow> 's reply \<times> 's mem_cache option" where
  "Rebuild pj dig repo cache ref =
     (case JournalRef_Validate ref of
        Some m \<Rightarrow> ((None, [m]), cache)
      | None \<Rightarrow>
     (case rp_Inspect repo ref of
        Inl m \<Rightarrow> ((None, [m]), cache)
      | Inr ins \<Rightarrow>
          if in_Journal ins \<noteq> ref then ((None, [''projection inspection journal mismatch'']), cache)
          else (case applyCommittedTransactions (pj_Apply pj) ref (pj_Zero pj ref) zero_cursor (in_Events ins) of
              (state, head, Some e) \<Rightarrow>
                (case make_snapshot pj dig head state of
                   Inl m \<Rightarrow> ((None, [e, m]), cache)
                 | Inr sn \<Rightarrow> ((Some sn, [ErrReadOnlyPrefix, e]), cache))
            | (state, head, None) \<Rightarrow>
                if in_Events ins \<noteq> [] \<and> head \<noteq> in_Head ins
                then ((None, [''projection rebuild head mismatch'']), cache)
                else (case make_snapshot pj dig (in_Head ins) state of
                    Inl m \<Rightarrow> ((None, [m]), cache)
                  | Inr sn \<Rightarrow>
                      if \<not> in_Writable ins then ((Some sn, [ErrReadOnlyPrefix]), cache)
                      else store_and_return cache ref sn None))))"

section \<open>At\<close>

fun at_loop ::
  "'s projector \<Rightarrow> 's digester \<Rightarrow> journal_ref \<Rightarrow> cursor \<Rightarrow> 's \<Rightarrow> cursor \<Rightarrow> event list \<Rightarrow> 's snapshot res" where
  "at_loop pj dig ref target state head [] = Inl ''projection target cursor was not found''"
| "at_loop pj dig ref target state head (r # rs) =
     (case committedTransactionCursor ref (first_tx r rs) of
        Inl m \<Rightarrow> Inl m
      | Inr c \<Rightarrow>
          if cu_CommitSeq target < cu_CommitSeq c
          then Inl ''projection target is not a committed transaction boundary''
          else (case applyCommittedTransactions (pj_Apply pj) ref state head (first_tx r rs) of
              (state', head', Some e) \<Rightarrow> Inl e
            | (state', head', None) \<Rightarrow>
                if head' = target then make_snapshot pj dig head' state'
                else at_loop pj dig ref target state' head' (rest_tx r rs)))"

definition At ::
  "'s projector \<Rightarrow> 's digester \<Rightarrow> repository \<Rightarrow> journal_ref \<Rightarrow> cursor \<Rightarrow> 's snapshot res" where
  "At pj dig repo ref target =
     (case JournalRef_Validate ref of
        Some m \<Rightarrow> Inl m
      | None \<Rightarrow>
          if CommittedCursor_Validate target \<noteq> None \<or> cursorJournal target \<noteq> ref
          then Inl ''projection target cursor is invalid''
          else (case rp_Inspect repo ref of
              Inl m \<Rightarrow> Inl m
            | Inr ins \<Rightarrow>
                if in_Journal ins \<noteq> ref then Inl ''projection inspection journal mismatch''
                else at_loop pj dig ref target (pj_Zero pj ref) zero_cursor (in_Events ins)))"

section \<open>Update and Load\<close>

text \<open>
  The loop of \<open>Update\<close>; \<open>n\<close> counts the reads. It ends because every further round follows a page
  whose cursor has a larger 64-bit sequence number.
\<close>

definition advances :: "journal_ref \<Rightarrow> cursor \<Rightarrow> cursor \<Rightarrow> event_page \<Rightarrow> bool" where
  "advances ref old projected page \<longleftrightarrow> cursorJournal (pg_Cursor page) = ref
     \<and> cu_CommitSeq old < cu_CommitSeq (pg_Cursor page) \<and> projected = pg_Cursor page"

datatype 's round = Failed "'s reply" | Ended "'s snapshot" | Again "'s snapshot"

definition update_round ::
  "'s projector \<Rightarrow> 's digester \<Rightarrow> repository \<Rightarrow> journal_ref \<Rightarrow> 's snapshot \<Rightarrow> nat \<Rightarrow> 's snapshot \<Rightarrow> 's round" where
  "update_round pj dig repo ref current n updated =
     (case rp_ReadRange repo n \<lparr>rr_Journal = ref, rr_After = sn_Head updated, rr_Limit = 1000\<rparr> of
        Inl m \<Rightarrow> Failed (Some current, [m])
      | Inr page \<Rightarrow>
     (case applyCommittedTransactions (pj_Apply pj) ref (sn_State updated) (sn_Head updated) (pg_Events page) of
        (candidate, head, Some e) \<Rightarrow>
          (case make_snapshot pj dig head candidate of
             Inl m \<Rightarrow> Failed (Some current, [e, m])
           | Inr sn \<Rightarrow> Failed (Some sn, [ErrReadOnlyPrefix, e]))
      | (candidate, head, None) \<Rightarrow>
          (case (if pg_Events page = [] then Inr updated
                 else if CommittedCursor_Validate (pg_Cursor page) \<noteq> None
                 then Inl [''invalid projection page cursor'']
                 else if \<not> advances ref (sn_Head updated) head page
                 then Inl [''projection page cursor did not advance'']
                 else (case make_snapshot pj dig (pg_Cursor page) candidate of Inl m \<Rightarrow> Inl [m] | Inr sn \<Rightarrow> Inr sn)) of
             Inl es \<Rightarrow> Failed (Some current, es)
           | Inr updated' \<Rightarrow>
               if \<not> pg_More page then
                 (if pg_Head page \<noteq> sn_Head updated'
                  then Failed (Some current, [''projection final page did not reach reported head''])
                  else Ended updated')
               else if pg_Events page = []
               then Failed (Some current, [''projection range reported more without advancing''])
               else Again updated')))"

lemma update_round_again:
  "update_round pj dig repo ref current n updated = Again sn \<Longrightarrow>
   cu_CommitSeq (sn_Head updated) < cu_CommitSeq (sn_Head sn)"
  by (auto simp: update_round_def make_snapshot_def advances_def
      split: sum.splits prod.splits option.splits if_split_asm)

function update_loop ::
  "'s projector \<Rightarrow> 's digester \<Rightarrow> repository \<Rightarrow> journal_ref \<Rightarrow> 's snapshot \<Rightarrow> nat \<Rightarrow> 's snapshot
     \<Rightarrow> 's reply + 's snapshot" where
  "update_loop pj dig repo ref current n updated =
     (case update_round pj dig repo ref current n updated of
        Failed r \<Rightarrow> Inl r
      | Ended sn \<Rightarrow> Inr sn
      | Again sn \<Rightarrow> update_loop pj dig repo ref current (Suc n) sn)"
  by pat_completeness auto
termination
proof (relation "measure (\<lambda>(pj, dig, repo, ref, current, n, sn). 2 ^ 64 - unat (cu_CommitSeq (sn_Head sn)))",
    goal_cases)
  case 1
  then show ?case by simp
next
  case (2 pj dig repo ref current n updated sn)
  have "unat (cu_CommitSeq (sn_Head updated)) < unat (cu_CommitSeq (sn_Head sn))"
    using update_round_again [OF 2] by (simp add: word_less_nat_alt)
  moreover have "unat (cu_CommitSeq (sn_Head sn)) < 2 ^ 64"
    using unsigned_less [of "cu_CommitSeq (sn_Head sn)", where 'a = nat] by simp
  ultimately show ?case by simp
qed

declare update_loop.simps [simp del]

definition Update ::
  "'s projector \<Rightarrow> 's digester \<Rightarrow> repository \<Rightarrow> 's mem_cache option \<Rightarrow> 's snapshot \<Rightarrow> 's reply \<times> 's mem_cache option" where
  "Update pj dig repo cache current =
     (if sn_ProjectionVersion current \<noteq> pj_Version pj
      then ((Some current, [''projection version mismatch'']), cache)
      else (case validateSnapshot dig current of
        Some m \<Rightarrow> ((Some current, [m]), cache)
      | None \<Rightarrow>
          (let ref = cursorJournal (sn_Head current) in
           case JournalRef_Validate ref of
             Some m \<Rightarrow> ((Some current, [m]), cache)
           | None \<Rightarrow>
               (case update_loop pj dig repo ref current 0 current of
                  Inl r \<Rightarrow> (r, cache)
                | Inr sn \<Rightarrow> store_and_return cache ref sn (Some current)))))"

definition Load ::
  "'s projector \<Rightarrow> 's digester \<Rightarrow> repository \<Rightarrow> 's mem_cache option \<Rightarrow> journal_ref \<Rightarrow> 's reply \<times> 's mem_cache option" where
  "Load pj dig repo cache ref =
     (case JournalRef_Validate ref of
        Some m \<Rightarrow> ((None, [m]), cache)
      | None \<Rightarrow>
     (case cache of
        None \<Rightarrow> Rebuild pj dig repo cache ref
      | Some c \<Rightarrow>
     (case cache_Load c ref of
        None \<Rightarrow> Rebuild pj dig repo cache ref
      | Some sn \<Rightarrow>
          if sn_ProjectionVersion sn \<noteq> pj_Version pj \<or> validateSnapshot dig sn \<noteq> None
             \<or> cursorJournal (sn_Head sn) \<noteq> ref
          then Rebuild pj dig repo cache ref
          else (case rp_Head repo ref of
              Inl m \<Rightarrow> ((None, [m]), cache)
            | Inr h \<Rightarrow> if h = sn_Head sn then ((Some sn, []), cache) else Update pj dig repo cache sn))))"

end
