(* ===== verification/Projector_Contract.thy ===== *)
theory Projector_Contract
  imports Projection_Store
begin

text \<open>
  The contract between the projection store and a projector, as a locale: the zero state satisfies
  the projector's invariant and \<open>Apply\<close> keeps it. The store's lemmas are proved once from it and
  hold for the task, activity and authorization projectors, which interpret it. Facts about the
  store that need no contract come first.
\<close>

section \<open>Transactions as units\<close>

lemma same_tx_sym: "sameCommittedTransaction a b \<Longrightarrow> sameCommittedTransaction b a"
  by (auto simp: sameCommittedTransaction_def split: option.splits)

lemma same_tx_trans:
  "sameCommittedTransaction a b \<Longrightarrow> sameCommittedTransaction b c \<Longrightarrow> sameCommittedTransaction a c"
  by (auto simp: sameCommittedTransaction_def split: option.splits)

lemma same_tx_left:
  "sameCommittedTransaction a b \<Longrightarrow> sameCommittedTransaction a c \<longleftrightarrow> sameCommittedTransaction b c"
  by (meson same_tx_sym same_tx_trans)

text \<open>No transaction runs across the place where the two lists meet.\<close>

definition tx_boundary :: "event list \<Rightarrow> event list \<Rightarrow> bool" where
  "tx_boundary xs ys \<longleftrightarrow> xs = [] \<or> ys = [] \<or> \<not> sameCommittedTransaction (last xs) (hd ys)"

lemma last_first_tx_same:
  "s \<in> set (takeWhile (sameCommittedTransaction r) xs) \<Longrightarrow> sameCommittedTransaction r s"
  by (rule set_takeWhileD [THEN conjunct2])

lemma split_tx_append:
  assumes "tx_boundary (r # xs) ys"
  shows "first_tx r (xs @ ys) = first_tx r xs" "rest_tx r (xs @ ys) = rest_tx r xs @ ys"
proof -
  have all: "\<not> sameCommittedTransaction r (hd ys)"
    if "\<forall>s \<in> set xs. sameCommittedTransaction r s" and "ys \<noteq> []"
  proof (cases "xs = []")
    case False
    then have "sameCommittedTransaction r (last xs)" using that(1) by simp
    then show ?thesis using assms that(2) False same_tx_left [of r "last xs" "hd ys"]
      by (auto simp: tx_boundary_def)
  qed (use assms that in \<open>auto simp: tx_boundary_def\<close>)
  show "first_tx r (xs @ ys) = first_tx r xs"
  proof (cases "\<forall>s \<in> set xs. sameCommittedTransaction r s")
    case True
    then show ?thesis
      using all by (cases ys)
        (auto simp: first_tx_def takeWhile_append intro!: takeWhile_eq_all_conv [THEN iffD2, THEN sym])
  qed (auto simp: first_tx_def takeWhile_append)
  show "rest_tx r (xs @ ys) = rest_tx r xs @ ys"
  proof (cases "\<forall>s \<in> set xs. sameCommittedTransaction r s")
    case True
    then show ?thesis using all by (cases ys) (auto simp: rest_tx_def dropWhile_append)
  qed (auto simp: rest_tx_def dropWhile_append)
qed

lemma tx_boundary_rest: "tx_boundary (r # xs) ys \<Longrightarrow> tx_boundary (rest_tx r xs) ys"
proof -
  assume b: "tx_boundary (r # xs) ys"
  have "rest_tx r xs = [] \<or> last (rest_tx r xs) = last (r # xs)"
    by (metis first_rest_tx last_appendR)
  then show ?thesis using b by (auto simp: tx_boundary_def)
qed

text \<open>
  Projecting a journal in two parts, cut between transactions, is projecting it at once: the
  incremental update of a snapshot gives what a rebuild gives.
\<close>

lemma apply_transactions_append:
  assumes "tx_boundary xs ys"
  shows "applyCommittedTransactions f ref s h (xs @ ys) =
    (case applyCommittedTransactions f ref s h xs of
       (s', h', Some e) \<Rightarrow> (s', h', Some e)
     | (s', h', None) \<Rightarrow> applyCommittedTransactions f ref s' h' ys)"
  using assms
proof (induction f ref s h xs rule: applyCommittedTransactions.induct)
  case (2 f ref s h r rs)
  note sp = split_tx_append [OF 2(2)]
  show ?case
  proof (cases "fold_res f s (first_tx r rs)")
    case (Inr c)
    show ?thesis
    proof (cases "committedTransactionCursor ref (first_tx r rs)")
      case c2: (Inr c2)
      show ?thesis
        using 2(1) [OF Inr c2] tx_boundary_rest [OF 2(2)] Inr c2 sp by simp
    qed (use Inr sp in simp)
  qed (use sp in simp)
qed simp

text \<open>An error never lets part of a transaction through: the result is a run of whole transactions.\<close>

lemma apply_transactions_prefix:
  assumes "applyCommittedTransactions f ref s h xs = (s', h', err)"
  shows "\<exists>ys zs. xs = ys @ zs \<and> tx_boundary ys zs \<and> fold_res f s ys = Inr s' \<and> (err = None \<longrightarrow> zs = [])
    \<and> applyCommittedTransactions f ref s h ys = (s', h', None)"
  using assms
proof (induction f ref s h xs rule: applyCommittedTransactions.induct)
  case (1 f ref s h)
  then show ?case by (simp add: tx_boundary_def)
next
  case (2 f ref s h r rs)
  have stop: ?case if "(s', h') = (s, h)" "err \<noteq> None"
    using that by (intro exI [of _ "[]"] exI [of _ "r # rs"]) (simp add: tx_boundary_def)
  show ?case
  proof (cases "fold_res f s (first_tx r rs)")
    case (Inl m)
    then show ?thesis using 2(2) by (intro stop) auto
  next
    case c1: (Inr c)
    show ?thesis
    proof (cases "committedTransactionCursor ref (first_tx r rs)")
      case (Inl m)
      then show ?thesis using 2(2) c1 by (intro stop) auto
    next
      case c2: (Inr c2)
      show ?thesis
      proof (cases "h \<noteq> zero_cursor \<and> cu_CommitSeq c2 \<le> cu_CommitSeq h")
        case True
        then show ?thesis using 2(2) c1 c2 by (intro stop) auto
      next
        case False
        then have "applyCommittedTransactions f ref c c2 (rest_tx r rs) = (s', h', err)"
          using 2(2) c1 c2 by (simp only: applyCommittedTransactions.simps sum.case if_False)
        from 2(1) [OF c1 c2 False this] obtain ys zs where
          yz: "rest_tx r rs = ys @ zs" "tx_boundary ys zs" "fold_res f c ys = Inr s'" "err = None \<longrightarrow> zs = []"
            "applyCommittedTransactions f ref c c2 ys = (s', h', None)" by blast
        have whole: "r # rs = (first_tx r rs @ ys) @ zs" using first_rest_tx [of r rs] yz(1) by simp
        have head: "zs = [] \<or> ys \<noteq> [] \<or> \<not> sameCommittedTransaction r (hd zs)"
          using yz(1) hd_dropWhile [of "sameCommittedTransaction r" rs] by (auto simp: rest_tx_def)
        have lastf: "last (first_tx r rs) = r \<or> sameCommittedTransaction r (last (first_tx r rs))"
          unfolding first_tx_def by (auto dest: last_first_tx_same [OF last_in_set])
        have b: "tx_boundary (first_tx r rs @ ys) zs"
          using yz(2) head lastf same_tx_left [of r "last (first_tx r rs)" "hd zs"]
          by (cases "ys = []") (auto simp: tx_boundary_def)
        have bf: "tx_boundary (first_tx r rs) ys"
        proof (cases "ys = []")
          case ne: False
          then have "\<not> sameCommittedTransaction r (hd ys)"
            using yz(1) hd_dropWhile [of "sameCommittedTransaction r" rs] by (auto simp: rest_tx_def)
          then show ?thesis
            using lastf same_tx_left [of r "last (first_tx r rs)" "hd ys"] by (auto simp: tx_boundary_def)
        qed (simp add: tx_boundary_def)
        have once: "applyCommittedTransactions f ref s h (first_tx r rs) = (c, c2, None)"
        proof -
          let ?t = "takeWhile (sameCommittedTransaction r) rs"
          have "takeWhile (sameCommittedTransaction r) ?t = ?t" "dropWhile (sameCommittedTransaction r) ?t = []"
            by (auto simp: takeWhile_eq_all_conv dropWhile_eq_Nil_conv dest: last_first_tx_same)
          then have "first_tx r ?t = first_tx r rs" "rest_tx r ?t = []" by (simp_all add: first_tx_def rest_tx_def)
          then show ?thesis using c1 c2 False by (simp add: first_tx_def)
        qed
        have "applyCommittedTransactions f ref s h (first_tx r rs @ ys) = (s', h', None)"
          using apply_transactions_append [OF bf, of f ref s h] once yz(5) by simp
        moreover have "fold_res f s (first_tx r rs @ ys) = Inr s'"
          using c1 yz(3) by (simp add: fold_res_append)
        ultimately show ?thesis using whole b yz(4) by blast
      qed
    qed
  qed
qed

section \<open>Cursors\<close>

lemma committed_cursor_journal:
  "committedTransactionCursor ref rs = Inr c \<Longrightarrow> cursorJournal c = ref"
  by (auto simp: committedTransactionCursor_def cursorJournal_def Let_def
      split: list.splits option.splits if_split_asm)

lemma apply_transactions_head:
  "applyCommittedTransactions f ref s h xs = (s', h', err) \<Longrightarrow>
   (s' = s \<and> h' = h) \<or> (cursorJournal h' = ref \<and> (h = zero_cursor \<or> cu_CommitSeq h < cu_CommitSeq h'))"
proof (induction f ref s h xs rule: applyCommittedTransactions.induct)
  case (2 f ref s h r rs)
  show ?case
  proof (cases "fold_res f s (first_tx r rs)")
    case c1: (Inr c)
    show ?thesis
    proof (cases "committedTransactionCursor ref (first_tx r rs)")
      case c2: (Inr c2)
      show ?thesis
      proof (cases "h \<noteq> zero_cursor \<and> cu_CommitSeq c2 \<le> cu_CommitSeq h")
        case True
        then show ?thesis using 2(2) c1 c2 by simp
      next
        case False
        then have rec: "applyCommittedTransactions f ref c c2 (rest_tx r rs) = (s', h', err)"
          using 2(2) c1 c2 by (simp only: applyCommittedTransactions.simps sum.case if_False)
        have step: "cursorJournal c2 = ref" "h = zero_cursor \<or> cu_CommitSeq h < cu_CommitSeq c2"
          using False committed_cursor_journal [OF c2] by auto
        from 2(1) [OF c1 c2 False rec] show ?thesis
        proof
          assume "s' = c \<and> h' = c2"
          then show ?thesis using step by simp
        next
          assume "cursorJournal h' = ref \<and> (c2 = zero_cursor \<or> cu_CommitSeq c2 < cu_CommitSeq h')"
          then show ?thesis
            using step by (auto simp: zero_cursor_def dest: order.strict_trans)
        qed
      qed
    qed (use 2(2) c1 in simp)
  qed (use 2(2) in simp)
qed simp

section \<open>Rounds of the update loop\<close>

text \<open>What a round that does not fail has done: it projected one page onto the snapshot.\<close>

definition round_step :: "'s projector \<Rightarrow> 's digester \<Rightarrow> journal_ref \<Rightarrow> 's snapshot \<Rightarrow> 's snapshot \<Rightarrow> event list \<Rightarrow> bool" where
  "round_step pj dig ref sn sn' evs \<longleftrightarrow>
     applyCommittedTransactions (pj_Apply pj) ref (sn_State sn) (sn_Head sn) evs = (sn_State sn', sn_Head sn', None)
     \<and> (sn' = sn \<or> (CommittedCursor_Validate (sn_Head sn') = None
          \<and> dig (pj_Version pj) (sn_Head sn') (sn_State sn') = Inr (sn_Digest sn')
          \<and> sn_ProjectionVersion sn' = pj_Version pj \<and> cu_CommitSeq (sn_Head sn) < cu_CommitSeq (sn_Head sn')
          \<and> cursorJournal (sn_Head sn') = ref))"

lemma update_round_step:
  assumes "update_round pj dig repo ref current n sn = Ended sn' \<or> update_round pj dig repo ref current n sn = Again sn'"
  shows "\<exists>page. rp_ReadRange repo n \<lparr>rr_Journal = ref, rr_After = sn_Head sn, rr_Limit = 1000\<rparr> = Inr page
    \<and> round_step pj dig ref sn sn' (pg_Events page)"
proof -
  obtain page where page: "rp_ReadRange repo n \<lparr>rr_Journal = ref, rr_After = sn_Head sn, rr_Limit = 1000\<rparr> = Inr page"
    using assms by (auto simp: update_round_def split: sum.splits)
  obtain cand head err where app: "applyCommittedTransactions (pj_Apply pj) ref (sn_State sn) (sn_Head sn)
      (pg_Events page) = (cand, head, err)" by (metis prod_cases3)
  have none: "err = None"
    using assms page app by (auto simp: update_round_def split: option.splits sum.splits)
  show ?thesis
  proof (cases "pg_Events page = []")
    case True
    then have "sn' = sn"
      using assms page by (auto simp: update_round_def split: if_split_asm)
    then show ?thesis using page True by (auto simp: round_step_def)
  next
    case False
    then have "CommittedCursor_Validate (pg_Cursor page) = None" "advances ref (sn_Head sn) head page"
      "make_snapshot pj dig (pg_Cursor page) cand = Inr sn'"
      using assms page app none
      by (auto simp: update_round_def split: if_split_asm sum.splits)
    then show ?thesis
      using page app none by (auto simp: round_step_def advances_def make_snapshot_def split: sum.splits)
  qed
qed

text \<open>The loop's result projects the pages read, one after the other.\<close>

inductive rounds :: "'s projector \<Rightarrow> 's digester \<Rightarrow> journal_ref \<Rightarrow> 's snapshot \<Rightarrow> 's snapshot \<Rightarrow> event list list \<Rightarrow> bool"
  for pj dig ref where
  rounds_one: "round_step pj dig ref sn sn' evs \<Longrightarrow> rounds pj dig ref sn sn' [evs]"
| rounds_more: "round_step pj dig ref sn sn1 evs \<Longrightarrow> rounds pj dig ref sn1 sn' pages \<Longrightarrow>
    rounds pj dig ref sn sn' (evs # pages)"

lemma update_loop_rounds:
  "update_loop pj dig repo ref current n sn = Inr sn' \<Longrightarrow> \<exists>pages. rounds pj dig ref sn sn' pages"
proof (induction pj dig repo ref current n sn rule: update_loop.induct)
  case (1 pj dig repo ref current n sn)
  show ?case
  proof (cases "update_round pj dig repo ref current n sn")
    case (Failed r)
    then show ?thesis using 1(2) by (simp add: update_loop.simps [of pj dig repo ref current n sn])
  next
    case (Ended sn2)
    then have "sn2 = sn'" using 1(2) by (simp add: update_loop.simps [of pj dig repo ref current n sn])
    then show ?thesis using update_round_step [of pj dig repo ref current n sn sn2] Ended by (blast intro: rounds_one)
  next
    case (Again sn2)
    then have "update_loop pj dig repo ref current (Suc n) sn2 = Inr sn'"
      using 1(2) by (simp add: update_loop.simps [of pj dig repo ref current n sn])
    from 1(1) [OF Again this] obtain pages where "rounds pj dig ref sn2 sn' pages" by blast
    then show ?thesis using update_round_step [of pj dig repo ref current n sn sn2] Again by (blast intro: rounds_more)
  qed
qed

lemma rounds_validate:
  assumes "rounds pj dig ref sn sn' pages" and "validateSnapshot dig sn = None" and "pj_Version pj \<noteq> 0"
    and "sn_ProjectionVersion sn = pj_Version pj"
  shows "validateSnapshot dig sn' = None \<and> sn_ProjectionVersion sn' = pj_Version pj
    \<and> cu_CommitSeq (sn_Head sn) \<le> cu_CommitSeq (sn_Head sn')"
  using assms
proof (induction rule: rounds.induct)
  case (rounds_one sn sn' evs)
  then show ?case by (auto simp: round_step_def validateSnapshot_def)
next
  case (rounds_more sn sn1 evs sn' pages)
  have "validateSnapshot dig sn1 = None \<and> sn_ProjectionVersion sn1 = pj_Version pj
      \<and> cu_CommitSeq (sn_Head sn) \<le> cu_CommitSeq (sn_Head sn1)"
    using rounds_more(1,4-6) by (auto simp: round_step_def validateSnapshot_def)
  with rounds_more(3) rounds_more(5) show ?case by auto
qed

section \<open>Projecting at a cursor\<close>

text \<open>A projection at a cursor is the projection of the whole transactions up to it, and of nothing after.\<close>

lemma at_loop_prefix:
  "at_loop pj dig ref target s h rs = Inr sn \<Longrightarrow>
   \<exists>ys zs. rs = ys @ zs \<and> applyCommittedTransactions (pj_Apply pj) ref s h ys = (sn_State sn, target, None)
     \<and> sn_Head sn = target"
proof (induction pj dig ref target s h rs rule: at_loop.induct)
  case (2 pj dig ref target s h r rs)
  obtain c where c: "committedTransactionCursor ref (first_tx r rs) = Inr c"
    using 2(2) by (auto split: sum.splits)
  obtain s1 h1 err where app: "applyCommittedTransactions (pj_Apply pj) ref s h (first_tx r rs) = (s1, h1, err)"
    by (metis prod_cases3)
  have le: "\<not> cu_CommitSeq target < cu_CommitSeq c" using 2(2) c by (auto split: if_split_asm)
  have none: "err = None" using 2(2) c app le by (auto split: option.splits)
  show ?case
  proof (cases "h1 = target")
    case True
    then have "make_snapshot pj dig h1 s1 = Inr sn" using 2(2) c app le none by simp
    then have "sn_State sn = s1 \<and> sn_Head sn = target" using True by (auto simp: make_snapshot_def split: sum.splits)
    then show ?thesis
      using app none True first_rest_tx [of r rs] by (intro exI [of _ "first_tx r rs"] exI [of _ "rest_tx r rs"]) simp
  next
    case False
    then have rec: "at_loop pj dig ref target s1 h1 (rest_tx r rs) = Inr sn" using 2(2) c app le none by simp
    then obtain ys zs where yz: "rest_tx r rs = ys @ zs"
      "applyCommittedTransactions (pj_Apply pj) ref s1 h1 ys = (sn_State sn, target, None)" "sn_Head sn = target"
      using 2(1) [OF c le app [symmetric] refl none False] by auto
    have "ys \<noteq> []" using yz(2) False by auto
    have all: "applyCommittedTransactions (pj_Apply pj) ref s h (first_tx r rs @ ys) = (sn_State sn, target, None)"
    proof -
      have same: "last (first_tx r rs) = r \<or> sameCommittedTransaction r (last (first_tx r rs))"
        unfolding first_tx_def by (auto dest: last_first_tx_same [OF last_in_set])
      have "\<not> sameCommittedTransaction r (hd ys)"
        using yz(1) \<open>ys \<noteq> []\<close> hd_dropWhile [of "sameCommittedTransaction r" rs] by (auto simp: rest_tx_def)
      then have "tx_boundary (first_tx r rs) ys"
        using same same_tx_left [of r "last (first_tx r rs)" "hd ys"] by (auto simp: tx_boundary_def)
      from apply_transactions_append [OF this, of "pj_Apply pj" ref s h] show ?thesis using app none yz(2) by simp
    qed
    have "r # rs = (first_tx r rs @ ys) @ zs" using first_rest_tx [of r rs] yz(1) by simp
    with all yz(3) show ?thesis by blast
  qed
qed simp

section \<open>The cache\<close>

lemma make_snapshot_valid:
  assumes "make_snapshot pj dig h s = Inr sn" and "CommittedCursor_Validate h = None" and "pj_Version pj \<noteq> 0"
  shows "validateSnapshot dig sn = None" "sn_Head sn = h" "sn_State sn = s" "sn_ProjectionVersion sn = pj_Version pj"
  using assms by (auto simp: make_snapshot_def validateSnapshot_def split: sum.splits)

lemma load_after_rebuild:
  assumes reb: "Rebuild pj dig repo (Some c) ref = ((Some sn, []), cache')"
    and "CommittedCursor_Validate (sn_Head sn) = None" and "pj_Version pj \<noteq> 0"
    and "cursorJournal (sn_Head sn) = ref" and "rp_Head repo ref = Inr (sn_Head sn)"
  shows "Load pj dig repo cache' ref = ((Some sn, []), cache')"
proof -
  have ref: "JournalRef_Validate ref = None"
    using reb by (auto simp: Rebuild_def split: option.splits)
  obtain ins st h where ins: "rp_Inspect repo ref = Inr ins" "make_snapshot pj dig (in_Head ins) st = Inr sn"
    and c: "cache' = Some (gput (cacheKey ref) sn c)"
    using reb ref
    by (auto simp: Rebuild_def store_and_return_def cache_Store_def
        split: sum.splits if_split_asm option.splits prod.splits)
  have "sn_Head sn = in_Head ins" using ins(2) by (auto simp: make_snapshot_def split: sum.splits)
  with ins(2) assms(2,3) have "validateSnapshot dig sn = None" "sn_ProjectionVersion sn = pj_Version pj"
    using make_snapshot_valid [OF ins(2)] by simp_all
  then show ?thesis
    using c assms(4,5) unfolding Load_def ref by (simp add: cache_Load_def)
qed

section \<open>The contract\<close>

locale projector_contract =
  fixes zero :: "journal_ref \<Rightarrow> 's"
    and step :: "'s \<Rightarrow> event \<Rightarrow> 's res"
    and inv :: "'s \<Rightarrow> bool"
    and ok :: "event \<Rightarrow> bool"
  assumes zero_inv: "inv (zero ref)"
    and apply_inv: "step s e = Inr t \<Longrightarrow> ok e \<Longrightarrow> inv s \<Longrightarrow> inv t"
begin

lemma fold_inv: "fold_res step s es = Inr t \<Longrightarrow> list_all ok es \<Longrightarrow> inv s \<Longrightarrow> inv t"
  by (induction es arbitrary: s) (auto split: sum.splits intro: apply_inv)

lemma transactions_inv:
  assumes "applyCommittedTransactions step ref s h es = (s', h', err)" and "list_all ok es" and "inv s"
  shows "inv s'"
proof -
  obtain ys zs where "es = ys @ zs" "fold_res step s ys = Inr s'"
    using apply_transactions_prefix [OF assms(1)] by blast
  then show ?thesis using fold_inv assms(2,3) by simp
qed

lemma rounds_inv:
  assumes "rounds pj dig ref sn sn' pages" and "pj_Apply pj = step" and "list_all (list_all ok) pages"
    and "inv (sn_State sn)"
  shows "inv (sn_State sn')"
  using assms
proof (induction rule: rounds.induct)
  case (rounds_one sn sn' evs)
  then show ?case by (auto simp: round_step_def intro: transactions_inv)
next
  case (rounds_more sn sn1 evs sn' pages)
  have "inv (sn_State sn1)" using rounds_more(1,4-) by (auto simp: round_step_def intro: transactions_inv)
  then show ?case using rounds_more by simp
qed

lemma rebuild_inv:
  assumes "Rebuild pj dig repo cache ref = ((Some sn, errs), cache')"
    and "pj_Zero pj = zero" and "pj_Apply pj = step"
    and "\<And>ins. rp_Inspect repo ref = Inr ins \<Longrightarrow> list_all ok (in_Events ins)"
  shows "inv (sn_State sn)"
proof -
  obtain ins where ins: "rp_Inspect repo ref = Inr ins"
    using assms(1) by (auto simp: Rebuild_def split: option.splits sum.splits)
  obtain st h err where app: "applyCommittedTransactions step ref (zero ref) zero_cursor (in_Events ins) = (st, h, err)"
    by (metis prod_cases3)
  have "sn_State sn = st"
    using assms(1) ins app assms(2,3)
    by (auto simp: Rebuild_def make_snapshot_def store_and_return_def
        split: option.splits sum.splits if_split_asm)
  then show ?thesis using transactions_inv [OF app assms(4) [OF ins] zero_inv] by simp
qed

end

end
