(* ===== verification/Task_Invariants.thy ===== *)
theory Task_Invariants
  imports Task_Projection Projector_Contract
begin

text \<open>
  What every projected task state satisfies: a criterion counts as verified only while all the
  evidence it names is available, the current contract keeps an exact copy of the criteria, the
  verification state agrees with them, and at most one turn is active.
\<close>

section \<open>The invariant\<close>

definition criterion_sound :: "(evidence_id, string) gomap \<Rightarrow> criterion \<Rightarrow> bool" where
  "criterion_sound avail c \<longleftrightarrow> (cr_Status c = CriterionVerified \<longrightarrow> evidenceAvailable avail (cr_EvidenceIDs c))"

definition contract_mirrors :: "task_record \<Rightarrow> bool" where
  "contract_mirrors r \<longleftrightarrow>
     (case map_of (tr_Contracts r) (tr_ContractVersion r) of
        None \<Rightarrow> tr_Criteria r = []
      | Some cv \<Rightarrow> cv_Criteria cv = Some (tr_Criteria r))"

definition verification_agrees :: "task_record \<Rightarrow> bool" where
  "verification_agrees r \<longleftrightarrow>
     (tr_VerificationState r = ValueKnown \<longrightarrow> aggregateVerification (tr_Criteria r) = ValueKnown)"

definition record_inv :: "(evidence_id, string) gomap \<Rightarrow> task_record \<Rightarrow> bool" where
  "record_inv avail r \<longleftrightarrow> gmap_ok (tr_Criteria r)
     \<and> (\<forall>(cid, c) \<in> set (tr_Criteria r). criterion_sound avail c)
     \<and> contract_mirrors r \<and> verification_agrees r"

definition task_inv :: "task_projection \<Rightarrow> bool" where
  "task_inv p \<longleftrightarrow> gmap_ok (tp_Tasks p) \<and> gmap_ok (tp_Turns p)
     \<and> (\<forall>(t, r) \<in> set (tp_Tasks p). tr_TaskID r = t \<and> record_inv (tp_EvidenceAvailability p) r)
     \<and> (\<forall>(t, u) \<in> set (tp_Turns p). tu_TurnID u = t)"

text \<open>The codec's rule for turn transitions, which every stored event has passed.\<close>

definition turn_rule_ok :: "event \<Rightarrow> bool" where
  "turn_rule_ok e =
     (case e_Decoded e of
        Some (P_StateChanged v) \<Rightarrow> semantic_state_changed (en_Kind (e_Envelope e)) v = None
      | _ \<Rightarrow> True)"

section \<open>Invalidation\<close>

lemma gput_mid:
  "k \<notin> set (gkeys xs) \<Longrightarrow> gput k v (xs @ (k, w) # ys) = xs @ (k, v) # ys"
  by (induction xs) (auto simp: gkeys_def)

lemma invalidate_criterion_fields [simp]:
  "tr_TaskID (invalidate_criterion ev r kc) = tr_TaskID r"
  "tr_ContractVersion (invalidate_criterion ev r kc) = tr_ContractVersion r"
  by (simp_all add: invalidate_criterion_def Let_def split: prod.splits)

abbreviation downgraded :: "evidence_id \<Rightarrow> criterion \<Rightarrow> criterion" where
  "downgraded ev c \<equiv> (if depends_on ev c then downgrade c else c)"

lemma map_of_put_contract [simp]:
  "map_of (put_contract_criterion v cid c cs) v =
     map_option (\<lambda>cv. cv\<lparr>cv_Criteria := map_option (gput cid c) (cv_Criteria cv)\<rparr>) (map_of cs v)"
  by (auto simp: put_contract_criterion_def split: option.splits)

lemma gput_not_Nil [simp]: "gput k v m \<noteq> []"
  by (cases m) (auto simp: gput_def split: if_splits)

lemma contract_mirrors_put:
  "contract_mirrors r \<Longrightarrow> tr_Criteria r \<noteq> [] \<Longrightarrow> tr_Criteria s = gput cid c (tr_Criteria r) \<Longrightarrow>
   tr_Contracts s = put_contract_criterion (tr_ContractVersion r) cid c (tr_Contracts r) \<Longrightarrow>
   tr_ContractVersion s = tr_ContractVersion r \<Longrightarrow> contract_mirrors s"
  by (auto simp: contract_mirrors_def split: option.splits)

lemma foldl_invalidate_criteria:
  "tr_Criteria r = xs @ ys \<Longrightarrow> distinct (gkeys (xs @ ys)) \<Longrightarrow>
   tr_Criteria (foldl (invalidate_criterion ev) r ys) = xs @ gmap_vals (downgraded ev) ys"
proof (induction ys arbitrary: r xs)
  case Nil
  then show ?case by simp
next
  case (Cons kc ys)
  obtain k c where kc: "kc = (k, c)" by (cases kc)
  let ?r = "invalidate_criterion ev r kc"
  have nk: "k \<notin> set (gkeys xs)" using Cons.prems(2) kc by (auto simp: gkeys_def)
  have step: "tr_Criteria ?r = (xs @ [(k, downgraded ev c)]) @ ys"
    using Cons.prems(1) kc nk by (simp add: invalidate_criterion_def Let_def gput_mid)
  have "tr_Criteria (foldl (invalidate_criterion ev) ?r ys)
      = (xs @ [(k, downgraded ev c)]) @ gmap_vals (downgraded ev) ys"
    by (rule Cons.IH [OF step]) (use Cons.prems(2) kc in \<open>simp add: gkeys_def\<close>)
  then show ?case using kc by simp
qed

lemma invalidate_record_criteria:
  "gmap_ok (tr_Criteria r) \<Longrightarrow> tr_Criteria (invalidate_record ev r) = gmap_vals (downgraded ev) (tr_Criteria r)"
  using foldl_invalidate_criteria [of r "[]" "tr_Criteria r" ev]
  by (simp add: invalidate_record_def gmap_ok_def)

lemma invalidate_record_fields [simp]:
  "tr_TaskID (invalidate_record ev r) = tr_TaskID r"
  "tr_ContractVersion (invalidate_record ev r) = tr_ContractVersion r"
proof -
  have "tr_TaskID (foldl (invalidate_criterion ev) r ys) = tr_TaskID r
      \<and> tr_ContractVersion (foldl (invalidate_criterion ev) r ys) = tr_ContractVersion r" for ys
    by (induction ys arbitrary: r) simp_all
  then show "tr_TaskID (invalidate_record ev r) = tr_TaskID r"
    and "tr_ContractVersion (invalidate_record ev r) = tr_ContractVersion r"
    by (simp_all add: invalidate_record_def)
qed

lemma invalidate_record_mirrors:
  assumes "contract_mirrors r"
  shows "contract_mirrors (invalidate_record ev r)"
proof -
  have "tr_Criteria r \<noteq> [] \<or> ys = [] \<Longrightarrow> contract_mirrors r \<Longrightarrow>
      contract_mirrors (foldl (invalidate_criterion ev) r ys)" for ys
  proof (induction ys arbitrary: r)
    case (Cons kc ys)
    then have ne: "tr_Criteria r \<noteq> []" by simp
    have "contract_mirrors (invalidate_criterion ev r kc) \<and> tr_Criteria (invalidate_criterion ev r kc) \<noteq> []"
      using Cons.prems(2) ne
      by (cases kc) (auto simp: invalidate_criterion_def Let_def intro: contract_mirrors_put)
    then show ?case using Cons.IH by simp
  qed simp
  with assms show ?thesis by (simp add: invalidate_record_def)
qed

text \<open>A task whose verification survives the invalidation lost no criterion to it.\<close>

lemma invalidate_verification:
  assumes "tr_VerificationState (invalidate_record ev r) = ValueKnown"
  shows "tr_VerificationState r = ValueKnown \<and> list_all (\<lambda>(cid, c). \<not> depends_on ev c) (tr_Criteria r)"
proof -
  have "tr_VerificationState (foldl (invalidate_criterion ev) r ys) = ValueKnown \<Longrightarrow>
      tr_VerificationState r = ValueKnown \<and> list_all (\<lambda>(cid, c). \<not> depends_on ev c) ys" for ys
  proof (induction ys arbitrary: r)
    case (Cons kc ys)
    obtain cid c where kc: "kc = (cid, c)" by (cases kc)
    have "tr_VerificationState (invalidate_criterion ev r kc) = ValueKnown"
      and rest: "list_all (\<lambda>(cid, c). \<not> depends_on ev c) ys"
      using Cons.IH [of "invalidate_criterion ev r kc"] Cons.prems by simp_all
    then have "\<not> depends_on ev c \<and> tr_VerificationState r = ValueKnown"
      unfolding kc invalidate_criterion_def Let_def by (cases "depends_on ev c") simp_all
    with rest kc show ?case by simp
  qed simp
  with assms show ?thesis by (simp add: invalidate_record_def)
qed

lemma gmap_vals_id: "list_all (\<lambda>(k, v). f v = v) m \<Longrightarrow> gmap_vals f m = m"
  by (induction m) (auto simp: gmap_vals_def)

lemma criterion_sound_downgraded:
  assumes "criterion_sound avail c" and "st \<noteq> ContentAvailable"
  shows "criterion_sound (gput ev st avail) (downgraded ev c)"
  using assms
  by (auto simp: criterion_sound_def downgrade_def depends_on_def evidenceAvailable_def list_all_iff
      split: if_splits)

lemma criterion_sound_available:
  "criterion_sound avail c \<Longrightarrow> criterion_sound (gput ev ContentAvailable avail) c"
  by (auto simp: criterion_sound_def evidenceAvailable_def list_all_iff split: if_splits)

lemma record_inv_invalidate:
  assumes "record_inv avail r" and "st \<noteq> ContentAvailable"
  shows "record_inv (gput ev st avail) (invalidate_record ev r)"
proof -
  have ok: "gmap_ok (tr_Criteria r)" and sound: "\<forall>(cid, c) \<in> set (tr_Criteria r). criterion_sound avail c"
    and mir: "contract_mirrors r" and ver: "verification_agrees r"
    using assms(1) by (auto simp: record_inv_def)
  have crit: "tr_Criteria (invalidate_record ev r) = gmap_vals (downgraded ev) (tr_Criteria r)"
    by (rule invalidate_record_criteria [OF ok])
  have "\<forall>(cid, c) \<in> set (gmap_vals (downgraded ev) (tr_Criteria r)). criterion_sound (gput ev st avail) c"
    using sound criterion_sound_downgraded [OF _ assms(2)] by (fastforce simp: gmap_vals_def)
  moreover have "verification_agrees (invalidate_record ev r)"
    unfolding verification_agrees_def
  proof
    assume "tr_VerificationState (invalidate_record ev r) = ValueKnown"
    from invalidate_verification [OF this] have v: "tr_VerificationState r = ValueKnown"
      and "list_all (\<lambda>(cid, c). \<not> depends_on ev c) (tr_Criteria r)" by auto
    then have "tr_Criteria (invalidate_record ev r) = tr_Criteria r"
      unfolding crit by (intro gmap_vals_id) (auto simp: list_all_iff)
    then show "aggregateVerification (tr_Criteria (invalidate_record ev r)) = ValueKnown"
      using ver v by (simp add: verification_agrees_def)
  qed
  ultimately show ?thesis
    using ok by (simp add: record_inv_def crit invalidate_record_mirrors [OF mir])
qed

section \<open>Every event keeps the invariant\<close>

lemma task_inv_put_task:
  assumes "task_inv p" and "tr_TaskID r = t" and "record_inv (tp_EvidenceAvailability p) r"
  shows "task_inv (p\<lparr>tp_Tasks := gput t r (tp_Tasks p)\<rparr>)"
  using assms by (auto simp: task_inv_def dest!: set_gput)

lemma task_inv_put_turn:
  assumes "task_inv p" and "tu_TurnID u = t"
  shows "task_inv (p\<lparr>tp_Turns := gput t u (tp_Turns p)\<rparr>)"
  using assms by (auto simp: task_inv_def dest!: set_gput)

lemma task_inv_diagnostics [simp]: "task_inv (p\<lparr>tp_Diagnostics := ds\<rparr>) = task_inv p"
  "task_inv (p\<lparr>tp_Diagnostics := ds, tp_Tasks := ts\<rparr>) = task_inv (p\<lparr>tp_Tasks := ts\<rparr>)"
  by (simp_all add: task_inv_def)

lemma task_inv_task:
  assumes "task_inv p" and "map_of (tp_Tasks p) t = Some r"
  shows "tr_TaskID r = t" and "record_inv (tp_EvidenceAvailability p) r"
  using assms by (auto simp: task_inv_def dest!: map_of_SomeD)

lemma task_inv_turn: "task_inv p \<Longrightarrow> map_of (tp_Turns p) t = Some u \<Longrightarrow> tu_TurnID u = t"
  by (auto simp: task_inv_def dest!: map_of_SomeD)

lemma newCriteria_loop_spec:
  assumes "newCriteria_loop m ds = Inr cs" and "gmap_ok m"
    and "\<forall>(k, c) \<in> set m. cr_Status c = CriterionPending"
  shows "gmap_ok cs \<and> (\<forall>(k, c) \<in> set cs. cr_Status c = CriterionPending)"
  using assms
proof (induction ds arbitrary: m)
  case (Cons d ds)
  have "\<forall>(k, c) \<in> set (gput (cd_ID d) (pending_criterion d) m). cr_Status c = CriterionPending"
    using Cons.prems(3) by (auto simp: pending_criterion_def dest!: set_gput)
  with Cons show ?case by (auto split: if_splits)
qed simp

lemma newCriteria_spec:
  assumes "newCriteria ds = Inr cs"
  shows "gmap_ok cs" and "\<forall>(k, c) \<in> set cs. criterion_sound avail c"
  using newCriteria_loop_spec [of "[]" ds cs] assms by (fastforce simp: newCriteria_def criterion_sound_def)+

lemma assessed_criterion_sound: "criterion_sound avail (assessed_criterion avail v c)"
  by (simp add: assessed_criterion_def criterion_sound_def Let_def)

lemma record_inv_parts:
  assumes "record_inv avail r"
  shows "gmap_ok (tr_Criteria r)" and "(cid, c) \<in> set (tr_Criteria r) \<Longrightarrow> criterion_sound avail c"
    and "contract_mirrors r" and "verification_agrees r"
  using assms by (auto simp: record_inv_def)

text \<open>Fields outside the criteria, contracts and verification state do not matter.\<close>

lemma record_inv_cong:
  "record_inv avail r \<Longrightarrow> tr_Criteria s = tr_Criteria r \<Longrightarrow> tr_Contracts s = tr_Contracts r \<Longrightarrow>
   tr_ContractVersion s = tr_ContractVersion r \<Longrightarrow> tr_VerificationState s = tr_VerificationState r \<Longrightarrow>
   record_inv avail s"
  by (simp add: record_inv_def contract_mirrors_def verification_agrees_def split: option.splits)

lemma inv_task_created:
  assumes "apply_task_created p e = Inr q" and "task_inv p"
  shows "task_inv q"
  using assms
  by (auto simp: apply_task_created_def Let_def record_inv_def contract_mirrors_def
      verification_agrees_def split: option.splits payload.splits if_splits intro!: task_inv_put_task)

lemma inv_task_status:
  assumes "apply_task_status p e = Inr q" and "task_inv p"
  shows "task_inv q"
  using assms
  by (auto simp: apply_task_status_def Let_def split: option.splits payload.splits if_splits
      intro!: task_inv_put_task dest: task_inv_task intro: record_inv_cong)

lemma record_inv_declared:
  assumes "record_inv avail r" and "newCriteria ds = Inr cs"
    and "map_of (tr_Contracts r) (tr_ContractVersion r) = None"
    and "tr_Criteria s = cs" and "tr_ContractVersion s = tr_ContractVersion r"
    and "map_of (tr_Contracts s) (tr_ContractVersion r) = Some cv" and "cv_Criteria cv = Some cs"
    and "tr_VerificationState s = tr_VerificationState r"
  shows "record_inv avail s"
proof -
  have "tr_VerificationState r \<noteq> ValueKnown"
    using record_inv_parts(3,4) [OF assms(1)] assms(3)
    by (auto simp: contract_mirrors_def verification_agrees_def aggregateVerification_def)
  then show ?thesis
    using newCriteria_spec(1) [OF assms(2)] newCriteria_spec(2) [OF assms(2), of avail] assms(3-)
    by (simp add: record_inv_def contract_mirrors_def verification_agrees_def)
qed

lemma inv_contract_declared:
  assumes "apply_contract_declared p e = Inr q" and "task_inv p"
  shows "task_inv q"
  using assms
  by (auto simp: apply_contract_declared_def split: option.splits payload.splits if_split_asm sum.splits
      intro!: task_inv_put_task intro: record_inv_declared task_inv_task(2))

lemma inv_contract_amended:
  assumes "apply_contract_amended p e = Inr q" and "task_inv p"
  shows "task_inv q"
  using assms newCriteria_spec
  by (auto simp: apply_contract_amended_def record_inv_def contract_mirrors_def verification_agrees_def
      split: option.splits payload.splits if_splits sum.splits intro!: task_inv_put_task)

lemma record_inv_assessed:
  assumes "record_inv avail r" and "map_of (tr_Criteria r) (ca_CriterionID v) = Some c0"
    and "ca_ContractVersion v = tr_ContractVersion r"
  shows "record_inv avail (assessed_record avail v c0 r)"
proof -
  let ?s = "assessed_record avail v c0 r"
  have "tr_Criteria r \<noteq> []" using assms(2) by auto
  then have "contract_mirrors ?s"
    using record_inv_parts(3) [OF assms(1)] assms(3)
    by (rule_tac contract_mirrors_put) (auto simp: assessed_record_def Let_def)
  then show ?thesis
    using record_inv_parts(1,2) [OF assms(1)]
    by (auto simp: record_inv_def verification_agrees_def assessed_record_def Let_def
        assessed_criterion_sound dest!: set_gput)
qed

lemma assessed_record_id [simp]: "tr_TaskID (assessed_record avail v c0 r) = tr_TaskID r"
  by (simp add: assessed_record_def Let_def)

lemma inv_criterion_assessed:
  assumes "apply_criterion_assessed p e = Inr q" and "task_inv p"
  shows "task_inv q"
  using assms
  by (auto simp: apply_criterion_assessed_def task_inv_task(1)
      split: option.splits payload.splits if_split_asm
      intro!: task_inv_put_task record_inv_assessed intro: task_inv_task(2))

lemma inv_final_assessed:
  assumes "apply_final_assessed p e = Inr q" and "task_inv p"
  shows "task_inv q"
  using assms
  by (auto simp: apply_final_assessed_def Let_def split: option.splits payload.splits if_split_asm
      intro!: task_inv_put_task intro: record_inv_cong task_inv_task(2))

lemma inv_turn_accepted:
  assumes "apply_turn_accepted p e = Inr q" and "task_inv p"
  shows "task_inv q"
  using assms
  by (auto simp: apply_turn_accepted_def Let_def split: option.splits payload.splits if_split_asm
      intro!: task_inv_put_turn)

lemma inv_turn_state_changed:
  assumes "apply_turn_state_changed p e = Inr q" and "task_inv p"
  shows "task_inv q"
  using assms
  by (auto simp: apply_turn_state_changed_def split: option.splits payload.splits if_split_asm
      intro!: task_inv_put_turn)

lemma inv_turn_terminal:
  assumes "apply_turn_terminal p e = Inr q" and "task_inv p"
  shows "task_inv q"
  using assms
  by (auto simp: apply_turn_terminal_def Let_def split: option.splits payload.splits if_split_asm
      intro!: task_inv_put_turn)

lemma invalidateEvidence_fields [simp]:
  "tp_Tasks (invalidateEvidence ev d p) = gmap_vals (invalidate_record ev) (tp_Tasks p)"
  "tp_Turns (invalidateEvidence ev d p) = tp_Turns p"
  "tp_EvidenceAvailability (invalidateEvidence ev d p) = tp_EvidenceAvailability p"
  by (simp_all add: invalidateEvidence_def Let_def)

lemma task_inv_invalidate:
  assumes "task_inv p" and "st \<noteq> ContentAvailable"
  shows "task_inv (invalidateEvidence ev d
    (p\<lparr>tp_EvidenceAvailability := gput ev st (tp_EvidenceAvailability p)\<rparr>))"
proof -
  have "record_inv (gput ev st (tp_EvidenceAvailability p)) (invalidate_record ev r)
      \<and> tr_TaskID (invalidate_record ev r) = t" if "(t, r) \<in> set (tp_Tasks p)" for t r
    using assms that record_inv_invalidate by (auto simp: task_inv_def)
  moreover have "gmap_ok (tp_Tasks p)" "gmap_ok (tp_Turns p)" "\<forall>(t, u) \<in> set (tp_Turns p). tu_TurnID u = t"
    using assms(1) by (simp_all add: task_inv_def)
  ultimately show ?thesis
    unfolding task_inv_def by (auto simp: set_gmap_vals simp del: gput_Cons)
qed

lemma record_inv_available:
  "record_inv avail r \<Longrightarrow> record_inv (gput ev ContentAvailable avail) r"
  unfolding record_inv_def by (blast intro: criterion_sound_available)

lemma task_inv_available:
  "task_inv p \<Longrightarrow> task_inv (p\<lparr>tp_EvidenceAvailability := gput ev ContentAvailable (tp_EvidenceAvailability p)\<rparr>)"
  unfolding task_inv_def by (auto simp del: gput_Cons intro: record_inv_available)

lemma inv_evidence_recorded:
  assumes "apply_evidence_recorded p e = Inr q" and "task_inv p"
  shows "task_inv q"
proof -
  obtain v where v: "e_Decoded e = Some (P_EvidenceRecorded v)"
    using assms(1) by (auto simp: apply_evidence_recorded_def split: option.splits payload.splits)
  show ?thesis
  proof (cases "ev_Availability (er_Body v) = ContentAvailable")
    case True
    then show ?thesis
      using assms v by (simp add: apply_evidence_recorded_def Let_def) (metis task_inv_available)
  next
    case False
    then show ?thesis
      using assms v task_inv_invalidate [OF assms(2) False]
      by (simp add: apply_evidence_recorded_def Let_def) blast
  qed
qed

lemma inv_recovery_diagnostic:
  assumes "apply_recovery_diagnostic p e = Inr q" and "task_inv p"
  shows "task_inv q"
  using assms
  by (auto simp: apply_recovery_diagnostic_def split: option.splits payload.splits if_split_asm
      intro: task_inv_invalidate)

lemmas task_case_invs = inv_task_created inv_task_status inv_contract_declared inv_contract_amended
  inv_criterion_assessed inv_final_assessed inv_turn_accepted inv_turn_state_changed inv_turn_terminal
  inv_evidence_recorded inv_recovery_diagnostic

lemma task_Apply_inv:
  assumes "task_Apply p e = Inr q" and "task_inv p"
  shows "task_inv q"
proof (cases "map_of task_cases (en_Kind (e_Envelope e))")
  case None
  with assms show ?thesis by (simp add: task_Apply_def split: option.splits)
next
  case (Some h)
  then have "h \<in> snd ` set task_cases" by (force dest: map_of_SomeD)
  moreover have "h p e = Inr q" using assms(1) Some by (simp add: task_Apply_def split: option.splits)
  ultimately show ?thesis
    using assms(2) unfolding task_cases_def by (auto dest: task_case_invs)
qed

lemma task_Zero_inv: "task_inv (task_Zero ref)"
  by (simp add: task_inv_def task_Zero_def)

section \<open>Case analysis on an applied event\<close>

lemma task_Apply_cases:
  assumes "task_Apply p e = Inr q"
  obtains (skip) "q = p" | (handler) h where "(en_Kind (e_Envelope e), h) \<in> set task_cases" and "h p e = Inr q"
proof (cases "map_of task_cases (en_Kind (e_Envelope e))")
  case None
  with assms show ?thesis by (auto simp: task_Apply_def split: option.splits intro: skip)
next
  case (Some h)
  with assms have "h p e = Inr q" by (simp add: task_Apply_def split: option.splits)
  with Some show ?thesis by (blast intro: handler dest: map_of_SomeD)
qed

text \<open>Which handlers leave the turns or the tasks alone.\<close>

lemma task_handlers_keep_turns:
  "apply_task_created p e = Inr q \<Longrightarrow> tp_Turns q = tp_Turns p"
  "apply_task_status p e = Inr q \<Longrightarrow> tp_Turns q = tp_Turns p"
  "apply_contract_declared p e = Inr q \<Longrightarrow> tp_Turns q = tp_Turns p"
  "apply_contract_amended p e = Inr q \<Longrightarrow> tp_Turns q = tp_Turns p"
  "apply_criterion_assessed p e = Inr q \<Longrightarrow> tp_Turns q = tp_Turns p"
  "apply_final_assessed p e = Inr q \<Longrightarrow> tp_Turns q = tp_Turns p"
  "apply_evidence_recorded p e = Inr q \<Longrightarrow> tp_Turns q = tp_Turns p"
  "apply_recovery_diagnostic p e = Inr q \<Longrightarrow> tp_Turns q = tp_Turns p"
  unfolding apply_task_created_def apply_task_status_def apply_contract_declared_def
    apply_contract_amended_def apply_criterion_assessed_def apply_final_assessed_def
    apply_evidence_recorded_def apply_recovery_diagnostic_def Let_def
  by (auto split: option.splits payload.splits if_split_asm sum.splits)

lemma task_handlers_keep_tasks:
  "apply_turn_accepted p e = Inr q \<Longrightarrow> tp_Tasks q = tp_Tasks p"
  "apply_turn_state_changed p e = Inr q \<Longrightarrow> tp_Tasks q = tp_Tasks p"
  "apply_turn_terminal p e = Inr q \<Longrightarrow> tp_Tasks q = tp_Tasks p"
  unfolding apply_turn_accepted_def apply_turn_state_changed_def apply_turn_terminal_def Let_def
  by (auto split: option.splits payload.splits if_split_asm)

section \<open>Turns\<close>

text \<open>
  How one event can change the turns: it adds an accepted turn while none is active, or moves one
  active turn along the wire format's table, or ends it.
\<close>

definition active :: "turn_record \<Rightarrow> bool" where
  "active u \<longleftrightarrow> \<not> terminalTurnState (tu_State u)"

definition active_turns :: "(turn_id, turn_record) gomap \<Rightarrow> turn_id list" where
  "active_turns m = map fst (filter (\<lambda>(t, u). active u) m)"

inductive turn_step :: "(turn_id, turn_record) gomap \<Rightarrow> (turn_id, turn_record) gomap \<Rightarrow> bool" where
  turn_same: "turn_step m m"
| turn_new: "map_of m t = None \<Longrightarrow> active_turns m = [] \<Longrightarrow>
     tu_TurnID u = t \<Longrightarrow> tu_State u = TurnStateAccepted \<Longrightarrow> turn_step m (gput t u m)"
| turn_move: "map_of m t = Some u \<Longrightarrow> active u \<Longrightarrow> tu_TurnID u' = t \<Longrightarrow> turn_step m (gput t u' m)"

lemma turn_unchanged: "m' = m \<Longrightarrow> turn_step m m'"
  by (simp add: turn_same)

lemma ValidateTurn_from: "ValidateTurn from to = None \<Longrightarrow> \<not> terminalTurnState from"
  by (auto simp: ValidateTurn_def wire_terminalTurnState_def terminalTurnState_def)

lemma allowedTurnTerminal_from: "allowedTurnTerminal from to \<Longrightarrow> \<not> terminalTurnState from"
  by (auto simp: allowedTurnTerminal_def terminalTurnState_def split: if_splits)

lemma active_turns_Nil: "active_turns m = [] \<longleftrightarrow> \<not> list_ex (\<lambda>(i, u). \<not> terminalTurnState (tu_State u)) m"
  by (induction m) (auto simp: active_turns_def active_def)

lemma turn_accepted_step:
  assumes "apply_turn_accepted p e = Inr q"
  shows "turn_step (tp_Turns p) (tp_Turns q)"
  using assms
  by (auto simp: apply_turn_accepted_def Let_def active_turns_Nil
      split: option.splits payload.splits if_split_asm intro!: turn_new)

lemma turn_state_changed_step:
  assumes "apply_turn_state_changed p e = Inr q" and "task_inv p"
    and "turn_rule_ok e" and "en_Kind (e_Envelope e) = EventTurnStateChanged"
  shows "turn_step (tp_Turns p) (tp_Turns q)"
proof -
  obtain v u where v: "e_Decoded e = Some (P_StateChanged v)"
    and u: "map_of (tp_Turns p) (en_TurnID (e_Envelope e)) = Some u" and su: "tu_State u = sh_From v"
    and q: "q = p\<lparr>tp_Turns := gput (tu_TurnID u) (u\<lparr>tu_State := sh_To v\<rparr>) (tp_Turns p)\<rparr>"
    using assms(1) by (auto simp: apply_turn_state_changed_def split: option.splits payload.splits if_split_asm)
  have "active u"
    using assms(3,4) v su by (simp add: turn_rule_ok_def semantic_state_changed_def active_def ValidateTurn_from)
  with u q task_inv_turn [OF assms(2) u] show ?thesis by (auto intro: turn_move)
qed

lemma turn_terminal_step:
  assumes "apply_turn_terminal p e = Inr q" and "task_inv p"
  shows "turn_step (tp_Turns p) (tp_Turns q)"
proof -
  obtain u u' where u: "map_of (tp_Turns p) (en_TurnID (e_Envelope e)) = Some u"
    and "allowedTurnTerminal (tu_State u) (turnTerminalState (en_Kind (e_Envelope e)))"
    and q: "q = p\<lparr>tp_Turns := gput (tu_TurnID u) u' (tp_Turns p)\<rparr>" "tu_TurnID u' = tu_TurnID u"
    using assms(1)
    by (auto simp: apply_turn_terminal_def Let_def split: option.splits payload.splits if_split_asm)
  then have "active u" by (auto simp: active_def dest: allowedTurnTerminal_from)
  with u q task_inv_turn [OF assms(2) u] show ?thesis by (auto intro: turn_move)
qed

lemma task_Apply_turn_step:
  assumes "task_Apply p e = Inr q" and "task_inv p" and "turn_rule_ok e"
  shows "turn_step (tp_Turns p) (tp_Turns q)"
  using assms(1)
proof (cases rule: task_Apply_cases)
  case skip
  then show ?thesis by (simp add: turn_same)
next
  case (handler h)
  then show ?thesis
    using assms(2,3) unfolding task_cases_def
    by (auto intro: turn_unchanged task_handlers_keep_turns turn_accepted_step turn_terminal_step
        turn_state_changed_step)
qed

lemma active_turns_put:
  "map_of m t = Some u \<Longrightarrow> active u \<Longrightarrow> length (active_turns (gput t u' m)) \<le> length (active_turns m)"
  by (induction m) (auto simp: active_turns_def)

lemma turn_step_active:
  assumes "turn_step m m'" and "length (active_turns m) \<le> 1"
  shows "length (active_turns m') \<le> 1"
  using assms(1)
proof (cases rule: turn_step.cases)
  case (turn_new t u)
  then show ?thesis by (simp add: gput_new active_turns_def)
next
  case (turn_move t u u')
  then show ?thesis using active_turns_put [of m t u u'] assms(2) by simp
qed (use assms(2) in simp)

lemma turn_step_frozen:
  assumes "turn_step m m'" and "map_of m t = Some u" and "\<not> active u"
  shows "map_of m' t = Some u"
  using assms(1) by (cases rule: turn_step.cases) (use assms(2,3) in \<open>auto split: if_splits\<close>)

definition turn_inv :: "task_projection \<Rightarrow> bool" where
  "turn_inv p \<longleftrightarrow> task_inv p \<and> length (active_turns (tp_Turns p)) \<le> 1"

lemma turn_inv_Zero [simp]: "turn_inv (task_Zero ref)"
  by (simp add: turn_inv_def task_Zero_inv) (simp add: task_Zero_def active_turns_def)

lemma turn_inv_Apply: "task_Apply p e = Inr q \<Longrightarrow> turn_rule_ok e \<Longrightarrow> turn_inv p \<Longrightarrow> turn_inv q"
  unfolding turn_inv_def by (blast intro: task_Apply_inv turn_step_active task_Apply_turn_step)

section \<open>The projector under the store\<close>

definition task_projector :: "task_projection projector" where
  "task_projector = \<lparr>pj_Version = task_Version, pj_Zero = task_Zero, pj_Apply = task_Apply\<rparr>"

interpretation task_store: projector_contract task_Zero task_Apply turn_inv turn_rule_ok
  by unfold_locales (auto intro: turn_inv_Apply)

end
