(* ===== verification/Samples.thy ===== *)
theory Samples
  imports Events
begin

text \<open>
  Concrete values that the witnesses share: a session journal, events of the kinds the projections
  read, digests and actors. They model no code.
\<close>

definition sample_ref :: journal_ref where
  "sample_ref = \<lparr>jr_Kind = ''session'', jr_ID = ''s1''\<rparr>"

definition sample_envelope :: "string \<Rightarrow> u64 \<Rightarrow> transaction_id \<Rightarrow> envelope" where
  "sample_envelope kind seq tx = \<lparr>en_SchemaVersion = 2, en_PayloadVersion = 1, en_JournalKind = ''session'',
     en_JournalID = ''s1'', en_EventID = ''e'' @ tx, en_SessionID = ''s1'', en_Seq = seq, en_Time = 1,
     en_Kind = kind, en_TaskID = ''task'', en_TurnID = ''turn'', en_ActivityID = ''act'',
     en_ParentActivityID = '''', en_CausationEventID = '''', en_Actor = None,
     en_RuntimeGenerationID = ''g'', en_TransactionID = tx, en_Payload = None\<rparr>"

definition sample_event :: "string \<Rightarrow> u64 \<Rightarrow> transaction_id \<Rightarrow> payload \<Rightarrow> event" where
  "sample_event kind seq tx v = \<lparr>e_Envelope = sample_envelope kind seq tx, e_Decoded = Some v,
     e_RawEnvelope = None, e_Legacy = None\<rparr>"

definition sample_hex :: string where
  "sample_hex = replicate 64 CHR ''a''"

definition sample_digest :: digest where
  "sample_digest = \<lparr>dg_Algorithm = ''sha256'', dg_Value = sample_hex\<rparr>"

definition sample_user :: actor_ref where
  "sample_user = \<lparr>ar_ID = ''u'', ar_Kind = ''user'', ar_Source = ''tui''\<rparr>"


definition sample_tool :: tool_identity where
  "sample_tool = \<lparr>ti_Source = ''builtin'', ti_Authority = ''yordam'', ti_Name = ''read''\<rparr>"

definition sample_request :: auth_request where
  "sample_request = \<lparr>rq_RequestID = ''r1'', rq_Principal = sample_user, rq_Actor = sample_user,
     rq_SessionID = ''s1'', rq_ControlOperationID = '''', rq_TaskID = ''task'', rq_TurnID = ''turn'',
     rq_ActivityID = ''act'', rq_ParentActivityID = '''', rq_CallID = ''call'', rq_QueueID = ''q'',
     rq_Source = sample_tool, rq_SourceRevision = ''builtin-v1'', rq_DescriptorDigest = sample_digest,
     rq_Action = ''read'', rq_Resources = [], rq_ExecutionLocus = ''builtin'',
     rq_RequestedProfile = ''restricted'', rq_EffectiveProfile = ''restricted'', rq_Effect = ''observation'',
     rq_Boundary = ''workspace'', rq_Reversibility = ''not_applicable'', rq_VerificationCoverage = ''full'',
     rq_RuntimeGenerationID = ''g'', rq_PolicyGeneration = ''p1'',
     rq_PolicyProvenance = [\<lparr>pp_Source = ''user'', pp_Revision = ''1'', pp_Generation = ''p1'', pp_HardDeny = False\<rparr>],
     rq_PlanDigest = sample_digest, rq_RequestDigest = sample_digest, rq_DispatchDigest = sample_digest\<rparr>"

lemma sample_digest_valid: "Digest_Validate sample_digest = None"
  by code_simp

lemma sample_request_valid: "AuthorizationRequest_Validate sample_request = None"
  by code_simp

definition sample_decision :: auth_decision where
  "sample_decision = \<lparr>dc_Request = sample_request, dc_Action = ''allow'',
     dc_Scope = \<lparr>sc_Capability = ''read'', sc_Source = sample_tool, sc_Resources = [], sc_Constraints = []\<rparr>,
     dc_Constraints = [], dc_Lifetime = ''session'', dc_PolicySource = ''user'', dc_PolicyGeneration = ''p1'',
     dc_Reason = ''observation inside workspace'', dc_ResolvedActor = None, dc_DecidedAt = 1,
     dc_ExpiresAt = None, dc_PlanDigest = sample_digest, dc_DecisionNonce = ''n1''\<rparr>"

definition sample_consumed :: auth_consumed where
  "sample_consumed = \<lparr>cn_DecisionNonce = ''n1'', cn_DecisionEventID = ''et2'', cn_DecisionDigest = sample_digest,
     cn_RequestID = ''r1'', cn_ActivityID = ''act'', cn_ControlOperationID = '''', cn_CallID = ''call'',
     cn_PlanDigest = sample_digest, cn_RequestDigest = sample_digest, cn_DispatchDigest = sample_digest,
     cn_RuntimeGenerationID = ''g''\<rparr>"

end
