(* ===== verification/Task_Properties.thy ===== *)
theory Task_Properties
  imports Task_Invariants Samples
begin

text \<open>
  What the task projection (\<open>internal/task/projection.go\<close>) promises of every journal it accepts:
  one active turn, no verified criterion without its evidence, ended turns that stay ended, and
  task states that move along the table of transitions. The witnesses run a task from its creation
  to a verified outcome and a completed turn.
\<close>

section \<open>A run\<close>

definition sample_criterion :: criterion_def where
  "sample_criterion = \<lparr>cd_ID = ''k1'', cd_Required = True, cd_Description = ''tests pass'',
     cd_VerificationMethod = ''run'', cd_ExpectedEvidenceKind = ''log'', cd_HumanJudgmentRequired = False\<rparr>"

definition sample_evidence :: "string \<Rightarrow> evidence_record" where
  "sample_evidence availability = \<lparr>er_Body = \<lparr>ev_ID = ''ev1'', ev_Kind = ''log'', ev_WorkspaceID = ''w'',
     ev_SessionID = ''s1'', ev_Availability = availability, ev_Blob = Some sample_digest,
     ev_MediaType = ''text/plain'', ev_Size = 1, ev_ProducingActivityID = ''act'', ev_Actor = sample_user,
     ev_Subject = \<lparr>sr_Kind = ''task'', sr_ID = ''task''\<rparr>, ev_CreatedAt = 1, ev_Redacted = False,
     ev_Truncated = False, ev_OriginalSize = 1, ev_LegacyArtifactAliases = []\<rparr>, er_Digest = sample_digest\<rparr>"

definition sample_task_events :: "event list" where
  "sample_task_events =
     [sample_event EventTaskCreated 1 ''t1''
        (P_TaskCreated \<lparr>tc_Goal = ''goal'', tc_OutcomeContractID = ''oc'', tc_ContractVersion = 1\<rparr>),
      sample_event EventOutcomeContractDeclared 3 ''t2''
        (P_ContractDeclared \<lparr>od_OutcomeContractID = ''oc'', od_Version = 1, od_Goal = ''goal'', od_Source = ''user'',
           od_Frozen = True, od_Criteria = [sample_criterion]\<rparr>),
      sample_event EventEvidenceRecorded 5 ''t3'' (P_EvidenceRecorded (sample_evidence ContentAvailable)),
      sample_event EventOutcomeCriterionAssessed 7 ''t4''
        (P_CriterionAssessed \<lparr>ca_OutcomeContractID = ''oc'', ca_ContractVersion = 1, ca_CriterionID = ''k1'',
           ca_Status = CriterionVerified, ca_EvidenceIDs = [''ev1''], ca_ReceiptIDs = [], ca_Reason = ''ok''\<rparr>)]"

definition sample_final :: event where
  "sample_final = sample_event EventOutcomeFinalAssessed 9 ''t5''
     (P_FinalAssessed \<lparr>fa_OutcomeContractID = ''oc'', fa_ContractVersion = 1, fa_Status = ''verified'',
        fa_CriterionIDs = [''k1''], fa_ReceiptIDs = [], fa_UnknownEffects = []\<rparr>)"

definition sample_turn_events :: "event list" where
  "sample_turn_events =
     [sample_event EventTurnAccepted 11 ''t6''
        (P_TurnAccepted \<lparr>ta_CommandID = ''c1'', ta_Goal = ''goal'', ta_OutcomeContractID = ''oc'', ta_ContractVersion = 1\<rparr>),
      sample_event EventTurnStateChanged 13 ''t7''
        (P_StateChanged \<lparr>sh_From = TurnStateAccepted, sh_To = TurnStateRunning, sh_Reason = ''''\<rparr>),
      sample_event EventTurnCompleted 15 ''t8''
        (P_TurnTerminal \<lparr>tt_Status = TurnStateCompleted, tt_Reason = '''', tt_ErrorCode = '''', tt_UnknownEffects = []\<rparr>)]"

definition sample_lost :: event where
  "sample_lost = sample_event EventEvidenceRecorded 17 ''t9'' (P_EvidenceRecorded (sample_evidence ContentMissing))"

abbreviation run :: "event list \<Rightarrow> task_projection res" where
  "run es \<equiv> fold_res task_Apply (task_Zero sample_ref) es"

lemma run_accepts:
  "run sample_turn_events = Inr (projr (run sample_turn_events))"
  "run sample_task_events = Inr (projr (run sample_task_events))"
  "run (sample_task_events @ [sample_final]) = Inr (projr (run (sample_task_events @ [sample_final])))"
proof -
  have "\<not> isl (run sample_turn_events)" "\<not> isl (run sample_task_events)"
    "\<not> isl (run (sample_task_events @ [sample_final]))" by code_simp+
  then show "run sample_turn_events = Inr (projr (run sample_turn_events))"
    "run sample_task_events = Inr (projr (run sample_task_events))"
    "run (sample_task_events @ [sample_final]) = Inr (projr (run (sample_task_events @ [sample_final])))"
    by simp_all
qed

section \<open>Properties\<close>




lemma reachable_task_inv: "fold_res task_Apply (task_Zero ref) es = Inr p \<Longrightarrow> task_inv p"
  by (erule fold_res_inv [where P = task_inv]) (auto intro: task_Zero_inv task_Apply_inv)

text \<open>
  C1. A criterion that stands as verified lists evidence, and all of it is available: an
  assessment cannot claim verification without it, and evidence that is lost later takes the
  verification away.
\<close>

theorem verified_has_evidence:
  assumes "fold_res task_Apply (task_Zero ref) es = Inr p"
    and "map_of (tp_Tasks p) t = Some r" and "map_of (tr_Criteria r) cid = Some c"
    and "cr_Status c = CriterionVerified"
  shows "cr_EvidenceIDs c \<noteq> []
    \<and> (\<forall>ev \<in> set (cr_EvidenceIDs c). map_of (tp_EvidenceAvailability p) ev = Some ContentAvailable)"
proof -
  have "criterion_sound (tp_EvidenceAvailability p) c"
    using task_inv_task(2) [OF reachable_task_inv [OF assms(1)] assms(2)] assms(3)
    by (blast intro: record_inv_parts(2) map_of_mem)
  then show ?thesis using assms(4)
    by (auto simp: criterion_sound_def evidenceAvailable_def list_all_iff split: if_splits)
qed

theorem verified_has_evidence_witness:
  "map_of (tp_EvidenceAvailability (projr (run sample_task_events))) ''ev1'' = Some ContentAvailable"
proof -
  let ?p = "projr (run sample_task_events)"
  let ?r = "the (map_of (tp_Tasks ?p) ''task'')"
  let ?c = "the (map_of (tr_Criteria ?r) ''k1'')"
  have "map_of (tp_Tasks ?p) ''task'' \<noteq> None" "map_of (tr_Criteria ?r) ''k1'' \<noteq> None"
    "cr_Status ?c = CriterionVerified" "''ev1'' \<in> set (cr_EvidenceIDs ?c)" by code_simp+
  then show ?thesis
    using verified_has_evidence [OF run_accepts(2), of "''task''" ?r "''k1''" ?c] by force
qed

text \<open>
  C3. A final assessment of a task as verified is accepted only while every required criterion of its
  contract is verified and the evidence of each is available, and it is recorded as the task's outcome.
\<close>

theorem final_verified_sound:
  assumes "fold_res task_Apply (task_Zero ref) es = Inr p" and "task_Apply p e = Inr q"
    and "en_Kind (e_Envelope e) = EventOutcomeFinalAssessed" and "e_Decoded e = Some (P_FinalAssessed v)"
    and "fa_Status v = ''verified''"
  shows "\<exists>r r'. map_of (tp_Tasks p) (en_TaskID (e_Envelope e)) = Some r
    \<and> map_of (tp_Tasks q) (en_TaskID (e_Envelope e)) = Some r' \<and> ou_Status (tr_Outcome r') = ''verified''
    \<and> (\<forall>cid c. map_of (tr_Criteria r) cid = Some c \<and> cd_Required (cr_Definition c) \<longrightarrow>
         cr_Status c = CriterionVerified \<and> evidenceAvailable (tp_EvidenceAvailability p) (cr_EvidenceIDs c))"
proof -
  have inv: "task_inv p" by (rule reachable_task_inv [OF assms(1)])
  have "map_of task_cases EventOutcomeFinalAssessed = Some apply_final_assessed" by (simp add: task_cases_def)
  then have app: "apply_final_assessed p e = Inr q"
    using assms(2,3) by (simp add: task_Apply_def split: option.splits)
  then obtain r where r: "map_of (tp_Tasks p) (en_TaskID (e_Envelope e)) = Some r"
    using assms(4) by (auto simp: apply_final_assessed_def split: option.splits)
  note rec = task_inv_task [OF inv r]
  have req: "\<not> list_ex (\<lambda>(i, c). cd_Required (cr_Definition c) \<and> cr_Status c \<noteq> CriterionVerified) (tr_Criteria r)"
    and out: "\<exists>r'. map_of (tp_Tasks q) (en_TaskID (e_Envelope e)) = Some r' \<and> ou_Status (tr_Outcome r') = ''verified''"
    using app assms(4,5) r rec(1) by (auto simp: apply_final_assessed_def Let_def split: if_split_asm)
  have "cr_Status c = CriterionVerified \<and> evidenceAvailable (tp_EvidenceAvailability p) (cr_EvidenceIDs c)"
    if "map_of (tr_Criteria r) cid = Some c" "cd_Required (cr_Definition c)" for cid c
    using that req record_inv_parts(2) [OF rec(2) map_of_mem [OF that(1)]]
    by (auto simp: list_ex_iff criterion_sound_def dest: map_of_mem)
  then show ?thesis using r out by blast
qed

theorem final_verified_sound_witness:
  "\<exists>r'. map_of (tp_Tasks (projr (task_Apply (projr (run sample_task_events)) sample_final))) ''task'' = Some r'
    \<and> ou_Status (tr_Outcome r') = ''verified''"
proof -
  let ?q = "task_Apply (projr (run sample_task_events)) sample_final"
  have "\<not> isl ?q" by code_simp
  then have q: "?q = Inr (projr ?q)" by simp
  have k: "en_Kind (e_Envelope sample_final) = EventOutcomeFinalAssessed"
    "en_TaskID (e_Envelope sample_final) = ''task''"
    by (simp_all add: sample_final_def sample_event_def sample_envelope_def)
  show ?thesis
    using final_verified_sound [OF run_accepts(2) q k(1)] k(2)
    by (fastforce simp: sample_final_def sample_event_def)
qed


lemma turns_frozen:
  "fold_res task_Apply p es = Inr q \<Longrightarrow> turn_inv p \<Longrightarrow> list_all turn_rule_ok es \<Longrightarrow>
   map_of (tp_Turns p) t = Some u \<Longrightarrow> \<not> active u \<Longrightarrow> map_of (tp_Turns q) t = Some u"
proof (induction es arbitrary: p)
  case (Cons e es)
  obtain p1 where p1: "task_Apply p e = Inr p1" "fold_res task_Apply p1 es = Inr q"
    using Cons.prems(1) by (auto split: sum.splits)
  have "turn_step (tp_Turns p) (tp_Turns p1)"
    using task_Apply_turn_step [OF p1(1)] Cons.prems(2,3) by (simp add: turn_inv_def)
  then have "map_of (tp_Turns p1) t = Some u" using Cons.prems(4,5) by (rule turn_step_frozen)
  then show ?case
    using Cons.IH [OF p1(2)] turn_inv_Apply [OF p1(1)] Cons.prems by simp
qed simp

text \<open>
  A turn that has completed, failed or been interrupted is never changed by a later event.
\<close>

theorem ended_turn_frozen:
  assumes "fold_res task_Apply (task_Zero ref) es = Inr p" and "list_all turn_rule_ok es"
    and "fold_res task_Apply p es' = Inr q" and "list_all turn_rule_ok es'"
    and "map_of (tp_Turns p) t = Some u" and "terminalTurnState (tu_State u)"
  shows "map_of (tp_Turns q) t = Some u"
  using turns_frozen [OF assms(3) task_store.fold_inv [OF assms(1,2) turn_inv_Zero] assms(4,5)] assms(6)
  by (simp add: active_def)

theorem ended_turn_frozen_witness:
  "map_of (tp_Turns (projr (fold_res task_Apply (projr (run sample_turn_events)) sample_task_events))) ''turn''
     = map_of (tp_Turns (projr (run sample_turn_events))) ''turn''"
proof -
  let ?p = "projr (run sample_turn_events)"
  let ?q = "fold_res task_Apply ?p sample_task_events"
  let ?u = "the (map_of (tp_Turns ?p) ''turn'')"
  have "\<not> isl ?q" by code_simp
  then have q: "?q = Inr (projr ?q)" by simp
  have ok: "list_all turn_rule_ok sample_turn_events" "list_all turn_rule_ok sample_task_events" by code_simp+
  have "map_of (tp_Turns ?p) ''turn'' \<noteq> None" "terminalTurnState (tu_State ?u)" by code_simp+
  then show ?thesis
    using ended_turn_frozen [OF run_accepts(1) ok(1) q ok(2), of "''turn''" ?u] by auto
qed

text \<open>
  The two tables of turn transitions, the codec's \<open>ValidateTurn\<close> and the projection's
  \<open>allowedTurnTransition\<close>, agree on every pair of states but one case: the codec lets a running turn
  end by a state change, which the projection accepts only as a terminal event.
\<close>

theorem turn_tables_agree:
  assumes "to \<noteq> ''''"
  shows "ValidateTurn from to = None \<longleftrightarrow>
    allowedTurnTransition from to \<or> (from = TurnStateRunning \<and> terminalTurnState to)"
proof -
  let ?agree = "\<lambda>(from, to). (ValidateTurn from to = None) =
    (allowedTurnTransition from to \<or> (from = TurnStateRunning \<and> terminalTurnState to))"
  define S where "S = turn_states"
  have all: "list_all ?agree (List.product S S)" unfolding S_def by code_simp
  have table: "list_all (\<lambda>(a, b). a \<in> set S \<and> b \<in> set S) turn_path" unfolding S_def by code_simp
  have named: "list_all (\<lambda>a. a \<in> set S) [TurnStateAccepted, TurnStateVerifying, TurnStateRunning,
      TurnStateCompleted, TurnStateFailed, TurnStateInterrupted]" unfolding S_def by code_simp
  have valid: "from \<in> set S \<and> to \<in> set S" if "ValidateTurn from to = None"
    using that unfolding ValidateTurn_def validTurnState_def S_def [symmetric] by simp
  have known: "from \<in> set S \<and> to \<in> set S"
    if a: "allowedTurnTransition from to \<or> (from = TurnStateRunning \<and> terminalTurnState to)"
  proof (cases "map_of turn_path from = Some to")
    case True
    then show ?thesis using table unfolding list_all_iff by (blast dest: map_of_SomeD)
  next
    case False
    then have "(case map_of turn_path from of None \<Rightarrow> '''' | Some s \<Rightarrow> s) \<noteq> to"
      using assms by (cases "map_of turn_path from") simp_all
    then show ?thesis using a named unfolding allowedTurnTransition_def terminalTurnState_def
      by (elim disjE conjE) (simp_all split: if_split_asm, (elim disjE conjE, simp_all)+)
  qed
  show ?thesis
  proof (cases "from \<in> set S \<and> to \<in> set S")
    case True
    then have "(from, to) \<in> set (List.product S S)" by simp
    with all have "?agree (from, to)" unfolding list_all_iff by (rule bspec)
    then show ?thesis by simp
  next
    case False
    then show ?thesis using valid known by blast
  qed
qed

theorem turn_tables_agree_witness:
  "ValidateTurn ''running'' ''completed'' = None \<and> \<not> allowedTurnTransition ''running'' ''completed''"
  using turn_tables_agree [of "''completed''" "''running''"]
  by (simp add: terminalTurnState_def allowedTurnTransition_def turn_path_def)


section \<open>Losing evidence\<close>

definition unverified :: "task_record \<Rightarrow> bool" where
  "unverified r \<longleftrightarrow> tr_VerificationState r = ValueUnknown \<and> tr_Outcome r = unknown_outcome \<and> tr_State r \<noteq> StateVerified"

lemma invalidate_criterion_unverified:
  "depends_on ev (snd kc) \<or> unverified r \<Longrightarrow> unverified (invalidate_criterion ev r kc)"
  by (cases kc; cases "depends_on ev (snd kc)") (simp_all add: invalidate_criterion_def unverified_def Let_def)

lemma invalidate_criterion_keep: "\<not> depends_on ev (snd kc) \<Longrightarrow> invalidate_criterion ev r kc = r"
  by (cases kc) (simp add: invalidate_criterion_def)

lemma foldl_invalidate_outcome:
  "list_ex (\<lambda>kc. depends_on ev (snd kc)) cs \<or> unverified r \<Longrightarrow> unverified (foldl (invalidate_criterion ev) r cs)"
proof (induction cs arbitrary: r)
  case (Cons kc cs)
  then show ?case
    using invalidate_criterion_unverified [of ev kc r] invalidate_criterion_keep [of ev kc r]
    by (cases "depends_on ev (snd kc)") simp_all
qed simp

text \<open>
  C4. When evidence is recorded as not available, in every task exactly the verified criteria that
  list it become unknown, each other criterion is kept, and a task with such a criterion has no
  verification, no outcome and is not in the verified state any more.
\<close>

theorem lost_evidence_invalidates:
  assumes "fold_res task_Apply (task_Zero ref) es = Inr p" and "task_Apply p e = Inr q"
    and "en_Kind (e_Envelope e) = EventEvidenceRecorded" and "e_Decoded e = Some (P_EvidenceRecorded v)"
    and "ev_Availability (er_Body v) \<noteq> ContentAvailable" and "map_of (tp_Tasks p) t = Some r"
  shows "\<exists>r'. map_of (tp_Tasks q) t = Some r'
    \<and> (\<forall>cid. map_of (tr_Criteria r') cid = map_option
         (\<lambda>c. if depends_on (ev_ID (er_Body v)) c then downgrade c else c) (map_of (tr_Criteria r) cid))
    \<and> ((\<exists>cid c. map_of (tr_Criteria r) cid = Some c \<and> depends_on (ev_ID (er_Body v)) c) \<longrightarrow>
         tr_VerificationState r' = ValueUnknown \<and> tr_Outcome r' = unknown_outcome \<and> tr_State r' \<noteq> StateVerified)"
proof -
  let ?ev = "ev_ID (er_Body v)"
  have "map_of task_cases EventEvidenceRecorded = Some apply_evidence_recorded" by (simp add: task_cases_def)
  then have app: "apply_evidence_recorded p e = Inr q"
    using assms(2,3) by (simp add: task_Apply_def split: option.splits)
  have tasks: "map_of (tp_Tasks q) t = Some (invalidate_record ?ev r)"
    using app assms(4-6) by (auto simp: apply_evidence_recorded_def Let_def)
  have ok: "gmap_ok (tr_Criteria r)"
    by (rule record_inv_parts(1) [OF task_inv_task(2) [OF reachable_task_inv [OF assms(1)] assms(6)]])
  have out: "unverified (invalidate_record ?ev r)"
    if "map_of (tr_Criteria r) cid = Some c" "depends_on ?ev c" for cid c
    unfolding invalidate_record_def
    by (rule foldl_invalidate_outcome) (use that in \<open>force simp: list_ex_iff dest: map_of_mem\<close>)
  have crit: "\<forall>cid. map_of (tr_Criteria (invalidate_record ?ev r)) cid = map_option
      (\<lambda>c. if depends_on ?ev c then downgrade c else c) (map_of (tr_Criteria r) cid)"
    by (simp add: invalidate_record_criteria [OF ok])
  show ?thesis
    by (intro exI [of _ "invalidate_record ?ev r"] conjI impI tasks crit) (use out in \<open>auto simp: unverified_def\<close>)
qed

theorem lost_evidence_invalidates_witness:
  "\<exists>r'. map_of (tp_Tasks (projr (task_Apply (projr (run (sample_task_events @ [sample_final]))) sample_lost))) ''task'' = Some r'
    \<and> tr_Outcome r' = unknown_outcome"
proof -
  let ?p = "projr (run (sample_task_events @ [sample_final]))"
  let ?q = "task_Apply ?p sample_lost"
  let ?r = "the (map_of (tp_Tasks ?p) ''task'')"
  let ?c = "the (map_of (tr_Criteria ?r) ''k1'')"
  have "\<not> isl ?q" by code_simp
  then have q: "?q = Inr (projr ?q)" by simp
  have "map_of (tp_Tasks ?p) ''task'' \<noteq> None" by code_simp
  then have r: "map_of (tp_Tasks ?p) ''task'' = Some ?r" by auto
  have "map_of (tr_Criteria ?r) ''k1'' \<noteq> None" "depends_on ''ev1'' ?c" by code_simp+
  then have c: "map_of (tr_Criteria ?r) ''k1'' = Some ?c" "depends_on ''ev1'' ?c" by auto
  have e: "en_Kind (e_Envelope sample_lost) = EventEvidenceRecorded"
    "e_Decoded sample_lost = Some (P_EvidenceRecorded (sample_evidence ContentMissing))"
    "ev_Availability (er_Body (sample_evidence ContentMissing)) \<noteq> ContentAvailable"
    "ev_ID (er_Body (sample_evidence ContentMissing)) = ''ev1''"
    by (simp_all add: sample_lost_def sample_event_def sample_envelope_def sample_evidence_def)
  show ?thesis
    using lost_evidence_invalidates [OF run_accepts(3) q e(1,2,3) r] c unfolding e(4) by blast
qed


section \<open>Task states\<close>

text \<open>
  How one accepted event may change a known task: it keeps its state, moves along the table (an
  unmarked draft may turn out to be a legacy task, which starts as pending), or loses its
  verification with its evidence.
\<close>

definition task_moves :: "task_record \<Rightarrow> task_record \<Rightarrow> bool" where
  "task_moves r r' \<longleftrightarrow> tr_TaskID r' = tr_TaskID r \<and> (tr_Legacy r \<longrightarrow> tr_Legacy r')
     \<and> (tr_State r' = tr_State r
        \<or> allowedTaskTransition (tr_Legacy r') (tr_State r) (tr_State r')
        \<or> (tr_State r = StateDraft \<and> \<not> tr_Legacy r \<and> tr_Legacy r' \<and> allowedTaskTransition True StatePending (tr_State r'))
        \<or> (tr_State r' = StateUnknown \<and> unverified r'))"

definition tasks_move :: "task_projection \<Rightarrow> task_projection \<Rightarrow> bool" where
  "tasks_move p q \<longleftrightarrow> (\<forall>t r. map_of (tp_Tasks p) t = Some r \<longrightarrow>
     (\<exists>r'. map_of (tp_Tasks q) t = Some r' \<and> task_moves r r'))"

lemma task_moves_same: "tr_TaskID r' = tr_TaskID r \<Longrightarrow> tr_Legacy r' = tr_Legacy r \<Longrightarrow> tr_State r' = tr_State r \<Longrightarrow> task_moves r r'"
  by (simp add: task_moves_def)

lemma tasks_move_same: "tp_Tasks q = tp_Tasks p \<Longrightarrow> tasks_move p q"
  by (simp add: tasks_move_def task_moves_def)

lemma tasks_move_put:
  "task_inv p \<Longrightarrow> map_of (tp_Tasks p) t = Some r \<Longrightarrow> task_moves r r' \<Longrightarrow>
   tp_Tasks q = gput (tr_TaskID r) r' (tp_Tasks p) \<Longrightarrow> tasks_move p q"
  by (auto simp: tasks_move_def task_inv_task(1) task_moves_same)

lemma tasks_move_upd:
  "task_inv p \<Longrightarrow> map_of (tp_Tasks p) t = Some r \<Longrightarrow> tr_TaskID r' = tr_TaskID r \<and> tr_Legacy r' = tr_Legacy r \<and> tr_State r' = tr_State r \<Longrightarrow>
   tasks_move p (p\<lparr>tp_Tasks := gput (tr_TaskID r) r' (tp_Tasks p)\<rparr>)"
  "task_inv p \<Longrightarrow> map_of (tp_Tasks p) t = Some r \<Longrightarrow> tr_TaskID r' = tr_TaskID r \<and> tr_Legacy r' = tr_Legacy r \<and> tr_State r' = tr_State r \<Longrightarrow>
   tasks_move p (p\<lparr>tp_Diagnostics := ds, tp_Tasks := gput (tr_TaskID r) r' (tp_Tasks p)\<rparr>)"
  by (auto intro: tasks_move_put task_moves_same)

lemma move_task_created: "apply_task_created p e = Inr q \<Longrightarrow> tasks_move p q"
  by (auto simp: apply_task_created_def Let_def tasks_move_def task_moves_same
      split: option.splits payload.splits if_split_asm)

lemma move_task_status:
  assumes "apply_task_status p e = Inr q" and "task_inv p"
  shows "tasks_move p q"
proof -
  obtain v r0 where v: "e_Decoded e = Some (P_TaskStatusChanged v)"
    and r0: "map_of (tp_Tasks p) (en_TaskID (e_Envelope e)) = Some r0"
    using assms(1) by (auto simp: apply_task_status_def split: option.splits payload.splits)
  have "\<exists>r1. (r1 = r0 \<or> (\<not> tr_Legacy r0 \<and> tr_State r0 = StateDraft \<and> ts_From v = StatePending
        \<and> r1 = r0\<lparr>tr_State := StatePending, tr_Legacy := True\<rparr>))
      \<and> tr_State r1 = ts_From v \<and> allowedTaskTransition (tr_Legacy r1) (ts_From v) (ts_To v)
      \<and> q = p\<lparr>tp_Tasks := gput (tr_TaskID r1) (r1\<lparr>tr_State := ts_To v\<rparr>) (tp_Tasks p)\<rparr>"
    using assms(1) unfolding apply_task_status_def Let_def v r0 option.case payload.case
    by (auto split: if_split_asm)
  then obtain r1 where r1: "r1 = r0 \<or> (\<not> tr_Legacy r0 \<and> tr_State r0 = StateDraft \<and> ts_From v = StatePending
        \<and> r1 = r0\<lparr>tr_State := StatePending, tr_Legacy := True\<rparr>)"
    and ok: "tr_State r1 = ts_From v" "allowedTaskTransition (tr_Legacy r1) (ts_From v) (ts_To v)"
    and q: "q = p\<lparr>tp_Tasks := gput (tr_TaskID r1) (r1\<lparr>tr_State := ts_To v\<rparr>) (tp_Tasks p)\<rparr>" by blast
  have "task_moves r0 (r1\<lparr>tr_State := ts_To v\<rparr>)" "tr_TaskID r1 = tr_TaskID r0"
    using r1 ok by (elim disjE conjE; simp add: task_moves_def)+
  then show ?thesis by (intro tasks_move_put [OF assms(2) r0]) (simp_all add: q)
qed

lemma move_contract_declared: "apply_contract_declared p e = Inr q \<Longrightarrow> task_inv p \<Longrightarrow> tasks_move p q"
  by (auto simp: apply_contract_declared_def split: option.splits payload.splits if_split_asm sum.splits
      intro: tasks_move_upd)

lemma move_contract_amended: "apply_contract_amended p e = Inr q \<Longrightarrow> task_inv p \<Longrightarrow> tasks_move p q"
  by (auto simp: apply_contract_amended_def split: option.splits payload.splits if_split_asm sum.splits
      intro: tasks_move_upd)

lemma assessed_record_keeps [simp]:
  "tr_State (assessed_record avail v c0 r) = tr_State r" "tr_Legacy (assessed_record avail v c0 r) = tr_Legacy r"
  by (simp_all add: assessed_record_def Let_def)

lemma move_criterion_assessed: "apply_criterion_assessed p e = Inr q \<Longrightarrow> task_inv p \<Longrightarrow> tasks_move p q"
  by (auto simp: apply_criterion_assessed_def split: option.splits payload.splits if_split_asm
      intro: tasks_move_upd)

lemma move_final_assessed: "apply_final_assessed p e = Inr q \<Longrightarrow> task_inv p \<Longrightarrow> tasks_move p q"
  by (auto simp: apply_final_assessed_def Let_def split: option.splits payload.splits if_split_asm
      intro: tasks_move_upd)

lemma invalidate_moves: "task_moves r (invalidate_record ev r)"
proof -
  have "tr_TaskID s = tr_TaskID r \<and> tr_Legacy s = tr_Legacy r
      \<and> (tr_State s = tr_State r \<or> tr_State s = StateUnknown \<and> unverified s) \<Longrightarrow>
    task_moves r (foldl (invalidate_criterion ev) s cs)" for s cs
  proof (induction cs arbitrary: s)
    case (Cons kc cs)
    have "tr_State (invalidate_criterion ev s kc) = tr_State s
        \<or> tr_State (invalidate_criterion ev s kc) = StateUnknown \<and> unverified (invalidate_criterion ev s kc)"
      by (cases kc) (simp add: invalidate_criterion_def unverified_def Let_def)
    moreover have "tr_Legacy (invalidate_criterion ev s kc) = tr_Legacy s"
      by (cases kc) (simp add: invalidate_criterion_def Let_def)
    moreover have "unverified s \<Longrightarrow> unverified (invalidate_criterion ev s kc)"
      by (simp add: invalidate_criterion_unverified)
    ultimately have "task_moves r (foldl (invalidate_criterion ev) (invalidate_criterion ev s kc) cs)"
      using Cons.prems by (intro Cons.IH) auto
    then show ?case by simp
  qed (auto simp: task_moves_def)
  then show ?thesis by (simp add: invalidate_record_def)
qed

lemma tasks_move_invalidate: "tp_Tasks q = gmap_vals (invalidate_record ev) (tp_Tasks p) \<Longrightarrow> tasks_move p q"
  by (auto simp: tasks_move_def invalidate_moves)

lemma move_evidence_recorded: "apply_evidence_recorded p e = Inr q \<Longrightarrow> tasks_move p q"
  by (auto simp: apply_evidence_recorded_def Let_def split: option.splits payload.splits if_split_asm
      intro: tasks_move_invalidate tasks_move_same)

lemma move_recovery_diagnostic: "apply_recovery_diagnostic p e = Inr q \<Longrightarrow> tasks_move p q"
  by (auto simp: apply_recovery_diagnostic_def split: option.splits payload.splits if_split_asm
      intro: tasks_move_invalidate tasks_move_same)

lemmas task_case_moves = move_task_created move_task_status move_contract_declared move_contract_amended
  move_criterion_assessed move_final_assessed move_evidence_recorded move_recovery_diagnostic
  task_handlers_keep_tasks [THEN tasks_move_same]

text \<open>
  An accepted event removes no task, and moves a task's state only along the table of
  \<open>allowedTaskTransition\<close>, apart from a task that loses its verification with its evidence and
  becomes unknown.
\<close>

theorem task_states_follow_table:
  assumes "fold_res task_Apply (task_Zero ref) es = Inr p" and "task_Apply p e = Inr q"
    and "map_of (tp_Tasks p) t = Some r"
  shows "\<exists>r'. map_of (tp_Tasks q) t = Some r' \<and> task_moves r r'"
proof -
  have inv: "task_inv p" by (rule reachable_task_inv [OF assms(1)])
  have "tasks_move p q"
    using assms(2)
  proof (cases rule: task_Apply_cases)
    case skip
    then show ?thesis by (simp add: tasks_move_same)
  next
    case (handler h)
    then show ?thesis using inv by (auto simp: task_cases_def intro: task_case_moves)
  qed
  then show ?thesis using assms(3) by (simp add: tasks_move_def)
qed

theorem task_states_follow_table_witness:
  "\<exists>r'. map_of (tp_Tasks (projr (task_Apply (projr (run sample_task_events)) sample_final))) ''task'' = Some r'
    \<and> task_moves (the (map_of (tp_Tasks (projr (run sample_task_events))) ''task'')) r'"
proof -
  let ?p = "projr (run sample_task_events)"
  let ?q = "task_Apply ?p sample_final"
  have "\<not> isl ?q" "map_of (tp_Tasks ?p) ''task'' \<noteq> None" by code_simp+
  then have "?q = Inr (projr ?q)" "map_of (tp_Tasks ?p) ''task'' = Some (the (map_of (tp_Tasks ?p) ''task''))" by auto
  then show ?thesis by (rule task_states_follow_table [OF run_accepts(2)])
qed

end
