(* ===== verification/Activity_Projection.thy ===== *)
theory Activity_Projection
  imports Event_Rules
begin

text \<open>
  The activity projection, \<open>internal/activity/projection.go\<close>: each activity's state machine from
  planned through authorized and started to a terminal state, the authorization decision that
  admitted it, its evidence, and the summaries a parent activity keeps of its children.
\<close>

section \<open>State\<close>

abbreviation AStatePlanned :: string where "AStatePlanned \<equiv> ''planned''"
abbreviation AStateAuthorized :: string where "AStateAuthorized \<equiv> ''authorized''"
abbreviation AStateStarted :: string where "AStateStarted \<equiv> ''started''"
abbreviation AStateSucceeded :: string where "AStateSucceeded \<equiv> ''succeeded''"
abbreviation AStateFailed :: string where "AStateFailed \<equiv> ''failed''"
abbreviation AStateDenied :: string where "AStateDenied \<equiv> ''denied''"
abbreviation AStateCancelled :: string where "AStateCancelled \<equiv> ''cancelled''"
abbreviation AStateInterruptedNoEffect :: string where "AStateInterruptedNoEffect \<equiv> ''interrupted_no_effect''"
abbreviation AStateUncertain :: string where "AStateUncertain \<equiv> ''uncertain''"

record decision_ref =
  dr_DecisionNonce :: decision_nonce
  dr_DecisionEventID :: event_id
  dr_PlanDigest :: digest
  dr_RequestDigest :: digest
  dr_DispatchDigest :: digest

record child_summary =
  cs_ActivityID :: activity_id
  cs_Kind :: string
  cs_State :: string

record activity_record =
  av_ActivityID :: activity_id
  av_TaskID :: task_id
  av_TurnID :: turn_id
  av_ParentActivityID :: activity_id
  av_Actor :: "actor_ref option"
  av_Kind :: string
  av_Purpose :: string
  av_PurposeActor :: actor_ref
  av_Source :: string
  av_State :: string
  av_InputEvidenceIDs :: "evidence_id list"
  av_OutputEvidenceIDs :: "evidence_id list"
  av_Decision :: "decision_ref option"
  av_RequestedProfile :: string
  av_EffectiveProfile :: string
  av_PlannedAt :: gtime
  av_AuthorizedAt :: "gtime option"
  av_StartedAt :: "gtime option"
  av_TerminalAt :: "gtime option"
  av_ErrorCode :: string
  av_Reason :: string
  av_UnknownEffects :: "subject_ref list"
  av_Children :: "child_summary list"

type_synonym activities = "(activity_id, activity_record) gomap"

record activity_projection =
  vp_Journal :: journal_ref
  vp_Activities :: activities
  vp_Order :: "activity_id list"

definition activity_Version :: u32 where
  "activity_Version = 1"

definition activity_Zero :: "journal_ref \<Rightarrow> activity_projection" where
  "activity_Zero ref = \<lparr>vp_Journal = ref, vp_Activities = [], vp_Order = []\<rparr>"

definition zero_actor_ref :: actor_ref where
  "zero_actor_ref = \<lparr>ar_ID = '''', ar_Kind = '''', ar_Source = ''''\<rparr>"

text \<open>The zero value of a record, which reading a missing key of the map gives.\<close>

definition zero_activity :: activity_record where
  "zero_activity = \<lparr>av_ActivityID = '''', av_TaskID = '''', av_TurnID = '''', av_ParentActivityID = '''',
     av_Actor = None, av_Kind = '''', av_Purpose = '''', av_PurposeActor = zero_actor_ref, av_Source = '''',
     av_State = '''', av_InputEvidenceIDs = [], av_OutputEvidenceIDs = [], av_Decision = None,
     av_RequestedProfile = '''', av_EffectiveProfile = '''', av_PlannedAt = 0, av_AuthorizedAt = None,
     av_StartedAt = None, av_TerminalAt = None, av_ErrorCode = '''', av_Reason = '''',
     av_UnknownEffects = [], av_Children = []\<rparr>"

section \<open>Helpers\<close>

definition allowed :: "string \<Rightarrow> string \<Rightarrow> bool" where
  "allowed from to =
     (if from = AStatePlanned then to = AStateDenied \<or> to = AStateCancelled \<or> to = AStateAuthorized
      else if from = AStateAuthorized then to = AStateCancelled \<or> to = AStateStarted
      else if from = AStateStarted then to = AStateSucceeded \<or> to = AStateFailed
        \<or> to = AStateInterruptedNoEffect \<or> to = AStateUncertain
      else False)"

definition stateForKind :: "string \<Rightarrow> string" where
  "stateForKind kind =
     (case map_of
        [(EventActivitySucceeded, AStateSucceeded), (EventActivityFailed, AStateFailed),
         (EventActivityDenied, AStateDenied), (EventActivityCancelled, AStateCancelled),
         (EventActivityInterruptedNoEffect, AStateInterruptedNoEffect),
         (EventActivityUncertain, AStateUncertain)] kind of
        None \<Rightarrow> '''' | Some s \<Rightarrow> s)"

fun put_child :: "child_summary \<Rightarrow> child_summary list \<Rightarrow> child_summary list" where
  "put_child s [] = [s]"
| "put_child s (c # cs) = (if cs_ActivityID c = cs_ActivityID s then s # cs else c # put_child s cs)"

definition child_of :: "activity_record \<Rightarrow> child_summary" where
  "child_of r = \<lparr>cs_ActivityID = av_ActivityID r, cs_Kind = av_Kind r, cs_State = av_State r\<rparr>"

definition updateParent :: "activities \<Rightarrow> activity_record \<Rightarrow> activities" where
  "updateParent m child =
     (if av_ParentActivityID child = '''' then m
      else (let parent = (case map_of m (av_ParentActivityID child) of None \<Rightarrow> zero_activity | Some r \<Rightarrow> r)
            in gput (av_ActivityID parent)
                 (parent\<lparr>av_Children := put_child (child_of child) (av_Children parent)\<rparr>) m))"

definition appendUniqueEvidence :: "evidence_id list \<Rightarrow> evidence_id \<Rightarrow> evidence_id list" where
  "appendUniqueEvidence vs v = (if v \<in> set vs then vs else vs @ [v])"

definition transition ::
  "activity_projection \<Rightarrow> event \<Rightarrow> string \<Rightarrow> (activity_record \<Rightarrow> activity_record) \<Rightarrow> activity_projection res" where
  "transition p e to mutate =
     (case map_of (vp_Activities p) (en_ActivityID (e_Envelope e)) of
        None \<Rightarrow> Inl ''activity is unknown''
      | Some r0 \<Rightarrow>
          if \<not> allowed (av_State r0) to then Inl ''invalid activity transition''
          else (let r = mutate (r0\<lparr>av_State := to\<rparr>)
                in Inr (p\<lparr>vp_Activities := updateParent (gput (av_ActivityID r) r (vp_Activities p)) r\<rparr>)))"

section \<open>The cases of Apply\<close>

definition planned_record :: "envelope \<Rightarrow> activity_planned \<Rightarrow> activity_record" where
  "planned_record en v =
     \<lparr>av_ActivityID = en_ActivityID en, av_TaskID = en_TaskID en, av_TurnID = en_TurnID en,
      av_ParentActivityID = en_ParentActivityID en, av_Actor = en_Actor en, av_Kind = ap_Kind v,
      av_Purpose = ap_Purpose v, av_PurposeActor = ap_PurposeActor v, av_Source = ap_Source v,
      av_State = AStatePlanned, av_InputEvidenceIDs = ap_InputEvidenceIDs v, av_OutputEvidenceIDs = [],
      av_Decision = None, av_RequestedProfile = ap_RequestedProfile v,
      av_EffectiveProfile = ap_EffectiveProfile v, av_PlannedAt = en_Time en, av_AuthorizedAt = None,
      av_StartedAt = None, av_TerminalAt = None, av_ErrorCode = '''', av_Reason = '''',
      av_UnknownEffects = [], av_Children = []\<rparr>"

definition apply_activity_planned :: "activity_projection \<Rightarrow> event \<Rightarrow> activity_projection res" where
  "apply_activity_planned p e =
     (let en = e_Envelope e; parent = en_ParentActivityID en in
      case e_Decoded e of
        Some (P_ActivityPlanned v) \<Rightarrow>
          if en_ActivityID en = '''' then Inl ''invalid planned activity''
          else if map_of (vp_Activities p) (en_ActivityID en) \<noteq> None then Inl ''activity is already planned''
          else if parent \<noteq> '''' \<and> map_of (vp_Activities p) parent = None then Inl ''parent activity is unknown''
          else (let r = planned_record en v
                in Inr (p\<lparr>vp_Activities := updateParent (gput (av_ActivityID r) r (vp_Activities p)) r,
                         vp_Order := vp_Order p @ [av_ActivityID r]\<rparr>))
      | _ \<Rightarrow> Inl ''invalid planned activity'')"

definition authorize_record :: "gtime \<Rightarrow> activity_authorized \<Rightarrow> activity_record \<Rightarrow> activity_record" where
  "authorize_record t v r = r\<lparr>av_AuthorizedAt := Some t,
     av_Decision := Some \<lparr>dr_DecisionNonce = aa_DecisionNonce v, dr_DecisionEventID = aa_DecisionEventID v,
       dr_PlanDigest = aa_PlanDigest v, dr_RequestDigest = aa_RequestDigest v,
       dr_DispatchDigest = aa_DispatchDigest v\<rparr>\<rparr>"

definition apply_activity_authorized :: "activity_projection \<Rightarrow> event \<Rightarrow> activity_projection res" where
  "apply_activity_authorized p e =
     (case e_Decoded e of
        Some (P_ActivityAuthorized v) \<Rightarrow>
          transition p e AStateAuthorized (authorize_record (en_Time (e_Envelope e)) v)
      | _ \<Rightarrow> Inl ''invalid authorized activity'')"

text \<open>The bindings a start event must repeat from the decision that authorized the activity.\<close>

definition start_ref :: "activity_started \<Rightarrow> decision_ref" where
  "start_ref v = \<lparr>dr_DecisionNonce = as_DecisionNonce v, dr_DecisionEventID = as_DecisionEventID v,
     dr_PlanDigest = as_PlanDigest v, dr_RequestDigest = as_RequestDigest v,
     dr_DispatchDigest = as_DispatchDigest v\<rparr>"

definition apply_activity_started :: "activity_projection \<Rightarrow> event \<Rightarrow> activity_projection res" where
  "apply_activity_started p e =
     (case e_Decoded e of
        Some (P_ActivityStarted v) \<Rightarrow>
          if as_ActivityID v \<noteq> en_ActivityID (e_Envelope e) then Inl ''invalid started activity''
          else (case map_of (vp_Activities p) (en_ActivityID (e_Envelope e)) of
             None \<Rightarrow> Inl ''activity is unknown''
           | Some r \<Rightarrow>
               if av_State r \<noteq> AStateAuthorized then Inl ''invalid activity transition''
               else if av_Decision r \<noteq> Some (start_ref v) then Inl ''activity start authorization binding mismatch''
               else transition p e AStateStarted (\<lambda>r. r\<lparr>av_StartedAt := Some (en_Time (e_Envelope e))\<rparr>))
      | _ \<Rightarrow> Inl ''invalid started activity'')"

definition outcome_record :: "gtime \<Rightarrow> activity_outcome \<Rightarrow> activity_record \<Rightarrow> activity_record" where
  "outcome_record t v r = r\<lparr>av_TerminalAt := Some t, av_Reason := ao_Reason v, av_ErrorCode := ao_ErrorCode v,
     av_OutputEvidenceIDs := ao_OutputEvidenceIDs v, av_UnknownEffects := ao_UnknownEffects v\<rparr>"

definition apply_activity_outcome :: "activity_projection \<Rightarrow> event \<Rightarrow> activity_projection res" where
  "apply_activity_outcome p e =
     (case e_Decoded e of
        Some (P_ActivityOutcome v) \<Rightarrow>
          (let to = stateForKind (en_Kind (e_Envelope e)) in
           if ao_Status v \<noteq> to then Inl ''activity outcome status mismatch''
           else transition p e to (outcome_record (en_Time (e_Envelope e)) v))
      | _ \<Rightarrow> Inl ''invalid activity outcome'')"

definition apply_evidence_linked :: "activity_projection \<Rightarrow> event \<Rightarrow> activity_projection res" where
  "apply_evidence_linked p e =
     (case e_Decoded e of
        Some (P_EvidenceLinked v) \<Rightarrow>
          if en_ActivityID (e_Envelope e) = '''' then Inl ''invalid activity evidence link''
          else (case map_of (vp_Activities p) (en_ActivityID (e_Envelope e)) of
             None \<Rightarrow> Inl ''activity is unknown''
           | Some r \<Rightarrow>
               if el_Relation v = ''input'' then
                 Inr (p\<lparr>vp_Activities := gput (av_ActivityID r)
                   (r\<lparr>av_InputEvidenceIDs := appendUniqueEvidence (av_InputEvidenceIDs r) (el_EvidenceID v)\<rparr>)
                   (vp_Activities p)\<rparr>)
               else if el_Relation v = ''output'' then
                 Inr (p\<lparr>vp_Activities := gput (av_ActivityID r)
                   (r\<lparr>av_OutputEvidenceIDs := appendUniqueEvidence (av_OutputEvidenceIDs r) (el_EvidenceID v)\<rparr>)
                   (vp_Activities p)\<rparr>)
               else Inl ''invalid activity evidence relation'')
      | _ \<Rightarrow> Inl ''invalid activity evidence link'')"

definition activity_cases :: "(string \<times> (activity_projection \<Rightarrow> event \<Rightarrow> activity_projection res)) list" where
  "activity_cases =
     [(EventActivityPlanned, apply_activity_planned), (EventActivityAuthorized, apply_activity_authorized),
      (EventActivityStarted, apply_activity_started), (EventActivitySucceeded, apply_activity_outcome),
      (EventActivityFailed, apply_activity_outcome), (EventActivityDenied, apply_activity_outcome),
      (EventActivityCancelled, apply_activity_outcome),
      (EventActivityInterruptedNoEffect, apply_activity_outcome),
      (EventActivityUncertain, apply_activity_outcome), (EventEvidenceLinked, apply_evidence_linked)]"

definition activity_Apply :: "activity_projection \<Rightarrow> event \<Rightarrow> activity_projection res" where
  "activity_Apply p e =
     (case ValidateFoundationEvent e of
        Some m \<Rightarrow> Inl m
      | None \<Rightarrow> (case map_of activity_cases (en_Kind (e_Envelope e)) of None \<Rightarrow> Inr p | Some h \<Rightarrow> h p e))"

end
