(* ===== verification/Activity_Invariants.thy ===== *)
theory Activity_Invariants
  imports Activity_Projection Projector_Contract
begin

text \<open>
  What every projected activity state satisfies: the order lists every activity once, an activity
  that was authorized or started keeps the decision that admitted it, every parent is known and
  has an exact summary of each child, and terminal activities never change state again.
\<close>

section \<open>The invariant\<close>

definition terminalActivity :: "string \<Rightarrow> bool" where
  "terminalActivity s \<longleftrightarrow> s \<in> {AStateSucceeded, AStateFailed, AStateDenied, AStateCancelled,
     AStateInterruptedNoEffect, AStateUncertain}"

text \<open>What the state of an activity says about its decision and its instants.\<close>

definition stage_ok :: "activity_record \<Rightarrow> bool" where
  "stage_ok r \<longleftrightarrow>
     (av_State r = AStatePlanned \<longrightarrow> av_Decision r = None \<and> av_AuthorizedAt r = None) \<and>
     (av_StartedAt r \<noteq> None \<longrightarrow> av_Decision r \<noteq> None \<and> av_AuthorizedAt r \<noteq> None) \<and>
     (av_State r = AStateAuthorized \<longrightarrow> av_Decision r \<noteq> None \<and> av_AuthorizedAt r \<noteq> None \<and> av_StartedAt r = None) \<and>
     (av_State r = AStateStarted \<longrightarrow> av_StartedAt r \<noteq> None) \<and>
     (av_State r \<in> {AStateSucceeded, AStateFailed, AStateInterruptedNoEffect, AStateUncertain} \<longrightarrow> av_StartedAt r \<noteq> None) \<and>
     (av_State r \<in> {AStateDenied, AStateCancelled, AStatePlanned} \<longrightarrow> av_StartedAt r = None) \<and>
     (terminalActivity (av_State r) \<longleftrightarrow> av_TerminalAt r \<noteq> None)"

definition summarised :: "activities \<Rightarrow> activity_record \<Rightarrow> bool" where
  "summarised m r \<longleftrightarrow>
     (av_ParentActivityID r \<noteq> '''' \<longrightarrow>
        (\<exists>q. map_of m (av_ParentActivityID r) = Some q \<and> child_of r \<in> set (av_Children q)))"

text \<open>Each summary is of a known activity that names the parent.\<close>

definition children_known :: "activities \<Rightarrow> activity_record \<Rightarrow> bool" where
  "children_known m q \<longleftrightarrow>
     distinct (map cs_ActivityID (av_Children q)) \<and>
     (\<forall>s \<in> set (av_Children q). \<exists>r. map_of m (cs_ActivityID s) = Some r
        \<and> av_ParentActivityID r = av_ActivityID q \<and> s = child_of r)"

definition activity_inv :: "activity_projection \<Rightarrow> bool" where
  "activity_inv p \<longleftrightarrow> gmap_ok (vp_Activities p) \<and> gkeys (vp_Activities p) = vp_Order p
     \<and> (\<forall>i r. map_of (vp_Activities p) i = Some r \<longrightarrow>
          i \<noteq> '''' \<and> av_ActivityID r = i \<and> av_ParentActivityID r \<noteq> i \<and> stage_ok r
          \<and> summarised (vp_Activities p) r \<and> children_known (vp_Activities p) r)"

lemma activity_Zero_inv [simp]: "activity_inv (activity_Zero ref)"
  by (simp add: activity_inv_def activity_Zero_def)

section \<open>Children\<close>

lemma put_child_ids: "map cs_ActivityID (put_child s cs) =
    (if cs_ActivityID s \<in> set (map cs_ActivityID cs) then map cs_ActivityID cs
     else map cs_ActivityID cs @ [cs_ActivityID s])"
  by (induction cs) auto

lemma put_child_set: "distinct (map cs_ActivityID cs) \<Longrightarrow>
    set (put_child s cs) = insert s {c \<in> set cs. cs_ActivityID c \<noteq> cs_ActivityID s}"
  by (induction cs) (auto intro: rev_image_eqI)

lemma put_child_distinct: "distinct (map cs_ActivityID cs) \<Longrightarrow> distinct (map cs_ActivityID (put_child s cs))"
  unfolding put_child_ids by simp

lemma child_of_simps [simp]: "cs_ActivityID (child_of r) = av_ActivityID r"
  by (simp add: child_of_def)

lemma stage_ok_children [simp]: "stage_ok (q\<lparr>av_Children := cs\<rparr>) = stage_ok q"
  by (simp add: stage_ok_def)

lemma child_of_children [simp]: "child_of (q\<lparr>av_Children := cs\<rparr>) = child_of q"
  by (simp add: child_of_def)

definition entries_ok :: "activities \<Rightarrow> bool" where
  "entries_ok m \<longleftrightarrow> (\<forall>i r. map_of m i = Some r \<longrightarrow>
     i \<noteq> '''' \<and> av_ActivityID r = i \<and> av_ParentActivityID r \<noteq> i \<and> stage_ok r \<and> summarised m r \<and> children_known m r)"

lemma activity_inv_entries:
  "activity_inv p \<longleftrightarrow> gmap_ok (vp_Activities p) \<and> gkeys (vp_Activities p) = vp_Order p \<and> entries_ok (vp_Activities p)"
  by (simp add: activity_inv_def entries_ok_def)

lemma entries_okD:
  assumes "entries_ok m" and "map_of m i = Some r"
  shows "i \<noteq> ''''" "av_ActivityID r = i" "av_ParentActivityID r \<noteq> i" "stage_ok r" "summarised m r" "children_known m r"
  using assms unfolding entries_ok_def by blast+

text \<open>
  Writing an activity and refreshing its parent's summary, as \<open>planned\<close> and \<open>transition\<close> do.
  The record written is new and without children, or keeps its parent and its children.
\<close>

definition write_activity :: "activities \<Rightarrow> activity_record \<Rightarrow> activities" where
  "write_activity m r = updateParent (gput (av_ActivityID r) r m) r"

definition writable :: "activities \<Rightarrow> activity_record \<Rightarrow> bool" where
  "writable m r \<longleftrightarrow> av_ActivityID r \<noteq> '''' \<and> av_ParentActivityID r \<noteq> av_ActivityID r \<and> stage_ok r \<and>
     (av_ParentActivityID r \<noteq> '''' \<longrightarrow> map_of m (av_ParentActivityID r) \<noteq> None) \<and>
     (case map_of m (av_ActivityID r) of
        None \<Rightarrow> av_Children r = []
      | Some r0 \<Rightarrow> av_ParentActivityID r0 = av_ParentActivityID r \<and> av_Children r = av_Children r0)"

lemma write_activity_same:
  assumes "entries_ok m" and "writable m r"
  shows "map_of (write_activity m r) (av_ActivityID r) = Some r"
proof (cases "map_of m (av_ParentActivityID r)")
  case (Some q)
  then show ?thesis
    using assms entries_okD(2) [OF assms(1) Some] by (auto simp: write_activity_def updateParent_def writable_def)
qed (use assms(2) in \<open>simp add: write_activity_def updateParent_def writable_def\<close>)

text \<open>The entry of another activity, before and after: only the parent's children differ.\<close>

definition refreshed :: "activity_record \<Rightarrow> activity_record \<Rightarrow> activity_record" where
  "refreshed r q = (if av_ParentActivityID r \<noteq> '''' \<and> av_ActivityID q = av_ParentActivityID r
     then q\<lparr>av_Children := put_child (child_of r) (av_Children q)\<rparr> else q)"

lemma refreshed_simps [simp]: "av_ActivityID (refreshed r q) = av_ActivityID q"
  "av_ParentActivityID (refreshed r q) = av_ParentActivityID q" "child_of (refreshed r q) = child_of q"
  "stage_ok (refreshed r q) = stage_ok q" "av_State (refreshed r q) = av_State q"
  "av_Decision (refreshed r q) = av_Decision q"
  by (simp_all add: refreshed_def)

lemma write_activity_other:
  assumes "entries_ok m" and "writable m r" and "i \<noteq> av_ActivityID r"
  shows "map_of (write_activity m r) i = map_option (refreshed r) (map_of m i)"
proof (cases "av_ParentActivityID r = ''''")
  case True
  then have "refreshed r = id" by (auto simp: refreshed_def)
  with True assms(3) show ?thesis by (simp add: write_activity_def updateParent_def option.map_id)
next
  case False
  then obtain q where q: "map_of m (av_ParentActivityID r) = Some q"
    using assms(2) by (auto simp: writable_def)
  have ids: "av_ActivityID q = av_ParentActivityID r" "av_ParentActivityID r \<noteq> av_ActivityID r"
    using entries_okD(2) [OF assms(1) q] assms(2) by (auto simp: writable_def)
  show ?thesis
  proof (cases "i = av_ParentActivityID r")
    case True
    then show ?thesis using q ids assms(3) False by (simp add: write_activity_def updateParent_def refreshed_def)
  next
    case other: False
    have "refreshed r x = x" if "map_of m i = Some x" for x
      using entries_okD(2) [OF assms(1) that] other by (simp add: refreshed_def)
    then have "map_option (refreshed r) (map_of m i) = map_of m i" by (cases "map_of m i") auto
    then show ?thesis using q ids other False assms(3) by (simp add: write_activity_def updateParent_def)
  qed
qed

lemma refreshed_children:
  assumes "children_known m q" and "s \<in> set (av_Children q)" and "cs_ActivityID s \<noteq> av_ActivityID r"
  shows "s \<in> set (av_Children (refreshed r q))"
  using assms by (simp add: refreshed_def put_child_set children_known_def)

lemma write_summarised_other:
  assumes ok: "entries_ok m" and w: "writable m r" and x: "map_of m i = Some x" "i \<noteq> av_ActivityID r"
  shows "summarised (write_activity m r) (refreshed r x)"
  unfolding summarised_def
proof (intro impI, simp)
  assume "av_ParentActivityID x \<noteq> ''''"
  then obtain y where y: "map_of m (av_ParentActivityID x) = Some y" "child_of x \<in> set (av_Children y)"
    using entries_okD(5) [OF ok x(1)] by (auto simp: summarised_def)
  show "\<exists>q. map_of (write_activity m r) (av_ParentActivityID x) = Some q \<and> child_of x \<in> set (av_Children q)"
  proof (cases "av_ParentActivityID x = av_ActivityID r")
    case True
    then have "av_Children r = av_Children y" using w y(1) by (simp add: writable_def)
    with True y(2) show ?thesis using write_activity_same [OF ok w] by auto
  next
    case False
    have "child_of x \<in> set (av_Children (refreshed r y))"
      by (rule refreshed_children [OF entries_okD(6) [OF ok y(1)] y(2)])
        (use entries_okD(2) [OF ok x(1)] x(2) in simp)
    then show ?thesis using write_activity_other [OF ok w False] y(1) by simp
  qed
qed

lemma write_summarised_same:
  assumes ok: "entries_ok m" and w: "writable m r"
  shows "summarised (write_activity m r) r"
  unfolding summarised_def
proof
  assume p: "av_ParentActivityID r \<noteq> ''''"
  then obtain q where q: "map_of m (av_ParentActivityID r) = Some q" using w by (auto simp: writable_def)
  have "distinct (map cs_ActivityID (av_Children q))"
    using entries_okD(6) [OF ok q] by (simp add: children_known_def)
  then have "child_of r \<in> set (av_Children (refreshed r q))"
    using p entries_okD(2) [OF ok q] by (simp add: refreshed_def put_child_set)
  then show "\<exists>q. map_of (write_activity m r) (av_ParentActivityID r) = Some q \<and> child_of r \<in> set (av_Children q)"
    using write_activity_other [OF ok w, of "av_ParentActivityID r"] w q by (simp add: writable_def)
qed

lemma write_child_other:
  assumes ok: "entries_ok m" and w: "writable m r" and "children_known m x"
    and s: "s \<in> set (av_Children x)" "cs_ActivityID s \<noteq> av_ActivityID r"
  shows "\<exists>y. map_of (write_activity m r) (cs_ActivityID s) = Some y
    \<and> av_ParentActivityID y = av_ActivityID x \<and> s = child_of y"
proof -
  obtain y where "map_of m (cs_ActivityID s) = Some y" "av_ParentActivityID y = av_ActivityID x" "s = child_of y"
    using assms(3) s(1) by (auto simp: children_known_def)
  then show ?thesis using write_activity_other [OF ok w s(2)] by simp
qed

lemma write_children_known:
  assumes ok: "entries_ok m" and w: "writable m r" and x: "map_of m i = Some x" "i \<noteq> av_ActivityID r"
  shows "children_known (write_activity m r) (refreshed r x)"
proof -
  note xs = entries_okD [OF ok x(1)]
  have dist: "distinct (map cs_ActivityID (av_Children x))" using xs(6) by (simp add: children_known_def)
  then have "distinct (map cs_ActivityID (av_Children (refreshed r x)))"
    by (simp add: refreshed_def put_child_distinct del: map_map)
  moreover have "\<exists>y. map_of (write_activity m r) (cs_ActivityID s) = Some y
      \<and> av_ParentActivityID y = av_ActivityID x \<and> s = child_of y"
    if s: "s \<in> set (av_Children (refreshed r x))" for s
  proof (cases "cs_ActivityID s = av_ActivityID r")
    case False
    then have "s \<in> set (av_Children x)"
      using s dist by (auto simp: refreshed_def put_child_set split: if_splits)
    then show ?thesis by (rule write_child_other [OF ok w xs(6) _ False])
  next
    case True
    have "s = child_of r \<and> av_ActivityID x = av_ParentActivityID r"
    proof (cases "av_ParentActivityID r \<noteq> '''' \<and> av_ActivityID x = av_ParentActivityID r")
      case p: True
      then show ?thesis using s True dist by (auto simp: refreshed_def put_child_set)
    next
      case np: False
      then have "s \<in> set (av_Children x)" using s by (auto simp: refreshed_def)
      then obtain y where "map_of m (av_ActivityID r) = Some y" "av_ParentActivityID y = av_ActivityID x"
        using xs(6) True by (auto simp: children_known_def)
      then show ?thesis using w np xs(1,2) by (auto simp: writable_def)
    qed
    then show ?thesis using write_activity_same [OF ok w] True by auto
  qed
  ultimately show ?thesis by (simp add: children_known_def)
qed

lemma write_children_known_same:
  assumes ok: "entries_ok m" and w: "writable m r"
  shows "children_known (write_activity m r) r"
proof (cases "map_of m (av_ActivityID r)")
  case None
  then show ?thesis using w by (simp add: writable_def children_known_def)
next
  case (Some r0)
  then have eq: "av_Children r = av_Children r0" using w by (simp add: writable_def)
  note r0 = entries_okD [OF ok Some]
  have ne: "cs_ActivityID s \<noteq> av_ActivityID r" if "s \<in> set (av_Children r0)" for s
  proof
    assume "cs_ActivityID s = av_ActivityID r"
    then have "av_ParentActivityID r0 = av_ActivityID r0"
      using r0(6) that Some by (auto simp: children_known_def)
    with r0(2,3) show False by simp
  qed
  have "\<exists>y. map_of (write_activity m r) (cs_ActivityID s) = Some y
      \<and> av_ParentActivityID y = av_ActivityID r0 \<and> s = child_of y" if "s \<in> set (av_Children r0)" for s
    by (rule write_child_other [OF ok w r0(6) that ne [OF that]])
  then show ?thesis using r0(2,6) eq by (auto simp: children_known_def)
qed

lemma entries_ok_write:
  assumes ok: "entries_ok m" and w: "writable m r"
  shows "entries_ok (write_activity m r)"
  unfolding entries_ok_def
proof (intro allI impI)
  fix i x
  assume x: "map_of (write_activity m r) i = Some x"
  show "i \<noteq> '''' \<and> av_ActivityID x = i \<and> av_ParentActivityID x \<noteq> i \<and> stage_ok x
      \<and> summarised (write_activity m r) x \<and> children_known (write_activity m r) x"
  proof (cases "i = av_ActivityID r")
    case True
    then have "x = r" using x write_activity_same [OF ok w] by simp
    then show ?thesis
      using True w write_summarised_same [OF ok w] write_children_known_same [OF ok w]
      by (simp add: writable_def)
  next
    case False
    then obtain y where y: "map_of m i = Some y" "x = refreshed r y"
      using x write_activity_other [OF ok w] by auto
    show ?thesis
      using entries_okD [OF ok y(1)] write_summarised_other [OF ok w y(1) False]
        write_children_known [OF ok w y(1) False] y(2) by simp
  qed
qed

section \<open>Every event keeps the invariant\<close>

lemma gmap_ok_write [simp]: "gmap_ok m \<Longrightarrow> gmap_ok (write_activity m r)"
  by (simp add: write_activity_def updateParent_def Let_def)

lemma gkeys_write:
  assumes "entries_ok m" and "writable m r"
  shows "gkeys (write_activity m r) =
    (if av_ActivityID r \<in> set (gkeys m) then gkeys m else gkeys m @ [av_ActivityID r])"
proof (cases "av_ParentActivityID r = ''''")
  case False
  then obtain q where q: "map_of m (av_ParentActivityID r) = Some q"
    using assms(2) by (auto simp: writable_def)
  have "av_ActivityID q \<in> set (gkeys m)" using q entries_okD(2) [OF assms(1) q] by (simp add: in_gkeys_iff)
  with False q assms show ?thesis
    using entries_okD(2) [OF assms(1) q] by (auto simp: write_activity_def updateParent_def writable_def)
qed (simp add: write_activity_def updateParent_def)

lemma transition_spec:
  assumes "transition p e to mutate = Inr q"
  obtains r0 where "map_of (vp_Activities p) (en_ActivityID (e_Envelope e)) = Some r0"
    and "allowed (av_State r0) to"
    and "q = p\<lparr>vp_Activities := write_activity (vp_Activities p) (mutate (r0\<lparr>av_State := to\<rparr>))\<rparr>"
  using assms by (auto simp: transition_def write_activity_def Let_def split: option.splits if_split_asm)

text \<open>Changes that keep identity, parent and children are writable if they keep the stage.\<close>

lemma writable_known:
  assumes "entries_ok m" and "map_of m i = Some r0" and "stage_ok r"
    and "av_ActivityID r = av_ActivityID r0" "av_ParentActivityID r = av_ParentActivityID r0"
    and "av_Children r = av_Children r0"
  shows "writable m r"
  using entries_okD [OF assms(1,2)] assms(2-) by (auto simp: writable_def summarised_def)

lemma activity_inv_write:
  assumes "activity_inv p" and "map_of (vp_Activities p) i = Some r0" and "stage_ok r"
    and "av_ActivityID r = av_ActivityID r0" "av_ParentActivityID r = av_ParentActivityID r0"
    and "av_Children r = av_Children r0"
  shows "activity_inv (p\<lparr>vp_Activities := write_activity (vp_Activities p) r\<rparr>)"
proof -
  have inv: "gmap_ok (vp_Activities p)" "gkeys (vp_Activities p) = vp_Order p" "entries_ok (vp_Activities p)"
    using assms(1) by (simp_all add: activity_inv_entries)
  have w: "writable (vp_Activities p) r" by (rule writable_known [OF inv(3) assms(2-)])
  have "av_ActivityID r \<in> set (gkeys (vp_Activities p))"
    using assms(2,4) entries_okD(2) [OF inv(3) assms(2)] by (simp add: in_gkeys_iff)
  then show ?thesis
    using inv gkeys_write [OF inv(3) w] entries_ok_write [OF inv(3) w] by (simp add: activity_inv_entries)
qed

lemma activity_inv_record: "activity_inv p \<Longrightarrow> map_of (vp_Activities p) i = Some r \<Longrightarrow> stage_ok r"
  by (simp add: activity_inv_def)

lemma inv_activity_planned:
  assumes "apply_activity_planned p e = Inr q" and "activity_inv p"
  shows "activity_inv q"
proof -
  let ?en = "e_Envelope e"
  have inv: "gmap_ok (vp_Activities p)" "gkeys (vp_Activities p) = vp_Order p" "entries_ok (vp_Activities p)"
    using assms(2) by (simp_all add: activity_inv_entries)
  obtain v where q: "q = p\<lparr>vp_Activities := write_activity (vp_Activities p) (planned_record ?en v),
        vp_Order := vp_Order p @ [en_ActivityID ?en]\<rparr>"
    and new: "map_of (vp_Activities p) (en_ActivityID ?en) = None" "en_ActivityID ?en \<noteq> ''''"
    and par: "en_ParentActivityID ?en \<noteq> '''' \<Longrightarrow> map_of (vp_Activities p) (en_ParentActivityID ?en) \<noteq> None"
    using assms(1)
    by (auto simp: apply_activity_planned_def Let_def write_activity_def planned_record_def
        split: option.splits payload.splits if_split_asm)
  have w: "writable (vp_Activities p) (planned_record ?en v)"
    using new par by (auto simp: writable_def planned_record_def stage_ok_def terminalActivity_def)
  have "en_ActivityID ?en \<notin> set (gkeys (vp_Activities p))" using new(1) by (simp add: in_gkeys_iff)
  then show ?thesis
    using inv q gkeys_write [OF inv(3) w] entries_ok_write [OF inv(3) w]
    by (simp add: activity_inv_entries planned_record_def)
qed

lemma inv_transition:
  assumes "transition p e to mutate = Inr q" and "activity_inv p"
    and "\<And>r. stage_ok r \<Longrightarrow> allowed (av_State r) to \<Longrightarrow> stage_ok (mutate (r\<lparr>av_State := to\<rparr>))"
    and "\<And>r. av_ActivityID (mutate r) = av_ActivityID r \<and> av_ParentActivityID (mutate r) = av_ParentActivityID r
      \<and> av_Children (mutate r) = av_Children r"
  shows "activity_inv q"
  using assms(1)
proof (rule transition_spec)
  fix r0
  assume r0: "map_of (vp_Activities p) (en_ActivityID (e_Envelope e)) = Some r0" "allowed (av_State r0) to"
    and q: "q = p\<lparr>vp_Activities := write_activity (vp_Activities p) (mutate (r0\<lparr>av_State := to\<rparr>))\<rparr>"
  show ?thesis
    unfolding q
    by (rule activity_inv_write [OF assms(2) r0(1) assms(3) [OF activity_inv_record [OF assms(2) r0(1)] r0(2)]])
      (use assms(4) in simp_all)
qed

lemma stage_authorize:
  "stage_ok r \<Longrightarrow> allowed (av_State r) AStateAuthorized \<Longrightarrow>
   stage_ok (authorize_record t v (r\<lparr>av_State := AStateAuthorized\<rparr>))"
  by (auto simp: stage_ok_def allowed_def authorize_record_def terminalActivity_def split: if_splits)

lemma stage_start:
  "stage_ok r \<Longrightarrow> allowed (av_State r) AStateStarted \<Longrightarrow>
   stage_ok (r\<lparr>av_State := AStateStarted, av_StartedAt := Some t\<rparr>)"
  by (auto simp: stage_ok_def allowed_def terminalActivity_def split: if_splits)

lemma stage_outcome:
  "stage_ok r \<Longrightarrow> allowed (av_State r) to \<Longrightarrow> terminalActivity to \<Longrightarrow>
   stage_ok (outcome_record t v (r\<lparr>av_State := to\<rparr>))"
  by (auto simp: stage_ok_def allowed_def outcome_record_def terminalActivity_def split: if_splits)

lemma stateForKind_terminal: "allowed from (stateForKind k) \<Longrightarrow> terminalActivity (stateForKind k)"
  by (auto simp: stateForKind_def terminalActivity_def allowed_def split: option.splits if_splits)

lemma mutators_keep [simp]:
  "av_ActivityID (authorize_record t v r) = av_ActivityID r"
  "av_ParentActivityID (authorize_record t v r) = av_ParentActivityID r"
  "av_Children (authorize_record t v r) = av_Children r"
  "av_ActivityID (outcome_record t o1 r) = av_ActivityID r"
  "av_ParentActivityID (outcome_record t o1 r) = av_ParentActivityID r"
  "av_Children (outcome_record t o1 r) = av_Children r"
  by (simp_all add: authorize_record_def outcome_record_def)

text \<open>Every state change of an activity goes through \<open>transition\<close>.\<close>

lemma activity_handlers_transition:
  "apply_activity_authorized p e = Inr q \<Longrightarrow>
     \<exists>v. transition p e AStateAuthorized (authorize_record (en_Time (e_Envelope e)) v) = Inr q"
  "apply_activity_started p e = Inr q \<Longrightarrow>
     transition p e AStateStarted (\<lambda>r. r\<lparr>av_StartedAt := Some (en_Time (e_Envelope e))\<rparr>) = Inr q"
  "apply_activity_outcome p e = Inr q \<Longrightarrow>
     \<exists>v. transition p e (stateForKind (en_Kind (e_Envelope e)))
       (outcome_record (en_Time (e_Envelope e)) v) = Inr q"
  by (auto simp: apply_activity_authorized_def apply_activity_started_def apply_activity_outcome_def Let_def
      split: option.splits payload.splits if_split_asm)

lemma inv_activity_authorized:
  assumes "apply_activity_authorized p e = Inr q" and "activity_inv p"
  shows "activity_inv q"
proof -
  obtain v where "transition p e AStateAuthorized (authorize_record (en_Time (e_Envelope e)) v) = Inr q"
    using activity_handlers_transition(1) [OF assms(1)] by blast
  then show ?thesis by (rule inv_transition [OF _ assms(2)]) (simp_all add: stage_authorize)
qed

lemma inv_activity_started:
  assumes "apply_activity_started p e = Inr q" and "activity_inv p"
  shows "activity_inv q"
  by (rule inv_transition [OF activity_handlers_transition(2) [OF assms(1)] assms(2)]) (simp_all add: stage_start)

lemma inv_activity_outcome:
  assumes "apply_activity_outcome p e = Inr q" and "activity_inv p"
  shows "activity_inv q"
proof -
  obtain v where "transition p e (stateForKind (en_Kind (e_Envelope e)))
      (outcome_record (en_Time (e_Envelope e)) v) = Inr q"
    using activity_handlers_transition(3) [OF assms(1)] by blast
  then show ?thesis
    by (rule inv_transition [OF _ assms(2)]) (simp_all add: stage_outcome stateForKind_terminal)
qed

text \<open>A change that leaves the summary as it is needs no refresh of the parent.\<close>

lemma gput_same: "map_of m k = Some v \<Longrightarrow> gput k v m = m"
  by (induction m) (auto split: if_splits)

lemma put_child_same: "s \<in> set cs \<Longrightarrow> distinct (map cs_ActivityID cs) \<Longrightarrow> put_child s cs = cs"
  by (induction cs) (auto intro: rev_image_eqI)

lemma write_without_refresh:
  assumes ok: "entries_ok m" and r0: "map_of m i = Some r0" and same: "child_of r = child_of r0"
    "av_ActivityID r = av_ActivityID r0" "av_ParentActivityID r = av_ParentActivityID r0"
  shows "gput (av_ActivityID r) r m = write_activity m r"
proof (cases "av_ParentActivityID r = ''''")
  case False
  then obtain q where q: "map_of m (av_ParentActivityID r) = Some q" "child_of r \<in> set (av_Children q)"
    using entries_okD(5) [OF ok r0] same by (auto simp: summarised_def)
  have "put_child (child_of r) (av_Children q) = av_Children q"
    by (rule put_child_same [OF q(2)]) (use entries_okD(6) [OF ok q(1)] in \<open>simp add: children_known_def\<close>)
  moreover have "map_of (gput (av_ActivityID r) r m) (av_ActivityID q) = Some q"
    using q entries_okD(2) [OF ok q(1)] entries_okD(2,3) [OF ok r0] same by simp
  moreover have "av_ParentActivityID r \<noteq> av_ActivityID r"
    using entries_okD(2,3) [OF ok r0] same by simp
  ultimately show ?thesis
    using q False entries_okD(2) [OF ok q(1)] by (simp add: write_activity_def updateParent_def gput_same)
qed (simp add: write_activity_def updateParent_def)

lemma inv_evidence_linked:
  assumes "apply_evidence_linked p e = Inr q" and inv: "activity_inv p"
  shows "activity_inv q"
proof -
  obtain r0 r where r0: "map_of (vp_Activities p) (en_ActivityID (e_Envelope e)) = Some r0"
    and same: "child_of r = child_of r0" "av_ActivityID r = av_ActivityID r0"
      "av_ParentActivityID r = av_ParentActivityID r0" "av_Children r = av_Children r0" "stage_ok r = stage_ok r0"
    and q: "q = p\<lparr>vp_Activities := gput (av_ActivityID r) r (vp_Activities p)\<rparr>"
  proof -
    obtain r0 v where r0: "map_of (vp_Activities p) (en_ActivityID (e_Envelope e)) = Some r0"
      and choice: "q = p\<lparr>vp_Activities := gput (av_ActivityID r0)
              (r0\<lparr>av_InputEvidenceIDs := appendUniqueEvidence (av_InputEvidenceIDs r0) v\<rparr>) (vp_Activities p)\<rparr>
        \<or> q = p\<lparr>vp_Activities := gput (av_ActivityID r0)
              (r0\<lparr>av_OutputEvidenceIDs := appendUniqueEvidence (av_OutputEvidenceIDs r0) v\<rparr>) (vp_Activities p)\<rparr>"
      using assms(1)
      by (auto simp: apply_evidence_linked_def split: option.splits payload.splits if_split_asm)
    from choice show ?thesis
    proof
      assume "q = p\<lparr>vp_Activities := gput (av_ActivityID r0)
          (r0\<lparr>av_InputEvidenceIDs := appendUniqueEvidence (av_InputEvidenceIDs r0) v\<rparr>) (vp_Activities p)\<rparr>"
      then show ?thesis
        by (intro that [OF r0, of "r0\<lparr>av_InputEvidenceIDs := appendUniqueEvidence (av_InputEvidenceIDs r0) v\<rparr>"])
          (simp_all add: child_of_def stage_ok_def)
    next
      assume "q = p\<lparr>vp_Activities := gput (av_ActivityID r0)
          (r0\<lparr>av_OutputEvidenceIDs := appendUniqueEvidence (av_OutputEvidenceIDs r0) v\<rparr>) (vp_Activities p)\<rparr>"
      then show ?thesis
        by (intro that [OF r0, of "r0\<lparr>av_OutputEvidenceIDs := appendUniqueEvidence (av_OutputEvidenceIDs r0) v\<rparr>"])
          (simp_all add: child_of_def stage_ok_def)
    qed
  qed
  have ok: "entries_ok (vp_Activities p)" using inv by (simp add: activity_inv_entries)
  show ?thesis
    unfolding q write_without_refresh [OF ok r0 same(1-3)]
    by (rule activity_inv_write [OF inv r0 _ same(2-4)]) (use same(5) activity_inv_record [OF inv r0] in simp)
qed

lemmas activity_case_invs = inv_activity_planned inv_activity_authorized inv_activity_started
  inv_activity_outcome inv_evidence_linked

lemma activity_Apply_cases:
  assumes "activity_Apply p e = Inr q"
  obtains (skip) "q = p"
  | (handler) h where "(en_Kind (e_Envelope e), h) \<in> set activity_cases" and "h p e = Inr q"
proof (cases "map_of activity_cases (en_Kind (e_Envelope e))")
  case None
  with assms show ?thesis by (auto simp: activity_Apply_def split: option.splits intro: skip)
next
  case (Some h)
  with assms have "h p e = Inr q" by (simp add: activity_Apply_def split: option.splits)
  with Some show ?thesis by (blast intro: handler dest: map_of_SomeD)
qed

lemma activity_inv_Apply:
  assumes "activity_Apply p e = Inr q" and "activity_inv p"
  shows "activity_inv q"
  using assms(1)
proof (cases rule: activity_Apply_cases)
  case (handler h)
  then show ?thesis using assms(2) unfolding activity_cases_def by (auto intro: activity_case_invs)
qed (use assms(2) in simp)

section \<open>How an activity moves\<close>

text \<open>
  What one event does to a known activity: it keeps its state and decision, or it makes one
  allowed move; only the move to authorized sets the decision.
\<close>

inductive activity_step :: "activity_record \<Rightarrow> activity_record \<Rightarrow> bool" where
  step_keep: "av_State r' = av_State r \<Longrightarrow> av_Decision r' = av_Decision r \<Longrightarrow> activity_step r r'"
| step_authorize: "av_State r = AStatePlanned \<Longrightarrow> av_State r' = AStateAuthorized \<Longrightarrow>
    av_Decision r' \<noteq> None \<Longrightarrow> activity_step r r'"
| step_move: "allowed (av_State r) (av_State r') \<Longrightarrow> av_State r' \<noteq> AStateAuthorized \<Longrightarrow>
    av_Decision r' = av_Decision r \<Longrightarrow> activity_step r r'"

lemma activity_step_refl [simp]: "activity_step r r"
  by (rule step_keep) simp_all

lemma activity_step_evidence [simp]:
  "activity_step r (r\<lparr>av_InputEvidenceIDs := ins\<rparr>)" "activity_step r (r\<lparr>av_OutputEvidenceIDs := outs\<rparr>)"
  "activity_step r (r\<lparr>av_Children := cs\<rparr>)"
  by (simp_all add: step_keep)

lemma write_activity_step:
  assumes ok: "entries_ok m" and w: "writable m r" and r0: "map_of m (av_ActivityID r) = Some r0"
    and st: "activity_step r0 r" and i: "map_of m i = Some x"
  shows "\<exists>y. map_of (write_activity m r) i = Some y \<and> activity_step x y"
proof (cases "i = av_ActivityID r")
  case True
  then show ?thesis using write_activity_same [OF ok w] r0 st i by simp
next
  case False
  then show ?thesis using write_activity_other [OF ok w False] i by (auto intro: step_keep)
qed

lemma transition_step:
  assumes t: "transition p e to mutate = Inr q" and inv: "activity_inv p"
    and st: "\<And>r. stage_ok r \<Longrightarrow> allowed (av_State r) to \<Longrightarrow> stage_ok (mutate (r\<lparr>av_State := to\<rparr>))"
    and keep: "\<And>r. av_ActivityID (mutate r) = av_ActivityID r \<and> av_ParentActivityID (mutate r) = av_ParentActivityID r
      \<and> av_Children (mutate r) = av_Children r"
    and move: "\<And>r. allowed (av_State r) to \<Longrightarrow> activity_step r (mutate (r\<lparr>av_State := to\<rparr>))"
    and i: "map_of (vp_Activities p) i = Some x"
  shows "\<exists>y. map_of (vp_Activities q) i = Some y \<and> activity_step x y"
  using t
proof (rule transition_spec)
  fix r0
  let ?r = "mutate (r0\<lparr>av_State := to\<rparr>)"
  assume r0: "map_of (vp_Activities p) (en_ActivityID (e_Envelope e)) = Some r0" "allowed (av_State r0) to"
    and q: "q = p\<lparr>vp_Activities := write_activity (vp_Activities p) ?r\<rparr>"
  have ok: "entries_ok (vp_Activities p)" using inv by (simp add: activity_inv_entries)
  have w: "writable (vp_Activities p) ?r"
    by (rule writable_known [OF ok r0(1) st [OF activity_inv_record [OF inv r0(1)] r0(2)]])
      (use keep in simp_all)
  have "map_of (vp_Activities p) (av_ActivityID ?r) = Some r0"
    using keep r0(1) entries_okD(2) [OF ok r0(1)] by simp
  from write_activity_step [OF ok w this move [OF r0(2)] i] show ?thesis using q by simp
qed

lemma step_planned:
  assumes "apply_activity_planned p e = Inr q" and "activity_inv p" and "map_of (vp_Activities p) i = Some x"
  shows "\<exists>y. map_of (vp_Activities q) i = Some y \<and> activity_step x y"
  using assms entries_okD(2) [of "vp_Activities p"]
  by (auto simp: apply_activity_planned_def Let_def updateParent_def activity_inv_entries planned_record_def
      split: option.splits payload.splits if_split_asm)

lemma step_evidence_linked:
  assumes "apply_evidence_linked p e = Inr q" and "activity_inv p" and "map_of (vp_Activities p) i = Some x"
  shows "\<exists>y. map_of (vp_Activities q) i = Some y \<and> activity_step x y"
  using assms entries_okD(2) [of "vp_Activities p"]
  by (auto simp: apply_evidence_linked_def activity_inv_entries
      split: option.splits payload.splits if_split_asm)

lemma step_authorized:
  assumes "apply_activity_authorized p e = Inr q" and "activity_inv p" and "map_of (vp_Activities p) i = Some x"
  shows "\<exists>y. map_of (vp_Activities q) i = Some y \<and> activity_step x y"
proof -
  obtain v where t: "transition p e AStateAuthorized (authorize_record (en_Time (e_Envelope e)) v) = Inr q"
    using activity_handlers_transition(1) [OF assms(1)] by blast
  show ?thesis
  proof (rule transition_step [OF t assms(2) _ _ _ assms(3)])
    show "activity_step r (authorize_record (en_Time (e_Envelope e)) v (r\<lparr>av_State := AStateAuthorized\<rparr>))"
      if "allowed (av_State r) AStateAuthorized" for r
      by (rule step_authorize) (use that in \<open>auto simp: allowed_def authorize_record_def split: if_splits\<close>)
  qed (simp_all add: stage_authorize)
qed

lemma step_started:
  assumes "apply_activity_started p e = Inr q" and "activity_inv p" and "map_of (vp_Activities p) i = Some x"
  shows "\<exists>y. map_of (vp_Activities q) i = Some y \<and> activity_step x y"
  by (rule transition_step [OF activity_handlers_transition(2) [OF assms(1)] assms(2) _ _ _ assms(3)])
    (auto simp: stage_start intro: step_move)

lemma step_outcome:
  assumes "apply_activity_outcome p e = Inr q" and "activity_inv p" and "map_of (vp_Activities p) i = Some x"
  shows "\<exists>y. map_of (vp_Activities q) i = Some y \<and> activity_step x y"
proof -
  let ?to = "stateForKind (en_Kind (e_Envelope e))"
  obtain v where t: "transition p e ?to (outcome_record (en_Time (e_Envelope e)) v) = Inr q"
    using activity_handlers_transition(3) [OF assms(1)] by blast
  show ?thesis
  proof (rule transition_step [OF t assms(2) _ _ _ assms(3)])
    show "activity_step r (outcome_record (en_Time (e_Envelope e)) v (r\<lparr>av_State := ?to\<rparr>))"
      if "allowed (av_State r) ?to" for r
      by (rule step_move) (use that stateForKind_terminal [OF that] in
          \<open>auto simp: outcome_record_def terminalActivity_def\<close>)
  qed (simp_all add: stage_outcome stateForKind_terminal)
qed

lemmas activity_case_steps = step_planned step_evidence_linked step_authorized step_started step_outcome

lemma activity_Apply_step:
  assumes "activity_Apply p e = Inr q" and "activity_inv p" and "map_of (vp_Activities p) i = Some x"
  shows "\<exists>y. map_of (vp_Activities q) i = Some y \<and> activity_step x y"
  using assms(1)
proof (cases rule: activity_Apply_cases)
  case (handler h)
  then show ?thesis
    using assms(2,3) activity_case_steps unfolding activity_cases_def by auto
qed (use assms(3) in \<open>auto intro: step_keep\<close>)

lemma activity_step_terminal:
  "activity_step r r' \<Longrightarrow> terminalActivity (av_State r) \<Longrightarrow> av_State r' = av_State r \<and> av_Decision r' = av_Decision r"
  by (erule activity_step.cases) (auto simp: terminalActivity_def allowed_def split: if_splits)

lemma activity_step_decision:
  "activity_step r r' \<Longrightarrow> stage_ok r \<Longrightarrow> av_Decision r = Some d \<Longrightarrow> av_Decision r' = Some d"
  by (erule activity_step.cases) (auto simp: stage_ok_def)

section \<open>The projector under the store\<close>

definition activity_projector :: "activity_projection projector" where
  "activity_projector = \<lparr>pj_Version = activity_Version, pj_Zero = activity_Zero, pj_Apply = activity_Apply\<rparr>"

interpretation activity_store: projector_contract activity_Zero activity_Apply activity_inv "\<lambda>e. True"
  by unfold_locales (auto intro: activity_inv_Apply)

end
