(* ===== verification/Activity_Properties.thy ===== *)
theory Activity_Properties
  imports Activity_Invariants Samples
begin

text \<open>
  What the activity projection (\<open>internal/activity/projection.go\<close>) promises of every journal it
  accepts: each record's state agrees with its decision and its instants, parents hold exact
  summaries of their children, nothing starts without the decision that authorized it, and an ended
  activity stays as it ended. The witnesses run a parent activity and a child of it.
\<close>

section \<open>A run\<close>

definition sample_planned :: activity_planned where
  "sample_planned = \<lparr>ap_Kind = ''tool'', ap_Purpose = ''read'', ap_PurposeActor = sample_user, ap_Source = ''builtin'',
     ap_Plan = None, ap_InputEvidenceIDs = [], ap_RequestedProfile = '''', ap_EffectiveProfile = '''',
     ap_CompactionTrigger = ''''\<rparr>"

definition of_activity :: "activity_id \<Rightarrow> activity_id \<Rightarrow> event \<Rightarrow> event" where
  "of_activity i parent e = e\<lparr>e_Envelope := (e_Envelope e)\<lparr>en_ActivityID := i, en_ParentActivityID := parent\<rparr>\<rparr>"

definition sample_start :: event where
  "sample_start = of_activity ''child'' ''act'' (sample_event EventActivityStarted 7 ''t4'' (P_ActivityStarted
     \<lparr>as_DecisionNonce = ''n'', as_DecisionEventID = ''d'', as_ActivityID = ''child'', as_CallID = ''call'',
      as_PlanDigest = sample_digest, as_RequestDigest = sample_digest, as_DispatchDigest = sample_digest,
      as_RuntimeGenerationID = ''g'', as_DispatchState = ''accepted''\<rparr>))"

definition sample_activity_events :: "event list" where
  "sample_activity_events =
     [sample_event EventActivityPlanned 1 ''t1'' (P_ActivityPlanned sample_planned),
      of_activity ''child'' ''act'' (sample_event EventActivityPlanned 3 ''t2'' (P_ActivityPlanned sample_planned)),
      of_activity ''child'' ''act'' (sample_event EventActivityAuthorized 5 ''t3'' (P_ActivityAuthorized
        \<lparr>aa_DecisionNonce = ''n'', aa_DecisionEventID = ''d'', aa_PlanDigest = sample_digest,
         aa_RequestDigest = sample_digest, aa_DispatchDigest = sample_digest\<rparr>))]"

definition sample_ended_events :: "event list" where
  "sample_ended_events = sample_activity_events @ [sample_start,
     of_activity ''child'' ''act'' (sample_event EventActivityUncertain 9 ''t5'' (P_ActivityOutcome
       \<lparr>ao_Status = AStateUncertain, ao_Reason = ''crash'', ao_ErrorCode = '''', ao_OutputEvidenceIDs = [],
        ao_UnknownEffects = [], ao_Usage = None, ao_OutputBytes = 0\<rparr>))]"

definition sample_link :: event where
  "sample_link = of_activity ''child'' ''act'' (sample_event EventEvidenceLinked 11 ''t6'' (P_EvidenceLinked
     \<lparr>el_EvidenceID = ''ev1'', el_Subject = \<lparr>sr_Kind = ''activity'', sr_ID = ''child''\<rparr>, el_Relation = ''output''\<rparr>))"

abbreviation activity_run :: "event list \<Rightarrow> activity_projection res" where
  "activity_run es \<equiv> fold_res activity_Apply (activity_Zero sample_ref) es"

lemma activity_run_accepts:
  "activity_run sample_activity_events = Inr (projr (activity_run sample_activity_events))"
  "activity_run sample_ended_events = Inr (projr (activity_run sample_ended_events))"
proof -
  have "\<not> isl (activity_run sample_activity_events)" "\<not> isl (activity_run sample_ended_events)" by code_simp+
  then show "activity_run sample_activity_events = Inr (projr (activity_run sample_activity_events))"
    "activity_run sample_ended_events = Inr (projr (activity_run sample_ended_events))" by simp_all
qed

lemma reachable_activity_inv: "fold_res activity_Apply (activity_Zero ref) es = Inr p \<Longrightarrow> activity_inv p"
  by (erule activity_store.fold_inv [OF _ _ activity_Zero_inv]) (simp add: list_all_iff)

section \<open>Properties\<close>

text \<open>
  C23. After any run of accepted events, the state of every activity agrees with its record: a planned
  activity has no decision, a started one has its decision and both instants, one that ended with an
  effect was started, a denied or cancelled one never was, and exactly the ended ones have an end.
\<close>

theorem activity_stages:
  assumes "fold_res activity_Apply (activity_Zero ref) es = Inr p" and "map_of (vp_Activities p) i = Some r"
  shows "av_ActivityID r = i \<and> stage_ok r"
  using reachable_activity_inv [OF assms(1)] assms(2) by (simp add: activity_inv_def)

theorem activity_stages_witness:
  "stage_ok (the (map_of (vp_Activities (projr (activity_run sample_ended_events))) ''child''))"
proof -
  let ?r = "map_of (vp_Activities (projr (activity_run sample_ended_events))) ''child''"
  have "?r \<noteq> None" by code_simp
  then have "?r = Some (the ?r)" by simp
  from activity_stages [OF activity_run_accepts(2) this] show ?thesis by simp
qed

text \<open>
  An activity with a parent is summarised by the parent with its current kind and state, no
  parent summarises an activity twice or one that is not its child, and the order lists exactly the
  known activities.
\<close>

theorem parents_summarise_children:
  assumes "fold_res activity_Apply (activity_Zero ref) es = Inr p" and "map_of (vp_Activities p) i = Some r"
  shows "vp_Order p = gkeys (vp_Activities p) \<and> distinct (vp_Order p)
    \<and> (av_ParentActivityID r \<noteq> '''' \<longrightarrow> (\<exists>q. map_of (vp_Activities p) (av_ParentActivityID r) = Some q
         \<and> \<lparr>cs_ActivityID = i, cs_Kind = av_Kind r, cs_State = av_State r\<rparr> \<in> set (av_Children q)))
    \<and> distinct (map cs_ActivityID (av_Children r))
    \<and> (\<forall>s \<in> set (av_Children r). \<exists>c. map_of (vp_Activities p) (cs_ActivityID s) = Some c
         \<and> av_ParentActivityID c = i \<and> s = child_of c)"
proof -
  have inv: "activity_inv p" by (rule reachable_activity_inv [OF assms(1)])
  have "gmap_ok (vp_Activities p)" "gkeys (vp_Activities p) = vp_Order p" "av_ActivityID r = i"
    "summarised (vp_Activities p) r" "children_known (vp_Activities p) r"
    using inv assms(2) by (simp_all add: activity_inv_def)
  then show ?thesis by (auto simp: gmap_ok_def summarised_def children_known_def child_of_def)
qed

theorem parents_summarise_children_witness:
  "\<exists>q. map_of (vp_Activities (projr (activity_run sample_ended_events))) ''act'' = Some q
    \<and> \<lparr>cs_ActivityID = ''child'', cs_Kind = ''tool'', cs_State = AStateUncertain\<rparr> \<in> set (av_Children q)"
proof -
  let ?r = "map_of (vp_Activities (projr (activity_run sample_ended_events))) ''child''"
  have "?r \<noteq> None" "av_ParentActivityID (the ?r) = ''act''" "av_Kind (the ?r) = ''tool''"
    "av_State (the ?r) = AStateUncertain" by code_simp+
  then have r: "?r = Some (the ?r)" and f: "av_ParentActivityID (the ?r) = ''act''" "av_Kind (the ?r) = ''tool''"
    "av_State (the ?r) = AStateUncertain" by simp_all
  show ?thesis using parents_summarise_children [OF activity_run_accepts(2) r] f by simp
qed

lemma activities_step:
  "fold_res activity_Apply p es = Inr q \<Longrightarrow> activity_inv p \<Longrightarrow> map_of (vp_Activities p) i = Some r \<Longrightarrow>
   terminalActivity (av_State r) \<Longrightarrow>
   \<exists>r'. map_of (vp_Activities q) i = Some r' \<and> av_State r' = av_State r \<and> av_Decision r' = av_Decision r"
proof (induction es arbitrary: p r)
  case (Cons e es)
  obtain p1 where p1: "activity_Apply p e = Inr p1" "fold_res activity_Apply p1 es = Inr q"
    using Cons.prems(1) by (auto split: sum.splits)
  obtain r1 where r1: "map_of (vp_Activities p1) i = Some r1" "activity_step r r1"
    using activity_Apply_step [OF p1(1) Cons.prems(2,3)] by blast
  note keep = activity_step_terminal [OF r1(2) Cons.prems(4)]
  show ?case
    using Cons.IH [OF p1(2) activity_inv_Apply [OF p1(1) Cons.prems(2)] r1(1)] keep Cons.prems(4) by simp
qed simp

text \<open>
  C24. An activity that has ended keeps its state and its decision, whatever events follow.
\<close>

theorem ended_activity_keeps_state:
  assumes "fold_res activity_Apply (activity_Zero ref) es = Inr p" and "fold_res activity_Apply p es' = Inr q"
    and "map_of (vp_Activities p) i = Some r"
    and "av_State r \<in> {AStateSucceeded, AStateFailed, AStateDenied, AStateCancelled, AStateInterruptedNoEffect, AStateUncertain}"
  shows "\<exists>r'. map_of (vp_Activities q) i = Some r' \<and> av_State r' = av_State r \<and> av_Decision r' = av_Decision r"
  using activities_step [OF assms(2) reachable_activity_inv [OF assms(1)] assms(3)] assms(4)
  unfolding terminalActivity_def by blast

theorem ended_activity_keeps_state_witness:
  "\<exists>r'. map_of (vp_Activities (projr (fold_res activity_Apply (projr (activity_run sample_ended_events)) [sample_link]))) ''child'' = Some r'
    \<and> av_State r' = AStateUncertain"
proof -
  let ?p = "projr (activity_run sample_ended_events)"
  let ?q = "fold_res activity_Apply ?p [sample_link]"
  let ?r = "map_of (vp_Activities ?p) ''child''"
  have "?r \<noteq> None" "\<not> isl ?q" "av_State (the ?r) = AStateUncertain" by code_simp+
  then have r: "?r = Some (the ?r)" and q: "?q = Inr (projr ?q)" and s: "av_State (the ?r) = AStateUncertain" by simp_all
  have "av_State (the ?r) \<in> {AStateSucceeded, AStateFailed, AStateDenied, AStateCancelled,
      AStateInterruptedNoEffect, AStateUncertain}" by (simp only: s insert_iff simp_thms)
  from ended_activity_keeps_state [OF activity_run_accepts(2) q r this] show ?thesis
    unfolding s by (elim exE conjE) (rule exI, erule conjI)
qed

text \<open>
  An activity starts only from the authorized state, and the start event repeats the nonce, the
  decision event and the three digests of the decision recorded when it was authorized.
\<close>

theorem start_repeats_decision:
  assumes "activity_Apply p e = Inr q" and "en_Kind (e_Envelope e) = EventActivityStarted"
  shows "\<exists>v r. e_Decoded e = Some (P_ActivityStarted v) \<and> as_ActivityID v = en_ActivityID (e_Envelope e)
    \<and> map_of (vp_Activities p) (as_ActivityID v) = Some r \<and> av_State r = AStateAuthorized
    \<and> av_Decision r = Some \<lparr>dr_DecisionNonce = as_DecisionNonce v, dr_DecisionEventID = as_DecisionEventID v,
        dr_PlanDigest = as_PlanDigest v, dr_RequestDigest = as_RequestDigest v, dr_DispatchDigest = as_DispatchDigest v\<rparr>"
proof -
  have "map_of activity_cases EventActivityStarted = Some apply_activity_started" by (simp add: activity_cases_def)
  then have "apply_activity_started p e = Inr q"
    using assms by (simp add: activity_Apply_def split: option.splits)
  then show ?thesis
    by (auto simp: apply_activity_started_def start_ref_def split: option.splits payload.splits if_split_asm)
qed

theorem start_repeats_decision_witness:
  "\<exists>r. map_of (vp_Activities (projr (activity_run sample_activity_events))) ''child'' = Some r
    \<and> av_State r = AStateAuthorized"
proof -
  let ?q = "activity_Apply (projr (activity_run sample_activity_events)) sample_start"
  have "\<not> isl ?q" by code_simp
  then have q: "?q = Inr (projr ?q)" by simp
  have "en_Kind (e_Envelope sample_start) = EventActivityStarted" "en_ActivityID (e_Envelope sample_start) = ''child''"
    by (simp_all add: sample_start_def of_activity_def sample_event_def sample_envelope_def)
  then show ?thesis using start_repeats_decision [OF q] by fastforce
qed

end
