(* ===== verification/Authorization_Projection.thy ===== *)
theory Authorization_Projection
  imports Event_Rules
begin

text \<open>
  The authorization projection, \<open>internal/authorization/projection.go\<close>: requests, the decisions
  taken on them, session grants and their revocation, the one-time consumption of a decision's
  nonce, and the idempotency records of commands.

  \<open>canonicaljson.Digest\<close> of a decision and \<open>json.Unmarshal\<close> of a stored command result are the
  arguments \<open>decision_digest\<close> and \<open>unmarshal_result\<close>: SHA-256 and the reflection-driven decoder
  are code of Go's library. \<open>reflect.DeepEqual\<close> is equality of the modelled values, in which an
  empty slice and a nil slice are the same.
\<close>

section \<open>State\<close>

record stream_cursor =
  st_Epoch :: string
  st_Seq :: u64

record application_cursor =
  ac2_WorkspaceControl :: cursor
  ac2_SelectedSession :: "cursor option"
  ac2_RelatedSessions :: "cursor list"
  ac2_Stream :: stream_cursor

record public_error =
  pe_Code :: string
  pe_Message :: string
  pe_Retryable :: bool

record command_result =
  rs_ProtocolVersion :: u32
  rs_CommandID :: command_id
  rs_Status :: string
  rs_RequestDigest :: digest
  rs_Cursor :: application_cursor
  rs_PayloadVersion :: u32
  rs_Payload :: raw_message
  rs_Error :: "public_error option"

record decision_record =
  dd_Decision :: auth_decision
  dd_EventID :: event_id

record grant =
  gt_GrantID :: string
  gt_Decision :: auth_decision
  gt_Revoked :: bool
  gt_RevocationEpoch :: u64
  gt_RevocationReason :: string

record consumption =
  co_DecisionNonce :: decision_nonce
  co_EventID :: event_id
  co_Bindings :: auth_consumed

record command_record =
  cm_Journal :: journal_ref
  cm_CommandID :: command_id
  cm_RequestDigest :: digest
  cm_IdempotencyKey :: string
  cm_AcceptedEventID :: event_id
  cm_Result :: "command_result option"
  cm_CompletedEventID :: event_id

record auth_projection =
  zp_Journal :: journal_ref
  zp_Requests :: "(string, auth_request) gomap"
  zp_Decisions :: "(decision_nonce, decision_record) gomap"
  zp_Grants :: "(string, grant) gomap"
  zp_Consumed :: "(decision_nonce, consumption) gomap"
  zp_Commands :: "(string, command_record) gomap"
  zp_RevocationEpoch :: u64

definition auth_Version :: u32 where
  "auth_Version = 1"

definition auth_Zero :: "journal_ref \<Rightarrow> auth_projection" where
  "auth_Zero ref = \<lparr>zp_Journal = ref, zp_Requests = [], zp_Decisions = [], zp_Grants = [],
     zp_Consumed = [], zp_Commands = [], zp_RevocationEpoch = 0\<rparr>"

section \<open>Helpers\<close>

definition commandKey :: "journal_ref \<Rightarrow> command_id \<Rightarrow> string" where
  "commandKey ref c = jr_Kind ref @ nul @ jr_ID ref @ nul @ c"

definition validateConsumption ::
  "(auth_decision \<Rightarrow> digest res) \<Rightarrow> event \<Rightarrow> auth_consumed \<Rightarrow> decision_record \<Rightarrow> string option" where
  "validateConsumption decision_digest e v d =
     (let r = dc_Request (dd_Decision d) in
      case decision_digest (dd_Decision d) of
        Inl m \<Rightarrow> Some m
      | Inr dg \<Rightarrow>
          if cn_DecisionEventID v \<noteq> dd_EventID d \<or> cn_DecisionDigest v \<noteq> dg \<or> cn_RequestID v \<noteq> rq_RequestID r
             \<or> cn_CallID v \<noteq> rq_CallID r \<or> cn_PlanDigest v \<noteq> rq_PlanDigest r
             \<or> cn_RequestDigest v \<noteq> rq_RequestDigest r \<or> cn_DispatchDigest v \<noteq> rq_DispatchDigest r
             \<or> cn_RuntimeGenerationID v \<noteq> rq_RuntimeGenerationID r
          then Some ''authorization consumption binding mismatch''
          else if rq_SessionID r \<noteq> '''' then
            fail_if (cn_ActivityID v \<noteq> rq_ActivityID r \<or> cn_ControlOperationID v \<noteq> ''''
                \<or> en_ActivityID (e_Envelope e) \<noteq> rq_ActivityID r)
              ''authorization consumption activity binding mismatch''
          else
            fail_if (cn_ControlOperationID v \<noteq> rq_ControlOperationID r \<or> cn_ActivityID v \<noteq> '''')
              ''authorization consumption control binding mismatch'')"

definition NonceConsumed :: "auth_projection \<Rightarrow> decision_nonce \<Rightarrow> bool" where
  "NonceConsumed p n \<longleftrightarrow> map_of (zp_Consumed p) n \<noteq> None"

definition LookupGrant :: "auth_projection \<Rightarrow> string \<Rightarrow> grant option" where
  "LookupGrant p g = map_of (zp_Grants p) g"

definition LookupCommand :: "auth_projection \<Rightarrow> journal_ref \<Rightarrow> command_id \<Rightarrow> command_record option" where
  "LookupCommand p ref c = map_of (zp_Commands p) (commandKey ref c)"

section \<open>The cases of Apply\<close>

definition apply_requested :: "auth_projection \<Rightarrow> event \<Rightarrow> auth_projection res" where
  "apply_requested p e =
     (case e_Decoded e of
        Some (P_AuthorizationRequested r) \<Rightarrow>
          (case map_of (zp_Requests p) (rq_RequestID r) of
             Some r0 \<Rightarrow> if r0 \<noteq> r then Inl ''authorization request changed binding'' else Inr p
           | None \<Rightarrow> Inr (p\<lparr>zp_Requests := gput (rq_RequestID r) r (zp_Requests p)\<rparr>))
      | _ \<Rightarrow> Inl ''invalid authorization request'')"

text \<open>A session allow is also a grant, under the decision's nonce.\<close>

definition session_allow :: "auth_decision \<Rightarrow> bool" where
  "session_allow d \<longleftrightarrow> dc_Action d = ''allow'' \<and> dc_Lifetime d = LifetimeSession"

definition apply_decided :: "auth_projection \<Rightarrow> event \<Rightarrow> auth_projection res" where
  "apply_decided p e =
     (case e_Decoded e of
        Some (P_AuthorizationDecided d) \<Rightarrow>
          if map_of (zp_Requests p) (rq_RequestID (dc_Request d)) \<noteq> Some (dc_Request d)
          then Inl ''authorization decision request binding changed''
          else (case map_of (zp_Decisions p) (dc_DecisionNonce d) of
              Some d0 \<Rightarrow>
                if dd_Decision d0 \<noteq> d \<or> dd_EventID d0 \<noteq> en_EventID (e_Envelope e)
                then Inl ''authorization decision nonce changed binding'' else Inr p
            | None \<Rightarrow>
                Inr (p\<lparr>zp_Decisions := gput (dc_DecisionNonce d)
                         \<lparr>dd_Decision = d, dd_EventID = en_EventID (e_Envelope e)\<rparr> (zp_Decisions p),
                       zp_Grants := (if session_allow d then gput (dc_DecisionNonce d)
                         \<lparr>gt_GrantID = dc_DecisionNonce d, gt_Decision = d, gt_Revoked = False,
                          gt_RevocationEpoch = 0, gt_RevocationReason = ''''\<rparr> (zp_Grants p)
                         else zp_Grants p)\<rparr>))
      | _ \<Rightarrow> Inl ''invalid authorization decision'')"

definition apply_consumed ::
  "(auth_decision \<Rightarrow> digest res) \<Rightarrow> auth_projection \<Rightarrow> event \<Rightarrow> auth_projection res" where
  "apply_consumed decision_digest p e =
     (case e_Decoded e of
        Some (P_AuthorizationConsumed v) \<Rightarrow>
          if map_of (zp_Consumed p) (cn_DecisionNonce v) \<noteq> None
          then Inl ''authorization nonce already consumed''
          else (case map_of (zp_Decisions p) (cn_DecisionNonce v) of
              None \<Rightarrow> Inl ''authorization decision is not an allow''
            | Some d \<Rightarrow>
                if dc_Action (dd_Decision d) \<noteq> ''allow'' then Inl ''authorization decision is not an allow''
                else (case validateConsumption decision_digest e v d of
                    Some m \<Rightarrow> Inl m
                  | None \<Rightarrow> Inr (p\<lparr>zp_Consumed := gput (cn_DecisionNonce v)
                      \<lparr>co_DecisionNonce = cn_DecisionNonce v, co_EventID = en_EventID (e_Envelope e),
                       co_Bindings = v\<rparr> (zp_Consumed p)\<rparr>)))
      | _ \<Rightarrow> Inl ''invalid authorization consumption'')"

definition apply_grant_revoked :: "auth_projection \<Rightarrow> event \<Rightarrow> auth_projection res" where
  "apply_grant_revoked p e =
     (case e_Decoded e of
        Some (P_GrantRevoked v) \<Rightarrow>
          (case map_of (zp_Grants p) (gr_GrantID v) of
             None \<Rightarrow> Inl ''invalid grant revocation''
           | Some g \<Rightarrow>
               if gr_RevocationEpoch v \<le> zp_RevocationEpoch p then Inl ''invalid grant revocation''
               else Inr (p\<lparr>zp_Grants := gput (gr_GrantID v)
                   (g\<lparr>gt_Revoked := True, gt_RevocationEpoch := gr_RevocationEpoch v,
                      gt_RevocationReason := gr_Reason v\<rparr>) (zp_Grants p),
                   zp_RevocationEpoch := gr_RevocationEpoch v\<rparr>))
      | _ \<Rightarrow> Inl ''invalid grant revocation'')"

definition apply_command_accepted :: "auth_projection \<Rightarrow> event \<Rightarrow> auth_projection res" where
  "apply_command_accepted p e =
     (case e_Decoded e of
        Some (P_CommandAccepted v) \<Rightarrow>
          (let key = commandKey (zp_Journal p) (cc_CommandID v) in
           case map_of (zp_Commands p) key of
             Some c \<Rightarrow>
               if cm_RequestDigest c \<noteq> cc_RequestDigest v then Inl ''command request digest changed''
               else if cm_IdempotencyKey c \<noteq> cc_IdempotencyKey v then Inl ''command idempotency key changed''
               else Inr p
           | None \<Rightarrow> Inr (p\<lparr>zp_Commands := gput key
               \<lparr>cm_Journal = zp_Journal p, cm_CommandID = cc_CommandID v,
                cm_RequestDigest = cc_RequestDigest v, cm_IdempotencyKey = cc_IdempotencyKey v,
                cm_AcceptedEventID = en_EventID (e_Envelope e), cm_Result = None,
                cm_CompletedEventID = ''''\<rparr> (zp_Commands p)\<rparr>))
      | _ \<Rightarrow> Inl ''invalid accepted command'')"

definition result_bound :: "command_completed \<Rightarrow> command_result \<Rightarrow> bool" where
  "result_bound v s \<longleftrightarrow> rs_ProtocolVersion s = ApplicationProtocolVersion \<and> rs_CommandID s = cp_CommandID v
     \<and> rs_RequestDigest s = cp_RequestDigest v \<and> rs_Status s = cp_Status v"

definition apply_command_completed ::
  "(string \<Rightarrow> command_result res) \<Rightarrow> auth_projection \<Rightarrow> event \<Rightarrow> auth_projection res" where
  "apply_command_completed unmarshal_result p e =
     (case e_Decoded e of
        Some (P_CommandCompleted v) \<Rightarrow>
          (let key = commandKey (zp_Journal p) (cp_CommandID v) in
           case map_of (zp_Commands p) key of
             None \<Rightarrow> Inl ''command completion request digest binding mismatch''
           | Some c \<Rightarrow>
               if cm_RequestDigest c \<noteq> cp_RequestDigest v
               then Inl ''command completion request digest binding mismatch''
               else (case unmarshal_result (cp_Result v) of
                   Inl m \<Rightarrow> Inl m
                 | Inr s \<Rightarrow>
                     if \<not> result_bound v s then Inl ''command result binding mismatch''
                     else (case cm_Result c of
                         Some s0 \<Rightarrow> if s0 \<noteq> s then Inl ''command terminal result changed'' else Inr p
                       | None \<Rightarrow> Inr (p\<lparr>zp_Commands := gput key
                           (c\<lparr>cm_Result := Some s, cm_CompletedEventID := en_EventID (e_Envelope e)\<rparr>)
                           (zp_Commands p)\<rparr>))))
      | _ \<Rightarrow> Inl ''invalid completed command'')"

definition auth_cases ::
  "(auth_decision \<Rightarrow> digest res) \<Rightarrow> (string \<Rightarrow> command_result res)
     \<Rightarrow> (string \<times> (auth_projection \<Rightarrow> event \<Rightarrow> auth_projection res)) list" where
  "auth_cases decision_digest unmarshal_result =
     [(EventAuthorizationRequested, apply_requested), (EventAuthorizationDecided, apply_decided),
      (EventAuthorizationDecisionConsumed, apply_consumed decision_digest),
      (EventAuthorizationGrantRevoked, apply_grant_revoked),
      (EventCommandAccepted, apply_command_accepted),
      (EventCommandCompleted, apply_command_completed unmarshal_result)]"

definition auth_Apply ::
  "(auth_decision \<Rightarrow> digest res) \<Rightarrow> (string \<Rightarrow> command_result res)
     \<Rightarrow> auth_projection \<Rightarrow> event \<Rightarrow> auth_projection res" where
  "auth_Apply decision_digest unmarshal_result p e =
     (case ValidateFoundationEvent e of
        Some m \<Rightarrow> Inl m
      | None \<Rightarrow> (case map_of (auth_cases decision_digest unmarshal_result) (en_Kind (e_Envelope e)) of
           None \<Rightarrow> Inr p | Some h \<Rightarrow> h p e))"

section \<open>Invariant\<close>

text \<open>
  Decisions stand under their nonce and repeat a recorded request exactly; a consumed nonce has an
  allow decision whose bindings it repeats; grants are the session allows; revoked grants have an
  epoch the projection has reached; commands stand under their key and completed ones have a
  result bound to them.
\<close>

definition consumption_ok :: "(auth_decision \<Rightarrow> digest res) \<Rightarrow> auth_projection \<Rightarrow> decision_nonce \<Rightarrow> consumption \<Rightarrow> bool" where
  "consumption_ok decision_digest p n c \<longleftrightarrow> co_DecisionNonce c = n \<and> cn_DecisionNonce (co_Bindings c) = n \<and>
     (case map_of (zp_Decisions p) n of
        None \<Rightarrow> False
      | Some d \<Rightarrow> dc_Action (dd_Decision d) = ''allow''
          \<and> cn_DecisionEventID (co_Bindings c) = dd_EventID d
          \<and> decision_digest (dd_Decision d) = Inr (cn_DecisionDigest (co_Bindings c))
          \<and> cn_RequestDigest (co_Bindings c) = rq_RequestDigest (dc_Request (dd_Decision d))
          \<and> cn_DispatchDigest (co_Bindings c) = rq_DispatchDigest (dc_Request (dd_Decision d))
          \<and> cn_PlanDigest (co_Bindings c) = rq_PlanDigest (dc_Request (dd_Decision d)))"

definition decision_ok :: "auth_projection \<Rightarrow> decision_nonce \<Rightarrow> decision_record \<Rightarrow> bool" where
  "decision_ok p n d \<longleftrightarrow> dc_DecisionNonce (dd_Decision d) = n
     \<and> map_of (zp_Requests p) (rq_RequestID (dc_Request (dd_Decision d))) = Some (dc_Request (dd_Decision d))
     \<and> (session_allow (dd_Decision d) \<longleftrightarrow> map_of (zp_Grants p) n \<noteq> None)"

definition grant_ok :: "auth_projection \<Rightarrow> string \<Rightarrow> grant \<Rightarrow> bool" where
  "grant_ok p i g \<longleftrightarrow> gt_GrantID g = i
     \<and> (\<exists>d. map_of (zp_Decisions p) i = Some d \<and> dd_Decision d = gt_Decision g)
     \<and> session_allow (gt_Decision g)
     \<and> gt_RevocationEpoch g \<le> zp_RevocationEpoch p
     \<and> (gt_Revoked g \<longleftrightarrow> gt_RevocationEpoch g \<noteq> 0)"

definition command_ok :: "auth_projection \<Rightarrow> string \<Rightarrow> command_record \<Rightarrow> bool" where
  "command_ok p k c \<longleftrightarrow> k = commandKey (cm_Journal c) (cm_CommandID c) \<and> cm_Journal c = zp_Journal p
     \<and> (\<forall>s. cm_Result c = Some s \<longrightarrow>
          rs_CommandID s = cm_CommandID c \<and> rs_RequestDigest s = cm_RequestDigest c)"

definition auth_inv :: "(auth_decision \<Rightarrow> digest res) \<Rightarrow> auth_projection \<Rightarrow> bool" where
  "auth_inv decision_digest p \<longleftrightarrow>
     gmap_ok (zp_Requests p) \<and> gmap_ok (zp_Decisions p) \<and> gmap_ok (zp_Grants p)
     \<and> gmap_ok (zp_Consumed p) \<and> gmap_ok (zp_Commands p)
     \<and> (\<forall>i r. map_of (zp_Requests p) i = Some r \<longrightarrow> rq_RequestID r = i)
     \<and> (\<forall>n d. map_of (zp_Decisions p) n = Some d \<longrightarrow> decision_ok p n d)
     \<and> (\<forall>i g. map_of (zp_Grants p) i = Some g \<longrightarrow> grant_ok p i g)
     \<and> (\<forall>n c. map_of (zp_Consumed p) n = Some c \<longrightarrow> consumption_ok decision_digest p n c)
     \<and> (\<forall>k c. map_of (zp_Commands p) k = Some c \<longrightarrow> command_ok p k c)"

lemma auth_Zero_inv [simp]: "auth_inv decision_digest (auth_Zero ref)"
  by (simp add: auth_inv_def auth_Zero_def)

end
