(* ===== verification/Authorization_Invariants.thy ===== *)
theory Authorization_Invariants
  imports Authorization_Projection Projector_Contract
begin

text \<open>
  Every event keeps the authorization invariant, and what one event may change: a nonce is
  consumed once and only for an allow decision it is bound to, requests, decisions and results are
  never rewritten, and the revocation epoch never goes back.
\<close>

section \<open>Every event keeps the invariant\<close>

text \<open>Which parts of the state each conjunct reads.\<close>

lemma auth_parts_update [simp]:
  "decision_ok (p\<lparr>zp_Decisions := x1\<rparr>) = decision_ok p" "decision_ok (p\<lparr>zp_Consumed := x2\<rparr>) = decision_ok p"
  "decision_ok (p\<lparr>zp_Commands := x3\<rparr>) = decision_ok p"
  "decision_ok (p\<lparr>zp_Grants := x4, zp_RevocationEpoch := x5\<rparr>) = decision_ok (p\<lparr>zp_Grants := x4\<rparr>)"
  "grant_ok (p\<lparr>zp_Requests := y1\<rparr>) = grant_ok p" "grant_ok (p\<lparr>zp_Consumed := x2\<rparr>) = grant_ok p"
  "grant_ok (p\<lparr>zp_Commands := x3\<rparr>) = grant_ok p"
  "consumption_ok dg (p\<lparr>zp_Requests := y1\<rparr>) = consumption_ok dg p"
  "consumption_ok dg (p\<lparr>zp_Consumed := x2\<rparr>) = consumption_ok dg p"
  "consumption_ok dg (p\<lparr>zp_Grants := x4, zp_RevocationEpoch := x5\<rparr>) = consumption_ok dg p"
  "consumption_ok dg (p\<lparr>zp_Commands := x3\<rparr>) = consumption_ok dg p"
  "command_ok (p\<lparr>zp_Requests := y1\<rparr>) = command_ok p" "command_ok (p\<lparr>zp_Consumed := x2\<rparr>) = command_ok p"
  "command_ok (p\<lparr>zp_Grants := x4, zp_RevocationEpoch := x5\<rparr>) = command_ok p"
  "command_ok (p\<lparr>zp_Commands := x3\<rparr>) = command_ok p"
  "command_ok (p\<lparr>zp_Decisions := x1, zp_Grants := x4\<rparr>) = command_ok p"
  by (simp_all add: decision_ok_def grant_ok_def consumption_ok_def command_ok_def fun_eq_iff)

lemma auth_invD:
  assumes "auth_inv dg p"
  shows "gmap_ok (zp_Requests p)" "gmap_ok (zp_Decisions p)" "gmap_ok (zp_Grants p)"
    "gmap_ok (zp_Consumed p)" "gmap_ok (zp_Commands p)"
    "map_of (zp_Requests p) i = Some r \<Longrightarrow> rq_RequestID r = i"
    "map_of (zp_Decisions p) n = Some d \<Longrightarrow> decision_ok p n d"
    "map_of (zp_Grants p) i = Some g \<Longrightarrow> grant_ok p i g"
    "map_of (zp_Consumed p) n = Some c \<Longrightarrow> consumption_ok dg p n c"
    "map_of (zp_Commands p) k = Some cm \<Longrightarrow> command_ok p k cm"
  using assms unfolding auth_inv_def by blast+

lemma decision_ok_grow:
  "decision_ok p n d \<Longrightarrow> map_of (zp_Requests p) i = None \<Longrightarrow>
   decision_ok (p\<lparr>zp_Requests := gput i r (zp_Requests p)\<rparr>) n d"
  by (auto simp: decision_ok_def)

lemma inv_requested:
  assumes "apply_requested p e = Inr q" and inv: "auth_inv dg p"
  shows "auth_inv dg q"
proof -
  have "q = p \<or> (\<exists>r. map_of (zp_Requests p) (rq_RequestID r) = None
      \<and> q = p\<lparr>zp_Requests := gput (rq_RequestID r) r (zp_Requests p)\<rparr>)"
    using assms(1)
    by (auto simp: apply_requested_def split: option.splits payload.splits if_split_asm)
  then show ?thesis
  proof
    assume "\<exists>r. map_of (zp_Requests p) (rq_RequestID r) = None
      \<and> q = p\<lparr>zp_Requests := gput (rq_RequestID r) r (zp_Requests p)\<rparr>"
    then obtain r where none: "map_of (zp_Requests p) (rq_RequestID r) = None"
      and q: "q = p\<lparr>zp_Requests := gput (rq_RequestID r) r (zp_Requests p)\<rparr>" by blast
    show ?thesis
      using inv decision_ok_grow [OF _ none] unfolding q by (simp add: auth_inv_def)
  qed (use inv in simp)
qed

lemma inv_decided:
  assumes "apply_decided p e = Inr q" and inv: "auth_inv dg p"
  shows "auth_inv dg q"
proof -
  obtain d where dec: "e_Decoded e = Some (P_AuthorizationDecided d)"
    using assms(1) by (auto simp: apply_decided_def split: option.splits payload.splits)
  have d: "map_of (zp_Requests p) (rq_RequestID (dc_Request d)) = Some (dc_Request d)"
    using assms(1) dec by (simp add: apply_decided_def split: if_split_asm)
  have choice: "q = p \<or> (map_of (zp_Decisions p) (dc_DecisionNonce d) = None \<and>
       q = p\<lparr>zp_Decisions := gput (dc_DecisionNonce d)
               \<lparr>dd_Decision = d, dd_EventID = en_EventID (e_Envelope e)\<rparr> (zp_Decisions p),
             zp_Grants := (if session_allow d then gput (dc_DecisionNonce d)
               \<lparr>gt_GrantID = dc_DecisionNonce d, gt_Decision = d, gt_Revoked = False,
                gt_RevocationEpoch = 0, gt_RevocationReason = ''''\<rparr> (zp_Grants p)
               else zp_Grants p)\<rparr>)"
    using assms(1) dec d
    by (cases "map_of (zp_Decisions p) (dc_DecisionNonce d)") (auto simp: apply_decided_def split: if_split_asm)
  from choice show ?thesis
  proof
    assume new: "map_of (zp_Decisions p) (dc_DecisionNonce d) = None \<and>
       q = p\<lparr>zp_Decisions := gput (dc_DecisionNonce d)
               \<lparr>dd_Decision = d, dd_EventID = en_EventID (e_Envelope e)\<rparr> (zp_Decisions p),
             zp_Grants := (if session_allow d then gput (dc_DecisionNonce d)
               \<lparr>gt_GrantID = dc_DecisionNonce d, gt_Decision = d, gt_Revoked = False,
                gt_RevocationEpoch = 0, gt_RevocationReason = ''''\<rparr> (zp_Grants p)
               else zp_Grants p)\<rparr>"
    then have none: "map_of (zp_Decisions p) (dc_DecisionNonce d) = None" ..
    have nog: "map_of (zp_Grants p) (dc_DecisionNonce d) = None"
      using auth_invD(8) [OF inv] none
      by (cases "map_of (zp_Grants p) (dc_DecisionNonce d)") (fastforce simp: grant_ok_def)+
    have noc: "map_of (zp_Consumed p) (dc_DecisionNonce d) = None"
      using auth_invD(9) [OF inv] none
      by (cases "map_of (zp_Consumed p) (dc_DecisionNonce d)") (fastforce simp: consumption_ok_def)+
    have dec': "decision_ok q n x" if "map_of (zp_Decisions q) n = Some x" for n x
      using new d nog auth_invD(7) [OF inv, of n x] that by (auto simp: decision_ok_def split: if_splits)
    have gr: "grant_ok q n x" if "map_of (zp_Grants q) n = Some x" for n x
      using new none auth_invD(8) [OF inv, of n x] that by (auto simp: grant_ok_def split: if_splits)
    have con: "consumption_ok dg q n x" if "map_of (zp_Consumed q) n = Some x" for n x
      using new noc auth_invD(9) [OF inv, of n x] that by (auto simp: consumption_ok_def split: if_splits)
    have com: "command_ok q n x" if "map_of (zp_Commands q) n = Some x" for n x
      using new auth_invD(10) [OF inv, of n x] that by (auto simp: command_ok_def)
    show ?thesis
      using dec' gr con com auth_invD(1-6) [OF inv] new by (auto simp: auth_inv_def)
  qed (use inv in simp)
qed

lemma validateConsumption_ok:
  assumes "validateConsumption dg e v d = None"
  shows "cn_DecisionEventID v = dd_EventID d" "dg (dd_Decision d) = Inr (cn_DecisionDigest v)"
    "cn_RequestDigest v = rq_RequestDigest (dc_Request (dd_Decision d))"
    "cn_DispatchDigest v = rq_DispatchDigest (dc_Request (dd_Decision d))"
    "cn_PlanDigest v = rq_PlanDigest (dc_Request (dd_Decision d))"
  using assms by (auto simp: validateConsumption_def Let_def split: sum.splits if_split_asm)

lemma inv_consumed:
  assumes "apply_consumed dg p e = Inr q" and inv: "auth_inv dg p"
  shows "auth_inv dg q"
proof -
  obtain v d where v: "map_of (zp_Consumed p) (cn_DecisionNonce v) = None"
    "map_of (zp_Decisions p) (cn_DecisionNonce v) = Some d" "dc_Action (dd_Decision d) = ''allow''"
    "validateConsumption dg e v d = None"
    and q: "q = p\<lparr>zp_Consumed := gput (cn_DecisionNonce v)
      \<lparr>co_DecisionNonce = cn_DecisionNonce v, co_EventID = en_EventID (e_Envelope e), co_Bindings = v\<rparr>
      (zp_Consumed p)\<rparr>"
    using assms(1)
    by (auto simp: apply_consumed_def split: option.splits payload.splits if_split_asm)
  have "consumption_ok dg p (cn_DecisionNonce v)
      \<lparr>co_DecisionNonce = cn_DecisionNonce v, co_EventID = en_EventID (e_Envelope e), co_Bindings = v\<rparr>"
    using v(2,3) validateConsumption_ok [OF v(4)] by (simp add: consumption_ok_def)
  then show ?thesis using inv unfolding q by (auto simp: auth_inv_def)
qed

lemma inv_grant_revoked:
  assumes "apply_grant_revoked p e = Inr q" and inv: "auth_inv dg p"
  shows "auth_inv dg q"
proof -
  obtain v where dec: "e_Decoded e = Some (P_GrantRevoked v)"
    using assms(1) by (auto simp: apply_grant_revoked_def split: option.splits payload.splits)
  obtain g where v: "map_of (zp_Grants p) (gr_GrantID v) = Some g"
    "zp_RevocationEpoch p < gr_RevocationEpoch v"
    and q: "q = p\<lparr>zp_Grants := gput (gr_GrantID v)
        (g\<lparr>gt_Revoked := True, gt_RevocationEpoch := gr_RevocationEpoch v,
           gt_RevocationReason := gr_Reason v\<rparr>) (zp_Grants p),
      zp_RevocationEpoch := gr_RevocationEpoch v\<rparr>"
    using assms(1) dec by (auto simp: apply_grant_revoked_def not_le split: option.splits if_split_asm)
  have nz: "gr_RevocationEpoch v \<noteq> 0" using v(2) by auto
  have le: "gt_RevocationEpoch g' \<le> gr_RevocationEpoch v" if "map_of (zp_Grants p) i = Some g'" for i g'
    using auth_invD(8) [OF inv that] v(2) by (auto simp: grant_ok_def)
  have dc: "decision_ok q n x" if "map_of (zp_Decisions p) n = Some x" for n x
    using auth_invD(7) [OF inv that] v(1) by (auto simp: q decision_ok_def)
  have gr: "grant_ok q i x" if "map_of (zp_Grants q) i = Some x" for i x
  proof (cases "i = gr_GrantID v")
    case True
    then show ?thesis using that auth_invD(8) [OF inv v(1)] nz by (auto simp: q grant_ok_def)
  next
    case False
    then have "map_of (zp_Grants p) i = Some x" using that by (simp add: q)
    then show ?thesis using auth_invD(8) [OF inv, of i x] le by (auto simp: q grant_ok_def)
  qed
  show ?thesis
    unfolding auth_inv_def
    using dc gr auth_invD(1-6,9,10) [OF inv] by (simp add: q del: map_of_gput)
qed

lemma inv_put_command:
  "auth_inv dg p \<Longrightarrow> command_ok p k c \<Longrightarrow> auth_inv dg (p\<lparr>zp_Commands := gput k c (zp_Commands p)\<rparr>)"
  by (auto simp: auth_inv_def)

lemma inv_command_accepted:
  assumes "apply_command_accepted p e = Inr q" and "auth_inv dg p"
  shows "auth_inv dg q"
  using assms
  by (auto simp: apply_command_accepted_def Let_def command_ok_def
      split: option.splits payload.splits if_split_asm intro!: inv_put_command)

lemma commandKey_inj:
  assumes "jr_Kind ref = jr_Kind ref'" "jr_ID ref = jr_ID ref'" "commandKey ref c = commandKey ref' c'"
  shows "c = c'"
  using assms by (simp add: commandKey_def)

lemma inv_command_completed:
  assumes "apply_command_completed um p e = Inr q" and inv: "auth_inv dg p"
  shows "auth_inv dg q"
proof -
  obtain v c where c: "map_of (zp_Commands p) (commandKey (zp_Journal p) (cp_CommandID v)) = Some c"
    "cm_RequestDigest c = cp_RequestDigest v"
    and choice: "q = p \<or> (\<exists>s. result_bound v s \<and>
      q = p\<lparr>zp_Commands := gput (commandKey (zp_Journal p) (cp_CommandID v))
        (c\<lparr>cm_Result := Some s, cm_CompletedEventID := en_EventID (e_Envelope e)\<rparr>) (zp_Commands p)\<rparr>)"
    using assms(1)
    by (auto simp: apply_command_completed_def Let_def split: option.splits payload.splits if_split_asm sum.splits)
  have ok: "command_ok p (commandKey (zp_Journal p) (cp_CommandID v)) c"
    using inv c(1) by (simp add: auth_inv_def)
  then have jr: "cm_Journal c = zp_Journal p" by (simp add: command_ok_def)
  from ok have id: "cm_CommandID c = cp_CommandID v"
    by (elim command_ok_def [THEN iffD1, elim_format] conjE) (simp add: commandKey_def)
  from choice show ?thesis
  proof
    assume "\<exists>s. result_bound v s \<and>
      q = p\<lparr>zp_Commands := gput (commandKey (zp_Journal p) (cp_CommandID v))
        (c\<lparr>cm_Result := Some s, cm_CompletedEventID := en_EventID (e_Envelope e)\<rparr>) (zp_Commands p)\<rparr>"
    then obtain s where s: "result_bound v s"
      and q: "q = p\<lparr>zp_Commands := gput (commandKey (zp_Journal p) (cp_CommandID v))
        (c\<lparr>cm_Result := Some s, cm_CompletedEventID := en_EventID (e_Envelope e)\<rparr>) (zp_Commands p)\<rparr>" by blast
    show ?thesis
      unfolding q by (rule inv_put_command [OF inv]) (use c(2) jr id s in \<open>simp add: command_ok_def result_bound_def\<close>)
  qed (use inv in simp)
qed

lemmas auth_case_invs = inv_requested inv_decided inv_consumed inv_grant_revoked inv_command_accepted
  inv_command_completed

lemma auth_Apply_cases:
  assumes "auth_Apply dg um p e = Inr q"
  obtains (skip) "q = p"
  | (handler) h where "(en_Kind (e_Envelope e), h) \<in> set (auth_cases dg um)" and "h p e = Inr q"
proof (cases "map_of (auth_cases dg um) (en_Kind (e_Envelope e))")
  case None
  with assms show ?thesis by (auto simp: auth_Apply_def split: option.splits intro: skip)
next
  case (Some h)
  with assms have "h p e = Inr q" by (simp add: auth_Apply_def split: option.splits)
  with Some show ?thesis by (blast intro: handler dest: map_of_SomeD)
qed

lemma auth_inv_Apply:
  assumes "auth_Apply dg um p e = Inr q" and "auth_inv dg p"
  shows "auth_inv dg q"
  using assms(1)
proof (cases rule: auth_Apply_cases)
  case (handler h)
  then show ?thesis using assms(2) unfolding auth_cases_def by (auto intro: auth_case_invs)
qed (use assms(2) in simp)

section \<open>What one event may change\<close>

text \<open>Nothing recorded is lost or rewritten, except a grant's revocation and a command's result.\<close>

definition map_grows :: "('k, 'v) gomap \<Rightarrow> ('k, 'v) gomap \<Rightarrow> bool" where
  "map_grows m m' \<longleftrightarrow> (\<forall>k v. map_of m k = Some v \<longrightarrow> map_of m' k = Some v)"

lemma map_grows_refl [simp]: "map_grows m m"
  by (simp add: map_grows_def)

lemma map_grows_trans: "map_grows a b \<Longrightarrow> map_grows b c \<Longrightarrow> map_grows a c"
  by (simp add: map_grows_def)

lemma map_grows_gput [simp]: "map_of m k = None \<Longrightarrow> map_grows m (gput k v m)"
  by (auto simp: map_grows_def)

definition entries_le :: "('v \<Rightarrow> 'v \<Rightarrow> bool) \<Rightarrow> ('k, 'v) gomap \<Rightarrow> ('k, 'v) gomap \<Rightarrow> bool" where
  "entries_le R m m' \<longleftrightarrow> (\<forall>k v. map_of m k = Some v \<longrightarrow> (\<exists>v'. map_of m' k = Some v' \<and> R v v'))"

lemma entries_le_refl: "(\<And>v. R v v) \<Longrightarrow> entries_le R m m"
  by (simp add: entries_le_def)

lemma entries_le_trans:
  assumes "\<And>x y z. R x y \<Longrightarrow> R y z \<Longrightarrow> R x z" and "entries_le R a b" and "entries_le R b c"
  shows "entries_le R a c"
  unfolding entries_le_def
proof (intro allI impI)
  fix k v
  assume "map_of a k = Some v"
  then obtain v' where v': "map_of b k = Some v'" "R v v'" using assms(2) unfolding entries_le_def by blast
  then obtain v'' where "map_of c k = Some v''" "R v' v''" using assms(3) unfolding entries_le_def by blast
  with v'(2) show "\<exists>v'. map_of c k = Some v' \<and> R v v'" using assms(1) by blast
qed

lemma entries_le_gput:
  "(\<And>v. R v v) \<Longrightarrow> (\<And>w. map_of m k = Some w \<Longrightarrow> R w v) \<Longrightarrow> entries_le R m (gput k v m)"
  by (auto simp: entries_le_def)

definition grant_le :: "grant \<Rightarrow> grant \<Rightarrow> bool" where
  "grant_le g g' \<longleftrightarrow> gt_GrantID g' = gt_GrantID g \<and> gt_Decision g' = gt_Decision g
     \<and> (gt_Revoked g \<longrightarrow> gt_Revoked g')"

definition command_le :: "command_record \<Rightarrow> command_record \<Rightarrow> bool" where
  "command_le c c' \<longleftrightarrow> cm_CommandID c' = cm_CommandID c \<and> cm_RequestDigest c' = cm_RequestDigest c
     \<and> cm_IdempotencyKey c' = cm_IdempotencyKey c \<and> cm_AcceptedEventID c' = cm_AcceptedEventID c
     \<and> (\<forall>s. cm_Result c = Some s \<longrightarrow> cm_Result c' = Some s \<and> cm_CompletedEventID c' = cm_CompletedEventID c)"

definition auth_le :: "auth_projection \<Rightarrow> auth_projection \<Rightarrow> bool" where
  "auth_le p q \<longleftrightarrow> zp_Journal q = zp_Journal p
     \<and> map_grows (zp_Requests p) (zp_Requests q) \<and> map_grows (zp_Decisions p) (zp_Decisions q)
     \<and> map_grows (zp_Consumed p) (zp_Consumed q)
     \<and> entries_le grant_le (zp_Grants p) (zp_Grants q)
     \<and> entries_le command_le (zp_Commands p) (zp_Commands q)
     \<and> zp_RevocationEpoch p \<le> zp_RevocationEpoch q"

lemma grant_le_refl [simp]: "grant_le g g" by (simp add: grant_le_def)
lemma command_le_refl [simp]: "command_le c c" by (simp add: command_le_def)
lemma auth_le_refl [simp]: "auth_le p p" by (simp add: auth_le_def entries_le_refl)

lemma grant_le_trans: "grant_le a b \<Longrightarrow> grant_le b c \<Longrightarrow> grant_le a c"
  by (simp add: grant_le_def)

lemma command_le_trans: "command_le a b \<Longrightarrow> command_le b c \<Longrightarrow> command_le a c"
  by (simp add: command_le_def)

lemma auth_le_trans:
  assumes "auth_le a b" and "auth_le b c"
  shows "auth_le a c"
proof -
  note ab = assms(1) [unfolded auth_le_def] and bc = assms(2) [unfolded auth_le_def]
  have "map_grows (zp_Requests a) (zp_Requests c)" "map_grows (zp_Decisions a) (zp_Decisions c)"
    "map_grows (zp_Consumed a) (zp_Consumed c)"
    using ab bc by (blast intro: map_grows_trans)+
  moreover have "entries_le grant_le (zp_Grants a) (zp_Grants c)"
    by (rule entries_le_trans [of grant_le _ "zp_Grants b", OF grant_le_trans]) (use ab bc in simp_all)
  moreover have "entries_le command_le (zp_Commands a) (zp_Commands c)"
    by (rule entries_le_trans [of command_le _ "zp_Commands b", OF command_le_trans]) (use ab bc in simp_all)
  moreover have "zp_RevocationEpoch a \<le> zp_RevocationEpoch c"
    by (rule order.trans [of _ "zp_RevocationEpoch b"]) (use ab bc in simp_all)
  ultimately show ?thesis using ab bc by (simp add: auth_le_def)
qed

lemma le_requested: "apply_requested p e = Inr q \<Longrightarrow> auth_le p q"
  by (auto simp: apply_requested_def auth_le_def entries_le_refl split: option.splits payload.splits if_split_asm)

lemma le_decided:
  assumes "apply_decided p e = Inr q" and inv: "auth_inv dg p"
  shows "auth_le p q"
proof -
  have nog: "map_of (zp_Grants p) n = None" if "map_of (zp_Decisions p) n = None" for n
    using auth_invD(8) [OF inv] that by (cases "map_of (zp_Grants p) n") (fastforce simp: grant_ok_def)+
  show ?thesis
    using assms(1)
    by (auto simp: apply_decided_def auth_le_def nog entries_le_refl intro!: entries_le_gput
        split: option.splits payload.splits if_split_asm)
qed

lemma le_consumed: "apply_consumed dg p e = Inr q \<Longrightarrow> auth_le p q"
  by (auto simp: apply_consumed_def auth_le_def entries_le_refl split: option.splits payload.splits if_split_asm)

lemma le_grant_revoked: "apply_grant_revoked p e = Inr q \<Longrightarrow> auth_le p q"
  by (auto simp: apply_grant_revoked_def auth_le_def entries_le_refl grant_le_def intro!: entries_le_gput
      split: option.splits payload.splits if_split_asm)

lemma le_command_accepted: "apply_command_accepted p e = Inr q \<Longrightarrow> auth_le p q"
  by (auto simp: apply_command_accepted_def auth_le_def entries_le_refl Let_def intro!: entries_le_gput
      split: option.splits payload.splits if_split_asm)

lemma le_command_completed: "apply_command_completed um p e = Inr q \<Longrightarrow> auth_le p q"
  by (auto simp: apply_command_completed_def auth_le_def entries_le_refl command_le_def Let_def
      intro!: entries_le_gput split: option.splits payload.splits if_split_asm sum.splits)

lemmas auth_case_les = le_requested le_decided le_consumed le_grant_revoked le_command_accepted
  le_command_completed

lemma auth_Apply_le:
  assumes "auth_Apply dg um p e = Inr q" and "auth_inv dg p"
  shows "auth_le p q"
  using assms(1)
proof (cases rule: auth_Apply_cases)
  case (handler h)
  then show ?thesis using assms(2) unfolding auth_cases_def by (auto intro: auth_case_les)
qed simp

section \<open>The projector under the store\<close>

definition auth_projector ::
  "(auth_decision \<Rightarrow> digest res) \<Rightarrow> (string \<Rightarrow> command_result res) \<Rightarrow> auth_projection projector" where
  "auth_projector dg um = \<lparr>pj_Version = auth_Version, pj_Zero = auth_Zero, pj_Apply = auth_Apply dg um\<rparr>"

interpretation auth_store: projector_contract auth_Zero "auth_Apply dg um" "auth_inv dg" "\<lambda>e. True" for dg um
  by unfold_locales (auto intro: auth_inv_Apply)

text \<open>Folding any run of events only grows the projection.\<close>

lemma auth_fold_le:
  assumes "fold_res (auth_Apply dg um) p es = Inr q" and "auth_inv dg p"
  shows "auth_le p q"
proof -
  have "auth_inv dg q \<and> auth_le p q"
    by (rule fold_res_inv [OF assms(1), of "\<lambda>s. auth_inv dg s \<and> auth_le p s"])
      (use assms(2) in \<open>auto intro: auth_inv_Apply auth_le_trans auth_Apply_le\<close>)
  then show ?thesis ..
qed

end
