(* ===== verification/Authorization_Properties.thy ===== *)
theory Authorization_Properties
  imports Authorization_Invariants Samples
begin

text \<open>
  What the authorization projection (\<open>internal/authorization/projection.go\<close>) promises of every
  journal it accepts: a decision is used at most once and only as it was made, nothing recorded is
  ever lost or changed, and commands are idempotent. The digest of a decision and the decoding of a
  command's result are arguments; the witnesses take constant ones.
\<close>

section \<open>A run\<close>

definition sample_dg :: "auth_decision \<Rightarrow> digest res" where
  "sample_dg d = Inr sample_digest"

definition sample_result :: command_result where
  "sample_result = \<lparr>rs_ProtocolVersion = ApplicationProtocolVersion, rs_CommandID = ''c1'',
     rs_Status = ''succeeded'', rs_RequestDigest = sample_digest,
     rs_Cursor = \<lparr>ac2_WorkspaceControl = zero_cursor, ac2_SelectedSession = None, ac2_RelatedSessions = [],
       ac2_Stream = \<lparr>st_Epoch = '''', st_Seq = 0\<rparr>\<rparr>, rs_PayloadVersion = 1, rs_Payload = None, rs_Error = None\<rparr>"

definition sample_um :: "string \<Rightarrow> command_result res" where
  "sample_um bs = Inr sample_result"

definition sample_auth_events :: "event list" where
  "sample_auth_events =
     [sample_event EventAuthorizationRequested 1 ''t1'' (P_AuthorizationRequested sample_request),
      sample_event EventAuthorizationDecided 3 ''t2'' (P_AuthorizationDecided sample_decision),
      sample_event EventAuthorizationDecisionConsumed 5 ''t3'' (P_AuthorizationConsumed sample_consumed)]"

definition sample_revocation :: event where
  "sample_revocation = sample_event EventAuthorizationGrantRevoked 7 ''t4'' (P_GrantRevoked
     \<lparr>gr_GrantID = ''n1'', gr_Reason = ''user'', gr_RevocationEpoch = 1\<rparr>)"

definition sample_command :: "string \<Rightarrow> event" where
  "sample_command tx = sample_event EventCommandAccepted 9 tx (P_CommandAccepted
     \<lparr>cc_CommandID = ''c1'', cc_RequestDigest = sample_digest, cc_IdempotencyKey = ''k''\<rparr>)"

definition sample_completed :: "string \<Rightarrow> event" where
  "sample_completed tx = sample_event EventCommandCompleted 11 tx (P_CommandCompleted
     \<lparr>cp_CommandID = ''c1'', cp_RequestDigest = sample_digest, cp_Status = ''succeeded'', cp_Result = ''{}''\<rparr>)"

abbreviation auth_run :: "event list \<Rightarrow> auth_projection res" where
  "auth_run es \<equiv> fold_res (auth_Apply sample_dg sample_um) (auth_Zero sample_ref) es"

lemma auth_run_accepts:
  "auth_run sample_auth_events = Inr (projr (auth_run sample_auth_events))"
  "auth_run (sample_auth_events @ [sample_revocation]) = Inr (projr (auth_run (sample_auth_events @ [sample_revocation])))"
  "auth_run [sample_command ''t5'', sample_completed ''t6''] = Inr (projr (auth_run [sample_command ''t5'', sample_completed ''t6'']))"
proof -
  have "\<not> isl (auth_run sample_auth_events)" "\<not> isl (auth_run (sample_auth_events @ [sample_revocation]))"
    "\<not> isl (auth_run [sample_command ''t5'', sample_completed ''t6''])" by code_simp+
  then show "auth_run sample_auth_events = Inr (projr (auth_run sample_auth_events))"
    "auth_run (sample_auth_events @ [sample_revocation]) = Inr (projr (auth_run (sample_auth_events @ [sample_revocation])))"
    "auth_run [sample_command ''t5'', sample_completed ''t6''] = Inr (projr (auth_run [sample_command ''t5'', sample_completed ''t6'']))"
    by (simp_all del: fold_res.simps)
qed

lemma reachable_auth_inv: "fold_res (auth_Apply dg um) (auth_Zero ref) es = Inr p \<Longrightarrow> auth_inv dg p"
  by (erule auth_store.fold_inv [OF _ _ auth_Zero_inv]) (simp add: list_all_iff)

section \<open>Properties\<close>

text \<open>The nonces that the consumption events of a run name, in order.\<close>

definition consumed_nonce :: "event \<Rightarrow> decision_nonce list" where
  "consumed_nonce e = (if en_Kind (e_Envelope e) = EventAuthorizationDecisionConsumed
     then (case e_Decoded e of Some (P_AuthorizationConsumed v) \<Rightarrow> [cn_DecisionNonce v] | _ \<Rightarrow> []) else [])"

definition consumed_nonces :: "event list \<Rightarrow> decision_nonce list" where
  "consumed_nonces es = concat (map consumed_nonce es)"

lemma auth_Apply_consumed:
  assumes "auth_Apply dg um p e = Inr q"
  shows "gkeys (zp_Consumed q) = gkeys (zp_Consumed p) @ consumed_nonce e
    \<and> set (consumed_nonce e) \<inter> set (gkeys (zp_Consumed p)) = {}"
proof (cases "en_Kind (e_Envelope e) = EventAuthorizationDecisionConsumed")
  case True
  have "map_of (auth_cases dg um) EventAuthorizationDecisionConsumed = Some (apply_consumed dg)"
    by (simp add: auth_cases_def)
  then have "apply_consumed dg p e = Inr q" using assms True by (simp add: auth_Apply_def split: option.splits)
  then show ?thesis using True
    by (auto simp: apply_consumed_def consumed_nonce_def in_gkeys_iff split: option.splits payload.splits if_split_asm)
next
  case False
  have "zp_Consumed q = zp_Consumed p"
    using assms
  proof (cases rule: auth_Apply_cases)
    case (handler h)
    with False show ?thesis
      unfolding auth_cases_def
      by (auto simp: apply_requested_def apply_decided_def apply_grant_revoked_def apply_command_accepted_def
          apply_command_completed_def Let_def split: option.splits payload.splits sum.splits if_split_asm)
  qed simp
  then show ?thesis using False by (simp add: consumed_nonce_def)
qed

lemma auth_fold_consumed:
  "fold_res (auth_Apply dg um) p es = Inr q \<Longrightarrow> distinct (gkeys (zp_Consumed p)) \<Longrightarrow>
   gkeys (zp_Consumed q) = gkeys (zp_Consumed p) @ consumed_nonces es \<and> distinct (gkeys (zp_Consumed q))"
proof (induction es arbitrary: p)
  case (Cons e es)
  obtain p1 where p1: "auth_Apply dg um p e = Inr p1" "fold_res (auth_Apply dg um) p1 es = Inr q"
    using Cons.prems(1) by (auto split: sum.splits)
  have "distinct (consumed_nonce e)" by (simp add: consumed_nonce_def split: option.splits payload.splits)
  then have "distinct (gkeys (zp_Consumed p1))"
    using auth_Apply_consumed [OF p1(1)] Cons.prems(2) by auto
  then show ?case
    using Cons.IH [OF p1(2)] auth_Apply_consumed [OF p1(1)] by (auto simp: consumed_nonces_def simp del: distinct_append)
qed (simp add: consumed_nonces_def)

text \<open>
  C14. In every run the projection accepts, the consumption events name pairwise different nonces, and
  these are exactly the nonces the projection reports as consumed: no decision is used twice.
\<close>

theorem nonces_consumed_once:
  assumes "fold_res (auth_Apply dg um) (auth_Zero ref) es = Inr p"
  shows "distinct (consumed_nonces es) \<and> (\<forall>n. NonceConsumed p n \<longleftrightarrow> n \<in> set (consumed_nonces es))"
proof -
  have "gkeys (zp_Consumed p) = consumed_nonces es \<and> distinct (gkeys (zp_Consumed p))"
    using auth_fold_consumed [OF assms] by (auto simp: auth_Zero_def)
  then show ?thesis by (metis NonceConsumed_def in_gkeys_iff)
qed

theorem nonces_consumed_once_witness: "NonceConsumed (projr (auth_run sample_auth_events)) ''n1''"
proof -
  have "''n1'' \<in> set (consumed_nonces sample_auth_events)" by code_simp
  then show ?thesis using nonces_consumed_once [OF auth_run_accepts(1)] by blast
qed

text \<open>
  A consumed nonce names a recorded decision that allows, whose request was recorded first; the
  consumption repeats the decision's event, its digest and the request's plan, request and dispatch digests.
\<close>

theorem consumption_repeats_decision:
  assumes "fold_res (auth_Apply dg um) (auth_Zero ref) es = Inr p" and "map_of (zp_Consumed p) n = Some c"
  shows "\<exists>d. map_of (zp_Decisions p) n = Some d \<and> dc_DecisionNonce (dd_Decision d) = n
    \<and> dc_Action (dd_Decision d) = ''allow''
    \<and> map_of (zp_Requests p) (rq_RequestID (dc_Request (dd_Decision d))) = Some (dc_Request (dd_Decision d))
    \<and> cn_DecisionEventID (co_Bindings c) = dd_EventID d \<and> dg (dd_Decision d) = Inr (cn_DecisionDigest (co_Bindings c))
    \<and> cn_PlanDigest (co_Bindings c) = rq_PlanDigest (dc_Request (dd_Decision d))
    \<and> cn_RequestDigest (co_Bindings c) = rq_RequestDigest (dc_Request (dd_Decision d))
    \<and> cn_DispatchDigest (co_Bindings c) = rq_DispatchDigest (dc_Request (dd_Decision d))"
proof -
  have inv: "auth_inv dg p" by (rule reachable_auth_inv [OF assms(1)])
  obtain d where d: "map_of (zp_Decisions p) n = Some d"
    using auth_invD(9) [OF inv assms(2)] by (auto simp: consumption_ok_def split: option.splits)
  show ?thesis
    using auth_invD(9) [OF inv assms(2)] auth_invD(7) [OF inv d] d
    by (auto simp: consumption_ok_def decision_ok_def)
qed

theorem consumption_repeats_decision_witness:
  "\<exists>d. map_of (zp_Decisions (projr (auth_run sample_auth_events))) ''n1'' = Some d
    \<and> dc_Action (dd_Decision d) = ''allow''"
proof -
  let ?c = "map_of (zp_Consumed (projr (auth_run sample_auth_events))) ''n1''"
  have "?c \<noteq> None" by code_simp
  then have "?c = Some (the ?c)" by simp
  from consumption_repeats_decision [OF auth_run_accepts(1) this] show ?thesis by blast
qed


text \<open>
  Later events take nothing back: recorded requests, decisions and consumptions stand as they
  are, a grant stays and once revoked stays revoked, a command keeps its binding and its result, and
  the revocation epoch never falls.
\<close>

theorem history_only_grows:
  assumes "fold_res (auth_Apply dg um) (auth_Zero ref) es = Inr p" and "fold_res (auth_Apply dg um) p es' = Inr q"
  shows "(\<forall>i r. map_of (zp_Requests p) i = Some r \<longrightarrow> map_of (zp_Requests q) i = Some r)
    \<and> (\<forall>n d. map_of (zp_Decisions p) n = Some d \<longrightarrow> map_of (zp_Decisions q) n = Some d)
    \<and> (\<forall>n c. map_of (zp_Consumed p) n = Some c \<longrightarrow> map_of (zp_Consumed q) n = Some c)
    \<and> (\<forall>i g. LookupGrant p i = Some g \<longrightarrow> (\<exists>g'. LookupGrant q i = Some g'
         \<and> gt_Decision g' = gt_Decision g \<and> (gt_Revoked g \<longrightarrow> gt_Revoked g')))
    \<and> (\<forall>j c m. LookupCommand p j c = Some m \<longrightarrow> (\<exists>m'. LookupCommand q j c = Some m' \<and> command_le m m'))
    \<and> zp_RevocationEpoch p \<le> zp_RevocationEpoch q"
proof -
  have "auth_le p q" by (rule auth_fold_le [OF assms(2) reachable_auth_inv [OF assms(1)]])
  then show ?thesis
    unfolding auth_le_def map_grows_def entries_le_def grant_le_def LookupGrant_def LookupCommand_def by blast
qed

theorem history_only_grows_witness:
  "\<exists>g. LookupGrant (projr (fold_res (auth_Apply sample_dg sample_um) (projr (auth_run sample_auth_events)) [sample_revocation])) ''n1'' = Some g
    \<and> gt_Decision g = sample_decision"
proof -
  let ?p = "projr (auth_run sample_auth_events)"
  let ?q = "fold_res (auth_Apply sample_dg sample_um) ?p [sample_revocation]"
  let ?g = "LookupGrant ?p ''n1''"
  have "\<not> isl ?q" "?g \<noteq> None" "gt_Decision (the ?g) = sample_decision" by code_simp+
  then have q: "?q = Inr (projr ?q)" and g: "?g = Some (the ?g)" and d: "gt_Decision (the ?g) = sample_decision"
    by (simp_all del: fold_res.simps)
  have "\<exists>g'. LookupGrant (projr ?q) ''n1'' = Some g' \<and> gt_Decision g' = gt_Decision (the ?g)"
    using history_only_grows [OF auth_run_accepts(1) q] g by blast
  then show ?thesis unfolding d .
qed

text \<open>
  A grant exists exactly for a recorded session allow, under its nonce; it is revoked exactly when
  it has a revocation epoch, which is one the projection has reached.
\<close>

theorem grants_are_session_allows:
  assumes "fold_res (auth_Apply dg um) (auth_Zero ref) es = Inr p"
  shows "((\<exists>g. LookupGrant p n = Some g) \<longleftrightarrow>
      (\<exists>d. map_of (zp_Decisions p) n = Some d \<and> dc_Action (dd_Decision d) = ''allow''
        \<and> dc_Lifetime (dd_Decision d) = LifetimeSession))
    \<and> (\<forall>g. LookupGrant p n = Some g \<longrightarrow>
      (gt_Revoked g \<longleftrightarrow> gt_RevocationEpoch g \<noteq> 0) \<and> gt_RevocationEpoch g \<le> zp_RevocationEpoch p
      \<and> map_option dd_Decision (map_of (zp_Decisions p) n) = Some (gt_Decision g))"
proof (intro conjI allI impI)
  have inv: "auth_inv dg p" by (rule reachable_auth_inv [OF assms])
  have g: "grant_ok p n g" if "LookupGrant p n = Some g" for g
    using auth_invD(8) [OF inv] that by (simp add: LookupGrant_def)
  have d: "session_allow (dd_Decision d) \<longleftrightarrow> LookupGrant p n \<noteq> None" if "map_of (zp_Decisions p) n = Some d" for d
    using auth_invD(7) [OF inv that] by (simp add: decision_ok_def LookupGrant_def)
  show "(\<exists>g. LookupGrant p n = Some g) \<longleftrightarrow>
      (\<exists>d. map_of (zp_Decisions p) n = Some d \<and> dc_Action (dd_Decision d) = ''allow''
        \<and> dc_Lifetime (dd_Decision d) = LifetimeSession)"
    using g d unfolding grant_ok_def session_allow_def by (metis option.distinct(1) not_None_eq)
  fix g
  assume "LookupGrant p n = Some g"
  from g [OF this] show "gt_Revoked g \<longleftrightarrow> gt_RevocationEpoch g \<noteq> 0" "gt_RevocationEpoch g \<le> zp_RevocationEpoch p"
    "map_option dd_Decision (map_of (zp_Decisions p) n) = Some (gt_Decision g)"
    by (auto simp: grant_ok_def)
qed

theorem grants_are_session_allows_witness:
  "\<exists>g. LookupGrant (projr (auth_run (sample_auth_events @ [sample_revocation]))) ''n1'' = Some g"
proof -
  let ?d = "map_of (zp_Decisions (projr (auth_run (sample_auth_events @ [sample_revocation])))) ''n1''"
  have "?d \<noteq> None" "dc_Action (dd_Decision (the ?d)) = ''allow''" "dc_Lifetime (dd_Decision (the ?d)) = LifetimeSession"
    by code_simp+
  then show ?thesis using grants_are_session_allows [OF auth_run_accepts(2), of "''n1''"] by auto
qed

text \<open>
  Commands are idempotent: an accepted repetition of a known command has the same digest and
  idempotency key and changes nothing, and neither does an accepted repetition of a completion.
\<close>

theorem command_retry_changes_nothing:
  assumes "auth_Apply dg um p e = Inr q"
    and "e_Decoded e = Some (P_CommandAccepted v)" and "en_Kind (e_Envelope e) = EventCommandAccepted"
    and "LookupCommand p (zp_Journal p) (cc_CommandID v) = Some c"
  shows "q = p \<and> cm_RequestDigest c = cc_RequestDigest v \<and> cm_IdempotencyKey c = cc_IdempotencyKey v"
proof -
  have "map_of (auth_cases dg um) EventCommandAccepted = Some apply_command_accepted" by (simp add: auth_cases_def)
  then have "apply_command_accepted p e = Inr q" using assms(1,3) by (simp add: auth_Apply_def split: option.splits)
  then show ?thesis using assms(2,4)
    by (auto simp: apply_command_accepted_def LookupCommand_def Let_def split: if_split_asm)
qed

theorem command_retry_changes_nothing_witness:
  "auth_Apply sample_dg sample_um (projr (auth_run [sample_command ''t5'', sample_completed ''t6''])) (sample_command ''t7'')
     = Inr (projr (auth_run [sample_command ''t5'', sample_completed ''t6'']))"
proof -
  let ?p = "projr (auth_run [sample_command ''t5'', sample_completed ''t6''])"
  let ?q = "auth_Apply sample_dg sample_um ?p (sample_command ''t7'')"
  let ?c = "LookupCommand ?p (zp_Journal ?p) ''c1''"
  have "\<not> isl ?q" "?c \<noteq> None" by code_simp+
  then have q: "?q = Inr (projr ?q)" and c: "?c = Some (the ?c)" by (simp_all del: fold_res.simps)
  have "projr ?q = ?p"
    using command_retry_changes_nothing [OF q, of _ "the ?c"] c
    by (auto simp: sample_command_def sample_event_def sample_envelope_def simp del: fold_res.simps)
  then show ?thesis using q by (simp only:)
qed

end
