(* ===== verification/Store_Properties.thy ===== *)
theory Store_Properties
  imports Task_Invariants Activity_Invariants Authorization_Invariants Samples
begin

text \<open>
  What the projection store (\<open>internal/projection/store.go\<close>) promises, whatever the projector:
  transactions count as wholes, projecting in pieces gives what projecting at once gives, a
  projection at a cursor reads nothing after it, an update validates and only advances. The
  witnesses use a journal of two transactions and a projector that counts events.
\<close>

section \<open>A small journal\<close>

definition counting :: "nat projector" where
  "counting = \<lparr>pj_Version = 1, pj_Zero = (\<lambda>ref. 0), pj_Apply = (\<lambda>s e. Inr (s + 1))\<rparr>"

definition count_digest :: "nat digester" where
  "count_digest v h s = Inr sample_digest"

definition sample_records :: "event list" where
  "sample_records = [sample_event ''user.message'' 1 ''t1'' (P_Opaque ''UserMessageV1''),
     sample_event ''user.message'' 2 ''t1'' (P_Opaque ''UserMessageV1''),
     sample_event ''user.message'' 4 ''t2'' (P_Opaque ''UserMessageV1'')]"

definition cursor_at :: "u64 \<Rightarrow> transaction_id \<Rightarrow> cursor" where
  "cursor_at s t = \<lparr>cu_JournalKind = ''session'', cu_JournalID = ''s1'', cu_CommitSeq = s, cu_TransactionID = t\<rparr>"

definition sample_repository :: repository where
  "sample_repository = \<lparr>
     rp_Inspect = (\<lambda>ref. Inr \<lparr>in_Journal = ref, in_Head = cursor_at 5 ''t2'', in_Events = sample_records, in_Writable = True\<rparr>),
     rp_Head = (\<lambda>ref. Inr (cursor_at 5 ''t2'')),
     rp_ReadRange = (\<lambda>n req. Inr \<lparr>pg_Events = drop 2 sample_records, pg_Cursor = cursor_at 5 ''t2'',
       pg_Head = cursor_at 5 ''t2'', pg_More = False\<rparr>)\<rparr>"

definition sample_snapshot :: "nat snapshot" where
  "sample_snapshot = \<lparr>sn_ProjectionVersion = 1, sn_Head = cursor_at 3 ''t1'', sn_State = 2, sn_Digest = sample_digest\<rparr>"

section \<open>Properties\<close>

text \<open>
  C26. Where a projection stops with an error, it has projected a run of whole transactions and
  nothing of the one that failed: the state and the head are those of projecting that run alone.
\<close>

theorem failed_projection_keeps_whole_transactions:
  assumes "applyCommittedTransactions f ref s h es = (s', h', err)"
  shows "\<exists>done rest. es = done @ rest \<and> tx_boundary done rest
    \<and> applyCommittedTransactions f ref s h done = (s', h', None) \<and> fold_res f s done = Inr s'
    \<and> (err = None \<longrightarrow> rest = [])"
  using apply_transactions_prefix [OF assms] by blast

theorem failed_projection_keeps_whole_transactions_witness:
  "\<exists>done rest. sample_records = done @ rest
    \<and> fold_res (\<lambda>s e. if en_Seq (e_Envelope e) = 4 then Inl ''bad'' else Inr (s + 1)) (0::nat) done = Inr 2"
proof -
  let ?f = "\<lambda>(s::nat) e. if en_Seq (e_Envelope e) = 4 then Inl ''bad'' else Inr (s + 1)"
  have "applyCommittedTransactions ?f sample_ref 0 zero_cursor sample_records = (2, cursor_at 3 ''t1'', Some ''bad'')"
    by code_simp
  from failed_projection_keeps_whole_transactions [OF this] show ?thesis by blast
qed

text \<open>
  C25. Projecting a journal in two parts, cut between transactions, gives what projecting it at once
  gives: an incremental update is a rebuild.
\<close>

theorem incremental_is_rebuild:
  assumes "tx_boundary xs ys" and "applyCommittedTransactions f ref s h xs = (s1, h1, None)"
  shows "applyCommittedTransactions f ref s h (xs @ ys) = applyCommittedTransactions f ref s1 h1 ys"
  using apply_transactions_append [OF assms(1), of f ref s h] assms(2) by simp

theorem incremental_is_rebuild_witness:
  "applyCommittedTransactions (pj_Apply counting) sample_ref 0 zero_cursor sample_records
     = applyCommittedTransactions (pj_Apply counting) sample_ref 2 (cursor_at 3 ''t1'') (drop 2 sample_records)"
proof -
  have "tx_boundary (take 2 sample_records) (drop 2 sample_records)"
    by (simp add: tx_boundary_def sample_records_def sameCommittedTransaction_def sample_event_def sample_envelope_def)
  moreover have "applyCommittedTransactions (pj_Apply counting) sample_ref 0 zero_cursor (take 2 sample_records)
      = (2, cursor_at 3 ''t1'', None)" by code_simp
  ultimately show ?thesis using incremental_is_rebuild by (metis append_take_drop_id)
qed

text \<open>
  A projection at a cursor is the projection of the journal's whole transactions up to that
  cursor, and of nothing after it.
\<close>

theorem at_projects_prefix:
  assumes "At pj dig repo ref target = Inr sn" and "rp_Inspect repo ref = Inr ins"
  shows "sn_Head sn = target \<and> cursorJournal target = ref \<and> (\<exists>done rest. in_Events ins = done @ rest
    \<and> applyCommittedTransactions (pj_Apply pj) ref (pj_Zero pj ref) zero_cursor done = (sn_State sn, target, None))"
proof -
  have loop: "at_loop pj dig ref target (pj_Zero pj ref) zero_cursor (in_Events ins) = Inr sn"
    and ref: "cursorJournal target = ref"
    using assms by (auto simp: At_def split: option.splits if_split_asm)
  from at_loop_prefix [OF loop] ref show ?thesis by blast
qed

theorem at_projects_prefix_witness:
  "sn_State (projr (At counting count_digest sample_repository sample_ref (cursor_at 3 ''t1''))) = 2
   \<and> sn_Head (projr (At counting count_digest sample_repository sample_ref (cursor_at 3 ''t1''))) = cursor_at 3 ''t1''"
proof -
  let ?s = "At counting count_digest sample_repository sample_ref (cursor_at 3 ''t1'')"
  have "\<not> isl ?s" "sn_State (projr ?s) = 2" by code_simp+
  then have "?s = Inr (projr ?s)" "sn_State (projr ?s) = 2" by simp_all
  moreover have "rp_Inspect sample_repository sample_ref = Inr \<lparr>in_Journal = sample_ref, in_Head = cursor_at 5 ''t2'',
      in_Events = sample_records, in_Writable = True\<rparr>" by (simp add: sample_repository_def)
  ultimately show ?thesis using at_projects_prefix by blast
qed

lemma update_round_failed: "update_round pj dig repo ref current n sn = Failed r \<Longrightarrow> snd r \<noteq> []"
  by (auto simp: update_round_def split: sum.splits prod.splits option.splits if_split_asm)

lemma update_loop_failed: "update_loop pj dig repo ref current n sn = Inl r \<Longrightarrow> snd r \<noteq> []"
proof (induction pj dig repo ref current n sn rule: update_loop.induct)
  case (1 pj dig repo ref current n sn)
  then show ?case
    by (cases "update_round pj dig repo ref current n sn")
      (auto simp: update_loop.simps [of pj dig repo ref current n sn] dest: update_round_failed)
qed

text \<open>
  An update that succeeds returns a snapshot that validates, of the same version, whose head is not
  before the old one and belongs to the same journal.
\<close>

theorem update_validates_and_advances:
  assumes "Update pj dig repo cache current = ((Some sn, []), cache')" and "pj_Version pj \<noteq> 0"
  shows "validateSnapshot dig sn = None \<and> sn_ProjectionVersion sn = sn_ProjectionVersion current
    \<and> cu_CommitSeq (sn_Head current) \<le> cu_CommitSeq (sn_Head sn)
    \<and> (cache = None \<or> (\<exists>c'. cache' = Some c' \<and> cache_Load c' (cursorJournal (sn_Head current)) = Some sn))"
proof -
  let ?ref = "cursorJournal (sn_Head current)"
  have v: "sn_ProjectionVersion current = pj_Version pj" "validateSnapshot dig current = None"
    using assms(1) by (auto simp: Update_def split: if_split_asm option.splits)
  have fin: "(case update_loop pj dig repo ?ref current 0 current of
      Inl r \<Rightarrow> (r, cache) | Inr sn \<Rightarrow> store_and_return cache ?ref sn (Some current)) = ((Some sn, []), cache')"
    using assms(1) v by (auto simp: Update_def Let_def split: option.splits)
  then obtain sn' where loop: "update_loop pj dig repo ?ref current 0 current = Inr sn'"
    by (cases "update_loop pj dig repo ?ref current 0 current") (auto dest: update_loop_failed)
  have stored: "store_and_return cache ?ref sn' (Some current) = ((Some sn, []), cache')" using fin loop by simp
  then have "sn' = sn \<and> (cache = None \<or> (\<exists>c'. cache' = Some c' \<and> cache_Load c' ?ref = Some sn))"
    by (auto simp: store_and_return_def cache_Store_def cache_Load_def split: option.splits sum.splits)
  moreover obtain pages where "rounds pj dig ?ref current sn' pages" using update_loop_rounds [OF loop] ..
  ultimately show ?thesis
    using rounds_validate [of pj dig ?ref current sn' pages] v assms(2) by auto
qed

theorem update_validates_and_advances_witness:
  "validateSnapshot count_digest (the (fst (fst (Update counting count_digest sample_repository None sample_snapshot)))) = None
   \<and> sn_State (the (fst (fst (Update counting count_digest sample_repository None sample_snapshot)))) = 3"
proof -
  let ?u = "Update counting count_digest sample_repository None sample_snapshot"
  have "fst (fst ?u) \<noteq> None" "snd (fst ?u) = []" "snd ?u = None"
    "sn_State (the (fst (fst ?u))) = 3" by code_simp+
  then have "?u = ((Some (the (fst (fst ?u))), []), None)" "sn_State (the (fst (fst ?u))) = 3"
    by (simp_all add: prod_eq_iff)
  then show ?thesis
    using update_validates_and_advances [of counting count_digest sample_repository None sample_snapshot]
    by (simp add: counting_def)
qed

text \<open>
  A snapshot that a rebuild stored is what the next load returns while the journal's head stands:
  loading reads the cache and changes nothing.
\<close>

theorem load_returns_rebuilt:
  assumes "Rebuild pj dig repo (Some c) ref = ((Some sn, []), cache')"
    and "CommittedCursor_Validate (sn_Head sn) = None" and "pj_Version pj \<noteq> 0"
    and "cursorJournal (sn_Head sn) = ref" and "rp_Head repo ref = Inr (sn_Head sn)"
  shows "Load pj dig repo cache' ref = ((Some sn, []), cache')"
  using assms by (rule load_after_rebuild)

theorem load_returns_rebuilt_witness:
  "Load counting count_digest sample_repository (snd (Rebuild counting count_digest sample_repository (Some []) sample_ref)) sample_ref
     = ((fst (fst (Rebuild counting count_digest sample_repository (Some []) sample_ref)), []),
        snd (Rebuild counting count_digest sample_repository (Some []) sample_ref))"
proof -
  let ?r = "Rebuild counting count_digest sample_repository (Some []) sample_ref"
  have a: "fst (fst ?r) \<noteq> None" "snd (fst ?r) = []"
    "CommittedCursor_Validate (sn_Head (the (fst (fst ?r)))) = None"
    "cursorJournal (sn_Head (the (fst (fst ?r)))) = sample_ref"
    "sn_Head (the (fst (fst ?r))) = cursor_at 5 ''t2''" by code_simp+
  then have r: "?r = ((Some (the (fst (fst ?r))), []), snd ?r)" by (simp add: prod_eq_iff)
  have "rp_Head sample_repository sample_ref = Inr (sn_Head (the (fst (fst ?r))))"
    unfolding a(5) by (simp add: sample_repository_def)
  from load_returns_rebuilt [OF r a(3) _ a(4) this] show ?thesis using a(1) by (simp add: counting_def)
qed



end
