(* ===== verification/Paths.thy ===== *)
theory Paths
  imports Prelude
begin

text \<open>
  Slash-separated paths as the permission policy uses them: \<open>filepath.IsAbs\<close>, \<open>filepath.Clean\<close> and
  \<open>filepath.Rel\<close> of Go's library on Unix, for absolute paths, and \<open>pathInside\<close> of
  \<open>internal/permission/policy.go\<close>. A path is cut into its components; an absolute clean path is
  given by them alone. The theorem at the end says that the containment test, which the code makes
  on the text of a relative path, holds exactly when the workspace's components are a prefix of
  the target's.
\<close>

definition IsAbs :: "string \<Rightarrow> bool" where
  "IsAbs p \<longleftrightarrow> (case p of [] \<Rightarrow> False | c # _ \<Rightarrow> c = CHR ''/'')"

fun split_slash :: "string \<Rightarrow> string list" where
  "split_slash [] = [[]]"
| "split_slash (c # cs) =
     (if c = CHR ''/'' then [] # split_slash cs
      else (case split_slash cs of [] \<Rightarrow> [[c]] | p # ps \<Rightarrow> (c # p) # ps))"

text \<open>The rules of \<open>Clean\<close> on a rooted path: the stack holds the components kept, last first.\<close>

fun clean_parts :: "string list \<Rightarrow> string list \<Rightarrow> string list" where
  "clean_parts stack [] = rev stack"
| "clean_parts stack (p # ps) =
     (if p = '''' \<or> p = ''.'' then clean_parts stack ps
      else if p = ''..'' then clean_parts (tl stack) ps
      else clean_parts (p # stack) ps)"

text \<open>The components of \<open>filepath.Clean\<close> of an absolute path.\<close>

definition Clean :: "string \<Rightarrow> string list" where
  "Clean p = clean_parts [] (split_slash p)"

fun join_slash :: "string list \<Rightarrow> string" where
  "join_slash [] = ''''"
| "join_slash [p] = p"
| "join_slash (p # q # ps) = p @ ''/'' @ join_slash (q # ps)"

text \<open>The text of the clean path with these components, as \<open>filepath.Clean\<close> returns it.\<close>

definition rooted :: "string list \<Rightarrow> string" where
  "rooted cs = ''/'' @ join_slash cs"

fun drop_common :: "string list \<Rightarrow> string list \<Rightarrow> string list \<times> string list" where
  "drop_common (a # as) (b # bs) = (if a = b then drop_common as bs else (a # as, b # bs))"
| "drop_common as bs = (as, bs)"

text \<open>\<open>filepath.Rel\<close> of two absolute clean paths, which never fails.\<close>

definition Rel :: "string list \<Rightarrow> string list \<Rightarrow> string" where
  "Rel base target =
     (case drop_common base target of (up, down) \<Rightarrow>
        if up = [] \<and> down = [] then ''.'' else join_slash (map (\<lambda>_. ''..'') up @ down))"

definition has_prefix :: "string \<Rightarrow> string \<Rightarrow> bool" where
  "has_prefix s p \<longleftrightarrow> take (length p) s = p"

definition pathInside :: "string \<Rightarrow> string \<Rightarrow> bool" where
  "pathInside workspace target =
     (if \<not> IsAbs workspace \<or> \<not> IsAbs target then False
      else (let relative = Rel (Clean workspace) (Clean target)
            in relative \<noteq> ''..'' \<and> \<not> has_prefix relative ''../'' \<and> \<not> IsAbs relative))"

section \<open>Containment is a prefix of components\<close>

definition component :: "string \<Rightarrow> bool" where
  "component p \<longleftrightarrow> p \<noteq> '''' \<and> p \<noteq> ''.'' \<and> p \<noteq> ''..'' \<and> CHR ''/'' \<notin> set p"

lemma split_slash_no_slash: "list_all (\<lambda>p. CHR ''/'' \<notin> set p) (split_slash s)"
  by (induction s) (auto split: list.splits)

lemma clean_parts_component:
  "list_all (\<lambda>p. CHR ''/'' \<notin> set p) ps \<Longrightarrow> list_all component stack \<Longrightarrow> list_all component (clean_parts stack ps)"
proof (induction stack ps rule: clean_parts.induct)
  case (2 stack p ps)
  then show ?case by (cases stack) (auto simp: component_def)
qed (simp add: list_all_iff)

lemma Clean_component: "list_all component (Clean p)"
  by (simp add: Clean_def clean_parts_component split_slash_no_slash)

lemma clean_parts_id: "list_all component ps \<Longrightarrow> clean_parts stack ps = rev stack @ ps"
  by (induction stack ps rule: clean_parts.induct) (auto simp: component_def)

lemma split_slash_nonempty: "split_slash s \<noteq> []"
  by (cases s) (auto split: list.splits)

lemma split_slash_append:
  "CHR ''/'' \<notin> set p \<Longrightarrow> split_slash (p @ CHR ''/'' # s) = p # split_slash s"
  by (induction p) (auto split: list.splits)

lemma split_slash_single: "CHR ''/'' \<notin> set p \<Longrightarrow> split_slash p = [p]"
  by (induction p) auto

lemma split_join: "cs \<noteq> [] \<Longrightarrow> list_all component cs \<Longrightarrow> split_slash (join_slash cs) = cs"
  by (induction cs rule: join_slash.induct)
    (auto simp: component_def split_slash_append split_slash_single)

text \<open>Cleaning is idempotent: cleaning the text of a clean path gives its components.\<close>

lemma Clean_rooted: "list_all component cs \<Longrightarrow> Clean (rooted cs) = cs"
  by (cases "cs = []") (simp_all add: Clean_def rooted_def split_join clean_parts_id)

lemma drop_common_prefix: "fst (drop_common as bs) = [] \<longleftrightarrow> take (length as) bs = as"
  by (induction as bs rule: drop_common.induct) auto

lemma drop_common_component:
  "list_all component bs \<Longrightarrow> list_all component (snd (drop_common as bs))"
  by (induction as bs rule: drop_common.induct) auto

lemma take_three: "take (Suc (Suc (Suc 0))) s = [a, b, c] \<longleftrightarrow> (\<exists>t. s = a # b # c # t)"
  by (cases s; cases "tl s"; cases "tl (tl s)") auto

lemma component_starts:
  assumes "component c"
  shows "\<not> (\<exists>t. c @ CHR ''/'' # r = CHR ''.'' # CHR ''.'' # CHR ''/'' # t)"
    and "\<not> (\<exists>t. c = CHR ''.'' # CHR ''.'' # CHR ''/'' # t)"
  using assms by (auto simp: component_def append_eq_Cons_conv)

lemma join_down:
  assumes "list_all component ds" and "ds \<noteq> []"
  shows "join_slash ds \<noteq> ''..''" "\<not> has_prefix (join_slash ds) ''../''" "\<not> IsAbs (join_slash ds)"
proof -
  obtain c rest where ds: "ds = c # rest" using assms(2) by (cases ds) auto
  then have c: "component c" using assms(1) by simp
  have shape: "join_slash ds = c \<or> (\<exists>r. join_slash ds = c @ CHR ''/'' # r)"
    unfolding ds by (cases rest) auto
  show "\<not> has_prefix (join_slash ds) ''../''"
    using shape component_starts [OF c] by (auto simp: has_prefix_def take_three)
  show "join_slash ds \<noteq> ''..''"
    using shape c by (auto simp: component_def append_eq_Cons_conv)
  show "\<not> IsAbs (join_slash ds)"
    using shape c by (cases c) (auto simp: IsAbs_def component_def)
qed

lemma join_up:
  assumes "us \<noteq> []"
  shows "join_slash (map (\<lambda>_. ''..'') us @ ds) = ''..'' \<or> has_prefix (join_slash (map (\<lambda>_. ''..'') us @ ds)) ''../''"
proof -
  obtain rest where "map (\<lambda>_. ''..'') us @ ds = ''..'' # rest" using assms by (cases us) auto
  then show ?thesis by (cases rest) (auto simp: has_prefix_def)
qed

lemma pathInside_prefix:
  "pathInside workspace target \<longleftrightarrow>
     IsAbs workspace \<and> IsAbs target \<and> take (length (Clean workspace)) (Clean target) = Clean workspace"
proof -
  obtain up down where d: "drop_common (Clean workspace) (Clean target) = (up, down)" by (cases "drop_common (Clean workspace) (Clean target)")
  have pre: "up = [] \<longleftrightarrow> take (length (Clean workspace)) (Clean target) = Clean workspace"
    using drop_common_prefix [of "Clean workspace" "Clean target"] d by simp
  have down: "list_all component down"
    using drop_common_component [OF Clean_component, of "Clean workspace" target] d by simp
  show ?thesis
  proof (cases "up = []")
    case True
    then show ?thesis
      using pre d join_down [OF down]
      by (cases "down = []") (auto simp: pathInside_def Rel_def has_prefix_def IsAbs_def)
  next
    case False
    then show ?thesis using pre d join_up [OF False, of down] by (auto simp: pathInside_def Rel_def)
  qed
qed

end
