(* ===== verification/Policy.thy ===== *)
theory Policy
  imports Wire_Types Canonical_Json Paths
begin

text \<open>
  The permission policy, \<open>internal/permission/policy.go\<close> and \<open>session.go\<close>: the resolution of the
  platform, user, project and session rules, the facts a request is classified by, and the
  decision a session's policy takes, with the session's mode, grants and acknowledgement as state.

  What the code computes with SHA-256 is an argument: \<open>env_BodyDigest\<close> is
  \<open>canonicaljson.Digest\<close> of a tool descriptor's body, \<open>env_GrantDigest\<close> that of a grant binding,
  \<open>env_Sha256Hex\<close> the hexadecimal hash of a path. The random nonce and the clock are
  \<open>env_Nonce\<close> and \<open>env_Now\<close>. The two built-in descriptors are computed by \<open>BuiltinCanonicalDescriptor\<close>
  (\<open>internal/tools/registry.go\<close>) from their declarations.
\<close>

section \<open>Resolving the rules\<close>

abbreviation PermissionAllow :: string where "PermissionAllow \<equiv> ''allow''"
abbreviation PermissionAsk :: string where "PermissionAsk \<equiv> ''ask''"
abbreviation PermissionDeny :: string where "PermissionDeny \<equiv> ''deny''"
abbreviation ModeSafe :: string where "ModeSafe \<equiv> ''safe''"
abbreviation ModeAsk :: string where "ModeAsk \<equiv> ''ask''"
abbreviation ModeAuto :: string where "ModeAuto \<equiv> ''auto''"
abbreviation MutationReadOnly :: string where "MutationReadOnly \<equiv> ''read_only''"
abbreviation MutationFile :: string where "MutationFile \<equiv> ''file''"
abbreviation MutationProcess :: string where "MutationProcess \<equiv> ''process''"

record permission_decision =
  pd_Action :: string
  pd_Lifetime :: string
  pd_Scope :: string
  pd_Reason :: string
  pd_PolicySource :: string

record policy_rule =
  pr_Action :: string
  pr_Source :: string
  pr_Reason :: string
  pr_HardDeny :: bool

definition zero_rule :: policy_rule where
  "zero_rule = \<lparr>pr_Action = '''', pr_Source = '''', pr_Reason = '''', pr_HardDeny = False\<rparr>"

record policy_input =
  pi_Platform :: policy_rule
  pi_User :: policy_rule
  pi_Project :: policy_rule
  pi_SessionGrant :: policy_rule
  pi_Interactive :: policy_rule

definition defaultRule :: "policy_rule \<Rightarrow> string \<Rightarrow> string \<Rightarrow> string \<Rightarrow> policy_rule" where
  "defaultRule r fallback source reason =
     r\<lparr>pr_Action := (if pr_Action r = '''' then fallback else pr_Action r),
       pr_Source := (if pr_Source r = '''' then source else pr_Source r),
       pr_Reason := (if pr_Reason r = '''' then reason else pr_Reason r)\<rparr>"

definition rank :: "string \<Rightarrow> nat" where
  "rank a = (if a = PermissionDeny then 0 else if a = PermissionAsk then 1 else 2)"

definition narrower :: "string \<Rightarrow> string \<Rightarrow> string" where
  "narrower left right = (if rank right < rank left then right else left)"

definition policyDecision :: "string \<Rightarrow> string \<Rightarrow> string \<Rightarrow> permission_decision" where
  "policyDecision action source reason = \<lparr>pd_Action = action, pd_Lifetime = ''once'', pd_Scope = '''',
     pd_Reason = reason, pd_PolicySource = source\<rparr>"

definition valid_action :: "string \<Rightarrow> bool" where
  "valid_action a \<longleftrightarrow> a = '''' \<or> a = PermissionAllow \<or> a = PermissionAsk \<or> a = PermissionDeny"

definition ResolvePolicy :: "policy_input \<Rightarrow> permission_decision res" where
  "ResolvePolicy i =
     (let platform = defaultRule (pi_Platform i) PermissionAllow ''platform'' ''platform policy'';
          user = defaultRule (pi_User i) PermissionAsk ''user'' ''user policy'';
          project = defaultRule (pi_Project i) PermissionAllow ''project'' ''project policy''
      in if \<not> list_all valid_action [pr_Action platform, pr_Action user, pr_Action project,
             pr_Action (pi_SessionGrant i), pr_Action (pi_Interactive i)]
         then Inl ''invalid policy action''
         else if pr_HardDeny (pi_Platform i) \<or> pr_Action platform = PermissionDeny then
           Inr (policyDecision PermissionDeny (pr_Source platform)
             (if pr_HardDeny (pi_Platform i) \<and> pr_Reason (pi_Platform i) = ''''
              then ''platform hard deny'' else pr_Reason platform))
         else
           (let r1 = (if narrower (pr_Action user) (pr_Action project) = pr_Action project
                         \<and> pr_Action project \<noteq> pr_Action user then project else user);
                r2 = (if pr_Action r1 = PermissionAsk \<and> pr_Action (pi_SessionGrant i) \<noteq> ''''
                      then defaultRule (pi_SessionGrant i) PermissionAsk ''session'' ''session grant'' else r1);
                r3 = (if pr_Action r2 = PermissionAsk \<and> pr_Action (pi_Interactive i) \<noteq> ''''
                      then defaultRule (pi_Interactive i) PermissionAsk ''interactive'' ''interactive decision'' else r2)
            in Inr (policyDecision (pr_Action r3) (pr_Source r3) (pr_Reason r3))))"

section \<open>A session's policy\<close>

text \<open>The two sets are Go maps to the empty struct: lists of their keys.\<close>

record session_policy =
  sp_mode :: string
  sp_grants :: "string list"
  sp_authorizationGrants :: "string list"
  sp_autoShell :: bool

definition NewSession :: "string \<Rightarrow> session_policy" where
  "NewSession mode = \<lparr>sp_mode = mode, sp_grants = [], sp_authorizationGrants = [], sp_autoShell = False\<rparr>"

definition SetMode :: "string \<Rightarrow> session_policy \<Rightarrow> session_policy" where
  "SetMode mode p =
     p\<lparr>sp_autoShell := (if sp_mode p = ModeAuto \<and> mode \<noteq> ModeAuto then False else sp_autoShell p),
       sp_mode := mode\<rparr>"

definition AcknowledgeAutoShell :: "session_policy \<Rightarrow> session_policy" where
  "AcknowledgeAutoShell p = (if sp_mode p = ModeAuto then p\<lparr>sp_autoShell := True\<rparr> else p)"

definition grantKey :: "string \<Rightarrow> string \<Rightarrow> string" where
  "grantKey tool scope = tool @ nul @ scope"

definition GrantSession :: "string \<Rightarrow> string \<Rightarrow> session_policy \<Rightarrow> session_policy" where
  "GrantSession tool scope p = p\<lparr>sp_grants := List.insert (grantKey tool scope) (sp_grants p)\<rparr>"

record prepared_request =
  pq_ToolName :: string
  pq_Mutation :: string
  pq_CanonicalScope :: string
  pq_InsideWorkspace :: bool

definition decision :: "string \<Rightarrow> string \<Rightarrow> string \<Rightarrow> permission_decision" where
  "decision action scope reason = \<lparr>pd_Action = action, pd_Lifetime = ''once'', pd_Scope = scope,
     pd_Reason = reason, pd_PolicySource = ''''\<rparr>"

definition Evaluate :: "session_policy \<Rightarrow> prepared_request \<Rightarrow> permission_decision" where
  "Evaluate p call =
     (let mutation = pq_Mutation call; scope = pq_CanonicalScope call in
      if sp_mode p = ModeSafe then
        (if mutation = MutationReadOnly \<and> pq_InsideWorkspace call
         then decision PermissionAllow scope ''safe read inside workspace''
         else decision PermissionDeny scope ''safe mode'')
      else if grantKey (pq_ToolName call) scope \<in> set (sp_grants p) then
        (if sp_mode p = ModeAuto \<and> mutation = MutationProcess \<and> \<not> sp_autoShell p
         then decision PermissionAsk scope ''shell acknowledgement required''
         else \<lparr>pd_Action = PermissionAllow, pd_Lifetime = ''session'', pd_Scope = scope,
               pd_Reason = ''session grant'', pd_PolicySource = ''''\<rparr>)
      else if mutation = MutationReadOnly then
        (if pq_InsideWorkspace call then decision PermissionAllow scope ''read inside workspace''
         else decision PermissionAsk scope ''outside workspace'')
      else if sp_mode p = ModeAsk then decision PermissionAsk scope ''ask mode mutation''
      else if mutation = MutationFile then
        (if pq_InsideWorkspace call then decision PermissionAllow scope ''auto file inside workspace''
         else decision PermissionAsk scope ''outside workspace'')
      else if sp_autoShell p then decision PermissionAllow scope ''trusted shell acknowledged''
      else decision PermissionAsk scope ''shell acknowledgement required'')"

text \<open>
  \<open>Restore\<close> replays the events of a session in order. \<open>json.Unmarshal\<close> of their payloads, whose
  failures the code skips, is done before: an event that does not decode is \<open>RE_Other\<close>.
\<close>

datatype replay_event =
    RE_ModeChanged string
  | RE_PermissionResolved string permission_decision
  | RE_TrustedExecution bool
  | RE_Other

fun restore_event :: "session_policy \<Rightarrow> replay_event \<Rightarrow> session_policy" where
  "restore_event p (RE_ModeChanged m) = SetMode m p"
| "restore_event p (RE_PermissionResolved tool d) =
     (if pd_Action d = PermissionAllow \<and> pd_Lifetime d = ''session'' then GrantSession tool (pd_Scope d) p else p)"
| "restore_event p (RE_TrustedExecution enabled) = (if enabled then AcknowledgeAutoShell p else p)"
| "restore_event p RE_Other = p"

definition Restore :: "string \<Rightarrow> replay_event list \<Rightarrow> session_policy" where
  "Restore mode events = foldl restore_event (NewSession mode) events"

end
