(* ===== verification/Policy_Authorization.thy ===== *)
theory Policy_Authorization
  imports Policy
begin

text \<open>
  \<open>EvaluateAuthorization\<close> of \<open>internal/permission/policy.go\<close>: the facts derived from a request and
  its tool descriptor, the action each permission mode takes on them, and the decision made of
  the resolved rules. Also the registry of session policies, \<open>registry.go\<close>.
\<close>

section \<open>The environment and the built-in descriptors\<close>

record grant_binding =
  gb_SessionID :: session_id
  gb_Capability :: string
  gb_Source :: tool_identity
  gb_SourceRevision :: string
  gb_DescriptorDigest :: digest
  gb_PolicyGeneration :: string
  gb_Resources :: "resource_target list"
  gb_Constraints :: "auth_constraint list"

record policy_env =
  env_BodyDigest :: "tool_descriptor_body \<Rightarrow> digest res"
  env_GrantDigest :: "grant_binding \<Rightarrow> digest res"
  env_Sha256Hex :: "string \<Rightarrow> string"
  env_Nonce :: "decision_nonce res"
  env_Now :: gtime

record tool_classification =
  tk_Effect :: string
  tk_Mutation :: string
  tk_ExecutionLoci :: "string list"
  tk_Idempotency :: string
  tk_Retry :: string

definition ReadClassification :: tool_classification where
  "ReadClassification = \<lparr>tk_Effect = ''observation'', tk_Mutation = ''read_only'',
     tk_ExecutionLoci = [''builtin''], tk_Idempotency = ''idempotent'', tk_Retry = ''safe_before_dispatch''\<rparr>"

definition SubagentClassification :: tool_classification where
  "SubagentClassification = \<lparr>tk_Effect = ''orchestration'', tk_Mutation = ''orchestration'',
     tk_ExecutionLoci = [''orchestrator''], tk_Idempotency = ''conditional'',
     tk_Retry = ''never_after_dispatch''\<rparr>"

text \<open>\<open>None\<close> where the code panics: the schema or the body has no canonical form.\<close>

definition BuiltinCanonicalDescriptor ::
  "policy_env \<Rightarrow> string \<Rightarrow> string \<Rightarrow> string \<Rightarrow> tool_classification \<Rightarrow> tool_descriptor option" where
  "BuiltinCanonicalDescriptor env name description schema k =
     (case canonical_marshal schema of
        Inl m \<Rightarrow> None
      | Inr input \<Rightarrow>
          (let body = \<lparr>tb_Identity = \<lparr>ti_Source = ''builtin'', ti_Authority = ''yordam'', ti_Name = name\<rparr>,
                 tb_SourceRevision = ''builtin-v1'', tb_DisplayName = name, tb_Description = description,
                 tb_InputSchema = Some input, tb_OutputSchema = None, tb_Effect = tk_Effect k,
                 tb_Mutation = tk_Mutation k, tb_ExecutionLoci = tk_ExecutionLoci k,
                 tb_ClassificationSource = ''trusted_adapter'', tb_Idempotency = tk_Idempotency k,
                 tb_Retry = tk_Retry k\<rparr>
           in case env_BodyDigest env body of
                Inl m \<Rightarrow> None
              | Inr d \<Rightarrow> Some \<lparr>td_Body = body, td_DescriptorDigest = d\<rparr>))"

definition dq :: string where
  "dq = [CHR 0x22]"

definition quoted :: "string \<Rightarrow> string" where
  "quoted s = dq @ s @ dq"

definition bs2 :: string where
  "bs2 = [CHR 0x5C, CHR 0x5C]"

definition skill_inputSchema :: string where
  "skill_inputSchema = ''{'' @ quoted ''type'' @ '':'' @ quoted ''object'' @ '','' @ quoted ''additionalProperties''
     @ '':false,'' @ quoted ''required'' @ '':['' @ quoted ''name'' @ ''],'' @ quoted ''properties'' @ '':{''
     @ quoted ''name'' @ '':{'' @ quoted ''type'' @ '':'' @ quoted ''string'' @ '','' @ quoted ''pattern'' @ '':''
     @ quoted ''^[a-z0-9]+(?:-[a-z0-9]+)*$'' @ ''}}}''"

definition subagent_inputSchema :: string where
  "subagent_inputSchema = ''{'' @ quoted ''type'' @ '':'' @ quoted ''object'' @ '','' @ quoted ''additionalProperties''
     @ '':false,'' @ quoted ''required'' @ '':['' @ quoted ''task'' @ ''],'' @ quoted ''properties'' @ '':{''
     @ quoted ''task'' @ '':{'' @ quoted ''type'' @ '':'' @ quoted ''string'' @ '','' @ quoted ''minLength'' @ '':1,''
     @ quoted ''pattern'' @ '':'' @ quoted (''['' @ bs2 @ ''s'' @ bs2 @ ''S]*'' @ bs2 @ ''S['' @ bs2 @ ''s'' @ bs2 @ ''S]*'')
     @ '','' @ quoted ''x-max-bytes'' @ '':32768},'' @ quoted ''expected_output'' @ '':{'' @ quoted ''type'' @ '':''
     @ quoted ''string'' @ '','' @ quoted ''x-max-bytes'' @ '':16384},'' @ quoted ''context'' @ '':{'' @ quoted ''type''
     @ '':'' @ quoted ''string'' @ '','' @ quoted ''x-max-bytes'' @ '':65536}}}''"

definition skill_descriptor :: "policy_env \<Rightarrow> tool_descriptor option" where
  "skill_descriptor env = BuiltinCanonicalDescriptor env ''skill''
     ''Load the complete content of a catalog-bound skill.'' skill_inputSchema ReadClassification"

definition subagent_descriptor :: "policy_env \<Rightarrow> tool_descriptor option" where
  "subagent_descriptor env = BuiltinCanonicalDescriptor env ''subagent''
     ''Delegate one bounded objective to a sequential child agent.'' subagent_inputSchema SubagentClassification"

section \<open>Evaluation input\<close>

record provider_binding =
  cf_Identity :: tool_identity
  cf_SourceRevision :: string
  cf_DescriptorDigest :: digest

record evaluation_input =
  ei_SessionID :: string
  ei_Workspace :: string
  ei_PlatformAction :: string
  ei_ProjectAction :: string
  ei_ConfiguredProvider :: "provider_binding option"
  ei_Request :: auth_request
  ei_Descriptor :: tool_descriptor
  ei_Constraints :: "auth_constraint list"

section \<open>Constraints and grant keys\<close>

fun canonicalConstraints_loop :: "string option \<Rightarrow> auth_constraint list \<Rightarrow> auth_constraint list res" where
  "canonicalConstraints_loop prev [] = Inr []"
| "canonicalConstraints_loop prev (c # cs) =
     (if ac_Name c = '''' \<or> ac_Operator c = '''' then Inl ''authorization constraint is incomplete''
      else case canonical_marshal (raw_bytes (ac_Value c)) of
          Inl m \<Rightarrow> Inl m
        | Inr v \<Rightarrow>
            if prev \<noteq> None \<and> constraint_key c \<le> the prev then
              Inl ''authorization constraints must be sorted and unique''
            else (case canonicalConstraints_loop (Some (constraint_key c)) cs of
                Inl m \<Rightarrow> Inl m
              | Inr rest \<Rightarrow> Inr (c\<lparr>ac_Value := Some v\<rparr> # rest)))"

definition canonicalConstraints :: "auth_constraint list \<Rightarrow> auth_constraint list res" where
  "canonicalConstraints cs = canonicalConstraints_loop None cs"

definition grant_binding_of :: "auth_request \<Rightarrow> auth_constraint list \<Rightarrow> grant_binding" where
  "grant_binding_of r cs = \<lparr>gb_SessionID = rq_SessionID r, gb_Capability = rq_Action r, gb_Source = rq_Source r,
     gb_SourceRevision = rq_SourceRevision r, gb_DescriptorDigest = rq_DescriptorDigest r,
     gb_PolicyGeneration = rq_PolicyGeneration r, gb_Resources = rq_Resources r, gb_Constraints = cs\<rparr>"

definition authorizationGrantKey :: "policy_env \<Rightarrow> auth_request \<Rightarrow> auth_constraint list \<Rightarrow> string res" where
  "authorizationGrantKey env r cs =
     (case AuthorizationRequest_Validate r of
        Some m \<Rightarrow> Inl m
      | None \<Rightarrow> (case canonicalConstraints cs of
          Inl m \<Rightarrow> Inl m
        | Inr canonical \<Rightarrow> (case env_GrantDigest env (grant_binding_of r canonical) of
            Inl m \<Rightarrow> Inl m
          | Inr d \<Rightarrow> Inr (dg_Algorithm d @ '':'' @ dg_Value d))))"

definition GrantAuthorizationSession ::
  "policy_env \<Rightarrow> auth_request \<Rightarrow> auth_constraint list \<Rightarrow> session_policy \<Rightarrow> session_policy res" where
  "GrantAuthorizationSession env r cs p =
     (case authorizationGrantKey env r cs of
        Inl m \<Rightarrow> Inl m
      | Inr key \<Rightarrow> Inr (p\<lparr>sp_authorizationGrants := List.insert key (sp_authorizationGrants p)\<rparr>))"

section \<open>Facts of a request\<close>

definition zero_identity :: tool_identity where
  "zero_identity = \<lparr>ti_Source = '''', ti_Authority = '''', ti_Name = ''''\<rparr>"

definition ValidateDigest :: "policy_env \<Rightarrow> tool_descriptor_body \<Rightarrow> digest \<Rightarrow> string option" where
  "ValidateDigest env body got =
     (case env_BodyDigest env body of Inl m \<Rightarrow> Some m | Inr d \<Rightarrow> fail_if (got \<noteq> d) ''body digest mismatch'')"

text \<open>The guards that both descriptor tests begin with.\<close>

definition descriptor_bound :: "policy_env \<Rightarrow> tool_descriptor \<Rightarrow> auth_request \<Rightarrow> bool" where
  "descriptor_bound env d r \<longleftrightarrow>
     \<not> (tb_Identity (td_Body d) = zero_identity \<or> ToolDescriptorBody_Validate (td_Body d) \<noteq> None
        \<or> Digest_Validate (td_DescriptorDigest d) \<noteq> None)
     \<and> ValidateDigest env (td_Body d) (td_DescriptorDigest d) = None
     \<and> \<not> (tb_Identity (td_Body d) \<noteq> rq_Source r \<or> tb_SourceRevision (td_Body d) \<noteq> rq_SourceRevision r
        \<or> td_DescriptorDigest d \<noteq> rq_DescriptorDigest r)"

definition descriptorMatchesRequest :: "policy_env \<Rightarrow> tool_descriptor \<Rightarrow> auth_request \<Rightarrow> bool" where
  "descriptorMatchesRequest env d r \<longleftrightarrow> descriptor_bound env d r \<and> tb_Effect (td_Body d) = rq_Effect r
     \<and> list_ex (\<lambda>l. l = rq_ExecutionLocus r) (tb_ExecutionLoci (td_Body d))"

definition descriptorMatchesPreviewRequest :: "policy_env \<Rightarrow> tool_descriptor \<Rightarrow> auth_request \<Rightarrow> bool" where
  "descriptorMatchesPreviewRequest env d r \<longleftrightarrow> descriptor_bound env d r
     \<and> tb_Effect (td_Body d) = ''mutation'' \<and> rq_Effect r = ''observation''
     \<and> rq_Reversibility r = ''not_applicable'' \<and> rq_Action r = ti_Name (tb_Identity (td_Body d)) @ ''.preview''
     \<and> list_ex (\<lambda>l. l = rq_ExecutionLocus r) (tb_ExecutionLoci (td_Body d))"

text \<open>The loop keeps \<open>filesystemOnly\<close> and returns early on a file resource outside the workspace.\<close>

fun filesystem_loop :: "string \<Rightarrow> bool \<Rightarrow> resource_target list \<Rightarrow> bool \<times> bool" where
  "filesystem_loop ws only [] = (only, only)"
| "filesystem_loop ws only (r # rs) =
     (if rt_Kind r \<noteq> ''file'' \<and> rt_Kind r \<noteq> ''directory'' then filesystem_loop ws False rs
      else if \<not> pathInside ws (rt_CanonicalID r) then (False, only)
      else filesystem_loop ws only rs)"

definition filesystemResourcesInside :: "string \<Rightarrow> resource_target list \<Rightarrow> bool \<times> bool" where
  "filesystemResourcesInside ws rs = (if ws = '''' \<or> rs = [] then (False, False) else filesystem_loop ws True rs)"

fun process_loop :: "string \<Rightarrow> bool \<Rightarrow> bool \<Rightarrow> resource_target list \<Rightarrow> bool \<times> bool" where
  "process_loop ws dir exe [] = (dir \<and> exe, dir \<and> exe)"
| "process_loop ws dir exe (r # rs) =
     (if rt_Kind r = ''directory'' then
        (if \<not> pathInside ws (rt_CanonicalID r) then (False, True) else process_loop ws True exe rs)
      else if rt_Kind r = ''executable'' then process_loop ws dir True rs
      else (False, False))"

definition localProcessResourcesInside :: "string \<Rightarrow> resource_target list \<Rightarrow> bool \<times> bool" where
  "localProcessResourcesInside ws rs = (if ws = '''' \<or> rs = [] then (False, False) else process_loop ws False False rs)"

definition lower_or_digit :: "char \<Rightarrow> bool" where
  "lower_or_digit c \<longleftrightarrow> (CHR ''a'' \<le> c \<and> c \<le> CHR ''z'') \<or> (CHR ''0'' \<le> c \<and> c \<le> CHR ''9'')"

fun skill_name_loop :: "bool \<Rightarrow> string \<Rightarrow> bool" where
  "skill_name_loop hyphen [] = True"
| "skill_name_loop hyphen (c # cs) =
     (if lower_or_digit c then skill_name_loop False cs
      else if c = CHR ''-'' \<and> \<not> hyphen then skill_name_loop True cs
      else False)"

definition validSkillName :: "string \<Rightarrow> bool" where
  "validSkillName s = (if s = '''' \<or> hd s = CHR ''-'' \<or> last s = CHR ''-'' then False else skill_name_loop False s)"

definition validSkillDigest :: "string \<Rightarrow> bool" where
  "validSkillDigest s =
     (if \<not> has_prefix s ''sha256:'' \<or> length s \<noteq> length ''sha256:'' + 64 then False
      else hex_ok (drop (length ''sha256:'') s)
        \<and> drop (length ''sha256:'') s = to_lower (drop (length ''sha256:'') s))"

definition validProjectSkillWorkspace :: "policy_env \<Rightarrow> string \<Rightarrow> string \<Rightarrow> bool" where
  "validProjectSkillWorkspace env ws i =
     (if \<not> IsAbs ws \<or> rooted (Clean ws) \<noteq> ws \<or> length i \<noteq> 64 then False else i = env_Sha256Hex env ws)"

text \<open>The identity fields a request must repeat from a built-in descriptor.\<close>

definition request_of_descriptor :: "auth_request \<Rightarrow> tool_descriptor \<Rightarrow> bool" where
  "request_of_descriptor r d \<longleftrightarrow> rq_Source r = tb_Identity (td_Body d)
     \<and> rq_SourceRevision r = tb_SourceRevision (td_Body d) \<and> rq_DescriptorDigest r = td_DescriptorDigest d"

definition skill_attributes_ok :: "policy_env \<Rightarrow> evaluation_input \<Rightarrow> resource_attribute list \<Rightarrow> bool" where
  "skill_attributes_ok env i attrs =
     (case attrs of
        [a0, a1, a2] \<Rightarrow>
          ra_Name a0 = ''runtime_generation'' \<and> ra_Value a0 = rq_RuntimeGenerationID (ei_Request i)
          \<and> ra_Name a1 = ''source'' \<and> ra_Name a2 = ''workspace_id''
          \<and> (if ra_Value a1 = ''global'' then ra_Value a2 = ''''
             else ra_Value a1 = ''project'' \<and> validProjectSkillWorkspace env (ei_Workspace i) (ra_Value a2))
      | _ \<Rightarrow> False)"

definition trustedSkillResource :: "policy_env \<Rightarrow> evaluation_input \<Rightarrow> bool" where
  "trustedSkillResource env i =
     (let r = ei_Request i in
      case skill_descriptor env of
        None \<Rightarrow> False
      | Some d \<Rightarrow>
          ei_Descriptor i = d \<and> request_of_descriptor r d \<and> rq_Action r = ''skill''
          \<and> rq_ExecutionLocus r = ''builtin'' \<and> rq_RequestedProfile r = ''restricted''
          \<and> rq_EffectiveProfile r = ''restricted'' \<and> rq_Effect r = ''observation''
          \<and> rq_Boundary r = ''workspace'' \<and> rq_Reversibility r = ''not_applicable''
          \<and> rq_VerificationCoverage r = ''full''
          \<and> (case rq_Resources r of
               [t] \<Rightarrow> rt_Kind t = ''skill'' \<and> rt_ParentID t = '''' \<and> validSkillName (rt_CanonicalID t)
                 \<and> validSkillDigest (rt_Digest t) \<and> skill_attributes_ok env i (rt_Attributes t)
             | _ \<Rightarrow> False))"

definition trustedSubagentOrchestration :: "policy_env \<Rightarrow> evaluation_input \<Rightarrow> bool" where
  "trustedSubagentOrchestration env i =
     (let r = ei_Request i in
      case subagent_descriptor env of
        None \<Rightarrow> False
      | Some d \<Rightarrow>
          ei_Descriptor i = d \<and> request_of_descriptor r d \<and> rq_Action r = ''subagent''
          \<and> rq_ExecutionLocus r = ''orchestrator'' \<and> rq_RequestedProfile r = ''configured''
          \<and> rq_EffectiveProfile r = ''configured'' \<and> rq_Effect r = ''orchestration''
          \<and> rq_Boundary r = ''runtime'' \<and> rq_Reversibility r = ''not_applicable''
          \<and> rq_VerificationCoverage r = ''full'' \<and> rq_Resources r = [])"

record authorization_facts =
  ft_process :: bool
  ft_outside :: bool
  ft_observation :: bool
  ft_trustedMutationPreview :: bool
  ft_trustedLocalProcess :: bool
  ft_trustedBuiltinFileMutation :: bool

definition deriveAuthorizationFacts :: "policy_env \<Rightarrow> evaluation_input \<Rightarrow> authorization_facts" where
  "deriveAuthorizationFacts env i =
     (let r = ei_Request i; d = ei_Descriptor i; b = td_Body d;
          descriptorMatches = descriptorMatchesRequest env d r;
          trustedDescriptor = (descriptorMatches \<and> tb_ClassificationSource b = ''trusted_adapter'');
          process = (rq_ExecutionLocus r = ''process'' \<or> rq_EffectiveProfile r = ''unsandboxed''
            \<or> (descriptorMatches \<and> tb_Mutation b = ''process''));
          outside0 = (rq_Boundary r = ''filesystem_external'' \<or> rq_Boundary r = ''network''
            \<or> rq_Boundary r = ''remote'' \<or> rq_Boundary r = ''remote_or_unknown'');
          trustedSource = (ti_Source (rq_Source r) = ''builtin'' \<and> ti_Authority (rq_Source r) = ''yordam'');
          (filesystemInside, filesystemOnly) = filesystemResourcesInside (ei_Workspace i) (rq_Resources r);
          skillInside = trustedSkillResource env i;
          (shellInside, shellShape) = localProcessResourcesInside (ei_Workspace i) (rq_Resources r);
          unsandboxed = (rq_RequestedProfile r = ''unsandboxed'' \<and> rq_EffectiveProfile r = ''unsandboxed'');
          local_file = ((rq_ExecutionLocus r = ''builtin'' \<or> rq_ExecutionLocus r = ''local'')
            \<and> rq_Boundary r = ''workspace'' \<and> filesystemOnly \<and> filesystemInside);
          trustedPreviewDescriptor = (descriptorMatchesPreviewRequest env d r
            \<and> tb_ClassificationSource b = ''trusted_adapter'' \<and> trustedSource)
      in \<lparr>ft_process = process,
          ft_outside = (outside0 \<or> (process \<and> (\<not> shellShape \<or> \<not> shellInside))),
          ft_observation = (trustedDescriptor \<and> tb_Effect b = ''observation'' \<and> tb_Mutation b = ''read_only''
            \<and> rq_Effect r = ''observation'' \<and> rq_Boundary r = ''workspace'' \<and> (filesystemInside \<or> skillInside)),
          ft_trustedMutationPreview = (trustedPreviewDescriptor
            \<and> ((tb_Mutation b = ''process'' \<and> rq_ExecutionLocus r = ''process'' \<and> unsandboxed
                  \<and> shellShape \<and> shellInside)
               \<or> (tb_Mutation b = ''file'' \<and> local_file))),
          ft_trustedLocalProcess = (trustedDescriptor \<and> trustedSource \<and> tb_Effect b = ''mutation''
            \<and> tb_Mutation b = ''process'' \<and> rq_Effect r = ''mutation'' \<and> rq_ExecutionLocus r = ''process''
            \<and> unsandboxed \<and> shellShape \<and> shellInside),
          ft_trustedBuiltinFileMutation = (trustedDescriptor \<and> trustedSource \<and> tb_Effect b = ''mutation''
            \<and> tb_Mutation b = ''file'' \<and> rq_Effect r = ''mutation'' \<and> local_file)\<rparr>)"

section \<open>The action of a mode\<close>

definition mode_action :: "string \<Rightarrow> authorization_facts \<Rightarrow> bool \<Rightarrow> string \<times> string" where
  "mode_action mode f autoShell =
     (if ft_trustedMutationPreview f then (PermissionAllow, ''trusted mutation preview inside workspace'')
      else if mode = ModeSafe then
        (if ft_process f \<or> ft_outside f then (PermissionDeny, ''safe process or outside boundary'')
         else if ft_observation f then (PermissionAllow, ''safe observation inside workspace'')
         else (PermissionDeny, ''safe mode''))
      else if mode = ModeAsk then
        (if ft_process f \<or> ft_outside f then (PermissionAsk, ''process or outside boundary requires approval'')
         else if ft_observation f then (PermissionAllow, ''observation inside workspace'')
         else (PermissionAsk, ''ask mode''))
      else if mode = ModeAuto then
        (if ft_outside f then (PermissionAsk, ''outside boundary requires approval'')
         else if ft_process f then
           (if autoShell \<and> ft_trustedLocalProcess f then (PermissionAllow, ''trusted local process acknowledged'')
            else (PermissionAsk, ''process acknowledgement required''))
         else if ft_observation f then (PermissionAllow, ''observation inside workspace'')
         else if ft_trustedBuiltinFileMutation f then
           (PermissionAllow, ''auto built-in file mutation inside workspace'')
         else (PermissionAsk, ''auto boundary or process acknowledgement required''))
      else (PermissionDeny, ''invalid permission mode''))"

definition modeAuthorizationAction :: "policy_env \<Rightarrow> string \<Rightarrow> evaluation_input \<Rightarrow> bool \<Rightarrow> string \<times> string" where
  "modeAuthorizationAction env mode i autoShell =
     (if trustedSubagentOrchestration env i then (PermissionAllow, ''trusted runtime orchestration'')
      else mode_action mode (deriveAuthorizationFacts env i) autoShell)"

definition configuredProviderMatches :: "provider_binding option \<Rightarrow> auth_request \<Rightarrow> bool" where
  "configuredProviderMatches c r =
     (case c of
        None \<Rightarrow> False
      | Some b \<Rightarrow> ti_Source (rq_Source r) = ''provider'' \<and> rq_Effect r = ''egress''
          \<and> rq_Boundary r = ''network'' \<and> cf_Identity b = rq_Source r
          \<and> cf_SourceRevision b = rq_SourceRevision r \<and> cf_DescriptorDigest b = rq_DescriptorDigest r)"

definition requestHasHardDeny :: "auth_request \<Rightarrow> bool" where
  "requestHasHardDeny r \<longleftrightarrow> list_ex pp_HardDeny (rq_PolicyProvenance r)"

definition platformReason :: "auth_request \<Rightarrow> string \<Rightarrow> string" where
  "platformReason r action =
     (if requestHasHardDeny r then ''platform hard deny''
      else if action = PermissionDeny then ''platform deny'' else ''platform policy'')"

section \<open>EvaluateAuthorization\<close>

text \<open>The rules a session's policy resolves for a request; \<open>granted\<close> is the exact session grant.\<close>

definition authorization_rules :: "policy_env \<Rightarrow> session_policy \<Rightarrow> evaluation_input \<Rightarrow> bool \<Rightarrow> policy_input" where
  "authorization_rules env p i granted =
     (let r = ei_Request i;
          (action, reason) = modeAuthorizationAction env (sp_mode p) i (sp_autoShell p);
          compat = configuredProviderMatches (ei_ConfiguredProvider i) r
      in \<lparr>pi_Platform = \<lparr>pr_Action = ei_PlatformAction i, pr_Source = ''platform'',
            pr_Reason = platformReason r (ei_PlatformAction i), pr_HardDeny = requestHasHardDeny r\<rparr>,
          pi_User = (if compat then \<lparr>pr_Action = PermissionAllow, pr_Source = ''compatibility'',
              pr_Reason = ''configured provider compatibility policy'', pr_HardDeny = False\<rparr>
            else \<lparr>pr_Action = action, pr_Source = ''user'', pr_Reason = reason, pr_HardDeny = False\<rparr>),
          pi_Project = \<lparr>pr_Action = ei_ProjectAction i, pr_Source = ''project'',
            pr_Reason = ''project policy'', pr_HardDeny = False\<rparr>,
          pi_SessionGrant = (if granted then \<lparr>pr_Action = PermissionAllow, pr_Source = ''session'',
              pr_Reason = ''exact session grant'', pr_HardDeny = False\<rparr> else zero_rule),
          pi_Interactive = zero_rule\<rparr>)"

definition decision_of ::
  "policy_env \<Rightarrow> auth_request \<Rightarrow> auth_constraint list \<Rightarrow> permission_decision \<Rightarrow> decision_nonce \<Rightarrow> auth_decision" where
  "decision_of env r constraints resolved nonce =
     \<lparr>dc_Request = r, dc_Action = pd_Action resolved,
      dc_Scope = \<lparr>sc_Capability = rq_Action r, sc_Source = rq_Source r, sc_Resources = rq_Resources r,
        sc_Constraints = constraints\<rparr>,
      dc_Constraints = constraints,
      dc_Lifetime = (if pd_PolicySource resolved = ''session'' \<or> pd_PolicySource resolved = ''compatibility''
        then LifetimeSession else LifetimeOnce),
      dc_PolicySource = pd_PolicySource resolved, dc_PolicyGeneration = rq_PolicyGeneration r,
      dc_Reason = pd_Reason resolved, dc_ResolvedActor = None, dc_DecidedAt = env_Now env,
      dc_ExpiresAt = None, dc_PlanDigest = rq_PlanDigest r, dc_DecisionNonce = nonce\<rparr>"

definition EvaluateAuthorization :: "policy_env \<Rightarrow> session_policy \<Rightarrow> evaluation_input \<Rightarrow> auth_decision res" where
  "EvaluateAuthorization env p i =
     (let r = ei_Request i in
      case AuthorizationRequest_Validate r of
        Some m \<Rightarrow> Inl m
      | None \<Rightarrow>
          if ei_SessionID i \<noteq> '''' \<and> rq_SessionID r \<noteq> ei_SessionID i then Inl ''authorization session mismatch''
          else (case canonicalConstraints (ei_Constraints i) of
              Inl m \<Rightarrow> Inl m
            | Inr constraints \<Rightarrow>
          (case authorizationGrantKey env r constraints of
              Inl m \<Rightarrow> Inl m
            | Inr key \<Rightarrow>
          (case ResolvePolicy (authorization_rules env p i (key \<in> set (sp_authorizationGrants p))) of
              Inl m \<Rightarrow> Inl m
            | Inr resolved \<Rightarrow>
          (case env_Nonce env of
              Inl m \<Rightarrow> Inl m
            | Inr nonce \<Rightarrow>
                (let result = decision_of env r constraints resolved nonce in
                 case AuthorizationDecision_Validate result of Some m \<Rightarrow> Inl m | None \<Rightarrow> Inr result))))))"

section \<open>The registry of sessions\<close>

record child_lineage =
  cl_parent :: session_id
  cl_attempt :: string

text \<open>The policies are shared pointers in Go; each is a value here, written back under its session.\<close>

record policy_registry =
  pg_policies :: "(session_id, session_policy) gomap"
  pg_children :: "(session_id, child_lineage) gomap"

definition NewSessionPolicyRegistry :: policy_registry where
  "NewSessionPolicyRegistry = \<lparr>pg_policies = [], pg_children = []\<rparr>"

definition RegisterParent :: "session_id \<Rightarrow> session_policy \<Rightarrow> policy_registry \<Rightarrow> policy_registry res" where
  "RegisterParent s p g =
     (if s = '''' then Inl ''session policy registration is incomplete''
      else Inr (g\<lparr>pg_policies := gput s p (pg_policies g)\<rparr>))"

definition RegisterChild :: "session_id \<Rightarrow> string \<Rightarrow> policy_registry \<Rightarrow> policy_registry res" where
  "RegisterChild s mode g =
     (if s = '''' then Inl ''child session ID is required'' else RegisterParent s (NewSession mode) g)"

definition RegisterChildLineage ::
  "session_id \<Rightarrow> session_id \<Rightarrow> string \<Rightarrow> policy_registry \<Rightarrow> policy_registry res" where
  "RegisterChildLineage s parent attempt g =
     (if s = '''' \<or> parent = '''' \<or> attempt = '''' \<or> s = parent then Inl ''child prompt lineage is incomplete''
      else if map_of (pg_policies g) s = None then Inl ''child session policy is not registered''
      else Inr (g\<lparr>pg_children := gput s \<lparr>cl_parent = parent, cl_attempt = attempt\<rparr> (pg_children g)\<rparr>))"

definition registry_policy :: "policy_registry \<Rightarrow> session_id \<Rightarrow> session_policy option" where
  "registry_policy g s = (if s = '''' then None else map_of (pg_policies g) s)"

definition registry_Restore ::
  "session_id \<Rightarrow> session_id \<Rightarrow> string \<Rightarrow> replay_event list \<Rightarrow> policy_registry \<Rightarrow> policy_registry res" where
  "registry_Restore s replay_id mode events g =
     (if s = '''' \<or> replay_id = '''' \<or> replay_id \<noteq> s then Inl ''session replay does not bind the target session''
      else RegisterParent s (Restore mode events) g)"

definition registry_Evaluate :: "policy_registry \<Rightarrow> session_id \<Rightarrow> prepared_request \<Rightarrow> permission_decision" where
  "registry_Evaluate g s call =
     (case registry_policy g s of
        None \<Rightarrow> \<lparr>pd_Action = PermissionDeny, pd_Lifetime = '''', pd_Scope = pq_CanonicalScope call,
                 pd_Reason = ''unknown session policy'', pd_PolicySource = ''''\<rparr>
      | Some p \<Rightarrow> Evaluate p call)"

definition registry_EvaluateAuthorization ::
  "policy_env \<Rightarrow> policy_registry \<Rightarrow> evaluation_input \<Rightarrow> auth_decision res" where
  "registry_EvaluateAuthorization env g i =
     (case registry_policy g (rq_SessionID (ei_Request i)) of
        None \<Rightarrow> Inl ''authorization policy is not registered for session''
      | Some p \<Rightarrow> EvaluateAuthorization env p i)"

definition registry_Grant ::
  "policy_env \<Rightarrow> auth_request \<Rightarrow> auth_constraint list \<Rightarrow> policy_registry \<Rightarrow> policy_registry res" where
  "registry_Grant env r cs g =
     (case registry_policy g (rq_SessionID r) of
        None \<Rightarrow> Inl ''authorization policy is not registered for session''
      | Some p \<Rightarrow> (case GrantAuthorizationSession env r cs p of
          Inl m \<Rightarrow> Inl m
        | Inr p' \<Rightarrow> Inr (g\<lparr>pg_policies := gput (rq_SessionID r) p' (pg_policies g)\<rparr>)))"

end
