(* ===== verification/Policy_Safety.thy ===== *)
theory Policy_Safety
  imports Policy_Authorization
begin

text \<open>
  What the permission policy guarantees: a reference definition of the resolved action, in which a
  deny at any level is final; the modes' ceilings, which no grant raises; the acknowledgement of
  the shell, which exists only in auto mode; and the separation of sessions in the registry.
\<close>

section \<open>Resolution\<close>

text \<open>The action alone: what the five levels give, as a table.\<close>

definition effective :: "policy_rule \<Rightarrow> string \<Rightarrow> string" where
  "effective r fallback = (if pr_Action r = '''' then fallback else pr_Action r)"

definition resolved_action :: "policy_input \<Rightarrow> string" where
  "resolved_action i =
     (let platform = effective (pi_Platform i) PermissionAllow;
          base = narrower (effective (pi_User i) PermissionAsk) (effective (pi_Project i) PermissionAllow);
          session = effective (pi_SessionGrant i) PermissionAsk;
          interactive = effective (pi_Interactive i) PermissionAsk
      in if pr_HardDeny (pi_Platform i) \<or> platform = PermissionDeny then PermissionDeny
         else if base \<noteq> PermissionAsk then base
         else if session \<noteq> PermissionAsk then session
         else interactive)"

lemma defaultRule_action [simp]: "pr_Action (defaultRule r f s m) = effective r f"
  by (simp add: defaultRule_def effective_def)

lemma effective_valid: "valid_action (pr_Action r) \<Longrightarrow> effective r PermissionAsk \<in> {PermissionAllow, PermissionAsk, PermissionDeny}"
  by (auto simp: valid_action_def effective_def)

lemma narrower_cases: "narrower a b = a \<or> narrower a b = b"
  by (simp add: narrower_def)

lemma policyDecision_action [simp]: "pd_Action (policyDecision a s r) = a"
  "pd_PolicySource (policyDecision a s r) = s"
  by (simp_all add: policyDecision_def)

text \<open>A level that is only asked when the levels before it say ask.\<close>

lemma resolve_level:
  "pr_Action (if pr_Action r = PermissionAsk \<and> pr_Action s \<noteq> '''' then defaultRule s PermissionAsk x y else r) =
     (if pr_Action r = PermissionAsk then effective s PermissionAsk else pr_Action r)"
  by (simp add: effective_def)

lemma ResolvePolicy_action:
  assumes "ResolvePolicy i = Inr d"
  shows "pd_Action d = resolved_action i"
proof -
  let ?u = "effective (pi_User i) PermissionAsk" and ?p = "effective (pi_Project i) PermissionAllow"
  let ?r1 = "if narrower ?u ?p = ?p \<and> ?p \<noteq> ?u then defaultRule (pi_Project i) PermissionAllow ''project'' ''project policy''
    else defaultRule (pi_User i) PermissionAsk ''user'' ''user policy''"
  have base: "pr_Action ?r1 = narrower ?u ?p" using narrower_cases [of ?u ?p] by (auto simp: narrower_def)
  define hard where "hard \<longleftrightarrow> pr_HardDeny (pi_Platform i) \<or> effective (pi_Platform i) PermissionAllow = PermissionDeny"
  have if_sum: "(if b then Inl x else y) = Inr d \<Longrightarrow> \<not> b \<and> y = Inr d" for b and x :: string and y
    by (simp split: if_split_asm)
  note shape = assms [unfolded ResolvePolicy_def Let_def, THEN if_sum, THEN conjunct2,
    unfolded defaultRule_action hard_def [symmetric]]
  show ?thesis
  proof (cases hard)
    case True
    then have "pd_Action d = PermissionDeny" using shape by (auto simp del: list.inject)
    then show ?thesis using True by (simp add: resolved_action_def Let_def hard_def [symmetric])
  next
    case False
    let ?s = "pi_SessionGrant i" and ?t = "pi_Interactive i"
    let ?r2 = "if pr_Action ?r1 = PermissionAsk \<and> pr_Action ?s \<noteq> ''''
      then defaultRule ?s PermissionAsk ''session'' ''session grant'' else ?r1"
    let ?r3 = "if pr_Action ?r2 = PermissionAsk \<and> pr_Action ?t \<noteq> ''''
      then defaultRule ?t PermissionAsk ''interactive'' ''interactive decision'' else ?r2"
    have d: "pd_Action d = pr_Action ?r3" using shape False by auto
    have r2: "pr_Action ?r2 = (if narrower ?u ?p = PermissionAsk then effective ?s PermissionAsk else narrower ?u ?p)"
      by (rule trans [OF resolve_level]) (simp only: base)
    have r3: "pr_Action ?r3 = (if pr_Action ?r2 = PermissionAsk then effective ?t PermissionAsk else pr_Action ?r2)"
      by (rule resolve_level)
    show ?thesis
      using False d r3 unfolding r2 resolved_action_def Let_def hard_def [symmetric] by simp
  qed
qed

lemma rank_cases: "rank a \<le> 2" "rank a = 0 \<longleftrightarrow> a = PermissionDeny" "rank a = 1 \<longleftrightarrow> a = PermissionAsk"
  by (auto simp: rank_def)

lemma narrower_deny: "a = PermissionDeny \<or> b = PermissionDeny \<Longrightarrow> narrower a b = PermissionDeny"
  by (auto simp: narrower_def rank_def)

lemma narrower_ask [simp]: "narrower PermissionAsk b \<noteq> PermissionAllow"
  by (auto simp: narrower_def rank_def)

lemma resolved_deny_final:
  "pr_HardDeny (pi_Platform i) \<or> pr_Action (pi_Platform i) = PermissionDeny \<or> pr_Action (pi_User i) = PermissionDeny
     \<or> pr_Action (pi_Project i) = PermissionDeny \<Longrightarrow> resolved_action i = PermissionDeny"
  by (auto simp: resolved_action_def Let_def effective_def narrower_deny)

section \<open>A session's policy\<close>

text \<open>The shell acknowledgement exists only while the mode is auto.\<close>

definition policy_inv :: "session_policy \<Rightarrow> bool" where
  "policy_inv p \<longleftrightarrow> (sp_autoShell p \<longrightarrow> sp_mode p = ModeAuto)"

lemma policy_inv_ops [simp]:
  "policy_inv (NewSession m)" "policy_inv p \<Longrightarrow> policy_inv (SetMode m p)"
  "policy_inv p \<Longrightarrow> policy_inv (AcknowledgeAutoShell p)" "policy_inv p \<Longrightarrow> policy_inv (GrantSession t s p)"
  by (cases "sp_autoShell p";
    simp add: policy_inv_def NewSession_def SetMode_def AcknowledgeAutoShell_def GrantSession_def)+

lemma policy_inv_restore_event: "policy_inv p \<Longrightarrow> policy_inv (restore_event p e)"
  by (cases e) auto

lemma policy_inv_Restore: "policy_inv (Restore m es)"
proof -
  have "policy_inv p \<Longrightarrow> policy_inv (foldl restore_event p es)" for p
    by (induction es arbitrary: p) (auto intro: policy_inv_restore_event)
  then show ?thesis by (simp add: Restore_def)
qed

lemma Evaluate_allow:
  assumes "pd_Action (Evaluate p call) = PermissionAllow"
  shows "(pq_Mutation call = MutationReadOnly \<and> pq_InsideWorkspace call)
    \<or> (sp_mode p \<noteq> ModeSafe \<and> grantKey (pq_ToolName call) (pq_CanonicalScope call) \<in> set (sp_grants p))
    \<or> (sp_mode p \<notin> {ModeSafe, ModeAsk} \<and> pq_Mutation call = MutationFile \<and> pq_InsideWorkspace call)
    \<or> (sp_mode p \<notin> {ModeSafe, ModeAsk} \<and> sp_autoShell p)"
  using assms by (auto simp: Evaluate_def Let_def decision_def split: if_split_asm)

lemma Evaluate_process_auto:
  "sp_mode p = ModeAuto \<Longrightarrow> pq_Mutation call = MutationProcess \<Longrightarrow> pd_Action (Evaluate p call) = PermissionAllow \<Longrightarrow>
   sp_autoShell p"
  by (auto simp: Evaluate_def Let_def decision_def split: if_split_asm)

section \<open>EvaluateAuthorization\<close>

lemma EvaluateAuthorization_spec:
  assumes "EvaluateAuthorization env p i = Inr d"
  obtains key resolved constraints nonce where
    "canonicalConstraints (ei_Constraints i) = Inr constraints"
    "authorizationGrantKey env (ei_Request i) constraints = Inr key"
    "ResolvePolicy (authorization_rules env p i (key \<in> set (sp_authorizationGrants p))) = Inr resolved"
    "d = decision_of env (ei_Request i) constraints resolved nonce"
    "AuthorizationDecision_Validate d = None"
  using assms
  by (auto simp: EvaluateAuthorization_def Let_def simp del: first_err_None
      split: option.splits sum.splits if_split_asm)

lemma authorization_rules_simps [simp]:
  "pr_HardDeny (pi_Platform (authorization_rules env p i g)) = requestHasHardDeny (ei_Request i)"
  "pr_Action (pi_Platform (authorization_rules env p i g)) = ei_PlatformAction i"
  "pr_Action (pi_Project (authorization_rules env p i g)) = ei_ProjectAction i"
  "pr_Action (pi_SessionGrant (authorization_rules env p i g)) = (if g then PermissionAllow else '''')"
  "pr_Action (pi_Interactive (authorization_rules env p i g)) = ''''"
  "pr_Action (pi_User (authorization_rules env p i g)) =
     (if configuredProviderMatches (ei_ConfiguredProvider i) (ei_Request i) then PermissionAllow
      else fst (modeAuthorizationAction env (sp_mode p) i (sp_autoShell p)))"
  by (simp_all add: authorization_rules_def zero_rule_def Let_def split: prod.splits)

lemma decision_of_simps [simp]: "dc_Action (decision_of env r cs d n) = pd_Action d"
  "dc_Request (decision_of env r cs d n) = r" "dc_DecisionNonce (decision_of env r cs d n) = n"
  by (simp_all add: decision_of_def)

lemma EvaluateAuthorization_action:
  assumes "EvaluateAuthorization env p i = Inr d"
  obtains g where "dc_Action d = resolved_action (authorization_rules env p i g)"
    and "g \<Longrightarrow> sp_authorizationGrants p \<noteq> []"
proof -
  obtain key resolved cs n where
    r: "ResolvePolicy (authorization_rules env p i (key \<in> set (sp_authorizationGrants p))) = Inr resolved"
    "d = decision_of env (ei_Request i) cs resolved n"
    using EvaluateAuthorization_spec [OF assms] by metis
  show ?thesis
    by (rule that [of "key \<in> set (sp_authorizationGrants p)"])
      (use ResolvePolicy_action [OF r(1)] r(2) in auto)
qed

lemma mode_action_nonempty: "fst (modeAuthorizationAction env m i a) \<in> {PermissionAllow, PermissionAsk, PermissionDeny}"
  by (simp add: modeAuthorizationAction_def mode_action_def)

text \<open>An allow is an allow of the mode, of the configured provider, or an ask of the mode granted before.\<close>

lemma EvaluateAuthorization_allow:
  assumes "EvaluateAuthorization env p i = Inr d" and "dc_Action d = PermissionAllow"
  shows "configuredProviderMatches (ei_ConfiguredProvider i) (ei_Request i)
    \<or> fst (modeAuthorizationAction env (sp_mode p) i (sp_autoShell p)) = PermissionAllow
    \<or> (fst (modeAuthorizationAction env (sp_mode p) i (sp_autoShell p)) = PermissionAsk
        \<and> sp_authorizationGrants p \<noteq> [])"
proof -
  obtain g where g: "dc_Action d = resolved_action (authorization_rules env p i g)"
    "g \<Longrightarrow> sp_authorizationGrants p \<noteq> []"
    using EvaluateAuthorization_action [OF assms(1)] by metis
  let ?m = "fst (modeAuthorizationAction env (sp_mode p) i (sp_autoShell p))"
  have "resolved_action (authorization_rules env p i g) = PermissionAllow" using g(1) assms(2) by simp
  then show ?thesis
    using mode_action_nonempty [of env "sp_mode p" i "sp_autoShell p"] g(2)
      resolved_deny_final [of "authorization_rules env p i g"]
    by (auto simp: resolved_action_def Let_def effective_def split: if_split_asm)
qed

section \<open>Resources inside the workspace\<close>

text \<open>Every file or directory the request names lies inside the workspace.\<close>

definition files_inside :: "string \<Rightarrow> resource_target list \<Rightarrow> bool" where
  "files_inside ws rs \<longleftrightarrow>
     (\<forall>r \<in> set rs. rt_Kind r = ''file'' \<or> rt_Kind r = ''directory'' \<longrightarrow> pathInside ws (rt_CanonicalID r))"

lemma filesystem_loop_inside:
  "filesystem_loop ws only rs = (True, o2) \<Longrightarrow> only \<and> files_inside ws rs \<and>
     (\<forall>r \<in> set rs. rt_Kind r = ''file'' \<or> rt_Kind r = ''directory'')"
proof (induction ws only rs rule: filesystem_loop.induct)
  case (2 ws only r rs)
  show ?case
  proof (cases "rt_Kind r \<noteq> ''file'' \<and> rt_Kind r \<noteq> ''directory''")
    case True
    then have "filesystem_loop ws False rs = (True, o2)" using 2(3) by simp
    then show ?thesis using 2(1) [OF True] by simp
  next
    case kind: False
    then have inside: "pathInside ws (rt_CanonicalID r)" and rec: "filesystem_loop ws only rs = (True, o2)"
      using 2(3) by (simp_all split: if_split_asm)
    then show ?thesis using 2(2) [OF kind] kind by (simp add: files_inside_def)
  qed
qed (simp add: files_inside_def)

lemma filesystemResourcesInside_inside:
  "filesystemResourcesInside ws rs = (True, o2) \<Longrightarrow> files_inside ws rs"
  using filesystem_loop_inside [of ws True rs o2] by (simp add: filesystemResourcesInside_def split: if_split_asm)

lemma process_loop_inside: "process_loop ws d e rs = (True, s) \<Longrightarrow> files_inside ws rs"
proof (induction ws d e rs rule: process_loop.induct)
  case (2 ws d e r rs)
  show ?case
  proof (cases "rt_Kind r = ''directory''")
    case dir: True
    then have "pathInside ws (rt_CanonicalID r)" and "process_loop ws True e rs = (True, s)"
      using 2(3) by (simp_all split: if_split_asm)
    then show ?thesis using 2(1) [OF dir] by (simp add: files_inside_def)
  next
    case nd: False
    then have exe: "rt_Kind r = ''executable''" and "process_loop ws d True rs = (True, s)"
      using 2(3) by (simp_all split: if_split_asm)
    then show ?thesis using 2(2) [OF nd exe] by (simp add: files_inside_def)
  qed
qed (simp add: files_inside_def)

lemma localProcessResourcesInside_inside:
  "localProcessResourcesInside ws rs = (True, s) \<Longrightarrow> files_inside ws rs"
  by (auto simp: localProcessResourcesInside_def dest: process_loop_inside split: if_split_asm)

lemma skill_files_inside: "trustedSkillResource env i \<Longrightarrow> files_inside ws (rq_Resources (ei_Request i))"
  by (auto simp: trustedSkillResource_def Let_def files_inside_def split: option.splits list.splits)

lemma subagent_files_inside: "trustedSubagentOrchestration env i \<Longrightarrow> files_inside ws (rq_Resources (ei_Request i))"
  by (auto simp: trustedSubagentOrchestration_def Let_def files_inside_def split: option.splits)

text \<open>Each fact that admits an action implies containment.\<close>

lemma facts_inside:
  assumes "f = deriveAuthorizationFacts env i"
    and "ft_observation f \<or> ft_trustedMutationPreview f \<or> ft_trustedLocalProcess f \<or> ft_trustedBuiltinFileMutation f"
  shows "files_inside (ei_Workspace i) (rq_Resources (ei_Request i))"
proof -
  obtain fi fo where fs: "filesystemResourcesInside (ei_Workspace i) (rq_Resources (ei_Request i)) = (fi, fo)"
    by (cases "filesystemResourcesInside (ei_Workspace i) (rq_Resources (ei_Request i))")
  obtain si sh where ps: "localProcessResourcesInside (ei_Workspace i) (rq_Resources (ei_Request i)) = (si, sh)"
    by (cases "localProcessResourcesInside (ei_Workspace i) (rq_Resources (ei_Request i))")
  have "fi \<or> si \<or> trustedSkillResource env i"
    using assms by (auto simp: deriveAuthorizationFacts_def Let_def fs ps)
  then show ?thesis
    using fs ps filesystemResourcesInside_inside localProcessResourcesInside_inside skill_files_inside by auto
qed

lemma mode_allow_inside:
  assumes "fst (modeAuthorizationAction env m i a) = PermissionAllow"
  shows "files_inside (ei_Workspace i) (rq_Resources (ei_Request i))"
proof (cases "trustedSubagentOrchestration env i")
  case False
  then show ?thesis
    using assms by (intro facts_inside [OF refl])
      (auto simp: modeAuthorizationAction_def mode_action_def split: if_split_asm)
qed (rule subagent_files_inside)

text \<open>What safe mode admits.\<close>

lemma safe_mode_allow:
  assumes "fst (modeAuthorizationAction env ModeSafe i a) \<noteq> PermissionDeny"
  shows "fst (modeAuthorizationAction env ModeSafe i a) = PermissionAllow
    \<and> (trustedSubagentOrchestration env i
       \<or> ft_trustedMutationPreview (deriveAuthorizationFacts env i)
       \<or> (ft_observation (deriveAuthorizationFacts env i) \<and> \<not> ft_process (deriveAuthorizationFacts env i)
          \<and> \<not> ft_outside (deriveAuthorizationFacts env i)))"
  using assms by (auto simp: modeAuthorizationAction_def mode_action_def split: if_split_asm)

lemma safe_request_effect:
  assumes "fst (modeAuthorizationAction env ModeSafe i a) = PermissionAllow"
  shows "rq_Effect (ei_Request i) = ''observation'' \<or> rq_Effect (ei_Request i) = ''orchestration''"
  using safe_mode_allow [of env i a] assms
  by (auto simp: trustedSubagentOrchestration_def deriveAuthorizationFacts_def Let_def
      descriptorMatchesPreviewRequest_def split: option.splits prod.splits)

section \<open>The registry\<close>

lemma RegisterChild_policy:
  assumes "RegisterChild s m g = Inr g'"
  shows "registry_policy g' s = Some (NewSession m)" "t \<noteq> s \<Longrightarrow> registry_policy g' t = registry_policy g t"
  using assms by (auto simp: RegisterChild_def RegisterParent_def registry_policy_def split: if_split_asm)

lemma registry_Grant_other:
  "registry_Grant env r cs g = Inr g' \<Longrightarrow> t \<noteq> rq_SessionID r \<Longrightarrow> registry_policy g' t = registry_policy g t"
  by (auto simp: registry_Grant_def registry_policy_def split: option.splits sum.splits)

end
