(* ===== verification/Policy_Properties.thy ===== *)
theory Policy_Properties
  imports Policy_Safety Samples
begin

text \<open>
  What the permission policy (\<open>internal/permission\<close>) guarantees, as properties of the program: the
  resolved action against its reference table, the finality of a deny, what an allow rests on, the
  ceiling of the safe mode, the shell acknowledgement, path containment, the separation of sessions.
\<close>

section \<open>A small policy\<close>

definition sample_rule :: "string \<Rightarrow> policy_rule" where
  "sample_rule a = \<lparr>pr_Action = a, pr_Source = '''', pr_Reason = '''', pr_HardDeny = False\<rparr>"

definition sample_input :: "string \<Rightarrow> string \<Rightarrow> string \<Rightarrow> string \<Rightarrow> policy_input" where
  "sample_input platform user project session = \<lparr>pi_Platform = sample_rule platform, pi_User = sample_rule user,
     pi_Project = sample_rule project, pi_SessionGrant = sample_rule session, pi_Interactive = sample_rule ''''\<rparr>"

definition sample_env :: policy_env where
  "sample_env = \<lparr>env_BodyDigest = (\<lambda>b. Inr sample_digest), env_GrantDigest = (\<lambda>b. Inr sample_digest),
     env_Sha256Hex = (\<lambda>s. sample_hex), env_Nonce = Inr ''n1'', env_Now = 1\<rparr>"

definition sample_descriptor :: tool_descriptor where
  "sample_descriptor = \<lparr>td_Body = \<lparr>tb_Identity = sample_tool, tb_SourceRevision = ''builtin-v1'',
       tb_DisplayName = ''read'', tb_Description = ''Read a file.'', tb_InputSchema = Some ''{}'',
       tb_OutputSchema = None, tb_Effect = ''observation'', tb_Mutation = ''read_only'',
       tb_ExecutionLoci = [''builtin''], tb_ClassificationSource = ''trusted_adapter'',
       tb_Idempotency = ''idempotent'', tb_Retry = ''safe_before_dispatch''\<rparr>,
     td_DescriptorDigest = sample_digest\<rparr>"

definition sample_file :: resource_target where
  "sample_file = \<lparr>rt_Kind = ''file'', rt_CanonicalID = ''/w/a.txt'', rt_ParentID = '''',
     rt_Digest = '''', rt_Attributes = []\<rparr>"

definition sample_evaluation :: evaluation_input where
  "sample_evaluation = \<lparr>ei_SessionID = ''s1'', ei_Workspace = ''/w'', ei_PlatformAction = '''',
     ei_ProjectAction = '''', ei_ConfiguredProvider = None,
     ei_Request = sample_request\<lparr>rq_Resources := [sample_file]\<rparr>, ei_Descriptor = sample_descriptor,
     ei_Constraints = []\<rparr>"

section \<open>Where an acknowledgement comes from\<close>

lemma restore_autoShell:
  "sp_autoShell (restore_event p e) \<Longrightarrow> sp_autoShell p \<and> (\<forall>k. e = RE_ModeChanged k \<longrightarrow> sp_mode p = ModeAuto \<longrightarrow> k = ModeAuto)
     \<or> e = RE_TrustedExecution True"
  by (cases e) (auto simp: SetMode_def GrantSession_def AcknowledgeAutoShell_def split: if_split_asm)

lemma acknowledged_from:
  "sp_autoShell (foldl restore_event p es) \<Longrightarrow> policy_inv p \<Longrightarrow> \<not> sp_autoShell p \<Longrightarrow>
   \<exists>before after. es = before @ RE_TrustedExecution True # after
     \<and> list_all (\<lambda>e. \<forall>k. e = RE_ModeChanged k \<longrightarrow> k = ModeAuto) after"
proof (induction es rule: rev_induct)
  case (snoc e es)
  let ?q = "foldl restore_event p es"
  have q: "policy_inv ?q" using snoc.prems(2) by (induction es rule: rev_induct) (auto intro: policy_inv_restore_event)
  show ?case
  proof (cases "e = RE_TrustedExecution True")
    case True
    then show ?thesis by (intro exI [of _ es] exI [of _ "[]"]) simp
  next
    case False
    then have a: "sp_autoShell ?q" "\<forall>k. e = RE_ModeChanged k \<longrightarrow> k = ModeAuto"
      using restore_autoShell [of ?q e] snoc.prems(1) q by (auto simp: policy_inv_def)
    then obtain before after where "es = before @ RE_TrustedExecution True # after"
      "list_all (\<lambda>e. \<forall>k. e = RE_ModeChanged k \<longrightarrow> k = ModeAuto) after" using snoc.IH snoc.prems(2,3) by blast
    then show ?thesis using a(2) by (intro exI [of _ before] exI [of _ "after @ [e]"]) simp
  qed
qed simp

lemma acknowledged_by:
  "sp_autoShell (Restore m es) \<Longrightarrow> \<exists>before after. es = before @ RE_TrustedExecution True # after
     \<and> list_all (\<lambda>e. \<forall>k. e = RE_ModeChanged k \<longrightarrow> k = ModeAuto) after"
  unfolding Restore_def
proof (erule acknowledged_from)
  show "policy_inv (NewSession m)" by simp
  show "\<not> sp_autoShell (NewSession m)" by (simp add: NewSession_def)
qed

section \<open>Properties\<close>



text \<open>
  C20. A deny of the platform (hard or plain), of the user or of the project is the decision: no project
  rule, session grant or interactive answer turns it into ask or allow.
\<close>

theorem deny_is_final:
  assumes "ResolvePolicy i = Inr d"
    and "pr_HardDeny (pi_Platform i) \<or> pr_Action (pi_Platform i) = PermissionDeny
      \<or> pr_Action (pi_User i) = PermissionDeny \<or> pr_Action (pi_Project i) = PermissionDeny"
  shows "pd_Action d = PermissionDeny"
  using ResolvePolicy_action [OF assms(1)] resolved_deny_final [OF assms(2)] by simp

theorem deny_is_final_witness:
  "pd_Action (projr (ResolvePolicy (sample_input ''allow'' ''allow'' ''deny'' ''allow''))) = ''deny''"
proof -
  let ?i = "sample_input ''allow'' ''allow'' ''deny'' ''allow''"
  have "\<not> isl (ResolvePolicy ?i)" "pr_Action (pi_Project ?i) = ''deny''" by code_simp+
  then have "ResolvePolicy ?i = Inr (projr (ResolvePolicy ?i))" "pr_Action (pi_Project ?i) = ''deny''" by simp_all
  from deny_is_final [OF this(1)] this(2) show ?thesis by simp
qed


text \<open>
  The two built-in orchestration tests fail on another action, so their schemas need no evaluation.
\<close>

lemma not_builtin_action:
  "rq_Action (ei_Request i) \<noteq> ''subagent'' \<Longrightarrow> trustedSubagentOrchestration env i = False"
  "rq_Action (ei_Request i) \<noteq> ''skill'' \<Longrightarrow> trustedSkillResource env i = False"
  by (auto simp: trustedSubagentOrchestration_def trustedSkillResource_def Let_def split: option.splits)

lemma sample_not_builtin:
  "trustedSubagentOrchestration env sample_evaluation = False" "trustedSkillResource env sample_evaluation = False"
  by (rule not_builtin_action, simp add: sample_evaluation_def sample_request_def)+

lemmas sample_eval = authorization_rules_def modeAuthorizationAction_def deriveAuthorizationFacts_def
  sample_not_builtin

text \<open>The safe mode allows the sample request: an observation of a file of the workspace.\<close>

definition sample_allow :: auth_decision where
  "sample_allow = decision_of sample_env (ei_Request sample_evaluation) []
     (policyDecision PermissionAllow ''user'' ''safe observation inside workspace'') ''n1''"

lemma sample_allowed:
  "EvaluateAuthorization sample_env (NewSession ModeSafe) sample_evaluation = Inr sample_allow"
proof -
  have v: "AuthorizationRequest_Validate (ei_Request sample_evaluation) = None" by code_simp
  have c: "canonicalConstraints (ei_Constraints sample_evaluation) = Inr []" by code_simp
  have "\<not> isl (authorizationGrantKey sample_env (ei_Request sample_evaluation) [])" by code_simp
  then obtain key where k: "authorizationGrantKey sample_env (ei_Request sample_evaluation) [] = Inr key"
    by (auto simp: isl_def split: sum.splits) (metis sum.exhaust)
  have r: "ResolvePolicy (authorization_rules sample_env (NewSession ModeSafe) sample_evaluation False)
    = Inr (policyDecision PermissionAllow ''user'' ''safe observation inside workspace'')"
    unfolding sample_eval by code_simp
  have d: "AuthorizationDecision_Validate sample_allow = None" by code_simp
  have n: "env_Nonce sample_env = Inr ''n1''" "sp_authorizationGrants (NewSession ModeSafe) = []"
    "rq_SessionID (ei_Request sample_evaluation) = ei_SessionID sample_evaluation"
    by (simp_all add: sample_env_def NewSession_def sample_evaluation_def sample_request_def)
  show ?thesis
    unfolding EvaluateAuthorization_def Let_def v c n sum.case option.case k list.set
    by (simp only: empty_iff r n sum.case d [unfolded sample_allow_def] option.case sample_allow_def simp_thms if_False)
qed


text \<open>
  C19. The ceiling of the safe mode, which no session grant, acknowledgement or project rule raises: what
  it allows is a request of the configured provider, or an observation or orchestration whose files
  lie inside the workspace.
\<close>

theorem safe_mode_never_mutates:
  assumes "EvaluateAuthorization env p i = Inr d" and "dc_Action d = PermissionAllow" and "sp_mode p = ModeSafe"
  shows "configuredProviderMatches (ei_ConfiguredProvider i) (ei_Request i)
    \<or> ((rq_Effect (ei_Request i) = ''observation'' \<or> rq_Effect (ei_Request i) = ''orchestration'')
        \<and> files_inside (ei_Workspace i) (rq_Resources (ei_Request i)))"
proof -
  let ?m = "fst (modeAuthorizationAction env ModeSafe i (sp_autoShell p))"
  have "configuredProviderMatches (ei_ConfiguredProvider i) (ei_Request i) \<or> ?m = PermissionAllow"
    using EvaluateAuthorization_allow [OF assms(1,2)] safe_mode_allow [of env i "sp_autoShell p"] assms(3) by auto
  then show ?thesis using safe_request_effect mode_allow_inside by blast
qed

theorem safe_mode_never_mutates_witness:
  "rq_Effect (ei_Request sample_evaluation) = ''observation'' \<and> files_inside ''/w'' [sample_file]"
proof -
  have a: "dc_Action sample_allow = ''allow''" "sp_mode (NewSession ModeSafe) = ModeSafe"
    "configuredProviderMatches (ei_ConfiguredProvider sample_evaluation) (ei_Request sample_evaluation) = False"
    "rq_Effect (ei_Request sample_evaluation) \<noteq> ''orchestration''" by code_simp+
  have r: "ei_Workspace sample_evaluation = ''/w''" "rq_Resources (ei_Request sample_evaluation) = [sample_file]"
    by (simp_all add: sample_evaluation_def)
  from safe_mode_never_mutates [OF sample_allowed a(1,2), unfolded r] a(3,4) show ?thesis by (simp only: simp_thms)
qed

text \<open>
  C22. After any replay of a session's events, the policy allows a process without a session grant only
  in the auto mode and after an acknowledgement that no later change of mode has cancelled.
\<close>

theorem process_needs_acknowledgement:
  assumes "p = Restore m events" and "pd_Action (Evaluate p call) = PermissionAllow"
    and "pq_Mutation call = MutationProcess"
    and "grantKey (pq_ToolName call) (pq_CanonicalScope call) \<notin> set (sp_grants p)"
  shows "sp_mode p = ModeAuto \<and> sp_autoShell p
    \<and> (\<exists>before after. events = before @ RE_TrustedExecution True # after
          \<and> list_all (\<lambda>e. \<forall>k. e = RE_ModeChanged k \<longrightarrow> k = ModeAuto) after)"
proof -
  have "sp_autoShell p" using Evaluate_allow [OF assms(2)] assms(3,4) by auto
  moreover have "sp_mode p = ModeAuto" using policy_inv_Restore [of m events] calculation assms(1) by (simp add: policy_inv_def)
  moreover have "sp_autoShell (Restore m events) \<Longrightarrow> \<exists>before after. events = before @ RE_TrustedExecution True # after
      \<and> list_all (\<lambda>e. \<forall>k. e = RE_ModeChanged k \<longrightarrow> k = ModeAuto) after"
    by (rule acknowledged_by)
  ultimately show ?thesis using assms(1) by blast
qed

theorem process_needs_acknowledgement_witness:
  "sp_mode (Restore ''ask'' [RE_ModeChanged ''auto'', RE_TrustedExecution True, RE_Other]) = ModeAuto"
proof -
  let ?p = "Restore ''ask'' [RE_ModeChanged ''auto'', RE_TrustedExecution True, RE_Other]"
  let ?c = "\<lparr>pq_ToolName = ''shell'', pq_Mutation = ''process'', pq_CanonicalScope = ''ls'', pq_InsideWorkspace = True\<rparr>"
  have "pd_Action (Evaluate ?p ?c) = PermissionAllow" "pq_Mutation ?c = MutationProcess"
    "grantKey (pq_ToolName ?c) (pq_CanonicalScope ?c) \<notin> set (sp_grants ?p)" by code_simp+
  from process_needs_acknowledgement [OF refl this] show ?thesis ..
qed

text \<open>
  The containment test that the code makes on the text of a relative path holds exactly when both
  paths are absolute and the workspace's clean components are a prefix of the target's: no \<open>..\<close> and
  no sibling whose name merely begins like the workspace passes.
\<close>

theorem containment_is_component_prefix:
  "pathInside workspace target \<longleftrightarrow>
     IsAbs workspace \<and> IsAbs target \<and> take (length (Clean workspace)) (Clean target) = Clean workspace"
  by (rule pathInside_prefix)

text \<open>
  Sessions are separate: a grant recorded for one session, or a child registered under a fresh
  identifier, changes no evaluation of another session, and a new child starts without grants.
\<close>

theorem sessions_are_separate:
  assumes "registry_Grant env r cs g = Inr g' \<and> s = rq_SessionID r \<or> RegisterChild s m g = Inr g'"
    and "rq_SessionID (ei_Request i) \<noteq> s" and "t \<noteq> s"
  shows "registry_EvaluateAuthorization env g' i = registry_EvaluateAuthorization env g i
    \<and> registry_Evaluate g' t call = registry_Evaluate g t call"
proof -
  have "registry_policy g' u = registry_policy g u" if "u \<noteq> s" for u
    using assms(1) that registry_Grant_other RegisterChild_policy(2) by metis
  then show ?thesis using assms(2,3) by (simp add: registry_EvaluateAuthorization_def registry_Evaluate_def)
qed

theorem sessions_are_separate_witness:
  "registry_Evaluate (projr (RegisterChild ''child'' ''ask'' NewSessionPolicyRegistry)) ''s9''
       \<lparr>pq_ToolName = ''t'', pq_Mutation = ''file'', pq_CanonicalScope = ''x'', pq_InsideWorkspace = True\<rparr>
     = registry_Evaluate NewSessionPolicyRegistry ''s9''
       \<lparr>pq_ToolName = ''t'', pq_Mutation = ''file'', pq_CanonicalScope = ''x'', pq_InsideWorkspace = True\<rparr>"
proof -
  let ?r = "RegisterChild ''child'' ''ask'' NewSessionPolicyRegistry"
  have "\<not> isl ?r" "rq_SessionID (ei_Request sample_evaluation) \<noteq> ''child''" by code_simp+
  then have "?r = Inr (projr ?r)" "rq_SessionID (ei_Request sample_evaluation) \<noteq> ''child''" by simp_all
  from sessions_are_separate [OF disjI2, OF this(1) this(2), of "''s9''"] show ?thesis by simp
qed

end
