(* ===== verification/Authorization_Service.thy ===== *)
theory Authorization_Service
  imports Event_Rules
begin

text \<open>
  The authorization service, \<open>internal/authorization/service.go\<close> and \<open>token.go\<close>: resolving an
  interactive approval, issuing a token for a decision and its consumption that are both committed
  to the journal, dispatching an effect at most once for a token, and revoking a nonce.

  The journal reader is the argument \<open>reader\<close>. The decoding of payloads (canonical JSON check and
  \<open>json.Unmarshal\<close>) and the digests are the record \<open>service_env\<close>. The clock is the argument \<open>now\<close>. The callback of
  \<open>Dispatch\<close> runs under the service's lock: it can only register a cancellation hook, named by a
  number here, and return an error.
\<close>

section \<open>State\<close>

record commit_reference =
  cf_Journal :: journal_ref
  cf_DecisionTransactionID :: transaction_id
  cf_DecisionEventID :: event_id
  cf_StartTransactionID :: transaction_id
  cf_ConsumedEventID :: event_id
  cf_StartedEventID :: event_id

record dispatch_binding =
  db_Kind :: string
  db_HandleID :: string
  db_ActivityID :: activity_id
  db_ControlOperationID :: control_operation_id
  db_CallID :: string
  db_PlanDigest :: digest
  db_RequestDigest :: digest
  db_DispatchDigest :: digest
  db_RuntimeGenerationID :: runtime_generation_id

record committed_token =
  ct_valid :: bool
  ct_kind :: string
  ct_activityID :: activity_id
  ct_controlOperationID :: control_operation_id
  ct_callID :: string
  ct_planDigest :: digest
  ct_requestDigest :: digest
  ct_dispatchDigest :: digest
  ct_runtimeGenerationID :: runtime_generation_id
  ct_nonce :: decision_nonce
  ct_revocationEpoch :: u64

record service =
  sv_issued :: "decision_nonce list"
  sv_dispatched :: "decision_nonce list"
  sv_handles :: "string list"
  sv_revocations :: "(decision_nonce, u64) gomap"
  sv_cancellations :: "(decision_nonce, nat) gomap"

definition NewService :: service where
  "NewService = \<lparr>sv_issued = [], sv_dispatched = [], sv_handles = [], sv_revocations = [],
     sv_cancellations = []\<rparr>"

definition revocation_of :: "service \<Rightarrow> decision_nonce \<Rightarrow> u64" where
  "revocation_of s n = (case map_of (sv_revocations s) n of None \<Rightarrow> 0 | Some e \<Rightarrow> e)"

record committed_transaction =
  tx_Journal :: journal_ref
  tx_TransactionID :: transaction_id
  tx_Cursor :: cursor
  tx_Events :: "envelope list"

record control_started =
  ks_DecisionNonce :: decision_nonce
  ks_DecisionEventID :: event_id
  ks_ControlOperationID :: control_operation_id
  ks_PlanDigest :: digest
  ks_RequestDigest :: digest
  ks_DispatchDigest :: digest
  ks_RuntimeGenerationID :: runtime_generation_id

record service_env =
  se_decode_decided :: "raw_message \<Rightarrow> auth_decision res"
  se_decode_consumed :: "raw_message \<Rightarrow> auth_consumed res"
  se_decode_started :: "raw_message \<Rightarrow> activity_started res"
  se_decode_control :: "raw_message \<Rightarrow> control_started res"
  se_decision_digest :: "auth_decision \<Rightarrow> digest res"
  se_scope_digest :: "auth_scope \<Rightarrow> digest res"

type_synonym tx_reader = "journal_ref \<Rightarrow> transaction_id \<Rightarrow> committed_transaction res"

abbreviation ErrStaleDecision :: string where "ErrStaleDecision \<equiv> ''authorization decision is stale''"
abbreviation ErrExpiredDecision :: string where "ErrExpiredDecision \<equiv> ''authorization decision is expired''"
abbreviation ErrRevokedDecision :: string where "ErrRevokedDecision \<equiv> ''authorization decision is revoked''"
abbreviation ErrAlreadyUsedDecision :: string where
  "ErrAlreadyUsedDecision \<equiv> ''authorization decision was already used''"
abbreviation ErrTerminalDecision :: string where "ErrTerminalDecision \<equiv> ''authorization decision is terminal''"
abbreviation ErrInvalidCommittedToken :: string where
  "ErrInvalidCommittedToken \<equiv> ''invalid committed authorization token''"
abbreviation ErrAlreadyDispatched :: string where
  "ErrAlreadyDispatched \<equiv> ''authorization was already dispatched''"
abbreviation EventControlOperationStarted :: string where
  "EventControlOperationStarted \<equiv> ''control_operation.started''"

section \<open>Bindings and interactive approvals\<close>

definition ValidateBinding :: "gtime \<Rightarrow> auth_request \<Rightarrow> auth_decision \<Rightarrow> string option" where
  "ValidateBinding now r d = first_err
     [fail_if (AuthorizationRequest_Validate r \<noteq> None) ErrStaleDecision,
      fail_if (r \<noteq> dc_Request d) ErrStaleDecision,
      fail_if (AuthorizationDecision_Validate d \<noteq> None) ErrStaleDecision,
      (case dc_ExpiresAt d of None \<Rightarrow> None | Some t \<Rightarrow> fail_if (\<not> now < t) ErrExpiredDecision)]"

record approval_response =
  re_RequestID :: string
  re_Action :: string
  re_Lifetime :: string
  re_Reason :: string
  re_Actor :: actor_ref
  re_ScopeDigest :: digest

definition resolved_decision ::
  "gtime \<Rightarrow> decision_nonce \<Rightarrow> approval_response \<Rightarrow> auth_decision \<Rightarrow> auth_decision" where
  "resolved_decision now nonce a d =
     d\<lparr>dc_Action := re_Action a, dc_Lifetime := re_Lifetime a, dc_PolicySource := ''interactive'',
       dc_Reason := re_Reason a, dc_ResolvedActor := Some (re_Actor a), dc_DecidedAt := now,
       dc_DecisionNonce := nonce\<rparr>"

text \<open>\<open>nonce\<close> is the result of \<open>newDecisionNonce\<close>.\<close>

definition ResolveInteractive ::
  "service_env \<Rightarrow> gtime \<Rightarrow> decision_nonce res \<Rightarrow> auth_request \<Rightarrow> auth_decision \<Rightarrow> approval_response \<Rightarrow> auth_decision res" where
  "ResolveInteractive env now nonce r pending a =
     (case ValidateBinding now r pending of
        Some m \<Rightarrow> Inl m
      | None \<Rightarrow>
          if dc_Action pending \<noteq> ''ask'' then Inl ErrTerminalDecision
          else if re_RequestID a \<noteq> rq_RequestID r \<or> (re_Action a \<noteq> ''allow'' \<and> re_Action a \<noteq> ''deny'')
             \<or> (re_Lifetime a \<noteq> LifetimeOnce \<and> re_Lifetime a \<noteq> LifetimeSession) \<or> re_Reason a = ''''
          then Inl ErrStaleDecision
          else if ActorRef_Validate (re_Actor a) \<noteq> None \<or> ar_Kind (re_Actor a) \<noteq> ActorUser
          then Inl ErrStaleDecision
          else if se_scope_digest env (dc_Scope pending) \<noteq> Inr (re_ScopeDigest a) then Inl ErrStaleDecision
          else (case nonce of
              Inl m \<Rightarrow> Inl m
            | Inr n \<Rightarrow>
                (case ValidateBinding now r (resolved_decision now n a pending) of
                   Some m \<Rightarrow> Inl m
                 | None \<Rightarrow> Inr (resolved_decision now n a pending))))"

section \<open>Issue\<close>

definition CommitReference_validate :: "commit_reference \<Rightarrow> string option" where
  "CommitReference_validate r = first_err
     [JournalRef_Validate (cf_Journal r),
      fail_if (cf_DecisionTransactionID r = '''' \<or> cf_DecisionEventID r = '''' \<or> cf_StartTransactionID r = ''''
               \<or> cf_ConsumedEventID r = '''' \<or> cf_StartedEventID r = '''') ''commit reference is incomplete'',
      fail_if (cf_DecisionTransactionID r = cf_StartTransactionID r)
        ''decision and start transactions must be distinct'']"

definition validateCommittedTransactionIdentity ::
  "committed_transaction \<Rightarrow> journal_ref \<Rightarrow> transaction_id \<Rightarrow> string option" where
  "validateCommittedTransactionIdentity t ref i = first_err
     [fail_if (tx_Journal t \<noteq> ref \<or> tx_TransactionID t \<noteq> i) ''committed transaction identity mismatch'',
      fail_if (CommittedCursor_Validate (tx_Cursor t) \<noteq> None) ''invalid committed cursor'',
      fail_if (cu_JournalKind (tx_Cursor t) \<noteq> jr_Kind ref \<or> cu_JournalID (tx_Cursor t) \<noteq> jr_ID ref
               \<or> cu_TransactionID (tx_Cursor t) \<noteq> i) ''committed cursor identity mismatch'']"

text \<open>The loop of \<open>namedEvent\<close>: the last event with the identifier, and how many have the kind.\<close>

fun named_loop :: "transaction_id \<Rightarrow> event_id \<Rightarrow> string \<Rightarrow> envelope option \<Rightarrow> nat \<Rightarrow> envelope list
    \<Rightarrow> (envelope option \<times> nat) res" where
  "named_loop t i kind found n [] = Inr (found, n)"
| "named_loop t i kind found n (e # es) =
     (if en_TransactionID e \<noteq> t then Inl ''committed event transaction identity mismatch''
      else (let n' = (if en_Kind e = kind then n + 1 else n) in
        if en_EventID e = i then
          (if en_Kind e \<noteq> kind then Inl ''named committed event kind mismatch''
           else named_loop t i kind (Some e) n' es)
        else named_loop t i kind found n' es))"

definition namedEvent :: "committed_transaction \<Rightarrow> transaction_id \<Rightarrow> event_id \<Rightarrow> string \<Rightarrow> envelope res" where
  "namedEvent tx t i kind =
     (if tx_TransactionID tx \<noteq> t \<or> JournalRef_Validate (tx_Journal tx) \<noteq> None
      then Inl ''committed transaction identity mismatch''
      else (case named_loop t i kind None 0 (tx_Events tx) of
          Inl m \<Rightarrow> Inl m
        | Inr (None, n) \<Rightarrow> Inl ''committed transaction has incomplete or ambiguous event''
        | Inr (Some e, n) \<Rightarrow>
            if en_EventID e = '''' \<or> n \<noteq> 1 then Inl ''committed transaction has incomplete or ambiguous event''
            else Inr e))"

definition matchConsumption :: "auth_decision \<Rightarrow> digest \<Rightarrow> event_id \<Rightarrow> auth_consumed \<Rightarrow> string option" where
  "matchConsumption d dg i c =
     (let r = dc_Request d in
      fail_if (cn_DecisionNonce c \<noteq> dc_DecisionNonce d \<or> cn_DecisionEventID c \<noteq> i \<or> cn_DecisionDigest c \<noteq> dg
        \<or> cn_RequestID c \<noteq> rq_RequestID r \<or> cn_ActivityID c \<noteq> rq_ActivityID r
        \<or> cn_ControlOperationID c \<noteq> rq_ControlOperationID r \<or> cn_CallID c \<noteq> rq_CallID r
        \<or> cn_PlanDigest c \<noteq> rq_PlanDigest r \<or> cn_RequestDigest c \<noteq> rq_RequestDigest r
        \<or> cn_DispatchDigest c \<noteq> rq_DispatchDigest r
        \<or> cn_RuntimeGenerationID c \<noteq> rq_RuntimeGenerationID r) ErrStaleDecision)"

text \<open>The first half of \<open>Issue\<close>: the committed decision, which must be an allow that still binds.\<close>

definition read_decision ::
  "service_env \<Rightarrow> tx_reader \<Rightarrow> gtime \<Rightarrow> commit_reference \<Rightarrow> (committed_transaction \<times> auth_decision \<times> digest) res" where
  "read_decision env reader now r =
     (case reader (cf_Journal r) (cf_DecisionTransactionID r) of
        Inl m \<Rightarrow> Inl m
      | Inr tx \<Rightarrow>
          if tx_Journal tx \<noteq> cf_Journal r then Inl ''committed decision journal mismatch''
          else (case validateCommittedTransactionIdentity tx (cf_Journal r) (cf_DecisionTransactionID r) of
              Some m \<Rightarrow> Inl m
            | None \<Rightarrow>
          (case namedEvent tx (cf_DecisionTransactionID r) (cf_DecisionEventID r) EventAuthorizationDecided of
              Inl m \<Rightarrow> Inl m
            | Inr e \<Rightarrow>
          (case se_decode_decided env (en_Payload e) of
              Inl m \<Rightarrow> Inl m
            | Inr d \<Rightarrow>
                if dc_Action d \<noteq> ''allow'' then Inl ErrTerminalDecision
                else (case ValidateBinding now (dc_Request d) d of
                    Some m \<Rightarrow> Inl m
                  | None \<Rightarrow> (case se_decision_digest env d of
                      Inl m \<Rightarrow> Inl m
                    | Inr dg \<Rightarrow> Inr (tx, d, dg)))))))"

text \<open>The second half: the committed consumption, in a later transaction, that repeats the decision.\<close>

definition read_consumption ::
  "service_env \<Rightarrow> tx_reader \<Rightarrow> commit_reference \<Rightarrow> committed_transaction \<Rightarrow> auth_decision \<Rightarrow> digest
     \<Rightarrow> (committed_transaction \<times> auth_consumed) res" where
  "read_consumption env reader r dtx d dg =
     (case reader (cf_Journal r) (cf_StartTransactionID r) of
        Inl m \<Rightarrow> Inl m
      | Inr tx \<Rightarrow>
          if tx_Journal tx \<noteq> cf_Journal r then Inl ''committed start journal mismatch''
          else (case validateCommittedTransactionIdentity tx (cf_Journal r) (cf_StartTransactionID r) of
              Some m \<Rightarrow> Inl m
            | None \<Rightarrow>
                if cu_CommitSeq (tx_Cursor tx) \<le> cu_CommitSeq (tx_Cursor dtx)
                then Inl ''committed authorization decision must precede start transaction''
                else (case namedEvent tx (cf_StartTransactionID r) (cf_ConsumedEventID r)
                        EventAuthorizationDecisionConsumed of
                    Inl m \<Rightarrow> Inl m
                  | Inr e \<Rightarrow>
                (case se_decode_consumed env (en_Payload e) of
                    Inl m \<Rightarrow> Inl m
                  | Inr c \<Rightarrow>
                (case AuthorizationDecisionConsumed_Validate c of
                    Some m \<Rightarrow> Inl m
                  | None \<Rightarrow> (case matchConsumption d dg (cf_DecisionEventID r) c of
                      Some m \<Rightarrow> Inl m
                    | None \<Rightarrow> Inr (tx, c)))))))"

definition started_matches :: "event_id \<Rightarrow> auth_consumed \<Rightarrow> activity_started \<Rightarrow> bool" where
  "started_matches i c s \<longleftrightarrow> as_DecisionNonce s = cn_DecisionNonce c \<and> as_DecisionEventID s = i
     \<and> as_ActivityID s = cn_ActivityID c \<and> as_CallID s = cn_CallID c \<and> as_PlanDigest s = cn_PlanDigest c
     \<and> as_RequestDigest s = cn_RequestDigest c \<and> as_DispatchDigest s = cn_DispatchDigest c
     \<and> as_RuntimeGenerationID s = cn_RuntimeGenerationID c"

definition control_matches :: "event_id \<Rightarrow> auth_consumed \<Rightarrow> control_started \<Rightarrow> bool" where
  "control_matches i c s \<longleftrightarrow> ks_DecisionNonce s = cn_DecisionNonce c \<and> ks_DecisionEventID s = i
     \<and> ks_ControlOperationID s = cn_ControlOperationID c \<and> ks_PlanDigest s = cn_PlanDigest c
     \<and> ks_RequestDigest s = cn_RequestDigest c \<and> ks_DispatchDigest s = cn_DispatchDigest c
     \<and> ks_RuntimeGenerationID s = cn_RuntimeGenerationID c"

definition check_started ::
  "service_env \<Rightarrow> commit_reference \<Rightarrow> committed_transaction \<Rightarrow> auth_consumed \<Rightarrow> string option" where
  "check_started env r tx c =
     (if cn_ActivityID c \<noteq> '''' then
        (case namedEvent tx (cf_StartTransactionID r) (cf_StartedEventID r) EventActivityStarted of
           Inl m \<Rightarrow> Some m
         | Inr e \<Rightarrow> (case se_decode_started env (en_Payload e) of
             Inl m \<Rightarrow> Some m
           | Inr s \<Rightarrow> fail_if (\<not> started_matches (cf_DecisionEventID r) c s) ErrStaleDecision))
      else
        (case namedEvent tx (cf_StartTransactionID r) (cf_StartedEventID r) EventControlOperationStarted of
           Inl m \<Rightarrow> Some m
         | Inr e \<Rightarrow> (case se_decode_control env (en_Payload e) of
             Inl m \<Rightarrow> Some m
           | Inr s \<Rightarrow> fail_if (\<not> control_matches (cf_DecisionEventID r) c s) ErrStaleDecision)))"

definition token_of :: "auth_decision \<Rightarrow> auth_consumed \<Rightarrow> committed_token" where
  "token_of d c =
     \<lparr>ct_valid = True,
      ct_kind = (if cn_ControlOperationID c \<noteq> '''' then ''control''
        else if ti_Source (rq_Source (dc_Request d)) = ''provider'' then ''provider'' else ''tool''),
      ct_activityID = cn_ActivityID c, ct_controlOperationID = cn_ControlOperationID c,
      ct_callID = cn_CallID c, ct_planDigest = cn_PlanDigest c, ct_requestDigest = cn_RequestDigest c,
      ct_dispatchDigest = cn_DispatchDigest c, ct_runtimeGenerationID = cn_RuntimeGenerationID c,
      ct_nonce = cn_DecisionNonce c, ct_revocationEpoch = 0\<rparr>"

text \<open>What \<open>Issue\<close> reads before it takes the lock.\<close>

definition committed_token_for ::
  "service_env \<Rightarrow> tx_reader \<Rightarrow> gtime \<Rightarrow> commit_reference \<Rightarrow> committed_token res" where
  "committed_token_for env reader now r =
     (case CommitReference_validate r of
        Some m \<Rightarrow> Inl m
      | None \<Rightarrow> (case read_decision env reader now r of
          Inl m \<Rightarrow> Inl m
        | Inr (dtx, d, dg) \<Rightarrow> (case read_consumption env reader r dtx d dg of
            Inl m \<Rightarrow> Inl m
          | Inr (stx, c) \<Rightarrow> (case check_started env r stx c of
              Some m \<Rightarrow> Inl m
            | None \<Rightarrow> Inr (token_of d c)))))"

definition Issue ::
  "service_env \<Rightarrow> tx_reader \<Rightarrow> gtime \<Rightarrow> commit_reference \<Rightarrow> service \<Rightarrow> service \<times> committed_token res" where
  "Issue env reader now r s =
     (case committed_token_for env reader now r of
        Inl m \<Rightarrow> (s, Inl m)
      | Inr t \<Rightarrow>
          if revocation_of s (ct_nonce t) \<noteq> 0 then (s, Inl ErrRevokedDecision)
          else if ct_nonce t \<in> set (sv_issued s) then (s, Inl ErrAlreadyUsedDecision)
          else (s\<lparr>sv_issued := ct_nonce t # sv_issued s\<rparr>,
                Inr (t\<lparr>ct_revocationEpoch := revocation_of s (ct_nonce t)\<rparr>)))"

section \<open>Dispatch and Revoke\<close>

definition token_matches :: "committed_token \<Rightarrow> dispatch_binding \<Rightarrow> bool" where
  "token_matches t b \<longleftrightarrow> ct_kind t = db_Kind b \<and> ct_activityID t = db_ActivityID b
     \<and> ct_controlOperationID t = db_ControlOperationID b \<and> ct_callID t = db_CallID b
     \<and> ct_planDigest t = db_PlanDigest b \<and> ct_requestDigest t = db_RequestDigest b
     \<and> ct_dispatchDigest t = db_DispatchDigest b \<and> ct_runtimeGenerationID t = db_RuntimeGenerationID b"

definition handleKey :: "dispatch_binding \<Rightarrow> string" where
  "handleKey b = db_Kind b @ nul @ db_HandleID b"

text \<open>
  The new state, the error, and whether the callback ran. \<open>ctx_err\<close> is \<open>ctx.Err()\<close>; \<open>hook\<close> and
  \<open>reg_err\<close> are the cancellation hook the callback registers, if any, and the error it returns.
\<close>

definition Dispatch ::
  "string option \<Rightarrow> nat option \<Rightarrow> string option \<Rightarrow> committed_token \<Rightarrow> dispatch_binding \<Rightarrow> service
     \<Rightarrow> service \<times> string option \<times> bool" where
  "Dispatch ctx_err hook reg_err t b s =
     (if \<not> ct_valid t \<or> db_Kind b = '''' \<or> db_HandleID b = '''' then (s, Some ErrInvalidCommittedToken, False)
      else (case ctx_err of
        Some m \<Rightarrow> (s, Some m, False)
      | None \<Rightarrow>
          if \<not> token_matches t b then (s, Some ErrInvalidCommittedToken, False)
          else if revocation_of s (ct_nonce t) \<noteq> ct_revocationEpoch t then (s, Some ErrRevokedDecision, False)
          else if ct_nonce t \<in> set (sv_dispatched s) then (s, Some ErrAlreadyDispatched, False)
          else if handleKey b \<in> set (sv_handles s) then (s, Some ErrAlreadyDispatched, False)
          else (s\<lparr>sv_dispatched := ct_nonce t # sv_dispatched s, sv_handles := handleKey b # sv_handles s,
                  sv_cancellations := (case hook of
                    None \<Rightarrow> sv_cancellations s
                  | Some h \<Rightarrow> gput (ct_nonce t) h (sv_cancellations s))\<rparr>, reg_err, True)))"

text \<open>The new state, and the cancellation hook that was called.\<close>

definition Revoke :: "decision_nonce \<Rightarrow> service \<Rightarrow> service \<times> nat option" where
  "Revoke n s =
     (if n = '''' then (s, None)
      else (s\<lparr>sv_revocations := gput n (revocation_of s n + 1) (sv_revocations s),
              sv_cancellations := filter (\<lambda>(k, h). k \<noteq> n) (sv_cancellations s)\<rparr>,
            map_of (sv_cancellations s) n))"

definition ValidFor ::
  "committed_token \<Rightarrow> activity_id \<Rightarrow> string \<Rightarrow> digest \<Rightarrow> digest \<Rightarrow> digest \<Rightarrow> runtime_generation_id \<Rightarrow> decision_nonce \<Rightarrow> bool" where
  "ValidFor t activity callID plan request dispatch generation nonce \<longleftrightarrow>
     ct_valid t \<and> ct_activityID t = activity \<and> ct_callID t = callID \<and> ct_planDigest t = plan
     \<and> ct_requestDigest t = request \<and> ct_dispatchDigest t = dispatch
     \<and> ct_runtimeGenerationID t = generation \<and> ct_nonce t = nonce"

end
