(* ===== verification/Authorization_Runs.thy ===== *)
theory Authorization_Runs
  imports Authorization_Service
begin

text \<open>
  The runs of the authorization service: any order of issuing, dispatching and revoking, with the
  tokens a caller can hold, which are those \<open>Issue\<close> has returned and the zero token. Each run keeps
  a log of what succeeded, the latest first. The lemmas: a nonce gets one token and one dispatch, a
  handle one dispatch, and after a revocation the nonce is dispatched no more.
\<close>

datatype log_entry = LIssued decision_nonce | LDispatched decision_nonce string | LRevoked decision_nonce

definition zero_digest :: digest where
  "zero_digest = \<lparr>dg_Algorithm = '''', dg_Value = ''''\<rparr>"

definition zero_token :: committed_token where
  "zero_token = \<lparr>ct_valid = False, ct_kind = '''', ct_activityID = '''', ct_controlOperationID = '''',
     ct_callID = '''', ct_planDigest = zero_digest, ct_requestDigest = zero_digest,
     ct_dispatchDigest = zero_digest, ct_runtimeGenerationID = '''', ct_nonce = '''', ct_revocationEpoch = 0\<rparr>"

text \<open>A run's state: the service, the tokens issued, the log.\<close>

type_synonym run_state = "service \<times> committed_token list \<times> log_entry list"

inductive service_run :: "service_env \<Rightarrow> tx_reader \<Rightarrow> run_state \<Rightarrow> bool" for env reader where
  run_init: "service_run env reader (NewService, [], [])"
| run_issue: "service_run env reader (s, ts, l) \<Longrightarrow> Issue env reader now r s = (s', Inr t) \<Longrightarrow>
    service_run env reader (s', t # ts, LIssued (ct_nonce t) # l)"
| run_issue_error: "service_run env reader (s, ts, l) \<Longrightarrow> Issue env reader now r s = (s', Inl m) \<Longrightarrow>
    service_run env reader (s', ts, l)"
| run_dispatch: "service_run env reader (s, ts, l) \<Longrightarrow> t \<in> set (zero_token # ts) \<Longrightarrow>
    Dispatch ctx_err hook reg_err t b s = (s', err, True) \<Longrightarrow>
    service_run env reader (s', ts, LDispatched (ct_nonce t) (handleKey b) # l)"
| run_dispatch_error: "service_run env reader (s, ts, l) \<Longrightarrow> t \<in> set (zero_token # ts) \<Longrightarrow>
    Dispatch ctx_err hook reg_err t b s = (s', err, False) \<Longrightarrow> service_run env reader (s', ts, l)"
| run_revoke: "service_run env reader (s, ts, l) \<Longrightarrow> n \<noteq> '''' \<Longrightarrow> Revoke n s = (s', hook) \<Longrightarrow>
    service_run env reader (s', ts, LRevoked n # l)"

section \<open>What the operations change\<close>

lemma Issue_ok:
  assumes "Issue env reader now r s = (s', Inr t)"
  shows "\<exists>t0. committed_token_for env reader now r = Inr t0 \<and> t = t0" "ct_revocationEpoch t = 0"
    "revocation_of s (ct_nonce t) = 0" "ct_nonce t \<notin> set (sv_issued s)"
    "s' = s\<lparr>sv_issued := ct_nonce t # sv_issued s\<rparr>"
proof -
  obtain t0 where t0: "committed_token_for env reader now r = Inr t0" "revocation_of s (ct_nonce t0) = 0"
    "ct_nonce t0 \<notin> set (sv_issued s)" "s' = s\<lparr>sv_issued := ct_nonce t0 # sv_issued s\<rparr>"
    "t = t0\<lparr>ct_revocationEpoch := revocation_of s (ct_nonce t0)\<rparr>"
    using assms by (auto simp: Issue_def split: sum.splits if_split_asm)
  have "ct_revocationEpoch t0 = 0"
    using t0(1) by (auto simp: committed_token_for_def token_of_def split: option.splits sum.splits)
  then have "t = t0" using t0(2,5) by simp
  with t0 \<open>ct_revocationEpoch t0 = 0\<close> show "\<exists>t0. committed_token_for env reader now r = Inr t0 \<and> t = t0"
    "ct_revocationEpoch t = 0" "revocation_of s (ct_nonce t) = 0" "ct_nonce t \<notin> set (sv_issued s)"
    "s' = s\<lparr>sv_issued := ct_nonce t # sv_issued s\<rparr>" by simp_all
qed

lemma Issue_error: "Issue env reader now r s = (s', Inl m) \<Longrightarrow> s' = s"
  by (auto simp: Issue_def split: sum.splits if_split_asm)

lemma Dispatch_ok:
  assumes "Dispatch ctx_err hook reg_err t b s = (s', err, True)"
  shows "ct_valid t" "token_matches t b" "revocation_of s (ct_nonce t) = ct_revocationEpoch t"
    "ct_nonce t \<notin> set (sv_dispatched s)" "handleKey b \<notin> set (sv_handles s)"
    "sv_dispatched s' = ct_nonce t # sv_dispatched s" "sv_handles s' = handleKey b # sv_handles s"
    "sv_revocations s' = sv_revocations s" "sv_issued s' = sv_issued s"
  using assms by (auto simp: Dispatch_def split: option.splits if_split_asm)

lemma Dispatch_error: "Dispatch ctx_err hook reg_err t b s = (s', err, False) \<Longrightarrow> s' = s \<and> err \<noteq> None"
  by (auto simp: Dispatch_def split: option.splits if_split_asm)

lemma Revoke_ok:
  assumes "Revoke n s = (s', hook)" and "n \<noteq> ''''"
  shows "sv_issued s' = sv_issued s" "sv_dispatched s' = sv_dispatched s" "sv_handles s' = sv_handles s"
    "revocation_of s' m = (if m = n then revocation_of s n + 1 else revocation_of s m)"
  using assms by (auto simp: Revoke_def revocation_of_def)

section \<open>The invariant of the runs\<close>

fun issued_in :: "log_entry list \<Rightarrow> decision_nonce list" where
  "issued_in [] = []"
| "issued_in (LIssued n # l) = n # issued_in l"
| "issued_in (_ # l) = issued_in l"

fun dispatched_in :: "log_entry list \<Rightarrow> decision_nonce list" where
  "dispatched_in [] = []"
| "dispatched_in (LDispatched n h # l) = n # dispatched_in l"
| "dispatched_in (_ # l) = dispatched_in l"

fun handles_in :: "log_entry list \<Rightarrow> string list" where
  "handles_in [] = []"
| "handles_in (LDispatched n h # l) = h # handles_in l"
| "handles_in (_ # l) = handles_in l"

definition revoked_in :: "decision_nonce \<Rightarrow> log_entry list \<Rightarrow> nat" where
  "revoked_in n l = length (filter (\<lambda>e. e = LRevoked n) l)"

lemma revoked_in_simps [simp]: "revoked_in n [] = 0"
  "revoked_in n (LIssued m # l) = revoked_in n l" "revoked_in n (LDispatched m h # l) = revoked_in n l"
  "revoked_in n (LRevoked m # l) = (if m = n then Suc (revoked_in n l) else revoked_in n l)"
  by (simp_all add: revoked_in_def)

text \<open>Every dispatch in the log came at a point where the nonce's revocations were 0 modulo 2^64.\<close>

fun dispatches_live :: "log_entry list \<Rightarrow> bool" where
  "dispatches_live [] = True"
| "dispatches_live (LDispatched n h # l) = (of_nat (revoked_in n l) = (0 :: u64) \<and> n \<in> set (issued_in l) \<and> dispatches_live l)"
| "dispatches_live (_ # l) = dispatches_live l"

definition run_inv :: "service_env \<Rightarrow> tx_reader \<Rightarrow> run_state \<Rightarrow> bool" where
  "run_inv env reader st \<longleftrightarrow> (case st of (s, ts, l) \<Rightarrow>
     sv_issued s = issued_in l \<and> distinct (issued_in l)
     \<and> sv_dispatched s = dispatched_in l \<and> distinct (dispatched_in l)
     \<and> sv_handles s = handles_in l \<and> distinct (handles_in l)
     \<and> (\<forall>n. revocation_of s n = of_nat (revoked_in n l))
     \<and> (\<forall>t \<in> set ts. ct_valid t \<and> ct_revocationEpoch t = 0 \<and> ct_nonce t \<in> set (issued_in l)
          \<and> (\<exists>now r. committed_token_for env reader now r = Inr t))
     \<and> map ct_nonce ts = issued_in l \<and> dispatches_live l)"

lemma run_inv_init: "run_inv env reader (NewService, [], [])"
  by (simp add: run_inv_def NewService_def revocation_of_def)

lemma committed_token_valid: "committed_token_for env reader now r = Inr t \<Longrightarrow> ct_valid t"
  by (auto simp: committed_token_for_def token_of_def split: option.splits sum.splits)

lemma run_inv_issue:
  assumes "run_inv env reader (s, ts, l)" and "Issue env reader now r s = (s', Inr t)"
  shows "run_inv env reader (s', t # ts, LIssued (ct_nonce t) # l)"
proof -
  note ok = Issue_ok [OF assms(2)]
  obtain t0 where "committed_token_for env reader now r = Inr t0" "t = t0" using ok(1) by blast
  then have tok: "committed_token_for env reader now r = Inr t" by simp
  have "revocation_of s' n = revocation_of s n" for n using ok(5) by (simp add: revocation_of_def)
  then show ?thesis
    using assms(1) ok(2,4,5) tok committed_token_valid [OF tok] unfolding run_inv_def by auto
qed

lemma run_inv_dispatch:
  assumes inv: "run_inv env reader (s, ts, l)" and t: "t \<in> set (zero_token # ts)"
    and d: "Dispatch ctx_err hook reg_err t b s = (s', err, True)"
  shows "run_inv env reader (s', ts, LDispatched (ct_nonce t) (handleKey b) # l)"
proof -
  note ok = Dispatch_ok [OF d]
  have "t \<in> set ts" using t ok(1) by (auto simp: zero_token_def)
  then have tok: "ct_revocationEpoch t = 0" "ct_nonce t \<in> set (issued_in l)"
    using inv unfolding run_inv_def by auto
  have "revocation_of s' n = revocation_of s n" for n using ok(8) by (simp add: revocation_of_def)
  then show ?thesis
    using inv ok(3-9) tok unfolding run_inv_def by auto
qed

lemma run_inv_revoke:
  assumes inv: "run_inv env reader (s, ts, l)" and "n \<noteq> ''''" and "Revoke n s = (s', hook)"
  shows "run_inv env reader (s', ts, LRevoked n # l)"
  using inv Revoke_ok [OF assms(3,2)] unfolding run_inv_def by auto

lemma service_run_inv: "service_run env reader st \<Longrightarrow> run_inv env reader st"
proof (induction rule: service_run.induct)
  case run_init
  show ?case by (rule run_inv_init)
next
  case (run_issue_error s ts l now r s' m)
  then show ?case using Issue_error by blast
next
  case (run_dispatch_error s ts l t ctx_err hook reg_err b s' err)
  then show ?case using Dispatch_error by blast
qed (blast intro: run_inv_issue run_inv_dispatch run_inv_revoke)+

lemma revoked_in_mem: "LRevoked n \<in> set l \<longleftrightarrow> revoked_in n l \<noteq> 0"
  by (auto simp: revoked_in_def filter_empty_conv)

lemma dispatches_live_split:
  "dispatches_live (l1 @ LDispatched n h # l2) \<Longrightarrow> of_nat (revoked_in n l2) = (0 :: u64) \<and> n \<in> set (issued_in l2)"
  by (induction l1 rule: dispatches_live.induct) auto

lemma of_nat_u64_zero: "of_nat k = (0 :: u64) \<Longrightarrow> k < 2 ^ 64 \<Longrightarrow> k = 0"
  by (auto simp: word_of_nat_eq_0_iff dest!: dvd_imp_le)

section \<open>What a token stands for\<close>

text \<open>
  A committed allow decision, valid and unexpired when it was read, and its consumption in a later
  transaction, from which the token's bindings are.
\<close>

definition grounded :: "service_env \<Rightarrow> tx_reader \<Rightarrow> committed_token \<Rightarrow> bool" where
  "grounded env reader t \<longleftrightarrow>
     (\<exists>now (r :: commit_reference) dtx stx (de :: envelope) (ce :: envelope) d dg c.
        reader (cf_Journal r) (cf_DecisionTransactionID r) = Inr dtx
        \<and> reader (cf_Journal r) (cf_StartTransactionID r) = Inr stx
        \<and> cu_CommitSeq (tx_Cursor dtx) < cu_CommitSeq (tx_Cursor stx)
        \<and> de \<in> set (tx_Events dtx) \<and> en_Kind de = EventAuthorizationDecided
        \<and> ce \<in> set (tx_Events stx) \<and> en_Kind ce = EventAuthorizationDecisionConsumed
        \<and> se_decode_decided env (en_Payload de) = Inr d \<and> se_decision_digest env d = Inr dg
        \<and> se_decode_consumed env (en_Payload ce) = Inr c
        \<and> dc_Action d = ''allow'' \<and> ValidateBinding now (dc_Request d) d = None
        \<and> matchConsumption d dg (cf_DecisionEventID r) c = None
        \<and> t = token_of d c)"

lemma named_loop_mem:
  "named_loop t i kind found n es = Inr (Some e, k) \<Longrightarrow> found = Some e \<or> (e \<in> set es \<and> en_Kind e = kind \<and> en_EventID e = i)"
  by (induction t i kind found n es rule: named_loop.induct) (auto simp: Let_def split: if_split_asm)

lemma namedEvent_mem:
  "namedEvent tx t i kind = Inr e \<Longrightarrow> e \<in> set (tx_Events tx) \<and> en_Kind e = kind \<and> en_EventID e = i"
  by (auto simp: namedEvent_def split: if_split_asm sum.splits prod.splits option.splits dest!: named_loop_mem)

lemma committed_token_grounded:
  assumes "committed_token_for env reader now r = Inr t"
  shows "grounded env reader t"
proof -
  obtain dtx d dg stx c where rd: "read_decision env reader now r = Inr (dtx, d, dg)"
    and rc: "read_consumption env reader r dtx d dg = Inr (stx, c)" and t: "t = token_of d c"
    using assms by (auto simp: committed_token_for_def split: option.splits sum.splits prod.splits)
  obtain de where d: "reader (cf_Journal r) (cf_DecisionTransactionID r) = Inr dtx"
    "namedEvent dtx (cf_DecisionTransactionID r) (cf_DecisionEventID r) EventAuthorizationDecided = Inr de"
    "se_decode_decided env (en_Payload de) = Inr d" "dc_Action d = ''allow''"
    "ValidateBinding now (dc_Request d) d = None" "se_decision_digest env d = Inr dg"
    using rd by (auto simp: read_decision_def split: sum.splits option.splits if_split_asm simp del: first_err_None)
  obtain ce where c: "reader (cf_Journal r) (cf_StartTransactionID r) = Inr stx"
    "cu_CommitSeq (tx_Cursor dtx) < cu_CommitSeq (tx_Cursor stx)"
    "namedEvent stx (cf_StartTransactionID r) (cf_ConsumedEventID r) EventAuthorizationDecisionConsumed = Inr ce"
    "se_decode_consumed env (en_Payload ce) = Inr c" "matchConsumption d dg (cf_DecisionEventID r) c = None"
    using rc by (auto simp: read_consumption_def not_le split: sum.splits option.splits if_split_asm
        simp del: first_err_None)
  show ?thesis
    unfolding grounded_def using d c t namedEvent_mem [OF d(2)] namedEvent_mem [OF c(3)] by blast
qed

end
