(* ===== verification/Service_Properties.thy ===== *)
theory Service_Properties
  imports Authorization_Runs Samples
begin

text \<open>
  What the authorization service (\<open>internal/authorization/service.go\<close>) guarantees over every order of
  issuing, dispatching and revoking. The witnesses run one service on a journal that holds a decision
  in one transaction and its consumption with the activity's start in the next.
\<close>

section \<open>A run of the service\<close>

definition sample_started :: activity_started where
  "sample_started = \<lparr>as_DecisionNonce = ''n1'', as_DecisionEventID = ''et2'', as_ActivityID = ''act'',
     as_CallID = ''call'', as_PlanDigest = sample_digest, as_RequestDigest = sample_digest,
     as_DispatchDigest = sample_digest, as_RuntimeGenerationID = ''g'', as_DispatchState = ''started''\<rparr>"

definition sample_control :: control_started where
  "sample_control = \<lparr>ks_DecisionNonce = ''n1'', ks_DecisionEventID = ''et2'', ks_ControlOperationID = ''o'',
     ks_PlanDigest = sample_digest, ks_RequestDigest = sample_digest, ks_DispatchDigest = sample_digest,
     ks_RuntimeGenerationID = ''g''\<rparr>"

definition sample_service_env :: service_env where
  "sample_service_env = \<lparr>se_decode_decided = (\<lambda>r. Inr sample_decision), se_decode_consumed = (\<lambda>r. Inr sample_consumed),
     se_decode_started = (\<lambda>r. Inr sample_started), se_decode_control = (\<lambda>r. Inr sample_control),
     se_decision_digest = (\<lambda>d. Inr sample_digest), se_scope_digest = (\<lambda>s. Inr sample_digest)\<rparr>"

definition sample_tx2 :: committed_transaction where
  "sample_tx2 = \<lparr>tx_Journal = sample_ref, tx_TransactionID = ''t2'',
     tx_Cursor = \<lparr>cu_JournalKind = ''session'', cu_JournalID = ''s1'', cu_CommitSeq = 4, cu_TransactionID = ''t2''\<rparr>,
     tx_Events = [sample_envelope EventAuthorizationDecided 3 ''t2'']\<rparr>"

definition sample_tx3 :: committed_transaction where
  "sample_tx3 = \<lparr>tx_Journal = sample_ref, tx_TransactionID = ''t3'',
     tx_Cursor = \<lparr>cu_JournalKind = ''session'', cu_JournalID = ''s1'', cu_CommitSeq = 7, cu_TransactionID = ''t3''\<rparr>,
     tx_Events = [(sample_envelope EventAuthorizationDecisionConsumed 5 ''t3'')\<lparr>en_EventID := ''c3''\<rparr>,
       (sample_envelope EventActivityStarted 6 ''t3'')\<lparr>en_EventID := ''s3''\<rparr>]\<rparr>"

definition sample_reader :: tx_reader where
  "sample_reader ref t =
     (if t = ''t2'' then Inr sample_tx2 else if t = ''t3'' then Inr sample_tx3 else Inl ''transaction not found'')"

definition sample_reference :: commit_reference where
  "sample_reference = \<lparr>cf_Journal = sample_ref, cf_DecisionTransactionID = ''t2'', cf_DecisionEventID = ''et2'',
     cf_StartTransactionID = ''t3'', cf_ConsumedEventID = ''c3'', cf_StartedEventID = ''s3''\<rparr>"

definition sample_binding :: dispatch_binding where
  "sample_binding = \<lparr>db_Kind = ''tool'', db_HandleID = ''h1'', db_ActivityID = ''act'', db_ControlOperationID = '''',
     db_CallID = ''call'', db_PlanDigest = sample_digest, db_RequestDigest = sample_digest,
     db_DispatchDigest = sample_digest, db_RuntimeGenerationID = ''g''\<rparr>"

definition sample_token :: committed_token where
  "sample_token = token_of sample_decision sample_consumed"

definition sample_issued :: service where
  "sample_issued = NewService\<lparr>sv_issued := [''n1'']\<rparr>"

definition sample_dispatched :: service where
  "sample_dispatched = sample_issued\<lparr>sv_dispatched := [''n1''], sv_handles := [handleKey sample_binding]\<rparr>"

lemma sample_nonce: "ct_nonce sample_token = ''n1''" "ct_revocationEpoch sample_token = 0" "ct_valid sample_token"
  by (simp_all add: sample_token_def token_of_def sample_consumed_def)

lemma sample_binds: "ValidateBinding now sample_request sample_decision = None"
proof -
  have v: "AuthorizationDecision_Validate sample_decision = None" by code_simp
  show ?thesis by (simp add: ValidateBinding_def sample_request_valid v, simp add: sample_decision_def)
qed

lemma sample_reads: "sample_reader ref ''t2'' = Inr sample_tx2" "sample_reader ref ''t3'' = Inr sample_tx3"
  by (simp_all add: sample_reader_def)

lemma sample_fields: "cf_Journal sample_reference = sample_ref" "cf_DecisionTransactionID sample_reference = ''t2''"
  "cf_StartTransactionID sample_reference = ''t3''" "cf_DecisionEventID sample_reference = ''et2''"
  "cf_ConsumedEventID sample_reference = ''c3''" "cf_StartedEventID sample_reference = ''s3''"
  "dc_Request sample_decision = sample_request" "dc_Action sample_decision = ''allow''"
  by (simp_all add: sample_reference_def sample_decision_def)

lemma sample_decided: "read_decision sample_service_env sample_reader now sample_reference
    = Inr (sample_tx2, sample_decision, sample_digest)"
proof -
  have j: "tx_Journal sample_tx2 = sample_ref"
    "validateCommittedTransactionIdentity sample_tx2 sample_ref ''t2'' = None" by code_simp+
  have "\<not> isl (namedEvent sample_tx2 ''t2'' ''et2'' EventAuthorizationDecided)" by code_simp
  then obtain e where e: "namedEvent sample_tx2 ''t2'' ''et2'' EventAuthorizationDecided = Inr e"
    by (cases "namedEvent sample_tx2 ''t2'' ''et2'' EventAuthorizationDecided") simp_all
  show ?thesis
    unfolding read_decision_def sample_fields sample_reads(1) sum.case j e
    by (simp add: sample_service_env_def sample_fields sample_binds)
qed

lemma sample_matches: "matchConsumption sample_decision sample_digest ''et2'' sample_consumed = None"
  unfolding matchConsumption_def Let_def sample_fields
  by (simp add: sample_consumed_def sample_request_def, simp add: sample_decision_def)

lemma sample_consumption: "read_consumption sample_service_env sample_reader sample_reference
    sample_tx2 sample_decision sample_digest = Inr (sample_tx3, sample_consumed)"
proof -
  have j: "tx_Journal sample_tx3 = sample_ref"
    "validateCommittedTransactionIdentity sample_tx3 sample_ref ''t3'' = None"
    "AuthorizationDecisionConsumed_Validate sample_consumed = None"
    "cu_CommitSeq (tx_Cursor sample_tx2) < cu_CommitSeq (tx_Cursor sample_tx3)" by code_simp+
  have "\<not> isl (namedEvent sample_tx3 ''t3'' ''c3'' EventAuthorizationDecisionConsumed)" by code_simp
  then obtain e where e: "namedEvent sample_tx3 ''t3'' ''c3'' EventAuthorizationDecisionConsumed = Inr e"
    by (cases "namedEvent sample_tx3 ''t3'' ''c3'' EventAuthorizationDecisionConsumed") simp_all
  show ?thesis
    unfolding read_consumption_def sample_fields sample_reads(2) sum.case j(1,2) e
    using j(4) by (simp add: sample_service_env_def j(3) sample_matches not_le)
qed

lemma sample_committed: "committed_token_for sample_service_env sample_reader now sample_reference = Inr sample_token"
proof -
  have s: "check_started sample_service_env sample_reference sample_tx3 sample_consumed = None" by code_simp
  have v: "CommitReference_validate sample_reference = None" by code_simp
  show ?thesis by (simp add: committed_token_for_def sample_decided sample_consumption s v sample_token_def)
qed

lemma sample_issue: "Issue sample_service_env sample_reader 9 sample_reference NewService = (sample_issued, Inr sample_token)"
  unfolding Issue_def sample_committed sum.case
  by (simp add: sample_nonce revocation_of_def NewService_def sample_issued_def sample_token_def token_of_def sample_consumed_def)

lemma sample_dispatch: "Dispatch None None None sample_token sample_binding sample_issued = (sample_dispatched, None, True)"
proof -
  have "token_matches sample_token sample_binding" by code_simp
  then show ?thesis
    by (simp add: Dispatch_def sample_nonce sample_dispatched_def sample_issued_def revocation_of_def
        NewService_def sample_binding_def)
qed

lemma sample_run:
  "service_run sample_service_env sample_reader (sample_issued, [sample_token], [LIssued ''n1''])"
  "service_run sample_service_env sample_reader (sample_dispatched, [sample_token],
     [LDispatched ''n1'' (handleKey sample_binding), LIssued ''n1''])"
proof -
  show i: "service_run sample_service_env sample_reader (sample_issued, [sample_token], [LIssued ''n1''])"
    using run_issue [OF run_init sample_issue] by (simp add: sample_nonce)
  show "service_run sample_service_env sample_reader (sample_dispatched, [sample_token],
     [LDispatched ''n1'' (handleKey sample_binding), LIssued ''n1''])"
    using run_dispatch [OF i _ sample_dispatch] by (simp add: sample_nonce)
qed

section \<open>Properties\<close>

text \<open>
  C15. Whatever the order of calls, a nonce is issued at most one token, is dispatched at most once, and a
  process handle is dispatched at most once.
\<close>

theorem dispatched_at_most_once:
  assumes "service_run env reader (s, ts, log)"
  shows "distinct (issued_in log) \<and> distinct (dispatched_in log) \<and> distinct (handles_in log)
    \<and> sv_issued s = issued_in log \<and> sv_dispatched s = dispatched_in log"
  using service_run_inv [OF assms] by (simp add: run_inv_def)

theorem dispatched_at_most_once_witness:
  "sv_dispatched sample_dispatched = [''n1'']"
  using dispatched_at_most_once [OF sample_run(2)] by simp

text \<open>
  C16. A dispatch comes after the issue of its nonce's token and never after a revocation of the nonce, as
  long as the epoch counter of 64 bits has not wrapped around.
\<close>

theorem no_dispatch_after_revocation:
  assumes "service_run env reader (s, ts, later @ LDispatched n h # earlier)"
    and "length earlier < 2 ^ 64"
  shows "LRevoked n \<notin> set earlier \<and> n \<in> set (issued_in earlier)"
proof -
  have live: "of_nat (revoked_in n earlier) = (0 :: u64)" "n \<in> set (issued_in earlier)"
    using service_run_inv [OF assms(1)] dispatches_live_split [of later n h earlier] by (simp_all add: run_inv_def)
  have "revoked_in n earlier \<le> length earlier" by (simp add: revoked_in_def)
  then have "revoked_in n earlier = 0" using of_nat_u64_zero [OF live(1)] assms(2) by linarith
  then show ?thesis using live(2) revoked_in_mem by blast
qed

theorem no_dispatch_after_revocation_witness:
  "''n1'' \<in> set (issued_in [LIssued ''n1''])"
  using no_dispatch_after_revocation [of sample_service_env sample_reader sample_dispatched "[sample_token]" "[]"
      "''n1''" "handleKey sample_binding" "[LIssued ''n1'']"] sample_run(2) by simp

text \<open>
  C17. What a dispatch stands on: its token was built from an allow decision in the journal that was valid
  and not expired, and from a consumption of that decision in a later transaction; the binding that is
  dispatched is the token's; and the nonce had not been dispatched.
\<close>

theorem dispatch_is_grounded:
  assumes "service_run env reader (s, ts, log)" and "t \<in> set (zero_token # ts)"
    and "Dispatch ctx_err hook reg_err t b s = (s', err, True)"
  shows "grounded env reader t \<and> token_matches t b \<and> ct_nonce t \<notin> set (dispatched_in log)
    \<and> handleKey b \<notin> set (handles_in log)"
proof -
  note ok = Dispatch_ok [OF assms(3)]
  have inv: "run_inv env reader (s, ts, log)" by (rule service_run_inv [OF assms(1)])
  have "t \<in> set ts" using assms(2) ok(1) by (auto simp: zero_token_def)
  then have "grounded env reader t" using inv committed_token_grounded by (auto simp: run_inv_def)
  then show ?thesis using inv ok(2,4,5) by (simp add: run_inv_def)
qed

theorem dispatch_is_grounded_witness:
  "grounded sample_service_env sample_reader sample_token"
  using dispatch_is_grounded [OF sample_run(1) _ sample_dispatch] by simp

text \<open>
  An interactive answer only turns an ask into an allow or a deny: the request, its scope, its
  constraints and its plan stay as asked, a user has answered, and the result binds to the request.
\<close>

theorem interactive_answer_binds:
  assumes "ResolveInteractive env now nonce r pending a = Inr d"
  shows "dc_Action pending = ''ask'' \<and> dc_Action d \<in> {''allow'', ''deny''} \<and> dc_Action d = re_Action a
    \<and> dc_Request d = r \<and> dc_Request pending = r
    \<and> dc_Scope d = dc_Scope pending \<and> dc_Constraints d = dc_Constraints pending
    \<and> dc_PlanDigest d = dc_PlanDigest pending \<and> dc_ExpiresAt d = dc_ExpiresAt pending
    \<and> (\<exists>u. dc_ResolvedActor d = Some u \<and> ar_Kind u = ActorUser)
    \<and> se_scope_digest env (dc_Scope d) = Inr (re_ScopeDigest a) \<and> ValidateBinding now r d = None"
proof -
  obtain n where n: "ValidateBinding now r pending = None" "dc_Action pending = ''ask''"
    "re_Action a = ''allow'' \<or> re_Action a = ''deny''" "ar_Kind (re_Actor a) = ActorUser"
    "se_scope_digest env (dc_Scope pending) = Inr (re_ScopeDigest a)"
    "d = resolved_decision now n a pending" "ValidateBinding now r d = None"
    using assms unfolding ResolveInteractive_def
    by (auto split: option.splits sum.splits if_split_asm simp del: first_err_None)
  have "dc_Request pending = r" using n(1) by (simp add: ValidateBinding_def)
  then show ?thesis using n by (simp add: resolved_decision_def)
qed

theorem interactive_answer_binds_witness:
  "dc_Action (projr (ResolveInteractive sample_service_env 5 (Inr ''n2'') sample_request
      (sample_decision\<lparr>dc_Action := ''ask''\<rparr>)
      \<lparr>re_RequestID = ''r1'', re_Action = ''deny'', re_Lifetime = ''once'', re_Reason = ''no'',
       re_Actor = sample_user, re_ScopeDigest = sample_digest\<rparr>)) = ''deny''"
proof -
  let ?a = "\<lparr>re_RequestID = ''r1'', re_Action = ''deny'', re_Lifetime = ''once'', re_Reason = ''no'',
       re_Actor = sample_user, re_ScopeDigest = sample_digest\<rparr>"
  let ?p = "sample_decision\<lparr>dc_Action := ''ask''\<rparr>"
  let ?d = "resolved_decision 5 ''n2'' ?a ?p"
  have v: "AuthorizationDecision_Validate ?p = None" "AuthorizationDecision_Validate ?d = None"
    "ActorRef_Validate sample_user = None" by code_simp+
  have p: "ValidateBinding 5 sample_request ?p = None"
    by (simp add: ValidateBinding_def sample_request_valid v, simp add: sample_decision_def)
  have d: "ValidateBinding 5 sample_request ?d = None"
    by (simp add: ValidateBinding_def sample_request_valid v, simp add: sample_decision_def resolved_decision_def)
  have r: "rq_RequestID sample_request = ''r1''" "ar_Kind sample_user = ActorUser"
    by (simp_all add: sample_request_def sample_user_def)
  have res: "ResolveInteractive sample_service_env 5 (Inr ''n2'') sample_request ?p ?a = Inr ?d"
    unfolding ResolveInteractive_def p option.case
    by (simp add: v d r sample_service_env_def)
  show ?thesis using interactive_answer_binds [OF res] unfolding res by simp
qed

end
