(* ===== verification/Json_Properties.thy ===== *)
theory Json_Properties
  imports Canonical_Json Protocol
begin

text \<open>
  What the wire validator and the canonical form of JSON guarantee: both readers accept the same texts,
  and the canonical text does not depend on the order of an object's members, at any depth.
\<close>

section \<open>A value up to the order of members\<close>

fun canon :: "json \<Rightarrow> json" where
  "canon (JArr xs) = JArr (map canon xs)"
| "canon (JObj ms) = JObj (sort_key fst (map (\<lambda>(k, v). (k, canon v)) ms))"
| "canon v = v"

text \<open>Sorting pairs by key commutes with a map that keeps the keys.\<close>

lemma insort_map_values:
  "insort_key fst (k, f k v) (map (\<lambda>(k, v). (k, f k v)) xs) = map (\<lambda>(k, v). (k, f k v)) (insort_key fst (k, v) xs)"
  by (induction xs) (auto split: prod.splits)

lemma sort_map_values: "sort_key fst (map (\<lambda>(k, v). (k, f k v)) xs) = map (\<lambda>(k, v). (k, f k v)) (sort_key fst xs)"
  by (induction xs) (auto simp: insort_map_values)

lemma sort_key_idem: "sort_key fst (sort_key fst xs) = sort_key fst (xs :: (string \<times> 'a) list)"
  by (simp add: sort_key_id_if_sorted)

lemma writeNode_canon: "writeNode (canon v) = writeNode v"
proof (induction v rule: canon.induct)
  case (2 ms)
  let ?w = "\<lambda>k v. write_string k @ '':'' @ writeNode v"
  have ms: "map (\<lambda>(k, v). (k, ?w k (canon v))) ms = map (\<lambda>(k, v). (k, ?w k v)) ms"
    using 2 by auto
  have "sort_key fst (map (\<lambda>(k, v). (k, ?w k v)) (sort_key fst (map (\<lambda>(k, v). (k, canon v)) ms)))
      = map (\<lambda>(k, v). (k, ?w k v)) (sort_key fst (map (\<lambda>(k, v). (k, canon v)) ms))"
    unfolding sort_map_values [of ?w] sort_key_idem ..
  also have "\<dots> = sort_key fst (map (\<lambda>(k, v). (k, ?w k v)) (map (\<lambda>(k, v). (k, canon v)) ms))"
    unfolding sort_map_values [of ?w] ..
  also have "\<dots> = sort_key fst (map (\<lambda>(k, v). (k, ?w k v)) ms)"
  proof -
    have "map (\<lambda>(k, v). (k, ?w k v)) (map (\<lambda>(k, v). (k, canon v)) ms) = map (\<lambda>(k, v). (k, ?w k (canon v))) ms"
      by (simp add: split_def)
    then show ?thesis using ms by metis
  qed
  finally show ?case by simp
qed (auto intro!: arg_cong [of _ _ comma_sep])

section \<open>Properties\<close>

text \<open>
  C28. The wire validator accepts a raw message exactly when it has at most 1 MiB and the canonical parser
  reads it: duplicate keys, depth, member counts, string lengths and number forms are judged alike by
  the two loops.
\<close>

theorem validator_accepts_what_parser_reads:
  "ValidateRawJSON raw = None \<longleftrightarrow> int (length raw) \<le> MaxByteFieldBytes \<and> (\<exists>v. parse_json raw = Inr v)"
proof (cases "lex raw")
  case None
  then show ?thesis by (auto simp: ValidateRawJSON_def validateRawJSON_def parse_json_def)
next
  case (Some ts)
  show ?thesis
    using Some validate_parse(1) [of "json_fuel ts" 0 ts]
    by (auto simp: ValidateRawJSON_def validateRawJSON_def parse_json_def split: option.splits list.splits)
qed

text \<open>
  Two texts whose values differ only in the order of the members of their objects, at any depth, have
  the same canonical text, and so the same digest.
\<close>

theorem canonical_ignores_member_order:
  assumes "parse_json raw1 = Inr v1" and "parse_json raw2 = Inr v2" and "canon v1 = canon v2"
  shows "canonical_marshal raw1 = canonical_marshal raw2"
  using assms writeNode_canon by (metis canonical_marshal_def old.sum.simps(6))

theorem canonical_ignores_member_order_witness:
  "canonical_marshal (''{'' @ [CHR 0x22] @ ''a'' @ [CHR 0x22] @ '':[1],'' @ [CHR 0x22] @ ''b'' @ [CHR 0x22] @ '': 2}'')
     = canonical_marshal (''{'' @ [CHR 0x22] @ ''b'' @ [CHR 0x22] @ '':2,'' @ [CHR 0x22] @ ''a'' @ [CHR 0x22] @ '':[1]}'')"
proof -
  have p: "parse_json (''{'' @ [CHR 0x22] @ ''a'' @ [CHR 0x22] @ '':[1],'' @ [CHR 0x22] @ ''b'' @ [CHR 0x22] @ '': 2}'')
      = Inr (JObj [(''a'', JArr [JNum ''1'']), (''b'', JNum ''2'')])"
    "parse_json (''{'' @ [CHR 0x22] @ ''b'' @ [CHR 0x22] @ '':2,'' @ [CHR 0x22] @ ''a'' @ [CHR 0x22] @ '':[1]}'')
      = Inr (JObj [(''b'', JNum ''2''), (''a'', JArr [JNum ''1''])])"
    "canon (JObj [(''a'', JArr [JNum ''1'']), (''b'', JNum ''2'')]) = canon (JObj [(''b'', JNum ''2''), (''a'', JArr [JNum ''1''])])"
    by code_simp+
  then show ?thesis by (rule canonical_ignores_member_order)
qed

text \<open>
  A list of resources that the wire rules accept is bounded, complete and strictly increasing in the
  key of kind, identifier, parent and digest: it names no resource twice.
\<close>

theorem accepted_resources_are_sorted:
  assumes "validateSortedUniqueResources rs = None"
  shows "int (length rs) \<le> MaxCollectionMembers \<and> sorted_wrt (<) (map resource_key rs)
    \<and> distinct (map resource_key rs) \<and> list_all (\<lambda>r. rt_Kind r \<noteq> '''' \<and> rt_CanonicalID r \<noteq> '''') rs"
proof -
  have "validate_resources prev rs = None \<Longrightarrow> list_all (\<lambda>r. rt_Kind r \<noteq> '''' \<and> rt_CanonicalID r \<noteq> '''') rs" for prev
    by (induction rs arbitrary: prev) (auto split: if_split_asm option.splits)
  then show ?thesis
    using assms validateSortedUniqueResources_sorted [OF assms] validateSortedUniqueResources_distinct [OF assms]
    by (auto simp: validateSortedUniqueResources_def split: if_split_asm)
qed

theorem accepted_resources_are_sorted_witness:
  "distinct (map resource_key
     [\<lparr>rt_Kind = ''file'', rt_CanonicalID = ''/a'', rt_ParentID = '''', rt_Digest = '''', rt_Attributes = []\<rparr>,
      \<lparr>rt_Kind = ''file'', rt_CanonicalID = ''/b'', rt_ParentID = '''', rt_Digest = '''', rt_Attributes = []\<rparr>])"
proof -
  have "validateSortedUniqueResources
     [\<lparr>rt_Kind = ''file'', rt_CanonicalID = ''/a'', rt_ParentID = '''', rt_Digest = '''', rt_Attributes = []\<rparr>,
      \<lparr>rt_Kind = ''file'', rt_CanonicalID = ''/b'', rt_ParentID = '''', rt_Digest = '''', rt_Attributes = []\<rparr>] = None"
    by code_simp
  from accepted_resources_are_sorted [OF this] show ?thesis by blast
qed

end
