(* ===== verification/Legacy_Upcast.thy ===== *)
theory Legacy_Upcast
  imports Event_Rules Canonical_Json
begin

text \<open>
  Reading version 1 journals, \<open>internal/session/jsonl/migration.go\<close>: each legacy record is mapped to
  an event of the current format, with a state that is carried from record to record. The state keeps
  the open tool calls of a turn, so that a call's end is a success only when its request and its one
  start were seen.

  The decoding of a legacy payload with \<open>json.Unmarshal\<close>, one function per Go type, the encoding of
  the mapped payload and SHA-256 are the record \<open>upcast_env\<close>. A Go map whose values are booleans or
  counters is read with the zero value where it has no entry.
\<close>

section \<open>Trimming and decimal numbers\<close>

text \<open>\<open>strings.TrimSpace\<close>: Unicode spaces at both ends; the right end is read backwards.\<close>

fun trim_left :: "string \<Rightarrow> string" where
  "trim_left [] = []"
| "trim_left (c # cs) =
     (if byte_of c \<in> {9, 10, 11, 12, 13, 32} then trim_left cs
      else case cs of
          c1 # ds \<Rightarrow>
            if space2 (byte_of c) (byte_of c1) then trim_left ds
            else (case ds of
                c2 # es \<Rightarrow> if space3 (byte_of c) (byte_of c1) (byte_of c2) then trim_left es else c # cs
              | [] \<Rightarrow> c # cs)
        | [] \<Rightarrow> c # cs)"

fun trim_reversed :: "string \<Rightarrow> string" where
  "trim_reversed [] = []"
| "trim_reversed (c # cs) =
     (if byte_of c \<in> {9, 10, 11, 12, 13, 32} then trim_reversed cs
      else case cs of
          c1 # ds \<Rightarrow>
            if space2 (byte_of c1) (byte_of c) then trim_reversed ds
            else (case ds of
                c2 # es \<Rightarrow> if space3 (byte_of c2) (byte_of c1) (byte_of c) then trim_reversed es else c # cs
              | [] \<Rightarrow> c # cs)
        | [] \<Rightarrow> c # cs)"

definition TrimSpace :: "string \<Rightarrow> string" where
  "TrimSpace s = rev (trim_reversed (rev (trim_left s)))"

text \<open>\<open>strconv.FormatUint\<close> to base 10.\<close>

function show_dec :: "int \<Rightarrow> string" where
  "show_dec n = (if n < 10 then [char_of (48 + n)] else show_dec (n div 10) @ [char_of (48 + n mod 10)])"
  by pat_completeness auto
termination by (relation "measure nat") auto

declare show_dec.simps [simp del]

definition FormatUint :: "u64 \<Rightarrow> string" where
  "FormatUint n = show_dec (uint n)"

section \<open>The environment and the state\<close>

record legacy_session =
  ls_WorkspaceID :: string
  ls_CanonicalPath :: string
  ls_Title :: string
  ls_Mode :: string
  ls_Profile :: string
  ls_Model :: string

record legacy_call =
  lc_ID :: string
  lc_Name :: string
  lc_Arguments :: raw_message

record legacy_message =
  lm_Content :: string
  lm_ToolCalls :: "legacy_call list"

record legacy_prepared =
  lp_CallID :: string
  lp_Mutation :: string
  lp_Summary :: string

record legacy_permission =
  lq_CallID :: string
  lq_Action :: string

record legacy_file_change =
  lf_CallID :: string
  lf_Path :: string
  lf_BeforeSHA256 :: string
  lf_AfterSHA256 :: string

record legacy_terminal =
  lt_Reason :: string
  lt_ErrorKind :: string

text \<open>Of the two optional parts of a tool result only whether they are there is read.\<close>

record legacy_tool_result =
  lr_CallID :: string
  lr_Status :: string
  lr_ErrorKind :: string
  lr_Content :: string
  lr_ArtifactIDs :: "string list"
  lr_FileChange :: bool
  lr_WorkspaceChanges :: bool

text \<open>
  \<open>ue_Member\<close> is the string member of a payload that decodes to a map. The plan of a file change is
  read for its call only.
\<close>

record upcast_env =
  ue_Session :: "raw_message \<Rightarrow> legacy_session res"
  ue_Title :: "raw_message \<Rightarrow> string res"
  ue_Mode :: "raw_message \<Rightarrow> string res"
  ue_Model :: "raw_message \<Rightarrow> (string \<times> string) res"
  ue_Trusted :: "raw_message \<Rightarrow> bool res"
  ue_Message :: "raw_message \<Rightarrow> legacy_message res"
  ue_Prepared :: "raw_message \<Rightarrow> legacy_prepared res"
  ue_Permission :: "raw_message \<Rightarrow> legacy_permission res"
  ue_FilePlanCall :: "raw_message \<Rightarrow> string res"
  ue_FileChange :: "raw_message \<Rightarrow> legacy_file_change res"
  ue_Compaction :: "raw_message \<Rightarrow> unit res"
  ue_Terminal :: "raw_message \<Rightarrow> legacy_terminal res"
  ue_NestedResult :: "raw_message \<Rightarrow> legacy_tool_result res"
  ue_FlatResult :: "raw_message \<Rightarrow> legacy_tool_result res"
  ue_Member :: "raw_message \<Rightarrow> string \<Rightarrow> string option"
  ue_Marshal :: "payload \<Rightarrow> string res"
  ue_Sha256Hex :: "string \<Rightarrow> string"

record upcast_state =
  us_SessionID :: session_id
  us_TurnOrdinal :: u64
  us_ActivityOrdinal :: u64
  us_ActiveTurnID :: turn_id
  us_OpenCalls :: "(string, activity_id list) gomap"
  us_activeTaskID :: task_id
  us_turnAnchor :: event_id
  us_requestedCalls :: "(string, bool) gomap"
  us_startedCalls :: "(string, u64) gomap"
  us_uncertainCalls :: "(string, bool) gomap"

definition zero_upcast :: "session_id \<Rightarrow> upcast_state" where
  "zero_upcast s = \<lparr>us_SessionID = s, us_TurnOrdinal = 0, us_ActivityOrdinal = 0, us_ActiveTurnID = '''',
     us_OpenCalls = [], us_activeTaskID = '''', us_turnAnchor = '''', us_requestedCalls = [],
     us_startedCalls = [], us_uncertainCalls = []\<rparr>"

text \<open>Reading and deleting entries of a Go map.\<close>

definition glookup :: "'v \<Rightarrow> ('k, 'v) gomap \<Rightarrow> 'k \<Rightarrow> 'v" where
  "glookup zero m k = (case map_of m k of None \<Rightarrow> zero | Some v \<Rightarrow> v)"

definition gdel :: "'k \<Rightarrow> ('k, 'v) gomap \<Rightarrow> ('k, 'v) gomap" where
  "gdel k m = filter (\<lambda>(j, v). j \<noteq> k) m"

definition clear_calls :: "upcast_state \<Rightarrow> upcast_state" where
  "clear_calls st = st\<lparr>us_OpenCalls := [], us_requestedCalls := [], us_startedCalls := [], us_uncertainCalls := []\<rparr>"

definition close_call :: "string \<Rightarrow> upcast_state \<Rightarrow> upcast_state" where
  "close_call key st = st\<lparr>us_OpenCalls := gdel key (us_OpenCalls st),
     us_requestedCalls := gdel key (us_requestedCalls st), us_startedCalls := gdel key (us_startedCalls st),
     us_uncertainCalls := gdel key (us_uncertainCalls st)\<rparr>"

section \<open>Identifiers, actors, activities\<close>

definition deriveUpcastID :: "upcast_env \<Rightarrow> string \<Rightarrow> session_id \<Rightarrow> event_id \<Rightarrow> u64 \<Rightarrow> u64 \<Rightarrow> string" where
  "deriveUpcastID env kind s anchor turnOrdinal activityOrdinal =
     ''derived:'' @ ue_Sha256Hex env (''yordam-v0.2-upcast'' @ nul @ kind @ nul @ s @ nul @ anchor @ nul
       @ FormatUint turnOrdinal @ nul @ FormatUint activityOrdinal)"

definition derived :: "upcast_env \<Rightarrow> string \<Rightarrow> upcast_state \<Rightarrow> legacy_source \<Rightarrow> string" where
  "derived env kind st src =
     deriveUpcastID env kind (us_SessionID st) (lg_EventID src) (us_TurnOrdinal st) (us_ActivityOrdinal st)"

definition legacyActor :: "upcast_env \<Rightarrow> legacy_source \<Rightarrow> upcast_state \<Rightarrow> actor_ref" where
  "legacyActor env src st =
     \<lparr>ar_ID = derived env ''actor'' st src,
      ar_Kind = (if lg_Kind src \<in> {''user.message'', ''mode.changed'', ''model.changed'', ''permission.resolved''}
          then ActorUser
        else if lg_Kind src \<in> {''assistant.message'', ''tool.requested'', ''permission.requested''} then ''agent''
        else if lg_Kind src \<in> {''tool.started'', ''tool.result'', ''file.change_planned'', ''file.changed''}
          then ''tool''
        else ''system''),
      ar_Source = ''legacy_v0.1''\<rparr>"

definition legacyCallKey :: "turn_id \<Rightarrow> string \<Rightarrow> string" where
  "legacyCallKey t c = t @ nul @ c"

definition call_key :: "upcast_state \<Rightarrow> string \<Rightarrow> string" where
  "call_key st c = legacyCallKey (us_ActiveTurnID st) c"

definition orphanLegacyActivity :: "upcast_env \<Rightarrow> legacy_source \<Rightarrow> upcast_state \<Rightarrow> activity_id \<times> upcast_state" where
  "orphanLegacyActivity env src st =
     (let st' = st\<lparr>us_ActivityOrdinal := us_ActivityOrdinal st + 1\<rparr> in (derived env ''activity'' st' src, st'))"

definition beginLegacyActivity ::
  "upcast_env \<Rightarrow> legacy_source \<Rightarrow> string \<Rightarrow> upcast_state \<Rightarrow> activity_id \<times> upcast_state" where
  "beginLegacyActivity env src callID st =
     (case orphanLegacyActivity env src st of
        (a, st') \<Rightarrow> (a, st'\<lparr>us_OpenCalls := gput (call_key st callID) [a] (us_OpenCalls st')\<rparr>))"

definition findOrBeginLegacyActivity ::
  "upcast_env \<Rightarrow> legacy_source \<Rightarrow> string \<Rightarrow> upcast_state \<Rightarrow> activity_id \<times> upcast_state" where
  "findOrBeginLegacyActivity env src callID st =
     (let calls = glookup [] (us_OpenCalls st) (call_key st callID) in
      if calls \<noteq> [] then (last calls, st) else beginLegacyActivity env src callID st)"

section \<open>Diagnostics\<close>

definition migrationDiagnostic :: "journal_ref \<Rightarrow> legacy_source \<Rightarrow> string \<Rightarrow> string \<Rightarrow> raw_message \<Rightarrow> diagnostic" where
  "migrationDiagnostic ref src code message details =
     \<lparr>di_Code = code, di_Message = message, di_Journal = ref, di_AtSeq = lg_Seq src,
      di_EventID = lg_EventID src, di_Details = details\<rparr>"

text \<open>The text after the first zero byte (\<open>strings.Cut\<close>), and the two members the details hold.\<close>

definition after_nul :: "string \<Rightarrow> string" where
  "after_nul key = drop 1 (dropWhile (\<lambda>c. c \<noteq> CHR 0x00) key)"

definition unmatched_details :: "string \<Rightarrow> activity_id \<Rightarrow> string" where
  "unmatched_details callID a = ''{'' @ write_string ''activity_id'' @ '':'' @ write_string a @ '',''
     @ write_string ''call_id'' @ '':'' @ write_string callID @ ''}''"

definition unmatchedCallDiagnostics :: "journal_ref \<Rightarrow> legacy_source \<Rightarrow> upcast_state \<Rightarrow> diagnostic list" where
  "unmatchedCallDiagnostics ref src st =
     map (\<lambda>key. migrationDiagnostic ref src ''migration.unmatched_activity''
         ''legacy activity has no terminal and remains interrupted/uncertain''
         (Some (unmatched_details (after_nul key) (last (glookup [] (us_OpenCalls st) key)))))
       (sort (map fst (filter (\<lambda>(k, calls). calls \<noteq> []) (us_OpenCalls st))))"

definition legacyCallID :: "upcast_env \<Rightarrow> raw_message \<Rightarrow> string option" where
  "legacyCallID env payload =
     (case ue_Member env payload ''call_id'' of None \<Rightarrow> None | Some c \<Rightarrow> if c = '''' then None else Some c)"

definition decodeLegacyToolResult :: "upcast_env \<Rightarrow> raw_message \<Rightarrow> legacy_tool_result option" where
  "decodeLegacyToolResult env raw =
     (let flat = (case ue_FlatResult env raw of Inl m \<Rightarrow> None
        | Inr r \<Rightarrow> if lr_CallID r = '''' then None else Some r)
      in case ue_NestedResult env raw of
           Inl m \<Rightarrow> flat
         | Inr r \<Rightarrow> if lr_CallID r = '''' then flat else Some r)"

definition legacyToolStatus :: "string \<Rightarrow> string \<times> string" where
  "legacyToolStatus s =
     (if s = ''succeeded'' then (''succeeded'', EventActivitySucceeded)
      else if s = ''failed'' then (''failed'', EventActivityFailed)
      else if s = ''denied'' then (''denied'', EventActivityDenied)
      else if s = ''cancelled'' then (''cancelled'', EventActivityCancelled)
      else (''uncertain'', EventActivityUncertain))"

definition legacyTurnStatus :: "string \<Rightarrow> string \<times> string" where
  "legacyTurnStatus kind =
     (if kind = ''turn.completed'' then (''completed'', EventTurnCompleted)
      else if kind = ''turn.failed'' then (''failed'', EventTurnFailed)
      else (''interrupted'', EventTurnInterrupted))"

definition isLegacyTurnTerminal :: "string \<Rightarrow> bool" where
  "isLegacyTurnTerminal kind \<longleftrightarrow> kind = ''turn.completed'' \<or> kind = ''turn.failed'' \<or> kind = ''turn.interrupted''"

section \<open>Mapping a payload\<close>

text \<open>The decoded payload, the activity, the kind, the diagnostics and the state after.\<close>

type_synonym mapped = "payload \<times> activity_id \<times> string \<times> diagnostic list \<times> upcast_state"

definition lossy :: "journal_ref \<Rightarrow> legacy_source \<Rightarrow> string \<Rightarrow> diagnostic" where
  "lossy ref src message = migrationDiagnostic ref src ''migration.lossy'' message None"

definition invalid_payload :: "journal_ref \<Rightarrow> legacy_source \<Rightarrow> string \<Rightarrow> diagnostic" where
  "invalid_payload ref src message = migrationDiagnostic ref src ''migration.invalid_payload'' message None"

definition map_fallback :: "journal_ref \<Rightarrow> legacy_source \<Rightarrow> diagnostic list \<Rightarrow> upcast_state \<Rightarrow> mapped" where
  "map_fallback ref src ds st =
     (let d = lossy ref src ''legacy payload retained without invented v2 facts''
      in (P_Diagnostic d, '''', EventMigrationDiagnostic, ds @ [d], st))"

text \<open>\<open>if decode(&payload) { ... }\<close>: a payload that does not decode falls through to the end.\<close>

definition map_decoded ::
  "journal_ref \<Rightarrow> legacy_source \<Rightarrow> upcast_state \<Rightarrow> 'a res \<Rightarrow> ('a \<Rightarrow> mapped) \<Rightarrow> mapped" where
  "map_decoded ref src st r f =
     (case r of Inl m \<Rightarrow> map_fallback ref src [invalid_payload ref src m] st | Inr v \<Rightarrow> f v)"

definition outcome_of :: "string \<Rightarrow> string \<Rightarrow> payload" where
  "outcome_of status reason = P_ActivityOutcome \<lparr>ao_Status = status, ao_Reason = reason, ao_ErrorCode = '''',
     ao_OutputEvidenceIDs = [], ao_UnknownEffects = [], ao_Usage = None, ao_OutputBytes = 0\<rparr>"

definition progress_of :: "string \<Rightarrow> payload" where
  "progress_of message = P_ActivityProgress \<lparr>pgs_Message = message, pgs_Completed = 0, pgs_Total = 0,
     pgs_Truncated = False\<rparr>"

definition map_assistant :: "legacy_message \<Rightarrow> payload" where
  "map_assistant m =
     (let intents = map (\<lambda>c. \<lparr>tub_CallID = lc_ID c, tub_Alias = lc_Name c, tub_Arguments = lc_Arguments c\<rparr>)
            (lm_ToolCalls m);
          text = (if lm_Content m \<noteq> ''''
            then [(empty_block ''text'')\<lparr>cb_Text := lm_Content m\<rparr>] else [])
      in P_AssistantMessage (text @ map (\<lambda>i. (empty_block ''tool_use'')\<lparr>cb_ToolUse := Some i\<rparr>) intents) intents)"

definition map_tool_requested ::
  "upcast_env \<Rightarrow> journal_ref \<Rightarrow> legacy_source \<Rightarrow> legacy_prepared \<Rightarrow> upcast_state \<Rightarrow> mapped" where
  "map_tool_requested env ref src p st =
     (case beginLegacyActivity env src (lp_CallID p) st of
        (a, st1) \<Rightarrow>
          (let st2 = st1\<lparr>us_requestedCalls := gput (call_key st1 (lp_CallID p)) True (us_requestedCalls st1)\<rparr>;
               purpose = (if TrimSpace (lp_Summary p) = '''' then ''legacy tool request'' else TrimSpace (lp_Summary p))
           in (P_ActivityPlanned \<lparr>ap_Kind = lp_Mutation p, ap_Purpose = purpose,
                 ap_PurposeActor = \<lparr>ar_ID = derived env ''actor'' st2 src, ar_Kind = ''agent'', ar_Source = ''legacy_v0.1''\<rparr>,
                 ap_Source = ''legacy_v0.1'', ap_Plan = None, ap_InputEvidenceIDs = [],
                 ap_RequestedProfile = ''unknown'', ap_EffectiveProfile = ''unknown'', ap_CompactionTrigger = ''''\<rparr>,
               a, EventActivityPlanned,
               [lossy ref src ''legacy tool request did not record execution profiles or a canonical v2 action plan''],
               st2)))"

definition map_tool_started :: "upcast_env \<Rightarrow> journal_ref \<Rightarrow> legacy_source \<Rightarrow> upcast_state \<Rightarrow> mapped" where
  "map_tool_started env ref src st =
     (case legacyCallID env (lg_Payload src) of
        None \<Rightarrow>
          (let callID = ''malformed:'' @ lg_EventID src in
           case beginLegacyActivity env src callID st of
             (a, st1) \<Rightarrow>
               (outcome_of ''uncertain'' ''legacy tool start has no usable call ID'', a, EventActivityUncertain,
                [invalid_payload ref src ''legacy tool start has no usable call ID''],
                st1\<lparr>us_startedCalls := gput (call_key st1 callID) 1 (us_startedCalls st1)\<rparr>))
      | Some callID \<Rightarrow>
          (let key = call_key st callID; calls = glookup [] (us_OpenCalls st) key;
               started = glookup 0 (us_startedCalls st) key
           in if calls = [] then
                (case beginLegacyActivity env src callID st of
                   (a, st1) \<Rightarrow>
                     (progress_of ''legacy tool start observed'', a, EventActivityProgress,
                      [migrationDiagnostic ref src ''migration.orphan_start''
                         ''legacy tool start has no matching request'' None],
                      st1\<lparr>us_startedCalls := gput key 1 (us_startedCalls st1),
                          us_uncertainCalls := gput key True (us_uncertainCalls st1)\<rparr>))
              else if started > 0 then
                (outcome_of ''uncertain'' ''duplicate legacy tool start'', last calls, EventActivityUncertain,
                 [migrationDiagnostic ref src ''migration.duplicate_start''
                    ''duplicate legacy tool start makes activity outcome uncertain'' None],
                 st\<lparr>us_startedCalls := gput key (started + 1) (us_startedCalls st),
                    us_uncertainCalls := gput key True (us_uncertainCalls st)\<rparr>)
              else
                (progress_of ''legacy tool start observed'', last calls, EventActivityProgress,
                 [lossy ref src ''legacy tool start lacked dispatch and authorization bindings''],
                 st\<lparr>us_startedCalls := gput key 1 (us_startedCalls st)\<rparr>)))"

definition duplicate_outcome :: payload where
  "duplicate_outcome = outcome_of ''uncertain'' ''duplicate legacy tool start''"

definition map_tool_result :: "upcast_env \<Rightarrow> journal_ref \<Rightarrow> legacy_source \<Rightarrow> upcast_state \<Rightarrow> mapped" where
  "map_tool_result env ref src st =
     (case decodeLegacyToolResult env (lg_Payload src) of
        None \<Rightarrow> map_fallback ref src [invalid_payload ref src ''legacy tool result has no usable call ID''] st
      | Some r \<Rightarrow>
          (let key = call_key st (lr_CallID r); calls = glookup [] (us_OpenCalls st) key;
               started = glookup 0 (us_startedCalls st) key; closed = close_call key st
           in if calls = [] then
                (case orphanLegacyActivity env src st of
                   (a, st1) \<Rightarrow>
                     (outcome_of ''uncertain'' ''unmatched legacy tool terminal'', a, EventActivityUncertain,
                      [migrationDiagnostic ref src ''migration.duplicate_terminal''
                         ''legacy tool terminal has no open activity'' None], st1))
              else if started > 1 then
                (duplicate_outcome, last calls, EventActivityUncertain,
                 [migrationDiagnostic ref src ''migration.duplicate_start''
                    ''duplicate legacy tool starts make the terminal uncertain'' None],
                 st\<lparr>us_startedCalls := gput key (started - 1) (us_startedCalls st),
                    us_uncertainCalls := gput key True (us_uncertainCalls st)\<rparr>)
              else if \<not> glookup False (us_requestedCalls st) key \<or> started = 0 then
                (outcome_of ''uncertain'' ''legacy tool lifecycle is incomplete or out of order'', last calls,
                 EventActivityUncertain,
                 [migrationDiagnostic ref src ''migration.out_of_order''
                    ''legacy tool terminal requires a matching request followed by a start'' None], closed)
              else if glookup False (us_uncertainCalls st) key then
                (duplicate_outcome, last calls, EventActivityUncertain,
                 [migrationDiagnostic ref src ''migration.duplicate_start''
                    ''duplicate legacy starts keep the activity outcome uncertain'' None,
                  migrationDiagnostic ref src ''migration.duplicate_terminal''
                    ''multiple legacy terminals for duplicate starts remain uncertain'' None], closed)
              else
                (outcome_of (fst (legacyToolStatus (lr_Status r))) (lr_ErrorKind r), last calls,
                 snd (legacyToolStatus (lr_Status r)),
                 (if lr_Content r \<noteq> '''' \<or> lr_ArtifactIDs r \<noteq> [] \<or> lr_FileChange r \<or> lr_WorkspaceChanges r
                  then [migrationDiagnostic ref src ''migration.legacy_evidence''
                    ''legacy tool output is historical evidence, not a verification receipt'' None] else []),
                 closed)))"

text \<open>
  \<open>strings.ToLower\<close> is the lower case of ASCII here: a text it treats otherwise is not a valid digest.
\<close>

definition map_file_changed ::
  "upcast_env \<Rightarrow> journal_ref \<Rightarrow> legacy_source \<Rightarrow> legacy_file_change \<Rightarrow> upcast_state \<Rightarrow> mapped" where
  "map_file_changed env ref src c st =
     (case findOrBeginLegacyActivity env src (lf_CallID c) st of
        (a, st1) \<Rightarrow>
          (let evidence = migrationDiagnostic ref src ''migration.legacy_evidence''
                 ''legacy file diff is historical evidence'' None;
               before = \<lparr>dg_Algorithm = DigestSHA256, dg_Value = to_lower (lf_BeforeSHA256 c)\<rparr>;
               after = \<lparr>dg_Algorithm = DigestSHA256, dg_Value = to_lower (lf_AfterSHA256 c)\<rparr>
           in if Digest_Validate before \<noteq> None \<or> Digest_Validate after \<noteq> None then
                (progress_of ''legacy file changed'', a, EventActivityProgress,
                 [evidence, lossy ref src ''legacy file change lacked complete before/after digests''], st1)
              else
                (P_FileChanged \<lparr>fch_CallID = lf_CallID c, fch_Subject = \<lparr>sr_Kind = ''file'', sr_ID = lf_Path c\<rparr>,
                   fch_Before = before, fch_After = after, fch_EvidenceIDs = []\<rparr>,
                 a, EventFileChanged, [evidence], st1)))"

text \<open>The cases that only report progress of a found or new activity.\<close>

definition map_progress ::
  "upcast_env \<Rightarrow> legacy_source \<Rightarrow> string \<Rightarrow> string \<Rightarrow> diagnostic list \<Rightarrow> upcast_state \<Rightarrow> mapped" where
  "map_progress env src callID message ds st =
     (case findOrBeginLegacyActivity env src callID st of
        (a, st1) \<Rightarrow> (progress_of message, a, EventActivityProgress, ds, st1))"

definition mapLegacyPayload :: "upcast_env \<Rightarrow> journal_ref \<Rightarrow> legacy_source \<Rightarrow> upcast_state \<Rightarrow> mapped" where
  "mapLegacyPayload env ref src st =
     (let kind = lg_Kind src; raw = lg_Payload src in
      if kind = ''session.created'' then
        map_decoded ref src st (ue_Session env raw) (\<lambda>s.
          (P_SessionCreated \<lparr>ssn_WorkspaceID = ls_WorkspaceID s, ssn_CanonicalPath = ls_CanonicalPath s,
             ssn_Title = ls_Title s, ssn_Mode = ls_Mode s, ssn_ProviderID = ls_Profile s, ssn_ModelID = ls_Model s\<rparr>,
           '''', EventSessionCreated, [], st))
      else if kind = ''session.title_changed'' then
        map_decoded ref src st (ue_Title env raw) (\<lambda>t. (P_TitleChanged t, '''', EventSessionTitleChanged, [], st))
      else if kind = ''mode.changed'' then
        map_decoded ref src st (ue_Mode env raw) (\<lambda>m. (P_ModeChanged m, '''', EventModeChanged, [], st))
      else if kind = ''model.changed'' then
        map_decoded ref src st (ue_Model env raw) (\<lambda>(p, m). (P_ModelChanged p m, '''', EventModelChanged, [], st))
      else if kind = ''trusted_execution.acknowledged'' then
        map_decoded ref src st (ue_Trusted env raw) (\<lambda>b.
          (P_TrustedExecution b ''unknown'', '''', EventTrustedExecutionAcknowledged,
           [lossy ref src ''legacy trusted execution did not record an execution profile''], st))
      else if kind = ''user.message'' then
        map_decoded ref src st (ue_Message env raw) (\<lambda>m. (P_UserMessage (lm_Content m), '''', EventUserMessage, [], st))
      else if kind = ''assistant.message'' then
        map_decoded ref src st (ue_Message env raw) (\<lambda>m. (map_assistant m, '''', EventAssistantMessage, [], st))
      else if kind = ''tool.requested'' then
        map_decoded ref src st (ue_Prepared env raw) (\<lambda>p. map_tool_requested env ref src p st)
      else if kind = ''permission.requested'' then
        map_decoded ref src st (ue_Prepared env raw) (\<lambda>p.
          map_progress env src (lp_CallID p) ''legacy permission requested''
            [lossy ref src ''legacy permission request lacked v2 authorization bindings''] st)
      else if kind = ''permission.resolved'' then
        map_decoded ref src st (ue_Permission env raw) (\<lambda>p.
          map_progress env src (lq_CallID p) (''legacy permission '' @ lq_Action p)
            [lossy ref src ''legacy permission decision lacked v2 authorization bindings''] st)
      else if kind = ''tool.started'' then map_tool_started env ref src st
      else if kind = ''tool.result'' then map_tool_result env ref src st
      else if kind = ''file.change_planned'' then
        map_decoded ref src st (ue_FilePlanCall env raw) (\<lambda>c.
          map_progress env src c ''legacy file change planned''
            [migrationDiagnostic ref src ''migration.legacy_evidence'' ''legacy diff is historical evidence'' None,
             lossy ref src ''legacy file plan lacked a canonical v2 action plan and restore coverage''] st)
      else if kind = ''file.changed'' then
        map_decoded ref src st (ue_FileChange env raw) (\<lambda>c. map_file_changed env ref src c st)
      else if kind = ''context.compacted'' then
        map_decoded ref src st (ue_Compaction env raw) (\<lambda>u.
          (P_Diagnostic (lossy ref src ''legacy context compaction retained only in the legacy source''), '''',
           EventMigrationDiagnostic,
           [lossy ref src ''legacy compaction summary lacked immutable evidence and a committed cursor range''], st))
      else if isLegacyTurnTerminal kind then
        map_decoded ref src st (ue_Terminal env raw) (\<lambda>t.
          (P_TurnTerminal \<lparr>tt_Status = fst (legacyTurnStatus kind), tt_Reason = lt_Reason t,
             tt_ErrorCode = lt_ErrorKind t, tt_UnknownEffects = []\<rparr>,
           '''', snd (legacyTurnStatus kind), [], st))
      else map_fallback ref src [] st)"

section \<open>One record\<close>

definition start_turn :: "upcast_env \<Rightarrow> legacy_source \<Rightarrow> upcast_state \<Rightarrow> upcast_state" where
  "start_turn env src st =
     (let st1 = st\<lparr>us_TurnOrdinal := us_TurnOrdinal st + 1, us_ActivityOrdinal := 0, us_turnAnchor := lg_EventID src\<rparr>
      in clear_calls (st1\<lparr>us_ActiveTurnID := derived env ''turn'' st1 src, us_activeTaskID := derived env ''task'' st1 src\<rparr>))"

definition end_turn :: "upcast_state \<Rightarrow> upcast_state" where
  "end_turn st = clear_calls (st\<lparr>us_ActiveTurnID := '''', us_activeTaskID := '''', us_turnAnchor := ''''\<rparr>)"

definition upcast_envelope ::
  "upcast_env \<Rightarrow> legacy_source \<Rightarrow> upcast_state \<Rightarrow> string \<Rightarrow> activity_id \<Rightarrow> string \<Rightarrow> envelope" where
  "upcast_envelope env src st kind activityID payload =
     \<lparr>en_SchemaVersion = EnvelopeVersion, en_PayloadVersion = 1, en_JournalKind = JournalSession,
      en_JournalID = us_SessionID st, en_EventID = lg_EventID src, en_SessionID = us_SessionID st,
      en_Seq = lg_Seq src, en_Time = lg_Time src, en_Kind = kind, en_TaskID = us_activeTaskID st,
      en_TurnID = us_ActiveTurnID st, en_ActivityID = activityID, en_ParentActivityID = '''',
      en_CausationEventID = '''', en_Actor = Some (legacyActor env src st), en_RuntimeGenerationID = '''',
      en_TransactionID = derived env ''transaction'' st src, en_Payload = Some payload\<rparr>"

text \<open>
  The envelope's task, turn, transaction and actor are those before the payload is mapped. The second
  \<open>json.Marshal\<close>, of a diagnostic, has its error ignored: its result is then empty.
\<close>

definition UpcastV1 :: "upcast_env \<Rightarrow> legacy_source \<Rightarrow> upcast_state \<Rightarrow> event \<times> upcast_state \<times> diagnostic list" where
  "UpcastV1 env src st =
     (let st0 = (if us_SessionID st = '''' then st\<lparr>us_SessionID := lg_SessionID src\<rparr> else st);
          ref = \<lparr>jr_Kind = JournalSession, jr_ID = us_SessionID st0\<rparr>;
          (ds1, st1) = (if lg_Kind src = ''user.message''
            then (unmatchedCallDiagnostics ref src st0, start_turn env src st0) else ([], st0))
      in case mapLegacyPayload env ref src st1 of
           (decoded, activityID, kind, ds2, st2) \<Rightarrow>
             (let (decoded', kind', payload, ds3) =
                (case ue_Marshal env decoded of
                   Inr p \<Rightarrow> (decoded, kind, p, [])
                 | Inl m \<Rightarrow>
                     (let d = invalid_payload ref src m in
                      (P_Diagnostic d, EventMigrationDiagnostic,
                       (case ue_Marshal env (P_Diagnostic d) of Inl m \<Rightarrow> '''' | Inr p \<Rightarrow> p), [d])));
                record = \<lparr>e_Envelope = upcast_envelope env src st1 kind' activityID payload,
                   e_Decoded = Some decoded', e_RawEnvelope = lg_RawEnvelope src, e_Legacy = Some src\<rparr>
              in if isLegacyTurnTerminal (lg_Kind src)
                 then (record, end_turn st2, ds1 @ ds2 @ ds3 @ unmatchedCallDiagnostics ref src st2)
                 else (record, st2, ds1 @ ds2 @ ds3)))"

text \<open>Reading a run of legacy records.\<close>

fun upcast_all :: "upcast_env \<Rightarrow> upcast_state \<Rightarrow> legacy_source list \<Rightarrow> event list \<times> upcast_state \<times> diagnostic list" where
  "upcast_all env st [] = ([], st, [])"
| "upcast_all env st (s # ss) =
     (case UpcastV1 env s st of
        (e, st', ds) \<Rightarrow> (case upcast_all env st' ss of (es, st'', ds') \<Rightarrow> (e # es, st'', ds @ ds')))"

end
