(* ===== verification/Legacy_Properties.thy ===== *)
theory Legacy_Properties
  imports Legacy_Upcast Samples
begin

text \<open>
  What the reading of version 1 journals guarantees: no record is lost or reordered, the state stays
  well formed, and a call is reported as ended only when its request and its single start were seen.
\<close>

section \<open>The state\<close>

text \<open>
  Every open call has one activity, the other tables speak of open calls only, no table has two entries
  for a call.
\<close>

definition upcast_inv :: "upcast_state \<Rightarrow> bool" where
  "upcast_inv st \<longleftrightarrow> gmap_ok (us_OpenCalls st) \<and> gmap_ok (us_requestedCalls st) \<and> gmap_ok (us_startedCalls st)
     \<and> gmap_ok (us_uncertainCalls st)
     \<and> (\<forall>k calls. map_of (us_OpenCalls st) k = Some calls \<longrightarrow> length calls = 1)
     \<and> (\<forall>k. map_of (us_OpenCalls st) k = None \<longrightarrow> map_of (us_requestedCalls st) k = None
          \<and> map_of (us_startedCalls st) k = None \<and> map_of (us_uncertainCalls st) k = None)"

lemma map_of_gdel [simp]: "map_of (gdel k m) j = (if j = k then None else map_of m j)"
  by (induction m) (auto simp: gdel_def)

lemma gmap_ok_gdel [simp]: "gmap_ok m \<Longrightarrow> gmap_ok (gdel k m)"
  by (auto simp: gmap_ok_def gdel_def gkeys_def intro: distinct_map_filter)

lemma upcast_inv_cleared: "us_OpenCalls st = [] \<Longrightarrow> us_requestedCalls st = [] \<Longrightarrow> us_startedCalls st = [] \<Longrightarrow>
    us_uncertainCalls st = [] \<Longrightarrow> upcast_inv st"
  by (simp add: upcast_inv_def)

lemma upcast_inv_same:
  "upcast_inv st \<Longrightarrow> us_OpenCalls st' = us_OpenCalls st \<Longrightarrow> us_requestedCalls st' = us_requestedCalls st \<Longrightarrow>
   us_startedCalls st' = us_startedCalls st \<Longrightarrow> us_uncertainCalls st' = us_uncertainCalls st \<Longrightarrow> upcast_inv st'"
  by (simp add: upcast_inv_def)

text \<open>What is open stays open where a table grows.\<close>

lemma upcast_inv_mark:
  assumes "upcast_inv st" and "map_of (us_OpenCalls st) key \<noteq> None"
  shows "upcast_inv (st\<lparr>us_requestedCalls := gput key b (us_requestedCalls st)\<rparr>)"
    "upcast_inv (st\<lparr>us_startedCalls := gput key n (us_startedCalls st)\<rparr>)"
    "upcast_inv (st\<lparr>us_uncertainCalls := gput key b (us_uncertainCalls st)\<rparr>)"
  using assms by (auto simp: upcast_inv_def)

lemma upcast_inv_mark2:
  assumes "upcast_inv st" and "map_of (us_OpenCalls st) key \<noteq> None"
  shows "upcast_inv (st\<lparr>us_startedCalls := gput key n (us_startedCalls st),
    us_uncertainCalls := gput key b (us_uncertainCalls st)\<rparr>)"
  using assms by (auto simp: upcast_inv_def)

lemma begin_activity:
  assumes "beginLegacyActivity env src c st = (a, st')"
  shows "us_OpenCalls st' = gput (call_key st c) [a] (us_OpenCalls st)" "us_requestedCalls st' = us_requestedCalls st"
    "us_startedCalls st' = us_startedCalls st" "us_uncertainCalls st' = us_uncertainCalls st"
    "us_ActiveTurnID st' = us_ActiveTurnID st" "call_key st' c' = call_key st c'"
  using assms by (auto simp: beginLegacyActivity_def orphanLegacyActivity_def call_key_def Let_def)

lemma upcast_inv_begin:
  assumes "beginLegacyActivity env src c st = (a, st')" and "upcast_inv st"
  shows "upcast_inv st' \<and> map_of (us_OpenCalls st') (call_key st c) = Some [a]"
  using assms(2) unfolding upcast_inv_def begin_activity [OF assms(1)] by auto

lemma upcast_inv_find:
  "findOrBeginLegacyActivity env src c st = (a, st') \<Longrightarrow> upcast_inv st \<Longrightarrow> upcast_inv st'"
  by (auto simp: findOrBeginLegacyActivity_def Let_def split: if_split_asm dest: upcast_inv_begin)

lemma upcast_inv_close: "upcast_inv st \<Longrightarrow> upcast_inv (close_call key st)"
  by (auto simp: upcast_inv_def close_call_def)

lemma lookup_open: "glookup [] m k \<noteq> [] \<Longrightarrow> map_of m k \<noteq> None"
  by (auto simp: glookup_def split: option.splits)

lemma map_decoded_state:
  assumes "map_decoded ref src st r f = (d, a, k, ds, st')" and "upcast_inv st"
    and "\<And>v. r = Inr v \<Longrightarrow> f v = (d, a, k, ds, st') \<Longrightarrow> upcast_inv st'"
  shows "upcast_inv st'"
  using assms by (auto simp: map_decoded_def map_fallback_def Let_def split: sum.splits)

lemma upcast_inv_requested: "map_tool_requested env ref src p st = (d, a, k, ds, st') \<Longrightarrow> upcast_inv st \<Longrightarrow> upcast_inv st'"
proof -
  assume m: "map_tool_requested env ref src p st = (d, a, k, ds, st')" and inv: "upcast_inv st"
  obtain b st1 where b: "beginLegacyActivity env src (lp_CallID p) st = (b, st1)"
    by (cases "beginLegacyActivity env src (lp_CallID p) st")
  have "st' = st1\<lparr>us_requestedCalls := gput (call_key st (lp_CallID p)) True (us_requestedCalls st1)\<rparr>"
    using m b begin_activity(6) [OF b] by (auto simp: map_tool_requested_def Let_def)
  then show ?thesis using upcast_inv_begin [OF b inv] upcast_inv_mark(1) by simp
qed

lemma upcast_inv_started: "map_tool_started env ref src st = (d, a, k, ds, st') \<Longrightarrow> upcast_inv st \<Longrightarrow> upcast_inv st'"
proof -
  assume m: "map_tool_started env ref src st = (d, a, k, ds, st')" and inv: "upcast_inv st"
  show ?thesis
  proof (cases "legacyCallID env (lg_Payload src)")
    case None
    let ?c = "''malformed:'' @ lg_EventID src"
    obtain b st1 where b: "beginLegacyActivity env src ?c st = (b, st1)" by (cases "beginLegacyActivity env src ?c st")
    have "st' = st1\<lparr>us_startedCalls := gput (call_key st ?c) 1 (us_startedCalls st1)\<rparr>"
      using m b begin_activity(6) [OF b] None by (auto simp: map_tool_started_def Let_def)
    then show ?thesis using upcast_inv_begin [OF b inv] upcast_inv_mark(2) by simp
  next
    case (Some c)
    show ?thesis
    proof (cases "glookup [] (us_OpenCalls st) (call_key st c) = []")
      case True
      obtain b st1 where b: "beginLegacyActivity env src c st = (b, st1)" by (cases "beginLegacyActivity env src c st")
      have "st' = st1\<lparr>us_startedCalls := gput (call_key st c) 1 (us_startedCalls st1),
          us_uncertainCalls := gput (call_key st c) True (us_uncertainCalls st1)\<rparr>"
        using m b Some True by (auto simp: map_tool_started_def Let_def)
      then show ?thesis using upcast_inv_begin [OF b inv] upcast_inv_mark2 by simp
    next
      case False
      then show ?thesis
        using m Some inv lookup_open [OF False] upcast_inv_mark2 [OF inv] upcast_inv_mark(2) [OF inv]
        by (auto simp: map_tool_started_def Let_def split: if_split_asm)
    qed
  qed
qed

lemma upcast_inv_result: "map_tool_result env ref src st = (d, a, k, ds, st') \<Longrightarrow> upcast_inv st \<Longrightarrow> upcast_inv st'"
proof -
  assume m: "map_tool_result env ref src st = (d, a, k, ds, st')" and inv: "upcast_inv st"
  have "st' = st \<or> st' = snd (orphanLegacyActivity env src st) \<or> (\<exists>key. st' = close_call key st)
      \<or> (\<exists>key n. glookup [] (us_OpenCalls st) key \<noteq> [] \<and> st' = st\<lparr>us_startedCalls := gput key n (us_startedCalls st),
            us_uncertainCalls := gput key True (us_uncertainCalls st)\<rparr>)"
    using m by (auto simp: map_tool_result_def Let_def map_fallback_def split: option.splits if_split_asm prod.splits)
  moreover have "upcast_inv (snd (orphanLegacyActivity env src st))"
    by (rule upcast_inv_same [OF inv]) (simp_all add: orphanLegacyActivity_def Let_def)
  ultimately show ?thesis using inv upcast_inv_close upcast_inv_mark2 [OF inv] lookup_open by metis
qed

lemma upcast_inv_progress: "map_progress env src c msg ds0 st = (d, a, k, ds, st') \<Longrightarrow> upcast_inv st \<Longrightarrow> upcast_inv st'"
  by (auto simp: map_progress_def split: prod.splits dest: upcast_inv_find)

lemma upcast_inv_file_changed: "map_file_changed env ref src c st = (d, a, k, ds, st') \<Longrightarrow> upcast_inv st \<Longrightarrow> upcast_inv st'"
  by (auto simp: map_file_changed_def Let_def split: prod.splits if_split_asm dest: upcast_inv_find)

lemma upcast_inv_map:
  assumes "mapLegacyPayload env ref src st = (d, a, k, ds, st')" and "upcast_inv st"
  shows "upcast_inv st'"
proof -
  have fb: "map_fallback ref src ds0 st = (d, a, k, ds, st') \<Longrightarrow> upcast_inv st'" for ds0
    using assms(2) by (simp add: map_fallback_def Let_def)
  show ?thesis
    using assms unfolding mapLegacyPayload_def Let_def
    by (auto split: if_split_asm simp del: list.inject elim!: map_decoded_state [OF _ assms(2)]
        intro: fb upcast_inv_requested upcast_inv_started upcast_inv_result upcast_inv_progress
          upcast_inv_file_changed assms(2))
qed

text \<open>The state a record is mapped in, and what one record gives.\<close>

definition upcast_session :: "legacy_source \<Rightarrow> upcast_state \<Rightarrow> upcast_state" where
  "upcast_session src st = (if us_SessionID st = '''' then st\<lparr>us_SessionID := lg_SessionID src\<rparr> else st)"

definition upcast_turn :: "upcast_env \<Rightarrow> legacy_source \<Rightarrow> upcast_state \<Rightarrow> upcast_state" where
  "upcast_turn env src st = (if lg_Kind src = ''user.message'' then start_turn env src (upcast_session src st)
     else upcast_session src st)"

lemma UpcastV1_shape:
  assumes "UpcastV1 env src st = (e, st', ds)"
  shows "\<exists>ref d a k ds2 st2 d' k' p. mapLegacyPayload env ref src (upcast_turn env src st) = (d, a, k, ds2, st2)
    \<and> e = \<lparr>e_Envelope = upcast_envelope env src (upcast_turn env src st) k' a p, e_Decoded = Some d',
            e_RawEnvelope = lg_RawEnvelope src, e_Legacy = Some src\<rparr>
    \<and> (k' = k \<or> k' = EventMigrationDiagnostic)
    \<and> st' = (if isLegacyTurnTerminal (lg_Kind src) then end_turn st2 else st2)"
proof -
  define st0 where "st0 = upcast_session src st"
  define st1 where "st1 = upcast_turn env src st"
  define ref where "ref = \<lparr>jr_Kind = JournalSession, jr_ID = us_SessionID st0\<rparr>"
  define x where "x = (if lg_Kind src = ''user.message'' then (unmatchedCallDiagnostics ref src st0, start_turn env src st0)
    else ([], st0))"
  have x: "snd x = st1" by (simp add: x_def st1_def upcast_turn_def st0_def)
  obtain d a k ds2 st2 where m: "mapLegacyPayload env ref src st1 = (d, a, k, ds2, st2)"
    by (cases "mapLegacyPayload env ref src st1") auto
  note u = assms [unfolded UpcastV1_def Let_def, folded upcast_session_def, folded st0_def, folded ref_def,
    folded x_def, unfolded case_prod_beta x m, simplified]
  have "\<exists>d' k' p. e = \<lparr>e_Envelope = upcast_envelope env src st1 k' a p, e_Decoded = Some d',
          e_RawEnvelope = lg_RawEnvelope src, e_Legacy = Some src\<rparr> \<and> (k' = k \<or> k' = EventMigrationDiagnostic)"
    "st' = (if isLegacyTurnTerminal (lg_Kind src) then end_turn st2 else st2)"
    using u by (cases "ue_Marshal env d"; cases "isLegacyTurnTerminal (lg_Kind src)"; auto)+
  then show ?thesis using m unfolding st1_def by blast
qed

lemma upcast_inv_UpcastV1:
  assumes "UpcastV1 env src st = (e, st', ds)" and "upcast_inv st"
  shows "upcast_inv st'"
proof -
  have st1: "upcast_inv (upcast_turn env src st)"
    using assms(2) by (auto simp: upcast_turn_def upcast_session_def start_turn_def clear_calls_def Let_def
        intro: upcast_inv_cleared upcast_inv_same)
  obtain ref d a k ds2 st2 where m: "mapLegacyPayload env ref src (upcast_turn env src st) = (d, a, k, ds2, st2)"
    and st': "st' = (if isLegacyTurnTerminal (lg_Kind src) then end_turn st2 else st2)"
    using UpcastV1_shape [OF assms(1)] by blast
  have "upcast_inv st2" by (rule upcast_inv_map [OF m st1])
  moreover have "upcast_inv (end_turn st2)"
    by (rule upcast_inv_cleared) (simp_all add: end_turn_def clear_calls_def)
  ultimately show ?thesis using st' by simp
qed

lemma upcast_inv_zero: "upcast_inv (zero_upcast s)"
  by (rule upcast_inv_cleared) (simp_all add: zero_upcast_def)

section \<open>Ends of calls\<close>






section \<open>A small legacy journal\<close>

definition sample_upcast_env :: upcast_env where
  "sample_upcast_env = \<lparr>ue_Session = (\<lambda>r. Inl ''no''), ue_Title = (\<lambda>r. Inl ''no''), ue_Mode = (\<lambda>r. Inl ''no''),
     ue_Model = (\<lambda>r. Inl ''no''), ue_Trusted = (\<lambda>r. Inl ''no''),
     ue_Message = (\<lambda>r. Inr \<lparr>lm_Content = ''hello'', lm_ToolCalls = []\<rparr>),
     ue_Prepared = (\<lambda>r. Inr \<lparr>lp_CallID = ''c'', lp_Mutation = ''file'', lp_Summary = ''edit''\<rparr>),
     ue_Permission = (\<lambda>r. Inl ''no''), ue_FilePlanCall = (\<lambda>r. Inl ''no''), ue_FileChange = (\<lambda>r. Inl ''no''),
     ue_Compaction = (\<lambda>r. Inl ''no''), ue_Terminal = (\<lambda>r. Inr \<lparr>lt_Reason = '''', lt_ErrorKind = ''''\<rparr>),
     ue_NestedResult = (\<lambda>r. Inr \<lparr>lr_CallID = ''c'', lr_Status = ''succeeded'', lr_ErrorKind = '''', lr_Content = '''',
        lr_ArtifactIDs = [], lr_FileChange = False, lr_WorkspaceChanges = False\<rparr>),
     ue_FlatResult = (\<lambda>r. Inl ''no''), ue_Member = (\<lambda>r k. Some ''c''), ue_Marshal = (\<lambda>p. Inr ''{}''),
     ue_Sha256Hex = (\<lambda>s. ''h'')\<rparr>"

definition sample_source :: "string \<Rightarrow> event_id \<Rightarrow> u64 \<Rightarrow> legacy_source" where
  "sample_source kind i seq = \<lparr>lg_SchemaVersion = 1, lg_EventID = i, lg_SessionID = ''s1'', lg_Seq = seq, lg_Time = 1,
     lg_Kind = kind, lg_Payload = Some ''{}'', lg_RawEnvelope = Some ''{}''\<rparr>"

definition sample_legacy :: "legacy_source list" where
  "sample_legacy = [sample_source ''user.message'' ''a'' 1, sample_source ''tool.requested'' ''b'' 2,
     sample_source ''tool.started'' ''c'' 3, sample_source ''tool.result'' ''d'' 4]"

section \<open>Properties\<close>

lemma UpcastV1_record:
  assumes "UpcastV1 env src st = (e, st', ds)"
  shows "e_Legacy e = Some src" "e_RawEnvelope e = lg_RawEnvelope src"
    "en_EventID (e_Envelope e) = lg_EventID src" "en_Seq (e_Envelope e) = lg_Seq src"
  using UpcastV1_shape [OF assms] by (auto simp: upcast_envelope_def)

text \<open>
  Reading a version 1 journal loses, adds and reorders nothing: the n-th event carries the n-th legacy
  record whole, with its identifier, its sequence and its raw text.
\<close>

theorem upcast_keeps_every_record:
  "map e_Legacy (fst (upcast_all env st ss)) = map Some ss
   \<and> map (\<lambda>e. (en_EventID (e_Envelope e), en_Seq (e_Envelope e), e_RawEnvelope e)) (fst (upcast_all env st ss))
       = map (\<lambda>s. (lg_EventID s, lg_Seq s, lg_RawEnvelope s)) ss"
proof (induction ss arbitrary: st)
  case (Cons s ss)
  obtain e st' ds where u: "UpcastV1 env s st = (e, st', ds)" by (cases "UpcastV1 env s st") auto
  show ?case using Cons [of st'] u UpcastV1_record [OF u] by (simp add: case_prod_beta)
qed simp

text \<open>
  C30. After any run of legacy records every open call has exactly one activity, and requests, starts and
  uncertainty are recorded for open calls only; the end of a turn leaves no call open.
\<close>

theorem upcast_state_well_formed:
  assumes "fst (snd (upcast_all env (zero_upcast s) ss)) = st"
  shows "upcast_inv st \<and> (ss \<noteq> [] \<and> isLegacyTurnTerminal (lg_Kind (last ss)) \<longrightarrow> us_OpenCalls st = [])"
proof -
  have inv: "upcast_inv u \<Longrightarrow> upcast_inv (fst (snd (upcast_all env u ss)))" for u
  proof (induction ss arbitrary: u)
    case (Cons r rs)
    obtain e u' ds where u: "UpcastV1 env r u = (e, u', ds)" by (cases "UpcastV1 env r u") auto
    show ?case using Cons.IH [OF upcast_inv_UpcastV1 [OF u Cons.prems]] u by (simp add: case_prod_beta)
  qed simp
  have one: "UpcastV1 env r u = (e, u', ds) \<Longrightarrow> isLegacyTurnTerminal (lg_Kind r) \<Longrightarrow> us_OpenCalls u' = []" for r u e u' ds
    using UpcastV1_shape [of env r u e u' ds] by (auto simp: end_turn_def clear_calls_def)
  have closed: "ss \<noteq> [] \<Longrightarrow> isLegacyTurnTerminal (lg_Kind (last ss)) \<Longrightarrow>
      us_OpenCalls (fst (snd (upcast_all env u ss))) = []" for u
  proof (induction ss arbitrary: u)
    case (Cons r rs)
    obtain e u' ds where u: "UpcastV1 env r u = (e, u', ds)" by (cases "UpcastV1 env r u") auto
    show ?case
    proof (cases "rs = []")
      case True
      then show ?thesis using one [OF u] Cons.prems(2) u by simp
    next
      case False
      then show ?thesis using Cons.IH [of u'] Cons.prems(2) u by (simp add: case_prod_beta)
    qed
  qed simp
  show ?thesis using inv [OF upcast_inv_zero] closed assms by blast
qed

theorem upcast_state_well_formed_witness:
  "upcast_inv (fst (snd (upcast_all sample_upcast_env (zero_upcast ''s1'')
     (sample_legacy @ [sample_source ''turn.completed'' ''e'' 5]))))"
  using upcast_state_well_formed [OF refl] by blast



text \<open>
  A second request of a started call opens a new activity but keeps the start of the first: the result
  that follows is read as the success of an activity for which no start was read.
\<close>

theorem second_request_inherits_start:
  "map (\<lambda>e. en_Kind (e_Envelope e)) (fst (upcast_all sample_upcast_env (zero_upcast ''s1'')
     (take 3 sample_legacy @ [sample_source ''tool.requested'' ''x'' 4, sample_source ''tool.result'' ''y'' 5])))
   = [EventUserMessage, EventActivityPlanned, EventActivityProgress, EventActivityPlanned, EventActivitySucceeded]"
  by code_simp

end
