(* ===== verification/Event_Codec.thy ===== *)
theory Event_Codec
  imports Event_Rules Canonical_Json
begin

text \<open>
  The registry of event descriptors, \<open>internal/eventcodec/registry.go\<close>: decoding a line into an event
  record and validating a record, with the journal family of a kind and the identities that a payload
  repeats from its envelope (\<open>foundation.go\<close>).

  Reflection and \<open>encoding/json\<close> are the record \<open>codec_env\<close>: the strict decoding of an envelope and of a
  payload of one descriptor, and the search for missing fields. A descriptor's rules are functions.
\<close>

section \<open>The registry\<close>

text \<open>An absent function of a descriptor (\<open>nil\<close>) is one without error.\<close>

record descriptor =
  ds_Type :: string
  ds_Structural :: "payload \<Rightarrow> string option"
  ds_Semantic :: "payload \<Rightarrow> string option"
  ds_Envelope :: "envelope \<Rightarrow> payload \<Rightarrow> string option"

type_synonym registry = "((string \<times> u32) \<times> descriptor) list"

text \<open>
  \<open>cx_Envelope\<close> gives the envelope as far as it was decoded, and the error. \<open>cx_OtherIdentity\<close> is the rule
  of \<open>validateEnvelopeIdentity\<close> for payloads whose type is not modelled.
\<close>

record codec_env =
  cx_Registry :: registry
  cx_Envelope :: "string \<Rightarrow> envelope \<times> string option"
  cx_EnvelopeFields :: "string \<Rightarrow> string option"
  cx_EnvelopeLength :: "envelope \<Rightarrow> nat"
  cx_Payload :: "string \<Rightarrow> string \<Rightarrow> payload res"
  cx_PayloadFields :: "string \<Rightarrow> string \<Rightarrow> string option"
  cx_OtherIdentity :: "envelope \<Rightarrow> payload \<Rightarrow> string option"

datatype lookup_error = UnknownKind | UnsupportedVersion

definition registry_lookup :: "registry \<Rightarrow> string \<Rightarrow> u32 \<Rightarrow> lookup_error + descriptor" where
  "registry_lookup r kind version =
     (if \<not> list_ex (\<lambda>((k, v), d). k = kind) r then Inl UnknownKind
      else case map_of r (kind, version) of None \<Rightarrow> Inl UnsupportedVersion | Some d \<Rightarrow> Inr d)"

definition registry_Descriptor :: "registry \<Rightarrow> string \<Rightarrow> u32 \<Rightarrow> descriptor option" where
  "registry_Descriptor r kind version = map_of r (kind, version)"

section \<open>The family of a kind\<close>

definition controlOnlyKind :: "string \<Rightarrow> bool" where
  "controlOnlyKind kind \<longleftrightarrow> kind \<in> set [''runtime_generation.activated'', ''project_skill_trust_changed_v1'',
     ''control_operation.planned'', ''control_operation.authorized'', ''control_operation.started'',
     ''control_operation.completed'', ''control_operation.failed'', ''control_operation.interrupted'']"

definition sessionOnlyKind :: "string \<Rightarrow> bool" where
  "sessionOnlyKind kind \<longleftrightarrow> kind \<in> set [EventSessionCreated, ''session.forked'', EventSessionTitleChanged,
     ''session.lifecycle_changed'', EventModeChanged, EventModelChanged, EventTrustedExecutionAcknowledged,
     EventUserMessage, EventAssistantMessage, ''tool.message'', ''context.compacted'', ''file.change_planned'',
     EventFileChanged, EventTaskCreated, EventTaskStatusChanged, EventOutcomeContractDeclared,
     EventOutcomeContractAmended, EventOutcomeCriterionAssessed, EventOutcomeFinalAssessed, EventTurnAccepted,
     EventTurnStateChanged, EventTurnCompleted, EventTurnFailed, EventTurnInterrupted, EventActivityPlanned,
     EventActivityAuthorized, EventActivityStarted, EventActivityProgress, EventActivitySucceeded,
     EventActivityFailed, EventActivityDenied, EventActivityCancelled, EventActivityInterruptedNoEffect,
     EventActivityUncertain, ''provider.capability_decided'', ''provider.attempt_terminal'',
     ''execution.plan_declared'', EventAuthorizationGrantRevoked, EventEvidenceRecorded, EventEvidenceLinked,
     ''checkpoint.planned'', ''checkpoint.ready'', ''checkpoint.failed'', ''verification.receipt_recorded'',
     ''context.plan_recorded'', ''context.usage_recorded'', ''subagent_requested_v1'', ''subagent_waiting_v1'',
     ''subagent_result_attached_v1'', ''subagent_manifest_v1'', ''subagent_receipt_v1'']"

definition validateAuthorizationJournal :: "envelope \<Rightarrow> session_id \<Rightarrow> control_operation_id \<Rightarrow> string option" where
  "validateAuthorizationJournal e sessionID controlID =
     (if (sessionID = '''') = (controlID = '''') then Some ''authorization payload requires exactly one correlation''
      else if sessionID \<noteq> '''' then
        fail_if (en_JournalKind e \<noteq> JournalSession \<or> en_SessionID e \<noteq> sessionID) ''session authorization journal mismatch''
      else fail_if (en_JournalKind e \<noteq> JournalWorkspaceControl) ''control authorization requires workspace-control journal'')"

definition validateJournalFamily :: "envelope \<Rightarrow> payload \<Rightarrow> string option" where
  "validateJournalFamily e p =
     (if controlOnlyKind (en_Kind e) then
        fail_if (en_JournalKind e \<noteq> JournalWorkspaceControl) ''event requires workspace-control journal''
      else if sessionOnlyKind (en_Kind e) then
        fail_if (en_JournalKind e \<noteq> JournalSession) ''event requires session journal''
      else case p of
          P_AuthorizationRequested r \<Rightarrow> validateAuthorizationJournal e (rq_SessionID r) (rq_ControlOperationID r)
        | P_AuthorizationDecided d \<Rightarrow>
            validateAuthorizationJournal e (rq_SessionID (dc_Request d)) (rq_ControlOperationID (dc_Request d))
        | P_AuthorizationConsumed c \<Rightarrow>
            if cn_ActivityID c \<noteq> '''' then validateAuthorizationJournal e (en_SessionID e) ''''
            else validateAuthorizationJournal e '''' (cn_ControlOperationID c)
        | _ \<Rightarrow> None)"

section \<open>Identities repeated in a payload\<close>

definition requireRepeatedIdentity :: "string \<Rightarrow> string \<Rightarrow> string \<Rightarrow> string option" where
  "requireRepeatedIdentity label envelope payload = fail_if (envelope \<noteq> payload) (label @ '' does not match envelope'')"

definition validateAuthorizationEnvelopeIdentities :: "envelope \<Rightarrow> auth_request \<Rightarrow> string option" where
  "validateAuthorizationEnvelopeIdentities e r = first_err
     (map (\<lambda>(label, a, b). requireRepeatedIdentity (''authorization request '' @ label) a b)
       [(''session ID'', en_SessionID e, rq_SessionID r), (''task ID'', en_TaskID e, rq_TaskID r),
        (''turn ID'', en_TurnID e, rq_TurnID r), (''activity ID'', en_ActivityID e, rq_ActivityID r),
        (''parent activity ID'', en_ParentActivityID e, rq_ParentActivityID r),
        (''runtime generation ID'', en_RuntimeGenerationID e, rq_RuntimeGenerationID r)])"

definition validateEnvelopeIdentity :: "codec_env \<Rightarrow> envelope \<Rightarrow> payload \<Rightarrow> string option" where
  "validateEnvelopeIdentity cx e p =
     (case p of
        P_ActivityPlanned v \<Rightarrow>
          (case ap_Plan v of
             None \<Rightarrow> None
           | Some pl \<Rightarrow> requireRepeatedIdentity ''activity.planned runtime generation ID'' (en_RuntimeGenerationID e)
               (pb_RuntimeGenerationID (pl_Body pl)))
      | P_ActivityStarted v \<Rightarrow> first_err
          [requireRepeatedIdentity ''activity.started activity ID'' (en_ActivityID e) (as_ActivityID v),
           requireRepeatedIdentity ''activity.started runtime generation ID'' (en_RuntimeGenerationID e)
             (as_RuntimeGenerationID v)]
      | P_AuthorizationRequested r \<Rightarrow> validateAuthorizationEnvelopeIdentities e r
      | P_AuthorizationDecided d \<Rightarrow> validateAuthorizationEnvelopeIdentities e (dc_Request d)
      | P_AuthorizationConsumed c \<Rightarrow> first_err
          [if cn_ActivityID c \<noteq> '''' then requireRepeatedIdentity ''authorization.decision_consumed activity ID''
             (en_ActivityID e) (cn_ActivityID c) else None,
           requireRepeatedIdentity ''authorization.decision_consumed runtime generation ID'' (en_RuntimeGenerationID e)
             (cn_RuntimeGenerationID c)]
      | P_EvidenceRecorded r \<Rightarrow> first_err
          [requireRepeatedIdentity ''evidence.recorded session ID'' (en_SessionID e) (ev_SessionID (er_Body r)),
           requireRepeatedIdentity ''evidence.recorded activity ID'' (en_ActivityID e)
             (ev_ProducingActivityID (er_Body r))]
      | P_Diagnostic d \<Rightarrow>
          fail_if (jr_Kind (di_Journal d) \<noteq> en_JournalKind e \<or> jr_ID (di_Journal d) \<noteq> en_JournalID e)
            ''diagnostic journal does not match envelope''
      | P_TransactionCommitted m \<Rightarrow>
          fail_if (tm_TransactionID m \<noteq> en_TransactionID e) ''transaction ID does not match envelope''
      | P_Opaque t \<Rightarrow> cx_OtherIdentity cx e p
      | _ \<Rightarrow> None)"

section \<open>Decode and Validate\<close>

text \<open>
  \<open>Decode\<close>: the record; or, with the record as far as it was built, that its kind or its version is
  unknown, or another error.
\<close>

datatype decoded = Decoded event | Unknown string event | Undecodable string event

definition zero_envelope :: envelope where
  "zero_envelope = \<lparr>en_SchemaVersion = 0, en_PayloadVersion = 0, en_JournalKind = '''', en_JournalID = '''',
     en_EventID = '''', en_SessionID = '''', en_Seq = 0, en_Time = 0, en_Kind = '''', en_TaskID = '''',
     en_TurnID = '''', en_ActivityID = '''', en_ParentActivityID = '''', en_CausationEventID = '''',
     en_Actor = None, en_RuntimeGenerationID = '''', en_TransactionID = '''', en_Payload = None\<rparr>"

definition decode_record :: "string \<Rightarrow> envelope \<Rightarrow> payload option \<Rightarrow> event" where
  "decode_record raw e p = \<lparr>e_Envelope = e, e_Decoded = p, e_RawEnvelope = Some raw, e_Legacy = None\<rparr>"

text \<open>The second half, from the descriptor on.\<close>

definition decode_payload :: "codec_env \<Rightarrow> string \<Rightarrow> envelope \<Rightarrow> descriptor \<Rightarrow> decoded" where
  "decode_payload cx raw e d =
     (let p = raw_bytes (en_Payload e) in
      case canonical_marshal p of
        Inl m \<Rightarrow> Undecodable m (decode_record raw e None)
      | Inr c \<Rightarrow>
      (case cx_Payload cx (ds_Type d) p of
        Inl m \<Rightarrow> Undecodable m (decode_record raw e None)
      | Inr v \<Rightarrow>
      (case cx_PayloadFields cx (ds_Type d) p of
        Some m \<Rightarrow> Undecodable m (decode_record raw e None)
      | None \<Rightarrow>
      (case first_err [ds_Envelope d e v, validateJournalFamily e v, ds_Structural d v] of
        Some m \<Rightarrow> Undecodable m (decode_record raw e (Some v))
      | None \<Rightarrow> Decoded (decode_record raw e (Some v))))))"

definition registry_Decode :: "codec_env \<Rightarrow> string \<Rightarrow> decoded" where
  "registry_Decode cx raw =
     (if raw = [] \<or> MaxEventBytes < int (length raw) then
        Undecodable ''event envelope size'' (decode_record raw zero_envelope None)
      else case canonical_marshal raw of
        Inl m \<Rightarrow> Undecodable m (decode_record raw zero_envelope None)
      | Inr c \<Rightarrow>
      (case cx_Envelope cx raw of (e, err) \<Rightarrow>
        (case first_err [err, cx_EnvelopeFields cx raw, ValidateEnvelope (cx_EnvelopeLength cx) e] of
           Some m \<Rightarrow> Undecodable m (decode_record raw e None)
         | None \<Rightarrow>
             (case registry_lookup (cx_Registry cx) (en_Kind e) (en_PayloadVersion e) of
                Inl UnknownKind \<Rightarrow> Unknown ''unknown event kind'' (decode_record raw e None)
              | Inl UnsupportedVersion \<Rightarrow> Unknown ''unsupported payload version'' (decode_record raw e None)
              | Inr d \<Rightarrow> decode_payload cx raw e d))))"

definition registry_Validate :: "codec_env \<Rightarrow> event \<Rightarrow> string option" where
  "registry_Validate cx r =
     (let e = e_Envelope r in
      case ValidateEnvelope (cx_EnvelopeLength cx) e of
        Some m \<Rightarrow> Some m
      | None \<Rightarrow>
          (case registry_lookup (cx_Registry cx) (en_Kind e) (en_PayloadVersion e) of
             Inl UnknownKind \<Rightarrow> Some ''unknown event kind''
           | Inl UnsupportedVersion \<Rightarrow> Some ''unsupported payload version''
           | Inr d \<Rightarrow>
               (case e_Decoded r of
                  None \<Rightarrow> Some ''decoded payload is required''
                | Some v \<Rightarrow>
                    if payload_type v \<noteq> ds_Type d then Some ''decoded payload type''
                    else (case cx_Payload cx (ds_Type d) (raw_bytes (en_Payload e)) of
                        Inl m \<Rightarrow> Some m
                      | Inr fresh \<Rightarrow> first_err
                          [cx_PayloadFields cx (ds_Type d) (raw_bytes (en_Payload e)),
                           fail_if (v \<noteq> fresh) ''decoded payload does not match envelope payload'',
                           ds_Envelope d e v, validateJournalFamily e v, ds_Structural d v, ds_Semantic d v,
                           validateEnvelopeIdentity cx e v]))))"

section \<open>Lemmas\<close>

lemma registry_Validate_envelope:
  "registry_Validate cx r = None \<Longrightarrow> ValidateEnvelope (cx_EnvelopeLength cx) (e_Envelope r) = None"
  by (auto simp: registry_Validate_def Let_def split: option.splits simp del: first_err_None)

lemma registry_Decode_unknown_envelope:
  "registry_Decode cx raw = Unknown m r \<Longrightarrow> ValidateEnvelope (cx_EnvelopeLength cx) (e_Envelope r) = None"
  by (auto simp: registry_Decode_def decode_payload_def decode_record_def Let_def
      split: if_split_asm sum.splits prod.splits option.splits lookup_error.splits)

lemma ValidateEnvelope_fields:
  "ValidateEnvelope n e = None \<Longrightarrow> en_TransactionID e \<noteq> '''' \<and> en_EventID e \<noteq> '''' \<and> en_Seq e \<noteq> 0
     \<and> en_SchemaVersion e = EnvelopeVersion"
  by (auto simp: ValidateEnvelope_def)

end
