(* ===== verification/Journal_Scan.thy ===== *)
theory Journal_Scan
  imports Legacy_Upcast Event_Codec Projection_Store
begin

text \<open>
  Reading a session journal, \<open>internal/session/jsonl/journal.go\<close>: the file is cut into lines, each line
  is a legacy record or an event of the current format, and the events between two transaction markers
  are a committed transaction. The scan stops at the first line it cannot accept; what it has committed
  by then is the validated prefix of the journal.

  The file is its bytes. Operating-system errors and the cancelled context are left out. What
  \<open>json.Unmarshal\<close> reads of a line, the registry's codec, the canonical encoding of an envelope and SHA-256
  are the record \<open>journal_env\<close>. Copies of values (\<open>cloneJournalScan\<close>) have no counterpart, but for the
  rebuilding of the transaction table.
\<close>

section \<open>Lines of the file\<close>

abbreviation newline :: char where "newline \<equiv> CHR 0x0A"

text \<open>\<open>bufio.Reader.ReadSlice\<close> with a buffer of 64 KiB: the fragment, how it ended, the rest.\<close>

datatype slice_end = Delimiter | BufferFull | EndOfFile

definition ReadSlice :: "string \<Rightarrow> string \<times> slice_end \<times> string" where
  "ReadSlice bs =
     (let n = length (takeWhile (\<lambda>c. c \<noteq> newline) bs) in
      if n < length bs \<and> int n < 65536 then (take (n + 1) bs, Delimiter, drop (n + 1) bs)
      else if 65536 \<le> int (length bs) then (take 65536 bs, BufferFull, drop 65536 bs)
      else (bs, EndOfFile, []))"

text \<open>
  \<open>readJournalLine\<close>: the line with its newline, whether it is complete, whether the file has ended, and
  the rest; or that the line is too large, complete or not.
\<close>

datatype line_error = CompleteLineTooLarge | LineTooLarge

lemma ReadSlice_full: "ReadSlice bs = (f, BufferFull, r) \<Longrightarrow> length r < length bs"
  by (auto simp: ReadSlice_def Let_def split: if_split_asm)

function read_line :: "string \<Rightarrow> string \<Rightarrow> line_error + (string \<times> bool \<times> bool \<times> string)" where
  "read_line pending bs =
     (case ReadSlice bs of
        (fragment, how, rest) \<Rightarrow>
          if MaxEventBytes + 1 < int (length pending + length fragment) then
            (if fragment \<noteq> [] \<and> last fragment = newline then Inl CompleteLineTooLarge else Inl LineTooLarge)
          else if how = BufferFull then read_line (pending @ fragment) rest
          else (let contents = pending @ fragment in
            Inr (contents, contents \<noteq> [] \<and> last contents = newline, how = EndOfFile, rest)))"
  by pat_completeness auto
termination
  apply (relation "measure (\<lambda>(p, bs). length bs)")
   apply simp
  apply (drule sym, drule sym, simp)
  apply (drule sym, drule ReadSlice_full, simp)
  done

declare read_line.simps [simp del]

definition readJournalLine :: "string \<Rightarrow> line_error + (string \<times> bool \<times> bool \<times> string)" where
  "readJournalLine bs = read_line [] bs"

lemma ReadSlice_append: "ReadSlice bs = (f, how, r) \<Longrightarrow> f @ r = bs"
  by (auto simp: ReadSlice_def Let_def split: if_split_asm)

lemma read_line_append: "read_line p bs = Inr (l, c, eof, r) \<Longrightarrow> l @ r = p @ bs"
proof (induction p bs rule: read_line.induct)
  case (1 pending bs)
  obtain f how rest where s: "ReadSlice bs = (f, how, rest)" by (cases "ReadSlice bs") auto
  then show ?case
    using 1 ReadSlice_append [OF s] by (auto simp: read_line.simps [of pending bs] Let_def split: if_split_asm)
qed

lemma readJournalLine_append: "readJournalLine bs = Inr (l, c, eof, r) \<Longrightarrow> l @ r = bs"
  using read_line_append [of "[]" bs] by (simp add: readJournalLine_def)

lemma read_line_progress:
  "read_line p bs = Inr (l, c, eof, r) \<Longrightarrow> c = (l \<noteq> [] \<and> last l = newline) \<and> (l = [] \<longrightarrow> eof)"
proof (induction p bs rule: read_line.induct)
  case (1 pending bs)
  obtain f how rest where s: "ReadSlice bs = (f, how, rest)" by (cases "ReadSlice bs") auto
  have "how = Delimiter \<Longrightarrow> f \<noteq> []" using s by (auto simp: ReadSlice_def Let_def split: if_split_asm)
  then show ?case
    using 1 s by (cases how) (auto simp: read_line.simps [of pending bs] Let_def split: if_split_asm)
qed

text \<open>A nonempty line shortens the file: the scan ends.\<close>

lemma readJournalLine_shorter:
  "readJournalLine bs = Inr (l, c, eof, r) \<Longrightarrow> \<not> (l = [] \<and> eof) \<Longrightarrow> length r < length bs"
  using readJournalLine_append [of bs l c eof r] read_line_progress [of "[]" bs l c eof r]
  by (cases l) (auto simp: readJournalLine_def)

section \<open>The environment\<close>

record durable_event =
  du_SchemaVersion :: int
  du_EventID :: string
  du_SessionID :: string
  du_Seq :: u64
  du_Time :: gtime
  du_Kind :: string
  du_Payload :: raw_message

record journal_env =
  je_Schema :: "string \<Rightarrow> u32 res"
  je_TailTransaction :: "string \<Rightarrow> transaction_id"
  je_Legacy :: "string \<Rightarrow> durable_event res"
  je_JSONValid :: "raw_message \<Rightarrow> bool"
  je_Upcast :: upcast_env
  je_Codec :: codec_env
  je_Marshal :: "envelope \<Rightarrow> string res"
  je_Sha256Hex :: "string \<Rightarrow> string"

text \<open>\<open>canonicaljson.TransactionDigest\<close>: the canonical texts of the envelopes, one per line, hashed.\<close>

fun digest_input :: "journal_env \<Rightarrow> envelope list \<Rightarrow> string res" where
  "digest_input env [] = Inr []"
| "digest_input env (e # es) =
     (case je_Marshal env e of
        Inl m \<Rightarrow> Inl m
      | Inr raw \<Rightarrow> (case digest_input env es of Inl m \<Rightarrow> Inl m | Inr rest \<Rightarrow> Inr (raw @ newline # rest)))"

definition TransactionDigest :: "journal_env \<Rightarrow> envelope list \<Rightarrow> digest res" where
  "TransactionDigest env es =
     (case digest_input env es of
        Inl m \<Rightarrow> Inl m
      | Inr raw \<Rightarrow> Inr \<lparr>dg_Algorithm = DigestSHA256, dg_Value = je_Sha256Hex env raw\<rparr>)"

definition DurableEvent_Validate :: "journal_env \<Rightarrow> durable_event \<Rightarrow> string option" where
  "DurableEvent_Validate env e =
     fail_if (du_SchemaVersion e \<noteq> 1 \<or> du_EventID e = '''' \<or> du_SessionID e = '''' \<or> du_Seq e = 0
       \<or> du_Time e = 0 \<or> du_Kind e = '''' \<or> \<not> je_JSONValid env (du_Payload e)) ''invalid durable event''"

section \<open>The scan\<close>

record scanned_event =
  sd_record :: event
  sd_cursor :: cursor

record scanned_commit =
  sm_cursor :: cursor
  sm_events :: "event list"
  sm_envelopes :: "envelope list"
  sm_markerTime :: gtime
  sm_firstOffset :: int
  sm_endOffset :: int

record journal_scan =
  js_ref :: journal_ref
  js_head :: cursor
  js_events :: "scanned_event list"
  js_commits :: "scanned_commit list"
  js_transactions :: "(transaction_id, scanned_commit) gomap"
  js_eventIDs :: "event_id list"
  js_eventIDOrder :: "event_id list"
  js_physicalSeq :: u64
  js_writable :: bool
  js_diagnostics :: "diagnostic list"
  js_incompleteTransaction :: transaction_id
  js_incompleteTail :: bool
  js_hasLegacy :: bool
  js_hasV2 :: bool
  js_sourceSize :: int
  js_sourceDigest :: digest
  js_validPrefixSize :: int

definition new_scan :: "journal_ref \<Rightarrow> journal_scan" where
  "new_scan ref = \<lparr>js_ref = ref, js_head = zero_cursor, js_events = [], js_commits = [],
     js_transactions = [], js_eventIDs = [], js_eventIDOrder = [], js_physicalSeq = 0, js_writable = True,
     js_diagnostics = [], js_incompleteTransaction = '''', js_incompleteTail = False, js_hasLegacy = False,
     js_hasV2 = False, js_sourceSize = 0, js_sourceDigest = \<lparr>dg_Algorithm = '''', dg_Value = ''''\<rparr>,
     js_validPrefixSize = 0\<rparr>"

text \<open>The transaction table rebuilt from the commits, as a copy of a scan has it.\<close>

definition clone_transactions :: "journal_scan \<Rightarrow> journal_scan" where
  "clone_transactions s = s\<lparr>js_transactions :=
     foldl (\<lambda>m c. gput (cu_TransactionID (sm_cursor c)) c m) [] (js_commits s)\<rparr>"

definition journalDiagnostic :: "journal_ref \<Rightarrow> string \<Rightarrow> string \<Rightarrow> u64 \<Rightarrow> event_id \<Rightarrow> diagnostic" where
  "journalDiagnostic ref code message seq i = \<lparr>di_Code = code, di_Message = message, di_Journal = ref,
     di_AtSeq = seq, di_EventID = i, di_Details = None\<rparr>"

text \<open>
  The variables of the loop. \<open>ss_hashed\<close> is what was written to the prefix hash; \<open>ss_seen\<close> is the set
  \<open>seenEvents\<close>.
\<close>

record scan_state =
  ss_scan :: journal_scan
  ss_seen :: "event_id list"
  ss_pendingRecords :: "event list"
  ss_pendingEnvelopes :: "envelope list"
  ss_pendingID :: transaction_id
  ss_pendingOffset :: int
  ss_hasV2 :: bool
  ss_committedV2 :: bool
  ss_legacy :: upcast_state
  ss_offset :: int
  ss_hashed :: string

text \<open>How a line leaves the loop: an error returned, a \<open>break\<close>, or the next line.\<close>

datatype scan_step = Fatal string | Break scan_state | Continue scan_state

abbreviation on_scan :: "(journal_scan \<Rightarrow> journal_scan) \<Rightarrow> scan_state \<Rightarrow> scan_state" where
  "on_scan f st \<equiv> st\<lparr>ss_scan := f (ss_scan st)\<rparr>"

definition next_seq :: "scan_state \<Rightarrow> u64" where
  "next_seq st = js_physicalSeq (ss_scan st) + 1"

definition add_diagnostic :: "diagnostic \<Rightarrow> journal_scan \<Rightarrow> journal_scan" where
  "add_diagnostic d s = s\<lparr>js_diagnostics := js_diagnostics s @ [d]\<rparr>"

text \<open>The three statements before most of the breaks.\<close>

definition stop_line :: "journal_ref \<Rightarrow> scan_state \<Rightarrow> string \<Rightarrow> string \<Rightarrow> event_id \<Rightarrow> scan_step" where
  "stop_line ref st code message i =
     Break (on_scan (\<lambda>s. add_diagnostic (journalDiagnostic ref code message (js_physicalSeq s + 1) i)
       (s\<lparr>js_writable := False, js_incompleteTail := True\<rparr>)) st)"

definition diagnosticWithCode :: "diagnostic list \<Rightarrow> string \<Rightarrow> diagnostic option" where
  "diagnosticWithCode ds code = find (\<lambda>d. di_Code d = code) ds"

definition validateMappedLegacyRecord :: "registry \<Rightarrow> event \<Rightarrow> string option" where
  "validateMappedLegacyRecord registry r =
     (case registry_Descriptor registry (en_Kind (e_Envelope r)) (en_PayloadVersion (e_Envelope r)) of
        None \<Rightarrow> Some ''mapped legacy event kind has no v2 descriptor''
      | Some d \<Rightarrow> (case e_Decoded r of
          None \<Rightarrow> Some ''mapped legacy decoded payload type is invalid''
        | Some v \<Rightarrow> if payload_type v \<noteq> ds_Type d then Some ''mapped legacy decoded payload type is invalid''
            else ds_Semantic d v))"

section \<open>A legacy line\<close>

definition legacy_source_of :: "durable_event \<Rightarrow> string \<Rightarrow> legacy_source" where
  "legacy_source_of e line = \<lparr>lg_SchemaVersion = 1, lg_EventID = du_EventID e, lg_SessionID = du_SessionID e,
     lg_Seq = du_Seq e, lg_Time = du_Time e, lg_Kind = du_Kind e, lg_Payload = du_Payload e,
     lg_RawEnvelope = Some line\<rparr>"

definition legacy_record :: "legacy_source \<Rightarrow> string \<Rightarrow> event" where
  "legacy_record src line = \<lparr>e_Envelope = zero_envelope, e_Decoded = None, e_RawEnvelope = Some line, e_Legacy = Some src\<rparr>"

text \<open>A commit joins the scan: its events, itself, the table, the head and the validated prefix.\<close>

definition add_commit :: "scanned_commit \<Rightarrow> journal_scan \<Rightarrow> journal_scan" where
  "add_commit c s = s\<lparr>js_events := js_events s @ map (\<lambda>r. \<lparr>sd_record = r, sd_cursor = sm_cursor c\<rparr>) (sm_events c),
     js_commits := js_commits s @ [c],
     js_transactions := gput (cu_TransactionID (sm_cursor c)) c (js_transactions s),
     js_head := sm_cursor c, js_validPrefixSize := sm_endOffset c\<rparr>"

definition add_event_id :: "event_id \<Rightarrow> journal_scan \<Rightarrow> journal_scan" where
  "add_event_id i s = s\<lparr>js_eventIDs := i # js_eventIDs s, js_eventIDOrder := js_eventIDOrder s @ [i]\<rparr>"

definition commit_legacy ::
  "journal_ref \<Rightarrow> scan_state \<Rightarrow> legacy_source \<Rightarrow> upcast_state \<Rightarrow> string \<Rightarrow> int \<Rightarrow> scan_step" where
  "commit_legacy ref st src next line lineOffset =
     (let i = lg_EventID src; t = ''legacy:'' @ i in
      if i \<in> set (ss_seen st) then Fatal ''duplicate event ID''
      else if map_of (js_transactions (ss_scan st)) t \<noteq> None then Fatal ''duplicate transaction ID''
      else (let c = \<lparr>sm_cursor = \<lparr>cu_JournalKind = jr_Kind ref, cu_JournalID = jr_ID ref, cu_CommitSeq = lg_Seq src,
                cu_TransactionID = t\<rparr>, sm_events = [legacy_record src line], sm_envelopes = [],
              sm_markerTime = 0, sm_firstOffset = lineOffset, sm_endOffset = ss_offset st\<rparr>
        in Continue (st\<lparr>ss_seen := i # ss_seen st, ss_legacy := next,
             ss_scan := (add_commit c (add_event_id i (ss_scan st)))\<lparr>js_physicalSeq := lg_Seq src\<rparr>\<rparr>)))"

definition scan_v1 :: "journal_env \<Rightarrow> journal_ref \<Rightarrow> scan_state \<Rightarrow> string \<Rightarrow> int \<Rightarrow> scan_step" where
  "scan_v1 env ref st0 line lineOffset =
     (let st = on_scan (\<lambda>s. s\<lparr>js_hasLegacy := True\<rparr>) st0 in
      if ss_hasV2 st \<or> ss_pendingID st \<noteq> '''' then Fatal ''v1 event follows v2 journal data''
      else case je_Legacy env line of
          Inl m \<Rightarrow> stop_line ref st ''invalid_known_payload'' (''decode v1 event: '' @ m) ''''
        | Inr e \<Rightarrow>
            (case DurableEvent_Validate env e of
               Some m \<Rightarrow> stop_line ref st ''invalid_known_payload'' m (du_EventID e)
             | None \<Rightarrow>
                 if jr_Kind ref \<noteq> JournalSession \<or> du_SessionID e \<noteq> jr_ID ref then
                   stop_line ref st ''invalid_known_payload'' ''v1 journal identity mismatch'' (du_EventID e)
                 else if du_Seq e \<noteq> next_seq st then
                   stop_line ref st ''invalid_sequence'' ''v1 sequence'' (du_EventID e)
                 else (case UpcastV1 (je_Upcast env) (legacy_source_of e line) (ss_legacy st) of
                   (mapped, next, ds) \<Rightarrow>
                     (case diagnosticWithCode ds ''migration.invalid_payload'' of
                        Some d \<Rightarrow> stop_line ref st ''invalid_known_payload'' (di_Message d) (du_EventID e)
                      | None \<Rightarrow>
                          (case validateMappedLegacyRecord (cx_Registry (je_Codec env)) mapped of
                             Some m \<Rightarrow> stop_line ref st ''invalid_known_payload'' (''validate mapped v1 event: '' @ m) (du_EventID e)
                           | None \<Rightarrow> commit_legacy ref st (legacy_source_of e line) next line lineOffset)))))"

section \<open>A line of the current format\<close>

fun last_declaration :: "nat \<Rightarrow> event list \<Rightarrow> nat \<times> nat option \<times> compatibility_declared option" where
  "last_declaration i [] = (0, None, None)"
| "last_declaration i (r # rs) =
     (case last_declaration (i + 1) rs of
        (n, at, d) \<Rightarrow>
          if en_Kind (e_Envelope r) \<noteq> EventMigrationCompatibilityDeclared then (n, at, d)
          else if n = 0 then (1, Some i, case e_Decoded r of Some (P_CompatibilityDeclared c) \<Rightarrow> Some c | _ \<Rightarrow> None)
          else (n + 1, at, d))"

definition validateCompatibilityTransition :: "bool \<Rightarrow> bool \<Rightarrow> cursor \<Rightarrow> event list \<Rightarrow> string option" where
  "validateCompatibilityTransition hasLegacy committedV2 legacyHead records =
     (case last_declaration 0 records of
        (n, at, d) \<Rightarrow>
          if \<not> hasLegacy \<or> committedV2 then
            fail_if (n \<noteq> 0) ''migration compatibility declaration is only valid as the first event of the first v2 transaction after legacy data''
          else (case d of
              Some c \<Rightarrow>
                if n \<noteq> 1 \<or> at \<noteq> Some 0
                then Some ''first committed v2 transaction after legacy data requires exactly one compatibility declaration as its first event''
                else if mc_ReaderVersion c \<noteq> EnvelopeVersion \<or> mc_WriterVersion c \<noteq> EnvelopeVersion
                then Some ''migration compatibility reader/writer versions must both be 2''
                else if mc_LegacyHead c \<noteq> legacyHead
                then Some ''migration compatibility legacy head does not match the exact validated legacy head''
                else fail_if (mc_DowngradeStatus c \<noteq> ''v0.1_read_only_after_v2'')
                  ''migration compatibility downgrade status is invalid''
            | None \<Rightarrow> Some ''first committed v2 transaction after legacy data requires exactly one compatibility declaration as its first event''))"

definition rollbackPendingEventIDs :: "envelope list \<Rightarrow> event_id \<Rightarrow> journal_scan \<Rightarrow> journal_scan" where
  "rollbackPendingEventIDs pending markerID s =
     s\<lparr>js_eventIDs := filter (\<lambda>i. i \<notin> set (map en_EventID pending) \<and> i \<noteq> markerID) (js_eventIDs s),
       js_eventIDOrder := (if length pending + 1 \<le> length (js_eventIDOrder s)
         then take (length (js_eventIDOrder s) - (length pending + 1)) (js_eventIDOrder s) else js_eventIDOrder s)\<rparr>"

text \<open>The guards of a marker: bounds, count, digest.\<close>

definition marker_error :: "journal_env \<Rightarrow> scan_state \<Rightarrow> event \<Rightarrow> string option" where
  "marker_error env st r =
     (if ss_pendingID st = '''' \<or> ss_pendingEnvelopes st = [] then Some ''transaction marker has no events''
      else if en_TransactionID (e_Envelope r) \<noteq> ss_pendingID st then Some ''transaction marker ID''
      else case e_Decoded r of
          Some (P_TransactionCommitted m) \<Rightarrow>
            if tm_FirstSeq m \<noteq> en_Seq (hd (ss_pendingEnvelopes st)) \<or> tm_LastSeq m \<noteq> en_Seq (last (ss_pendingEnvelopes st))
               \<or> unat (tm_EventCount m) \<noteq> length (ss_pendingEnvelopes st)
            then Some ''transaction marker bounds/count mismatch''
            else (case TransactionDigest env (ss_pendingEnvelopes st) of
                Inl m' \<Rightarrow> Some m'
              | Inr d \<Rightarrow> fail_if (tm_Digest m \<noteq> d) ''transaction marker digest mismatch'')
        | _ \<Rightarrow> Some ''transaction marker payload type'')"

definition pending_commit :: "journal_ref \<Rightarrow> scan_state \<Rightarrow> envelope \<Rightarrow> scanned_commit" where
  "pending_commit ref st e = \<lparr>sm_cursor = \<lparr>cu_JournalKind = jr_Kind ref, cu_JournalID = jr_ID ref,
       cu_CommitSeq = en_Seq e, cu_TransactionID = ss_pendingID st\<rparr>,
     sm_events = ss_pendingRecords st, sm_envelopes = ss_pendingEnvelopes st, sm_markerTime = en_Time e,
     sm_firstOffset = ss_pendingOffset st, sm_endOffset = ss_offset st\<rparr>"

definition drop_pending :: "scan_state \<Rightarrow> scan_state" where
  "drop_pending st = st\<lparr>ss_pendingRecords := [], ss_pendingEnvelopes := [], ss_pendingID := ''''\<rparr>"

definition scan_marker :: "journal_env \<Rightarrow> journal_ref \<Rightarrow> scan_state \<Rightarrow> event \<Rightarrow> scan_step" where
  "scan_marker env ref st r =
     (case marker_error env st r of
        Some m \<Rightarrow> Fatal m
      | None \<Rightarrow>
          (case validateCompatibilityTransition (js_hasLegacy (ss_scan st)) (ss_committedV2 st) (js_head (ss_scan st))
                  (ss_pendingRecords st) of
             Some m \<Rightarrow>
               (let first = hd (ss_pendingEnvelopes st) in
                Break (drop_pending (on_scan (\<lambda>s. rollbackPendingEventIDs (ss_pendingEnvelopes st)
                  (en_EventID (e_Envelope r)) (add_diagnostic (journalDiagnostic ref ''invalid_transition'' m
                    (en_Seq first) (en_EventID first)) (s\<lparr>js_writable := False\<rparr>))) st)))
           | None \<Rightarrow>
               if map_of (js_transactions (ss_scan st)) (ss_pendingID st) \<noteq> None then Fatal ''duplicate transaction ID''
               else Continue (drop_pending (st\<lparr>ss_scan := add_commit (pending_commit ref st (e_Envelope r)) (ss_scan st),
                   ss_committedV2 := True\<rparr>))))"

definition scan_pending :: "scan_state \<Rightarrow> event \<Rightarrow> int \<Rightarrow> scan_step" where
  "scan_pending st r lineOffset =
     (let e = e_Envelope r in
      if 1000 \<le> int (length (ss_pendingEnvelopes st)) then Fatal ''physical transaction exceeds 1000 events''
      else if ss_pendingID st = '''' then
        (if map_of (js_transactions (ss_scan st)) (en_TransactionID e) \<noteq> None then Fatal ''duplicate transaction ID''
         else Continue (st\<lparr>ss_pendingID := en_TransactionID e, ss_pendingOffset := lineOffset,
             ss_pendingRecords := ss_pendingRecords st @ [r], ss_pendingEnvelopes := ss_pendingEnvelopes st @ [e]\<rparr>))
      else if en_TransactionID e \<noteq> ss_pendingID st then Fatal ''interleaved transaction before marker''
      else Continue (st\<lparr>ss_pendingRecords := ss_pendingRecords st @ [r], ss_pendingEnvelopes := ss_pendingEnvelopes st @ [e]\<rparr>))"

text \<open>A record of which the identity, the sequence and the event identifier are checked.\<close>

definition scan_record :: "journal_env \<Rightarrow> journal_ref \<Rightarrow> scan_state \<Rightarrow> event \<Rightarrow> bool \<Rightarrow> int \<Rightarrow> scan_step" where
  "scan_record env ref st r unknown lineOffset =
     (let e = e_Envelope r in
      if en_JournalKind e \<noteq> jr_Kind ref \<or> en_JournalID e \<noteq> jr_ID ref then
        stop_line ref st ''invalid_known_payload'' ''v2 journal identity mismatch'' (en_EventID e)
      else if en_Seq e \<noteq> next_seq st then stop_line ref st ''invalid_sequence'' ''v2 sequence'' (en_EventID e)
      else if en_EventID e \<in> set (ss_seen st) then Fatal ''duplicate event ID''
      else
        (let st1 = st\<lparr>ss_seen := en_EventID e # ss_seen st,
               ss_scan := (add_event_id (en_EventID e) (ss_scan st))\<lparr>js_physicalSeq := en_Seq e\<rparr>\<rparr> in
         if en_Kind e = EventTransactionCommitted \<and> unknown then
           Break (on_scan (\<lambda>s. s\<lparr>js_incompleteTail := True, js_incompleteTransaction := en_TransactionID e\<rparr>) st1)
         else if en_Kind e = EventTransactionCommitted then scan_marker env ref st1 r
         else scan_pending st1 r lineOffset))"

definition scan_v2 :: "journal_env \<Rightarrow> journal_ref \<Rightarrow> scan_state \<Rightarrow> string \<Rightarrow> int \<Rightarrow> scan_step" where
  "scan_v2 env ref st0 line lineOffset =
     (let st = (on_scan (\<lambda>s. s\<lparr>js_hasV2 := True\<rparr>) st0)\<lparr>ss_hasV2 := True\<rparr> in
      case registry_Decode (je_Codec env) line of
        Unknown m r \<Rightarrow>
          scan_record env ref (on_scan (\<lambda>s. add_diagnostic (journalDiagnostic ref ''unsupported_event'' m
            (en_Seq (e_Envelope r)) (en_EventID (e_Envelope r))) (s\<lparr>js_writable := False\<rparr>)) st) r True lineOffset
      | Undecodable m r \<Rightarrow>
          stop_line ref st ''invalid_known_payload'' (''decode v2 event: '' @ m) (en_EventID (e_Envelope r))
      | Decoded r \<Rightarrow>
          (case registry_Validate (je_Codec env) r of
             Some m \<Rightarrow> stop_line ref st ''invalid_known_payload'' (''validate v2 event: '' @ m) (en_EventID (e_Envelope r))
           | None \<Rightarrow> scan_record env ref st r False lineOffset))"

section \<open>The loop\<close>

text \<open>A complete line, without its newline; \<open>lineOffset\<close> is where it begins.\<close>

definition scan_line :: "journal_env \<Rightarrow> journal_ref \<Rightarrow> scan_state \<Rightarrow> string \<Rightarrow> int \<Rightarrow> scan_step" where
  "scan_line env ref st line lineOffset =
     (if line = [] then stop_line ref st ''invalid_known_payload'' ''empty journal line'' ''''
      else case je_Schema env line of
          Inl m \<Rightarrow> stop_line ref st ''invalid_known_payload'' (''decode journal line: '' @ m) ''''
        | Inr v \<Rightarrow>
            if v = 1 then scan_v1 env ref st line lineOffset
            else if v = EnvelopeVersion then scan_v2 env ref st line lineOffset
            else stop_line ref st ''unsupported_envelope_version'' ''unsupported envelope version'' '''')"

definition scan_partial :: "journal_env \<Rightarrow> journal_ref \<Rightarrow> scan_state \<Rightarrow> string \<Rightarrow> scan_step" where
  "scan_partial env ref st physical =
     stop_line ref (on_scan (\<lambda>s. s\<lparr>js_incompleteTransaction :=
         (if ss_pendingID st = '''' then je_TailTransaction env physical else ss_pendingID st)\<rparr>) st)
       ''incomplete_final_fragment'' ''journal has an incomplete final line'' ''''"

text \<open>The bytes of a line that was read are hashed and counted.\<close>

definition count_line :: "string \<Rightarrow> scan_state \<Rightarrow> scan_state" where
  "count_line physical st = st\<lparr>ss_hashed := ss_hashed st @ physical, ss_offset := ss_offset st + int (length physical),
     ss_scan := (ss_scan st)\<lparr>js_sourceSize := js_sourceSize (ss_scan st) + int (length physical)\<rparr>\<rparr>"

function scan_lines :: "journal_env \<Rightarrow> journal_ref \<Rightarrow> scan_state \<Rightarrow> string \<Rightarrow> scan_state res" where
  "scan_lines env ref st bs =
     (case readJournalLine bs of
        Inl e \<Rightarrow>
          (case stop_line ref st (if e = CompleteLineTooLarge then ''invalid_known_payload'' else ''incomplete_final_fragment'')
                  ''journal line exceeds maximum event size'' '''' of
             Break st' \<Rightarrow> Inr st' | Continue st' \<Rightarrow> Inr st' | Fatal m \<Rightarrow> Inl m)
      | Inr (physical, complete, eof, rest) \<Rightarrow>
          if physical = [] \<and> eof then Inr st
          else
            (case (if \<not> complete then scan_partial env ref (count_line physical st) physical
                   else scan_line env ref (count_line physical st) (butlast physical) (ss_offset st)) of
               Fatal m \<Rightarrow> Inl m
             | Break st' \<Rightarrow> Inr st'
             | Continue st' \<Rightarrow> if eof then Inr st' else scan_lines env ref st' rest))"
  by pat_completeness auto
termination
  by (relation "measure (\<lambda>(env, ref, st, bs). length bs)") (auto dest: readJournalLine_shorter)

declare scan_lines.simps [simp del]

definition legacyStateAfterScan :: "journal_env \<Rightarrow> journal_scan \<Rightarrow> session_id \<Rightarrow> upcast_state" where
  "legacyStateAfterScan env s sessionID =
     foldl (\<lambda>u r. case e_Legacy (sd_record r) of
         None \<Rightarrow> u
       | Some l \<Rightarrow> (case UpcastV1 (je_Upcast env) l u of (e, u', ds) \<Rightarrow> u'))
       (zero_upcast sessionID) (js_events s)"

text \<open>After the loop: a transaction without its marker, the digest and the size of the file.\<close>

definition finish_scan :: "journal_env \<Rightarrow> journal_ref \<Rightarrow> string \<Rightarrow> scan_state \<Rightarrow> journal_scan" where
  "finish_scan env ref file st =
     (let s = ss_scan st;
          s1 = (if ss_pendingID st \<noteq> '''' then
            add_diagnostic (journalDiagnostic ref ''incomplete_transaction'' ''transaction has no durable commit marker''
                (js_physicalSeq s) (en_EventID (last (ss_pendingEnvelopes st))))
              (s\<lparr>js_incompleteTail := True, js_writable := False, js_incompleteTransaction := ss_pendingID st\<rparr>)
            else s)
      in s1\<lparr>js_sourceDigest := \<lparr>dg_Algorithm = DigestSHA256, dg_Value = je_Sha256Hex env (ss_hashed st)\<rparr>,
            js_sourceSize := int (length file)\<rparr>)"

definition start_scan :: "journal_env \<Rightarrow> journal_ref \<Rightarrow> string \<Rightarrow> journal_scan \<Rightarrow> scan_state" where
  "start_scan env ref file s = \<lparr>ss_scan = s, ss_seen = js_eventIDs s, ss_pendingRecords = [], ss_pendingEnvelopes = [],
     ss_pendingID = '''', ss_pendingOffset = 0, ss_hasV2 = js_hasV2 s, ss_committedV2 = js_hasV2 s,
     ss_legacy = legacyStateAfterScan env s (jr_ID ref), ss_offset = js_sourceSize s,
     ss_hashed = take (nat (js_sourceSize s)) file\<rparr>"

text \<open>A prefix that is given is scanned before; the hash holds its bytes. \<open>None\<close> is the empty scan.\<close>

definition scanJournalAfterPrefix ::
  "journal_env \<Rightarrow> journal_ref \<Rightarrow> string \<Rightarrow> journal_scan option \<Rightarrow> journal_scan res" where
  "scanJournalAfterPrefix env ref file prefix =
     (let s = (case prefix of None \<Rightarrow> new_scan ref | Some p \<Rightarrow> clone_transactions p) in
      case scan_lines env ref (start_scan env ref file s) (drop (nat (js_sourceSize s)) file) of
        Inl m \<Rightarrow> Inl m
      | Inr st \<Rightarrow> Inr (finish_scan env ref file st))"

definition scanJournal :: "journal_env \<Rightarrow> journal_ref \<Rightarrow> string \<Rightarrow> journal_scan res" where
  "scanJournal env ref file = scanJournalAfterPrefix env ref file None"

definition recoveryEligible :: "journal_scan \<Rightarrow> bool" where
  "recoveryEligible s \<longleftrightarrow>
     \<not> (js_validPrefixSize s < 0 \<or> js_sourceSize s \<le> js_validPrefixSize s)
     \<and> list_all (\<lambda>d. di_Code d \<notin> {''unsupported_event'', ''unsupported_envelope_version'', ''invalid_known_payload'',
          ''invalid_sequence'', ''invalid_transition''}) (js_diagnostics s)
     \<and> list_ex (\<lambda>d. di_Code d \<in> {''incomplete_final_fragment'', ''incomplete_transaction''}) (js_diagnostics s)"

definition fatalLegacyInspectDiagnostic :: "diagnostic list \<Rightarrow> diagnostic option" where
  "fatalLegacyInspectDiagnostic ds =
     find (\<lambda>d. di_Code d \<in> {''invalid_known_payload'', ''invalid_sequence'', ''invalid_transition''}) ds"

end
