(* ===== verification/Journal_Lines.thy ===== *)
theory Journal_Lines
  imports Journal_Scan
begin

text \<open>
  The lines of a journal file: \<open>readJournalLine\<close>, which works on fragments of 64 KiB, returns the next
  line of at most \<open>MaxEventBytes\<close> bytes, and the loop of the scan runs over the complete lines.
\<close>

section \<open>One line\<close>

definition line_ok :: "string \<Rightarrow> bool" where
  "line_ok l \<longleftrightarrow> newline \<notin> set l \<and> int (length l) \<le> MaxEventBytes"

definition lines_bytes :: "string list \<Rightarrow> string" where
  "lines_bytes ls = concat (map (\<lambda>l. l @ [newline]) ls)"

lemma lines_bytes_simps [simp]: "lines_bytes [] = []" "lines_bytes (l # ls) = l @ newline # lines_bytes ls"
  "lines_bytes (ls @ ks) = lines_bytes ls @ lines_bytes ks"
  by (simp_all add: lines_bytes_def)

lemma takeWhile_line: "newline \<notin> set l \<Longrightarrow> takeWhile (\<lambda>c. c \<noteq> newline) (l @ newline # r) = l"
  by (induction l) auto

lemma takeWhile_no_line: "newline \<notin> set l \<Longrightarrow> takeWhile (\<lambda>c. c \<noteq> newline) l = l"
  by (induction l) auto

lemma ReadSlice_line:
  "newline \<notin> set l \<Longrightarrow> int (length l) < 65536 \<Longrightarrow> ReadSlice (l @ newline # r) = (l @ [newline], Delimiter, r)"
  by (simp add: ReadSlice_def takeWhile_line)

lemma ReadSlice_long_line:
  "newline \<notin> set l \<Longrightarrow> 65536 \<le> int (length l) \<Longrightarrow>
    ReadSlice (l @ r) = (take 65536 l, BufferFull, drop 65536 l @ r)"
proof -
  assume "newline \<notin> set l" and n: "65536 \<le> int (length l)"
  then have "takeWhile (\<lambda>c. c \<noteq> newline) (l @ r) = l @ takeWhile (\<lambda>c. c \<noteq> newline) r"
    by (intro takeWhile_append2) auto
  then have "65536 \<le> length (takeWhile (\<lambda>c. c \<noteq> newline) (l @ r))" using n by simp
  then show ?thesis using n by (simp add: ReadSlice_def)
qed

lemma ReadSlice_tail: "newline \<notin> set l \<Longrightarrow> int (length l) < 65536 \<Longrightarrow> ReadSlice l = (l, EndOfFile, [])"
  by (simp add: ReadSlice_def takeWhile_no_line)

lemma take_drop: "take n l @ drop n l @ x = l @ x"
  by (metis append_assoc append_take_drop_id)

lemma read_line_line:
  "newline \<notin> set l \<Longrightarrow> int (length p + length l) \<le> MaxEventBytes \<Longrightarrow>
    read_line p (l @ newline # r) = Inr (p @ l @ [newline], True, False, r)"
proof (induction "length l" arbitrary: l p rule: less_induct)
  case less
  show ?case
  proof (cases "int (length l) < 65536")
    case True
    then show ?thesis
      using less.prems ReadSlice_line [OF less.prems(1) True]
      by (simp add: read_line.simps [of p "l @ newline # r"] Let_def)
  next
    case False
    let ?f = "take 65536 l" and ?m = "drop 65536 l"
    have "read_line (p @ ?f) (?m @ newline # r) = Inr ((p @ ?f) @ ?m @ [newline], True, False, r)"
      using False less.prems by (intro less.hyps) (auto dest: in_set_dropD)
    then show ?thesis
      using False less.prems ReadSlice_long_line [of l "newline # r"]
      by (simp add: read_line.simps [of p "l @ newline # r"] take_drop)
  qed
qed

lemma readJournalLine_line: "line_ok l \<Longrightarrow> readJournalLine (l @ newline # r) = Inr (l @ [newline], True, False, r)"
  using read_line_line [of l "[]" r] by (simp add: readJournalLine_def line_ok_def)

lemma read_line_tail:
  "newline \<notin> set l \<Longrightarrow> newline \<notin> set p \<Longrightarrow> int (length p + length l) \<le> MaxEventBytes + 1 \<Longrightarrow>
    read_line p l = Inr (p @ l, False, True, [])"
proof (induction "length l" arbitrary: l p rule: less_induct)
  case less
  have nl: "(p = [] \<and> l = []) \<or> last (p @ l) \<noteq> newline"
  proof (cases "p @ l = []")
    case False
    then have "last (p @ l) \<in> set p \<union> set l" using last_in_set [of "p @ l"] by simp
    then show ?thesis using less.prems(1,2) by (metis UnE)
  qed simp
  show ?case
  proof (cases "int (length l) < 65536")
    case True
    then show ?thesis
      using less.prems ReadSlice_tail [OF less.prems(1) True] nl
      by (simp add: read_line.simps [of p l] Let_def)
  next
    case False
    let ?f = "take 65536 l" and ?m = "drop 65536 l"
    have "read_line (p @ ?f) ?m = Inr ((p @ ?f) @ ?m, False, True, [])"
      using False less.prems by (intro less.hyps) (auto dest: in_set_dropD in_set_takeD)
    then show ?thesis
      using False less.prems ReadSlice_long_line [of l "[]"]
      by (simp add: read_line.simps [of p l] take_drop)
  qed
qed

lemma readJournalLine_tail:
  "newline \<notin> set l \<Longrightarrow> int (length l) \<le> MaxEventBytes + 1 \<Longrightarrow> readJournalLine l = Inr (l, False, True, [])"
  using read_line_tail [of l "[]"] by (simp add: readJournalLine_def)

text \<open>A line that was read complete is a line of the file.\<close>

lemma ReadSlice_cases:
  assumes "ReadSlice bs = (f, how, r)"
  shows "if how = Delimiter then \<exists>l. f = l @ [newline] \<and> newline \<notin> set l else newline \<notin> set f"
proof (cases "newline \<in> set bs")
  case True
  then obtain l r' where bs: "bs = l @ newline # r'" "newline \<notin> set l" using split_list_first by metis
  show ?thesis
  proof (cases "int (length l) < 65536")
    case True
    then show ?thesis using assms bs ReadSlice_line by auto
  next
    case False
    then show ?thesis using assms bs ReadSlice_long_line [of l "newline # r'"] by (auto dest: in_set_takeD)
  qed
next
  case False
  then show ?thesis
    using assms ReadSlice_tail [OF False] ReadSlice_long_line [OF False, of "[]"]
    by (cases "int (length bs) < 65536") (auto dest: in_set_takeD)
qed

lemma read_line_complete:
  "read_line p bs = Inr (l, True, eof, r) \<Longrightarrow> newline \<notin> set p \<Longrightarrow> \<exists>k. l = k @ [newline] \<and> line_ok k \<and> \<not> eof"
proof (induction p bs rule: read_line.induct)
  case (1 pending bs)
  obtain f how rest where s: "ReadSlice bs = (f, how, rest)" by (cases "ReadSlice bs") auto
  note c = ReadSlice_cases [OF s]
  have small: "\<not> MaxEventBytes + 1 < int (length pending + length f)"
    using 1(2) s by (auto simp: read_line.simps [of pending bs] split: if_split_asm)
  show ?case
  proof (cases how)
    case Delimiter
    then obtain m where m: "f = m @ [newline]" "newline \<notin> set m" using c by auto
    then have "l = (pending @ m) @ [newline]" "\<not> eof"
      using 1(2) s small Delimiter by (auto simp: read_line.simps [of pending bs] Let_def)
    then show ?thesis using m small 1(3) by (auto simp: line_ok_def)
  next
    case BufferFull
    then show ?thesis using 1(1) [OF s [symmetric] refl small BufferFull] 1(2,3) s small c
      by (simp add: read_line.simps [of pending bs])
  next
    case EndOfFile
    then have "newline \<notin> set (pending @ f)" "pending @ f \<noteq> []" "last (pending @ f) = newline"
      using 1(2,3) s small c by (auto simp: read_line.simps [of pending bs] Let_def)
    then show ?thesis using last_in_set by metis
  qed
qed

lemma read_line_eof: "read_line p bs = Inr (l, c, True, r) \<Longrightarrow> r = []"
proof (induction p bs rule: read_line.induct)
  case (1 pending bs)
  obtain f how rest where s: "ReadSlice bs = (f, how, rest)" by (cases "ReadSlice bs") auto
  have "how = EndOfFile \<Longrightarrow> rest = []" using s by (auto simp: ReadSlice_def Let_def split: if_split_asm)
  then show ?case
    using 1 s by (auto simp: read_line.simps [of pending bs] Let_def split: if_split_asm)
qed

lemma readJournalLine_end: "readJournalLine bs = Inr ([], c, True, r) \<Longrightarrow> bs = []"
  using read_line_eof [of "[]" bs] readJournalLine_append [of bs] by (auto simp: readJournalLine_def)

lemma readJournalLine_complete:
  "readJournalLine bs = Inr (l, True, eof, r) \<Longrightarrow> \<exists>k. l = k @ [newline] \<and> line_ok k \<and> \<not> eof \<and> bs = k @ newline # r"
  using read_line_complete [of "[]" bs l eof r] readJournalLine_append [of bs l True eof r]
  by (auto simp: readJournalLine_def)

section \<open>The loop over complete lines\<close>

text \<open>A complete line in the loop.\<close>

definition line_step :: "journal_env \<Rightarrow> journal_ref \<Rightarrow> scan_state \<Rightarrow> string \<Rightarrow> scan_step" where
  "line_step env ref st l = scan_line env ref (count_line (l @ [newline]) st) l (ss_offset st)"

fun scan_run :: "journal_env \<Rightarrow> journal_ref \<Rightarrow> scan_state \<Rightarrow> string list \<Rightarrow> scan_step" where
  "scan_run env ref st [] = Continue st"
| "scan_run env ref st (l # ls) =
     (case line_step env ref st l of Continue st' \<Rightarrow> scan_run env ref st' ls | other \<Rightarrow> other)"

lemma scan_run_append:
  "scan_run env ref st (ls @ ks) =
     (case scan_run env ref st ls of Continue st' \<Rightarrow> scan_run env ref st' ks | other \<Rightarrow> other)"
  by (induction ls arbitrary: st) (auto split: scan_step.splits)

lemma scan_lines_empty: "scan_lines env ref st [] = Inr st"
  using readJournalLine_tail [of "[]"] by (simp add: scan_lines.simps [of env ref st "[]"])

lemma scan_lines_line:
  assumes "line_ok l"
  shows "scan_lines env ref st (l @ newline # r) =
    (case line_step env ref st l of Fatal m \<Rightarrow> Inl m | Break st' \<Rightarrow> Inr st' | Continue st' \<Rightarrow> scan_lines env ref st' r)"
  by (simp add: scan_lines.simps [of env ref st "l @ newline # r"] readJournalLine_line [OF assms] line_step_def
      del: not_False_eq_True cong: scan_step.case_cong split: scan_step.split)

lemma scan_lines_run:
  "list_all line_ok ls \<Longrightarrow> scan_lines env ref st (lines_bytes ls @ r) =
    (case scan_run env ref st ls of Fatal m \<Rightarrow> Inl m | Break st' \<Rightarrow> Inr st' | Continue st' \<Rightarrow> scan_lines env ref st' r)"
proof (induction ls arbitrary: st)
  case (Cons l ls)
  then show ?case by (simp add: scan_lines_line) (cases "line_step env ref st l"; simp)
qed simp

text \<open>A file after whose scan nothing is open was read line by line to its end.\<close>

definition scan_clean :: "scan_state \<Rightarrow> bool" where
  "scan_clean st \<longleftrightarrow> js_writable (ss_scan st) \<and> \<not> js_incompleteTail (ss_scan st)"

lemma stop_line_break: "stop_line ref st code m i = Break st' \<Longrightarrow> \<not> scan_clean st'"
  "stop_line ref st code m i \<noteq> Fatal e" "stop_line ref st code m i \<noteq> Continue st'"
  by (auto simp: stop_line_def add_diagnostic_def scan_clean_def)

lemma commit_legacy_break: "commit_legacy ref st src next line off \<noteq> Break st'"
  by (simp add: commit_legacy_def Let_def)

lemma scan_v1_break: "scan_v1 env ref st line off = Break st' \<Longrightarrow> \<not> scan_clean st'"
  by (auto simp: scan_v1_def Let_def commit_legacy_break dest!: stop_line_break(1)
      split: if_split_asm sum.splits option.splits prod.splits)

lemma scan_marker_break: "scan_marker env ref st r = Break st' \<Longrightarrow> \<not> scan_clean st'"
  by (auto simp: scan_marker_def Let_def scan_clean_def drop_pending_def rollbackPendingEventIDs_def add_diagnostic_def
      split: option.splits if_split_asm)

lemma scan_pending_break: "scan_pending st r off \<noteq> Break st'"
  by (simp add: scan_pending_def Let_def)

lemma scan_record_break: "scan_record env ref st r u off = Break st' \<Longrightarrow> \<not> scan_clean st'"
  by (auto simp: scan_record_def Let_def scan_pending_break scan_clean_def
      dest!: stop_line_break(1) scan_marker_break split: if_split_asm)

lemma scan_line_break: "scan_line env ref st line off = Break st' \<Longrightarrow> \<not> scan_clean st'"
  by (auto simp: scan_line_def scan_v2_def Let_def dest!: stop_line_break(1) scan_v1_break scan_record_break
      split: if_split_asm sum.splits decoded.splits option.splits)

lemma scan_lines_clean:
  "scan_lines env ref st bs = Inr st' \<Longrightarrow> scan_clean st' \<Longrightarrow>
    \<exists>ls. bs = lines_bytes ls \<and> list_all line_ok ls \<and> scan_run env ref st ls = Continue st'"
proof (induction env ref st bs rule: scan_lines.induct)
  case (1 env ref st bs)
  show ?case
  proof (cases "readJournalLine bs")
    case (Inl e)
    then show ?thesis
      using 1(2,3) stop_line_break by (auto simp: scan_lines.simps [of env ref st bs] split: scan_step.splits)
  next
    case (Inr a)
    obtain l c eof r where a: "a = (l, c, eof, r)" by (cases a) auto
    show ?thesis
    proof (cases "l = [] \<and> eof")
      case True
      then have "st' = st" "bs = []"
        using 1(2) Inr a readJournalLine_end [of bs c r] by (auto simp: scan_lines.simps [of env ref st bs])
      then show ?thesis by (intro exI [of _ "[]"]) simp
    next
      case False
      show ?thesis
      proof (cases c)
        case True
        obtain k where k: "l = k @ [newline]" "line_ok k" "\<not> eof" "bs = k @ newline # r"
          using readJournalLine_complete [of bs l eof r] Inr a True by auto
        have eq: "(case line_step env ref st k of Fatal m \<Rightarrow> Inl m | Break st' \<Rightarrow> Inr st'
            | Continue st' \<Rightarrow> scan_lines env ref st' r) = Inr st'"
          using 1(2) k scan_lines_line [OF k(2), of env ref st r] by simp
        show ?thesis
        proof (cases "line_step env ref st k")
          case (Continue st1)
          have "\<exists>ls. r = lines_bytes ls \<and> list_all line_ok ls \<and> scan_run env ref st1 ls = Continue st'"
            using 1(1) [of a l "(c, eof, r)" c "(eof, r)" eof r st1] False Inr a Continue eq k True 1(3)
            by (simp add: line_step_def)
          then obtain ls where "r = lines_bytes ls" "list_all line_ok ls" "scan_run env ref st1 ls = Continue st'" by blast
          then show ?thesis using k Continue by (intro exI [of _ "k # ls"]) simp
        qed (use eq 1(3) scan_line_break in \<open>auto simp: line_step_def\<close>)
      next
        case not: False
        then show ?thesis
          using 1(2,3) Inr a False stop_line_break
          by (auto simp: scan_lines.simps [of env ref st bs] scan_partial_def split: scan_step.splits)
      qed
    qed
  qed
qed

end
