(* ===== verification/Journal_Invariants.thy ===== *)
theory Journal_Invariants
  imports Journal_Lines
begin

text \<open>
  The state of a scan. What is committed is a log: the commits are numbered and placed one after the
  other, their transaction identifiers are distinct, and the table, the list of events and the head are
  determined by them. Between two lines the events that wait for their marker continue the log.
\<close>

section \<open>The committed log\<close>

fun seqs_from :: "u64 \<Rightarrow> u64 list \<Rightarrow> bool" where
  "seqs_from s [] = True"
| "seqs_from s (x # xs) = (x = s \<and> seqs_from (s + 1) xs)"

lemma seqs_from_append [simp]:
  "seqs_from s (xs @ ys) = (seqs_from s xs \<and> seqs_from (s + of_nat (length xs)) ys)"
  by (induction xs arbitrary: s) (auto simp: add.assoc)

text \<open>The sequence numbers of a commit: its events, then the marker; a legacy commit is its one record.\<close>

definition commit_seqs :: "scanned_commit \<Rightarrow> u64 list" where
  "commit_seqs c = map en_Seq (sm_envelopes c) @ [cu_CommitSeq (sm_cursor c)]"

definition commit_id :: "scanned_commit \<Rightarrow> transaction_id" where
  "commit_id c = cu_TransactionID (sm_cursor c)"

definition commit_events :: "scanned_commit \<Rightarrow> scanned_event list" where
  "commit_events c = map (\<lambda>r. \<lparr>sd_record = r, sd_cursor = sm_cursor c\<rparr>) (sm_events c)"

fun tiled :: "int \<Rightarrow> scanned_commit list \<Rightarrow> int \<Rightarrow> bool" where
  "tiled a [] b = (a = b)"
| "tiled a (c # cs) b = (sm_firstOffset c = a \<and> a < sm_endOffset c \<and> tiled (sm_endOffset c) cs b)"

lemma tiled_append: "tiled a (cs @ [c]) b \<longleftrightarrow> tiled a cs (sm_firstOffset c) \<and> sm_firstOffset c < sm_endOffset c \<and> b = sm_endOffset c"
  by (induction cs arbitrary: a) auto

lemma tiled_le: "tiled a cs b \<Longrightarrow> a \<le> b"
  by (induction cs arbitrary: a) force+

definition in_journal :: "journal_ref \<Rightarrow> transaction_id \<Rightarrow> event \<Rightarrow> bool" where
  "in_journal ref t r \<longleftrightarrow> e_Legacy r = None \<and> en_TransactionID (e_Envelope r) = t
     \<and> en_JournalKind (e_Envelope r) = jr_Kind ref \<and> en_JournalID (e_Envelope r) = jr_ID ref"

definition commit_ok :: "journal_ref \<Rightarrow> scanned_commit \<Rightarrow> bool" where
  "commit_ok ref c \<longleftrightarrow> cu_JournalKind (sm_cursor c) = jr_Kind ref \<and> cu_JournalID (sm_cursor c) = jr_ID ref
     \<and> (if sm_envelopes c = [] then \<exists>src line. sm_events c = [legacy_record src line]
            \<and> commit_id c = ''legacy:'' @ lg_EventID src \<and> cu_CommitSeq (sm_cursor c) = lg_Seq src
        else sm_envelopes c = map e_Envelope (sm_events c) \<and> length (sm_envelopes c) \<le> 1000 \<and> commit_id c \<noteq> ''''
            \<and> list_all (in_journal ref (commit_id c)) (sm_events c))"

definition log_ok :: "journal_ref \<Rightarrow> journal_scan \<Rightarrow> bool" where
  "log_ok ref s \<longleftrightarrow> js_ref s = ref \<and> list_all (commit_ok ref) (js_commits s)
     \<and> distinct (map commit_id (js_commits s))
     \<and> js_transactions s = map (\<lambda>c. (commit_id c, c)) (js_commits s)
     \<and> js_events s = concat (map commit_events (js_commits s))
     \<and> js_head s = (if js_commits s = [] then zero_cursor else sm_cursor (last (js_commits s)))
     \<and> tiled 0 (js_commits s) (js_validPrefixSize s)"

abbreviation log_seqs :: "journal_scan \<Rightarrow> u64 list" where
  "log_seqs s \<equiv> concat (map commit_seqs (js_commits s))"

lemma map_of_commits: "map_of (map (\<lambda>c. (commit_id c, c)) cs) t = None \<longleftrightarrow> t \<notin> set (map commit_id cs)"
  by (induction cs) auto

lemma log_ok_add_commit:
  assumes "log_ok ref s" "commit_ok ref c" "map_of (js_transactions s) (commit_id c) = None"
    "sm_firstOffset c = js_validPrefixSize s" "js_validPrefixSize s < sm_endOffset c"
  shows "log_ok ref (add_commit c s)"
proof -
  have "commit_id c \<notin> set (map commit_id (js_commits s))"
    using assms(1,3) map_of_commits [of "js_commits s"] by (simp add: log_ok_def)
  then show ?thesis using assms
    by (simp add: log_ok_def add_commit_def tiled_append gput_new commit_events_def commit_id_def)
qed

lemma clone_log: "log_ok ref s \<Longrightarrow> clone_transactions s = s"
proof -
  assume l: "log_ok ref s"
  have "distinct (map commit_id (cs @ ds)) \<Longrightarrow>
      foldl (\<lambda>m c. gput (commit_id c) c m) (map (\<lambda>c. (commit_id c, c)) cs) ds = map (\<lambda>c. (commit_id c, c)) (cs @ ds)" for cs ds
  proof (induction ds arbitrary: cs)
    case (Cons d ds)
    have "map_of (map (\<lambda>c. (commit_id c, c)) cs) (commit_id d) = None"
      using Cons.prems map_of_commits [of cs "commit_id d"] by auto
    then show ?case using Cons.IH [of "cs @ [d]"] Cons.prems by (simp add: gput_new)
  qed simp
  from this [of "[]" "js_commits s"] l show ?thesis
    by (simp add: clone_transactions_def log_ok_def flip: commit_id_def)
qed

section \<open>The state between two lines\<close>

text \<open>\<open>off\<close> is where the next line begins.\<close>

definition scan_inv :: "journal_ref \<Rightarrow> int \<Rightarrow> scan_state \<Rightarrow> bool" where
  "scan_inv ref off st \<longleftrightarrow> log_ok ref (ss_scan st)
     \<and> js_eventIDs (ss_scan st) = ss_seen st \<and> ss_seen st = rev (js_eventIDOrder (ss_scan st))
     \<and> distinct (js_eventIDOrder (ss_scan st))
     \<and> seqs_from 1 (log_seqs (ss_scan st) @ map en_Seq (ss_pendingEnvelopes st))
     \<and> length (js_eventIDOrder (ss_scan st)) = length (log_seqs (ss_scan st) @ map en_Seq (ss_pendingEnvelopes st))
     \<and> js_physicalSeq (ss_scan st) = of_nat (length (js_eventIDOrder (ss_scan st)))
     \<and> ss_pendingEnvelopes st = map e_Envelope (ss_pendingRecords st)
     \<and> (ss_pendingID st = '''' \<longleftrightarrow> ss_pendingRecords st = [])
     \<and> list_all (in_journal ref (ss_pendingID st)) (ss_pendingRecords st)
     \<and> length (ss_pendingRecords st) \<le> 1000
     \<and> (if ss_pendingID st = '''' then js_validPrefixSize (ss_scan st) = off
        else ss_pendingOffset st = js_validPrefixSize (ss_scan st) \<and> js_validPrefixSize (ss_scan st) < off)"

definition v2_inv :: "scan_state \<Rightarrow> bool" where
  "v2_inv st \<longleftrightarrow> js_hasV2 (ss_scan st) = ss_hasV2 st \<and> (ss_committedV2 st \<longrightarrow> ss_hasV2 st)
     \<and> (ss_hasV2 st \<and> ss_pendingID st = '''' \<longrightarrow> ss_committedV2 st)"

definition legacy_inv :: "journal_env \<Rightarrow> journal_ref \<Rightarrow> scan_state \<Rightarrow> bool" where
  "legacy_inv env ref st \<longleftrightarrow> ss_legacy st = legacyStateAfterScan env (ss_scan st) (jr_ID ref)
     \<and> list_all (\<lambda>r. e_Legacy r = None) (ss_pendingRecords st)"

text \<open>The records the codec gives.\<close>

definition record_ok :: "event \<Rightarrow> bool" where
  "record_ok r \<longleftrightarrow> en_TransactionID (e_Envelope r) \<noteq> '''' \<and> e_Legacy r = None"

lemma Decode_no_legacy:
  "registry_Decode cx raw = Decoded r \<Longrightarrow> e_Legacy r = None" "registry_Decode cx raw = Unknown m r \<Longrightarrow> e_Legacy r = None"
  by (auto simp: registry_Decode_def decode_payload_def decode_record_def Let_def
      split: if_split_asm sum.splits prod.splits option.splits lookup_error.splits)

lemma record_ok_Unknown: "registry_Decode cx raw = Unknown m r \<Longrightarrow> record_ok r"
  by (auto simp: record_ok_def dest: registry_Decode_unknown_envelope Decode_no_legacy(2) dest!: ValidateEnvelope_fields)

lemma record_ok_Decoded: "registry_Decode cx raw = Decoded r \<Longrightarrow> registry_Validate cx r = None \<Longrightarrow> record_ok r"
  by (auto simp: record_ok_def dest: registry_Validate_envelope Decode_no_legacy(1) dest!: ValidateEnvelope_fields)

section \<open>One line\<close>

lemma scan_inv_legacy:
  assumes inv: "scan_inv ref off st" and off: "off < ss_offset st" and p: "ss_pendingID st = ''''"
    and seq: "lg_Seq src = next_seq st" and c: "commit_legacy ref st src next line off = Continue st'"
  shows "scan_inv ref (ss_offset st') st'" "ss_offset st' = ss_offset st"
proof -
  let ?c = "\<lparr>sm_cursor = \<lparr>cu_JournalKind = jr_Kind ref, cu_JournalID = jr_ID ref, cu_CommitSeq = lg_Seq src,
      cu_TransactionID = ''legacy:'' @ lg_EventID src\<rparr>, sm_events = [legacy_record src line], sm_envelopes = [],
      sm_markerTime = 0, sm_firstOffset = off, sm_endOffset = ss_offset st\<rparr>"
  let ?s = "add_commit ?c (add_event_id (lg_EventID src) (ss_scan st))"
  have i: "lg_EventID src \<notin> set (ss_seen st)" and t: "map_of (js_transactions (ss_scan st)) (''legacy:'' @ lg_EventID src) = None"
    and st': "st' = st\<lparr>ss_seen := lg_EventID src # ss_seen st, ss_legacy := next, ss_scan := ?s\<lparr>js_physicalSeq := lg_Seq src\<rparr>\<rparr>"
    using c by (auto simp: commit_legacy_def Let_def split: if_split_asm)
  have "commit_ok ref ?c" by (auto simp: commit_ok_def commit_id_def)
  then have "log_ok ref ?s"
    using inv t off p by (intro log_ok_add_commit) (auto simp: scan_inv_def log_ok_def add_event_id_def commit_id_def)
  then have "log_ok ref (?s\<lparr>js_physicalSeq := lg_Seq src\<rparr>)" by (simp add: log_ok_def)
  then show "scan_inv ref (ss_offset st') st'"
    using inv i p seq
    by (auto simp: scan_inv_def st' add_commit_def add_event_id_def commit_seqs_def next_seq_def add.commute)
  show "ss_offset st' = ss_offset st" by (simp add: st')
qed

text \<open>A record after its checks: the event joins the open transaction, or the marker commits it.\<close>

definition seen_record :: "scan_state \<Rightarrow> event \<Rightarrow> scan_state" where
  "seen_record st r = st\<lparr>ss_seen := en_EventID (e_Envelope r) # ss_seen st,
     ss_scan := (add_event_id (en_EventID (e_Envelope r)) (ss_scan st))\<lparr>js_physicalSeq := en_Seq (e_Envelope r)\<rparr>\<rparr>"

lemma scan_record_seen:
  "scan_record env ref st r u off =
     (if en_JournalKind (e_Envelope r) \<noteq> jr_Kind ref \<or> en_JournalID (e_Envelope r) \<noteq> jr_ID ref then
        stop_line ref st ''invalid_known_payload'' ''v2 journal identity mismatch'' (en_EventID (e_Envelope r))
      else if en_Seq (e_Envelope r) \<noteq> next_seq st then
        stop_line ref st ''invalid_sequence'' ''v2 sequence'' (en_EventID (e_Envelope r))
      else if en_EventID (e_Envelope r) \<in> set (ss_seen st) then Fatal ''duplicate event ID''
      else if en_Kind (e_Envelope r) = EventTransactionCommitted \<and> u then
        Break (on_scan (\<lambda>s. s\<lparr>js_incompleteTail := True,
          js_incompleteTransaction := en_TransactionID (e_Envelope r)\<rparr>) (seen_record st r))
      else if en_Kind (e_Envelope r) = EventTransactionCommitted then scan_marker env ref (seen_record st r) r
      else scan_pending (seen_record st r) r off)"
  unfolding scan_record_def seen_record_def Let_def by (rule refl)

lemma scan_record_Continue:
  assumes "scan_record env ref st r u off = Continue st'"
  shows "in_journal ref (en_TransactionID (e_Envelope r)) r \<or> e_Legacy r \<noteq> None"
    "en_Seq (e_Envelope r) = next_seq st" "en_EventID (e_Envelope r) \<notin> set (ss_seen st)"
    "scan_marker env ref (seen_record st r) r = Continue st' \<or> scan_pending (seen_record st r) r off = Continue st'"
  using assms by (auto simp: scan_record_def Let_def in_journal_def seen_record_def stop_line_def split: if_split_asm)

lemma scan_marker_Continue:
  assumes "scan_marker env ref st r = Continue st'"
  shows "ss_pendingID st \<noteq> ''''" "ss_pendingEnvelopes st \<noteq> []" "en_TransactionID (e_Envelope r) = ss_pendingID st"
    "map_of (js_transactions (ss_scan st)) (ss_pendingID st) = None"
    "st' = drop_pending (st\<lparr>ss_scan := add_commit (pending_commit ref st (e_Envelope r)) (ss_scan st), ss_committedV2 := True\<rparr>)"
  using assms by (auto simp: scan_marker_def marker_error_def Let_def split: if_split_asm option.splits)

lemma scan_pending_Continue:
  assumes "scan_pending st r off = Continue st'"
  shows "length (ss_pendingEnvelopes st) < 1000"
    "ss_pendingID st = '''' \<or> en_TransactionID (e_Envelope r) = ss_pendingID st"
    "ss_pendingID st = '''' \<Longrightarrow> map_of (js_transactions (ss_scan st)) (en_TransactionID (e_Envelope r)) = None"
    "st' = st\<lparr>ss_pendingID := en_TransactionID (e_Envelope r),
       ss_pendingOffset := (if ss_pendingID st = '''' then off else ss_pendingOffset st),
       ss_pendingRecords := ss_pendingRecords st @ [r], ss_pendingEnvelopes := ss_pendingEnvelopes st @ [e_Envelope r]\<rparr>"
  using assms by (auto simp: scan_pending_def Let_def split: if_split_asm)

lemma scan_inv_marker:
  assumes inv: "scan_inv ref off st" and off: "off < ss_offset st"
    and seq: "en_Seq (e_Envelope r) = next_seq st" and i: "en_EventID (e_Envelope r) \<notin> set (ss_seen st)"
    and m: "scan_marker env ref (seen_record st r) r = Continue st'"
  shows "scan_inv ref (ss_offset st') st' \<and> ss_offset st' = ss_offset st"
proof -
  let ?c = "pending_commit ref (seen_record st r) (e_Envelope r)"
  note m = scan_marker_Continue [OF m]
  have "commit_ok ref ?c"
    using inv m by (auto simp: commit_ok_def pending_commit_def commit_id_def seen_record_def scan_inv_def)
  then have "log_ok ref (add_commit ?c (ss_scan (seen_record st r)))"
    using inv m off
    by (intro log_ok_add_commit)
      (auto simp: scan_inv_def log_ok_def seen_record_def add_event_id_def pending_commit_def commit_id_def)
  then show ?thesis
    using inv i seq unfolding m(5)
    by (auto simp: scan_inv_def drop_pending_def seen_record_def add_commit_def add_event_id_def commit_seqs_def
        pending_commit_def next_seq_def add.commute)
qed

lemma scan_inv_pending:
  assumes inv: "scan_inv ref off st" and off: "off < ss_offset st" and r: "in_journal ref (en_TransactionID (e_Envelope r)) r"
    and t: "en_TransactionID (e_Envelope r) \<noteq> ''''"
    and seq: "en_Seq (e_Envelope r) = next_seq st" and i: "en_EventID (e_Envelope r) \<notin> set (ss_seen st)"
    and m: "scan_pending (seen_record st r) r off = Continue st'"
  shows "scan_inv ref (ss_offset st') st' \<and> ss_offset st' = ss_offset st"
proof -
  note m = scan_pending_Continue [OF m]
  have "log_ok ref (ss_scan st')"
    using inv unfolding m(4) by (simp add: scan_inv_def log_ok_def seen_record_def add_event_id_def)
  moreover have "list_all (in_journal ref (en_TransactionID (e_Envelope r))) (ss_pendingRecords st @ [r])"
    using inv r m(2) by (auto simp: scan_inv_def seen_record_def)
  moreover have "length (ss_pendingRecords st) < 1000" "ss_pendingEnvelopes st = map e_Envelope (ss_pendingRecords st)"
    "ss_pendingID st = '''' \<longleftrightarrow> ss_pendingRecords st = []"
    using m(1) inv by (auto simp: scan_inv_def seen_record_def)
  ultimately show ?thesis
    using inv i seq t off m(2) unfolding m(4) scan_inv_def
    by (cases "ss_pendingID st = ''''") (auto simp: seen_record_def add_event_id_def next_seq_def add.commute)
qed

lemma scan_inv_record:
  assumes "scan_inv ref off st" "off < ss_offset st" "record_ok r" "scan_record env ref st r u off = Continue st'"
  shows "scan_inv ref (ss_offset st') st' \<and> ss_offset st' = ss_offset st"
  using scan_record_Continue [OF assms(4)] assms(1-3) scan_inv_marker [OF assms(1,2)] scan_inv_pending [OF assms(1,2)]
  unfolding record_ok_def by metis

definition v2_state :: "scan_state \<Rightarrow> scan_state" where
  "v2_state st = (on_scan (\<lambda>s. s\<lparr>js_hasV2 := True\<rparr>) st)\<lparr>ss_hasV2 := True\<rparr>"

text \<open>The two flags of a scan say nothing about the log.\<close>

lemma scan_inv_flags [simp]:
  "scan_inv ref off (st\<lparr>ss_scan := (ss_scan st)\<lparr>js_hasLegacy := b\<rparr>\<rparr>) = scan_inv ref off st"
  "scan_inv ref off (v2_state st) = scan_inv ref off st"
  "scan_inv ref off (st\<lparr>ss_scan := add_diagnostic d ((ss_scan st)\<lparr>js_writable := b\<rparr>)\<rparr>) = scan_inv ref off st"
  by (simp_all add: scan_inv_def log_ok_def add_diagnostic_def v2_state_def)

lemma scan_v1_Continue:
  assumes "scan_v1 env ref st line off = Continue st'"
  shows "ss_hasV2 st = False" "ss_pendingID st = ''''"
    "\<exists>e mapped next ds. UpcastV1 (je_Upcast env) (legacy_source_of e line) (ss_legacy st) = (mapped, next, ds)
       \<and> du_Seq e = next_seq st
       \<and> commit_legacy ref (on_scan (\<lambda>s. s\<lparr>js_hasLegacy := True\<rparr>) st) (legacy_source_of e line) next line off = Continue st'"
  using assms by (auto simp: scan_v1_def Let_def stop_line_def next_seq_def split: if_split_asm sum.splits option.splits prod.splits)

definition unsupported :: "journal_ref \<Rightarrow> string \<Rightarrow> event \<Rightarrow> scan_state \<Rightarrow> scan_state" where
  "unsupported ref m r st = on_scan (\<lambda>s. add_diagnostic (journalDiagnostic ref ''unsupported_event'' m
     (en_Seq (e_Envelope r)) (en_EventID (e_Envelope r))) (s\<lparr>js_writable := False\<rparr>)) st"

lemma scan_v2_state:
  "scan_v2 env ref st line off =
     (case registry_Decode (je_Codec env) line of
        Unknown m r \<Rightarrow> scan_record env ref (unsupported ref m r (v2_state st)) r True off
      | Undecodable m r \<Rightarrow>
          stop_line ref (v2_state st) ''invalid_known_payload'' (''decode v2 event: '' @ m) (en_EventID (e_Envelope r))
      | Decoded r \<Rightarrow>
          (case registry_Validate (je_Codec env) r of
             Some m \<Rightarrow> stop_line ref (v2_state st) ''invalid_known_payload'' (''validate v2 event: '' @ m) (en_EventID (e_Envelope r))
           | None \<Rightarrow> scan_record env ref (v2_state st) r False off))"
  unfolding scan_v2_def v2_state_def unsupported_def Let_def by (rule refl)

lemma scan_v2_Continue:
  assumes "scan_v2 env ref st line off = Continue st'"
  shows "\<exists>r u f. record_ok r \<and> (f = id \<or> (\<exists>d. f = (\<lambda>s. add_diagnostic d (s\<lparr>js_writable := False\<rparr>))))
     \<and> scan_record env ref (on_scan f (v2_state st)) r u off = Continue st'"
proof (cases "registry_Decode (je_Codec env) line")
  case (Decoded r)
  then have "registry_Validate (je_Codec env) r = None"
    "scan_record env ref (v2_state st) r False off = Continue st'"
    using assms by (auto simp: scan_v2_def Let_def stop_line_def v2_state_def split: option.splits)
  then show ?thesis using record_ok_Decoded [OF Decoded] by (intro exI [of _ r] exI [of _ False] exI [of _ id]) simp
next
  case (Unknown m r)
  let ?f = "\<lambda>s. add_diagnostic (journalDiagnostic ref ''unsupported_event'' m (en_Seq (e_Envelope r)) (en_EventID (e_Envelope r)))
      (s\<lparr>js_writable := False\<rparr>)"
  show ?thesis
    using Unknown assms record_ok_Unknown [OF Unknown]
    by (intro exI [of _ r] exI [of _ True] exI [of _ ?f]) (auto simp: scan_v2_def Let_def v2_state_def)
qed (use assms in \<open>simp add: scan_v2_def stop_line_def Let_def\<close>)

lemma scan_line_Continue:
  "scan_line env ref st line off = Continue st' \<Longrightarrow>
    scan_v1 env ref st line off = Continue st' \<or> scan_v2 env ref st line off = Continue st'"
  by (auto simp: scan_line_def stop_line_def split: if_split_asm sum.splits)

lemma scan_inv_line:
  assumes inv: "scan_inv ref off st" and off: "off < ss_offset st" and c: "scan_line env ref st line off = Continue st'"
  shows "scan_inv ref (ss_offset st') st' \<and> ss_offset st' = ss_offset st"
  using scan_line_Continue [OF c]
proof (elim disjE)
  assume "scan_v1 env ref st line off = Continue st'"
  from scan_v1_Continue [OF this] obtain e mapped "next" ds where "du_Seq e = next_seq st" "ss_pendingID st = ''''"
    and l: "commit_legacy ref (on_scan (\<lambda>s. s\<lparr>js_hasLegacy := True\<rparr>) st) (legacy_source_of e line) next line off = Continue st'"
    by blast
  then show ?thesis
    using scan_inv_legacy [OF _ _ _ _ l] inv off by (simp add: legacy_source_of_def next_seq_def)
next
  assume "scan_v2 env ref st line off = Continue st'"
  from scan_v2_Continue [OF this] obtain r u f where r: "record_ok r"
    and f: "f = id \<or> (\<exists>d. f = (\<lambda>s. add_diagnostic d (s\<lparr>js_writable := False\<rparr>)))"
    and c: "scan_record env ref (on_scan f (v2_state st)) r u off = Continue st'"
    by blast
  have "scan_inv ref off (v2_state st)" using inv by simp
  then have "scan_inv ref off (on_scan f (v2_state st))"
    using f scan_inv_flags(3) [where st = "v2_state st"] by auto
  moreover have "ss_offset (on_scan f (v2_state st)) = ss_offset st" by (simp add: v2_state_def)
  ultimately show ?thesis using scan_inv_record [OF _ _ r c] off by (auto simp: v2_state_def)
qed

section \<open>A run of lines\<close>

text \<open>A line is counted, then read: the bytes hashed are the bytes read.\<close>

definition bytes_inv :: "scan_state \<Rightarrow> bool" where
  "bytes_inv st \<longleftrightarrow> ss_offset st = int (length (ss_hashed st)) \<and> js_sourceSize (ss_scan st) = ss_offset st"

lemma count_line_simps [simp]:
  "ss_offset (count_line p st) = ss_offset st + int (length p)" "ss_hashed (count_line p st) = ss_hashed st @ p"
  "js_sourceSize (ss_scan (count_line p st)) = js_sourceSize (ss_scan st) + int (length p)"
  "js_sourceDigest (ss_scan (count_line p st)) = js_sourceDigest (ss_scan st)"
  "js_hasV2 (ss_scan (count_line p st)) = js_hasV2 (ss_scan st)" "ss_hasV2 (count_line p st) = ss_hasV2 st"
  "ss_committedV2 (count_line p st) = ss_committedV2 st" "ss_pendingID (count_line p st) = ss_pendingID st"
  by (simp_all add: count_line_def)

lemma scan_inv_count [simp]: "scan_inv ref off (count_line l st) = scan_inv ref off st"
  by (simp add: scan_inv_def log_ok_def count_line_def)

lemma line_step_inv:
  assumes "scan_inv ref (ss_offset st) st" "line_step env ref st l = Continue st'"
  shows "scan_inv ref (ss_offset st') st' \<and> ss_offset st' = ss_offset st + int (length l) + 1"
  using scan_inv_line [of ref "ss_offset st" "count_line (l @ [newline]) st" env l st'] assms
  unfolding line_step_def by auto

lemma scan_run_inv:
  "scan_run env ref st ls = Continue st' \<Longrightarrow> scan_inv ref (ss_offset st) st \<Longrightarrow> scan_inv ref (ss_offset st') st'"
proof (induction ls arbitrary: st)
  case (Cons l ls)
  then obtain st1 where "line_step env ref st l = Continue st1" "scan_run env ref st1 ls = Continue st'"
    by (auto split: scan_step.splits)
  then show ?case using line_step_inv Cons by metis
qed simp

text \<open>What a line that is not the last one leaves as it was.\<close>

definition untouched :: "scan_state \<Rightarrow> scan_state \<Rightarrow> bool" where
  "untouched st st' \<longleftrightarrow> ss_hashed st' = ss_hashed st \<and> ss_offset st' = ss_offset st
     \<and> js_sourceSize (ss_scan st') = js_sourceSize (ss_scan st) \<and> js_sourceDigest (ss_scan st') = js_sourceDigest (ss_scan st)"

lemmas untouched_simps = untouched_def add_commit_def add_event_id_def add_diagnostic_def seen_record_def v2_state_def
  drop_pending_def

lemma untouched_trans: "untouched a b \<Longrightarrow> untouched b c \<Longrightarrow> untouched a c"
  by (simp add: untouched_def)

lemma scan_record_untouched:
  assumes "scan_record env ref st r u off = Continue st'"
  shows "untouched st st'"
  using scan_record_Continue(4) [OF assms]
proof
  assume "scan_marker env ref (seen_record st r) r = Continue st'"
  from scan_marker_Continue(5) [OF this] show ?thesis by (simp add: untouched_simps)
next
  assume "scan_pending (seen_record st r) r off = Continue st'"
  from scan_pending_Continue(4) [OF this] show ?thesis by (simp add: untouched_simps)
qed

lemma scan_line_untouched:
  assumes "scan_line env ref st line off = Continue st'"
  shows "untouched st st'"
  using scan_line_Continue [OF assms]
proof (elim disjE)
  assume "scan_v1 env ref st line off = Continue st'"
  from scan_v1_Continue(3) [OF this] show ?thesis
    by (auto simp: commit_legacy_def Let_def untouched_simps split: if_split_asm)
next
  assume "scan_v2 env ref st line off = Continue st'"
  from scan_v2_Continue [OF this] obtain r u f where f: "f = id \<or> (\<exists>d. f = (\<lambda>s. add_diagnostic d (s\<lparr>js_writable := False\<rparr>)))"
    and c: "scan_record env ref (on_scan f (v2_state st)) r u off = Continue st'"
    by blast
  have "untouched st (on_scan f (v2_state st))" using f by (auto simp: untouched_simps)
  then show ?thesis using scan_record_untouched [OF c] by (rule untouched_trans)
qed

lemma line_step_bytes:
  assumes "line_step env ref st l = Continue st'"
  shows "ss_hashed st' = ss_hashed st @ l @ [newline]" "ss_offset st' = ss_offset st + int (length l) + 1"
    "js_sourceSize (ss_scan st') = js_sourceSize (ss_scan st) + int (length l) + 1"
    "js_sourceDigest (ss_scan st') = js_sourceDigest (ss_scan st)"
  using scan_line_untouched [OF assms [unfolded line_step_def]] by (simp_all add: untouched_def)

lemma scan_run_bytes:
  "scan_run env ref st ls = Continue st' \<Longrightarrow> ss_hashed st' = ss_hashed st @ lines_bytes ls
     \<and> ss_offset st' = ss_offset st + int (length (lines_bytes ls))
     \<and> js_sourceSize (ss_scan st') = js_sourceSize (ss_scan st) + int (length (lines_bytes ls))
     \<and> js_sourceDigest (ss_scan st') = js_sourceDigest (ss_scan st)"
proof (induction ls arbitrary: st)
  case (Cons l ls)
  then obtain st1 where l: "line_step env ref st l = Continue st1" and r: "scan_run env ref st1 ls = Continue st'"
    by (auto split: scan_step.splits)
  show ?case using Cons.IH [OF r] line_step_bytes [OF l] by simp
qed simp

section \<open>Versions and the legacy state\<close>

lemma scan_record_v2:
  assumes "scan_record env ref st r u off = Continue st'" "record_ok r" "ss_hasV2 st" "js_hasV2 (ss_scan st)"
  shows "v2_inv st'"
  using scan_record_Continue(4) [OF assms(1)]
proof
  assume "scan_marker env ref (seen_record st r) r = Continue st'"
  from scan_marker_Continue(5) [OF this] show ?thesis using assms by (simp add: v2_inv_def untouched_simps)
next
  assume "scan_pending (seen_record st r) r off = Continue st'"
  from scan_pending_Continue(4) [OF this] show ?thesis
    using assms by (simp add: v2_inv_def untouched_simps record_ok_def)
qed

lemma v2_inv_step:
  assumes "line_step env ref st l = Continue st'" "v2_inv st"
  shows "v2_inv st'"
  using scan_line_Continue [OF assms(1) [unfolded line_step_def]]
proof (elim disjE)
  assume c: "scan_v1 env ref (count_line (l @ [newline]) st) l (ss_offset st) = Continue st'"
  from scan_v1_Continue [OF c] assms(2) show ?thesis
    by (auto simp: commit_legacy_def Let_def untouched_simps v2_inv_def split: if_split_asm)
next
  assume "scan_v2 env ref (count_line (l @ [newline]) st) l (ss_offset st) = Continue st'"
  from scan_v2_Continue [OF this] obtain r u f where r: "record_ok r"
    and f: "f = id \<or> (\<exists>d. f = (\<lambda>s. add_diagnostic d (s\<lparr>js_writable := False\<rparr>)))"
    and c: "scan_record env ref (on_scan f (v2_state (count_line (l @ [newline]) st))) r u (ss_offset st) = Continue st'"
    by blast
  show ?thesis by (rule scan_record_v2 [OF c r]) (use f in \<open>auto simp: untouched_simps\<close>)
qed

lemma legacy_fold_append:
  "legacyStateAfterScan env (s\<lparr>js_events := js_events s @ es\<rparr>) i =
     foldl (\<lambda>u r. case e_Legacy (sd_record r) of None \<Rightarrow> u
         | Some l \<Rightarrow> (case UpcastV1 (je_Upcast env) l u of (e, u', ds) \<Rightarrow> u')) (legacyStateAfterScan env s i) es"
  by (simp add: legacyStateAfterScan_def)

lemma legacy_fold_none:
  "list_all (\<lambda>r. e_Legacy r = None) rs \<Longrightarrow>
    foldl (\<lambda>u r. case e_Legacy (sd_record r) of None \<Rightarrow> u
         | Some l \<Rightarrow> (case UpcastV1 (je_Upcast env) l u of (e, u', ds) \<Rightarrow> u')) u (map (\<lambda>r. \<lparr>sd_record = r, sd_cursor = c\<rparr>) rs) = u"
  by (induction rs) auto

lemma legacy_state_events: "js_events s = js_events t \<Longrightarrow> legacyStateAfterScan env s i = legacyStateAfterScan env t i"
  by (simp add: legacyStateAfterScan_def)

lemma scan_record_legacy:
  assumes "scan_record env ref st r u off = Continue st'" "record_ok r" "legacy_inv env ref st"
  shows "legacy_inv env ref st'"
  using scan_record_Continue(4) [OF assms(1)]
proof
  assume "scan_marker env ref (seen_record st r) r = Continue st'"
  note m = scan_marker_Continue(5) [OF this]
  have none: "list_all (\<lambda>r. e_Legacy r = None) (ss_pendingRecords st)" using assms(3) by (simp add: legacy_inv_def)
  show ?thesis using assms(3) none
    by (simp add: m legacy_inv_def untouched_simps pending_commit_def legacyStateAfterScan_def legacy_fold_none)
next
  assume "scan_pending (seen_record st r) r off = Continue st'"
  from scan_pending_Continue(4) [OF this] show ?thesis
    using assms by (simp add: legacy_inv_def untouched_simps record_ok_def legacyStateAfterScan_def)
qed

lemma legacy_inv_step:
  assumes "line_step env ref st l = Continue st'" "legacy_inv env ref st"
  shows "legacy_inv env ref st'"
  using scan_line_Continue [OF assms(1) [unfolded line_step_def]]
proof (elim disjE)
  assume c: "scan_v1 env ref (count_line (l @ [newline]) st) l (ss_offset st) = Continue st'"
  from scan_v1_Continue(3) [OF c] obtain e mapped "next" ds where
    u: "UpcastV1 (je_Upcast env) (legacy_source_of e l) (ss_legacy st) = (mapped, next, ds)"
    and "commit_legacy ref (on_scan (\<lambda>s. s\<lparr>js_hasLegacy := True\<rparr>) (count_line (l @ [newline]) st))
      (legacy_source_of e l) next l (ss_offset st) = Continue st'"
    by (auto simp: count_line_def)
  then show ?thesis using assms(2)
    by (auto simp: commit_legacy_def Let_def untouched_simps legacy_inv_def legacyStateAfterScan_def count_line_def
        legacy_record_def split: if_split_asm)
next
  assume "scan_v2 env ref (count_line (l @ [newline]) st) l (ss_offset st) = Continue st'"
  from scan_v2_Continue [OF this] obtain r u f where r: "record_ok r"
    and f: "f = id \<or> (\<exists>d. f = (\<lambda>s. add_diagnostic d (s\<lparr>js_writable := False\<rparr>)))"
    and c: "scan_record env ref (on_scan f (v2_state (count_line (l @ [newline]) st))) r u (ss_offset st) = Continue st'"
    by blast
  show ?thesis
    by (rule scan_record_legacy [OF c r])
      (use f assms(2) in \<open>auto simp: untouched_simps legacy_inv_def legacyStateAfterScan_def count_line_def\<close>)
qed

section \<open>Any end of the scan\<close>

text \<open>A line at which the scan stops leaves the log.\<close>

definition same_log :: "scan_state \<Rightarrow> scan_state \<Rightarrow> bool" where
  "same_log st st' \<longleftrightarrow> js_ref (ss_scan st') = js_ref (ss_scan st) \<and> js_commits (ss_scan st') = js_commits (ss_scan st)
     \<and> js_transactions (ss_scan st') = js_transactions (ss_scan st) \<and> js_events (ss_scan st') = js_events (ss_scan st)
     \<and> js_head (ss_scan st') = js_head (ss_scan st) \<and> js_validPrefixSize (ss_scan st') = js_validPrefixSize (ss_scan st)"

lemma stop_line_log: "stop_line ref st code m i = Break st' \<Longrightarrow> same_log st st'"
  by (auto simp: stop_line_def same_log_def add_diagnostic_def)

lemma scan_v1_log: "scan_v1 env ref st line off = Break st' \<Longrightarrow> same_log st st'"
  by (auto simp: scan_v1_def Let_def commit_legacy_break same_log_def dest!: stop_line_log
      split: if_split_asm sum.splits option.splits prod.splits)

lemma scan_marker_log: "scan_marker env ref st r = Break st' \<Longrightarrow> same_log st st'"
  by (auto simp: scan_marker_def Let_def same_log_def drop_pending_def rollbackPendingEventIDs_def add_diagnostic_def
      split: option.splits if_split_asm)

lemma scan_record_log: "scan_record env ref st r u off = Break st' \<Longrightarrow> same_log st st'"
  by (auto simp: scan_record_def Let_def scan_pending_break same_log_def add_event_id_def
      dest!: stop_line_log scan_marker_log split: if_split_asm)

lemma scan_line_log: "scan_line env ref st line off = Break st' \<Longrightarrow> same_log st st'"
  by (auto simp: scan_line_def scan_v2_def Let_def same_log_def add_diagnostic_def
      dest!: stop_line_log scan_v1_log scan_record_log split: if_split_asm sum.splits decoded.splits option.splits)

lemma scan_partial_log: "scan_partial env ref st p = Break st' \<Longrightarrow> same_log st st'"
  by (auto simp: scan_partial_def same_log_def dest!: stop_line_log)

lemma same_log_inv: "same_log st st' \<Longrightarrow> scan_inv ref off st \<Longrightarrow>
    log_ok ref (ss_scan st') \<and> seqs_from 1 (log_seqs (ss_scan st')) \<and> js_validPrefixSize (ss_scan st') \<le> off"
  by (auto simp: same_log_def scan_inv_def log_ok_def split: if_split_asm)

definition log_result :: "journal_ref \<Rightarrow> int \<Rightarrow> scan_state \<Rightarrow> bool" where
  "log_result ref n st \<longleftrightarrow> log_ok ref (ss_scan st) \<and> seqs_from 1 (log_seqs (ss_scan st))
     \<and> js_validPrefixSize (ss_scan st) \<le> n"

lemma log_result_inv: "scan_inv ref off st \<Longrightarrow> off \<le> n \<Longrightarrow> log_result ref n st"
  by (auto simp: log_result_def scan_inv_def split: if_split_asm)

lemma log_result_break: "same_log st st' \<Longrightarrow> scan_inv ref off st \<Longrightarrow> off \<le> n \<Longrightarrow> log_result ref n st'"
  using same_log_inv by (force simp: log_result_def)

lemma scan_lines_log:
  "scan_lines env ref st bs = Inr st' \<Longrightarrow> scan_inv ref (ss_offset st) st \<Longrightarrow> log_result ref (ss_offset st + int (length bs)) st'"
proof (induction env ref st bs rule: scan_lines.induct)
  case (1 env ref st bs)
  note inv = 1(3)
  show ?case
  proof (cases "readJournalLine bs")
    case (Inl e)
    then show ?thesis
      using 1(2) log_result_break [OF stop_line_log inv] stop_line_break
      by (auto simp: scan_lines.simps [of env ref st bs] split: scan_step.splits)
  next
    case (Inr a)
    obtain l c eof r where a: "a = (l, c, eof, r)" by (cases a) auto
    have bs: "bs = l @ r" using readJournalLine_append [of bs l c eof r] Inr a by simp
    have inv': "scan_inv ref (ss_offset st) (count_line l st)" using inv by simp
    show ?thesis
    proof (cases "l = [] \<and> eof")
      case True
      then show ?thesis using 1(2) Inr a log_result_inv [OF inv] by (simp add: scan_lines.simps [of env ref st bs])
    next
      case False
      show ?thesis
      proof (cases c)
        case not: False
        then obtain st1 where "scan_partial env ref (count_line l st) l = Break st1" "st' = st1"
          using 1(2) Inr a False
          by (auto simp: scan_lines.simps [of env ref st bs] scan_partial_def stop_line_def)
        then show ?thesis using log_result_break [OF scan_partial_log inv'] by simp
      next
        case True
        obtain k where k: "l = k @ [newline]" "line_ok k" "\<not> eof" "bs = k @ newline # r"
          using readJournalLine_complete [of bs l eof r] Inr a True by auto
        have eq: "(case line_step env ref st k of Fatal m \<Rightarrow> Inl m | Break st' \<Rightarrow> Inr st'
            | Continue st' \<Rightarrow> scan_lines env ref st' r) = Inr st'"
          using 1(2) k scan_lines_line [OF k(2), of env ref st r] by simp
        show ?thesis
        proof (cases "line_step env ref st k")
          case (Break st1)
          then show ?thesis
            using log_result_break [OF scan_line_log inv'] eq k(1) by (auto simp: line_step_def)
        next
          case (Continue st1)
          note step = line_step_inv [OF inv Continue]
          have "log_result ref (ss_offset st1 + int (length r)) st'"
            using 1(1) [of a l "(c, eof, r)" c "(eof, r)" eof r st1] False Inr a Continue eq k True conjunct1 [OF step]
            by (simp add: line_step_def)
          then show ?thesis using step bs k(1) by (simp add: algebra_simps)
        qed (use eq in auto)
      qed
    qed
  qed
qed

section \<open>The start of a scan\<close>

lemma start_new [simp]: "scan_inv ref 0 (start_scan env ref file (new_scan ref))"
  by (simp add: scan_inv_def log_ok_def start_scan_def new_scan_def)

lemma start_new_v2: "v2_inv (start_scan env ref file (new_scan ref))"
  "legacy_inv env ref (start_scan env ref file (new_scan ref))"
  by (simp_all add: v2_inv_def legacy_inv_def start_scan_def new_scan_def legacyStateAfterScan_def)

lemma start_new_simps [simp]:
  "ss_offset (start_scan env ref file (new_scan ref)) = 0" "ss_hashed (start_scan env ref file (new_scan ref)) = []"
  "js_sourceSize (new_scan ref) = 0" "ss_scan (start_scan env ref file s) = s"
  by (simp_all add: start_scan_def new_scan_def)

lemma scanJournal_cases:
  assumes "scanJournal env ref file = Inr s"
  obtains st where "scan_lines env ref (start_scan env ref file (new_scan ref)) file = Inr st" "s = finish_scan env ref file st"
  using assms by (auto simp: scanJournal_def scanJournalAfterPrefix_def split: sum.splits)

lemma finish_log: "log_ok ref (finish_scan env ref file st) = log_ok ref (ss_scan st)"
  "js_commits (finish_scan env ref file st) = js_commits (ss_scan st)"
  "js_validPrefixSize (finish_scan env ref file st) = js_validPrefixSize (ss_scan st)"
  "js_sourceSize (finish_scan env ref file st) = int (length file)"
  "js_physicalSeq (finish_scan env ref file st) = js_physicalSeq (ss_scan st)"
  "js_eventIDs (finish_scan env ref file st) = js_eventIDs (ss_scan st)"
  "js_eventIDOrder (finish_scan env ref file st) = js_eventIDOrder (ss_scan st)"
  "js_head (finish_scan env ref file st) = js_head (ss_scan st)"
  "js_hasV2 (finish_scan env ref file st) = js_hasV2 (ss_scan st)"
  "js_hasLegacy (finish_scan env ref file st) = js_hasLegacy (ss_scan st)"
  by (simp_all add: finish_scan_def Let_def log_ok_def add_diagnostic_def)

definition clean_scan :: "journal_scan \<Rightarrow> bool" where
  "clean_scan s \<longleftrightarrow> js_writable s \<and> \<not> js_incompleteTail s"

text \<open>A clean scan has read the whole file, line by line, with nothing left open.\<close>

lemma clean_scan_run:
  assumes "scanJournal env ref file = Inr s" "clean_scan s"
  obtains ls st where "file = lines_bytes ls" "list_all line_ok ls"
    "scan_run env ref (start_scan env ref file (new_scan ref)) ls = Continue st" "s = finish_scan env ref file st"
    "ss_pendingID st = ''''" "scan_inv ref (int (length file)) st" "v2_inv st" "legacy_inv env ref st"
    "ss_hashed st = file" "ss_offset st = int (length file)" "js_sourceSize (ss_scan st) = int (length file)"
proof -
  let ?st0 = "start_scan env ref file (new_scan ref)"
  obtain st where st: "scan_lines env ref ?st0 file = Inr st" "s = finish_scan env ref file st"
    using scanJournal_cases [OF assms(1)] .
  have p: "ss_pendingID st = ''''" "scan_clean st"
    using assms(2) st(2) by (auto simp: clean_scan_def scan_clean_def finish_scan_def Let_def add_diagnostic_def split: if_split_asm)
  obtain ls where ls: "file = lines_bytes ls" "list_all line_ok ls" "scan_run env ref ?st0 ls = Continue st"
    using scan_lines_clean [OF st(1) p(2)] by blast
  have run: "scan_run env ref u ks = Continue u' \<Longrightarrow> v2_inv u \<Longrightarrow> legacy_inv env ref u \<Longrightarrow> v2_inv u' \<and> legacy_inv env ref u'"
    for u u' ks
    by (induction ks arbitrary: u) (auto split: scan_step.splits dest: v2_inv_step legacy_inv_step)
  note b = scan_run_bytes [OF ls(3)]
  have "scan_inv ref (ss_offset st) st" using scan_run_inv [OF ls(3)] by simp
  then show thesis using that ls p st(2) b run [OF ls(3)] start_new_v2 by simp
qed

end
