(* ===== verification/Journal_Prefix.thy ===== *)
theory Journal_Prefix
  imports Journal_Invariants
begin

text \<open>
  Continuing a scan (\<open>scanJournalAfterPrefix\<close>): the scan of a clean prefix determines the variables of the
  loop, but for the digest of the prefix and the offset of a transaction that is no longer open. Neither
  has an influence on what is read after them.
\<close>

fun map_step :: "(scan_state \<Rightarrow> scan_state) \<Rightarrow> scan_step \<Rightarrow> scan_step" where
  "map_step f (Fatal m) = Fatal m"
| "map_step f (Break st) = Break (f st)"
| "map_step f (Continue st) = Continue (f st)"

definition with_digest :: "digest \<Rightarrow> scan_state \<Rightarrow> scan_state" where
  "with_digest d st = on_scan (\<lambda>s. s\<lparr>js_sourceDigest := d\<rparr>) st"

definition with_offset :: "int \<Rightarrow> scan_state \<Rightarrow> scan_state" where
  "with_offset a st = st\<lparr>ss_pendingOffset := a\<rparr>"

section \<open>The digest\<close>

lemma digest_stop: "stop_line ref (with_digest d st) c m i = map_step (with_digest d) (stop_line ref st c m i)"
  by (simp add: stop_line_def with_digest_def add_diagnostic_def)

lemma digest_legacy:
  "commit_legacy ref (with_digest d st) src u l a = map_step (with_digest d) (commit_legacy ref st src u l a)"
  by (simp add: commit_legacy_def with_digest_def add_commit_def add_event_id_def Let_def)

lemma digest_reads [simp]:
  "ss_hasV2 (with_digest d st) = ss_hasV2 st" "ss_pendingID (with_digest d st) = ss_pendingID st"
  "ss_legacy (with_digest d st) = ss_legacy st" "next_seq (with_digest d st) = next_seq st"
  "ss_seen (with_digest d st) = ss_seen st" "ss_pendingEnvelopes (with_digest d st) = ss_pendingEnvelopes st"
  "ss_pendingRecords (with_digest d st) = ss_pendingRecords st" "ss_committedV2 (with_digest d st) = ss_committedV2 st"
  "js_transactions (ss_scan (with_digest d st)) = js_transactions (ss_scan st)"
  "js_hasLegacy (ss_scan (with_digest d st)) = js_hasLegacy (ss_scan st)"
  "js_head (ss_scan (with_digest d st)) = js_head (ss_scan st)" "ss_offset (with_digest d st) = ss_offset st"
  by (simp_all add: with_digest_def next_seq_def)

lemma digest_flag: "with_digest d st\<lparr>ss_scan := ss_scan (with_digest d st)\<lparr>js_hasLegacy := b\<rparr>\<rparr>
    = with_digest d (st\<lparr>ss_scan := (ss_scan st)\<lparr>js_hasLegacy := b\<rparr>\<rparr>)"
  by (simp add: with_digest_def)

lemma digest_v1: "scan_v1 env ref (with_digest d st) l a = map_step (with_digest d) (scan_v1 env ref st l a)"
  by (auto simp: scan_v1_def Let_def digest_flag digest_stop digest_legacy split: sum.split option.split prod.split)

lemma digest_marker: "scan_marker env ref (with_digest d st) r = map_step (with_digest d) (scan_marker env ref st r)"
proof -
  have "marker_error env (with_digest d st) r = marker_error env st r"
    by (simp only: marker_error_def digest_reads)
  then show ?thesis
    by (simp add: scan_marker_def Let_def split: option.split)
      (simp add: with_digest_def drop_pending_def rollbackPendingEventIDs_def add_diagnostic_def add_commit_def pending_commit_def)
qed

lemma digest_pending: "scan_pending (with_digest d st) r a = map_step (with_digest d) (scan_pending st r a)"
  by (simp add: scan_pending_def Let_def) (simp add: with_digest_def)

lemma digest_record: "scan_record env ref (with_digest d st) r u a = map_step (with_digest d) (scan_record env ref st r u a)"
proof -
  have "seen_record (with_digest d st) r = with_digest d (seen_record st r)"
    by (simp add: seen_record_def with_digest_def add_event_id_def)
  then show ?thesis
    by (simp add: scan_record_seen digest_stop digest_marker digest_pending) (simp add: with_digest_def)
qed

lemma digest_v2: "scan_v2 env ref (with_digest d st) l a = map_step (with_digest d) (scan_v2 env ref st l a)"
proof -
  have v: "v2_state (with_digest d st) = with_digest d (v2_state st)" by (simp add: v2_state_def with_digest_def)
  have w: "unsupported ref m r (with_digest d st) = with_digest d (unsupported ref m r st)" for m r st
    by (simp add: with_digest_def add_diagnostic_def unsupported_def)
  show ?thesis
    by (auto simp: scan_v2_state v w digest_record digest_stop split: decoded.split option.split)
qed

lemma digest_line: "scan_line env ref (with_digest d st) l a = map_step (with_digest d) (scan_line env ref st l a)"
  by (auto simp: scan_line_def digest_stop digest_v1 digest_v2 split: sum.split)

lemma digest_count: "count_line p (with_digest d st) = with_digest d (count_line p st)"
  by (simp add: count_line_def with_digest_def)

lemma digest_partial: "scan_partial env ref (with_digest d st) p = map_step (with_digest d) (scan_partial env ref st p)"
  by (simp add: scan_partial_def stop_line_def with_digest_def add_diagnostic_def)

section \<open>The offset of no transaction\<close>

text \<open>A step is the same but for the offset and opens no transaction, or it opens one and is the same.\<close>

definition offset_step :: "int \<Rightarrow> scan_step \<Rightarrow> scan_step \<Rightarrow> bool" where
  "offset_step o1 s s' \<longleftrightarrow> s' = s \<or> (s' = map_step (with_offset o1) s \<and> (\<forall>u. s = Continue u \<longrightarrow> ss_pendingID u = ''''))"

lemma offset_stop: "offset_step b (stop_line ref st c m i) (stop_line ref (with_offset b st) c m i)"
  by (simp add: offset_step_def stop_line_def with_offset_def)

lemma offset_legacy:
  "ss_pendingID st = '''' \<Longrightarrow> offset_step b (commit_legacy ref st src u l a) (commit_legacy ref (with_offset b st) src u l a)"
  by (simp add: offset_step_def commit_legacy_def with_offset_def Let_def)

lemma offset_fatal: "offset_step b (Fatal m) (Fatal m)"
  by (simp add: offset_step_def)

lemma offset_reads [simp]:
  "ss_hasV2 (with_offset b st) = ss_hasV2 st" "ss_pendingID (with_offset b st) = ss_pendingID st"
  "ss_legacy (with_offset b st) = ss_legacy st" "next_seq (with_offset b st) = next_seq st"
  "ss_seen (with_offset b st) = ss_seen st" "ss_pendingEnvelopes (with_offset b st) = ss_pendingEnvelopes st"
  "ss_pendingRecords (with_offset b st) = ss_pendingRecords st" "ss_scan (with_offset b st) = ss_scan st"
  "ss_offset (with_offset b st) = ss_offset st"
  by (simp_all add: with_offset_def next_seq_def)

lemma offset_flag: "with_offset b st\<lparr>ss_scan := s\<rparr> = with_offset b (st\<lparr>ss_scan := s\<rparr>)"
  by (simp add: with_offset_def)

lemma offset_v1:
  "ss_pendingID st = '''' \<Longrightarrow> offset_step b (scan_v1 env ref st l a) (scan_v1 env ref (with_offset b st) l a)"
  by (auto simp: scan_v1_def Let_def offset_flag offset_stop offset_legacy offset_fatal split: sum.split option.split prod.split)

lemma offset_record:
  assumes "ss_pendingID st = ''''"
  shows "offset_step b (scan_record env ref st r u a) (scan_record env ref (with_offset b st) r u a)"
proof -
  have s: "seen_record (with_offset b st) r = with_offset b (seen_record st r)"
    by (simp add: seen_record_def with_offset_def)
  have m: "offset_step b (scan_marker env ref (seen_record st r) r) (scan_marker env ref (with_offset b (seen_record st r)) r)"
    using assms by (simp add: scan_marker_def marker_error_def seen_record_def offset_fatal)
  have p: "offset_step b (scan_pending (seen_record st r) r a) (scan_pending (with_offset b (seen_record st r)) r a)"
    using assms by (simp add: scan_pending_def Let_def seen_record_def with_offset_def offset_step_def)
  show ?thesis
    by (simp add: scan_record_seen offset_stop offset_fatal s m p) (simp add: offset_step_def with_offset_def)
qed

lemma offset_v2:
  assumes "ss_pendingID st = ''''"
  shows "offset_step b (scan_v2 env ref st l a) (scan_v2 env ref (with_offset b st) l a)"
proof -
  have v: "v2_state (with_offset b st) = with_offset b (v2_state st)" "ss_pendingID (v2_state st) = ''''"
    using assms by (simp_all add: v2_state_def with_offset_def)
  have w: "unsupported ref m r (with_offset b u) = with_offset b (unsupported ref m r u)"
    "ss_pendingID (unsupported ref m r u) = ss_pendingID u" for m r u
    by (simp_all add: with_offset_def unsupported_def)
  show ?thesis
    using v w by (auto simp: scan_v2_state offset_stop offset_record split: decoded.split option.split)
qed

lemma offset_line:
  "ss_pendingID st = '''' \<Longrightarrow> offset_step b (scan_line env ref st l a) (scan_line env ref (with_offset b st) l a)"
  by (auto simp: scan_line_def offset_stop offset_v1 offset_v2 split: sum.split)

section \<open>The loop\<close>

text \<open>What a scan gives: the error, or the result of the statements after the loop.\<close>

definition scan_result :: "journal_env \<Rightarrow> journal_ref \<Rightarrow> string \<Rightarrow> scan_state res \<Rightarrow> journal_scan res" where
  "scan_result env ref file r = (case r of Inl m \<Rightarrow> Inl m | Inr st \<Rightarrow> Inr (finish_scan env ref file st))"

lemma finish_digest [simp]: "finish_scan env ref file (with_digest d st) = finish_scan env ref file st"
  by (simp add: finish_scan_def with_digest_def add_diagnostic_def Let_def)

lemma finish_offset [simp]: "finish_scan env ref file (with_offset b st) = finish_scan env ref file st"
  by (simp add: finish_scan_def with_offset_def Let_def)

text \<open>The step the loop takes on a line that was read, and what it makes of it.\<close>

definition physical_step :: "journal_env \<Rightarrow> journal_ref \<Rightarrow> scan_state \<Rightarrow> string \<Rightarrow> bool \<Rightarrow> scan_step" where
  "physical_step env ref st l c =
     (if \<not> c then scan_partial env ref (count_line l st) l
      else scan_line env ref (count_line l st) (butlast l) (ss_offset st))"

lemma scan_lines_step:
  "scan_lines env ref st bs =
     (case readJournalLine bs of
        Inl e \<Rightarrow>
          (case stop_line ref st (if e = CompleteLineTooLarge then ''invalid_known_payload'' else ''incomplete_final_fragment'')
                  ''journal line exceeds maximum event size'' '''' of
             Break st' \<Rightarrow> Inr st' | Continue st' \<Rightarrow> Inr st' | Fatal m \<Rightarrow> Inl m)
      | Inr (l, c, eof, r) \<Rightarrow>
          if l = [] \<and> eof then Inr st
          else (case physical_step env ref st l c of
               Fatal m \<Rightarrow> Inl m
             | Break st' \<Rightarrow> Inr st'
             | Continue st' \<Rightarrow> if eof then Inr st' else scan_lines env ref st' r))"
  unfolding physical_step_def by (rule scan_lines.simps)

lemma digest_physical: "physical_step env ref (with_digest d st) l c = map_step (with_digest d) (physical_step env ref st l c)"
  by (simp add: physical_step_def digest_count digest_partial digest_line)

lemma digest_lines:
  "scan_result env ref file (scan_lines env ref (with_digest d st) bs) = scan_result env ref file (scan_lines env ref st bs)"
proof (induction "length bs" arbitrary: st bs rule: less_induct)
  case less
  show ?case
  proof (cases "readJournalLine bs")
    case (Inl e)
    then show ?thesis
      by (simp add: scan_lines_step [of _ _ _ bs] digest_stop scan_result_def) (simp add: stop_line_def)
  next
    case (Inr a)
    obtain l c eof r where a: "a = (l, c, eof, r)" by (cases a) auto
    show ?thesis
    proof (cases "l = [] \<and> eof")
      case False
      have "length r < length bs" using readJournalLine_shorter [of bs l c eof r] Inr a False by simp
      note ih = less [OF this]
      show ?thesis
        using Inr a False ih
        by (cases "physical_step env ref st l c")
          (auto simp: scan_lines_step [of _ _ _ bs] digest_physical scan_result_def)
    qed (use Inr a in \<open>simp add: scan_lines_step [of _ _ _ bs] scan_result_def\<close>)
  qed
qed

lemma offset_physical:
  assumes "ss_pendingID st = ''''"
  shows "offset_step b (physical_step env ref st l c) (physical_step env ref (with_offset b st) l c)"
proof -
  have "count_line l (with_offset b st) = with_offset b (count_line l st)"
    by (simp add: count_line_def with_offset_def)
  moreover have "offset_step b (scan_partial env ref (count_line l st) l) (scan_partial env ref (with_offset b (count_line l st)) l)"
    by (simp add: scan_partial_def stop_line_def offset_step_def with_offset_def)
  ultimately show ?thesis using assms by (simp add: physical_step_def offset_line)
qed

lemma offset_lines:
  "ss_pendingID st = '''' \<Longrightarrow>
    scan_result env ref file (scan_lines env ref (with_offset b st) bs) = scan_result env ref file (scan_lines env ref st bs)"
proof (induction "length bs" arbitrary: st bs rule: less_induct)
  case less
  show ?case
  proof (cases "readJournalLine bs")
    case (Inl e)
    then show ?thesis
      by (simp add: scan_lines_step [of _ _ _ bs] stop_line_def offset_flag scan_result_def)
  next
    case (Inr a)
    obtain l c eof r where a: "a = (l, c, eof, r)" by (cases a) auto
    show ?thesis
    proof (cases "l = [] \<and> eof")
      case False
      have "length r < length bs" using readJournalLine_shorter [of bs l c eof r] Inr a False by simp
      note ih = less.hyps [OF this]
      show ?thesis
        using Inr a False ih offset_physical [OF less.prems, of b env ref l c]
        by (cases "physical_step env ref st l c")
          (auto simp: scan_lines_step [of _ _ _ bs] scan_result_def offset_step_def)
    qed (use Inr a in \<open>simp add: scan_lines_step [of _ _ _ bs] scan_result_def\<close>)
  qed
qed

text \<open>The state a clean prefix gives.\<close>

lemma start_prefix:
  assumes "scan_inv ref (int (length p)) st" "v2_inv st" "legacy_inv env ref st" "ss_pendingID st = ''''" "ss_hashed st = p"
    "ss_offset st = int (length p)" "js_sourceSize (ss_scan st) = int (length p)"
  shows "start_scan env ref (p @ q) (clone_transactions (finish_scan env ref p st))
    = with_digest (js_sourceDigest (finish_scan env ref p st)) (with_offset 0 st)"
proof -
  have log: "log_ok ref (finish_scan env ref p st)" using assms(1) by (simp add: scan_inv_def finish_log)
  have pend: "ss_pendingRecords st = []" "ss_pendingEnvelopes st = []" using assms(1,4) by (auto simp: scan_inv_def)
  have v2: "ss_committedV2 st = js_hasV2 (ss_scan st)" "ss_hasV2 st = js_hasV2 (ss_scan st)"
    using assms(2,4) by (auto simp: v2_inv_def)
  have leg: "ss_legacy st = legacyStateAfterScan env (ss_scan st) (jr_ID ref)" using assms(3) by (simp add: legacy_inv_def)
  have ids: "ss_seen st = js_eventIDs (ss_scan st)" using assms(1) by (simp add: scan_inv_def)
  have f: "finish_scan env ref p st = (ss_scan st)\<lparr>js_sourceDigest := js_sourceDigest (finish_scan env ref p st)\<rparr>"
    using assms(4,7) by (simp add: finish_scan_def Let_def)
  have "start_scan env ref (p @ q) ((ss_scan st)\<lparr>js_sourceDigest := d\<rparr>) = with_digest d (with_offset 0 st)" for d
    using assms(4-7) pend v2 leg ids
    by (cases st) (simp add: start_scan_def with_digest_def with_offset_def legacyStateAfterScan_def)
  then show ?thesis using f clone_log [OF log] by metis
qed

lemma scan_append:
  assumes "scanJournal env ref p = Inr s" "clean_scan s"
  obtains st where "ss_pendingID st = ''''" "s = finish_scan env ref p st" "scan_inv ref (int (length p)) st"
    "ss_offset st = int (length p)"
    "\<And>q. scanJournal env ref (p @ q) = scan_result env ref (p @ q) (scan_lines env ref st q)"
    "\<And>q. scanJournalAfterPrefix env ref (p @ q) (Some s) = scan_result env ref (p @ q) (scan_lines env ref st q)"
proof -
  obtain ls st where ls: "p = lines_bytes ls" "list_all line_ok ls"
    "scan_run env ref (start_scan env ref p (new_scan ref)) ls = Continue st" and s: "s = finish_scan env ref p st"
    and st: "ss_pendingID st = ''''" "scan_inv ref (int (length p)) st" "v2_inv st" "legacy_inv env ref st"
    "ss_hashed st = p" "ss_offset st = int (length p)" "js_sourceSize (ss_scan st) = int (length p)"
    using clean_scan_run [OF assms] .
  have "start_scan env ref (p @ q) (new_scan ref) = start_scan env ref p (new_scan ref)" for q
    by (simp add: start_scan_def)
  then have "scanJournal env ref (p @ q) = scan_result env ref (p @ q) (scan_lines env ref st q)" for q
    using ls by (simp add: scanJournal_def scanJournalAfterPrefix_def scan_result_def scan_lines_run)
  moreover have "scanJournalAfterPrefix env ref (p @ q) (Some s) = scan_result env ref (p @ q) (scan_lines env ref st q)" for q
  proof -
    have "js_sourceSize (clone_transactions s) = int (length p)" by (simp add: s clone_transactions_def finish_log)
    then have "scanJournalAfterPrefix env ref (p @ q) (Some s)
        = scan_result env ref (p @ q) (scan_lines env ref (start_scan env ref (p @ q) (clone_transactions s)) q)"
      by (simp add: scanJournalAfterPrefix_def scan_result_def)
    also have "\<dots> = scan_result env ref (p @ q) (scan_lines env ref st q)"
      unfolding s start_prefix [OF st(2-4,1,5-7)] digest_lines by (rule offset_lines [OF st(1)])
    finally show ?thesis .
  qed
  ultimately show thesis using that st(1,2,6) s by blast
qed

end
