(* ===== verification/Journal_Index.thy ===== *)
theory Journal_Index
  imports Journal_Prefix
begin

text \<open>
  The two accelerators of a scan, \<open>internal/session/jsonl/range.go\<close>: the last clean scan, kept in memory
  and continued when the file still begins with the bytes it read, and the index file, whose entries are
  verified against the bytes of the journal before they are used.

  The index is the decoded content of its file (\<open>None\<close> when it is absent or does not decode). Errors
  of the operating system and the comparison of file identities are left out: the journal is one file.
\<close>

section \<open>The index\<close>

record journal_index_transaction =
  ix_TransactionID :: transaction_id
  ix_Cursor :: cursor
  ix_FirstOffset :: int
  ix_EndOffset :: int

record journal_index =
  jx_Version :: u32
  jx_SourceSize :: int
  jx_SourceDigest :: digest
  jx_EventIDs :: "event_id list"
  jx_Transactions :: "journal_index_transaction list"

abbreviation journalIndexVersion :: u32 where
  "journalIndexVersion \<equiv> 1"

definition buildJournalIndex :: "journal_scan \<Rightarrow> journal_index" where
  "buildJournalIndex s = \<lparr>jx_Version = journalIndexVersion, jx_SourceSize = js_sourceSize s,
     jx_SourceDigest = js_sourceDigest s, jx_EventIDs = js_eventIDOrder s,
     jx_Transactions = map (\<lambda>c. \<lparr>ix_TransactionID = cu_TransactionID (sm_cursor c), ix_Cursor = sm_cursor c,
       ix_FirstOffset = sm_firstOffset c, ix_EndOffset = sm_endOffset c\<rparr>) (js_commits s)\<rparr>"

text \<open>What is written as the index; \<open>None\<close> is the error.\<close>

definition writeJournalIndex :: "journal_scan \<Rightarrow> journal_index option" where
  "writeJournalIndex s =
     (if \<not> js_writable s \<or> js_incompleteTail s \<or> (js_hasLegacy s \<and> \<not> js_hasV2 s) then None
      else Some (buildJournalIndex s))"

fun shape_ids :: "event_id list \<Rightarrow> event_id list \<Rightarrow> bool" where
  "shape_ids seen [] = True"
| "shape_ids seen (i # is) = (i \<noteq> '''' \<and> i \<notin> set seen \<and> shape_ids (i # seen) is)"

fun shape_entries ::
  "journal_ref \<Rightarrow> int \<Rightarrow> u64 \<Rightarrow> transaction_id list \<Rightarrow> journal_index_transaction list \<Rightarrow> bool" where
  "shape_entries ref previousOffset previousSeq seen [] = True"
| "shape_entries ref previousOffset previousSeq seen (x # xs) =
     (\<not> (ix_TransactionID x = '''' \<or> CommittedCursor_Validate (ix_Cursor x) \<noteq> None
         \<or> cu_JournalKind (ix_Cursor x) \<noteq> jr_Kind ref \<or> cu_JournalID (ix_Cursor x) \<noteq> jr_ID ref
         \<or> cu_TransactionID (ix_Cursor x) \<noteq> ix_TransactionID x)
      \<and> \<not> (ix_FirstOffset x \<noteq> previousOffset \<or> ix_EndOffset x \<le> ix_FirstOffset x
         \<or> cu_CommitSeq (ix_Cursor x) \<le> previousSeq)
      \<and> ix_TransactionID x \<notin> set seen
      \<and> shape_entries ref (ix_EndOffset x) (cu_CommitSeq (ix_Cursor x)) (ix_TransactionID x # seen) xs)"

definition validJournalIndexShape :: "journal_index \<Rightarrow> journal_ref \<Rightarrow> bool" where
  "validJournalIndexShape ix ref \<longleftrightarrow>
     \<not> (jx_Version ix \<noteq> journalIndexVersion \<or> jx_SourceSize ix \<le> 0 \<or> Digest_Validate (jx_SourceDigest ix) \<noteq> None
        \<or> jx_Transactions ix = [])
     \<and> \<not> (ix_EndOffset (last (jx_Transactions ix)) \<noteq> jx_SourceSize ix
        \<or> of_nat (length (jx_EventIDs ix)) \<noteq> cu_CommitSeq (ix_Cursor (last (jx_Transactions ix))))
     \<and> shape_ids [] (jx_EventIDs ix) \<and> shape_entries ref 0 0 [] (jx_Transactions ix)"

section \<open>Verifying an entry\<close>

text \<open>The outcome of one line: it fails, another line is read, or the commit is complete.\<close>

datatype verify_step =
    VFail
  | VMore "envelope list" "event list" "event_id list"
  | VDone scanned_commit "event_id list" bool

definition verify_legacy ::
  "journal_env \<Rightarrow> journal_ref \<Rightarrow> journal_index_transaction \<Rightarrow> u64 \<Rightarrow> string \<Rightarrow> verify_step" where
  "verify_legacy env ref x expectedSeq line =
     (if jr_Kind ref \<noteq> JournalSession then VFail
      else case je_Legacy env line of
          Inl m \<Rightarrow> VFail
        | Inr e \<Rightarrow>
            if DurableEvent_Validate env e \<noteq> None \<or> du_Seq e \<noteq> expectedSeq \<or> du_SessionID e \<noteq> jr_ID ref then VFail
            else if ix_Cursor x \<noteq> \<lparr>cu_JournalKind = jr_Kind ref, cu_JournalID = jr_ID ref, cu_CommitSeq = du_Seq e,
                cu_TransactionID = ''legacy:'' @ du_EventID e\<rparr> then VFail
            else VDone \<lparr>sm_cursor = ix_Cursor x, sm_events = [legacy_record (legacy_source_of e line) line],
                sm_envelopes = [], sm_markerTime = 0, sm_firstOffset = ix_FirstOffset x, sm_endOffset = ix_EndOffset x\<rparr>
              [du_EventID e] True)"

definition verify_marker ::
  "journal_env \<Rightarrow> journal_index_transaction \<Rightarrow> event \<Rightarrow> envelope list \<Rightarrow> event list \<Rightarrow> event_id list \<Rightarrow> verify_step" where
  "verify_marker env x r envelopes records ids =
     (case e_Decoded r of
        Some (P_TransactionCommitted m) \<Rightarrow>
          if tm_FirstSeq m \<noteq> en_Seq (hd envelopes) \<or> tm_LastSeq m \<noteq> en_Seq (last envelopes)
             \<or> unat (tm_EventCount m) \<noteq> length envelopes then VFail
          else (case TransactionDigest env envelopes of
              Inl m' \<Rightarrow> VFail
            | Inr d \<Rightarrow>
                if tm_Digest m \<noteq> d then VFail
                else VDone \<lparr>sm_cursor = ix_Cursor x, sm_events = records, sm_envelopes = envelopes,
                    sm_markerTime = en_Time (e_Envelope r), sm_firstOffset = ix_FirstOffset x,
                    sm_endOffset = ix_EndOffset x\<rparr> ids False)
      | _ \<Rightarrow> VFail)"

definition verify_event ::
  "journal_env \<Rightarrow> journal_ref \<Rightarrow> journal_index_transaction \<Rightarrow> u64 \<Rightarrow> bool \<Rightarrow> event
    \<Rightarrow> envelope list \<Rightarrow> event list \<Rightarrow> event_id list \<Rightarrow> verify_step" where
  "verify_event env ref x expectedSeq lastLine r envelopes records ids0 =
     (let e = e_Envelope r; ids = ids0 @ [en_EventID e] in
      if en_JournalKind e \<noteq> jr_Kind ref \<or> en_JournalID e \<noteq> jr_ID ref \<or> en_TransactionID e \<noteq> ix_TransactionID x
         \<or> en_Seq e \<noteq> expectedSeq + of_nat (length ids) - 1 then VFail
      else if en_Kind e \<noteq> EventTransactionCommitted then
        (if 1000 \<le> int (length envelopes) then VFail
         else if lastLine then VFail
         else VMore (envelopes @ [e]) (records @ [r]) ids)
      else if \<not> lastLine \<or> envelopes = [] \<or> en_Seq e \<noteq> cu_CommitSeq (ix_Cursor x) then VFail
      else verify_marker env x r envelopes records ids)"

definition verify_line ::
  "journal_env \<Rightarrow> journal_ref \<Rightarrow> journal_index_transaction \<Rightarrow> u64 \<Rightarrow> bool \<Rightarrow> string
    \<Rightarrow> envelope list \<Rightarrow> event list \<Rightarrow> event_id list \<Rightarrow> verify_step" where
  "verify_line env ref x expectedSeq lastLine line envelopes records ids =
     (case je_Schema env line of
        Inl m \<Rightarrow> VFail
      | Inr v \<Rightarrow>
          if v = 1 then (if envelopes \<noteq> [] \<or> \<not> lastLine then VFail else verify_legacy env ref x expectedSeq line)
          else (case registry_Decode (je_Codec env) line of
              Decoded r \<Rightarrow>
                if registry_Validate (je_Codec env) r \<noteq> None then VFail
                else verify_event env ref x expectedSeq lastLine r envelopes records ids
            | _ \<Rightarrow> VFail))"

text \<open>The lines of an entry; \<open>n\<close> is its length in bytes, \<open>consumed\<close> what was read of it.\<close>

function verify_lines ::
  "journal_env \<Rightarrow> journal_ref \<Rightarrow> journal_index_transaction \<Rightarrow> u64 \<Rightarrow> int \<Rightarrow> string \<Rightarrow> int
    \<Rightarrow> envelope list \<Rightarrow> event list \<Rightarrow> event_id list \<Rightarrow> (scanned_commit \<times> event_id list \<times> bool) option" where
  "verify_lines env ref x expectedSeq n bs consumed envelopes records ids =
     (case readJournalLine bs of
        Inl e \<Rightarrow> None
      | Inr (physical, complete, eof, rest) \<Rightarrow>
          if \<not> complete \<or> physical = [] then None
          else if n < consumed + int (length physical) then None
          else (case verify_line env ref x expectedSeq (consumed + int (length physical) = n) (butlast physical)
                  envelopes records ids of
               VFail \<Rightarrow> None
             | VMore es rs is \<Rightarrow> verify_lines env ref x expectedSeq n rest (consumed + int (length physical)) es rs is
             | VDone c is legacy \<Rightarrow> Some (c, is, legacy)))"
  by pat_completeness auto
termination
  by (relation "measure (\<lambda>(env, ref, x, s, n, bs, c, es, rs, is). length bs)") (auto dest: readJournalLine_shorter)

declare verify_lines.simps [simp del]

text \<open>\<open>io.NewSectionReader\<close>.\<close>

definition section_of :: "string \<Rightarrow> int \<Rightarrow> int \<Rightarrow> string" where
  "section_of file off n = take (nat n) (drop (nat off) file)"

definition verifyIndexedCommit ::
  "journal_env \<Rightarrow> journal_ref \<Rightarrow> string \<Rightarrow> journal_index_transaction \<Rightarrow> u64
    \<Rightarrow> (scanned_commit \<times> event_id list \<times> bool) option" where
  "verifyIndexedCommit env ref file x expectedSeq =
     (let n = ix_EndOffset x - ix_FirstOffset x in
      if n \<le> 0 then None
      else verify_lines env ref x expectedSeq n (section_of file (ix_FirstOffset x) n) 0 [] [] [])"

section \<open>Loading the index\<close>

text \<open>The variables of the loop over the entries.\<close>

record index_state =
  xs_eventOffset :: nat
  xs_expectedSeq :: u64
  xs_hasLegacy :: bool
  xs_hasV2 :: bool
  xs_legacyHead :: cursor
  xs_legacyState :: upcast_state
  xs_commits :: "scanned_commit list"

definition index_commit ::
  "journal_env \<Rightarrow> index_state \<Rightarrow> scanned_commit \<Rightarrow> event_id list \<Rightarrow> bool \<Rightarrow> u64 \<Rightarrow> index_state option" where
  "index_commit env ls c ids legacy commitSeq =
     (let done = (\<lambda>u. u\<lparr>xs_commits := xs_commits u @ [c], xs_eventOffset := xs_eventOffset u + length ids,
            xs_expectedSeq := commitSeq + 1\<rparr>)
      in if legacy then
           (if xs_hasV2 ls then None
            else case sm_events c of
                [r] \<Rightarrow>
                  (case e_Legacy r of
                     None \<Rightarrow> None
                   | Some src \<Rightarrow>
                       (case UpcastV1 (je_Upcast env) src (xs_legacyState ls) of
                          (mapped, next, ds) \<Rightarrow>
                            if diagnosticWithCode ds ''migration.invalid_payload'' \<noteq> None
                               \<or> validateMappedLegacyRecord (cx_Registry (je_Codec env)) mapped \<noteq> None then None
                            else Some (done (ls\<lparr>xs_legacyState := next, xs_hasLegacy := True,
                                xs_legacyHead := sm_cursor c\<rparr>))))
              | _ \<Rightarrow> None)
         else if validateCompatibilityTransition (xs_hasLegacy ls) (xs_hasV2 ls) (xs_legacyHead ls) (sm_events c) \<noteq> None then None
         else Some (done (ls\<lparr>xs_hasV2 := True\<rparr>)))"

fun index_loop ::
  "journal_env \<Rightarrow> journal_ref \<Rightarrow> string \<Rightarrow> event_id list \<Rightarrow> index_state \<Rightarrow> journal_index_transaction list
    \<Rightarrow> index_state option" where
  "index_loop env ref file eventIDs ls [] = Some ls"
| "index_loop env ref file eventIDs ls (x # xs) =
     (case verifyIndexedCommit env ref file x (xs_expectedSeq ls) of
        None \<Rightarrow> None
      | Some (c, ids, legacy) \<Rightarrow>
          if length eventIDs < xs_eventOffset ls + length ids
             \<or> ids \<noteq> take (length ids) (drop (xs_eventOffset ls) eventIDs) then None
          else (case index_commit env ls c ids legacy (cu_CommitSeq (ix_Cursor x)) of
              None \<Rightarrow> None
            | Some ls' \<Rightarrow> index_loop env ref file eventIDs ls' xs))"

definition index_start :: "journal_ref \<Rightarrow> index_state" where
  "index_start ref = \<lparr>xs_eventOffset = 0, xs_expectedSeq = 1, xs_hasLegacy = False, xs_hasV2 = False,
     xs_legacyHead = zero_cursor, xs_legacyState = zero_upcast (jr_ID ref), xs_commits = []\<rparr>"

text \<open>The scan built from the verified commits; its \<open>validPrefixSize\<close> keeps the zero value.\<close>

definition index_seed :: "journal_ref \<Rightarrow> journal_index \<Rightarrow> index_state \<Rightarrow> journal_scan" where
  "index_seed ref ix ls =
     (let l = ix_Cursor (last (jx_Transactions ix)) in
      (new_scan ref)\<lparr>js_head := l, js_physicalSeq := cu_CommitSeq l, js_hasLegacy := xs_hasLegacy ls, js_hasV2 := xs_hasV2 ls,
        js_transactions := foldl (\<lambda>m c. gput (cu_TransactionID (sm_cursor c)) c m) [] (xs_commits ls),
        js_commits := xs_commits ls,
        js_events := concat (map (\<lambda>c. map (\<lambda>r. \<lparr>sd_record = r, sd_cursor = sm_cursor c\<rparr>) (sm_events c)) (xs_commits ls)),
        js_eventIDs := rev (jx_EventIDs ix), js_eventIDOrder := jx_EventIDs ix,
        js_sourceSize := jx_SourceSize ix, js_sourceDigest := jx_SourceDigest ix\<rparr>)"

definition loadVerifiedJournalIndex ::
  "journal_env \<Rightarrow> journal_ref \<Rightarrow> string \<Rightarrow> journal_index option \<Rightarrow> journal_scan option" where
  "loadVerifiedJournalIndex env ref file index =
     (case index of
        None \<Rightarrow> None
      | Some ix \<Rightarrow>
          if \<not> validJournalIndexShape ix ref then None
          else if int (length file) \<noteq> jx_SourceSize ix then None
          else if \<lparr>dg_Algorithm = DigestSHA256, dg_Value = je_Sha256Hex env file\<rparr> \<noteq> jx_SourceDigest ix then None
          else (case index_loop env ref file (jx_EventIDs ix) (index_start ref) (jx_Transactions ix) of
              None \<Rightarrow> None
            | Some ls \<Rightarrow>
                if xs_eventOffset ls \<noteq> length (jx_EventIDs ix) then None else Some (index_seed ref ix ls)))"

end
