(* ===== verification/Journal_Store.thy ===== *)
theory Journal_Store
  imports Journal_Index Authorization_Service
begin

text \<open>
  The store of one journal and its reads, \<open>internal/session/jsonl/range.go\<close>, \<open>batch.go\<close> and \<open>journal.go\<close>:
  loading a scan through the accelerators, resolving an uncertain marker, pages of events, looking up and
  reading one transaction, and the inspections.

  A journal is its file, its metadata (sequence and time of the last commit), the transactions whose
  marker may not be durable, the scan kept in memory and the index file. The lock that serialises the
  operations, opening and closing the file and the comparison of file identities are left out. The
  outcomes of the calls to the operating system that a read makes are the record \<open>read_io\<close>.
\<close>

record journal_store =
  jt_File :: string
  jt_LastSeq :: u64
  jt_UpdatedAt :: gtime
  jt_Uncertain :: "transaction_id list"
  jt_Verified :: "journal_scan option"
  jt_Index :: "journal_index option"

text \<open>The error of the sync of the file, of the close, and whether the index file can be written.\<close>

record read_io =
  ri_Sync :: "string option"
  ri_Close :: "string option"
  ri_IndexWrite :: bool

section \<open>Loading a scan\<close>

definition rememberVerifiedJournalScan :: "journal_scan \<Rightarrow> journal_store \<Rightarrow> journal_store" where
  "rememberVerifiedJournalScan s st =
     (if \<not> js_writable s \<or> js_incompleteTail s \<or> js_sourceSize s \<le> 0 \<or> Digest_Validate (js_sourceDigest s) \<noteq> None then st
      else st\<lparr>jt_Verified := Some (clone_transactions s)\<rparr>)"

definition journalHasMarkerUncertainty :: "journal_store \<Rightarrow> bool" where
  "journalHasMarkerUncertainty st \<longleftrightarrow> jt_Uncertain st \<noteq> []"

definition loadVerifiedJournalScan ::
  "journal_env \<Rightarrow> journal_ref \<Rightarrow> bool \<Rightarrow> journal_store \<Rightarrow> journal_scan option \<times> journal_store" where
  "loadVerifiedJournalScan env ref allowMarkerUncertainty st =
     (if \<not> allowMarkerUncertainty \<and> journalHasMarkerUncertainty st then (None, st)
      else case jt_Verified st of
          None \<Rightarrow> (None, st)
        | Some prefix \<Rightarrow>
            (let forget = st\<lparr>jt_Verified := None\<rparr> in
             if js_incompleteTail prefix then (None, forget)
             else if int (length (jt_File st)) < js_sourceSize prefix then (None, forget)
             else if \<lparr>dg_Algorithm = DigestSHA256,
                 dg_Value = je_Sha256Hex env (take (nat (js_sourceSize prefix)) (jt_File st))\<rparr> \<noteq> js_sourceDigest prefix
               then (None, forget)
             else (case scanJournalAfterPrefix env ref (jt_File st) (Some prefix) of
                 Inl m \<Rightarrow> (None, forget)
               | Inr s \<Rightarrow> (Some s, rememberVerifiedJournalScan s st))))"

text \<open>The scan, and whether the index should be rebuilt.\<close>

definition loadJournalScan ::
  "journal_env \<Rightarrow> journal_ref \<Rightarrow> journal_store \<Rightarrow> (journal_scan \<times> bool) res \<times> journal_store" where
  "loadJournalScan env ref st0 =
     (case loadVerifiedJournalScan env ref False st0 of
        (Some s, st) \<Rightarrow> (Inr (s, True), st)
      | (None, st) \<Rightarrow>
          (case loadVerifiedJournalIndex env ref (jt_File st) (jt_Index st) of
             Some s \<Rightarrow> (Inr (s, False), rememberVerifiedJournalScan s st)
           | None \<Rightarrow>
               (case scanJournal env ref (jt_File st) of
                  Inl m \<Rightarrow> (Inl m, st)
                | Inr s \<Rightarrow> (Inr (s, True), rememberVerifiedJournalScan s st))))"

definition ensureJournalIndex :: "read_io \<Rightarrow> journal_scan \<Rightarrow> journal_store \<Rightarrow> journal_store" where
  "ensureJournalIndex io s st =
     (if jt_Index st = Some (buildJournalIndex s) then st
      else case writeJournalIndex s of
          Some ix \<Rightarrow> if ri_IndexWrite io then st\<lparr>jt_Index := Some ix\<rparr> else st
        | None \<Rightarrow> st)"

text \<open>
  \<open>syncCommittedView\<close>: what a read returns is durable. An uncertain marker that the scan does not show
  leaves the view unresolved.
\<close>

abbreviation errUnresolvedMarkerDurability :: string where
  "errUnresolvedMarkerDurability \<equiv> ''unresolved marker durability''"

definition syncCommittedView :: "read_io \<Rightarrow> journal_scan \<Rightarrow> journal_store \<Rightarrow> string option \<times> journal_store" where
  "syncCommittedView io s st =
     (if list_ex (\<lambda>t. map_of (js_transactions s) t = None) (jt_Uncertain st) then (Some errUnresolvedMarkerDurability, st)
      else case ri_Sync io of
          Some m \<Rightarrow> (Some m, st)
        | None \<Rightarrow> (None, st\<lparr>jt_Uncertain := []\<rparr>))"

section \<open>Pages\<close>

definition validateRangeCursor :: "journal_ref \<Rightarrow> cursor \<Rightarrow> string option" where
  "validateRangeCursor ref c =
     (if c = zero_cursor then None
      else case CommittedCursor_Validate c of
          Some m \<Rightarrow> Some m
        | None \<Rightarrow> fail_if (cu_JournalKind c \<noteq> jr_Kind ref \<or> cu_JournalID c \<noteq> jr_ID ref) ''range cursor journal identity mismatch'')"

text \<open>The commits after the cursor; \<open>None\<close> when it is no committed cursor.\<close>

fun commits_after :: "cursor \<Rightarrow> scanned_commit list \<Rightarrow> scanned_commit list option" where
  "commits_after after [] = None"
| "commits_after after (c # cs) = (if sm_cursor c = after then Some cs else commits_after after cs)"

text \<open>The loop that fills a page with whole transactions.\<close>

fun fill_page :: "int \<Rightarrow> event_page \<Rightarrow> scanned_commit list \<Rightarrow> event_page res" where
  "fill_page limit p [] = Inr p"
| "fill_page limit p (c # cs) =
     (if pg_Events p \<noteq> [] \<and> limit < int (length (pg_Events p) + length (sm_events c)) then Inr (p\<lparr>pg_More := True\<rparr>)
      else if pg_Events p = [] \<and> limit < int (length (sm_events c)) then
        Inl ''committed transaction exceeds page limit''
      else (let p' = p\<lparr>pg_Events := pg_Events p @ sm_events c, pg_Cursor := sm_cursor c, pg_More := (cs \<noteq> [])\<rparr> in
        if int (length (pg_Events p')) = limit then Inr p' else fill_page limit p' cs))"

definition page_of_scan :: "journal_scan \<Rightarrow> cursor \<Rightarrow> int \<Rightarrow> event_page res" where
  "page_of_scan s after limit =
     (case (if after = zero_cursor then Some (js_commits s) else commits_after after (js_commits s)) of
        None \<Rightarrow> Inl ''range cursor is not a committed journal cursor''
      | Some cs \<Rightarrow> fill_page limit \<lparr>pg_Events = [], pg_Cursor = after, pg_Head = js_head s, pg_More = False\<rparr> cs)"

definition ReadRange ::
  "journal_env \<Rightarrow> read_io \<Rightarrow> read_range_request \<Rightarrow> journal_store \<Rightarrow> event_page res \<times> journal_store" where
  "ReadRange env io rq st =
     (case JournalRef_Validate (rr_Journal rq) of
        Some m \<Rightarrow> (Inl m, st)
      | None \<Rightarrow>
          if rr_Limit rq < 1 \<or> 1000 < rr_Limit rq then (Inl ''range limit must be between 1 and 1000'', st)
          else (case validateRangeCursor (rr_Journal rq) (rr_After rq) of
              Some m \<Rightarrow> (Inl m, st)
            | None \<Rightarrow>
                (case loadJournalScan env (rr_Journal rq) st of
                   (Inl m, st1) \<Rightarrow> (Inl m, st1)
                 | (Inr (s, rebuild), st1) \<Rightarrow>
                     (case syncCommittedView io s st1 of
                        (Some m, st2) \<Rightarrow> (Inl m, st2)
                      | (None, st2) \<Rightarrow>
                          (let st3 = (if rebuild then ensureJournalIndex io s st2 else st2) in
                           case ri_Close io of
                             Some m \<Rightarrow> (Inl m, st3)
                           | None \<Rightarrow> (page_of_scan s (rr_After rq) (rr_Limit rq), st3))))))"

section \<open>One transaction\<close>

datatype transaction_state = TransactionCommitted cursor | TransactionNotCommitted | TransactionUnknown

definition LookupTransaction ::
  "journal_env \<Rightarrow> read_io \<Rightarrow> journal_ref \<Rightarrow> transaction_id \<Rightarrow> journal_store \<Rightarrow> transaction_state res \<times> journal_store" where
  "LookupTransaction env io ref t st =
     (let close = (\<lambda>r. case ri_Close io of Some m \<Rightarrow> Inl m | None \<Rightarrow> r) in
      case first_err [JournalRef_Validate ref, fail_if (t = '''') ''transaction ID is required''] of
        Some m \<Rightarrow> (Inl m, st)
      | None \<Rightarrow>
          (case loadJournalScan env ref st of
             (Inl m, st1) \<Rightarrow> (Inl m, st1)
           | (Inr (s, rebuild), st1) \<Rightarrow>
               (case syncCommittedView io s st1 of
                  (Some m, st2) \<Rightarrow>
                    (if m = errUnresolvedMarkerDurability then close (Inr TransactionUnknown) else Inl m, st2)
                | (None, st2) \<Rightarrow>
                    (let st3 = rememberVerifiedJournalScan s st2;
                         st4 = (if rebuild \<and> \<not> journalHasMarkerUncertainty st3 then ensureJournalIndex io s st3 else st3)
                     in case map_of (js_transactions s) t of
                          Some c \<Rightarrow> (close (Inr (TransactionCommitted (sm_cursor c))), st4)
                        | None \<Rightarrow>
                            if js_incompleteTail s then (close (Inr TransactionUnknown), st2)
                            else if t \<in> set (jt_Uncertain st2) then (close (Inr TransactionUnknown), st2)
                            else (close (Inr TransactionNotCommitted), st4)))))"

text \<open>Its own scan on every call: nothing kept in memory takes part in the answer.\<close>

definition ReadCommittedTransaction ::
  "journal_env \<Rightarrow> read_io \<Rightarrow> journal_ref \<Rightarrow> transaction_id \<Rightarrow> journal_store \<Rightarrow> committed_transaction res \<times> journal_store" where
  "ReadCommittedTransaction env io ref t st =
     (case first_err [JournalRef_Validate ref, fail_if (t = '''') ''transaction ID is required''] of
        Some m \<Rightarrow> (Inl m, st)
      | None \<Rightarrow>
          (case scanJournal env ref (jt_File st) of
             Inl m \<Rightarrow> (Inl m, st)
           | Inr s \<Rightarrow>
               (case syncCommittedView io s st of
                  (Some m, st1) \<Rightarrow> (Inl m, st1)
                | (None, st1) \<Rightarrow>
                    (case ri_Close io of
                       Some m \<Rightarrow> (Inl m, st1)
                     | None \<Rightarrow>
                         (case map_of (js_transactions s) t of
                            None \<Rightarrow> (Inl (if js_incompleteTail s
                                then ''transaction is not independently provable because the journal tail is incomplete''
                                else ''transaction is not committed''), st1)
                          | Some c \<Rightarrow>
                              if sm_envelopes c = [] then (Inl ''legacy transaction has no v2 envelopes'', st1)
                              else (Inr \<lparr>tx_Journal = ref, tx_TransactionID = t, tx_Cursor = sm_cursor c,
                                  tx_Events = sm_envelopes c\<rparr>, st1))))))"

section \<open>Inspection\<close>

text \<open>The events as the current format has them: legacy records are upcast in order.\<close>

fun upcast_scanned ::
  "upcast_env \<Rightarrow> upcast_state \<Rightarrow> legacy_source option \<Rightarrow> scanned_event list
    \<Rightarrow> event list \<times> diagnostic list \<times> upcast_state \<times> legacy_source option" where
  "upcast_scanned env u lastLegacy [] = ([], [], u, lastLegacy)"
| "upcast_scanned env u lastLegacy (e # es) =
     (case e_Legacy (sd_record e) of
        None \<Rightarrow> (case upcast_scanned env u lastLegacy es of (rs, ds, u', l') \<Rightarrow> (sd_record e # rs, ds, u', l'))
      | Some src \<Rightarrow>
          (case UpcastV1 env src u of
             (r, u1, d) \<Rightarrow> (case upcast_scanned env u1 (Some src) es of (rs, ds, u', l') \<Rightarrow> (r # rs, d @ ds, u', l'))))"

definition upcastScannedEvents :: "journal_env \<Rightarrow> journal_scan \<Rightarrow> session_id \<Rightarrow> event list \<times> diagnostic list" where
  "upcastScannedEvents env s sessionID =
     (case upcast_scanned (je_Upcast env) (zero_upcast sessionID) None (js_events s) of
        (rs, ds, u, lastLegacy) \<Rightarrow>
          (rs, ds @ (case lastLegacy of
             Some src \<Rightarrow> if us_OpenCalls u \<noteq> []
               then unmatchedCallDiagnostics \<lparr>jr_Kind = JournalSession, jr_ID = sessionID\<rparr> src u else []
           | None \<Rightarrow> [])))"

end
