(* ===== verification/Journal_Append.thy ===== *)
theory Journal_Append
  imports Journal_Store
begin

text \<open>
  Appending a transaction, \<open>internal/session/jsonl/batch.go\<close>: the request is checked against the scan of
  the journal, its events are sealed into lines of which each is decoded and validated again, the event
  lines are written and synced, and only then the marker that commits them.

  What the store is given is the record \<open>append_env\<close>: the encoder with the redaction of secrets, the
  admission of the bytes, the identifiers and times it generates and the canonical encoding of its own
  two payloads. The outcomes of the calls to the operating system, and of the injected faults beside
  them, are the record \<open>append_io\<close>; a write may stop after any number of bytes.
\<close>

section \<open>Requests\<close>

record proposed_event =
  pe_EventID :: event_id
  pe_Time :: gtime
  pe_PayloadVersion :: u32
  pe_Kind :: string
  pe_SessionID :: session_id
  pe_TaskID :: task_id
  pe_TurnID :: turn_id
  pe_ActivityID :: activity_id
  pe_ParentActivityID :: activity_id
  pe_CausationEventID :: event_id
  pe_Actor :: "actor_ref option"
  pe_RuntimeGenerationID :: runtime_generation_id
  pe_Payload :: raw_message

record compatibility_request =
  cr_ReaderVersion :: u32
  cr_WriterVersion :: u32
  cr_LegacyHead :: cursor

record append_request =
  aq_Journal :: journal_ref
  aq_ExpectedHead :: cursor
  aq_TransactionID :: transaction_id
  aq_Compatibility :: "compatibility_request option"
  aq_Events :: "proposed_event list"

abbreviation AppendCommitted :: string where "AppendCommitted \<equiv> ''committed''"
abbreviation AppendConflict :: string where "AppendConflict \<equiv> ''conflict''"
abbreviation AppendRecoveryRequired :: string where "AppendRecoveryRequired \<equiv> ''recovery_required''"
abbreviation AppendCommitUnknown :: string where "AppendCommitUnknown \<equiv> ''commit_unknown''"

record append_result =
  as_Status :: string
  as_Cursor :: cursor
  as_CurrentHead :: cursor
  as_Events :: "envelope list"

definition zero_append :: append_result where
  "zero_append = \<lparr>as_Status = '''', as_Cursor = zero_cursor, as_CurrentHead = zero_cursor, as_Events = []\<rparr>"

record append_identity =
  id_compatibilityEventID :: event_id
  id_compatibilityTime :: gtime
  id_markerEventID :: event_id
  id_markerTime :: gtime
  id_admittedPayloads :: "(event_id, raw_message) gomap option"
  id_expectedBytes :: "string option"

definition no_identity :: append_identity where
  "no_identity = \<lparr>id_compatibilityEventID = '''', id_compatibilityTime = 0, id_markerEventID = '''', id_markerTime = 0,
     id_admittedPayloads = None, id_expectedBytes = None\<rparr>"

text \<open>\<open>ae_Encoder\<close> is \<open>None\<close> for a nil encoder, \<open>ae_Secrets\<close> for a nil registry of secrets.\<close>

record append_env =
  ae_Encoder :: "(proposed_event \<Rightarrow> raw_message res) option"
  ae_Secrets :: "(runtime_generation_id \<Rightarrow> string option) option"
  ae_AdmitMetadata :: "append_request \<Rightarrow> string option"
  ae_AdmitBytes :: "string \<Rightarrow> string option"
  ae_CompatibilityID :: "string res"
  ae_MarkerID :: "string res"
  ae_CompatibilityClock :: gtime
  ae_MarkerClock :: gtime
  ae_MarshalDeclaration :: "compatibility_declared \<Rightarrow> string res"
  ae_MarshalMarker :: "transaction_committed \<Rightarrow> string res"

datatype append_point = BeforeWrite | EventWritten | EventSync | EventSynced | EventVerify | MarkerWritten | MarkerSync
  | MarkerSynced | MarkerVerify | MetadataWrite | MetadataReplace | MetadataRename | DirectorySync | DirectorySynced | AtEnd

text \<open>
  \<open>ao_Events n\<close> and \<open>ao_Marker n\<close> are what the \<open>n\<close>-th \<open>Write\<close> of the event lines and of the marker line
  gives: the number of bytes and the error. \<open>ao_MetadataDone\<close>: whether a failed replacement of the
  metadata has replaced it.
\<close>

record append_io =
  ao_Open :: "string option"
  ao_At :: "append_point \<Rightarrow> string option"
  ao_Events :: "nat \<Rightarrow> nat \<times> string option"
  ao_Marker :: "nat \<Rightarrow> nat \<times> string option"
  ao_MetadataDone :: bool
  ao_IndexWrite :: bool
  ao_Close :: "string option"

definition validateAppendRequest :: "append_request \<Rightarrow> string option" where
  "validateAppendRequest rq = first_err
     [JournalRef_Validate (aq_Journal rq),
      (if aq_ExpectedHead rq = zero_cursor then
         fail_if (jr_Kind (aq_Journal rq) \<noteq> JournalWorkspaceControl)
           ''only a new workspace-control journal accepts an empty expected head''
       else first_err [CommittedCursor_Validate (aq_ExpectedHead rq),
         fail_if (cu_JournalKind (aq_ExpectedHead rq) \<noteq> jr_Kind (aq_Journal rq)
             \<or> cu_JournalID (aq_ExpectedHead rq) \<noteq> jr_ID (aq_Journal rq)) ''expected head journal identity mismatch'']),
      fail_if (aq_TransactionID rq = '''') ''transaction ID is required'',
      fail_if (aq_Events rq = [] \<or> 1000 < int (length (aq_Events rq))) ''append event count must be between 1 and 1000'']"

definition acquireAppendAdmission :: "append_env \<Rightarrow> append_request \<Rightarrow> string option" where
  "acquireAppendAdmission ae rq =
     (case ae_Secrets ae of
        None \<Rightarrow> None
      | Some acquire \<Rightarrow>
          (let g = pe_RuntimeGenerationID (hd (aq_Events rq)) in
           first_err [fail_if (g = '''') ''runtime generation is required for secret admission'',
             fail_if (list_ex (\<lambda>e. pe_RuntimeGenerationID e \<noteq> g) (tl (aq_Events rq)))
               ''one pinned runtime generation is required for the entire transaction'',
             acquire g]))"

section \<open>Sealing\<close>

text \<open>\<open>encodeLine\<close>, without the newline it adds.\<close>

definition encodeLine :: "journal_env \<Rightarrow> envelope \<Rightarrow> string res" where
  "encodeLine env e =
     (case je_Marshal env e of
        Inl m \<Rightarrow> Inl m
      | Inr raw \<Rightarrow> if MaxEventBytes < int (length raw) then Inl ''journal event exceeds maximum size'' else Inr raw)"

text \<open>The line of an envelope, after the registry has decoded and validated it.\<close>

definition checked_line :: "journal_env \<Rightarrow> envelope \<Rightarrow> string res" where
  "checked_line env e =
     (case encodeLine env e of
        Inl m \<Rightarrow> Inl m
      | Inr line \<Rightarrow>
          (case registry_Decode (je_Codec env) line of
             Decoded r \<Rightarrow> (case registry_Validate (je_Codec env) r of Some m \<Rightarrow> Inl m | None \<Rightarrow> Inr line)
           | Unknown m r \<Rightarrow> Inl m
           | Undecodable m r \<Rightarrow> Inl m))"

definition admitted_payload :: "append_env \<Rightarrow> append_identity \<Rightarrow> proposed_event \<Rightarrow> raw_message res" where
  "admitted_payload ae identity p =
     (case id_admittedPayloads identity of
        Some payloads \<Rightarrow>
          (case map_of payloads (pe_EventID p) of
             None \<Rightarrow> Inl ''event has no persisted admission payload''
           | Some raw \<Rightarrow> Inr raw)
      | None \<Rightarrow>
          (case ae_Encoder ae of
             None \<Rightarrow> Inl ''journal encoder is required''
           | Some encode \<Rightarrow> encode p))"

definition sealed_envelope :: "append_request \<Rightarrow> u64 \<Rightarrow> proposed_event \<Rightarrow> string \<Rightarrow> envelope" where
  "sealed_envelope rq seq p payload = \<lparr>en_SchemaVersion = EnvelopeVersion, en_PayloadVersion = pe_PayloadVersion p,
     en_JournalKind = jr_Kind (aq_Journal rq), en_JournalID = jr_ID (aq_Journal rq),
     en_EventID = pe_EventID p, en_SessionID = pe_SessionID p, en_Seq = seq, en_Time = pe_Time p, en_Kind = pe_Kind p,
     en_TaskID = pe_TaskID p, en_TurnID = pe_TurnID p, en_ActivityID = pe_ActivityID p,
     en_ParentActivityID = pe_ParentActivityID p, en_CausationEventID = pe_CausationEventID p,
     en_Actor = pe_Actor p, en_RuntimeGenerationID = pe_RuntimeGenerationID p,
     en_TransactionID = aq_TransactionID rq, en_Payload = Some payload\<rparr>"

definition seal_event ::
  "journal_env \<Rightarrow> append_env \<Rightarrow> append_identity \<Rightarrow> append_request \<Rightarrow> journal_scan \<Rightarrow> event_id list \<Rightarrow> nat
    \<Rightarrow> proposed_event \<Rightarrow> (envelope \<times> string) res" where
  "seal_event env ae identity rq s seen index p =
     (case first_err [fail_if (pe_Kind p = EventTransactionCommitted) ''caller must not propose a transaction marker'',
             fail_if (pe_EventID p = '''') ''event ID is required'',
             fail_if (pe_EventID p \<in> set seen) ''duplicate proposed event ID'',
             fail_if (pe_EventID p \<in> set (js_eventIDs s)) ''duplicate durable event ID''] of
        Some m \<Rightarrow> Inl m
      | None \<Rightarrow>
          (case admitted_payload ae identity p of
             Inl m \<Rightarrow> Inl m
           | Inr admitted \<Rightarrow>
               (case canonical_marshal (raw_bytes admitted) of
                  Inl m \<Rightarrow> Inl m
                | Inr payload \<Rightarrow>
                    (let e = sealed_envelope rq (js_physicalSeq s + of_nat index + 1) p payload in
                     case checked_line env e of Inl m \<Rightarrow> Inl m | Inr line \<Rightarrow> Inr (e, line)))))"

fun seal_events ::
  "journal_env \<Rightarrow> append_env \<Rightarrow> append_identity \<Rightarrow> append_request \<Rightarrow> journal_scan \<Rightarrow> event_id list \<Rightarrow> nat
    \<Rightarrow> proposed_event list \<Rightarrow> (envelope \<times> string) list res" where
  "seal_events env ae identity rq s seen index [] = Inr []"
| "seal_events env ae identity rq s seen index (p # ps) =
     (case seal_event env ae identity rq s seen index p of
        Inl m \<Rightarrow> Inl m
      | Inr x \<Rightarrow>
          (case seal_events env ae identity rq s (pe_EventID p # seen) (index + 1) ps of
             Inl m \<Rightarrow> Inl m
           | Inr xs \<Rightarrow> Inr (x # xs)))"

text \<open>The declaration that opens the first transaction of the current format after legacy data.\<close>

definition compatibility_event ::
  "append_env \<Rightarrow> append_identity \<Rightarrow> gtime \<Rightarrow> append_request \<Rightarrow> journal_scan \<Rightarrow> compatibility_request \<Rightarrow> proposed_event res" where
  "compatibility_event ae identity updatedAt rq s c =
     (if cr_ReaderVersion c \<noteq> EnvelopeVersion \<or> cr_WriterVersion c \<noteq> EnvelopeVersion \<or> cr_LegacyHead c \<noteq> js_head s
      then Inl ''invalid legacy compatibility declaration''
      else if 1000 \<le> int (length (aq_Events rq)) then
        Inl ''first v2 compatibility transaction supports at most 999 caller events''
      else case (if id_compatibilityEventID identity = '''' then ae_CompatibilityID ae
          else Inr (id_compatibilityEventID identity)) of
          Inl m \<Rightarrow> Inl m
        | Inr i \<Rightarrow>
            (let t = (if id_compatibilityTime identity = 0 then ae_CompatibilityClock ae else id_compatibilityTime identity);
                 time = (if t < updatedAt then updatedAt else t)
             in case ae_MarshalDeclaration ae \<lparr>mc_ReaderVersion = cr_ReaderVersion c, mc_WriterVersion = cr_WriterVersion c,
                    mc_LegacyHead = cr_LegacyHead c, mc_DowngradeStatus = ''v0.1_read_only_after_v2''\<rparr> of
                  Inl m \<Rightarrow> Inl m
                | Inr payload \<Rightarrow> Inr \<lparr>pe_EventID = i, pe_Time = time, pe_PayloadVersion = 1,
                    pe_Kind = EventMigrationCompatibilityDeclared, pe_SessionID = jr_ID (aq_Journal rq), pe_TaskID = '''',
                    pe_TurnID = '''', pe_ActivityID = '''', pe_ParentActivityID = '''', pe_CausationEventID = '''',
                    pe_Actor = None, pe_RuntimeGenerationID = pe_RuntimeGenerationID (hd (aq_Events rq)),
                    pe_Payload = Some payload\<rparr>))"

definition with_compatibility ::
  "append_env \<Rightarrow> append_identity \<Rightarrow> gtime \<Rightarrow> append_request \<Rightarrow> journal_scan \<Rightarrow> append_request res" where
  "with_compatibility ae identity updatedAt rq s =
     (if list_ex (\<lambda>p. pe_Kind p = EventMigrationCompatibilityDeclared) (aq_Events rq) then
        Inl ''caller must not propose a compatibility declaration''
      else if js_hasLegacy s \<and> \<not> js_hasV2 s then
        (case aq_Compatibility rq of
           None \<Rightarrow> Inl ''first v2 append to a legacy journal requires a compatibility declaration''
         | Some c \<Rightarrow>
             (case compatibility_event ae identity updatedAt rq s c of
                Inl m \<Rightarrow> Inl m
              | Inr p \<Rightarrow> Inr (rq\<lparr>aq_Events := p # aq_Events rq\<rparr>)))
      else if aq_Compatibility rq \<noteq> None then Inl ''compatibility declaration is invalid after the first v2 transaction''
      else Inr rq)"

definition marker_envelope ::
  "append_request \<Rightarrow> event_id \<Rightarrow> gtime \<Rightarrow> envelope list \<Rightarrow> string \<Rightarrow> envelope" where
  "marker_envelope rq i time es payload = \<lparr>en_SchemaVersion = EnvelopeVersion, en_PayloadVersion = 1,
     en_JournalKind = jr_Kind (aq_Journal rq), en_JournalID = jr_ID (aq_Journal rq), en_EventID = i,
     en_SessionID = (if jr_Kind (aq_Journal rq) = JournalSession then jr_ID (aq_Journal rq) else ''''),
     en_Seq = en_Seq (last es) + 1, en_Time = time, en_Kind = EventTransactionCommitted, en_TaskID = '''',
     en_TurnID = '''', en_ActivityID = '''', en_ParentActivityID = '''', en_CausationEventID = '''',
     en_Actor = None, en_RuntimeGenerationID = en_RuntimeGenerationID (hd es),
     en_TransactionID = aq_TransactionID rq, en_Payload = Some payload\<rparr>"

text \<open>The time of the marker is not before the last event nor before the last commit.\<close>

definition marker_time :: "append_env \<Rightarrow> append_identity \<Rightarrow> gtime \<Rightarrow> gtime \<Rightarrow> gtime" where
  "marker_time ae identity updatedAt lastEvent =
     (let t0 = (if id_markerTime identity = 0 then ae_MarkerClock ae else id_markerTime identity);
          t1 = (if t0 < lastEvent then lastEvent else t0)
      in if t1 < updatedAt then updatedAt else t1)"

text \<open>The transaction that is ready to be written.\<close>

record prepared_append =
  pa_Events :: "envelope list"
  pa_Lines :: "string list"
  pa_Marker :: envelope
  pa_MarkerLine :: string

definition seal_marker ::
  "journal_env \<Rightarrow> append_env \<Rightarrow> append_identity \<Rightarrow> gtime \<Rightarrow> append_request \<Rightarrow> journal_scan
    \<Rightarrow> (envelope \<times> string) list \<Rightarrow> prepared_append res" where
  "seal_marker env ae identity updatedAt rq s sealed =
     (let es = map fst sealed in
      case TransactionDigest env es of
        Inl m \<Rightarrow> Inl m
      | Inr d \<Rightarrow>
          (case ae_MarshalMarker ae \<lparr>tm_TransactionID = aq_TransactionID rq, tm_FirstSeq = en_Seq (hd es),
               tm_LastSeq = en_Seq (last es), tm_EventCount = of_nat (length es), tm_Digest = d\<rparr> of
             Inl m \<Rightarrow> Inl m
           | Inr payload \<Rightarrow>
               (case (if id_markerEventID identity = '''' then ae_MarkerID ae else Inr (id_markerEventID identity)) of
                  Inl m \<Rightarrow> Inl m
                | Inr i \<Rightarrow>
                    if i \<in> set (js_eventIDs s) then Inl ''generated marker event ID duplicates a durable event''
                    else if i \<in> set (map pe_EventID (aq_Events rq)) then
                      Inl ''generated marker event ID duplicates a proposed event''
                    else (let m = marker_envelope rq i (marker_time ae identity updatedAt (en_Time (last es))) es payload in
                      case checked_line env m of
                        Inl e \<Rightarrow> Inl e
                      | Inr line \<Rightarrow> Inr \<lparr>pa_Events = es, pa_Lines = map snd sealed, pa_Marker = m, pa_MarkerLine = line\<rparr>))))"

definition event_bytes :: "prepared_append \<Rightarrow> string" where
  "event_bytes pa = concat (map (\<lambda>l. l @ [newline]) (pa_Lines pa))"

definition marker_bytes :: "prepared_append \<Rightarrow> string" where
  "marker_bytes pa = pa_MarkerLine pa @ [newline]"

text \<open>From the conflict check to the first write.\<close>

definition prepare_append ::
  "journal_env \<Rightarrow> append_env \<Rightarrow> append_identity \<Rightarrow> journal_store \<Rightarrow> append_request \<Rightarrow> journal_scan \<Rightarrow> prepared_append res" where
  "prepare_append env ae identity st rq0 s =
     (case with_compatibility ae identity (jt_UpdatedAt st) rq0 s of
        Inl m \<Rightarrow> Inl m
      | Inr rq \<Rightarrow>
          if map_of (js_transactions s) (aq_TransactionID rq) \<noteq> None then Inl ''duplicate transaction ID''
          else if cu_CommitSeq (js_head s) < jt_LastSeq st then Inl ''session metadata leads committed journal head''
          else (case seal_events env ae identity rq s [] 0 (aq_Events rq) of
              Inl m \<Rightarrow> Inl m
            | Inr sealed \<Rightarrow>
                (case seal_marker env ae identity (jt_UpdatedAt st) rq s sealed of
                   Inl m \<Rightarrow> Inl m
                 | Inr pa \<Rightarrow>
                     (let actual = event_bytes pa @ marker_bytes pa in
                      if id_expectedBytes identity \<noteq> None \<and> id_expectedBytes identity \<noteq> Some actual then
                        Inl ''prepared append differs from persisted admitted transaction bytes''
                      else case (if ae_Secrets ae = None then None else ae_AdmitBytes ae actual) of
                          Some m \<Rightarrow> Inl m
                        | None \<Rightarrow> Inr pa))))"

section \<open>Writing\<close>

text \<open>\<open>writeFull\<close>: the bytes that reached the file, and the error. A \<open>Write\<close> writes at most what it is given.\<close>

function writeFull :: "(nat \<Rightarrow> nat \<times> string option) \<Rightarrow> nat \<Rightarrow> string \<Rightarrow> string \<times> string option" where
  "writeFull w i raw =
     (if raw = [] then ([], None)
      else case w i of
          (n, Some m) \<Rightarrow> (take n raw, Some m)
        | (n, None) \<Rightarrow>
            if n = 0 then ([], Some ''multiple Read calls return no data or error'')
            else (case writeFull w (i + 1) (drop n raw) of (done, err) \<Rightarrow> (take n raw @ done, err)))"
  by pat_completeness auto
termination by (relation "measure (\<lambda>(w, i, raw). length raw)") auto

declare writeFull.simps [simp del]

definition append_bytes :: "string \<Rightarrow> journal_store \<Rightarrow> journal_store" where
  "append_bytes bs st = st\<lparr>jt_File := jt_File st @ bs\<rparr>"

definition appendFailure :: "string \<Rightarrow> cursor \<Rightarrow> string \<Rightarrow> append_result \<times> string option" where
  "appendFailure status current err = (zero_append\<lparr>as_Status := status, as_CurrentHead := current\<rparr>, Some err)"

text \<open>The first error of some points of the append.\<close>

definition fault_at :: "append_io \<Rightarrow> append_point list \<Rightarrow> string option" where
  "fault_at io ps = first_err (map (ao_At io) ps)"

text \<open>After the marker is durable: the metadata, the scan of what is committed now and the index.\<close>

definition write_metadata :: "append_io \<Rightarrow> envelope \<Rightarrow> journal_store \<Rightarrow> string option \<times> journal_store" where
  "write_metadata io marker st =
     (let st' = st\<lparr>jt_LastSeq := en_Seq marker, jt_UpdatedAt := en_Time marker\<rparr> in
      case ao_At io MetadataReplace of
        Some m \<Rightarrow> (Some m, if ao_MetadataDone io then st' else st)
      | None \<Rightarrow> (None, st'))"

definition committed_scan :: "journal_env \<Rightarrow> journal_ref \<Rightarrow> journal_store \<Rightarrow> journal_scan res \<times> journal_store" where
  "committed_scan env ref st =
     (case loadVerifiedJournalScan env ref True st of
        (Some s, st') \<Rightarrow> (Inr s, st')
      | (None, st') \<Rightarrow> (scanJournal env ref (jt_File st'), st'))"

definition finish_append ::
  "journal_env \<Rightarrow> append_io \<Rightarrow> journal_ref \<Rightarrow> cursor \<Rightarrow> prepared_append \<Rightarrow> transaction_id \<Rightarrow> journal_store
    \<Rightarrow> (append_result \<times> string option) \<times> journal_store" where
  "finish_append env io ref head pa t st =
     (case fault_at io [MetadataWrite] of
        Some m \<Rightarrow> (appendFailure AppendCommitUnknown head m, st)
      | None \<Rightarrow>
          (case write_metadata io (pa_Marker pa) st of
             (Some m, st1) \<Rightarrow> (appendFailure AppendCommitUnknown head m, st1)
           | (None, st1) \<Rightarrow>
               (case fault_at io [MetadataRename] of
                  Some m \<Rightarrow> (appendFailure AppendCommitUnknown head m, st1)
                | None \<Rightarrow>
                    (case committed_scan env ref st1 of
                       (Inl m, st2) \<Rightarrow> (appendFailure AppendCommitUnknown head m, st2)
                     | (Inr s, st2) \<Rightarrow>
                         (let st3 = (case writeJournalIndex s of
                                Some ix \<Rightarrow> if ao_IndexWrite io then st2\<lparr>jt_Index := Some ix\<rparr> else st2
                              | None \<Rightarrow> st2);
                              st4 = rememberVerifiedJournalScan s st3;
                              c = \<lparr>cu_JournalKind = jr_Kind ref, cu_JournalID = jr_ID ref,
                                cu_CommitSeq = en_Seq (pa_Marker pa), cu_TransactionID = t\<rparr>
                          in case fault_at io [DirectorySync, DirectorySynced, AtEnd] of
                               Some m \<Rightarrow> (appendFailure AppendCommitUnknown head m, st4)
                             | None \<Rightarrow> ((\<lparr>as_Status = AppendCommitted, as_Cursor = c, as_CurrentHead = c,
                                  as_Events = pa_Events pa\<rparr>, None), st4))))))"

definition write_append ::
  "journal_env \<Rightarrow> append_io \<Rightarrow> journal_ref \<Rightarrow> cursor \<Rightarrow> prepared_append \<Rightarrow> transaction_id \<Rightarrow> journal_store
    \<Rightarrow> (append_result \<times> string option) \<times> journal_store" where
  "write_append env io ref head pa t st =
     (case fault_at io [BeforeWrite] of
        Some m \<Rightarrow> ((zero_append\<lparr>as_CurrentHead := head\<rparr>, Some m), st)
      | None \<Rightarrow>
          (case writeFull (ao_Events io) 0 (event_bytes pa) of
             (done, err) \<Rightarrow>
               (let st1 = append_bytes done st in
                case first_err [err, fault_at io [EventWritten, EventSync, EventSynced, EventVerify]] of
                  Some m \<Rightarrow> (appendFailure AppendRecoveryRequired head m, st1)
                | None \<Rightarrow>
                    (case writeFull (ao_Marker io) 0 (marker_bytes pa) of
                       (done', err') \<Rightarrow>
                         (let st2 = append_bytes done' (st1\<lparr>jt_Uncertain := t # jt_Uncertain st1\<rparr>) in
                          case first_err [err', fault_at io [MarkerWritten, MarkerSync, MarkerSynced, MarkerVerify]] of
                            Some m \<Rightarrow> (appendFailure AppendCommitUnknown head m, st2)
                          | None \<Rightarrow> finish_append env io ref head pa t st2)))))"

section \<open>The append\<close>

definition appendBatchLockedWithIdentity ::
  "journal_env \<Rightarrow> append_env \<Rightarrow> append_io \<Rightarrow> append_request \<Rightarrow> append_identity \<Rightarrow> journal_store
    \<Rightarrow> (append_result \<times> string option) \<times> journal_store" where
  "appendBatchLockedWithIdentity env ae io rq identity st0 =
     (if journalHasMarkerUncertainty st0 then
        ((zero_append\<lparr>as_Status := AppendCommitUnknown\<rparr>, Some ''journal has unresolved marker durability uncertainty''), st0)
      else case loadJournalScan env (aq_Journal rq) st0 of
          (Inl m, st) \<Rightarrow> ((zero_append, Some m), st)
        | (Inr (s, rebuild), st) \<Rightarrow>
            (let base = zero_append\<lparr>as_CurrentHead := js_head s\<rparr> in
             if recoveryEligible s then ((base\<lparr>as_Status := AppendRecoveryRequired\<rparr>, None), st)
             else if js_incompleteTail s \<or> \<not> js_writable s then
               ((base, Some ''journal is read-only because data beyond its validated prefix is not eligible for recovery''), st)
             else if aq_ExpectedHead rq \<noteq> js_head s then ((base\<lparr>as_Status := AppendConflict\<rparr>, None), st)
             else (case prepare_append env ae identity st rq s of
                 Inl m \<Rightarrow> ((base, Some m), st)
               | Inr pa \<Rightarrow> write_append env io (aq_Journal rq) (js_head s) pa (aq_TransactionID rq) st)))"

definition AppendBatch ::
  "journal_env \<Rightarrow> append_env \<Rightarrow> append_io \<Rightarrow> append_request \<Rightarrow> journal_store
    \<Rightarrow> (append_result \<times> string option) \<times> journal_store" where
  "AppendBatch env ae io rq st =
     (case first_err [validateAppendRequest rq, acquireAppendAdmission ae rq,
             (if ae_Secrets ae = None then None else ae_AdmitMetadata ae rq),
             fail_if (ae_Encoder ae = None) ''journal encoder is required'', ao_Open io] of
        Some m \<Rightarrow> ((zero_append, Some m), st)
      | None \<Rightarrow>
          (case appendBatchLockedWithIdentity env ae io rq no_identity st of
             ((r, err), st') \<Rightarrow>
               (case first_err [err, ao_Close io] of
                  None \<Rightarrow> ((r, None), if as_Status r = AppendCommitted
                    then st'\<lparr>jt_Uncertain := filter (\<lambda>t. t \<noteq> aq_TransactionID rq) (jt_Uncertain st')\<rparr> else st')
                | Some m \<Rightarrow> ((r, Some m), st'))))"

end
