(* ===== verification/Journal_Index_Scan.thy ===== *)
theory Journal_Index_Scan
  imports Journal_Index
begin

text \<open>
  A verified index gives the scan of the file. Every line an entry verifies is a line the scan
  accepts, in a state that differs from the one of the loop over the entries only in form.
\<close>

text \<open>
  What the reading of \<open>schema_version\<close> alone and the strict decoding of the envelope have in common:
  both decode the same JSON member, and the empty text is not JSON.
\<close>

definition schema_agrees :: "journal_env \<Rightarrow> bool" where
  "schema_agrees env \<longleftrightarrow> (\<exists>m. je_Schema env [] = Inl m)
     \<and> (\<forall>line r. registry_Decode (je_Codec env) line = Decoded r \<longrightarrow> je_Schema env line = Inr EnvelopeVersion)"

section \<open>The lines of one entry\<close>

text \<open>The state of the scan while the entries \<open>xs\<close> are done and an entry of transaction \<open>t\<close> has given \<open>rs\<close>.\<close>

definition index_sim :: "index_state \<Rightarrow> transaction_id \<Rightarrow> event list \<Rightarrow> event_id list \<Rightarrow> scan_state \<Rightarrow> bool" where
  "index_sim xs t rs order st \<longleftrightarrow>
     ss_pendingRecords st = rs \<and> ss_pendingID st = (if rs = [] then '''' else t)
     \<and> js_commits (ss_scan st) = xs_commits xs \<and> js_eventIDOrder (ss_scan st) = order
     \<and> js_hasLegacy (ss_scan st) = xs_hasLegacy xs \<and> ss_committedV2 st = xs_hasV2 xs
     \<and> (xs_hasLegacy xs \<and> \<not> xs_hasV2 xs \<longrightarrow> js_head (ss_scan st) = xs_legacyHead xs)
     \<and> ss_legacy st = xs_legacyState xs \<and> ss_hasV2 st = (xs_hasV2 xs \<or> rs \<noteq> [])
     \<and> js_hasV2 (ss_scan st) = ss_hasV2 st
     \<and> js_writable (ss_scan st) \<and> \<not> js_incompleteTail (ss_scan st) \<and> js_diagnostics (ss_scan st) = []
     \<and> js_incompleteTransaction (ss_scan st) = ''''"

lemma v2_line_step:
  assumes "schema_agrees env" "registry_Decode (je_Codec env) l = Decoded r" "registry_Validate (je_Codec env) r = None"
  shows "line_step env ref st l = scan_record env ref (v2_state (count_line (l @ [newline]) st)) r False (ss_offset st)"
proof -
  have "l \<noteq> []" using assms(2) by (auto simp: registry_Decode_def)
  moreover have "je_Schema env l = Inr EnvelopeVersion" using assms(1,2) by (auto simp: schema_agrees_def)
  ultimately show ?thesis using assms(2,3) by (simp add: line_step_def scan_line_def scan_v2_state)
qed

lemma scan_pending_value:
  assumes "length (ss_pendingEnvelopes st) < 1000"
    "if ss_pendingID st = '''' then map_of (js_transactions (ss_scan st)) (en_TransactionID (e_Envelope r)) = None
     else en_TransactionID (e_Envelope r) = ss_pendingID st"
  shows "scan_pending st r off = Continue (st\<lparr>ss_pendingID := en_TransactionID (e_Envelope r),
       ss_pendingOffset := (if ss_pendingID st = '''' then off else ss_pendingOffset st),
       ss_pendingRecords := ss_pendingRecords st @ [r], ss_pendingEnvelopes := ss_pendingEnvelopes st @ [e_Envelope r]\<rparr>)"
  using assms by (cases st) (auto simp: scan_pending_def Let_def)

lemma seen_reads:
  "ss_pendingEnvelopes (seen_record (v2_state (count_line p st)) r) = ss_pendingEnvelopes st"
  "ss_pendingRecords (seen_record (v2_state (count_line p st)) r) = ss_pendingRecords st"
  "ss_pendingID (seen_record (v2_state (count_line p st)) r) = ss_pendingID st"
  "ss_pendingOffset (seen_record (v2_state (count_line p st)) r) = ss_pendingOffset st"
  "js_transactions (ss_scan (seen_record (v2_state (count_line p st)) r)) = js_transactions (ss_scan st)"
  "js_hasLegacy (ss_scan (seen_record (v2_state (count_line p st)) r)) = js_hasLegacy (ss_scan st)"
  "js_head (ss_scan (seen_record (v2_state (count_line p st)) r)) = js_head (ss_scan st)"
  "ss_committedV2 (seen_record (v2_state (count_line p st)) r) = ss_committedV2 st"
  "ss_offset (seen_record (v2_state (count_line p st)) r) = ss_offset st + int (length p)"
  by (simp_all add: seen_record_def v2_state_def count_line_def add_event_id_def)

lemma transition_head:
  "\<not> h \<or> v \<Longrightarrow> validateCompatibilityTransition h v c rs = validateCompatibilityTransition h v c' rs"
  by (simp add: validateCompatibilityTransition_def)

lemma seqs_next:
  assumes "scan_inv ref off st"
  shows "next_seq st = of_nat (length (js_eventIDOrder (ss_scan st))) + 1"
  using assms by (simp add: scan_inv_def next_seq_def)

lemma verify_event_more:
  assumes v: "verify_event env ref x s fin r es rs ids = VMore es' rs' ids'" and es: "es = map e_Envelope rs"
    and env: "schema_agrees env" and d: "registry_Decode (je_Codec env) l = Decoded r" "registry_Validate (je_Codec env) r = None"
    and inv: "scan_inv ref (ss_offset st) st" and sim: "index_sim xs (ix_TransactionID x) rs (before @ ids) st"
    and s: "s = of_nat (length before) + 1" and i: "en_EventID (e_Envelope r) \<notin> set (before @ ids)"
    and t: "ix_TransactionID x \<notin> set (map commit_id (xs_commits xs))" "ix_TransactionID x \<noteq> ''''"
  obtains st' where "line_step env ref st l = Continue st'" "index_sim xs (ix_TransactionID x) rs' (before @ ids') st'"
    "es' = map e_Envelope rs'" "ids' = ids @ [en_EventID (e_Envelope r)]"
proof -
  let ?st = "v2_state (count_line (l @ [newline]) st)" and ?e = "e_Envelope r"
  have v': "en_JournalKind ?e = jr_Kind ref" "en_JournalID ?e = jr_ID ref" "en_TransactionID ?e = ix_TransactionID x"
    "en_Seq ?e = s + of_nat (length (ids @ [en_EventID ?e])) - 1" "en_Kind ?e \<noteq> EventTransactionCommitted"
    "length es < 1000" "es' = es @ [?e]" "rs' = rs @ [r]" "ids' = ids @ [en_EventID ?e]"
    using v by (auto simp: verify_event_def Let_def verify_marker_def split: if_split_asm option.splits payload.splits sum.splits)
  have "length (js_eventIDOrder (ss_scan st)) = length before + length ids" using sim by (simp add: index_sim_def)
  then have seq: "en_Seq ?e = next_seq ?st"
    using seqs_next [OF inv] s v'(4) by (simp add: next_seq_def v2_state_def count_line_def)
  have fresh: "en_EventID ?e \<notin> set (ss_seen ?st)"
    using inv sim i by (simp add: scan_inv_def index_sim_def v2_state_def count_line_def)
  have pend: "ss_pendingEnvelopes st = es" "ss_pendingRecords st = rs" "ss_pendingID st = (if rs = [] then '''' else ix_TransactionID x)"
    using inv sim es by (simp_all add: scan_inv_def index_sim_def)
  have "map_of (js_transactions (ss_scan st)) (ix_TransactionID x) = None"
    using inv sim t map_of_commits [of "xs_commits xs"] by (simp add: scan_inv_def log_ok_def index_sim_def)
  then have "scan_pending (seen_record ?st r) r (ss_offset st) = Continue ((seen_record ?st r)\<lparr>ss_pendingID := ix_TransactionID x,
      ss_pendingOffset := (if rs = [] then ss_offset st else ss_pendingOffset st),
      ss_pendingRecords := rs @ [r], ss_pendingEnvelopes := es @ [?e]\<rparr>)"
    using v'(3,6) pend t(2) by (subst scan_pending_value) (simp_all add: seen_reads)
  then have "line_step env ref st l = Continue ((seen_record ?st r)\<lparr>ss_pendingID := ix_TransactionID x,
      ss_pendingOffset := (if rs = [] then ss_offset st else ss_pendingOffset st),
      ss_pendingRecords := rs @ [r], ss_pendingEnvelopes := es @ [?e]\<rparr>)"
    unfolding v2_line_step [OF env d] scan_record_seen using v'(1,2,5) seq fresh by simp
  moreover have "index_sim xs (ix_TransactionID x) rs' (before @ ids') ((seen_record ?st r)\<lparr>ss_pendingID := ix_TransactionID x,
      ss_pendingOffset := (if rs = [] then ss_offset st else ss_pendingOffset st),
      ss_pendingRecords := rs @ [r], ss_pendingEnvelopes := es @ [?e]\<rparr>)"
    using sim v'(8,9) by (auto simp: index_sim_def seen_record_def v2_state_def count_line_def add_event_id_def)
  ultimately show thesis using that es v'(7-9) by simp
qed

text \<open>The entries of a cursor of this journal.\<close>

definition entry_ok :: "journal_ref \<Rightarrow> journal_index_transaction \<Rightarrow> bool" where
  "entry_ok ref x \<longleftrightarrow> ix_Cursor x = \<lparr>cu_JournalKind = jr_Kind ref, cu_JournalID = jr_ID ref,
     cu_CommitSeq = cu_CommitSeq (ix_Cursor x), cu_TransactionID = ix_TransactionID x\<rparr> \<and> ix_TransactionID x \<noteq> ''''"

lemma verify_event_done:
  assumes v: "verify_event env ref x s fin r es rs ids = VDone c ids' leg" and es: "es = map e_Envelope rs"
    and env: "schema_agrees env" and d: "registry_Decode (je_Codec env) l = Decoded r" "registry_Validate (je_Codec env) r = None"
    and inv: "scan_inv ref (ss_offset st) st" and sim: "index_sim xs (ix_TransactionID x) rs (before @ ids) st"
    and s: "s = of_nat (length before) + 1" and i: "en_EventID (e_Envelope r) \<notin> set (before @ ids)"
    and x: "entry_ok ref x" "ix_TransactionID x \<notin> set (map commit_id (xs_commits xs))"
    and off: "js_validPrefixSize (ss_scan st) = ix_FirstOffset x" "ss_offset st + int (length l) + 1 = ix_EndOffset x"
    and k: "index_commit env xs c ids' leg q = Some xs'"
  shows "\<exists>st'. line_step env ref st l = Continue st' \<and> index_sim xs' t [] (before @ ids') st'"
    and "ids' = ids @ [en_EventID (e_Envelope r)]" "fin" "\<not> leg"
proof -
  let ?st = "v2_state (count_line (l @ [newline]) st)" and ?e = "e_Envelope r"
  obtain m dig where v': "en_JournalKind ?e = jr_Kind ref" "en_JournalID ?e = jr_ID ref" "en_TransactionID ?e = ix_TransactionID x"
    "en_Seq ?e = s + of_nat (length (ids @ [en_EventID ?e])) - 1" "en_Kind ?e = EventTransactionCommitted"
    "es \<noteq> []" "en_Seq ?e = cu_CommitSeq (ix_Cursor x)" "e_Decoded r = Some (P_TransactionCommitted m)"
    "tm_FirstSeq m = en_Seq (hd es)" "tm_LastSeq m = en_Seq (last es)" "unat (tm_EventCount m) = length es"
    "TransactionDigest env es = Inr dig" "tm_Digest m = dig" "ids' = ids @ [en_EventID ?e]" "fin" "\<not> leg"
    "c = \<lparr>sm_cursor = ix_Cursor x, sm_events = rs, sm_envelopes = es, sm_markerTime = en_Time ?e,
       sm_firstOffset = ix_FirstOffset x, sm_endOffset = ix_EndOffset x\<rparr>"
    using v by (auto simp: verify_event_def Let_def verify_marker_def split: if_split_asm option.splits payload.splits sum.splits)
  show "ids' = ids @ [en_EventID ?e]" "fin" "\<not> leg" using v' by simp_all
  have rs: "rs \<noteq> []" using v'(6) es by simp
  have "length (js_eventIDOrder (ss_scan st)) = length before + length ids" using sim by (simp add: index_sim_def)
  then have seq: "en_Seq ?e = next_seq ?st"
    using seqs_next [OF inv] s v'(4) by (simp add: next_seq_def v2_state_def count_line_def)
  have fresh: "en_EventID ?e \<notin> set (ss_seen ?st)"
    using inv sim i by (simp add: scan_inv_def index_sim_def v2_state_def count_line_def)
  have pend: "ss_pendingEnvelopes st = es" "ss_pendingRecords st = rs" "ss_pendingID st = ix_TransactionID x"
    "ss_pendingOffset st = ix_FirstOffset x"
    using inv sim es rs x(1) off by (auto simp: scan_inv_def index_sim_def entry_ok_def)
  have new: "map_of (js_transactions (ss_scan st)) (ix_TransactionID x) = None"
    using inv sim x(2) map_of_commits [of "xs_commits xs"] by (simp add: scan_inv_def log_ok_def index_sim_def)
  have comp: "validateCompatibilityTransition (xs_hasLegacy xs) (xs_hasV2 xs) (xs_legacyHead xs) rs = None"
    and xs': "xs' = xs\<lparr>xs_hasV2 := True, xs_commits := xs_commits xs @ [c], xs_eventOffset := xs_eventOffset xs + length ids',
      xs_expectedSeq := q + 1\<rparr>"
    using k v'(16,17) by (auto simp: index_commit_def Let_def split: if_split_asm)
  have "validateCompatibilityTransition (js_hasLegacy (ss_scan st)) (ss_committedV2 st) (js_head (ss_scan st)) rs = None"
    using comp sim transition_head [of "xs_hasLegacy xs" "xs_hasV2 xs" "xs_legacyHead xs" rs "js_head (ss_scan st)"]
    by (cases "xs_hasLegacy xs \<and> \<not> xs_hasV2 xs") (auto simp: index_sim_def)
  moreover have "marker_error env (seen_record ?st r) r = None"
    using v' pend x(1) by (simp add: marker_error_def seen_reads entry_ok_def)
  moreover have "pending_commit ref (seen_record ?st r) ?e = c"
    using v' pend x(1) off by (simp add: pending_commit_def seen_reads entry_ok_def)
  ultimately have m: "scan_marker env ref (seen_record ?st r) r
      = Continue (drop_pending ((seen_record ?st r)\<lparr>ss_scan := add_commit c (ss_scan (seen_record ?st r)), ss_committedV2 := True\<rparr>))"
    using pend new by (simp add: scan_marker_def seen_reads)
  have "line_step env ref st l
      = Continue (drop_pending ((seen_record ?st r)\<lparr>ss_scan := add_commit c (ss_scan (seen_record ?st r)), ss_committedV2 := True\<rparr>))"
    unfolding v2_line_step [OF env d] scan_record_seen using v'(1,2,5) seq fresh m by simp
  moreover have "index_sim xs' t [] (before @ ids')
      (drop_pending ((seen_record ?st r)\<lparr>ss_scan := add_commit c (ss_scan (seen_record ?st r)), ss_committedV2 := True\<rparr>))"
    using sim v'(14) unfolding xs'
    by (simp add: index_sim_def drop_pending_def seen_record_def v2_state_def count_line_def add_event_id_def add_commit_def)
  ultimately show "\<exists>st'. line_step env ref st l = Continue st' \<and> index_sim xs' t [] (before @ ids') st'" by blast
qed

lemma verify_legacy_done:
  assumes v: "verify_legacy env ref x s l = VDone c ids' leg" and sch: "je_Schema env l = Inr 1" and env: "schema_agrees env"
    and inv: "scan_inv ref (ss_offset st) st" and sim: "index_sim xs t [] before st"
    and s: "s = of_nat (length before) + 1" and i: "set ids' \<inter> set before = {}"
    and x: "entry_ok ref x" "ix_TransactionID x \<notin> set (map commit_id (xs_commits xs))"
    and off: "ss_offset st = ix_FirstOffset x" "ss_offset st + int (length l) + 1 = ix_EndOffset x"
    and k: "index_commit env xs c ids' leg q = Some xs'"
  shows "\<exists>st'. line_step env ref st l = Continue st' \<and> index_sim xs' t' [] (before @ ids') st'" "leg" "length ids' = 1"
proof -
  let ?st = "count_line (l @ [newline]) st"
  obtain e where v': "jr_Kind ref = JournalSession" "je_Legacy env l = Inr e" "DurableEvent_Validate env e = None"
    "du_Seq e = s" "du_SessionID e = jr_ID ref"
    "ix_Cursor x = \<lparr>cu_JournalKind = jr_Kind ref, cu_JournalID = jr_ID ref, cu_CommitSeq = du_Seq e,
       cu_TransactionID = ''legacy:'' @ du_EventID e\<rparr>"
    "c = \<lparr>sm_cursor = ix_Cursor x, sm_events = [legacy_record (legacy_source_of e l) l],
       sm_envelopes = [], sm_markerTime = 0, sm_firstOffset = ix_FirstOffset x, sm_endOffset = ix_EndOffset x\<rparr>"
    "ids' = [du_EventID e]" "leg"
    using v by (auto simp: verify_legacy_def split: if_split_asm sum.splits)
  show "leg" "length ids' = 1" using v' by simp_all
  have l: "l \<noteq> []" using sch env by (auto simp: schema_agrees_def)
  obtain mapped "next" ds where u: "UpcastV1 (je_Upcast env) (legacy_source_of e l) (xs_legacyState xs) = (mapped, next, ds)"
    and ok: "diagnosticWithCode ds ''migration.invalid_payload'' = None"
      "validateMappedLegacyRecord (cx_Registry (je_Codec env)) mapped = None" and v2: "\<not> xs_hasV2 xs"
    and xs': "xs' = xs\<lparr>xs_legacyState := next, xs_hasLegacy := True, xs_legacyHead := sm_cursor c,
      xs_commits := xs_commits xs @ [c], xs_eventOffset := xs_eventOffset xs + length ids', xs_expectedSeq := q + 1\<rparr>"
    using k v'(7,9) by (auto simp: index_commit_def legacy_record_def Let_def split: if_split_asm prod.splits)
  have "length (js_eventIDOrder (ss_scan st)) = length before" using sim by (simp add: index_sim_def)
  then have seq: "du_Seq e = next_seq (on_scan (\<lambda>s. s\<lparr>js_hasLegacy := True\<rparr>) ?st)"
    using seqs_next [OF inv] s v'(4) by (simp add: next_seq_def count_line_def)
  have fresh: "du_EventID e \<notin> set (ss_seen st)" using inv sim i v'(8) by (auto simp: scan_inv_def index_sim_def)
  have "ix_TransactionID x = ''legacy:'' @ du_EventID e" using v'(6) x(1) by (auto simp: entry_ok_def)
  then have new: "map_of (js_transactions (ss_scan st)) (''legacy:'' @ du_EventID e) = None"
    using inv sim x(2) map_of_commits [of "xs_commits xs"] by (simp add: scan_inv_def log_ok_def index_sim_def)
  have e: "ix_EndOffset x = ix_FirstOffset x + (1 + int (length l))" using off by simp
  let ?u = "?st\<lparr>ss_seen := du_EventID e # ss_seen st, ss_legacy := next,
      ss_scan := (add_commit c (add_event_id (du_EventID e) ((ss_scan ?st)\<lparr>js_hasLegacy := True\<rparr>)))\<lparr>js_physicalSeq := du_Seq e\<rparr>\<rparr>"
  have "commit_legacy ref (on_scan (\<lambda>s. s\<lparr>js_hasLegacy := True\<rparr>) ?st) (legacy_source_of e l) next l (ss_offset st) = Continue ?u"
    using fresh new v'(6,7) off(1) e by (simp add: commit_legacy_def Let_def legacy_source_of_def count_line_def)
  then have "line_step env ref st l = Continue ?u"
    using l sch sim v' u ok v2 seq
    by (simp add: line_step_def scan_line_def scan_v1_def Let_def index_sim_def) (simp add: count_line_def)
  moreover have "index_sim xs' t' [] (before @ ids') ?u"
    using sim v'(8) v2 unfolding xs' by (simp add: index_sim_def count_line_def add_event_id_def add_commit_def)
  ultimately show "\<exists>st'. line_step env ref st l = Continue st' \<and> index_sim xs' t' [] (before @ ids') st'" by blast
qed

lemma tiled_unique: "tiled a cs b \<Longrightarrow> tiled a cs c \<Longrightarrow> b = c"
  by (induction cs arbitrary: a) auto

lemma same_prefix:
  "scan_inv ref a st \<Longrightarrow> scan_inv ref b st' \<Longrightarrow> js_commits (ss_scan st) = js_commits (ss_scan st') \<Longrightarrow>
    js_validPrefixSize (ss_scan st') = js_validPrefixSize (ss_scan st)"
  by (auto simp: scan_inv_def log_ok_def intro: tiled_unique)

lemma verify_lines_cases:
  assumes "verify_lines env ref x s n bs consumed es rs ids = Some (c, ids', leg)"
  obtains l rest where "line_ok l" "bs = l @ newline # rest" "consumed + int (length l) + 1 \<le> n"
    "(\<exists>es' rs' is. verify_line env ref x s (consumed + int (length l) + 1 = n) l es rs ids = VMore es' rs' is
        \<and> verify_lines env ref x s n rest (consumed + int (length l) + 1) es' rs' is = Some (c, ids', leg))
     \<or> verify_line env ref x s (consumed + int (length l) + 1 = n) l es rs ids = VDone c ids' leg"
proof (cases "readJournalLine bs")
  case (Inr a)
  obtain p complete eof rest where a: "a = (p, complete, eof, rest)" by (cases a) auto
  have c: "complete" using assms Inr a by (auto simp: verify_lines.simps [of _ _ _ _ _ bs] split: if_split_asm)
  then obtain l where l: "p = l @ [newline]" "line_ok l" "bs = l @ newline # rest"
    using readJournalLine_complete [of bs p eof rest] Inr a by auto
  have e: "readJournalLine bs = Inr (l @ [newline], complete, eof, rest)" using Inr a l(1) by simp
  show thesis
    using assms unfolding verify_lines.simps [of env ref x s n bs] e
    by (intro that [OF l(2,3)]) (auto simp: algebra_simps split: if_split_asm verify_step.splits)
qed (use assms in \<open>simp add: verify_lines.simps [of _ _ _ _ _ bs]\<close>)

lemma verify_line_v2:
  assumes "verify_line env ref x s fin l es rs ids = v" "v \<noteq> VFail" "je_Schema env l \<noteq> Inr 1 \<or> es \<noteq> []"
  obtains r where "registry_Decode (je_Codec env) l = Decoded r" "registry_Validate (je_Codec env) r = None"
    "verify_event env ref x s fin r es rs ids = v"
  using assms by (auto simp: verify_line_def split: sum.splits if_split_asm decoded.splits)

lemma verify_event_ids:
  "verify_event env ref x s fin r es rs ids = VMore es' rs' ids' \<Longrightarrow> ids' = ids @ [en_EventID (e_Envelope r)] \<and> es' \<noteq> [] \<and> length es' = Suc (length es)"
  "verify_event env ref x s fin r es rs ids = VDone c ids' leg \<Longrightarrow> ids' = ids @ [en_EventID (e_Envelope r)] \<and> \<not> leg"
  by (auto simp: verify_event_def Let_def verify_marker_def split: if_split_asm option.splits payload.splits sum.splits)

lemma verify_line_v1:
  assumes "verify_line env ref x s fin l es rs ids = v" "v \<noteq> VFail" "je_Schema env l = Inr 1"
  shows "es = []" "fin" "verify_legacy env ref x s l = v"
  using assms by (auto simp: verify_line_def split: if_split_asm)

lemma verify_legacy_not_more: "verify_legacy env ref x s l \<noteq> VMore es' rs' is"
  by (auto simp: verify_legacy_def split: sum.split)

lemma verify_lines_ids:
  "verify_lines env ref x s n bs consumed es rs ids = Some (c, ids', leg) \<Longrightarrow> es \<noteq> [] \<Longrightarrow> \<exists>more. ids' = ids @ more"
proof (induction "length bs" arbitrary: bs consumed es rs ids rule: less_induct)
  case less
  obtain l rest where bs: "bs = l @ newline # rest"
    and v: "(\<exists>es' rs' is. verify_line env ref x s (consumed + int (length l) + 1 = n) l es rs ids = VMore es' rs' is
        \<and> verify_lines env ref x s n rest (consumed + int (length l) + 1) es' rs' is = Some (c, ids', leg))
     \<or> verify_line env ref x s (consumed + int (length l) + 1 = n) l es rs ids = VDone c ids' leg"
    using verify_lines_cases [OF less.prems(1)] by metis
  from v show ?case
  proof (elim disjE exE conjE)
    fix es' rs' "is"
    assume m: "verify_line env ref x s (consumed + int (length l) + 1 = n) l es rs ids = VMore es' rs' is"
      and r: "verify_lines env ref x s n rest (consumed + int (length l) + 1) es' rs' is = Some (c, ids', leg)"
    obtain r where "verify_event env ref x s (consumed + int (length l) + 1 = n) r es rs ids = VMore es' rs' is"
      using verify_line_v2 [OF m] less.prems(2) by auto
    from verify_event_ids(1) [OF this] show ?thesis using less.hyps [OF _ r] bs by auto
  next
    assume d: "verify_line env ref x s (consumed + int (length l) + 1 = n) l es rs ids = VDone c ids' leg"
    obtain r where "verify_event env ref x s (consumed + int (length l) + 1 = n) r es rs ids = VDone c ids' leg"
      using verify_line_v2 [OF d] less.prems(2) by auto
    from verify_event_ids(2) [OF this] show ?thesis by auto
  qed
qed

lemma verify_lines_run:
  assumes env: "schema_agrees env" and x: "entry_ok ref x" "ix_TransactionID x \<notin> set (map commit_id (xs_commits xs))"
    and s: "s = of_nat (length before) + 1" and n: "n = ix_EndOffset x - ix_FirstOffset x"
    and k: "index_commit env xs c ids' leg q = Some xs'" and dist: "distinct (before @ ids')"
  shows "verify_lines env ref x s n bs consumed es rs ids = Some (c, ids', leg) \<Longrightarrow> es = map e_Envelope rs \<Longrightarrow>
    length ids = length rs \<Longrightarrow> scan_inv ref (ss_offset st) st \<Longrightarrow> index_sim xs (ix_TransactionID x) rs (before @ ids) st \<Longrightarrow>
    js_validPrefixSize (ss_scan st) = ix_FirstOffset x \<Longrightarrow> ss_offset st = ix_FirstOffset x + consumed \<Longrightarrow>
    \<exists>ls rest st'. bs = lines_bytes ls @ rest \<and> list_all line_ok ls \<and> scan_run env ref st ls = Continue st'
      \<and> index_sim xs' t [] (before @ ids') st' \<and> consumed + int (length (lines_bytes ls)) = n"
proof (induction "length bs" arbitrary: bs consumed es rs ids st rule: less_induct)
  case less
  let ?t = "ix_TransactionID x"
  obtain l rest where l: "line_ok l" "bs = l @ newline # rest" "consumed + int (length l) + 1 \<le> n"
    and v: "(\<exists>es' rs' is. verify_line env ref x s (consumed + int (length l) + 1 = n) l es rs ids = VMore es' rs' is
        \<and> verify_lines env ref x s n rest (consumed + int (length l) + 1) es' rs' is = Some (c, ids', leg))
     \<or> verify_line env ref x s (consumed + int (length l) + 1 = n) l es rs ids = VDone c ids' leg"
    using verify_lines_cases [OF less.prems(1)] by metis
  have one: ?case if "line_step env ref st l = Continue st1" "index_sim xs' t [] (before @ ids') st1"
    "consumed + int (length l) + 1 = n" for st1
    using that l by (intro exI [of _ "[l]"] exI [of _ rest] exI [of _ st1]) simp
  from v show ?case
  proof (elim disjE exE conjE)
    fix es' rs' "is"
    assume m: "verify_line env ref x s (consumed + int (length l) + 1 = n) l es rs ids = VMore es' rs' is"
      and r: "verify_lines env ref x s n rest (consumed + int (length l) + 1) es' rs' is = Some (c, ids', leg)"
    have "je_Schema env l \<noteq> Inr 1" using verify_line_v1(3) [OF m] verify_legacy_not_more by auto
    then obtain r where d: "registry_Decode (je_Codec env) l = Decoded r" "registry_Validate (je_Codec env) r = None"
      "verify_event env ref x s (consumed + int (length l) + 1 = n) r es rs ids = VMore es' rs' is"
      using verify_line_v2 [OF m] by auto
    note i = verify_event_ids(1) [OF d(3)]
    obtain more where "ids' = is @ more" using verify_lines_ids [OF r] i by auto
    then have "en_EventID (e_Envelope r) \<notin> set (before @ ids)" using dist i by auto
    from verify_event_more [OF d(3) less.prems(2) env d(1,2) less.prems(4,5) s this x(2)]
    obtain st1 where st1: "line_step env ref st l = Continue st1" "index_sim xs ?t rs' (before @ is) st1" "es' = map e_Envelope rs'"
      using x(1) by (auto simp: entry_ok_def)
    note inv = line_step_inv [OF less.prems(4) st1(1)]
    have "length is = length rs'" using i less.prems(2,3) st1(3) by (metis length_append_singleton length_map)
    moreover have "js_validPrefixSize (ss_scan st1) = ix_FirstOffset x"
      using same_prefix [of ref _ st _ st1] less.prems(4-6) inv st1(2) by (auto simp: index_sim_def)
    moreover have "ss_offset st1 = ix_FirstOffset x + (consumed + int (length l) + 1)" using inv less.prems(7) by simp
    ultimately have "\<exists>ls rest' st'. rest = lines_bytes ls @ rest' \<and> list_all line_ok ls \<and> scan_run env ref st1 ls = Continue st'
        \<and> index_sim xs' t [] (before @ ids') st' \<and> consumed + int (length l) + 1 + int (length (lines_bytes ls)) = n"
      using less.hyps [OF _ r st1(3) _ conjunct1 [OF inv] st1(2)] l(2) by simp
    then obtain ls rest' st' where "rest = lines_bytes ls @ rest'" "list_all line_ok ls" "scan_run env ref st1 ls = Continue st'"
      "index_sim xs' t [] (before @ ids') st'" "consumed + int (length l) + 1 + int (length (lines_bytes ls)) = n"
      by blast
    then show ?thesis using st1(1) l by (intro exI [of _ "l # ls"] exI [of _ rest'] exI [of _ st']) simp
  next
    assume d: "verify_line env ref x s (consumed + int (length l) + 1 = n) l es rs ids = VDone c ids' leg"
    show ?thesis
    proof (cases "je_Schema env l = Inr 1")
      case True
      note v1 = verify_line_v1 [OF d _ True]
      have rs: "rs = []" "ids = []" using v1(1) less.prems(2,3) by auto
      have "ss_pendingID st = ''''" using less.prems(5) rs by (simp add: index_sim_def)
      then have first: "ss_offset st = ix_FirstOffset x" using less.prems(4,6) by (simp add: scan_inv_def)
      have fin: "consumed + int (length l) + 1 = n" using v1(2) by simp
      have sim: "index_sim xs ?t [] before st" "set ids' \<inter> set before = {}" using less.prems(5) rs dist by auto
      have "ss_offset st + int (length l) + 1 = ix_EndOffset x" using fin n less.prems(7) by simp
      from verify_legacy_done(1) [OF v1(3) True env less.prems(4) sim(1) s sim(2) x first this k, of t]
      show ?thesis using one fin by blast
    next
      case False
      then obtain r where d: "registry_Decode (je_Codec env) l = Decoded r" "registry_Validate (je_Codec env) r = None"
        "verify_event env ref x s (consumed + int (length l) + 1 = n) r es rs ids = VDone c ids' leg"
        using verify_line_v2 [OF d] by auto
      have i: "en_EventID (e_Envelope r) \<notin> set (before @ ids)" using dist verify_event_ids(2) [OF d(3)] by auto
      note fin_facts = verify_event_done [OF d(3) less.prems(2) env d(1,2) less.prems(4,5) s i x less.prems(6)]
      have fin: "consumed + int (length l) + 1 = n" using d(3)
        by (auto simp: verify_event_def Let_def split: if_split_asm)
      have "ss_offset st + int (length l) + 1 = ix_EndOffset x" using fin n less.prems(7) by simp
      from fin_facts(1) [OF this k, of t] show ?thesis using one fin by blast
    qed
  qed
qed

section \<open>All entries\<close>

lemma verify_lines_cursor:
  "verify_lines env ref x s n bs consumed es rs ids = Some (c, ids', leg) \<Longrightarrow> sm_cursor c = ix_Cursor x"
proof (induction "length bs" arbitrary: bs consumed es rs ids rule: less_induct)
  case less
  obtain l rest where bs: "bs = l @ newline # rest"
    and v: "(\<exists>es' rs' is. verify_line env ref x s (consumed + int (length l) + 1 = n) l es rs ids = VMore es' rs' is
        \<and> verify_lines env ref x s n rest (consumed + int (length l) + 1) es' rs' is = Some (c, ids', leg))
     \<or> verify_line env ref x s (consumed + int (length l) + 1 = n) l es rs ids = VDone c ids' leg"
    using verify_lines_cases [OF less.prems(1)] by metis
  from v show ?case
  proof (elim disjE exE conjE)
    assume "verify_line env ref x s (consumed + int (length l) + 1 = n) l es rs ids = VDone c ids' leg"
    then show ?thesis
      by (auto simp: verify_line_def verify_legacy_def verify_event_def verify_marker_def Let_def
          split: if_split_asm sum.splits option.splits decoded.splits payload.splits)
  qed (use less.hyps bs in force)
qed

lemma index_commit_fields:
  "index_commit env xs c ids leg q = Some xs' \<Longrightarrow> xs_commits xs' = xs_commits xs @ [c]
     \<and> xs_eventOffset xs' = xs_eventOffset xs + length ids \<and> xs_expectedSeq xs' = q + 1"
  by (auto simp: index_commit_def Let_def split: if_split_asm list.splits option.splits prod.splits)

lemma last_commit_seq:
  assumes "scan_inv ref a st" "ss_pendingRecords st = []" "js_commits (ss_scan st) = cs @ [c]"
  shows "cu_CommitSeq (sm_cursor c) = of_nat (length (js_eventIDOrder (ss_scan st)))"
  using assms by (auto simp: scan_inv_def commit_seqs_def)

lemma section_lines:
  assumes "section_of file a n = lines_bytes ls @ rest" "int (length (lines_bytes ls)) = n" "0 \<le> a"
  shows "drop (nat a) file = lines_bytes ls @ drop (nat (a + n)) file"
proof -
  have "length (section_of file a n) \<le> nat n" by (simp add: section_of_def)
  then have rest: "rest = []" using assms(1) assms(2) [symmetric] by simp
  have "drop (nat a) file = section_of file a n @ drop (nat n) (drop (nat a) file)"
    by (simp only: section_of_def append_take_drop_id)
  also have "drop (nat n) (drop (nat a) file) = drop (nat (a + n)) file"
    using assms(2,3) by (simp add: nat_add_distrib add.commute)
  finally show ?thesis using assms(1) rest by simp
qed

lemma index_loop_run:
  assumes env: "schema_agrees env" and dist: "distinct eventIDs"
  shows "index_loop env ref file eventIDs xs entries = Some xs' \<Longrightarrow> shape_entries ref (ss_offset st) prev seen entries \<Longrightarrow>
    scan_inv ref (ss_offset st) st \<Longrightarrow> index_sim xs '''' [] (take (xs_eventOffset xs) eventIDs) st \<Longrightarrow>
    xs_eventOffset xs \<le> length eventIDs \<Longrightarrow> xs_expectedSeq xs = of_nat (xs_eventOffset xs) + 1 \<Longrightarrow>
    set (map commit_id (xs_commits xs)) = set seen \<Longrightarrow> 0 \<le> ss_offset st \<Longrightarrow>
    \<exists>ls st'. drop (nat (ss_offset st)) file = lines_bytes ls @ drop (nat (ss_offset st')) file \<and> list_all line_ok ls
      \<and> scan_run env ref st ls = Continue st' \<and> index_sim xs' '''' [] (take (xs_eventOffset xs') eventIDs) st'
      \<and> scan_inv ref (ss_offset st') st'
      \<and> (if entries = [] then st' = st else ss_offset st' = ix_EndOffset (last entries)
          \<and> js_head (ss_scan st') = ix_Cursor (last entries))"
proof (induction entries arbitrary: xs st prev seen)
  case Nil
  then show ?case by (intro exI [of _ "[]"] exI [of _ st]) simp
next
  case (Cons x entries)
  let ?a = "ss_offset st" and ?before = "take (xs_eventOffset xs) eventIDs"
  obtain c ids leg xs1 where v: "verifyIndexedCommit env ref file x (xs_expectedSeq xs) = Some (c, ids, leg)"
    and slice: "xs_eventOffset xs + length ids \<le> length eventIDs" "ids = take (length ids) (drop (xs_eventOffset xs) eventIDs)"
    and k: "index_commit env xs c ids leg (cu_CommitSeq (ix_Cursor x)) = Some xs1"
    and loop: "index_loop env ref file eventIDs xs1 entries = Some xs'"
    using Cons.prems(1) by (auto split: option.splits if_split_asm prod.splits)
  note f = index_commit_fields [OF k]
  have ids: "?before @ ids = take (xs_eventOffset xs1) eventIDs" using f slice(2) by (metis take_add)
  have x: "entry_ok ref x" "ix_TransactionID x \<notin> set (map commit_id (xs_commits xs))" "ix_FirstOffset x = ?a"
    and shape: "shape_entries ref (ix_EndOffset x) (cu_CommitSeq (ix_Cursor x)) (ix_TransactionID x # seen) entries"
    and bound: "ix_FirstOffset x < ix_EndOffset x"
    using Cons.prems(2,7) by (auto simp: entry_ok_def intro: cursor.equality)
  let ?n = "ix_EndOffset x - ix_FirstOffset x"
  have vl: "verify_lines env ref x (xs_expectedSeq xs) ?n (section_of file ?a ?n) 0 [] [] [] = Some (c, ids, leg)"
    using v x(3) by (simp add: verifyIndexedCommit_def Let_def split: if_split_asm)
  have s: "xs_expectedSeq xs = of_nat (length ?before) + 1" using Cons.prems(5,6) by simp
  have d: "distinct (?before @ ids)" using dist ids by simp
  have "ss_pendingID st = ''''" using Cons.prems(4) by (simp add: index_sim_def)
  then have vp: "js_validPrefixSize (ss_scan st) = ix_FirstOffset x" using Cons.prems(3) x(3) by (simp add: scan_inv_def)
  have sim: "index_sim xs (ix_TransactionID x) [] (?before @ []) st" using Cons.prems(4) by (simp add: index_sim_def)
  obtain ls rest st1 where run: "section_of file ?a ?n = lines_bytes ls @ rest" "list_all line_ok ls"
    "scan_run env ref st ls = Continue st1" "index_sim xs1 '''' [] (?before @ ids) st1" "int (length (lines_bytes ls)) = ?n"
    using verify_lines_run [OF env x(1,2) s refl k d vl _ _ Cons.prems(3) sim vp, of "''''"] x(3) by auto
  have off: "ss_offset st1 = ix_EndOffset x" using scan_run_bytes [OF run(3)] run(5) x(3) by simp
  have inv1: "scan_inv ref (ss_offset st1) st1" using scan_run_inv [OF run(3) Cons.prems(3)] .
  have com: "js_commits (ss_scan st1) = xs_commits xs @ [c]" using run(4) f by (simp add: index_sim_def)
  have cur: "sm_cursor c = ix_Cursor x" using verify_lines_cursor [OF vl] .
  have id: "commit_id c = ix_TransactionID x" using cur x(1) by (metis commit_id_def entry_ok_def cursor.select_convs(4))
  have "cu_CommitSeq (ix_Cursor x) = of_nat (length (?before @ ids))"
    using last_commit_seq [OF inv1 _ com] run(4) cur by (simp add: index_sim_def)
  then have seq: "xs_expectedSeq xs1 = of_nat (xs_eventOffset xs1) + 1" using f Cons.prems(5) by simp
  have head: "js_head (ss_scan st1) = ix_Cursor x" using inv1 com cur by (simp add: scan_inv_def log_ok_def)
  have "set (map commit_id (xs_commits xs1)) = set (ix_TransactionID x # seen)" using f id Cons.prems(7) by auto
  then obtain ks st2 where rest: "drop (nat (ss_offset st1)) file = lines_bytes ks @ drop (nat (ss_offset st2)) file" "list_all line_ok ks"
    "scan_run env ref st1 ks = Continue st2" "index_sim xs' '''' [] (take (xs_eventOffset xs') eventIDs) st2"
    "scan_inv ref (ss_offset st2) st2"
    "if entries = [] then st2 = st1 else ss_offset st2 = ix_EndOffset (last entries) \<and> js_head (ss_scan st2) = ix_Cursor (last entries)"
    using Cons.IH [of xs1 st1 "cu_CommitSeq (ix_Cursor x)" "ix_TransactionID x # seen"] loop shape inv1 run(4) slice(1) f seq off ids
      Cons.prems(8) bound x(3) by auto
  have "drop (nat ?a) file = lines_bytes ls @ drop (nat (ss_offset st1)) file"
    using section_lines [OF run(1,5) Cons.prems(8)] off x(3) by simp
  then show ?case
    using rest run off head
    by (intro exI [of _ "ls @ ks"] exI [of _ st2]) (auto simp: scan_run_append)
qed

text \<open>The scan the index gives.\<close>

lemma shape_ids_distinct: "shape_ids seen is \<longleftrightarrow> distinct is \<and> set is \<inter> set seen = {} \<and> '''' \<notin> set is"
  by (induction "is" arbitrary: seen) auto

lemma table_of_commits: "distinct (map commit_id cs) \<Longrightarrow>
    foldl (\<lambda>m c. gput (cu_TransactionID (sm_cursor c)) c m) [] cs = map (\<lambda>c. (commit_id c, c)) cs"
proof (induction cs rule: rev_induct)
  case (snoc c cs)
  then have "map_of (map (\<lambda>c. (commit_id c, c)) cs) (commit_id c) = None" using map_of_commits [of cs] by auto
  then show ?case using snoc by (simp add: gput_new flip: commit_id_def)
qed simp

lemma index_scan:
  assumes env: "schema_agrees env" and load: "loadVerifiedJournalIndex env ref file index = Some seed"
  shows "\<exists>s. scanJournal env ref file = Inr s \<and> clean_scan s \<and> seed = s\<lparr>js_validPrefixSize := 0\<rparr>"
proof -
  obtain ix xs where ix: "index = Some ix" "validJournalIndexShape ix ref" "int (length file) = jx_SourceSize ix"
    "\<lparr>dg_Algorithm = DigestSHA256, dg_Value = je_Sha256Hex env file\<rparr> = jx_SourceDigest ix"
    "index_loop env ref file (jx_EventIDs ix) (index_start ref) (jx_Transactions ix) = Some xs"
    "xs_eventOffset xs = length (jx_EventIDs ix)" "seed = index_seed ref ix xs"
    using load by (auto simp: loadVerifiedJournalIndex_def split: option.splits if_split_asm)
  have shape: "distinct (jx_EventIDs ix)" "shape_entries ref 0 0 [] (jx_Transactions ix)" "jx_Transactions ix \<noteq> []"
    "ix_EndOffset (last (jx_Transactions ix)) = jx_SourceSize ix"
    using ix(2) by (auto simp: validJournalIndexShape_def shape_ids_distinct)
  let ?st0 = "start_scan env ref file (new_scan ref)"
  have sim0: "index_sim (index_start ref) '''' [] (take (xs_eventOffset (index_start ref)) (jx_EventIDs ix)) ?st0"
    by (simp add: index_sim_def index_start_def start_scan_def new_scan_def legacyStateAfterScan_def)
  obtain ls st where r: "file = lines_bytes ls @ drop (nat (ss_offset st)) file" "list_all line_ok ls"
    "scan_run env ref ?st0 ls = Continue st" "index_sim xs '''' [] (jx_EventIDs ix) st" "scan_inv ref (ss_offset st) st"
    "ss_offset st = jx_SourceSize ix" "js_head (ss_scan st) = ix_Cursor (last (jx_Transactions ix))"
    using index_loop_run [OF env shape(1) ix(5), of ?st0 0 "[]"] sim0 shape ix(6) by (auto simp: index_start_def)
  have whole: "file = lines_bytes ls" using r(1,6) ix(3) by simp
  let ?s = "finish_scan env ref file st"
  have "scan_lines env ref ?st0 file = Inr st"
    using scan_lines_run [OF r(2), of env ref ?st0 "[]"] r(3) whole by (simp add: scan_lines_empty)
  then have scan: "scanJournal env ref file = Inr ?s" by (simp add: scanJournal_def scanJournalAfterPrefix_def)
  have p: "ss_pendingID st = ''''" "ss_pendingRecords st = []" using r(4) by (simp_all add: index_sim_def)
  have log: "log_ok ref (ss_scan st)" "js_eventIDs (ss_scan st) = rev (jx_EventIDs ix)"
    "js_physicalSeq (ss_scan st) = of_nat (length (jx_EventIDs ix))"
    using r(4,5) by (auto simp: scan_inv_def index_sim_def)
  have hashed: "ss_hashed st = file" using scan_run_bytes [OF r(3)] whole by simp
  have seq: "cu_CommitSeq (ix_Cursor (last (jx_Transactions ix))) = of_nat (length (jx_EventIDs ix))"
    using ix(2) by (simp add: validJournalIndexShape_def)
  have "clean_scan ?s" using r(4) p by (simp add: clean_scan_def finish_scan_def index_sim_def Let_def)
  moreover have "seed = ?s\<lparr>js_validPrefixSize := 0\<rparr>"
    using r(4,7) p log ix(3,4,7) seq hashed
    by (cases "ss_scan st") (simp add: index_seed_def Let_def finish_scan_def index_sim_def log_ok_def new_scan_def
        table_of_commits commit_events_def [abs_def])
  ultimately show ?thesis using scan by blast
qed

end
