(* ===== verification/Journal_Writes.thy ===== *)
theory Journal_Writes
  imports Journal_Append Journal_Index_Scan
begin

text \<open>
  What an append writes is what a scan reads: the sealed lines continue the scan of a clean journal,
  event by event, up to the marker. A prefix of the bytes ends within a line, which the scan drops.
\<close>

section \<open>Clean scans are quiet\<close>

definition quiet_inv :: "scan_state \<Rightarrow> bool" where
  "quiet_inv st \<longleftrightarrow> (js_writable (ss_scan st) \<longrightarrow> js_diagnostics (ss_scan st) = []
     \<and> js_incompleteTransaction (ss_scan st) = '''') \<and> \<not> js_incompleteTail (ss_scan st)"

lemma scan_record_quiet:
  assumes "scan_record env ref st r u off = Continue st'" "quiet_inv st"
  shows "quiet_inv st'"
  using scan_record_Continue(4) [OF assms(1)]
proof
  assume "scan_marker env ref (seen_record st r) r = Continue st'"
  from scan_marker_Continue(5) [OF this] show ?thesis using assms by (simp add: quiet_inv_def untouched_simps)
next
  assume "scan_pending (seen_record st r) r off = Continue st'"
  from scan_pending_Continue(4) [OF this] show ?thesis using assms by (simp add: quiet_inv_def untouched_simps)
qed

lemma quiet_inv_step:
  assumes "line_step env ref st l = Continue st'" "quiet_inv st"
  shows "quiet_inv st'"
  using scan_line_Continue [OF assms(1) [unfolded line_step_def]]
proof (elim disjE)
  assume c: "scan_v1 env ref (count_line (l @ [newline]) st) l (ss_offset st) = Continue st'"
  from scan_v1_Continue(3) [OF c] assms(2) show ?thesis
    by (auto simp: commit_legacy_def Let_def untouched_simps quiet_inv_def count_line_def split: if_split_asm)
next
  assume "scan_v2 env ref (count_line (l @ [newline]) st) l (ss_offset st) = Continue st'"
  from scan_v2_Continue [OF this] obtain r u f where r: "record_ok r"
    and f: "f = id \<or> (\<exists>d. f = (\<lambda>s. add_diagnostic d (s\<lparr>js_writable := False\<rparr>)))"
    and c: "scan_record env ref (on_scan f (v2_state (count_line (l @ [newline]) st))) r u (ss_offset st) = Continue st'"
    by blast
  show ?thesis by (rule scan_record_quiet [OF c]) (use f assms(2) in \<open>auto simp: untouched_simps quiet_inv_def count_line_def\<close>)
qed

lemma quiet_run: "scan_run env ref st ls = Continue st' \<Longrightarrow> quiet_inv st \<Longrightarrow> quiet_inv st'"
  by (induction ls arbitrary: st) (auto split: scan_step.splits dest: quiet_inv_step)

text \<open>The state after a clean scan, as the verification of an index has it.\<close>

definition log_state :: "scan_state \<Rightarrow> index_state" where
  "log_state st = \<lparr>xs_eventOffset = 0, xs_expectedSeq = 0, xs_hasLegacy = js_hasLegacy (ss_scan st),
     xs_hasV2 = ss_committedV2 st, xs_legacyHead = js_head (ss_scan st), xs_legacyState = ss_legacy st,
     xs_commits = js_commits (ss_scan st)\<rparr>"

lemma clean_scan_state:
  assumes "scanJournal env ref p = Inr s" "clean_scan s"
  obtains st where "s = finish_scan env ref p st" "scan_inv ref (ss_offset st) st" "ss_offset st = int (length p)"
    "index_sim (log_state st) t [] (js_eventIDOrder s) st" "ss_committedV2 st = js_hasV2 s"
    "\<And>q. scanJournal env ref (p @ q) = scan_result env ref (p @ q) (scan_lines env ref st q)"
proof -
  obtain ls st where ls: "p = lines_bytes ls" "list_all line_ok ls"
    "scan_run env ref (start_scan env ref p (new_scan ref)) ls = Continue st" and s: "s = finish_scan env ref p st"
    and st: "ss_pendingID st = ''''" "scan_inv ref (int (length p)) st" "v2_inv st" "legacy_inv env ref st"
    "ss_hashed st = p" "ss_offset st = int (length p)" "js_sourceSize (ss_scan st) = int (length p)"
    using clean_scan_run [OF assms] .
  have q: "quiet_inv st"
    by (rule quiet_run [OF ls(3)]) (simp add: quiet_inv_def new_scan_def)
  have w: "js_writable (ss_scan st)" using assms(2) s st(1) by (simp add: clean_scan_def finish_scan_def Let_def)
  have pend: "ss_pendingRecords st = []" using st(1,2) by (simp add: scan_inv_def)
  have v2: "ss_committedV2 st = js_hasV2 (ss_scan st)" "ss_hasV2 st = js_hasV2 (ss_scan st)"
    using st(1,3) by (auto simp: v2_inv_def)
  have sim: "index_sim (log_state st) t [] (js_eventIDOrder s) st"
    using q w pend st(1) v2 s by (simp add: index_sim_def log_state_def quiet_inv_def finish_log)
  have "start_scan env ref (p @ q) (new_scan ref) = start_scan env ref p (new_scan ref)" for q
    by (simp add: start_scan_def)
  then have "scanJournal env ref (p @ q) = scan_result env ref (p @ q) (scan_lines env ref st q)" for q
    using ls by (simp add: scanJournal_def scanJournalAfterPrefix_def scan_result_def scan_lines_run)
  then show thesis using that [of st] s st sim v2 by (simp add: finish_log)
qed

section \<open>The codec reads what is encoded\<close>

text \<open>
  What \<open>encoding/json\<close> promises for the values that are written: a canonical text has no line break,
  the envelope is decoded as it was encoded, and so are the two payloads the store makes itself; the
  admission leaves the declaration as it is.
\<close>

definition codec_round_trip :: "journal_env \<Rightarrow> append_env \<Rightarrow> bool" where
  "codec_round_trip env ae \<longleftrightarrow> schema_agrees env
     \<and> (\<forall>e line. je_Marshal env e = Inr line \<longrightarrow> newline \<notin> set line \<and> fst (cx_Envelope (je_Codec env) line) = e)
     \<and> (\<forall>m raw line r. ae_MarshalMarker ae m = Inr raw \<and> registry_Decode (je_Codec env) line = Decoded r
          \<and> en_Kind (e_Envelope r) = EventTransactionCommitted \<and> en_Payload (e_Envelope r) = Some raw
          \<longrightarrow> e_Decoded r = Some (P_TransactionCommitted m))
     \<and> (\<forall>c raw p admitted payload line r. ae_MarshalDeclaration ae c = Inr raw \<and> pe_Payload p = Some raw
          \<and> admitted_payload ae no_identity p = Inr admitted \<and> canonical_marshal (raw_bytes admitted) = Inr payload
          \<and> registry_Decode (je_Codec env) line = Decoded r \<and> en_Payload (e_Envelope r) = Some payload
          \<and> en_Kind (e_Envelope r) = EventMigrationCompatibilityDeclared
          \<longrightarrow> e_Decoded r = Some (P_CompatibilityDeclared c))"

lemma Decoded_envelope: "registry_Decode cx raw = Decoded r \<Longrightarrow> e_Envelope r = fst (cx_Envelope cx raw)"
  by (auto simp: registry_Decode_def decode_payload_def decode_record_def Let_def
      split: if_split_asm sum.splits prod.splits option.splits lookup_error.splits)

lemma checked_line_read:
  assumes "codec_round_trip env ae" "checked_line env e = Inr line"
  obtains r where "registry_Decode (je_Codec env) line = Decoded r" "registry_Validate (je_Codec env) r = None"
    "e_Envelope r = e" "line_ok line"
proof -
  have m: "je_Marshal env e = Inr line" "int (length line) \<le> MaxEventBytes"
    using assms(2) by (auto simp: checked_line_def encodeLine_def split: sum.splits if_split_asm decoded.splits option.splits)
  obtain r where r: "registry_Decode (je_Codec env) line = Decoded r" "registry_Validate (je_Codec env) r = None"
    using assms(2) m by (auto simp: checked_line_def encodeLine_def split: sum.splits if_split_asm decoded.splits option.splits)
  have "newline \<notin> set line" "fst (cx_Envelope (je_Codec env) line) = e"
    using assms(1) m(1) by (auto simp: codec_round_trip_def)
  then show thesis using that r m(2) Decoded_envelope [OF r(1)] by (simp add: line_ok_def)
qed

section \<open>Sealed events\<close>

text \<open>The events of transaction \<open>t\<close> with their lines, numbered from \<open>n\<close>, their identifiers new.\<close>

fun sealed_chain :: "journal_env \<Rightarrow> journal_ref \<Rightarrow> transaction_id \<Rightarrow> event_id list \<Rightarrow> u64 \<Rightarrow> (envelope \<times> string) list \<Rightarrow> bool" where
  "sealed_chain env ref t seen n [] = True"
| "sealed_chain env ref t seen n ((e, l) # xs) =
     (checked_line env e = Inr l \<and> en_JournalKind e = jr_Kind ref \<and> en_JournalID e = jr_ID ref \<and> en_TransactionID e = t
      \<and> en_Seq e = n \<and> en_Kind e \<noteq> EventTransactionCommitted \<and> en_EventID e \<notin> set seen
      \<and> sealed_chain env ref t (seen @ [en_EventID e]) (n + 1) xs)"

lemma seal_event_envelope:
  assumes "seal_event env ae idn rq s seen i p = Inr (e, l)"
  obtains admitted payload where "admitted_payload ae idn p = Inr admitted" "canonical_marshal (raw_bytes admitted) = Inr payload"
    "e = sealed_envelope rq (js_physicalSeq s + of_nat i + 1) p payload" "checked_line env e = Inr l"
    "pe_Kind p \<noteq> EventTransactionCommitted" "pe_EventID p \<notin> set seen" "pe_EventID p \<notin> set (js_eventIDs s)"
  using assms by (auto simp: seal_event_def Let_def split: sum.splits option.splits)

lemma seal_events_chain:
  "seal_events env ae idn rq s seen i ps = Inr xs \<Longrightarrow> set order = set (js_eventIDs s) \<union> set seen \<Longrightarrow>
    sealed_chain env (aq_Journal rq) (aq_TransactionID rq) order (js_physicalSeq s + of_nat i + 1) xs
    \<and> map (en_EventID \<circ> fst) xs = map pe_EventID ps \<and> map (en_Kind \<circ> fst) xs = map pe_Kind ps
    \<and> map (en_RuntimeGenerationID \<circ> fst) xs = map pe_RuntimeGenerationID ps"
proof (induction ps arbitrary: seen i xs order)
  case (Cons p ps)
  obtain e l xs' where x: "seal_event env ae idn rq s seen i p = Inr (e, l)" "xs = (e, l) # xs'"
    "seal_events env ae idn rq s (pe_EventID p # seen) (i + 1) ps = Inr xs'"
    using Cons.prems(1) by (auto split: sum.splits prod.splits)
  obtain admitted payload where e: "e = sealed_envelope rq (js_physicalSeq s + of_nat i + 1) p payload"
    "checked_line env e = Inr l" "pe_Kind p \<noteq> EventTransactionCommitted" "pe_EventID p \<notin> set order"
    using seal_event_envelope [OF x(1)] Cons.prems(2) by (metis UnE)
  have f: "en_EventID e = pe_EventID p" "en_Kind e = pe_Kind p" "en_Seq e = js_physicalSeq s + of_nat i + 1"
    "en_JournalKind e = jr_Kind (aq_Journal rq)" "en_JournalID e = jr_ID (aq_Journal rq)" "en_TransactionID e = aq_TransactionID rq"
    "en_RuntimeGenerationID e = pe_RuntimeGenerationID p"
    using e(1) by (simp_all add: sealed_envelope_def)
  have "js_physicalSeq s + of_nat (i + 1) + 1 = en_Seq e + (1 :: u64)" using f(3) by (simp add: algebra_simps)
  then show ?case
    using Cons.IH [OF x(3), of "order @ [pe_EventID p]"] Cons.prems(2) x(2) e f by (simp add: insert_commute)
qed simp

lemma sealed_chain_Cons:
  "sealed_chain env ref t seen n (x # xs) \<longleftrightarrow> checked_line env (fst x) = Inr (snd x) \<and> en_JournalKind (fst x) = jr_Kind ref
     \<and> en_JournalID (fst x) = jr_ID ref \<and> en_TransactionID (fst x) = t \<and> en_Seq (fst x) = n
     \<and> en_Kind (fst x) \<noteq> EventTransactionCommitted \<and> en_EventID (fst x) \<notin> set seen
     \<and> sealed_chain env ref t (seen @ [en_EventID (fst x)]) (n + 1) xs"
  by (cases x) simp

text \<open>The scan of the sealed lines.\<close>

lemma chain_run:
  fixes x :: journal_index_transaction
  assumes trip: "codec_round_trip env ae" and x: "ix_TransactionID x \<notin> set (map commit_id (xs_commits xs))" "ix_TransactionID x \<noteq> ''''"
  shows "sealed_chain env ref (ix_TransactionID x) (before @ ids) (of_nat (length before) + 1 + of_nat (length ids)) sealed \<Longrightarrow>
    length ids = length rs \<Longrightarrow> length rs + length sealed \<le> 1000 \<Longrightarrow> scan_inv ref (ss_offset st) st \<Longrightarrow>
    index_sim xs (ix_TransactionID x) rs (before @ ids) st \<Longrightarrow>
    list_all line_ok (map snd sealed) \<and> (\<exists>st' rs'. scan_run env ref st (map snd sealed) = Continue st'
      \<and> index_sim xs (ix_TransactionID x) (rs @ rs') (before @ ids @ map (en_EventID \<circ> fst) sealed) st'
      \<and> map e_Envelope rs' = map fst sealed
      \<and> list_all2 (\<lambda>r y. registry_Decode (je_Codec env) (snd y) = Decoded r) rs' sealed)"
proof (induction sealed arbitrary: ids rs st)
  case Nil
  then show ?case by (auto intro!: exI [of _ st] exI [of _ "[]"])
next
  case (Cons y sealed)
  let ?s = "of_nat (length before) + 1 :: u64" and ?e = "fst y" and ?l = "snd y"
  have y: "checked_line env ?e = Inr ?l" "en_JournalKind ?e = jr_Kind ref" "en_JournalID ?e = jr_ID ref"
    "en_TransactionID ?e = ix_TransactionID x" "en_Seq ?e = ?s + of_nat (length ids)" "en_Kind ?e \<noteq> EventTransactionCommitted"
    "en_EventID ?e \<notin> set (before @ ids)"
    "sealed_chain env ref (ix_TransactionID x) (before @ ids @ [en_EventID ?e]) (?s + of_nat (length ids) + 1) sealed"
    using Cons.prems(1) by (simp_all add: sealed_chain_Cons)
  obtain r where r: "registry_Decode (je_Codec env) ?l = Decoded r" "registry_Validate (je_Codec env) r = None"
    "e_Envelope r = ?e" "line_ok ?l"
    using checked_line_read [OF trip y(1)] .
  have schema: "schema_agrees env" using trip by (simp add: codec_round_trip_def)
  have v: "verify_event env ref x ?s False r (map e_Envelope rs) rs ids
      = VMore (map e_Envelope rs @ [?e]) (rs @ [r]) (ids @ [en_EventID ?e])"
    using y r(3) Cons.prems(2,3) by (simp add: verify_event_def Let_def)
  have fresh: "en_EventID (e_Envelope r) \<notin> set (before @ ids)" using y(7) r(3) by simp
  obtain st1 where st1: "line_step env ref st ?l = Continue st1"
    "index_sim xs (ix_TransactionID x) (rs @ [r]) (before @ ids @ [en_EventID ?e]) st1"
    by (rule verify_event_more [OF v refl schema r(1,2) Cons.prems(4,5) refl fresh x]) simp
  note inv = line_step_inv [OF Cons.prems(4) st1(1)]
  have "list_all line_ok (map snd sealed) \<and> (\<exists>st' rs'. scan_run env ref st1 (map snd sealed) = Continue st'
      \<and> index_sim xs (ix_TransactionID x) ((rs @ [r]) @ rs') (before @ (ids @ [en_EventID ?e]) @ map (en_EventID \<circ> fst) sealed) st'
      \<and> map e_Envelope rs' = map fst sealed
      \<and> list_all2 (\<lambda>r y. registry_Decode (je_Codec env) (snd y) = Decoded r) rs' sealed)"
    using y(8) Cons.prems(2,3) st1(2) by (intro Cons.IH) (use inv in \<open>auto simp: add.assoc\<close>)
  then obtain st' rs' where "list_all line_ok (map snd sealed)" "scan_run env ref st1 (map snd sealed) = Continue st'"
    "index_sim xs (ix_TransactionID x) ((rs @ [r]) @ rs') (before @ (ids @ [en_EventID ?e]) @ map (en_EventID \<circ> fst) sealed) st'"
    "map e_Envelope rs' = map fst sealed" "list_all2 (\<lambda>r y. registry_Decode (je_Codec env) (snd y) = Decoded r) rs' sealed"
    by blast
  then show ?case using st1(1) r(1,3,4) by (auto simp: comp_def intro!: exI [of _ st'] exI [of _ "r # rs'"])
qed

section \<open>The compatibility declaration\<close>

lemma last_declaration_none:
  "list_all (\<lambda>r. en_Kind (e_Envelope r) \<noteq> EventMigrationCompatibilityDeclared) rs \<Longrightarrow> last_declaration i rs = (0, None, None)"
  by (induction rs arbitrary: i) auto

lemma kinds_none:
  assumes "map e_Envelope rs = map fst sealed" "map (en_Kind \<circ> fst) sealed = map pe_Kind ps"
    "\<not> list_ex (\<lambda>p. pe_Kind p = EventMigrationCompatibilityDeclared) ps"
  shows "list_all (\<lambda>r. en_Kind (e_Envelope r) \<noteq> EventMigrationCompatibilityDeclared) rs"
proof -
  have "map (en_Kind \<circ> e_Envelope) rs = map pe_Kind ps" using assms(1,2) by (metis map_map)
  then have "set (map (en_Kind \<circ> e_Envelope) rs) = pe_Kind ` set ps" by (metis list.set_map)
  then show ?thesis using assms(3) by (force simp: list_all_iff list_ex_iff)
qed

lemma transition_ok:
  assumes trip: "codec_round_trip env ae" and w: "with_compatibility ae no_identity u rq s = Inr rq'"
    and seal: "seal_events env ae no_identity rq' s [] 0 (aq_Events rq') = Inr sealed"
    and rs: "map e_Envelope rs = map fst sealed" "list_all2 (\<lambda>r y. registry_Decode (je_Codec env) (snd y) = Decoded r) rs sealed"
  shows "validateCompatibilityTransition (js_hasLegacy s) (js_hasV2 s) (js_head s) rs = None"
proof -
  have kinds: "map (en_Kind \<circ> fst) sealed = map pe_Kind (aq_Events rq')"
    using seal_events_chain [OF seal, of "js_eventIDs s"] by simp
  have no: "\<not> list_ex (\<lambda>p. pe_Kind p = EventMigrationCompatibilityDeclared) (aq_Events rq)"
    using w by (auto simp: with_compatibility_def split: if_split_asm)
  show ?thesis
  proof (cases "js_hasLegacy s \<and> \<not> js_hasV2 s")
    case False
    then have "aq_Events rq' = aq_Events rq" using w no by (auto simp: with_compatibility_def split: if_split_asm)
    then show ?thesis
      using kinds_none [OF rs(1) kinds] no False last_declaration_none by (simp add: validateCompatibilityTransition_def)
  next
    case True
    then obtain c p where c: "compatibility_event ae no_identity u rq s c = Inr p" "rq' = rq\<lparr>aq_Events := p # aq_Events rq\<rparr>"
      using w no by (auto simp: with_compatibility_def split: option.splits sum.splits)
    obtain raw where p: "cr_ReaderVersion c = EnvelopeVersion" "cr_WriterVersion c = EnvelopeVersion" "cr_LegacyHead c = js_head s"
      "ae_MarshalDeclaration ae \<lparr>mc_ReaderVersion = cr_ReaderVersion c, mc_WriterVersion = cr_WriterVersion c,
        mc_LegacyHead = cr_LegacyHead c, mc_DowngradeStatus = ''v0.1_read_only_after_v2''\<rparr> = Inr raw" "pe_Payload p = Some raw"
      "pe_Kind p = EventMigrationCompatibilityDeclared"
      using c(1) by (auto simp: compatibility_event_def Let_def split: if_split_asm sum.splits)
    obtain e l ys where y: "sealed = (e, l) # ys" "seal_event env ae no_identity rq' s [] 0 p = Inr (e, l)"
      using seal c(2) by (auto split: sum.splits prod.splits)
    obtain admitted payload where e: "admitted_payload ae no_identity p = Inr admitted"
      "canonical_marshal (raw_bytes admitted) = Inr payload" "e = sealed_envelope rq' (js_physicalSeq s + of_nat 0 + 1) p payload"
      using seal_event_envelope [OF y(2)] by metis
    obtain r rs' where r: "rs = r # rs'" "e_Envelope r = e" "map e_Envelope rs' = map fst ys" "registry_Decode (je_Codec env) l = Decoded r"
      using rs y(1) by (cases rs) auto
    have k: "en_Kind (e_Envelope r) = EventMigrationCompatibilityDeclared" "en_Payload (e_Envelope r) = Some payload"
      using r(2) e(3) p(6) by (simp_all add: sealed_envelope_def)
    then have d: "e_Decoded r = Some (P_CompatibilityDeclared \<lparr>mc_ReaderVersion = cr_ReaderVersion c,
        mc_WriterVersion = cr_WriterVersion c, mc_LegacyHead = cr_LegacyHead c, mc_DowngradeStatus = ''v0.1_read_only_after_v2''\<rparr>)"
      using trip p(4,5) e(1,2) r(4) unfolding codec_round_trip_def by blast
    have "list_all (\<lambda>r. en_Kind (e_Envelope r) \<noteq> EventMigrationCompatibilityDeclared) rs'"
      using kinds_none [OF r(3) _ no] kinds y(1) c(2) by simp
    then show ?thesis
      using True d k r(1) p(1-3) last_declaration_none [of rs'] by (simp add: validateCompatibilityTransition_def)
  qed
qed

section \<open>The scan of a prepared transaction\<close>

text \<open>What is prepared for the journal of the scan \<open>s\<close>: a chain of sealed events and their marker.\<close>

definition prepared_for ::
  "journal_env \<Rightarrow> append_env \<Rightarrow> journal_ref \<Rightarrow> transaction_id \<Rightarrow> journal_scan \<Rightarrow> prepared_append \<Rightarrow> (envelope \<times> string) list \<Rightarrow> bool" where
  "prepared_for env ae ref t s pa sealed \<longleftrightarrow>
     pa_Events pa = map fst sealed \<and> pa_Lines pa = map snd sealed \<and> sealed \<noteq> [] \<and> length sealed \<le> 1000 \<and> t \<noteq> ''''
     \<and> map_of (js_transactions s) t = None
     \<and> sealed_chain env ref t (js_eventIDOrder s) (js_physicalSeq s + 1) sealed
     \<and> checked_line env (pa_Marker pa) = Inr (pa_MarkerLine pa) \<and> en_JournalKind (pa_Marker pa) = jr_Kind ref
     \<and> en_JournalID (pa_Marker pa) = jr_ID ref \<and> en_TransactionID (pa_Marker pa) = t
     \<and> en_Kind (pa_Marker pa) = EventTransactionCommitted
     \<and> en_EventID (pa_Marker pa) \<notin> set (js_eventIDOrder s @ map (en_EventID \<circ> fst) sealed)
     \<and> en_Seq (pa_Marker pa) = en_Seq (fst (last sealed)) + 1
     \<and> (\<exists>d raw. TransactionDigest env (map fst sealed) = Inr d \<and> en_Payload (pa_Marker pa) = Some raw
         \<and> ae_MarshalMarker ae \<lparr>tm_TransactionID = t, tm_FirstSeq = en_Seq (fst (hd sealed)),
             tm_LastSeq = en_Seq (fst (last sealed)), tm_EventCount = of_nat (length sealed), tm_Digest = d\<rparr> = Inr raw)
     \<and> (\<forall>rs. map e_Envelope rs = map fst sealed
         \<and> list_all2 (\<lambda>r y. registry_Decode (je_Codec env) (snd y) = Decoded r) rs sealed
         \<longrightarrow> validateCompatibilityTransition (js_hasLegacy s) (js_hasV2 s) (js_head s) rs = None)"

lemma seal_marker_facts:
  assumes "seal_marker env ae no_identity u rq s sealed = Inr pa"
  obtains d raw where "pa_Events pa = map fst sealed" "pa_Lines pa = map snd sealed"
    "TransactionDigest env (map fst sealed) = Inr d"
    "ae_MarshalMarker ae \<lparr>tm_TransactionID = aq_TransactionID rq, tm_FirstSeq = en_Seq (hd (map fst sealed)),
       tm_LastSeq = en_Seq (last (map fst sealed)), tm_EventCount = of_nat (length sealed), tm_Digest = d\<rparr> = Inr raw"
    "checked_line env (pa_Marker pa) = Inr (pa_MarkerLine pa)" "en_Payload (pa_Marker pa) = Some raw"
    "en_JournalKind (pa_Marker pa) = jr_Kind (aq_Journal rq)" "en_JournalID (pa_Marker pa) = jr_ID (aq_Journal rq)"
    "en_TransactionID (pa_Marker pa) = aq_TransactionID rq" "en_Kind (pa_Marker pa) = EventTransactionCommitted"
    "en_EventID (pa_Marker pa) \<notin> set (js_eventIDs s)" "en_EventID (pa_Marker pa) \<notin> pe_EventID ` set (aq_Events rq)"
    "en_Seq (pa_Marker pa) = en_Seq (last (map fst sealed)) + 1"
proof -
  let ?es = "map fst sealed"
  obtain d where d: "TransactionDigest env ?es = Inr d"
    using assms by (auto simp: seal_marker_def Let_def split: sum.splits)
  obtain raw where raw: "ae_MarshalMarker ae \<lparr>tm_TransactionID = aq_TransactionID rq, tm_FirstSeq = en_Seq (hd ?es),
       tm_LastSeq = en_Seq (last ?es), tm_EventCount = of_nat (length sealed), tm_Digest = d\<rparr> = Inr raw"
    using assms d by (auto simp: seal_marker_def Let_def split: sum.splits)
  obtain i where i: "ae_MarkerID ae = Inr i"
    using assms d raw by (auto simp: seal_marker_def no_identity_def Let_def split: sum.splits)
  have *: "i \<notin> set (js_eventIDs s)" "i \<notin> pe_EventID ` set (aq_Events rq)"
    using assms d raw i by (auto simp: seal_marker_def no_identity_def Let_def split: if_split_asm)
  have none: "id_markerEventID no_identity = ''''" by (simp add: no_identity_def)
  let ?t2 = "marker_time ae no_identity u (en_Time (last ?es))"
  have "(case checked_line env (marker_envelope rq i ?t2 ?es raw) of
      Inl e \<Rightarrow> Inl e
    | Inr line \<Rightarrow> Inr \<lparr>pa_Events = ?es, pa_Lines = map snd sealed, pa_Marker = marker_envelope rq i ?t2 ?es raw, pa_MarkerLine = line\<rparr>)
    = Inr pa"
    using assms d raw i * by (simp add: seal_marker_def Let_def none)
  then have m: "\<exists>time line. checked_line env (marker_envelope rq i time ?es raw) = Inr line
      \<and> pa = \<lparr>pa_Events = ?es, pa_Lines = map snd sealed, pa_Marker = marker_envelope rq i time ?es raw, pa_MarkerLine = line\<rparr>"
    by (auto split: sum.splits)
  obtain time line where "checked_line env (marker_envelope rq i time (map fst sealed) raw) = Inr line"
    "pa = \<lparr>pa_Events = map fst sealed, pa_Lines = map snd sealed, pa_Marker = marker_envelope rq i time (map fst sealed) raw,
          pa_MarkerLine = line\<rparr>"
    using m by blast
  then show thesis using that [OF _ _ d raw] * by (simp add: marker_envelope_def)
qed

lemma with_compatibility_request:
  assumes "with_compatibility ae idn u rq s = Inr rq'" "aq_Events rq \<noteq> []" "length (aq_Events rq) \<le> 1000"
  shows "aq_Journal rq' = aq_Journal rq" "aq_TransactionID rq' = aq_TransactionID rq" "aq_Events rq' \<noteq> []"
    "length (aq_Events rq') \<le> 1000"
  using assms by (auto simp: with_compatibility_def compatibility_event_def Let_def split: if_split_asm option.splits sum.splits)

lemma prepare_append_for:
  assumes p: "prepare_append env ae no_identity st rq s = Inr pa" and trip: "codec_round_trip env ae"
    and rq: "aq_Events rq \<noteq> []" "length (aq_Events rq) \<le> 1000" "aq_TransactionID rq \<noteq> ''''"
    and s: "set (js_eventIDOrder s) = set (js_eventIDs s)"
  obtains sealed where "prepared_for env ae (aq_Journal rq) (aq_TransactionID rq) s pa sealed"
proof -
  obtain rq' sealed where w: "with_compatibility ae no_identity (jt_UpdatedAt st) rq s = Inr rq'"
    and t: "map_of (js_transactions s) (aq_TransactionID rq') = None"
    and e: "seal_events env ae no_identity rq' s [] 0 (aq_Events rq') = Inr sealed"
    and m: "seal_marker env ae no_identity (jt_UpdatedAt st) rq' s sealed = Inr pa"
    using p by (auto simp: prepare_append_def Let_def split: sum.splits if_split_asm option.splits)
  note w' = with_compatibility_request [OF w rq(1,2)]
  obtain d raw where mk: "pa_Events pa = map fst sealed" "pa_Lines pa = map snd sealed"
    "TransactionDigest env (map fst sealed) = Inr d"
    "ae_MarshalMarker ae \<lparr>tm_TransactionID = aq_TransactionID rq', tm_FirstSeq = en_Seq (hd (map fst sealed)),
       tm_LastSeq = en_Seq (last (map fst sealed)), tm_EventCount = of_nat (length sealed), tm_Digest = d\<rparr> = Inr raw"
    "checked_line env (pa_Marker pa) = Inr (pa_MarkerLine pa)" "en_Payload (pa_Marker pa) = Some raw"
    "en_JournalKind (pa_Marker pa) = jr_Kind (aq_Journal rq')" "en_JournalID (pa_Marker pa) = jr_ID (aq_Journal rq')"
    "en_TransactionID (pa_Marker pa) = aq_TransactionID rq'" "en_Kind (pa_Marker pa) = EventTransactionCommitted"
    "en_EventID (pa_Marker pa) \<notin> set (js_eventIDs s)" "en_EventID (pa_Marker pa) \<notin> pe_EventID ` set (aq_Events rq')"
    "en_Seq (pa_Marker pa) = en_Seq (last (map fst sealed)) + 1"
    using seal_marker_facts [OF m] .
  have c: "sealed_chain env (aq_Journal rq') (aq_TransactionID rq') (js_eventIDOrder s) (js_physicalSeq s + of_nat 0 + 1) sealed
      \<and> map (en_EventID \<circ> fst) sealed = map pe_EventID (aq_Events rq') \<and> map (en_Kind \<circ> fst) sealed = map pe_Kind (aq_Events rq')
      \<and> map (en_RuntimeGenerationID \<circ> fst) sealed = map pe_RuntimeGenerationID (aq_Events rq')"
    by (rule seal_events_chain [OF e]) (use s in auto)
  then have len: "length sealed = length (aq_Events rq')" by (metis length_map)
  then have ne: "sealed \<noteq> []" "length sealed \<le> 1000" using w'(3,4) by auto
  have "en_EventID (pa_Marker pa) \<notin> set (map (en_EventID \<circ> fst) sealed)" using c mk(12) by (metis list.set_map)
  moreover have "validateCompatibilityTransition (js_hasLegacy s) (js_hasV2 s) (js_head s) rs = None"
    if "map e_Envelope rs = map fst sealed" "list_all2 (\<lambda>r y. registry_Decode (je_Codec env) (snd y) = Decoded r) rs sealed" for rs
    using transition_ok [OF trip w e that] .
  ultimately have "prepared_for env ae (aq_Journal rq) (aq_TransactionID rq) s pa sealed"
    using c mk ne w'(1,2) rq(3) t s by (auto simp: prepared_for_def hd_map last_map)
  then show thesis by (rule that)
qed

end
