(* ===== verification/Journal_Commits.thy ===== *)
theory Journal_Commits
  imports Journal_Writes
begin

text \<open>
  What reaches the file and what a scan makes of it: the whole of a prepared transaction adds one commit
  to the log, any part of it adds none.
\<close>

section \<open>Parts of lines\<close>

lemma take_lines:
  "k < length (lines_bytes ls) \<Longrightarrow> list_all line_ok ls \<Longrightarrow>
    \<exists>j partial. j < length ls \<and> take k (lines_bytes ls) = lines_bytes (take j ls) @ partial
      \<and> newline \<notin> set partial \<and> length partial \<le> length (ls ! j)"
proof (induction ls arbitrary: k)
  case (Cons l ls)
  have n: "newline \<notin> set l" using Cons.prems(2) by (simp add: line_ok_def)
  show ?case
  proof (cases "k \<le> length l")
    case True
    then show ?thesis using n by (intro exI [of _ 0] exI [of _ "take k l"]) (auto dest: in_set_takeD)
  next
    case False
    then have "k - Suc (length l) < length (lines_bytes ls)" using Cons.prems(1) by simp
    then obtain j partial where "j < length ls" "take (k - Suc (length l)) (lines_bytes ls) = lines_bytes (take j ls) @ partial"
      "newline \<notin> set partial" "length partial \<le> length (ls ! j)"
      using Cons.IH [of "k - Suc (length l)"] Cons.prems(2) by auto
    moreover have "k = length l + Suc (k - Suc (length l))" using False by simp
    then have "take k (l @ newline # lines_bytes ls) = l @ newline # take (k - Suc (length l)) (lines_bytes ls)"
      by (metis take_Suc_Cons append_take_drop_id take_append take_all le_add1 diff_add_inverse append_Nil2)
    ultimately show ?thesis by (intro exI [of _ "Suc j"] exI [of _ partial]) simp
  qed
qed simp

text \<open>The scan of a line that is cut off.\<close>

lemma scan_lines_tail:
  assumes "newline \<notin> set l" "int (length l) \<le> MaxEventBytes + 1"
  shows "\<exists>st'. scan_lines env ref st l = Inr st' \<and> js_commits (ss_scan st') = js_commits (ss_scan st)"
proof (cases "l = []")
  case False
  obtain st' where st': "scan_partial env ref (count_line l st) l = Break st'"
    by (simp add: scan_partial_def stop_line_def)
  have "js_commits (ss_scan st') = js_commits (ss_scan st)"
    using scan_partial_log [OF st'] by (simp add: same_log_def count_line_def)
  then show ?thesis using st' False readJournalLine_tail [OF assms] by (simp add: scan_lines.simps [of env ref st l])
qed (simp add: scan_lines_empty)

lemma event_marker_bytes: "event_bytes pa @ marker_bytes pa = lines_bytes (pa_Lines pa @ [pa_MarkerLine pa])"
  by (simp add: event_bytes_def marker_bytes_def lines_bytes_def)

section \<open>The marker\<close>

lemma sealed_chain_take: "sealed_chain env ref t seen n sealed \<Longrightarrow> sealed_chain env ref t seen n (take k sealed)"
  by (induction sealed arbitrary: seen n k) (auto simp: sealed_chain_Cons take_Cons split: nat.splits)

lemma sealed_chain_last:
  "sealed_chain env ref t seen n sealed \<Longrightarrow> sealed \<noteq> [] \<Longrightarrow> en_Seq (fst (last sealed)) + 1 = n + of_nat (length sealed)"
proof (induction sealed arbitrary: seen n)
  case (Cons y sealed)
  show ?case
  proof (cases "sealed = []")
    case False
    have "sealed_chain env ref t (seen @ [en_EventID (fst y)]) (n + 1) sealed" using Cons.prems(1) by (simp add: sealed_chain_Cons)
    from Cons.IH [OF this False] show ?thesis using False by (simp add: algebra_simps)
  qed (use Cons.prems in \<open>simp add: sealed_chain_Cons\<close>)
qed simp

definition marker_cursor :: "journal_ref \<Rightarrow> prepared_append \<Rightarrow> cursor" where
  "marker_cursor ref pa = \<lparr>cu_JournalKind = jr_Kind ref, cu_JournalID = jr_ID ref,
     cu_CommitSeq = en_Seq (pa_Marker pa), cu_TransactionID = en_TransactionID (pa_Marker pa)\<rparr>"

definition prepared_entry :: "journal_ref \<Rightarrow> int \<Rightarrow> prepared_append \<Rightarrow> journal_index_transaction" where
  "prepared_entry ref n pa = \<lparr>ix_TransactionID = en_TransactionID (pa_Marker pa), ix_Cursor = marker_cursor ref pa,
     ix_FirstOffset = n, ix_EndOffset = n + int (length (event_bytes pa @ marker_bytes pa))\<rparr>"

text \<open>What the scan finds committed.\<close>

definition written_commit :: "journal_ref \<Rightarrow> prepared_append \<Rightarrow> scanned_commit \<Rightarrow> bool" where
  "written_commit ref pa c \<longleftrightarrow> sm_cursor c = marker_cursor ref pa \<and> sm_envelopes c = pa_Events pa
     \<and> map e_Envelope (sm_events c) = pa_Events pa \<and> sm_markerTime c = en_Time (pa_Marker pa)"

lemma marker_verified:
  assumes trip: "codec_round_trip env ae" and p: "prepared_for env ae ref t s pa sealed"
    and s: "js_physicalSeq s = of_nat (length (js_eventIDOrder s))"
    and rs: "map e_Envelope rs = map fst sealed" "list_all2 (\<lambda>r y. registry_Decode (je_Codec env) (snd y) = Decoded r) rs sealed"
    and r: "registry_Decode (je_Codec env) (pa_MarkerLine pa) = Decoded r" "e_Envelope r = pa_Marker pa"
    and ls: "xs_hasLegacy xs = js_hasLegacy s" "xs_hasV2 xs = js_hasV2 s" "xs_legacyHead xs = js_head s"
  obtains c xs' ids' where "verify_event env ref (prepared_entry ref n pa) (of_nat (length (js_eventIDOrder s)) + 1) True r
      (map fst sealed) rs (map (en_EventID \<circ> fst) sealed) = VDone c ids' False"
    "index_commit env xs c ids' False q = Some xs'" "xs_commits xs' = xs_commits xs @ [c]" "written_commit ref pa c"
proof -
  obtain d raw where m: "TransactionDigest env (map fst sealed) = Inr d" "en_Payload (pa_Marker pa) = Some raw"
    "ae_MarshalMarker ae \<lparr>tm_TransactionID = t, tm_FirstSeq = en_Seq (fst (hd sealed)),
       tm_LastSeq = en_Seq (fst (last sealed)), tm_EventCount = of_nat (length sealed), tm_Digest = d\<rparr> = Inr raw"
    and ne: "sealed \<noteq> []" "length sealed \<le> 1000" and es: "pa_Events pa = map fst sealed"
    and k: "en_Kind (pa_Marker pa) = EventTransactionCommitted" "en_TransactionID (pa_Marker pa) = t"
      "en_JournalKind (pa_Marker pa) = jr_Kind ref" "en_JournalID (pa_Marker pa) = jr_ID ref"
      "en_Seq (pa_Marker pa) = en_Seq (fst (last sealed)) + 1"
    and comp: "validateCompatibilityTransition (js_hasLegacy s) (js_hasV2 s) (js_head s) rs = None"
    and chain: "sealed_chain env ref t (js_eventIDOrder s) (js_physicalSeq s + 1) sealed"
    using p rs unfolding prepared_for_def by blast
  have dec: "e_Decoded r = Some (P_TransactionCommitted \<lparr>tm_TransactionID = t, tm_FirstSeq = en_Seq (fst (hd sealed)),
       tm_LastSeq = en_Seq (fst (last sealed)), tm_EventCount = of_nat (length sealed), tm_Digest = d\<rparr>)"
    using trip m(2,3) r k(1) unfolding codec_round_trip_def by metis
  have n: "unat (of_nat (length sealed) :: u32) = length sealed" using ne(2) by (simp add: unat_of_nat)
  have seq: "en_Seq (pa_Marker pa) = of_nat (length (js_eventIDOrder s)) + 1 + of_nat (length sealed)"
    using sealed_chain_last [OF chain ne(1)] k(5) s by simp
  let ?x = "prepared_entry ref n pa" and ?ids = "map (en_EventID \<circ> fst) sealed @ [en_EventID (pa_Marker pa)]"
  let ?c = "\<lparr>sm_cursor = ix_Cursor ?x, sm_events = rs, sm_envelopes = map fst sealed, sm_markerTime = en_Time (pa_Marker pa),
      sm_firstOffset = ix_FirstOffset ?x, sm_endOffset = ix_EndOffset ?x\<rparr>"
  have v: "verify_event env ref ?x (of_nat (length (js_eventIDOrder s)) + 1) True r (map fst sealed) rs (map (en_EventID \<circ> fst) sealed)
      = VDone ?c ?ids False"
    using k dec m(1) n seq ne r(2)
    by (simp add: verify_event_def verify_marker_def Let_def prepared_entry_def marker_cursor_def hd_map last_map)
  show thesis
    by (rule that [OF v, of "xs\<lparr>xs_hasV2 := True, xs_commits := xs_commits xs @ [?c],
          xs_eventOffset := xs_eventOffset xs + length ?ids, xs_expectedSeq := q + 1\<rparr>"])
      (use comp ls rs(1) es in \<open>simp_all add: index_commit_def Let_def written_commit_def prepared_entry_def\<close>)
qed

section \<open>The scan of a prepared transaction\<close>

lemma prepared_run:
  assumes trip: "codec_round_trip env ae" and p: "prepared_for env ae ref t s pa sealed"
    and scan: "scanJournal env ref file = Inr s" "clean_scan s"
  obtains st where "\<And>q. scanJournal env ref (file @ q) = scan_result env ref (file @ q) (scan_lines env ref st q)"
    "list_all line_ok (pa_Lines pa @ [pa_MarkerLine pa])"
    "\<And>j. j \<le> length (pa_Lines pa) \<Longrightarrow> \<exists>st'. scan_run env ref st (take j (pa_Lines pa)) = Continue st'
        \<and> js_commits (ss_scan st') = js_commits s"
    "\<exists>st' c. scan_run env ref st (pa_Lines pa @ [pa_MarkerLine pa]) = Continue st' \<and> js_commits (ss_scan st') = js_commits s @ [c]
        \<and> written_commit ref pa c \<and> ss_pendingID st' = '''' \<and> js_writable (ss_scan st') \<and> \<not> js_incompleteTail (ss_scan st')"
proof -
  obtain st where st: "s = finish_scan env ref file st" "scan_inv ref (ss_offset st) st" "ss_offset st = int (length file)"
    "index_sim (log_state st) t [] (js_eventIDOrder s) st" "ss_committedV2 st = js_hasV2 s"
    "\<And>q. scanJournal env ref (file @ q) = scan_result env ref (file @ q) (scan_lines env ref st q)"
    using clean_scan_state [OF scan] by blast
  let ?x = "prepared_entry ref (int (length file)) pa" and ?before = "js_eventIDOrder s" and ?xs = "log_state st"
  have pf: "pa_Events pa = map fst sealed" "pa_Lines pa = map snd sealed" "length sealed \<le> 1000" "t \<noteq> ''''"
    "map_of (js_transactions s) t = None" "en_TransactionID (pa_Marker pa) = t"
    "sealed_chain env ref t ?before (js_physicalSeq s + 1) sealed" "checked_line env (pa_Marker pa) = Inr (pa_MarkerLine pa)"
    "en_EventID (pa_Marker pa) \<notin> set (?before @ map (en_EventID \<circ> fst) sealed)"
    using p unfolding prepared_for_def by blast+
  have x: "ix_TransactionID ?x = t" "entry_ok ref ?x"
    using pf(4,6) by (simp_all add: prepared_entry_def entry_ok_def marker_cursor_def)
  have log: "log_ok ref s" using st(1,2) by (simp add: finish_log scan_inv_def)
  have com: "xs_commits ?xs = js_commits s" using st(1) by (simp add: log_state_def finish_log)
  have seq: "js_physicalSeq s = of_nat (length ?before)"
    using st(1,2) by (simp add: finish_log scan_inv_def)
  have new: "ix_TransactionID ?x \<notin> set (map commit_id (xs_commits ?xs))"
    using pf(5) log com x(1) map_of_commits [of "js_commits s"] by (simp add: log_ok_def)
  have pend: "ss_pendingID st = ''''" using st(4) by (simp add: index_sim_def)
  have chain: "list_all line_ok (map snd (take j sealed)) \<and> (\<exists>st' rs'. scan_run env ref st (map snd (take j sealed)) = Continue st'
      \<and> index_sim ?xs t rs' (?before @ map (en_EventID \<circ> fst) (take j sealed)) st'
      \<and> map e_Envelope rs' = map fst (take j sealed)
      \<and> list_all2 (\<lambda>r y. registry_Decode (je_Codec env) (snd y) = Decoded r) rs' (take j sealed))" for j
    using chain_run [OF trip new _ _ _ _ st(2), of ?before "[]" "take j sealed" "[]"] sealed_chain_take [OF pf(7), of j] st(4) pf(3,4) seq x(1)
    by simp
  obtain st1 rs where one: "scan_run env ref st (map snd sealed) = Continue st1"
    "index_sim ?xs t rs (?before @ map (en_EventID \<circ> fst) sealed) st1" "map e_Envelope rs = map fst sealed"
    "list_all2 (\<lambda>r y. registry_Decode (je_Codec env) (snd y) = Decoded r) rs sealed" and ok: "list_all line_ok (map snd sealed)"
    using chain [of "length sealed"] by auto
  obtain r where r: "registry_Decode (je_Codec env) (pa_MarkerLine pa) = Decoded r" "registry_Validate (je_Codec env) r = None"
    "e_Envelope r = pa_Marker pa" "line_ok (pa_MarkerLine pa)"
    using checked_line_read [OF trip pf(8)] .
  have ls: "xs_hasLegacy ?xs = js_hasLegacy s" "xs_hasV2 ?xs = js_hasV2 s" "xs_legacyHead ?xs = js_head s"
    using st(1,5) by (simp_all add: log_state_def finish_log)
  obtain c xs' ids' where v: "verify_event env ref ?x (of_nat (length ?before) + 1) True r (map fst sealed) rs
      (map (en_EventID \<circ> fst) sealed) = VDone c ids' False"
    "index_commit env ?xs c ids' False 0 = Some xs'" "xs_commits xs' = xs_commits ?xs @ [c]" "written_commit ref pa c"
    using marker_verified [OF trip p seq one(3,4) r(1,3) ls] .
  have inv1: "scan_inv ref (ss_offset st1) st1" using scan_run_inv [OF one(1) st(2)] .
  note b = scan_run_bytes [OF one(1)]
  have off: "ss_offset st1 + int (length (pa_MarkerLine pa)) + 1 = ix_EndOffset ?x"
    using b st(3) pf(2) by (simp add: prepared_entry_def event_marker_bytes lines_bytes_def)
  have vp: "js_validPrefixSize (ss_scan st1) = ix_FirstOffset ?x"
    using same_prefix [OF st(2) inv1] st(2-4) one(2) pend by (simp add: prepared_entry_def index_sim_def scan_inv_def)
  have fresh: "en_EventID (e_Envelope r) \<notin> set (?before @ map (en_EventID \<circ> fst) sealed)" using pf(9) r(3) by simp
  have schema: "schema_agrees env" using trip by (simp add: codec_round_trip_def)
  have sim1: "index_sim ?xs (ix_TransactionID ?x) rs (?before @ map (en_EventID \<circ> fst) sealed) st1" using one(2) x(1) by simp
  obtain st2 where st2: "line_step env ref st1 (pa_MarkerLine pa) = Continue st2" "index_sim xs' t [] (?before @ ids') st2"
    using verify_event_done(1) [OF v(1) one(3) [symmetric] schema r(1,2) inv1 sim1 refl fresh x(2) new vp off v(2)] by blast
  show thesis
  proof (rule that [OF st(6)])
    show "list_all line_ok (pa_Lines pa @ [pa_MarkerLine pa])" using ok r(4) pf(2) by simp
    show "\<exists>st'. scan_run env ref st (take j (pa_Lines pa)) = Continue st' \<and> js_commits (ss_scan st') = js_commits s" for j
      using chain [of j] pf(2) com by (auto simp: take_map index_sim_def)
    show "\<exists>st' c. scan_run env ref st (pa_Lines pa @ [pa_MarkerLine pa]) = Continue st' \<and> js_commits (ss_scan st') = js_commits s @ [c]
        \<and> written_commit ref pa c \<and> ss_pendingID st' = '''' \<and> js_writable (ss_scan st') \<and> \<not> js_incompleteTail (ss_scan st')"
      using one(1) st2 v(3,4) pf(2) com
      by (intro exI [of _ st2] exI [of _ c]) (simp add: scan_run_append index_sim_def)
  qed
qed

text \<open>A prepared transaction that is written whole is the next commit of the log.\<close>

lemma written_scan:
  assumes "codec_round_trip env ae" "prepared_for env ae ref t s pa sealed" "scanJournal env ref file = Inr s" "clean_scan s"
  obtains s' c where "scanJournal env ref (file @ event_bytes pa @ marker_bytes pa) = Inr s'" "clean_scan s'"
    "js_commits s' = js_commits s @ [c]" "written_commit ref pa c"
proof -
  obtain st where st: "\<And>q. scanJournal env ref (file @ q) = scan_result env ref (file @ q) (scan_lines env ref st q)"
    "list_all line_ok (pa_Lines pa @ [pa_MarkerLine pa])"
    "\<exists>st' c. scan_run env ref st (pa_Lines pa @ [pa_MarkerLine pa]) = Continue st' \<and> js_commits (ss_scan st') = js_commits s @ [c]
        \<and> written_commit ref pa c \<and> ss_pendingID st' = '''' \<and> js_writable (ss_scan st') \<and> \<not> js_incompleteTail (ss_scan st')"
    using prepared_run [OF assms] by metis
  then obtain st' c where st': "scan_run env ref st (pa_Lines pa @ [pa_MarkerLine pa]) = Continue st'"
    "js_commits (ss_scan st') = js_commits s @ [c]" "written_commit ref pa c" "ss_pendingID st' = ''''"
    "js_writable (ss_scan st')" "\<not> js_incompleteTail (ss_scan st')" by blast
  have "scan_lines env ref st (lines_bytes (pa_Lines pa @ [pa_MarkerLine pa])) = Inr st'"
    using scan_lines_run [OF st(2), of env ref st "[]"] st'(1) by (simp add: scan_lines_empty)
  then have "scanJournal env ref (file @ event_bytes pa @ marker_bytes pa)
      = Inr (finish_scan env ref (file @ event_bytes pa @ marker_bytes pa) st')"
    using st(1) by (simp only: event_marker_bytes) (simp add: scan_result_def)
  then show thesis
    by (rule that [OF _ _ _ st'(3)]) (use st' in \<open>simp_all add: clean_scan_def finish_scan_def Let_def\<close>)
qed

text \<open>Any proper part of it leaves the log as it was.\<close>

lemma torn_scan:
  assumes "codec_round_trip env ae" "prepared_for env ae ref t s pa sealed" "scanJournal env ref file = Inr s" "clean_scan s"
    and k: "k < length (event_bytes pa @ marker_bytes pa)"
  obtains s' where "scanJournal env ref (file @ take k (event_bytes pa @ marker_bytes pa)) = Inr s'" "js_commits s' = js_commits s"
proof -
  obtain st where st: "\<And>q. scanJournal env ref (file @ q) = scan_result env ref (file @ q) (scan_lines env ref st q)"
    "list_all line_ok (pa_Lines pa @ [pa_MarkerLine pa])"
    "\<And>j. j \<le> length (pa_Lines pa) \<Longrightarrow> \<exists>st'. scan_run env ref st (take j (pa_Lines pa)) = Continue st'
        \<and> js_commits (ss_scan st') = js_commits s"
    using prepared_run [OF assms(1-4)] by metis
  let ?ls = "pa_Lines pa @ [pa_MarkerLine pa]" and ?q = "take k (event_bytes pa @ marker_bytes pa)"
  obtain j partial where j: "j < length ?ls" "take k (lines_bytes ?ls) = lines_bytes (take j ?ls) @ partial"
    "newline \<notin> set partial" "length partial \<le> length (?ls ! j)"
    using take_lines [OF _ st(2)] k by (metis event_marker_bytes)
  have q: "?q = lines_bytes (take j (pa_Lines pa)) @ partial" using j(1,2) by (simp add: event_marker_bytes)
  have ok: "list_all line_ok (take j (pa_Lines pa))"
    using st(2) by (auto simp: list_all_iff dest: in_set_takeD)
  have "line_ok (?ls ! j)" using st(2) j(1) by (metis list_all_length)
  then have len: "int (length partial) \<le> MaxEventBytes + 1" using j(4) by (simp add: line_ok_def)
  obtain st' where st': "scan_run env ref st (take j (pa_Lines pa)) = Continue st'" "js_commits (ss_scan st') = js_commits s"
    using st(3) [of j] j(1) by auto
  obtain st'' where st'': "scan_lines env ref st' partial = Inr st''" "js_commits (ss_scan st'') = js_commits (ss_scan st')"
    using scan_lines_tail [OF j(3) len] by blast
  have "scan_lines env ref st ?q = Inr st''" unfolding q scan_lines_run [OF ok] using st'(1) st''(1) by simp
  then have "scanJournal env ref (file @ ?q) = Inr (finish_scan env ref (file @ ?q) st'')"
    using st(1) by (simp add: scan_result_def)
  then show thesis by (rule that) (use st'(2) st''(2) in \<open>simp add: finish_log\<close>)
qed

text \<open>What is written is a part of the bytes.\<close>

lemma writeFull_prefix: "writeFull w i raw = (done, err) \<Longrightarrow> \<exists>n. done = take n raw \<and> (err = None \<longrightarrow> done = raw)"
proof (induction w i raw arbitrary: "done" rule: writeFull.induct)
  case (1 w i raw)
  show ?case
  proof (cases "raw = [] \<or> snd (w i) \<noteq> None \<or> fst (w i) = 0")
    case True
    then show ?thesis using 1(2) by (auto simp: writeFull.simps [of w i raw] split: if_split_asm prod.splits option.splits)
  next
    case False
    then obtain n where n: "w i = (n, None)" "n \<noteq> 0" "raw \<noteq> []" by (cases "w i") auto
    obtain d e where d: "writeFull w (i + 1) (drop n raw) = (d, e)" by fastforce
    then have r: "done = take n raw @ d" "e = err" using 1(2) n by (simp_all add: writeFull.simps [of w i raw])
    obtain m where "d = take m (drop n raw)" "e = None \<longrightarrow> d = drop n raw"
      using 1(1) [OF n(3) n(1) [symmetric] refl n(2)] d r(2) by blast
    then show ?thesis using r by (intro exI [of _ "n + m"]) (auto simp: take_add)
  qed
qed

end
