(* ===== verification/Journal_Load.thy ===== *)
theory Journal_Load
  imports Journal_Commits
begin

text \<open>
  The scan a store loads (\<open>loadJournalScan\<close>) is the scan of the whole file, whatever accelerator gave it. A
  scan that came from the index has no validated prefix size; no step of a scan reads that field.
\<close>

section \<open>The validated prefix size is not read\<close>

definition with_valid :: "int \<Rightarrow> scan_state \<Rightarrow> scan_state" where
  "with_valid n st = on_scan (\<lambda>s. s\<lparr>js_validPrefixSize := n\<rparr>) st"

text \<open>A step keeps the difference, or ends it with a commit.\<close>

definition valid_step :: "int \<Rightarrow> scan_step \<Rightarrow> scan_step \<Rightarrow> bool" where
  "valid_step n s s' \<longleftrightarrow> s' = s \<or> s' = map_step (with_valid n) s"

lemma valid_stop: "valid_step b (stop_line ref st c m i) (stop_line ref (with_valid b st) c m i)"
  by (simp add: valid_step_def stop_line_def with_valid_def add_diagnostic_def)

lemma valid_legacy: "valid_step b (commit_legacy ref st src u l a) (commit_legacy ref (with_valid b st) src u l a)"
  by (simp add: valid_step_def commit_legacy_def with_valid_def add_commit_def add_event_id_def Let_def)

lemma valid_fatal: "valid_step b (Fatal m) (Fatal m)"
  by (simp add: valid_step_def)

lemma valid_reads [simp]:
  "ss_hasV2 (with_valid d st) = ss_hasV2 st" "ss_pendingID (with_valid d st) = ss_pendingID st"
  "ss_legacy (with_valid d st) = ss_legacy st" "next_seq (with_valid d st) = next_seq st"
  "ss_seen (with_valid d st) = ss_seen st" "ss_pendingEnvelopes (with_valid d st) = ss_pendingEnvelopes st"
  "ss_pendingRecords (with_valid d st) = ss_pendingRecords st" "ss_committedV2 (with_valid d st) = ss_committedV2 st"
  "js_transactions (ss_scan (with_valid d st)) = js_transactions (ss_scan st)"
  "js_hasLegacy (ss_scan (with_valid d st)) = js_hasLegacy (ss_scan st)"
  "js_head (ss_scan (with_valid d st)) = js_head (ss_scan st)" "ss_offset (with_valid d st) = ss_offset st"
  by (simp_all add: with_valid_def next_seq_def)

lemma valid_flag: "with_valid d st\<lparr>ss_scan := ss_scan (with_valid d st)\<lparr>js_hasLegacy := b\<rparr>\<rparr>
    = with_valid d (st\<lparr>ss_scan := (ss_scan st)\<lparr>js_hasLegacy := b\<rparr>\<rparr>)"
  by (simp add: with_valid_def)

lemma valid_v1: "valid_step b (scan_v1 env ref st l a) (scan_v1 env ref (with_valid b st) l a)"
  by (auto simp: scan_v1_def Let_def valid_flag valid_stop valid_legacy valid_fatal split: sum.split option.split prod.split)

lemma valid_marker: "valid_step b (scan_marker env ref st r) (scan_marker env ref (with_valid b st) r)"
proof -
  have "marker_error env (with_valid b st) r = marker_error env st r" by (simp only: marker_error_def valid_reads)
  then show ?thesis
    by (simp add: scan_marker_def Let_def valid_fatal split: option.split)
      (simp add: valid_step_def with_valid_def drop_pending_def rollbackPendingEventIDs_def add_diagnostic_def add_commit_def
        pending_commit_def)
qed

lemma valid_record: "valid_step b (scan_record env ref st r u a) (scan_record env ref (with_valid b st) r u a)"
proof -
  have s: "seen_record (with_valid b st) r = with_valid b (seen_record st r)"
    by (simp add: seen_record_def with_valid_def add_event_id_def)
  have p: "valid_step b (scan_pending st r a) (scan_pending (with_valid b st) r a)" for st
    by (simp add: scan_pending_def Let_def valid_fatal) (simp add: with_valid_def valid_step_def)
  show ?thesis
    by (simp add: scan_record_seen valid_stop valid_fatal s p valid_marker) (simp add: valid_step_def with_valid_def)
qed

lemma valid_v2: "valid_step b (scan_v2 env ref st l a) (scan_v2 env ref (with_valid b st) l a)"
proof -
  have v: "v2_state (with_valid b st) = with_valid b (v2_state st)" by (simp add: v2_state_def with_valid_def)
  have w: "unsupported ref m r (with_valid b u) = with_valid b (unsupported ref m r u)" for m r u
    by (simp add: with_valid_def unsupported_def add_diagnostic_def)
  show ?thesis
    by (auto simp: scan_v2_state v w valid_stop valid_record split: decoded.split option.split)
qed

lemma valid_physical: "valid_step b (physical_step env ref st l c) (physical_step env ref (with_valid b st) l c)"
proof -
  have "count_line l (with_valid b st) = with_valid b (count_line l st)" by (simp add: count_line_def with_valid_def)
  moreover have "valid_step b (scan_partial env ref st l) (scan_partial env ref (with_valid b st) l)" for st
    by (simp add: scan_partial_def stop_line_def valid_step_def with_valid_def add_diagnostic_def)
  moreover have "valid_step b (scan_line env ref st l a) (scan_line env ref (with_valid b st) l a)" for st l a
    by (auto simp: scan_line_def valid_stop valid_v1 valid_v2 split: sum.split)
  ultimately show ?thesis by (simp add: physical_step_def)
qed

text \<open>Two scans that agree but for the validated prefix size.\<close>

abbreviation forget_valid :: "journal_scan \<Rightarrow> journal_scan" where
  "forget_valid s \<equiv> s\<lparr>js_validPrefixSize := 0\<rparr>"

lemma finish_valid: "forget_valid (finish_scan env ref file (with_valid b st)) = forget_valid (finish_scan env ref file st)"
  by (simp add: finish_scan_def with_valid_def add_diagnostic_def Let_def)

lemma valid_lines:
  "map_sum id forget_valid (scan_result env ref file (scan_lines env ref (with_valid b st) bs))
    = map_sum id forget_valid (scan_result env ref file (scan_lines env ref st bs))"
proof (induction "length bs" arbitrary: st bs rule: less_induct)
  case less
  show ?case
  proof (cases "readJournalLine bs")
    case (Inl e)
    have "stop_line ref (with_valid b st) c m i = map_step (with_valid b) (stop_line ref st c m i)" for c m i
      by (simp add: stop_line_def with_valid_def add_diagnostic_def)
    then show ?thesis
      using Inl by (simp add: scan_lines_step [of _ _ _ bs] scan_result_def) (simp add: stop_line_def finish_valid)
  next
    case (Inr a)
    obtain l c eof r where a: "a = (l, c, eof, r)" by (cases a) auto
    show ?thesis
    proof (cases "l = [] \<and> eof")
      case False
      have "length r < length bs" using readJournalLine_shorter [of bs l c eof r] Inr a False by simp
      note ih = less.hyps [OF this]
      show ?thesis
        using Inr a False ih valid_physical [of b env ref st l c]
        by (cases "physical_step env ref st l c")
          (auto simp: scan_lines_step [of _ _ _ bs] scan_result_def valid_step_def finish_valid)
    qed (use Inr a in \<open>simp add: scan_lines_step [of _ _ _ bs] scan_result_def finish_valid\<close>)
  qed
qed

section \<open>Loading\<close>

text \<open>A scan that is the scan of the file but for that field.\<close>

definition loaded :: "journal_env \<Rightarrow> journal_ref \<Rightarrow> string \<Rightarrow> journal_scan \<Rightarrow> bool" where
  "loaded env ref file s' \<longleftrightarrow> (\<exists>s. scanJournal env ref file = Inr s \<and> forget_valid s' = forget_valid s)"

text \<open>The digest of \<open>p\<close> tells it from every text of its length.\<close>

definition no_collision :: "journal_env \<Rightarrow> string \<Rightarrow> bool" where
  "no_collision env p \<longleftrightarrow> (\<forall>x. length x = length p \<and> je_Sha256Hex env x = je_Sha256Hex env p \<longrightarrow> x = p)"

text \<open>The scan kept in memory is one of a text that its digest identifies.\<close>

definition cache_ok :: "journal_env \<Rightarrow> journal_ref \<Rightarrow> journal_store \<Rightarrow> bool" where
  "cache_ok env ref st \<longleftrightarrow> (\<forall>c. jt_Verified st = Some c \<longrightarrow>
     (\<exists>p. loaded env ref p c \<and> clean_scan c \<and> no_collision env p))"

lemma forget_valid_cases:
  assumes "forget_valid s' = forget_valid s"
  obtains n where "s' = s\<lparr>js_validPrefixSize := n\<rparr>"
  using assms by (cases s; cases s') auto

lemma clean_valid [simp]: "clean_scan (s\<lparr>js_validPrefixSize := n\<rparr>) = clean_scan s"
  by (simp add: clean_scan_def)

lemma loaded_clone:
  assumes "loaded env ref file s'"
  shows "clone_transactions s' = s'"
proof -
  obtain s where s: "scanJournal env ref file = Inr s" "forget_valid s' = forget_valid s"
    using assms by (auto simp: loaded_def)
  obtain st where st: "scan_lines env ref (start_scan env ref file (new_scan ref)) file = Inr st" "s = finish_scan env ref file st"
    using scanJournal_cases [OF s(1)] .
  have "log_ok ref s" using scan_lines_log [OF st(1)] st(2) by (simp add: finish_log log_result_def)
  from clone_log [OF this] have c: "clone_transactions s = s" .
  obtain n where n: "s' = s\<lparr>js_validPrefixSize := n\<rparr>" using forget_valid_cases [OF s(2)] .
  have "clone_transactions (s\<lparr>js_validPrefixSize := n\<rparr>) = (clone_transactions s)\<lparr>js_validPrefixSize := n\<rparr>"
    by (simp add: clone_transactions_def)
  then show ?thesis using c n by simp
qed

lemma remember_ok:
  assumes "loaded env ref (jt_File st) s" "no_collision env (jt_File st)" "cache_ok env ref st"
  shows "cache_ok env ref (rememberVerifiedJournalScan s st)"
  using assms loaded_clone [OF assms(1)]
  by (auto simp: rememberVerifiedJournalScan_def cache_ok_def clean_scan_def)

lemma store_self: "\<exists>v. st = st\<lparr>jt_Verified := v\<rparr>"
  by (cases st) auto

lemma remember_fields: "\<exists>v. rememberVerifiedJournalScan s st = st\<lparr>jt_Verified := v\<rparr>"
  using store_self [of st] by (auto simp: rememberVerifiedJournalScan_def)

text \<open>Continuing a cached scan.\<close>

lemma continue_loaded:
  assumes "loaded env ref p c" "clean_scan c"
  shows "map_sum id forget_valid (scanJournalAfterPrefix env ref (p @ q) (Some c)) = map_sum id forget_valid (scanJournal env ref (p @ q))"
    and "js_sourceSize c = int (length p)" and "dg_Value (js_sourceDigest c) = je_Sha256Hex env p"
proof -
  obtain s n where s: "scanJournal env ref p = Inr s" "c = s\<lparr>js_validPrefixSize := n\<rparr>"
    using assms(1) forget_valid_cases by (metis loaded_def)
  have clean: "clean_scan s" using assms(2) s(2) by simp
  obtain st where a: "\<And>q. scanJournal env ref (p @ q) = scan_result env ref (p @ q) (scan_lines env ref st q)"
    "\<And>q. scanJournalAfterPrefix env ref (p @ q) (Some s) = scan_result env ref (p @ q) (scan_lines env ref st q)"
    using scan_append [OF s(1) clean] by metis
  obtain ls st' where b: "s = finish_scan env ref p st'" "ss_hashed st' = p"
    using clean_scan_run [OF s(1) clean] by metis
  show size: "js_sourceSize c = int (length p)" using s(2) b by (simp add: finish_log)
  show "dg_Value (js_sourceDigest c) = je_Sha256Hex env p" using s(2) b by (simp add: finish_scan_def Let_def)
  have size': "js_sourceSize s = int (length p)" using size s(2) by simp
  have d: "drop (length p) (p @ q) = q" by simp
  let ?st = "start_scan env ref (p @ q) (clone_transactions s)"
  have cl: "clone_transactions c = (clone_transactions s)\<lparr>js_validPrefixSize := n\<rparr>" using s(2) by (simp add: clone_transactions_def)
  have "start_scan env ref (p @ q) (clone_transactions c) = with_valid n ?st"
    unfolding cl by (simp add: start_scan_def with_valid_def legacyStateAfterScan_def)
  moreover have cs: "js_sourceSize (clone_transactions c) = int (length p)" "js_sourceSize (clone_transactions s) = int (length p)"
    using size size' by (simp_all add: clone_transactions_def)
  ultimately have "scanJournalAfterPrefix env ref (p @ q) (Some c) = scan_result env ref (p @ q) (scan_lines env ref (with_valid n ?st) q)"
    by (simp add: scanJournalAfterPrefix_def scan_result_def)
  moreover have "scanJournalAfterPrefix env ref (p @ q) (Some s) = scan_result env ref (p @ q) (scan_lines env ref ?st q)"
    using cs by (simp add: scanJournalAfterPrefix_def scan_result_def)
  ultimately show "map_sum id forget_valid (scanJournalAfterPrefix env ref (p @ q) (Some c)) = map_sum id forget_valid (scanJournal env ref (p @ q))"
    using a(1) [of q] a(2) [of q] by (simp add: valid_lines)
qed

lemma load_verified:
  assumes ok: "cache_ok env ref st" and l: "loadVerifiedJournalScan env ref a st = (r, st')"
  shows "\<And>s. r = Some s \<Longrightarrow> loaded env ref (jt_File st) s" "\<exists>v. st' = st\<lparr>jt_Verified := v\<rparr>"
    "no_collision env (jt_File st) \<Longrightarrow> cache_ok env ref st'"
proof -
  have *: "(\<forall>s. r = Some s \<longrightarrow> loaded env ref (jt_File st) s) \<and> (\<exists>v. st' = st\<lparr>jt_Verified := v\<rparr>)
      \<and> (no_collision env (jt_File st) \<longrightarrow> cache_ok env ref st')"
  proof (cases "(\<not> a \<and> journalHasMarkerUncertainty st) \<or> r = None")
    case True
    have "cache_ok env ref (st\<lparr>jt_Verified := None\<rparr>)" by (simp add: cache_ok_def)
    then show ?thesis using True l ok store_self [of st]
      by (auto simp: loadVerifiedJournalScan_def Let_def split: if_split_asm option.splits sum.splits)
  next
    case False
    obtain c s where c: "jt_Verified st = Some c" "js_sourceSize c \<le> int (length (jt_File st))"
      "\<lparr>dg_Algorithm = DigestSHA256, dg_Value = je_Sha256Hex env (take (nat (js_sourceSize c)) (jt_File st))\<rparr> = js_sourceDigest c"
      "scanJournalAfterPrefix env ref (jt_File st) (Some c) = Inr s" "r = Some s" "st' = rememberVerifiedJournalScan s st"
      using False l by (auto simp: loadVerifiedJournalScan_def Let_def split: if_split_asm option.splits sum.splits)
    obtain p where p: "loaded env ref p c" "clean_scan c" "no_collision env p"
      using ok c(1) by (auto simp: cache_ok_def)
    note k = continue_loaded [OF p(1,2)]
    have "je_Sha256Hex env (take (length p) (jt_File st)) = je_Sha256Hex env p"
      using c(3) k(2,3) by (metis digest.select_convs(2) nat_int)
    then have "take (length p) (jt_File st) = p"
      using p(3) c(2) k(2) by (simp add: no_collision_def)
    then obtain q where q: "jt_File st = p @ q" by (metis append_take_drop_id)
    have "loaded env ref (jt_File st) s"
      using k(1) [of q] c(4) q by (cases "scanJournal env ref (p @ q)") (auto simp: loaded_def)
    then show ?thesis using c(5,6) remember_ok [OF _ _ ok] remember_fields by simp
  qed
  then show "\<And>s. r = Some s \<Longrightarrow> loaded env ref (jt_File st) s" "\<exists>v. st' = st\<lparr>jt_Verified := v\<rparr>"
    "no_collision env (jt_File st) \<Longrightarrow> cache_ok env ref st'" by blast+
qed

lemma load_scan:
  assumes env: "schema_agrees env" and ok: "cache_ok env ref st" and l: "loadJournalScan env ref st = (r, st')"
  shows "\<And>s b. r = Inr (s, b) \<Longrightarrow> loaded env ref (jt_File st) s" "\<And>m. r = Inl m \<Longrightarrow> scanJournal env ref (jt_File st) = Inl m"
    "\<exists>v. st' = st\<lparr>jt_Verified := v\<rparr>" "no_collision env (jt_File st) \<Longrightarrow> cache_ok env ref st'"
proof -
  obtain v st1 where v: "loadVerifiedJournalScan env ref False st = (v, st1)" by fastforce
  note lv = load_verified [OF ok v]
  obtain w where w: "st1 = st\<lparr>jt_Verified := w\<rparr>" using lv(2) by blast
  then have f: "jt_File st1 = jt_File st" by simp
  have *: "(\<forall>s b. r = Inr (s, b) \<longrightarrow> loaded env ref (jt_File st) s) \<and> (\<forall>m. r = Inl m \<longrightarrow> scanJournal env ref (jt_File st) = Inl m)
      \<and> (\<exists>v. st' = st\<lparr>jt_Verified := v\<rparr>) \<and> (no_collision env (jt_File st) \<longrightarrow> cache_ok env ref st')"
  proof (cases v)
    case (Some s)
    then show ?thesis using l v lv by (auto simp: loadJournalScan_def)
  next
    case None
    have rem: "loaded env ref (jt_File st) s \<Longrightarrow> (\<exists>v. rememberVerifiedJournalScan s st1 = st\<lparr>jt_Verified := v\<rparr>)
        \<and> (no_collision env (jt_File st) \<longrightarrow> cache_ok env ref (rememberVerifiedJournalScan s st1))" for s
      using remember_ok [of env ref st1 s] remember_fields [of s st1] lv(3) f w by auto
    show ?thesis
    proof (cases "loadVerifiedJournalIndex env ref (jt_File st1) (jt_Index st1)")
      case (Some s)
      then have "loaded env ref (jt_File st) s" using index_scan [OF env Some] f by (auto simp: loaded_def)
      then show ?thesis using l v None Some rem by (auto simp: loadJournalScan_def)
    next
      case no: None
      show ?thesis
      proof (cases "scanJournal env ref (jt_File st)")
        case (Inr s)
        then have "loaded env ref (jt_File st) s" by (simp add: loaded_def)
        then show ?thesis using l v None no Inr rem f by (auto simp: loadJournalScan_def)
      qed (use l v None no f lv in \<open>auto simp: loadJournalScan_def\<close>)
    qed
  qed
  then show "\<And>s b. r = Inr (s, b) \<Longrightarrow> loaded env ref (jt_File st) s" "\<And>m. r = Inl m \<Longrightarrow> scanJournal env ref (jt_File st) = Inl m"
    "\<exists>v. st' = st\<lparr>jt_Verified := v\<rparr>" "no_collision env (jt_File st) \<Longrightarrow> cache_ok env ref st'" by blast+
qed

end
