(* ===== verification/Journal_Commit_Log.thy ===== *)
theory Journal_Commit_Log
  imports Journal_Load
begin

text \<open>
  The log a journal stands for, and what an append does to it: either nothing, or its transaction is the
  next entry, however the writes, the syncs and the replacement of the metadata turn out.
\<close>

section \<open>The log\<close>

type_synonym log_entry = "cursor \<times> envelope list"

definition entry_of :: "scanned_commit \<Rightarrow> log_entry" where
  "entry_of c = (sm_cursor c, sm_envelopes c)"

definition committed_log :: "journal_env \<Rightarrow> journal_ref \<Rightarrow> string \<Rightarrow> log_entry list" where
  "committed_log env ref file =
     (case scanJournal env ref file of Inl m \<Rightarrow> [] | Inr s \<Rightarrow> map entry_of (js_commits s))"

lemma committed_log_scan: "scanJournal env ref file = Inr s \<Longrightarrow> committed_log env ref file = map entry_of (js_commits s)"
  by (simp add: committed_log_def)

section \<open>Parts of an append\<close>

lemma scan_order:
  assumes "scanJournal env ref file = Inr s" "clean_scan s"
  shows "set (js_eventIDOrder s) = set (js_eventIDs s)"
proof -
  obtain st where "s = finish_scan env ref file st" "scan_inv ref (ss_offset st) st"
    using clean_scan_state [OF assms] by metis
  then show ?thesis by (simp add: finish_log scan_inv_def)
qed

lemma prepared_for_valid: "prepared_for env ae ref t (s\<lparr>js_validPrefixSize := n\<rparr>) pa sealed = prepared_for env ae ref t s pa sealed"
  by (simp add: prepared_for_def)

text \<open>What an append prepared on a loaded scan is one on the scan of the file.\<close>

lemma prepared_on_file:
  assumes l: "loaded env ref file s'" "clean_scan s'" and p: "prepare_append env ae no_identity st rq s' = Inr pa"
    and trip: "codec_round_trip env ae" and rq: "aq_Journal rq = ref" "validateAppendRequest rq = None"
  obtains s sealed where "scanJournal env ref file = Inr s" "clean_scan s" "prepared_for env ae ref (aq_TransactionID rq) s pa sealed"
    "js_head s' = js_head s"
proof -
  obtain s n where s: "scanJournal env ref file = Inr s" "s' = s\<lparr>js_validPrefixSize := n\<rparr>"
    using l(1) forget_valid_cases by (metis loaded_def)
  have clean: "clean_scan s" using l(2) s(2) by simp
  have "aq_Events rq \<noteq> []" "length (aq_Events rq) \<le> 1000" "aq_TransactionID rq \<noteq> ''''"
    using rq(2) by (auto simp: validateAppendRequest_def split: option.splits if_split_asm)
  then obtain sealed where "prepared_for env ae ref (aq_TransactionID rq) s' pa sealed"
    using prepare_append_for [OF p trip] scan_order [OF s(1) clean] s(2) rq(1) by auto
  then show thesis using that [OF s(1) clean] s(2) by (simp add: prepared_for_valid)
qed

text \<open>The statements after the marker is durable change no byte of the file.\<close>

lemma load_verified_fields:
  assumes "loadVerifiedJournalScan env ref a st = (r, st')"
  shows "jt_File st' = jt_File st" "jt_Uncertain st' = jt_Uncertain st"
  using assms by (auto simp: loadVerifiedJournalScan_def rememberVerifiedJournalScan_def Let_def
      split: if_split_asm option.splits sum.splits)

lemma finish_append_file:
  assumes "finish_append env io ref head pa t st = ((r, err), st')"
  shows "jt_File st' = jt_File st" "jt_Uncertain st' = jt_Uncertain st"
    "as_Status r = AppendCommitted \<Longrightarrow> as_Cursor r = \<lparr>cu_JournalKind = jr_Kind ref, cu_JournalID = jr_ID ref,
       cu_CommitSeq = en_Seq (pa_Marker pa), cu_TransactionID = t\<rparr> \<and> as_Events r = pa_Events pa \<and> err = None"
    "as_Status r \<in> {AppendCommitted, AppendCommitUnknown}"
proof -
  have ok: "jt_File st1 = jt_File st \<and> jt_Uncertain st1 = jt_Uncertain st" if "write_metadata io m st = (e, st1)" for m e st1
    using that by (auto simp: write_metadata_def Let_def split: option.splits if_split_asm)
  have sc: "jt_File st2 = jt_File st1 \<and> jt_Uncertain st2 = jt_Uncertain st1"
    if "committed_scan env ref st1 = (x, st2)" for st1 st2 x
    using that by (auto simp: committed_scan_def dest: load_verified_fields split: option.splits prod.splits)
  have re: "jt_File (rememberVerifiedJournalScan s u) = jt_File u \<and> jt_Uncertain (rememberVerifiedJournalScan s u) = jt_Uncertain u"
    for s u by (simp add: rememberVerifiedJournalScan_def)
  have *: "jt_File st' = jt_File st \<and> jt_Uncertain st' = jt_Uncertain st
    \<and> (as_Status r = AppendCommitted \<longrightarrow> as_Cursor r = \<lparr>cu_JournalKind = jr_Kind ref, cu_JournalID = jr_ID ref,
       cu_CommitSeq = en_Seq (pa_Marker pa), cu_TransactionID = t\<rparr> \<and> as_Events r = pa_Events pa \<and> err = None)
    \<and> as_Status r \<in> {AppendCommitted, AppendCommitUnknown}"
  proof (cases "fault_at io [MetadataWrite]")
    case None
    obtain e st1 where w: "write_metadata io (pa_Marker pa) st = (e, st1)" by fastforce
    note o1 = ok [OF w]
    show ?thesis
    proof (cases "e = None \<and> fault_at io [MetadataRename] = None")
      case True
      obtain x st2 where c: "committed_scan env ref st1 = (x, st2)" by fastforce
      note o2 = sc [OF c]
      show ?thesis using assms None w True c o1 o2 re
        by (auto simp: finish_append_def appendFailure_def Let_def split: sum.splits option.splits if_split_asm)
    qed (use assms None w o1 in \<open>auto simp: finish_append_def appendFailure_def split: option.splits\<close>)
  qed (use assms in \<open>auto simp: finish_append_def appendFailure_def\<close>)
  then show "jt_File st' = jt_File st" "jt_Uncertain st' = jt_Uncertain st"
    "as_Status r = AppendCommitted \<Longrightarrow> as_Cursor r = \<lparr>cu_JournalKind = jr_Kind ref, cu_JournalID = jr_ID ref,
       cu_CommitSeq = en_Seq (pa_Marker pa), cu_TransactionID = t\<rparr> \<and> as_Events r = pa_Events pa \<and> err = None"
    "as_Status r \<in> {AppendCommitted, AppendCommitUnknown}" by blast+
qed

abbreviation all_bytes :: "prepared_append \<Rightarrow> string" where
  "all_bytes pa \<equiv> event_bytes pa @ marker_bytes pa"

text \<open>Every failure leaves a part of the bytes; the marker follows the events.\<close>

definition wrote :: "journal_ref \<Rightarrow> prepared_append \<Rightarrow> transaction_id \<Rightarrow> journal_store \<Rightarrow> append_result \<Rightarrow> journal_store \<Rightarrow> nat \<Rightarrow> bool" where
  "wrote ref pa t st r st' k \<longleftrightarrow> jt_File st' = jt_File st @ take k (all_bytes pa)
     \<and> (as_Status r = AppendCommitted \<longrightarrow> length (all_bytes pa) \<le> k \<and> as_Events r = pa_Events pa
         \<and> as_Cursor r = \<lparr>cu_JournalKind = jr_Kind ref, cu_JournalID = jr_ID ref,
             cu_CommitSeq = en_Seq (pa_Marker pa), cu_TransactionID = t\<rparr>)
     \<and> (if as_Status r \<in> {AppendCommitted, AppendCommitUnknown} then jt_Uncertain st' = t # jt_Uncertain st
        else jt_Uncertain st' = jt_Uncertain st \<and> k \<le> length (event_bytes pa))"

lemma write_append_wrote:
  assumes w: "write_append env io ref head pa t st = ((r, err), st')"
  shows "\<exists>k. wrote ref pa t st r st' k"
proof (cases "fault_at io [BeforeWrite]")
  case (Some m)
  then show ?thesis using w
    by (intro exI [of _ 0]) (auto simp: write_append_def wrote_def zero_append_def)
next
  case None
  obtain d e where d: "writeFull (ao_Events io) 0 (event_bytes pa) = (d, e)" by fastforce
  obtain n where n: "d = take n (event_bytes pa)" "e = None \<longrightarrow> d = event_bytes pa" using writeFull_prefix [OF d] by blast
  show ?thesis
  proof (cases "first_err [e, fault_at io [EventWritten, EventSync, EventSynced, EventVerify]]")
    case (Some m)
    then show ?thesis using w None d n
      by (intro exI [of _ "min n (length (event_bytes pa))"])
        (auto simp: write_append_def wrote_def appendFailure_def zero_append_def append_bytes_def min_def)
  next
    case no: None
    have d': "d = event_bytes pa" using no n(2) by (auto split: option.splits)
    obtain d2 e2 where d2: "writeFull (ao_Marker io) 0 (marker_bytes pa) = (d2, e2)" by fastforce
    obtain n2 where n2: "d2 = take n2 (marker_bytes pa)" "e2 = None \<longrightarrow> d2 = marker_bytes pa" using writeFull_prefix [OF d2] by blast
    let ?st1 = "append_bytes d st" and ?st2 = "append_bytes d2 ((append_bytes d st)\<lparr>jt_Uncertain := t # jt_Uncertain (append_bytes d st)\<rparr>)"
    have f: "jt_File ?st2 = jt_File st @ take (length (event_bytes pa) + n2) (all_bytes pa)" "jt_Uncertain ?st2 = t # jt_Uncertain st"
      using d' n2(1) by (simp_all add: append_bytes_def)
    show ?thesis
    proof (cases "first_err [e2, fault_at io [MarkerWritten, MarkerSync, MarkerSynced, MarkerVerify]]")
      case (Some m)
      then have "r = zero_append\<lparr>as_Status := AppendCommitUnknown, as_CurrentHead := head\<rparr>" "st' = ?st2"
        using w None d no d2 by (auto simp: write_append_def appendFailure_def Let_def)
      then show ?thesis using f by (intro exI [of _ "length (event_bytes pa) + n2"]) (simp add: wrote_def)
    next
      case no2: None
      have full: "d2 = marker_bytes pa" using no2 n2(2) by (auto split: option.splits)
      have f': "jt_File ?st2 = jt_File st @ all_bytes pa" using d' full by (simp add: append_bytes_def)
      have fin: "finish_append env io ref head pa t ?st2 = ((r, err), st')"
        using w None d no d2 no2 by (simp add: write_append_def Let_def)
      note q = finish_append_file [OF fin]
      show ?thesis using q f(2) f' by (intro exI [of _ "length (all_bytes pa)"]) (auto simp: wrote_def)
    qed
  qed
qed

section \<open>The append\<close>

lemma append_locked_wrote:
  assumes env: "codec_round_trip env ae" and ok: "cache_ok env ref st" and rq: "aq_Journal rq = ref" "validateAppendRequest rq = None"
    and a: "appendBatchLockedWithIdentity env ae io rq no_identity st = ((r, err), st')"
  shows "(jt_File st' = jt_File st \<and> jt_Uncertain st' = jt_Uncertain st \<and> as_Status r \<noteq> AppendCommitted)
    \<or> (\<exists>s pa sealed k. scanJournal env ref (jt_File st) = Inr s \<and> clean_scan s \<and> jt_Uncertain st = [] \<and> aq_ExpectedHead rq = js_head s
        \<and> prepared_for env ae ref (aq_TransactionID rq) s pa sealed \<and> wrote ref pa (aq_TransactionID rq) st r st' k)"
proof (cases "journalHasMarkerUncertainty st")
  case True
  then show ?thesis using a by (simp add: appendBatchLockedWithIdentity_def) (auto simp: zero_append_def)
next
  case False
  have schema: "schema_agrees env" using env by (simp add: codec_round_trip_def)
  obtain x st1 where l: "loadJournalScan env ref st = (x, st1)" by fastforce
  note ls = load_scan [OF schema ok l]
  obtain v where v: "st1 = st\<lparr>jt_Verified := v\<rparr>" using ls(3) by blast
  show ?thesis
  proof (cases x)
    case (Inl m)
    then show ?thesis using a False l v rq(1) by (auto simp: appendBatchLockedWithIdentity_def zero_append_def)
  next
    case (Inr y)
    obtain s' b where y: "x = Inr (s', b)" using Inr by (cases y) auto
    note lo = ls(1) [OF y]
    show ?thesis
    proof (cases "recoveryEligible s' \<or> js_incompleteTail s' \<or> \<not> js_writable s' \<or> aq_ExpectedHead rq \<noteq> js_head s'
        \<or> isl (prepare_append env ae no_identity st1 rq s')")
      case True
      then show ?thesis using a False l v y rq(1)
        by (auto simp: appendBatchLockedWithIdentity_def zero_append_def Let_def split: sum.splits if_split_asm)
    next
      case False': False
      then obtain pa where pa: "prepare_append env ae no_identity st1 rq s' = Inr pa"
        by (cases "prepare_append env ae no_identity st1 rq s'") auto
      have clean: "clean_scan s'" using False' by (simp add: clean_scan_def)
      obtain s sealed where s: "scanJournal env ref (jt_File st) = Inr s" "clean_scan s"
        "prepared_for env ae ref (aq_TransactionID rq) s pa sealed" "js_head s' = js_head s"
        using prepared_on_file [OF lo clean pa env rq] .
      have w: "write_append env io ref (js_head s') pa (aq_TransactionID rq) st1 = ((r, err), st')"
        using a False False' l y pa rq(1) by (simp add: appendBatchLockedWithIdentity_def Let_def)
      obtain k where "wrote ref pa (aq_TransactionID rq) st1 r st' k" using write_append_wrote [OF w] by blast
      then have "wrote ref pa (aq_TransactionID rq) st r st' k" by (simp add: wrote_def v)
      moreover have "jt_Uncertain st = []" using False by (simp add: journalHasMarkerUncertainty_def)
      ultimately show ?thesis using s False' by metis
    qed
  qed
qed

end
