(* ===== verification/Journal_Runs.thy ===== *)
theory Journal_Runs
  imports Journal_Commit_Log "HOL-Library.Sublist"
begin

text \<open>
  Runs of a journal: every order of appends, pages, lookups and reads of transactions. The operations keep
  what the cached scan has to satisfy, and only appends change the file.
\<close>

section \<open>The log after an append\<close>

lemma marker_cursor_prepared:
  "prepared_for env ae ref t s pa sealed \<Longrightarrow> marker_cursor ref pa = \<lparr>cu_JournalKind = jr_Kind ref, cu_JournalID = jr_ID ref,
     cu_CommitSeq = en_Seq (pa_Marker pa), cu_TransactionID = t\<rparr>"
  by (simp add: prepared_for_def marker_cursor_def)

text \<open>The log after some bytes of a prepared transaction.\<close>

lemma log_after_bytes:
  assumes "codec_round_trip env ae" "prepared_for env ae ref t s pa sealed" "scanJournal env ref file = Inr s" "clean_scan s"
  shows "committed_log env ref (file @ take k (all_bytes pa)) = committed_log env ref file
    @ (if k < length (all_bytes pa) then [] else [(marker_cursor ref pa, pa_Events pa)])"
proof (cases "k < length (all_bytes pa)")
  case True
  obtain s' where "scanJournal env ref (file @ take k (all_bytes pa)) = Inr s'" "js_commits s' = js_commits s"
    using torn_scan [OF assms True] .
  then show ?thesis using True assms(3) by (simp add: committed_log_scan)
next
  case False
  obtain s' c where "scanJournal env ref (file @ all_bytes pa) = Inr s'" "js_commits s' = js_commits s @ [c]" "written_commit ref pa c"
    using written_scan [OF assms] by metis
  then show ?thesis using False assms(3) by (simp add: committed_log_scan entry_of_def written_commit_def)
qed

lemma AppendBatch_wrote:
  assumes env: "codec_round_trip env ae" and ok: "cache_ok env (aq_Journal rq) st"
    and a: "AppendBatch env ae io rq st = ((r, err), st')"
  shows "(jt_File st' = jt_File st \<and> as_Status r \<noteq> AppendCommitted)
    \<or> (\<exists>s pa sealed k u. scanJournal env (aq_Journal rq) (jt_File st) = Inr s \<and> clean_scan s \<and> jt_Uncertain st = []
        \<and> aq_ExpectedHead rq = js_head s \<and> prepared_for env ae (aq_Journal rq) (aq_TransactionID rq) s pa sealed
        \<and> wrote (aq_Journal rq) pa (aq_TransactionID rq) st r u k \<and> jt_File st' = jt_File u
        \<and> (as_Status r = AppendCommitted \<and> err = None \<longrightarrow> jt_Uncertain st' = []))"
proof (cases "first_err [validateAppendRequest rq, acquireAppendAdmission ae rq,
             (if ae_Secrets ae = None then None else ae_AdmitMetadata ae rq),
             fail_if (ae_Encoder ae = None) ''journal encoder is required'', ao_Open io]")
  case (Some m)
  then show ?thesis using a by (auto simp: AppendBatch_def zero_append_def)
next
  case None
  then have v: "validateAppendRequest rq = None" by (auto split: option.splits)
  obtain r' e' u where l: "appendBatchLockedWithIdentity env ae io rq no_identity st = ((r', e'), u)" by (metis surj_pair)
  have q: "r' = r" "jt_File st' = jt_File u"
    "as_Status r = AppendCommitted \<and> err = None \<longrightarrow> jt_Uncertain st' = filter (\<lambda>t. t \<noteq> aq_TransactionID rq) (jt_Uncertain u)"
    using a None l by (auto simp: AppendBatch_def split: option.splits if_split_asm)
  from append_locked_wrote [OF env ok refl v l] show ?thesis
  proof (elim disjE exE conjE)
    fix s pa sealed k
    assume h: "scanJournal env (aq_Journal rq) (jt_File st) = Inr s" "clean_scan s" "jt_Uncertain st = []" "aq_ExpectedHead rq = js_head s"
      "prepared_for env ae (aq_Journal rq) (aq_TransactionID rq) s pa sealed" "wrote (aq_Journal rq) pa (aq_TransactionID rq) st r' u k"
    then have "as_Status r = AppendCommitted \<longrightarrow> jt_Uncertain u = [aq_TransactionID rq]" using q(1) by (simp add: wrote_def)
    then show ?thesis using h q by (intro disjI2 exI [of _ s] exI [of _ pa] exI [of _ sealed] exI [of _ k] exI [of _ u]) auto
  qed (use q in auto)
qed

lemma append_log:
  assumes "codec_round_trip env ae" "cache_ok env (aq_Journal rq) st" "AppendBatch env ae io rq st = ((r, err), st')"
  shows "committed_log env (aq_Journal rq) (jt_File st') = committed_log env (aq_Journal rq) (jt_File st) \<and> as_Status r \<noteq> AppendCommitted
    \<or> (\<exists>entry. committed_log env (aq_Journal rq) (jt_File st') = committed_log env (aq_Journal rq) (jt_File st) @ [entry]
        \<and> cu_TransactionID (fst entry) = aq_TransactionID rq
        \<and> (as_Status r = AppendCommitted \<and> entry = (as_Cursor r, as_Events r) \<or> as_Status r = AppendCommitUnknown))"
  using AppendBatch_wrote [OF assms]
proof (elim disjE exE conjE)
  fix s pa sealed k u
  let ?ref = "aq_Journal rq" and ?t = "aq_TransactionID rq"
  assume h: "scanJournal env ?ref (jt_File st) = Inr s" "clean_scan s" "prepared_for env ae ?ref ?t s pa sealed"
    "wrote ?ref pa ?t st r u k" "jt_File st' = jt_File u"
  note log = log_after_bytes [OF assms(1) h(3,1,2), of k]
  have f: "jt_File st' = jt_File st @ take k (all_bytes pa)" using h(4,5) by (simp add: wrote_def)
  show ?thesis
  proof (cases "k < length (all_bytes pa)")
    case True
    then have "as_Status r \<noteq> AppendCommitted" using h(4) by (auto simp: wrote_def)
    then show ?thesis using True log f by simp
  next
    case False
    have "length (marker_bytes pa) = Suc (length (pa_MarkerLine pa))" by (simp add: marker_bytes_def)
    then have "as_Status r \<in> {AppendCommitted, AppendCommitUnknown}"
      using h(4) False by (auto simp: wrote_def split: if_split_asm)
    then show ?thesis using False log f h(4) marker_cursor_prepared [OF h(3)]
      by (intro disjI2 exI [of _ "(marker_cursor ?ref pa, pa_Events pa)"]) (auto simp: wrote_def)
  qed
qed auto

section \<open>The caches\<close>

lemma cache_ok_cong: "jt_Verified st' = jt_Verified st \<Longrightarrow> cache_ok env ref st' = cache_ok env ref st"
  by (simp add: cache_ok_def)

lemma committed_scan_ok:
  assumes "cache_ok env ref st" "no_collision env (jt_File st)" "committed_scan env ref st = (r, st')"
  shows "cache_ok env ref st'" "jt_File st' = jt_File st" "\<And>s. r = Inr s \<Longrightarrow> loaded env ref (jt_File st) s"
proof -
  obtain v st1 where v: "loadVerifiedJournalScan env ref True st = (v, st1)" by fastforce
  note l = load_verified [OF assms(1) v] and f = load_verified_fields [OF v]
  show "cache_ok env ref st'" "jt_File st' = jt_File st" "\<And>s. r = Inr s \<Longrightarrow> loaded env ref (jt_File st) s"
    using assms(2,3) v l(1,3) f by (auto simp: committed_scan_def loaded_def split: option.splits)
qed

lemma finish_append_cache:
  assumes ok: "cache_ok env ref st" "no_collision env (jt_File st)" and f: "finish_append env io ref head pa t st = (x, st')"
  shows "cache_ok env ref st'"
proof (cases "fault_at io [MetadataWrite]")
  case None
  obtain e st1 where w: "write_metadata io (pa_Marker pa) st = (e, st1)" by fastforce
  have m: "jt_Verified st1 = jt_Verified st \<and> jt_File st1 = jt_File st"
    using w by (auto simp: write_metadata_def Let_def split: option.splits if_split_asm)
  have ok1: "cache_ok env ref st1" "no_collision env (jt_File st1)" using m ok cache_ok_cong [of st1 st] by simp_all
  show ?thesis
  proof (cases "e = None \<and> fault_at io [MetadataRename] = None")
    case True
    obtain r st2 where c: "committed_scan env ref st1 = (r, st2)" by fastforce
    note k = committed_scan_ok [OF ok1 c]
    show ?thesis
    proof (cases r)
      case (Inl m)
      then show ?thesis using f None w True c k(1) by (simp add: finish_append_def appendFailure_def)
    next
      case (Inr s)
      let ?st3 = "case writeJournalIndex s of Some ix \<Rightarrow> if ao_IndexWrite io then st2\<lparr>jt_Index := Some ix\<rparr> else st2 | None \<Rightarrow> st2"
      have i: "jt_Verified ?st3 = jt_Verified st2" "jt_File ?st3 = jt_File st2" by (simp_all split: option.split)
      have "cache_ok env ref (rememberVerifiedJournalScan s ?st3)"
        by (rule remember_ok) (use k(1) k(2) k(3) [OF Inr] ok1(2) i cache_ok_cong [of ?st3 st2] in simp_all)
      moreover have "st' = rememberVerifiedJournalScan s ?st3"
        using f None w True c Inr
        by (auto simp: finish_append_def appendFailure_def Let_def split: option.splits)
      ultimately show ?thesis by simp
    qed
  qed (use f None w ok1 in \<open>auto simp: finish_append_def appendFailure_def split: option.splits\<close>)
qed (use f ok in \<open>auto simp: finish_append_def appendFailure_def\<close>)

lemma write_append_cache:
  assumes ok: "cache_ok env ref st" and w: "write_append env io ref head pa t st = ((r, err), st')"
    and n: "no_collision env (jt_File st')"
  shows "cache_ok env ref st'"
proof -
  obtain d e where d: "writeFull (ao_Events io) 0 (event_bytes pa) = (d, e)" by fastforce
  obtain d2 e2 where d2: "writeFull (ao_Marker io) 0 (marker_bytes pa) = (d2, e2)" by fastforce
  let ?st1 = "append_bytes d st" and ?st2 = "append_bytes d2 ((append_bytes d st)\<lparr>jt_Uncertain := t # jt_Uncertain (append_bytes d st)\<rparr>)"
  have v: "cache_ok env ref ?st1" "cache_ok env ref ?st2"
    using ok cache_ok_cong [of ?st1 st] cache_ok_cong [of ?st2 st] by (simp_all add: append_bytes_def)
  have "st' = st \<or> st' = ?st1 \<or> st' = ?st2 \<or> finish_append env io ref head pa t ?st2 = ((r, err), st')"
    using w d d2 by (auto simp: write_append_def appendFailure_def Let_def split: option.splits)
  then show ?thesis
  proof (elim disjE)
    assume f: "finish_append env io ref head pa t ?st2 = ((r, err), st')"
    have "jt_File st' = jt_File ?st2" using finish_append_file(1) [OF f] .
    then show ?thesis using finish_append_cache [OF v(2) _ f] n by simp
  qed (use ok v in simp_all)
qed

lemma AppendBatch_cache:
  assumes env: "codec_round_trip env ae" and ok: "cache_ok env (aq_Journal rq) st"
    and a: "AppendBatch env ae io rq st = ((r, err), st')"
    and n: "no_collision env (jt_File st)" "no_collision env (jt_File st')"
  shows "cache_ok env (aq_Journal rq) st'"
proof -
  let ?ref = "aq_Journal rq"
  have schema: "schema_agrees env" using env by (simp add: codec_round_trip_def)
  obtain x st1 where l: "loadJournalScan env ?ref st = (x, st1)" by fastforce
  note ok1 = load_scan(4) [OF schema ok l n(1)]
  have locked: "cache_ok env ?ref u" if u: "appendBatchLockedWithIdentity env ae io rq no_identity st = ((r', e'), u)"
    "jt_File u = jt_File st'" for r' e' u
  proof -
    have "u = st \<or> u = st1 \<or> (\<exists>pa h. write_append env io ?ref h pa (aq_TransactionID rq) st1 = ((r', e'), u))"
      using u(1) l by (auto simp: appendBatchLockedWithIdentity_def Let_def split: if_split_asm sum.splits)
    then show ?thesis using ok ok1 write_append_cache n(2) u(2) by metis
  qed
  show ?thesis
  proof (cases "first_err [validateAppendRequest rq, acquireAppendAdmission ae rq,
             (if ae_Secrets ae = None then None else ae_AdmitMetadata ae rq),
             fail_if (ae_Encoder ae = None) ''journal encoder is required'', ao_Open io]")
    case None
    obtain r' e' u where u: "appendBatchLockedWithIdentity env ae io rq no_identity st = ((r', e'), u)" by (metis surj_pair)
    have "jt_File st' = jt_File u \<and> jt_Verified st' = jt_Verified u"
      using a None u by (auto simp: AppendBatch_def split: option.splits if_split_asm)
    then show ?thesis using locked [OF u] cache_ok_cong by metis
  qed (use a ok in \<open>auto simp: AppendBatch_def\<close>)
qed

section \<open>The reads\<close>

lemma sync_fields:
  "syncCommittedView io s st = (e, st') \<Longrightarrow> jt_File st' = jt_File st \<and> jt_Verified st' = jt_Verified st"
  by (auto simp: syncCommittedView_def split: if_split_asm option.splits)

lemma index_fields: "jt_File (ensureJournalIndex io s st) = jt_File st" "jt_Verified (ensureJournalIndex io s st) = jt_Verified st"
  by (simp_all add: ensureJournalIndex_def split: option.split)

lemma ReadRange_keeps:
  assumes "schema_agrees env" "cache_ok env (rr_Journal rq) st" "no_collision env (jt_File st)" "ReadRange env io rq st = (p, st')"
  shows "jt_File st' = jt_File st \<and> cache_ok env (rr_Journal rq) st'"
proof -
  obtain x st1 where l: "loadJournalScan env (rr_Journal rq) st = (x, st1)" by fastforce
  note k = load_scan [OF assms(1,2) l]
  have one: "jt_File st1 = jt_File st \<and> cache_ok env (rr_Journal rq) st1" using k(3) k(4) [OF assms(3)] by auto
  have "st' = st \<or> st' = st1 \<or> (\<exists>s e st2. syncCommittedView io s st1 = (e, st2) \<and> (st' = st2 \<or> st' = ensureJournalIndex io s st2))"
    using assms(4) l by (auto simp: ReadRange_def Let_def split: if_split_asm option.splits sum.splits prod.splits)
  then show ?thesis
    using one assms(2) sync_fields index_fields cache_ok_cong by metis
qed

lemma remember_loaded:
  assumes "loaded env ref (jt_File st) s" "no_collision env (jt_File st)" "cache_ok env ref st"
  shows "jt_File (rememberVerifiedJournalScan s st) = jt_File st \<and> cache_ok env ref (rememberVerifiedJournalScan s st)"
  using remember_ok [OF assms] remember_fields [of s st] by auto

lemma LookupTransaction_state:
  assumes "loadJournalScan env ref st = (Inr (s, b), st1)" "syncCommittedView io s st1 = (e, st2)"
    "LookupTransaction env io ref t st = (p, st')"
  shows "st' = st \<or> st' = st2 \<or> st' = rememberVerifiedJournalScan s st2 \<or> st' = ensureJournalIndex io s (rememberVerifiedJournalScan s st2)"
  using assms by (auto simp: LookupTransaction_def Let_def split: if_split_asm option.splits)

lemma LookupTransaction_error:
  assumes "loadJournalScan env ref st = (Inl m, st1)" "LookupTransaction env io ref t st = (p, st')"
  shows "st' = st \<or> st' = st1"
  using assms by (auto simp: LookupTransaction_def split: option.splits)

lemma LookupTransaction_keeps:
  assumes "schema_agrees env" "cache_ok env ref st" "no_collision env (jt_File st)" "LookupTransaction env io ref t st = (p, st')"
  shows "jt_File st' = jt_File st \<and> cache_ok env ref st'"
proof -
  obtain x st1 where l: "loadJournalScan env ref st = (x, st1)" by fastforce
  note k = load_scan [OF assms(1,2) l]
  have one: "jt_File st1 = jt_File st \<and> cache_ok env ref st1" using k(3) k(4) [OF assms(3)] by auto
  show ?thesis
  proof (cases x)
    case (Inr y)
    obtain s b where y: "x = Inr (s, b)" using Inr by (cases y) auto
    obtain e st2 where s2: "syncCommittedView io s st1 = (e, st2)" by fastforce
    have two: "jt_File st2 = jt_File st \<and> cache_ok env ref st2" using sync_fields [OF s2] one cache_ok_cong by metis
    have three: "jt_File (rememberVerifiedJournalScan s st2) = jt_File st \<and> cache_ok env ref (rememberVerifiedJournalScan s st2)"
      using remember_loaded [of env ref st2 s] k(1) [OF y] two assms(3) by simp
    show ?thesis using LookupTransaction_state [OF l [unfolded y] s2 assms(4)] two three assms(2) index_fields cache_ok_cong by metis
  next
    case (Inl m)
    then show ?thesis using LookupTransaction_error [OF _ assms(4)] l one assms(2) by auto
  qed
qed

lemma ReadCommittedTransaction_file: "jt_File (snd (ReadCommittedTransaction env io ref t st)) = jt_File st"
  by (auto simp: ReadCommittedTransaction_def dest!: sync_fields split: if_split option.splits sum.splits prod.splits)

lemma ReadCommittedTransaction_keeps:
  assumes "cache_ok env ref st" "ReadCommittedTransaction env io ref t st = (p, st')"
  shows "jt_File st' = jt_File st \<and> cache_ok env ref st'"
proof -
  have "st' = st \<or> (\<exists>s e. syncCommittedView io s st = (e, st'))"
    using assms(2) by (auto simp: ReadCommittedTransaction_def split: if_split_asm option.splits sum.splits prod.splits)
  then show ?thesis using sync_fields assms(1) cache_ok_cong by metis
qed

section \<open>Runs\<close>

text \<open>The operations on one journal with the outcomes of their calls, and what the appends of a run gave.\<close>

datatype journal_op =
    OpAppend append_env append_io append_request
  | OpRange read_io cursor int
  | OpLookup read_io transaction_id
  | OpRead read_io transaction_id

definition run_op :: "journal_env \<Rightarrow> journal_ref \<Rightarrow> journal_op \<Rightarrow> journal_store \<Rightarrow> append_result list \<times> journal_store" where
  "run_op env ref op st =
     (case op of
        OpAppend ae io rq \<Rightarrow> (case AppendBatch env ae io (rq\<lparr>aq_Journal := ref\<rparr>) st of ((r, err), st') \<Rightarrow> ([r], st'))
      | OpRange io c n \<Rightarrow> ([], snd (ReadRange env io \<lparr>rr_Journal = ref, rr_After = c, rr_Limit = n\<rparr> st))
      | OpLookup io t \<Rightarrow> ([], snd (LookupTransaction env io ref t st))
      | OpRead io t \<Rightarrow> ([], snd (ReadCommittedTransaction env io ref t st)))"

fun run_ops :: "journal_env \<Rightarrow> journal_ref \<Rightarrow> journal_op list \<Rightarrow> journal_store \<Rightarrow> append_result list \<times> journal_store" where
  "run_ops env ref [] st = ([], st)"
| "run_ops env ref (op # ops) st =
     (case run_op env ref op st of (rs, st1) \<Rightarrow> (case run_ops env ref ops st1 of (rs', st') \<Rightarrow> (rs @ rs', st')))"

fun op_codec :: "journal_env \<Rightarrow> journal_op \<Rightarrow> bool" where
  "op_codec env (OpAppend ae io rq) = codec_round_trip env ae"
| "op_codec env op = True"

text \<open>The entries that were reported.\<close>

definition reported :: "append_result list \<Rightarrow> log_entry list" where
  "reported rs = map (\<lambda>r. (as_Cursor r, as_Events r)) (filter (\<lambda>r. as_Status r = AppendCommitted) rs)"

lemma reported_simps [simp]: "reported [] = []" "reported (rs @ rs') = reported rs @ reported rs'"
  by (simp_all add: reported_def)

text \<open>The file only grows.\<close>

lemma load_scan_file: "loadJournalScan env ref st = (x, st') \<Longrightarrow> jt_File st' = jt_File st"
  by (auto simp: loadJournalScan_def rememberVerifiedJournalScan_def dest: load_verified_fields
      split: prod.splits option.splits sum.splits)

lemma AppendBatch_grows:
  assumes "AppendBatch env ae io rq st = ((r, err), st')"
  shows "prefix (jt_File st) (jt_File st')"
proof -
  have locked: "prefix (jt_File st) (jt_File u)" if u: "appendBatchLockedWithIdentity env ae io rq no_identity st = ((r', e'), u)" for r' e' u
  proof -
    obtain x st1 where l: "loadJournalScan env (aq_Journal rq) st = (x, st1)" by fastforce
    have "u = st \<or> u = st1 \<or> (\<exists>pa h. write_append env io (aq_Journal rq) h pa (aq_TransactionID rq) st1 = ((r', e'), u))"
      using u l by (auto simp: appendBatchLockedWithIdentity_def Let_def split: if_split_asm sum.splits)
    then show ?thesis
      using load_scan_file [OF l] write_append_wrote by (auto simp: wrote_def) (metis prefixI)
  qed
  obtain r' e' u where u: "appendBatchLockedWithIdentity env ae io rq no_identity st = ((r', e'), u)" by (metis surj_pair)
  have "jt_File st' = jt_File st \<or> jt_File st' = jt_File u"
    using assms u by (auto simp: AppendBatch_def split: option.splits if_split_asm)
  then show ?thesis using locked [OF u] by auto
qed

lemma ReadRange_file: "jt_File (snd (ReadRange env io rq st)) = jt_File st"
  by (auto simp: ReadRange_def Let_def index_fields dest!: load_scan_file sync_fields
      split: if_split option.splits sum.splits prod.splits)

lemma remember_file: "jt_File (rememberVerifiedJournalScan s st) = jt_File st"
  by (simp add: rememberVerifiedJournalScan_def)

lemma LookupTransaction_file: "LookupTransaction env io ref t st = (p, st') \<Longrightarrow> jt_File st' = jt_File st"
proof -
  assume r: "LookupTransaction env io ref t st = (p, st')"
  obtain x st1 where l: "loadJournalScan env ref st = (x, st1)" by fastforce
  show ?thesis
  proof (cases x)
    case (Inr y)
    obtain s b where y: "x = Inr (s, b)" using Inr by (cases y) auto
    obtain e st2 where s2: "syncCommittedView io s st1 = (e, st2)" by fastforce
    show ?thesis
      using LookupTransaction_state [OF l [unfolded y] s2 r] load_scan_file [OF l] sync_fields [OF s2] index_fields(1)
        remember_file by metis
  next
    case (Inl m)
    show ?thesis using LookupTransaction_error [OF l [unfolded Inl] r] load_scan_file [OF l] by metis
  qed
qed

lemma LookupTransaction_file': "jt_File (snd (LookupTransaction env io ref t st)) = jt_File st"
  by (metis LookupTransaction_file prod.collapse)

lemma run_op_grows: "run_op env ref op st = (rs, st') \<Longrightarrow> prefix (jt_File st) (jt_File st')"
  by (cases op) (auto simp: run_op_def ReadRange_file LookupTransaction_file' ReadCommittedTransaction_file
      dest: AppendBatch_grows split: prod.splits)

lemma run_ops_grows: "run_ops env ref ops st = (rs, st') \<Longrightarrow> prefix (jt_File st) (jt_File st')"
proof (induction ops arbitrary: st rs)
  case (Cons op ops)
  obtain r1 st1 r2 where "run_op env ref op st = (r1, st1)" "run_ops env ref ops st1 = (r2, st')"
    using Cons.prems by (auto split: prod.splits)
  then show ?case using run_op_grows Cons.IH prefix_order.trans by blast
qed simp

section \<open>What a run does to the log\<close>

lemma run_op_log:
  assumes env: "schema_agrees env" "op_codec env op" and ok: "cache_ok env ref st"
    and n: "no_collision env (jt_File st)" "no_collision env (jt_File st')" and r: "run_op env ref op st = (rs, st')"
  shows "cache_ok env ref st' \<and> (\<exists>es. committed_log env ref (jt_File st') = committed_log env ref (jt_File st) @ es
    \<and> subseq (reported rs) es \<and> length es \<le> length rs)"
proof (cases op)
  case (OpAppend ae io rq)
  let ?rq = "rq\<lparr>aq_Journal := ref\<rparr>"
  obtain res err where a: "AppendBatch env ae io ?rq st = ((res, err), st')" "rs = [res]"
    using r OpAppend by (auto simp: run_op_def split: prod.splits)
  have trip: "codec_round_trip env ae" using env(2) OpAppend by simp
  have c: "cache_ok env ref st'" using AppendBatch_cache [OF trip _ a(1) n] ok by simp
  have j: "aq_Journal ?rq = ref" by simp
  have "cache_ok env (aq_Journal ?rq) st" using ok by simp
  from append_log [OF trip this a(1)] show ?thesis
    unfolding j
  proof (elim disjE exE conjE)
    assume "committed_log env ref (jt_File st') = committed_log env ref (jt_File st)" "as_Status res \<noteq> AppendCommitted"
    then show ?thesis using c a(2) by (intro conjI exI [of _ "[]"]) (simp_all add: reported_def)
  next
    fix entry
    assume "committed_log env ref (jt_File st') = committed_log env ref (jt_File st) @ [entry]"
      "as_Status res = AppendCommitted" "entry = (as_Cursor res, as_Events res)"
    then show ?thesis using c a(2) by (intro conjI exI [of _ "[entry]"]) (simp_all add: reported_def)
  next
    fix entry
    assume "committed_log env ref (jt_File st') = committed_log env ref (jt_File st) @ [entry]" "as_Status res = AppendCommitUnknown"
    then show ?thesis using c a(2) by (intro conjI exI [of _ "[entry]"]) (simp_all add: reported_def)
  qed
next
  case (OpRange io c k)
  obtain p where p: "ReadRange env io \<lparr>rr_Journal = ref, rr_After = c, rr_Limit = k\<rparr> st = (p, st')" "rs = []"
    using r OpRange by (cases "ReadRange env io \<lparr>rr_Journal = ref, rr_After = c, rr_Limit = k\<rparr> st") (simp add: run_op_def)
  have "jt_File st' = jt_File st \<and> cache_ok env ref st'" using ReadRange_keeps [OF env(1) _ n(1) p(1)] ok by simp
  then show ?thesis using p(2) by simp
next
  case (OpLookup io t)
  obtain p where "LookupTransaction env io ref t st = (p, st')" "rs = []"
    using r OpLookup by (cases "LookupTransaction env io ref t st") (simp add: run_op_def)
  then have "jt_File st' = jt_File st \<and> cache_ok env ref st'" "rs = []" using LookupTransaction_keeps [OF env(1) ok n(1)] by simp_all
  then show ?thesis by simp
next
  case (OpRead io t)
  obtain p where "ReadCommittedTransaction env io ref t st = (p, st')" "rs = []"
    using r OpRead by (cases "ReadCommittedTransaction env io ref t st") (simp add: run_op_def)
  then have "jt_File st' = jt_File st \<and> cache_ok env ref st'" "rs = []" using ReadCommittedTransaction_keeps [OF ok] by simp_all
  then show ?thesis by simp
qed

lemma run_ops_log:
  assumes "schema_agrees env"
  shows "run_ops env ref ops st = (rs, st') \<Longrightarrow> list_all (op_codec env) ops \<Longrightarrow> cache_ok env ref st \<Longrightarrow>
    \<forall>p. prefix p (jt_File st') \<longrightarrow> no_collision env p \<Longrightarrow>
    cache_ok env ref st' \<and> (\<exists>es. committed_log env ref (jt_File st') = committed_log env ref (jt_File st) @ es
      \<and> subseq (reported rs) es \<and> length es \<le> length rs)"
proof (induction ops arbitrary: st rs)
  case (Cons op ops)
  obtain r1 st1 r2 where o: "run_op env ref op st = (r1, st1)" "run_ops env ref ops st1 = (r2, st')" "rs = r1 @ r2"
    using Cons.prems(1) by (auto split: prod.splits)
  have p: "prefix (jt_File st) (jt_File st1)" "prefix (jt_File st1) (jt_File st')"
    using run_op_grows [OF o(1)] run_ops_grows [OF o(2)] .
  have n: "no_collision env (jt_File st)" "no_collision env (jt_File st1)"
    using Cons.prems(4) p prefix_order.trans by blast+
  obtain es1 where one: "cache_ok env ref st1" "committed_log env ref (jt_File st1) = committed_log env ref (jt_File st) @ es1"
    "subseq (reported r1) es1" "length es1 \<le> length r1"
    using run_op_log [OF assms _ Cons.prems(3) n o(1)] Cons.prems(2) by auto
  obtain es2 where "cache_ok env ref st'" "committed_log env ref (jt_File st') = committed_log env ref (jt_File st1) @ es2"
    "subseq (reported r2) es2" "length es2 \<le> length r2"
    using Cons.IH [OF o(2) _ one(1) Cons.prems(4)] Cons.prems(2) by auto
  then show ?case using one o(3)
    by (intro conjI exI [of _ "es1 @ es2"]) (auto intro: list_emb_append_mono)
qed simp

end
