(* ===== verification/Journal_Pages.thy ===== *)
theory Journal_Pages
  imports Journal_Runs
begin

text \<open>
  Reading a journal page by page: a page holds whole transactions, and a reader that follows the cursors
  is given every committed event once, in order.
\<close>

section \<open>One page\<close>

definition small_commits :: "int \<Rightarrow> scanned_commit list \<Rightarrow> bool" where
  "small_commits limit cs \<longleftrightarrow> list_all (\<lambda>c. int (length (sm_events c)) \<le> limit) cs"

lemma fill_page_spec:
  "small_commits limit cs \<Longrightarrow> \<exists>p' n. fill_page limit p cs = Inr p' \<and> n \<le> length cs
     \<and> pg_Events p' = pg_Events p @ concat (map sm_events (take n cs))
     \<and> pg_Cursor p' = (if n = 0 then pg_Cursor p else sm_cursor (cs ! (n - 1)))
     \<and> (pg_Events p = [] \<and> cs \<noteq> [] \<longrightarrow> 0 < n) \<and> pg_More p' = (if cs = [] then pg_More p else n < length cs)
     \<and> (int (length (pg_Events p)) \<le> limit \<longrightarrow> int (length (pg_Events p')) \<le> limit)"
proof (induction limit p cs rule: fill_page.induct)
  case (2 limit p c cs)
  let ?p = "p\<lparr>pg_Events := pg_Events p @ sm_events c, pg_Cursor := sm_cursor c, pg_More := (cs \<noteq> [])\<rparr>"
  have fits: "int (length (sm_events c)) \<le> limit" "small_commits limit cs" using 2(2) by (simp_all add: small_commits_def)
  show ?case
  proof (cases "pg_Events p \<noteq> [] \<and> limit < int (length (pg_Events p) + length (sm_events c))")
    case True
    then show ?thesis by (intro exI [of _ "p\<lparr>pg_More := True\<rparr>"] exI [of _ 0]) simp
  next
    case False
    then have room: "int (length (pg_Events p)) \<le> limit \<longrightarrow> int (length (pg_Events ?p)) \<le> limit" using fits(1) by auto
    show ?thesis
    proof (cases "int (length (pg_Events ?p)) = limit")
      case True
      then show ?thesis using False fits(1) by (intro exI [of _ ?p] exI [of _ 1]) auto
    next
      case go: False
      have nn: "\<not> (pg_Events p = [] \<and> limit < int (length (sm_events c)))" using fits(1) by simp
      obtain p' n where q: "fill_page limit ?p cs = Inr p'" "n \<le> length cs"
        "pg_Events p' = pg_Events ?p @ concat (map sm_events (take n cs))"
        "pg_Cursor p' = (if n = 0 then pg_Cursor ?p else sm_cursor (cs ! (n - 1)))"
        "pg_More p' = (if cs = [] then pg_More ?p else n < length cs)"
        "int (length (pg_Events ?p)) \<le> limit \<longrightarrow> int (length (pg_Events p')) \<le> limit"
        using 2(1) [OF False nn refl go fits(2)] by blast
      have "fill_page limit p (c # cs) = Inr p'" using False nn go q(1) by auto
      moreover have "pg_More p' = (Suc n < length (c # cs))" using q(5) by (cases cs) simp_all
      moreover have "pg_Cursor p' = sm_cursor ((c # cs) ! n)" using q(4) by (cases n) simp_all
      ultimately show ?thesis using q(2,3,6) room by (intro exI [of _ p'] exI [of _ "Suc n"]) simp
    qed
  qed
qed auto

section \<open>All pages\<close>

text \<open>The cursor after the first \<open>j\<close> commits.\<close>

definition cursor_at :: "scanned_commit list \<Rightarrow> nat \<Rightarrow> cursor" where
  "cursor_at cs j = (if j = 0 then zero_cursor else sm_cursor (cs ! (j - 1)))"

lemma commits_after_nth:
  "distinct (map sm_cursor cs) \<Longrightarrow> k < length cs \<Longrightarrow> commits_after (sm_cursor (cs ! k)) cs = Some (drop (Suc k) cs)"
proof (induction cs arbitrary: k)
  case (Cons c cs)
  then show ?case
  proof (cases k)
    case (Suc i)
    then have "sm_cursor (cs ! i) \<noteq> sm_cursor c" using Cons.prems by (metis image_eqI distinct.simps(2) length_Cons list.simps(9) nth_mem set_map Suc_less_eq)
    then show ?thesis using Cons Suc by auto
  qed simp
qed simp

text \<open>A reader that asks for the next page while there is more; the number bounds its requests.\<close>

fun collect_pages :: "nat \<Rightarrow> journal_scan \<Rightarrow> cursor \<Rightarrow> int \<Rightarrow> event list option" where
  "collect_pages 0 s after limit = None"
| "collect_pages (Suc n) s after limit =
     (case page_of_scan s after limit of
        Inl m \<Rightarrow> None
      | Inr p \<Rightarrow> if pg_More p then map_option (\<lambda>es. pg_Events p @ es) (collect_pages n s (pg_Cursor p) limit)
          else Some (pg_Events p))"

lemma log_cursors:
  assumes "log_ok ref s"
  shows "distinct (map sm_cursor (js_commits s))" "c \<in> set (js_commits s) \<Longrightarrow> sm_cursor c \<noteq> zero_cursor"
proof -
  have "distinct (map (cu_TransactionID \<circ> sm_cursor) (js_commits s))" using assms by (simp add: log_ok_def commit_id_def [abs_def] comp_def)
  then show "distinct (map sm_cursor (js_commits s))" by (metis distinct_map map_map)
  assume "c \<in> set (js_commits s)"
  then have "commit_ok ref c" using assms by (auto simp: log_ok_def list_all_iff)
  then show "sm_cursor c \<noteq> zero_cursor" by (auto simp: commit_ok_def commit_id_def zero_cursor_def split: if_split_asm)
qed

lemma page_at:
  assumes "log_ok ref s" "j \<le> length (js_commits s)"
  shows "page_of_scan s (cursor_at (js_commits s) j) limit
    = fill_page limit \<lparr>pg_Events = [], pg_Cursor = cursor_at (js_commits s) j, pg_Head = js_head s, pg_More = False\<rparr> (drop j (js_commits s))"
proof (cases j)
  case (Suc k)
  then have "k < length (js_commits s)" using assms(2) by simp
  then show ?thesis
    using commits_after_nth log_cursors [OF assms(1)] Suc by (simp add: page_of_scan_def cursor_at_def)
qed (simp add: page_of_scan_def cursor_at_def)

lemma collect_from:
  assumes log: "log_ok ref s" and small: "small_commits limit (js_commits s)"
  shows "j \<le> length (js_commits s) \<Longrightarrow> length (js_commits s) - j < m \<Longrightarrow>
    collect_pages m s (cursor_at (js_commits s) j) limit = Some (concat (map sm_events (drop j (js_commits s))))"
proof (induction m arbitrary: j)
  case (Suc m)
  let ?cs = "js_commits s"
  have "small_commits limit (drop j ?cs)" using small by (auto simp: small_commits_def list_all_iff dest: in_set_dropD)
  from fill_page_spec [OF this] obtain p n where p: "page_of_scan s (cursor_at ?cs j) limit = Inr p" "n \<le> length (drop j ?cs)"
    "pg_Events p = concat (map sm_events (take n (drop j ?cs)))"
    "pg_Cursor p = (if n = 0 then cursor_at ?cs j else sm_cursor (drop j ?cs ! (n - 1)))"
    "drop j ?cs \<noteq> [] \<longrightarrow> 0 < n" "pg_More p = (if drop j ?cs = [] then False else n < length (drop j ?cs))"
    unfolding page_at [OF log Suc.prems(1)]
    by (metis (no_types, lifting) event_page.select_convs append_Nil)
  show ?case
  proof (cases "pg_More p")
    case True
    then have n: "0 < n" "n < length ?cs - j" using p(5,6) by (auto split: if_split_asm)
    have "pg_Cursor p = cursor_at ?cs (j + n)" using p(4) n by (simp add: cursor_at_def add.commute)
    moreover have "collect_pages m s (cursor_at ?cs (j + n)) limit = Some (concat (map sm_events (drop (j + n) ?cs)))"
      by (rule Suc.IH) (use n Suc.prems in auto)
    ultimately have "collect_pages (Suc m) s (cursor_at ?cs j) limit
        = Some (concat (map sm_events (take n (drop j ?cs))) @ concat (map sm_events (drop (j + n) ?cs)))"
      using p(1,3) True by simp
    moreover have "concat (map sm_events (take n (drop j ?cs))) @ concat (map sm_events (drop (j + n) ?cs))
        = concat (map sm_events (drop j ?cs))"
      by (metis add.commute append_take_drop_id concat_append drop_drop map_append)
    ultimately show ?thesis by simp
  next
    case False
    then have "take n (drop j ?cs) = drop j ?cs" using p(2,6) by (auto split: if_split_asm)
    then show ?thesis using False p(1,3) by simp
  qed
qed simp

end
