(* ===== verification/Journal_Samples.thy ===== *)
theory Journal_Samples
  imports Journal_Commit_Log Legacy_Properties
begin

text \<open>
  A concrete workspace-control journal for the witnesses: a codec that knows two kinds and two lines, and
  one append of one event. The values model no code.
\<close>

definition control_ref :: journal_ref where
  "control_ref = \<lparr>jr_Kind = ''workspace_control'', jr_ID = ''w1''\<rparr>"

definition control_proposed :: proposed_event where
  "control_proposed = \<lparr>pe_EventID = ''e1'', pe_Time = 5, pe_PayloadVersion = 1, pe_Kind = EventCommandAccepted,
     pe_SessionID = '''', pe_TaskID = '''', pe_TurnID = '''', pe_ActivityID = '''', pe_ParentActivityID = '''',
     pe_CausationEventID = '''', pe_Actor = None, pe_RuntimeGenerationID = ''g'', pe_Payload = Some ''3''\<rparr>"

definition control_request :: append_request where
  "control_request = \<lparr>aq_Journal = control_ref, aq_ExpectedHead = zero_cursor, aq_TransactionID = ''t1'',
     aq_Compatibility = None, aq_Events = [control_proposed]\<rparr>"

definition control_event :: envelope where
  "control_event = sealed_envelope control_request 1 control_proposed ''3''"

definition control_marker :: transaction_committed where
  "control_marker = \<lparr>tm_TransactionID = ''t1'', tm_FirstSeq = 1, tm_LastSeq = 1, tm_EventCount = 1,
     tm_Digest = \<lparr>dg_Algorithm = ''sha256'', dg_Value = replicate 64 CHR ''b''\<rparr>\<rparr>"

definition control_commit :: envelope where
  "control_commit = marker_envelope control_request ''m1'' 5 [control_event] ''4''"

definition control_lines :: string where
  "control_lines = [CHR ''1'', newline, CHR ''2'', newline]"

definition control_codec :: codec_env where
  "control_codec = \<lparr>
     cx_Registry = [((EventCommandAccepted, 1), \<lparr>ds_Type = ''CommandAcceptedV1'', ds_Structural = (\<lambda>p. None),
         ds_Semantic = (\<lambda>p. None), ds_Envelope = (\<lambda>e p. None)\<rparr>),
       ((EventTransactionCommitted, 1), \<lparr>ds_Type = ''TransactionCommittedV1'', ds_Structural = (\<lambda>p. None),
         ds_Semantic = (\<lambda>p. None), ds_Envelope = (\<lambda>e p. None)\<rparr>)],
     cx_Envelope = (\<lambda>raw. if raw = ''1'' then (control_event, None) else if raw = ''2'' then (control_commit, None)
       else (zero_envelope, Some ''no envelope'')),
     cx_EnvelopeFields = (\<lambda>raw. None), cx_EnvelopeLength = (\<lambda>e. 1),
     cx_Payload = (\<lambda>t raw. if t = ''CommandAcceptedV1'' \<and> raw = ''3'' then
         Inr (P_CommandAccepted \<lparr>cc_CommandID = ''c'', cc_RequestDigest = sample_digest, cc_IdempotencyKey = ''k''\<rparr>)
       else if t = ''TransactionCommittedV1'' \<and> raw = ''4'' then Inr (P_TransactionCommitted control_marker)
       else Inl ''no payload''),
     cx_PayloadFields = (\<lambda>t raw. None), cx_OtherIdentity = (\<lambda>e p. None)\<rparr>"

text \<open>The hash tells the prefixes of the journal from all other texts.\<close>

definition control_env :: journal_env where
  "control_env = \<lparr>je_Schema = (\<lambda>l. if l \<in> {''1'', ''2''} then Inr 2 else Inl ''no schema''),
     je_TailTransaction = (\<lambda>l. ''''), je_Legacy = (\<lambda>l. Inl ''no''), je_JSONValid = (\<lambda>m. True), je_Upcast = sample_upcast_env,
     je_Codec = control_codec,
     je_Marshal = (\<lambda>e. if e = control_event then Inr ''1'' else if e = control_commit then Inr ''2'' else Inl ''no text''),
     je_Sha256Hex = (\<lambda>t. replicate 64 (if t = take (length t) control_lines then CHR ''b'' else CHR ''a''))\<rparr>"

definition control_append :: append_env where
  "control_append = \<lparr>ae_Encoder = Some (\<lambda>p. Inr (pe_Payload p)), ae_Secrets = None, ae_AdmitMetadata = (\<lambda>rq. None),
     ae_AdmitBytes = (\<lambda>b. None), ae_CompatibilityID = Inr ''m0'', ae_MarkerID = Inr ''m1'', ae_CompatibilityClock = 2,
     ae_MarkerClock = 3, ae_MarshalDeclaration = (\<lambda>c. Inl ''none''),
     ae_MarshalMarker = (\<lambda>m. if m = control_marker then Inr ''4'' else Inl ''no text'')\<rparr>"

definition control_io :: append_io where
  "control_io = \<lparr>ao_Open = None, ao_At = (\<lambda>p. None), ao_Events = (\<lambda>n. (1, None)), ao_Marker = (\<lambda>n. (2, None)),
     ao_MetadataDone = True, ao_IndexWrite = True, ao_Close = None\<rparr>"

definition control_store :: journal_store where
  "control_store = \<lparr>jt_File = [], jt_LastSeq = 0, jt_UpdatedAt = 0, jt_Uncertain = [], jt_Verified = None, jt_Index = None\<rparr>"

definition control_read :: read_io where
  "control_read = \<lparr>ri_Sync = None, ri_Close = None, ri_IndexWrite = True\<rparr>"

lemma control_lines_only: "registry_Decode control_codec l = Decoded r \<Longrightarrow> l = ''1'' \<or> l = ''2''"
  by (auto simp: registry_Decode_def control_codec_def split: if_split_asm sum.splits)

lemma control_second: "\<exists>raw. registry_Decode control_codec ''2'' = Decoded (decode_record raw control_commit (Some (P_TransactionCommitted control_marker)))"
proof -
  have "registry_Decode control_codec ''2'' = Decoded (decode_record ''2'' control_commit (Some (P_TransactionCommitted control_marker)))"
    by code_simp
  then show ?thesis by blast
qed

lemma control_schema: "schema_agrees control_env"
  using control_lines_only by (auto simp: schema_agrees_def control_env_def)

lemma control_trip: "codec_round_trip control_env control_append"
proof -
  have kinds: "en_Kind control_event = EventCommandAccepted"
    by (simp add: control_event_def sealed_envelope_def control_proposed_def)
  have marker: "e_Decoded r = Some (P_TransactionCommitted control_marker)"
    if d: "registry_Decode control_codec l = Decoded r" and k: "en_Kind (e_Envelope r) = EventTransactionCommitted" for l r
  proof -
    have "e_Envelope r = fst (cx_Envelope control_codec l)" using Decoded_envelope [OF d] .
    moreover have "l = ''1'' \<or> l = ''2''" using control_lines_only [OF d] .
    ultimately have "l = ''2''" using k kinds by (auto simp: control_codec_def)
    then show ?thesis using d control_second by (auto simp: decode_record_def)
  qed
  show ?thesis
    unfolding codec_round_trip_def
  proof (intro conjI allI impI; (elim conjE)?)
    show "schema_agrees control_env" by (rule control_schema)
  next
    fix e line
    assume "je_Marshal control_env e = Inr line"
    then show "newline \<notin> set line" "fst (cx_Envelope (je_Codec control_env) line) = e"
      by (auto simp: control_env_def control_codec_def split: if_split_asm)
  next
    fix m raw line r
    assume "ae_MarshalMarker control_append m = Inr raw" "registry_Decode (je_Codec control_env) line = Decoded r"
      "en_Kind (e_Envelope r) = EventTransactionCommitted"
    then show "e_Decoded r = Some (P_TransactionCommitted m)"
      using marker by (auto simp: control_env_def control_append_def split: if_split_asm)
  next
    fix c raw p admitted payload line r
    assume "ae_MarshalDeclaration control_append c = Inr raw"
    then show "e_Decoded r = Some (P_CompatibilityDeclared c)" by (simp add: control_append_def)
  qed
qed

lemma control_cache: "cache_ok env ref control_store"
  by (simp add: cache_ok_def control_store_def)

text \<open>The append commits.\<close>

lemma control_appended:
  "AppendBatch control_env control_append control_io control_request control_store
    = ((\<lparr>as_Status = AppendCommitted, as_Cursor = \<lparr>cu_JournalKind = ''workspace_control'', cu_JournalID = ''w1'',
          cu_CommitSeq = 2, cu_TransactionID = ''t1''\<rparr>, as_CurrentHead = \<lparr>cu_JournalKind = ''workspace_control'',
          cu_JournalID = ''w1'', cu_CommitSeq = 2, cu_TransactionID = ''t1''\<rparr>, as_Events = [control_event]\<rparr>, None),
      snd (AppendBatch control_env control_append control_io control_request control_store))"
  by code_simp

end
