(* ===== verification/Journal_Properties.thy ===== *)
theory Journal_Properties
  imports Journal_Pages Journal_Samples
begin

text \<open>
  The properties of the session journal: appends are atomic and serialised, what was committed is read
  back, the accelerators give the scan of the file, and pages cover the log.
\<close>

section \<open>Appending\<close>




definition control_scan :: journal_scan where
  "control_scan = projr (scanJournal control_env control_ref [])"

lemma control_scan: "scanJournal control_env control_ref [] = Inr control_scan" "clean_scan control_scan"
  by code_simp+







definition control_ops :: "journal_op list" where
  "control_ops = [OpRange control_read zero_cursor 10, OpAppend control_append control_io control_request,
     OpAppend control_append control_io control_request, OpLookup control_read ''t1'', OpRead control_read ''t1'']"

definition control_run :: "append_result list \<times> journal_store" where
  "control_run = run_ops control_env control_ref control_ops control_store"

lemma control_run_file: "jt_File (snd control_run) = control_lines"
  by code_simp


lemma control_collision:
  assumes "prefix p control_lines"
  shows "no_collision control_env p"
proof -
  have "take (length p) control_lines = p" using assms unfolding prefix_def by (metis append_eq_conv_conj)
  then show ?thesis by (auto simp: no_collision_def control_env_def replicate_eq_replicate split: if_split_asm)
qed






section \<open>Reading\<close>

text \<open>C10. What \<open>scanJournal\<close> gives is a well-formed log, whatever bytes are in the file: the commits are in
  this journal, have distinct transactions and tile the file from its start to the validated prefix,
  their events are numbered without a gap from 1, the table, the events and the head are those of the
  commits, and the validated prefix ends within the file.\<close>

theorem scan_gives_a_well_formed_log:
  assumes "scanJournal env ref file = Inr s"
  shows "list_all (commit_ok ref) (js_commits s) \<and> distinct (map (cu_TransactionID \<circ> sm_cursor) (js_commits s))
    \<and> tiled 0 (js_commits s) (js_validPrefixSize s) \<and> js_validPrefixSize s \<le> int (length file)
    \<and> seqs_from 1 (concat (map commit_seqs (js_commits s)))
    \<and> map_of (js_transactions s) = map_of (map (\<lambda>c. (cu_TransactionID (sm_cursor c), c)) (js_commits s))
    \<and> map sd_record (js_events s) = concat (map sm_events (js_commits s))
    \<and> js_head s = (if js_commits s = [] then zero_cursor else sm_cursor (last (js_commits s)))"
proof -
  obtain st where st: "scan_lines env ref (start_scan env ref file (new_scan ref)) file = Inr st" "s = finish_scan env ref file st"
    using scanJournal_cases [OF assms] .
  have log: "log_ok ref s" "seqs_from 1 (log_seqs s)" "js_validPrefixSize s \<le> int (length file)"
    using scan_lines_log [OF st(1)] st(2) by (simp_all add: finish_log log_result_def)
  have "map sd_record (concat (map commit_events cs)) = concat (map sm_events cs)" for cs
    by (induction cs) (simp_all add: commit_events_def comp_def)
  then show ?thesis using log unfolding log_ok_def by (simp add: commit_id_def [abs_def] comp_def)
qed

theorem scan_gives_a_well_formed_log_witness:
  "tiled 0 (js_commits control_scan) (js_validPrefixSize control_scan)"
  using scan_gives_a_well_formed_log [OF control_scan(1)] by blast

text \<open>C9. The scan that appends and reads start from is the scan of the whole file, whether it continues the
  one in memory, comes from the index file or is made anew: they agree in every field but the validated
  prefix size, which a scan from the index leaves zero. Neither the cache nor the index file can add,
  hide or change a commit.\<close>

theorem loaded_scan_is_the_full_scan:
  assumes "schema_agrees env" "cache_ok env ref st" "loadJournalScan env ref st = (Inr (s', rebuild), st')"
  shows "\<exists>s. scanJournal env ref (jt_File st) = Inr s \<and> s'\<lparr>js_validPrefixSize := 0\<rparr> = s\<lparr>js_validPrefixSize := 0\<rparr>"
  using load_scan(1) [OF assms refl] by (simp add: loaded_def)

definition control_cached :: journal_store where
  "control_cached = (snd control_run)\<lparr>jt_File := jt_File (snd control_run) @ ''x''\<rparr>"

lemma control_cached_ok: "cache_ok control_env control_ref control_cached"
proof -
  have r: "run_ops control_env control_ref control_ops control_store = (fst control_run, snd control_run)" by (simp add: control_run_def)
  have ops: "list_all (op_codec control_env) control_ops" using control_trip by (simp add: control_ops_def)
  have "cache_ok control_env control_ref (snd control_run)"
    using run_ops_log [OF control_schema r ops control_cache] control_collision control_run_file by simp
  then show ?thesis using cache_ok_cong [of control_cached "snd control_run"] by (simp add: control_cached_def)
qed

theorem loaded_scan_is_the_full_scan_witness:
  "\<exists>s s' rebuild. fst (loadJournalScan control_env control_ref control_cached) = Inr (s', rebuild)
    \<and> scanJournal control_env control_ref (control_lines @ ''x'') = Inr s \<and> s'\<lparr>js_validPrefixSize := 0\<rparr> = s\<lparr>js_validPrefixSize := 0\<rparr>"
proof -
  have f: "jt_File control_cached = control_lines @ ''x''" by (simp add: control_cached_def control_run_file)
  have e: "\<not> isl (scanJournal control_env control_ref (control_lines @ ''x''))" by code_simp
  obtain r st' where r: "loadJournalScan control_env control_ref control_cached = (r, st')" by (metis surj_pair)
  obtain s' b where "r = Inr (s', b)"
    using load_scan(2) [OF control_schema control_cached_ok r] e unfolding f by (cases r) auto
  then have l: "loadJournalScan control_env control_ref control_cached = (Inr (s', b), st')" using r by simp
  obtain s where "scanJournal control_env control_ref (control_lines @ ''x'') = Inr s"
    "s'\<lparr>js_validPrefixSize := 0\<rparr> = s\<lparr>js_validPrefixSize := 0\<rparr>"
    using loaded_scan_is_the_full_scan [OF control_schema control_cached_ok l] unfolding f by blast
  moreover have "fst (loadJournalScan control_env control_ref control_cached) = Inr (s', b)" using l by simp
  ultimately show ?thesis by blast
qed



text \<open>C13. While a marker may not be durable and a scan does not show its transaction, no page is served,
  its lookup says unknown and an append is refused and changes no byte.\<close>

theorem uncertain_marker_stops_the_journal:
  assumes "schema_agrees env" "cache_ok env ref st" "t \<in> set (jt_Uncertain st)" "t \<noteq> ''''" "JournalRef_Validate ref = None"
    and "scanJournal env ref (jt_File st) = Inr s" "map_of (js_transactions s) t = None" "ri_Close io = None"
    and "rr_Journal rq = ref" "aq_Journal arq = ref"
  shows "isl (fst (ReadRange env io rq st)) \<and> fst (LookupTransaction env io ref t st) = Inr TransactionUnknown
    \<and> as_Status (fst (fst (AppendBatch env ae aio arq st))) \<noteq> AppendCommitted
    \<and> jt_File (snd (AppendBatch env ae aio arq st)) = jt_File st"
proof -
  obtain x st1 where l: "loadJournalScan env ref st = (x, st1)" by fastforce
  note k = load_scan [OF assms(1,2) l]
  obtain v where v: "st1 = st\<lparr>jt_Verified := v\<rparr>" using k(3) by blast
  obtain s' b where x: "x = Inr (s', b)" using k(2) assms(6) by (cases x) auto
  obtain n where n: "s' = s\<lparr>js_validPrefixSize := n\<rparr>"
    using k(1) [OF x] assms(6) forget_valid_cases by (auto simp: loaded_def)
  have sync: "syncCommittedView io s' st1 = (Some errUnresolvedMarkerDurability, st1)"
    using assms(3,7) v n by (auto simp: syncCommittedView_def list_ex_iff)
  have "isl (fst (ReadRange env io rq st))"
    using l x sync assms(9) by (simp add: ReadRange_def split: option.split)
  moreover have f: "first_err [JournalRef_Validate ref, fail_if (t = '''') ''transaction ID is required''] = None"
    using assms(4,5) by simp
  have "fst (LookupTransaction env io ref t st) = Inr TransactionUnknown"
    unfolding LookupTransaction_def f using l x sync assms(8) by simp
  moreover have "journalHasMarkerUncertainty st" using assms(3) by (auto simp: journalHasMarkerUncertainty_def)
  then have "as_Status (fst (fst (AppendBatch env ae aio arq st))) \<noteq> AppendCommitted \<and> jt_File (snd (AppendBatch env ae aio arq st)) = jt_File st"
    by (auto simp: AppendBatch_def appendBatchLockedWithIdentity_def zero_append_def split: option.split)
  ultimately show ?thesis by blast
qed

definition control_torn :: journal_store where
  "control_torn = control_store\<lparr>jt_Uncertain := [''t1'']\<rparr>"

theorem uncertain_marker_stops_the_journal_witness:
  "fst (LookupTransaction control_env control_read control_ref ''t1'' control_torn) = Inr TransactionUnknown"
proof -
  have "cache_ok control_env control_ref control_torn" by (simp add: cache_ok_def control_torn_def control_store_def)
  moreover have "map_of (js_transactions control_scan) ''t1'' = None" by code_simp
  moreover have "JournalRef_Validate control_ref = None" by code_simp
  ultimately show ?thesis
    using uncertain_marker_stops_the_journal [OF control_schema, of control_ref control_torn "''t1''" control_scan control_read
        "\<lparr>rr_Journal = control_ref, rr_After = zero_cursor, rr_Limit = 1\<rparr>" control_request] control_scan(1)
    by (simp add: control_torn_def control_store_def control_read_def control_request_def)
qed

end
