(* ===== verification/Message_Rules.thy ===== *)
theory Message_Rules
  imports Event_Rules
begin

text \<open>
  The validators of tool calls and results, compaction records and delegation payloads
  (\<open>internal/protocol/model.go\<close>, \<open>payloads.go\<close>, \<open>subagent.go\<close>), and the rules that tie such a payload to
  its envelope (\<open>internal/eventcodec/foundation.go\<close>).
\<close>

section \<open>Tool calls and results\<close>

definition ToolUseBlock_Validate :: "tool_use_block \<Rightarrow> string option" where
  "ToolUseBlock_Validate b = first_err
     [fail_if (tub_CallID b = '''' \<or> tub_Alias b = '''') ''tool-use call ID and alias are required'',
      ValidateRawJSON (raw_bytes (tub_Arguments b))]"

definition ToolResultBlock_Validate :: "tool_result_block \<Rightarrow> string option" where
  "ToolResultBlock_Validate b = first_err
     [fail_if (trb_CallID b = '''' \<or> trb_Status b = '''') ''tool-result call ID and status are required'',
      fail_if (MaxStringBytes < int (length (trb_Text b))) ''tool-result text exceeds limit'',
      (case trb_JSON b of None \<Rightarrow> None | Some bs \<Rightarrow> ValidateRawJSON bs),
      validateSortedUniqueEvidenceIDs (trb_EvidenceIDs b)]"

definition gv_tool_result :: "tool_result_block \<Rightarrow> gval" where
  "gv_tool_result b = GStruct [GStr (trb_CallID b), GStr (trb_Status b), GStr (trb_Text b), GRaw (trb_JSON b),
     gv_strs (trb_EvidenceIDs b)]"

text \<open>The loop over the results, with the call IDs seen.\<close>

fun validate_results :: "string set \<Rightarrow> tool_result_block list \<Rightarrow> string option" where
  "validate_results seen [] = None"
| "validate_results seen (r # rs) =
     (case ToolResultBlock_Validate r of
        Some e \<Rightarrow> Some e
      | None \<Rightarrow>
          if trb_CallID r \<in> seen then Some ''duplicate tool result''
          else validate_results (insert (trb_CallID r) seen) rs)"

definition ToolMessage_Validate :: "tool_result_block list \<Rightarrow> string option" where
  "ToolMessage_Validate rs = first_err
     [ValidateBounds (GStruct [GSlice (map gv_tool_result rs)]),
      fail_if (rs = []) ''tool message requires results'',
      validate_results {} rs]"

definition tool_message_envelope :: "envelope \<Rightarrow> string option" where
  "tool_message_envelope e =
     fail_if (en_JournalKind e \<noteq> JournalSession \<or> en_SessionID e = '''' \<or> en_TurnID e = '''' \<or> en_ActivityID e = '''')
       ''tool message requires session journal, session, turn, and activity IDs''"

section \<open>Content blocks\<close>

definition gv_content_block :: "content_block \<Rightarrow> gval" where
  "gv_content_block b = GStruct
     [GStr (cb_Kind b), GStr (cb_Text b),
      GPtr (map_option (\<lambda>u. GStruct [GStr (tub_CallID u), GStr (tub_Alias u), GRaw (tub_Arguments u)]) (cb_ToolUse b)),
      GPtr (map_option gv_tool_result (cb_ToolResult b)),
      GPtr (map_option (\<lambda>r. GStruct [GStr (cref_URI r), GStr (cref_Name r), GStr (cref_MediaType r),
        gv_digest (cref_Digest r)]) (cb_Reference b)),
      GRaw (cb_JSON b), GStr (cb_ReasoningSummary b),
      GPtr (map_option (\<lambda>r. GStruct [GStr (rfb_Code r), GStr (rfb_Message r)]) (cb_Refusal b))]"

text \<open>The number of values that a block has.\<close>

definition block_present :: "content_block \<Rightarrow> nat" where
  "block_present b = length (filter id
     [cb_Text b \<noteq> '''', cb_ToolUse b \<noteq> None, cb_ToolResult b \<noteq> None, cb_Reference b \<noteq> None, cb_JSON b \<noteq> None,
      cb_ReasoningSummary b \<noteq> '''', cb_Refusal b \<noteq> None])"

definition block_kind_rule :: "content_block \<Rightarrow> string option" where
  "block_kind_rule b =
     (let k = cb_Kind b in
      if k = ''text'' then fail_if (cb_Text b = '''') ''text block requires text''
      else if k = ''tool_use'' then
        (case cb_ToolUse b of None \<Rightarrow> Some ''tool-use block requires tool_use'' | Some u \<Rightarrow> ToolUseBlock_Validate u)
      else if k = ''tool_result'' then
        (case cb_ToolResult b of None \<Rightarrow> Some ''tool-result block requires tool_result''
         | Some r \<Rightarrow> ToolResultBlock_Validate r)
      else if k = ''reference'' then
        (case cb_Reference b of None \<Rightarrow> Some ''reference block is incomplete''
         | Some r \<Rightarrow> first_err [fail_if (cref_URI r = '''' \<or> cref_MediaType r = '''') ''reference block is incomplete'',
             Digest_Validate (cref_Digest r)])
      else if k = ''json'' then
        (case cb_JSON b of None \<Rightarrow> Some ''JSON block requires json'' | Some bs \<Rightarrow> ValidateRawJSON bs)
      else if k = ''reasoning_summary'' then fail_if (cb_ReasoningSummary b = '''') ''reasoning summary is required''
      else if k = ''refusal'' then
        (case cb_Refusal b of None \<Rightarrow> Some ''refusal block is incomplete''
         | Some r \<Rightarrow> fail_if (rfb_Code r = '''' \<or> rfb_Message r = '''') ''refusal block is incomplete'')
      else Some ''invalid content block kind'')"

definition ContentBlock_Validate :: "content_block \<Rightarrow> string option" where
  "ContentBlock_Validate b = first_err
     [ValidateBounds (gv_content_block b),
      fail_if (block_present b \<noteq> 1) ''content block requires exactly one value'',
      block_kind_rule b]"

record content_source =
  cso_ID :: string
  cso_Kind :: string
  cso_Scope :: string
  cso_Provenance :: string
  cso_Digest :: digest
  cso_Content :: "content_block list"

definition gv_content_source :: "content_source \<Rightarrow> gval" where
  "gv_content_source s = GStruct [GStr (cso_ID s), GStr (cso_Kind s), GStr (cso_Scope s), GStr (cso_Provenance s),
     gv_digest (cso_Digest s), GSlice (map gv_content_block (cso_Content s))]"

definition ContentSource_Validate :: "content_source \<Rightarrow> string option" where
  "ContentSource_Validate s = first_err
     ([ValidateBounds (gv_content_source s),
       fail_if (cso_ID s = '''' \<or> cso_Kind s = '''' \<or> cso_Scope s = '''' \<or> cso_Provenance s = '''' \<or> cso_Content s = [])
         ''content source is incomplete'',
       Digest_Validate (cso_Digest s)] @ map ContentBlock_Validate (cso_Content s))"

section \<open>Semantic rules of sessions and messages\<close>

definition validMode :: "string \<Rightarrow> bool" where
  "validMode m \<longleftrightarrow> m = ''safe'' \<or> m = ''ask'' \<or> m = ''auto''"

definition semantic_session_created :: "session_created \<Rightarrow> string option" where
  "semantic_session_created v =
     fail_if (ssn_WorkspaceID v = '''' \<or> ssn_CanonicalPath v = '''' \<or> ssn_Title v = ''''
         \<or> (ssn_ProviderID v = '''') \<noteq> (ssn_ModelID v = '''') \<or> \<not> validMode (ssn_Mode v))
       ''session creation is incomplete''"

definition semantic_title_changed :: "string \<Rightarrow> string option" where
  "semantic_title_changed title = fail_if (title = '''') ''session title is required''"

definition semantic_mode_changed :: "string \<Rightarrow> string option" where
  "semantic_mode_changed mode = fail_if (\<not> validMode mode) ''invalid mode''"

definition semantic_model_changed :: "string \<Rightarrow> string \<Rightarrow> string option" where
  "semantic_model_changed provider model =
     fail_if (provider = '''' \<or> model = '''') ''model selection is incomplete''"

definition semantic_trusted_execution :: "string \<Rightarrow> string option" where
  "semantic_trusted_execution profile = fail_if (profile = '''') ''trusted execution profile is required''"

definition semantic_user_message :: "string \<Rightarrow> string option" where
  "semantic_user_message content = fail_if (is_blank content) ''user message is empty''"

definition semantic_assistant_message :: "content_block list \<Rightarrow> tool_use_block list \<Rightarrow> string option" where
  "semantic_assistant_message bs is = first_err
     (fail_if (bs = []) ''assistant message requires content''
      # map ContentBlock_Validate bs @ map ToolUseBlock_Validate is)"

definition semantic_activity_progress :: "activity_progress \<Rightarrow> string option" where
  "semantic_activity_progress v =
     fail_if (is_blank (pgs_Message v) \<or> pgs_Completed v < 0 \<or> pgs_Total v < 0
         \<or> (pgs_Total v > 0 \<and> pgs_Completed v > pgs_Total v)) ''activity progress is invalid''"

definition semantic_file_changed :: "file_changed \<Rightarrow> string option" where
  "semantic_file_changed v = first_err
     [fail_if (fch_CallID v = '''' \<or> SubjectRef_Validate (fch_Subject v) \<noteq> None \<or> Digest_Validate (fch_Before v) \<noteq> None
         \<or> Digest_Validate (fch_After v) \<noteq> None) ''file change is incomplete'',
      validateSortedUniqueEvidenceIDs (fch_EvidenceIDs v)]"

section \<open>Compaction records\<close>

definition ContextCompacted_Validate :: "context_compacted \<Rightarrow> string option" where
  "ContextCompacted_Validate v =
     fail_if (CommittedCursor_Validate (cmp_From v) \<noteq> None \<or> CommittedCursor_Validate (cmp_Through v) \<noteq> None
         \<or> cu_JournalKind (cmp_From v) \<noteq> JournalSession \<or> cu_JournalKind (cmp_Through v) \<noteq> JournalSession
         \<or> cu_JournalID (cmp_From v) \<noteq> cu_JournalID (cmp_Through v)
         \<or> cmp_SummaryEvidenceID v = '''' \<or> cmp_Revision v = ''''
         \<or> cu_CommitSeq (cmp_From v) > cu_CommitSeq (cmp_Through v))
       ''invalid context compaction range''"

text \<open>\<open>ContextCompactionReference.Validate\<close>, of the reference the codec builds from envelope and payload.\<close>

definition ContextCompactionReference_Validate :: "session_id \<Rightarrow> context_compacted \<Rightarrow> string option" where
  "ContextCompactionReference_Validate sid v =
     fail_if (sid = '''' \<or> cmp_SummaryEvidenceID v = '''' \<or> cmp_Revision v = ''''
         \<or> CommittedCursor_Validate (cmp_From v) \<noteq> None \<or> CommittedCursor_Validate (cmp_Through v) \<noteq> None
         \<or> cu_JournalKind (cmp_From v) \<noteq> JournalSession \<or> cu_JournalKind (cmp_Through v) \<noteq> JournalSession
         \<or> cu_JournalID (cmp_From v) \<noteq> sid \<or> cu_JournalID (cmp_Through v) \<noteq> sid
         \<or> cu_CommitSeq (cmp_From v) > cu_CommitSeq (cmp_Through v))
       ''invalid context compaction reference''"

definition validateContextCompactionEnvelope :: "envelope \<Rightarrow> context_compacted \<Rightarrow> string option" where
  "validateContextCompactionEnvelope e v = first_err
     [ContextCompacted_Validate v,
      fail_if (ContextCompactionReference_Validate (en_SessionID e) v \<noteq> None \<or> en_JournalKind e \<noteq> JournalSession
          \<or> en_JournalID e \<noteq> en_SessionID e \<or> cu_CommitSeq (cmp_Through v) \<ge> en_Seq e)
        ''context compaction is not anchored before its event'']"

section \<open>Delegation\<close>

abbreviation MaxCommandBytes :: int where "MaxCommandBytes \<equiv> 2097152"

abbreviation MaxSubagentTaskBytes :: int where "MaxSubagentTaskBytes \<equiv> 32768"
abbreviation MaxSubagentExpectedOutputBytes :: int where "MaxSubagentExpectedOutputBytes \<equiv> 16384"
abbreviation MaxSubagentContextBytes :: int where "MaxSubagentContextBytes \<equiv> 65536"
abbreviation MaxSubagentReceiptSummaryBytes :: int where "MaxSubagentReceiptSummaryBytes \<equiv> 131072"
abbreviation (input) MaxSubagentAttemptsPerTurn :: nat where "MaxSubagentAttemptsPerTurn \<equiv> 4"

definition gv_cursor :: "cursor \<Rightarrow> gval" where
  "gv_cursor c = GStruct [GStr (cu_JournalKind c), GStr (cu_JournalID c), GScalar, GStr (cu_TransactionID c)]"

definition SubagentCall_Validate :: "subagent_call \<Rightarrow> string option" where
  "SubagentCall_Validate v = first_err
     [ValidateBounds (GStruct [GStr (sgc_Task v), GStr (sgc_ExpectedOutput v), GStr (sgc_Context v)]),
      fail_if (is_blank (sgc_Task v) \<or> MaxSubagentTaskBytes < int (length (sgc_Task v))
          \<or> MaxSubagentExpectedOutputBytes < int (length (sgc_ExpectedOutput v))
          \<or> MaxSubagentContextBytes < int (length (sgc_Context v))
          \<or> MaxCommandBytes < int (length (sgc_Task v) + length (sgc_ExpectedOutput v) + length (sgc_Context v)))
        ''invalid subagent call'']"

definition gv_manifest :: "subagent_manifest \<Rightarrow> gval" where
  "gv_manifest v = GStruct
     [GStr (sgm_AttemptID v), GStr (sgm_ParentSessionID v), gv_cursor (sgm_ParentCursor v),
      GStr (sgm_ChildSessionID v), GStr (sgm_ChildTaskID v), GStr (sgm_ChildTurnID v),
      GStr (sgm_RuntimeGenerationID v), GStr (sgm_SkillCatalogRevision v), GScalar, GTime]"

definition SubagentManifest_Validate :: "subagent_manifest \<Rightarrow> string option" where
  "SubagentManifest_Validate v = first_err
     [ValidateBounds (gv_manifest v),
      fail_if (sgm_AttemptID v = '''' \<or> sgm_ParentSessionID v = '''' \<or> sgm_ChildSessionID v = ''''
          \<or> sgm_ChildSessionID v = sgm_ParentSessionID v \<or> sgm_ChildTaskID v = '''' \<or> sgm_ChildTurnID v = ''''
          \<or> sgm_RuntimeGenerationID v = '''' \<or> sgm_SkillCatalogRevision v = ''''
          \<or> sgm_MaxToolCalls v < 1 \<or> sgm_MaxToolCalls v > 64 \<or> sgm_Deadline v = 0
          \<or> CommittedCursor_Validate (sgm_ParentCursor v) \<noteq> None
          \<or> cu_JournalKind (sgm_ParentCursor v) \<noteq> JournalSession
          \<or> cu_JournalID (sgm_ParentCursor v) \<noteq> sgm_ParentSessionID v)
        ''invalid subagent manifest'']"

definition SubagentRequested_Validate :: "subagent_requested \<Rightarrow> string option" where
  "SubagentRequested_Validate v =
     first_err [SubagentCall_Validate (sgq_Call v), SubagentManifest_Validate (sgq_Manifest v)]"

definition SubagentWaiting_Validate :: "subagent_waiting \<Rightarrow> string option" where
  "SubagentWaiting_Validate v = first_err
     [ValidateBounds (GStruct [GStr (sgw_AttemptID v), GStr (sgw_ChildSessionID v)]),
      fail_if (sgw_AttemptID v = '''' \<or> sgw_ChildSessionID v = '''') ''invalid subagent waiting state'']"

definition subagentReceiptStatus :: "string \<Rightarrow> bool" where
  "subagentReceiptStatus s \<longleftrightarrow> s \<in> {''succeeded'', ''failed'', ''cancelled'', ''uncertain''}"

definition gv_usage :: "model_usage \<Rightarrow> gval" where
  "gv_usage u = GStruct (map (\<lambda>v. GStruct [GStr (uv_State v), GScalar, GStr (uv_Provenance v)])
     [mu_Input u, mu_Output u, mu_Cached u, mu_CacheWrite u, mu_Reasoning u])"

definition gv_public_error :: "public_error \<Rightarrow> gval" where
  "gv_public_error v = GStruct [GStr (per_Code v), GStr (per_Message v), GScalar]"

definition gv_receipt :: "subagent_receipt \<Rightarrow> gval" where
  "gv_receipt v = GStruct
     [GStr (sgr_Status v), GStr (sgr_Summary v), gv_manifest (sgr_Manifest v), gv_cursor (sgr_TerminalCursor v),
      gv_strs (sgr_ChangedFiles v), gv_strs (sgr_CommandsAndTests v), gv_usage (sgr_Usage v),
      gv_strs (sgr_EvidenceIDs v), gv_strs (sgr_UnknownEffects v),
      GPtr (map_option gv_public_error (sgr_Error v))]"

definition validateSortedStrings :: "string list \<Rightarrow> string option" where
  "validateSortedStrings vs = fail_if (\<not> sorted_unique_from None vs) ''must be nonempty, sorted, and unique''"

definition SubagentReceipt_Validate :: "subagent_receipt \<Rightarrow> string option" where
  "SubagentReceipt_Validate v = first_err
     [ValidateBounds (gv_receipt v),
      fail_if (\<not> subagentReceiptStatus (sgr_Status v)
          \<or> MaxSubagentReceiptSummaryBytes < int (length (sgr_Summary v))
          \<or> SubagentManifest_Validate (sgr_Manifest v) \<noteq> None
          \<or> CommittedCursor_Validate (sgr_TerminalCursor v) \<noteq> None
          \<or> cu_JournalKind (sgr_TerminalCursor v) \<noteq> JournalSession
          \<or> cu_JournalID (sgr_TerminalCursor v) \<noteq> sgm_ChildSessionID (sgr_Manifest v)
          \<or> ModelUsage_Validate (sgr_Usage v) \<noteq> None) ''invalid subagent receipt'',
      (case sgr_Error v of
         None \<Rightarrow> None
       | Some e \<Rightarrow> fail_if (is_blank (per_Code e) \<or> is_blank (per_Message e)) ''invalid subagent receipt error''),
      validateSortedStrings (sgr_ChangedFiles v), validateSortedStrings (sgr_CommandsAndTests v),
      validateSortedStrings (sgr_EvidenceIDs v), validateSortedStrings (sgr_UnknownEffects v)]"

definition SubagentResultAttached_Validate :: "subagent_attached \<Rightarrow> string option" where
  "SubagentResultAttached_Validate v = first_err
     [ValidateBounds (GStruct [GStr (sga_AttemptID v), GStr (sga_ChildSessionID v), gv_cursor (sga_TerminalCursor v),
        gv_digest (sga_ReceiptDigest v), GStr (sga_ReceiptEvidenceID v)]),
      fail_if (sga_AttemptID v = '''' \<or> sga_ChildSessionID v = '''' \<or> sga_ReceiptEvidenceID v = ''''
          \<or> CommittedCursor_Validate (sga_TerminalCursor v) \<noteq> None
          \<or> cu_JournalKind (sga_TerminalCursor v) \<noteq> JournalSession
          \<or> cu_JournalID (sga_TerminalCursor v) \<noteq> sga_ChildSessionID v
          \<or> Digest_Validate (sga_ReceiptDigest v) \<noteq> None)
        ''invalid subagent result attachment'']"

section \<open>Payload and envelope\<close>

definition validateSubagentRequestedEnvelope :: "envelope \<Rightarrow> subagent_requested \<Rightarrow> string option" where
  "validateSubagentRequestedEnvelope e r =
     (let m = sgq_Manifest r in
      fail_if (SubagentRequested_Validate r \<noteq> None \<or> en_JournalKind e \<noteq> JournalSession
          \<or> en_SessionID e \<noteq> sgm_ParentSessionID m \<or> en_JournalID e \<noteq> sgm_ParentSessionID m
          \<or> en_RuntimeGenerationID e \<noteq> sgm_RuntimeGenerationID m \<or> en_TaskID e = '''' \<or> en_TurnID e = ''''
          \<or> cu_CommitSeq (sgm_ParentCursor m) \<ge> en_Seq e)
        ''subagent request does not match parent session'')"

definition validateSubagentChildEnvelope :: "envelope \<Rightarrow> subagent_manifest \<Rightarrow> string option" where
  "validateSubagentChildEnvelope e m =
     fail_if (SubagentManifest_Validate m \<noteq> None \<or> en_JournalKind e \<noteq> JournalSession
         \<or> en_SessionID e \<noteq> sgm_ChildSessionID m \<or> en_JournalID e \<noteq> sgm_ChildSessionID m
         \<or> en_RuntimeGenerationID e \<noteq> sgm_RuntimeGenerationID m
         \<or> en_TaskID e \<noteq> sgm_ChildTaskID m \<or> en_TurnID e \<noteq> sgm_ChildTurnID m)
       ''subagent child event does not match manifest''"

definition subagent_receipt_envelope :: "envelope \<Rightarrow> subagent_receipt \<Rightarrow> string option" where
  "subagent_receipt_envelope e r = first_err
     [SubagentReceipt_Validate r, validateSubagentChildEnvelope e (sgr_Manifest r),
      fail_if (cu_CommitSeq (sgr_TerminalCursor r) \<noteq> en_Seq e
          \<or> cu_TransactionID (sgr_TerminalCursor r) \<noteq> en_TransactionID e)
        ''subagent receipt terminal cursor does not match envelope'']"

text \<open>The rule of the descriptor of a delegation kind for its envelope.\<close>

definition subagent_envelope_rule :: "string \<Rightarrow> envelope \<Rightarrow> payload \<Rightarrow> string option" where
  "subagent_envelope_rule kind e p =
     (if kind = EventSubagentRequested then
        (case p of P_SubagentRequested r \<Rightarrow> validateSubagentRequestedEnvelope e r
         | _ \<Rightarrow> Some ''subagent request does not match parent session'')
      else if kind = EventSubagentWaiting then
        (case p of P_SubagentWaiting v \<Rightarrow> SubagentWaiting_Validate v
         | _ \<Rightarrow> Some ''invalid subagent waiting payload'')
      else if kind = EventSubagentResultAttached then
        (case p of P_SubagentResultAttached v \<Rightarrow> SubagentResultAttached_Validate v
         | _ \<Rightarrow> Some ''invalid subagent attachment payload'')
      else if kind = EventSubagentManifest then
        (case p of P_SubagentManifest v \<Rightarrow> validateSubagentChildEnvelope e v
         | _ \<Rightarrow> Some ''invalid subagent manifest payload'')
      else if kind = EventSubagentReceipt then
        (case p of P_SubagentReceipt v \<Rightarrow> subagent_receipt_envelope e v
         | _ \<Rightarrow> Some ''invalid subagent receipt payload'')
      else None)"

end
