(* ===== verification/Subagent_Projection.thy ===== *)
theory Subagent_Projection
  imports Message_Rules
begin

text \<open>
  The projection of delegation attempts, \<open>internal/subagent/projector.go\<close>: an attempt is requested, waits
  for its child session, gets the child's manifest and terminal receipt, and its result is attached to the
  parent; an event that contradicts what is recorded puts it into conflict. \<open>Reconcile\<close>
  (\<open>recovery.go\<close>) says what a recovery may do with an attempt. \<open>canonicaljson.Digest\<close> of a receipt is the
  parameter \<open>dg\<close>. \<open>reflect.DeepEqual\<close> is equality; an instant is its value, without the location.
\<close>

section \<open>State\<close>

abbreviation StateIncomplete :: string where "StateIncomplete \<equiv> ''incomplete''"
abbreviation StateWaiting :: string where "StateWaiting \<equiv> ''waiting''"
abbreviation StateTerminal :: string where "StateTerminal \<equiv> ''terminal''"
abbreviation StateAttached :: string where "StateAttached \<equiv> ''attached''"
abbreviation StateConflict :: string where "StateConflict \<equiv> ''conflict''"

record attempt =
  sat_AttemptID :: delegation_attempt_id
  sat_ParentTaskID :: task_id
  sat_ParentTurnID :: turn_id
  sat_ActivityID :: activity_id
  sat_Call :: subagent_call
  sat_Manifest :: subagent_manifest
  sat_State :: string
  sat_RequestCursor :: cursor
  sat_WaitingCursor :: "cursor option"
  sat_ChildManifested :: bool
  sat_Receipt :: "subagent_receipt option"
  sat_ReceiptDigest :: digest
  sat_TerminalCursor :: cursor
  sat_Attachment :: "subagent_attached option"
  sat_Conflict :: string

type_synonym attempts = "(delegation_attempt_id, attempt) gomap"

record subagent_projection =
  sgp_Journal :: journal_ref
  sgp_Attempts :: attempts

definition subagent_Version :: u32 where
  "subagent_Version = 1"

definition subagent_Zero :: "journal_ref \<Rightarrow> subagent_projection" where
  "subagent_Zero ref = \<lparr>sgp_Journal = ref, sgp_Attempts = []\<rparr>"

definition no_digest :: digest where
  "no_digest = \<lparr>dg_Algorithm = '''', dg_Value = ''''\<rparr>"

definition zero_attempt :: attempt where
  "zero_attempt = \<lparr>sat_AttemptID = '''', sat_ParentTaskID = '''', sat_ParentTurnID = '''', sat_ActivityID = '''',
     sat_Call = \<lparr>sgc_Task = '''', sgc_ExpectedOutput = '''', sgc_Context = ''''\<rparr>,
     sat_Manifest = \<lparr>sgm_AttemptID = '''', sgm_ParentSessionID = '''', sgm_ParentCursor = zero_cursor,
       sgm_ChildSessionID = '''', sgm_ChildTaskID = '''', sgm_ChildTurnID = '''', sgm_RuntimeGenerationID = '''',
       sgm_SkillCatalogRevision = '''', sgm_MaxToolCalls = 0, sgm_Deadline = 0\<rparr>,
     sat_State = '''', sat_RequestCursor = zero_cursor, sat_WaitingCursor = None, sat_ChildManifested = False,
     sat_Receipt = None, sat_ReceiptDigest = no_digest, sat_TerminalCursor = zero_cursor,
     sat_Attachment = None, sat_Conflict = ''''\<rparr>"

section \<open>Helpers\<close>

definition parentEvent :: "journal_ref \<Rightarrow> event \<Rightarrow> session_id \<Rightarrow> runtime_generation_id \<Rightarrow> bool" where
  "parentEvent ref e parent runtime \<longleftrightarrow>
     (let en = e_Envelope e in
      parent \<noteq> '''' \<and> parent = jr_ID ref \<and> en_JournalKind en = JournalSession \<and> en_JournalID en = jr_ID ref
      \<and> en_SessionID en = parent \<and> en_RuntimeGenerationID en = runtime \<and> en_TaskID en \<noteq> '''' \<and> en_TurnID en \<noteq> '''')"

definition childEvent :: "event \<Rightarrow> subagent_manifest \<Rightarrow> bool" where
  "childEvent e m \<longleftrightarrow>
     (let en = e_Envelope e in
      en_JournalKind en = JournalSession \<and> en_JournalID en = sgm_ChildSessionID m
      \<and> en_SessionID en = sgm_ChildSessionID m \<and> en_TaskID en = sgm_ChildTaskID m
      \<and> en_TurnID en = sgm_ChildTurnID m \<and> en_RuntimeGenerationID en = sgm_RuntimeGenerationID m)"

definition eventCursor :: "event \<Rightarrow> cursor" where
  "eventCursor e = \<lparr>cu_JournalKind = en_JournalKind (e_Envelope e), cu_JournalID = en_JournalID (e_Envelope e),
     cu_CommitSeq = en_Seq (e_Envelope e), cu_TransactionID = en_TransactionID (e_Envelope e)\<rparr>"

definition active_state :: "attempt \<Rightarrow> bool" where
  "active_state a \<longleftrightarrow> sat_State a = StateIncomplete \<or> sat_State a = StateWaiting \<or> sat_State a = StateConflict"

definition activeAttempt :: "subagent_projection \<Rightarrow> bool" where
  "activeAttempt p \<longleftrightarrow> list_ex (\<lambda>(k, a). active_state a) (sgp_Attempts p)"

definition attemptsForTurn :: "subagent_projection \<Rightarrow> turn_id \<Rightarrow> nat" where
  "attemptsForTurn p turn = length (filter (\<lambda>(k, a). sat_ParentTurnID a = turn) (sgp_Attempts p))"

definition put_attempt :: "delegation_attempt_id \<Rightarrow> attempt \<Rightarrow> subagent_projection \<Rightarrow> subagent_projection" where
  "put_attempt k a p = p\<lparr>sgp_Attempts := gput k a (sgp_Attempts p)\<rparr>"

definition attempt_conflict :: "subagent_projection \<Rightarrow> delegation_attempt_id \<Rightarrow> string \<Rightarrow> subagent_projection" where
  "attempt_conflict p k reason =
     (let a = (case map_of (sgp_Attempts p) k of None \<Rightarrow> zero_attempt | Some a \<Rightarrow> a) in
      if sat_State a = StateConflict then p
      else put_attempt k (a\<lparr>sat_State := StateConflict, sat_Conflict := reason\<rparr>) p)"

definition validateProjection :: "subagent_projection \<Rightarrow> string option" where
  "validateProjection p = fail_if (jr_Kind (sgp_Journal p) \<noteq> JournalSession \<or> jr_ID (sgp_Journal p) = '''')
     ''subagent projection must be bound to a parent session''"

section \<open>The cases of Apply\<close>

definition requested_attempt :: "event \<Rightarrow> subagent_requested \<Rightarrow> attempt" where
  "requested_attempt e v =
     \<lparr>sat_AttemptID = sgm_AttemptID (sgq_Manifest v), sat_ParentTaskID = en_TaskID (e_Envelope e),
      sat_ParentTurnID = en_TurnID (e_Envelope e), sat_ActivityID = en_ActivityID (e_Envelope e),
      sat_Call = sgq_Call v, sat_Manifest = sgq_Manifest v, sat_State = StateIncomplete,
      sat_RequestCursor = eventCursor e, sat_WaitingCursor = None, sat_ChildManifested = False,
      sat_Receipt = None, sat_ReceiptDigest = no_digest, sat_TerminalCursor = zero_cursor,
      sat_Attachment = None, sat_Conflict = ''''\<rparr>"

definition applyRequest :: "subagent_projection \<Rightarrow> event \<Rightarrow> subagent_projection res" where
  "applyRequest p e =
     (case e_Decoded e of
        Some (P_SubagentRequested v) \<Rightarrow>
          (let m = sgq_Manifest v in
           if SubagentRequested_Validate v \<noteq> None \<or> cu_CommitSeq (sgm_ParentCursor m) \<ge> en_Seq (e_Envelope e)
              \<or> \<not> parentEvent (sgp_Journal p) e (sgm_ParentSessionID m) (sgm_RuntimeGenerationID m)
           then Inl ''invalid subagent request''
           else (case map_of (sgp_Attempts p) (sgm_AttemptID m) of
               Some a \<Rightarrow>
                 if sat_State a = StateConflict then Inr p
                 else if sat_Call a \<noteq> sgq_Call v \<or> sat_Manifest a \<noteq> m
                   \<or> sat_ParentTaskID a \<noteq> en_TaskID (e_Envelope e) \<or> sat_ParentTurnID a \<noteq> en_TurnID (e_Envelope e)
                 then Inr (attempt_conflict p (sgm_AttemptID m) ''request binding changed'')
                 else Inr p
             | None \<Rightarrow>
                 if activeAttempt p then Inl ''parent already has an active subagent''
                 else if attemptsForTurn p (en_TurnID (e_Envelope e)) \<ge> MaxSubagentAttemptsPerTurn
                 then Inl ''subagent attempt limit exceeded''
                 else Inr (put_attempt (sgm_AttemptID m) (requested_attempt e v) p)))
      | _ \<Rightarrow> Inl ''invalid subagent request'')"

text \<open>The binding of a parent event to the attempt it names.\<close>

definition parent_binding :: "attempt \<Rightarrow> event \<Rightarrow> session_id \<Rightarrow> bool" where
  "parent_binding a e child \<longleftrightarrow>
     sgm_ChildSessionID (sat_Manifest a) = child
     \<and> sgm_RuntimeGenerationID (sat_Manifest a) = en_RuntimeGenerationID (e_Envelope e)
     \<and> sat_ParentTaskID a = en_TaskID (e_Envelope e) \<and> sat_ParentTurnID a = en_TurnID (e_Envelope e)"

definition applyWaiting :: "subagent_projection \<Rightarrow> event \<Rightarrow> subagent_projection res" where
  "applyWaiting p e =
     (case e_Decoded e of
        Some (P_SubagentWaiting v) \<Rightarrow>
          if SubagentWaiting_Validate v \<noteq> None
             \<or> \<not> parentEvent (sgp_Journal p) e (jr_ID (sgp_Journal p)) (en_RuntimeGenerationID (e_Envelope e))
          then Inl ''invalid subagent waiting state''
          else (case map_of (sgp_Attempts p) (sgw_AttemptID v) of
              None \<Rightarrow> Inl ''subagent waiting has no matching request''
            | Some a \<Rightarrow>
                if \<not> parent_binding a e (sgw_ChildSessionID v) then Inl ''subagent waiting has no matching request''
                else if sat_State a = StateConflict then Inr p
                else if sat_State a = StateWaiting then Inr p
                else if sat_State a \<noteq> StateIncomplete then Inl ''subagent waiting is out of order''
                else Inr (put_attempt (sgw_AttemptID v)
                  (a\<lparr>sat_State := StateWaiting, sat_WaitingCursor := Some (eventCursor e)\<rparr>) p))
      | _ \<Rightarrow> Inl ''invalid subagent waiting state'')"

definition applyManifest :: "subagent_projection \<Rightarrow> event \<Rightarrow> subagent_projection res" where
  "applyManifest p e =
     (case e_Decoded e of
        Some (P_SubagentManifest v) \<Rightarrow>
          if SubagentManifest_Validate v \<noteq> None \<or> \<not> childEvent e v then Inl ''invalid subagent child manifest''
          else (case map_of (sgp_Attempts p) (sgm_AttemptID v) of
              None \<Rightarrow> Inl ''subagent child manifest is out of order''
            | Some a \<Rightarrow>
                if sat_Manifest a \<noteq> v then Inl ''subagent child manifest is out of order''
                else if sat_State a = StateConflict then Inr p
                else if sat_State a \<noteq> StateWaiting then Inl ''subagent child manifest is out of order''
                else if sat_ChildManifested a then Inr p
                else Inr (put_attempt (sgm_AttemptID v) (a\<lparr>sat_ChildManifested := True\<rparr>) p))
      | _ \<Rightarrow> Inl ''invalid subagent child manifest'')"

type_synonym receipt_digester = "subagent_receipt \<Rightarrow> digest res"

definition applyReceipt :: "receipt_digester \<Rightarrow> subagent_projection \<Rightarrow> event \<Rightarrow> subagent_projection res" where
  "applyReceipt dg p e =
     (case e_Decoded e of
        Some (P_SubagentReceipt v) \<Rightarrow>
          if SubagentReceipt_Validate v \<noteq> None \<or> \<not> childEvent e (sgr_Manifest v)
             \<or> sgr_TerminalCursor v \<noteq> eventCursor e
          then Inl ''invalid subagent receipt''
          else (let k = sgm_AttemptID (sgr_Manifest v) in
            case map_of (sgp_Attempts p) k of
              None \<Rightarrow> Inl ''subagent receipt is out of order''
            | Some a \<Rightarrow>
                if sat_Manifest a \<noteq> sgr_Manifest v \<or> \<not> sat_ChildManifested a
                then Inl ''subagent receipt is out of order''
                else if sat_State a = StateConflict then Inr p
                else (case dg v of
                    Inl m \<Rightarrow> Inl m
                  | Inr d \<Rightarrow>
                      (case sat_Receipt a of
                         Some r \<Rightarrow>
                           if sat_ReceiptDigest a \<noteq> d \<or> r \<noteq> v
                           then Inr (attempt_conflict p k ''conflicting child receipt'')
                           else Inr p
                       | None \<Rightarrow>
                           if sat_State a \<noteq> StateWaiting then Inl ''subagent receipt is out of order''
                           else Inr (put_attempt k
                             (a\<lparr>sat_State := StateTerminal, sat_Receipt := Some v, sat_ReceiptDigest := d,
                                sat_TerminalCursor := sgr_TerminalCursor v\<rparr>) p))))
      | _ \<Rightarrow> Inl ''invalid subagent receipt'')"

definition applyAttachment :: "subagent_projection \<Rightarrow> event \<Rightarrow> subagent_projection res" where
  "applyAttachment p e =
     (case e_Decoded e of
        Some (P_SubagentResultAttached v) \<Rightarrow>
          if SubagentResultAttached_Validate v \<noteq> None
             \<or> \<not> parentEvent (sgp_Journal p) e (jr_ID (sgp_Journal p)) (en_RuntimeGenerationID (e_Envelope e))
          then Inl ''invalid subagent result attachment''
          else (case map_of (sgp_Attempts p) (sga_AttemptID v) of
              None \<Rightarrow> Inl ''subagent attachment is out of order''
            | Some a \<Rightarrow>
                if \<not> parent_binding a e (sga_ChildSessionID v) \<or> sat_Receipt a = None
                then Inl ''subagent attachment is out of order''
                else if sat_State a = StateConflict then Inr p
                else if sga_TerminalCursor v \<noteq> sat_TerminalCursor a \<or> sga_ReceiptDigest v \<noteq> sat_ReceiptDigest a
                then Inr (attempt_conflict p (sga_AttemptID v) ''attachment does not match terminal receipt'')
                else (case sat_Attachment a of
                    Some t \<Rightarrow>
                      if t \<noteq> v then Inr (attempt_conflict p (sga_AttemptID v) ''conflicting result attachment'')
                      else Inr p
                  | None \<Rightarrow> Inr (put_attempt (sga_AttemptID v)
                      (a\<lparr>sat_State := StateAttached, sat_Attachment := Some v\<rparr>) p)))
      | _ \<Rightarrow> Inl ''invalid subagent result attachment'')"

definition subagent_cases ::
  "receipt_digester \<Rightarrow> (string \<times> (subagent_projection \<Rightarrow> event \<Rightarrow> subagent_projection res)) list" where
  "subagent_cases dg =
     [(EventSubagentRequested, applyRequest), (EventSubagentWaiting, applyWaiting),
      (EventSubagentManifest, applyManifest), (EventSubagentReceipt, applyReceipt dg),
      (EventSubagentResultAttached, applyAttachment)]"

definition subagent_Apply :: "receipt_digester \<Rightarrow> subagent_projection \<Rightarrow> event \<Rightarrow> subagent_projection res" where
  "subagent_Apply dg p e =
     (case first_err [ValidateFoundationEvent e, validateProjection p] of
        Some m \<Rightarrow> Inl m
      | None \<Rightarrow>
          (case map_of (subagent_cases dg) (en_Kind (e_Envelope e)) of None \<Rightarrow> Inr p | Some h \<Rightarrow> h p e))"

section \<open>Recovery\<close>

record reconcile_request =
  rcq_ParentSessionID :: session_id
  rcq_ParentCursor :: cursor
  rcq_RuntimeID :: runtime_generation_id

record reconcile_result =
  rcr_AttemptID :: delegation_attempt_id
  rcr_ChildSessionID :: session_id
  rcr_ChildStatus :: string
  rcr_Attached :: bool
  rcr_ParentResumable :: bool
  rcr_CreateOnce :: bool
  rcr_Diagnostic :: string

record child_recovery =
  chr_Exists :: bool
  chr_CommitKnown :: bool
  chr_NoUnmatchedEffect :: bool

definition reconcileBinding :: "reconcile_request \<Rightarrow> attempt \<Rightarrow> string option" where
  "reconcileBinding rq a = (let m = sat_Manifest a in first_err
     [fail_if (rcq_ParentSessionID rq = '''' \<or> CommittedCursor_Validate (rcq_ParentCursor rq) \<noteq> None
         \<or> cu_JournalKind (rcq_ParentCursor rq) \<noteq> JournalSession
         \<or> cu_JournalID (rcq_ParentCursor rq) \<noteq> rcq_ParentSessionID rq) ''invalid parent recovery binding'',
      fail_if (SubagentManifest_Validate m \<noteq> None \<or> sat_AttemptID a = '''' \<or> sat_AttemptID a \<noteq> sgm_AttemptID m
         \<or> sgm_ParentSessionID m \<noteq> rcq_ParentSessionID rq \<or> sgm_RuntimeGenerationID m \<noteq> rcq_RuntimeID rq)
        ''subagent recovery identity mismatch'',
      fail_if (cu_CommitSeq (rcq_ParentCursor rq) < cu_CommitSeq (sgm_ParentCursor m))
        ''parent recovery cursor predates child request''])"

definition validateReceipt :: "receipt_digester \<Rightarrow> attempt \<Rightarrow> subagent_receipt \<Rightarrow> string option" where
  "validateReceipt dg a r = first_err
     [fail_if (SubagentReceipt_Validate r \<noteq> None \<or> sgr_Manifest r \<noteq> sat_Manifest a
         \<or> sgr_TerminalCursor r \<noteq> sat_TerminalCursor a) ''child receipt identity is not proven'',
      fail_if (dg r \<noteq> Inr (sat_ReceiptDigest a)) ''child receipt digest is not proven'']"

definition attachmentMatches :: "attempt \<Rightarrow> bool" where
  "attachmentMatches a =
     (case sat_Attachment a of
        None \<Rightarrow> False
      | Some t \<Rightarrow> sga_AttemptID t = sat_AttemptID a \<and> sga_ChildSessionID t = sgm_ChildSessionID (sat_Manifest a)
          \<and> sga_TerminalCursor t = sat_TerminalCursor a \<and> sga_ReceiptDigest t = sat_ReceiptDigest a
          \<and> sga_ReceiptEvidenceID t \<noteq> '''')"

text \<open>The result, and the error.\<close>

definition Reconcile ::
  "receipt_digester \<Rightarrow> reconcile_request \<Rightarrow> attempt \<Rightarrow> child_recovery \<Rightarrow> reconcile_result \<times> string option" where
  "Reconcile dg rq a child =
     (let r0 = \<lparr>rcr_AttemptID = sat_AttemptID a, rcr_ChildSessionID = sgm_ChildSessionID (sat_Manifest a),
            rcr_ChildStatus = ''uncertain'', rcr_Attached = False, rcr_ParentResumable = False,
            rcr_CreateOnce = False, rcr_Diagnostic = ''''\<rparr>;
          uncertain = (\<lambda>msg. (r0\<lparr>rcr_ChildStatus := ''uncertain'', rcr_Diagnostic := msg\<rparr>, None)) in
      case reconcileBinding rq a of
        Some m \<Rightarrow> (r0\<lparr>rcr_Diagnostic := m\<rparr>, Some m)
      | None \<Rightarrow>
          if sat_State a = StateConflict then uncertain ''conflicting subagent journal state''
          else if \<not> chr_Exists child then
            if chr_CommitKnown child \<and> (sat_State a = StateIncomplete \<or> sat_State a = StateWaiting) then
              (r0\<lparr>rcr_ChildStatus := ''planned'', rcr_CreateOnce := True,
                  rcr_Diagnostic := ''exact child identity is absent''\<rparr>, None)
            else uncertain ''child journal absence is not proven''
          else if \<not> chr_CommitKnown child then uncertain ''child journal commit is unknown''
          else (case sat_Receipt a of
              Some r \<Rightarrow>
                (case validateReceipt dg a r of
                   Some m \<Rightarrow> uncertain m
                 | None \<Rightarrow>
                     if sat_State a = StateAttached \<and> attachmentMatches a then
                       (r0\<lparr>rcr_ChildStatus := sgr_Status r, rcr_Attached := True, rcr_ParentResumable := True\<rparr>, None)
                     else if sat_State a = StateAttached then
                       uncertain ''attached receipt identity or digest is not proven''
                     else (r0\<lparr>rcr_ChildStatus := sgr_Status r,
                              rcr_Diagnostic := ''terminal child receipt requires parent attachment''\<rparr>, None))
            | None \<Rightarrow>
                if chr_NoUnmatchedEffect child then
                  (r0\<lparr>rcr_ChildStatus := ''cancelled'',
                      rcr_Diagnostic := ''child interrupted before any unmatched effect''\<rparr>, None)
                else uncertain ''child has an unproven effect''))"

end
