(* ===== verification/Subagent_Invariants.thy ===== *)
theory Subagent_Invariants
  imports Subagent_Projection Projector_Contract
begin

text \<open>
  The delegation projection as a state machine: each accepted event leaves the attempts as they are,
  creates one, or lets one advance by a step of a relation on single attempts. The invariant and what
  later events keep are proved from the relation.
\<close>

section \<open>Updates of the map of attempts\<close>

lemma count_gput_le:
  assumes "map_of m k = Some a" "P v \<Longrightarrow> P a"
  shows "length (filter (\<lambda>(k, x). P x) (gput k v m)) \<le> length (filter (\<lambda>(k, x). P x) m)"
  using assms by (induction m) (auto split: if_splits)

lemma count_gput_new:
  assumes "map_of m k = None"
  shows "length (filter (\<lambda>(k, x). P x) (gput k v m)) = length (filter (\<lambda>(k, x). P x) m) + (if P v then 1 else 0)"
  using assms by (simp add: gput_new)

section \<open>The steps of an attempt\<close>

inductive advance :: "receipt_digester \<Rightarrow> attempt \<Rightarrow> attempt \<Rightarrow> bool" for dg where
  adv_waiting: "sat_State a = StateIncomplete \<Longrightarrow>
    advance dg a (a\<lparr>sat_State := StateWaiting, sat_WaitingCursor := Some c\<rparr>)"
| adv_manifest: "sat_State a = StateWaiting \<Longrightarrow> \<not> sat_ChildManifested a \<Longrightarrow>
    advance dg a (a\<lparr>sat_ChildManifested := True\<rparr>)"
| adv_receipt: "sat_State a = StateWaiting \<Longrightarrow> sat_ChildManifested a \<Longrightarrow> sat_Receipt a = None \<Longrightarrow>
    SubagentReceipt_Validate r = None \<Longrightarrow> sgr_Manifest r = sat_Manifest a \<Longrightarrow> dg r = Inr d \<Longrightarrow>
    advance dg a (a\<lparr>sat_State := StateTerminal, sat_Receipt := Some r, sat_ReceiptDigest := d,
      sat_TerminalCursor := sgr_TerminalCursor r\<rparr>)"
| adv_attach: "sat_State a \<noteq> StateConflict \<Longrightarrow> sat_Receipt a \<noteq> None \<Longrightarrow> sat_Attachment a = None \<Longrightarrow>
    attachmentMatches (a\<lparr>sat_Attachment := Some t\<rparr>) \<Longrightarrow>
    advance dg a (a\<lparr>sat_State := StateAttached, sat_Attachment := Some t\<rparr>)"
| adv_conflict: "sat_State a \<noteq> StateConflict \<Longrightarrow>
    advance dg a (a\<lparr>sat_State := StateConflict, sat_Conflict := reason\<rparr>)"

inductive_cases advanceE: "advance dg a a'"

text \<open>The fields an attempt keeps from its request on.\<close>

definition same_request :: "attempt \<Rightarrow> attempt \<Rightarrow> bool" where
  "same_request a a' \<longleftrightarrow> sat_AttemptID a' = sat_AttemptID a \<and> sat_ParentTaskID a' = sat_ParentTaskID a
     \<and> sat_ParentTurnID a' = sat_ParentTurnID a \<and> sat_ActivityID a' = sat_ActivityID a \<and> sat_Call a' = sat_Call a
     \<and> sat_Manifest a' = sat_Manifest a \<and> sat_RequestCursor a' = sat_RequestCursor a"

text \<open>What an attempt has got, it keeps.\<close>

definition keeps_results :: "attempt \<Rightarrow> attempt \<Rightarrow> bool" where
  "keeps_results a a' \<longleftrightarrow>
     (sat_ChildManifested a \<longrightarrow> sat_ChildManifested a')
     \<and> (sat_Receipt a \<noteq> None \<longrightarrow> sat_Receipt a' = sat_Receipt a \<and> sat_ReceiptDigest a' = sat_ReceiptDigest a
          \<and> sat_TerminalCursor a' = sat_TerminalCursor a)
     \<and> (sat_Attachment a \<noteq> None \<longrightarrow> sat_Attachment a' = sat_Attachment a)"

definition state_rank :: "string \<Rightarrow> nat" where
  "state_rank s = (if s = StateIncomplete then 0 else if s = StateWaiting then 1 else if s = StateTerminal then 2
     else if s = StateAttached then 3 else 4)"

lemma advance_same_request: "advance dg a a' \<Longrightarrow> same_request a a'"
  by (erule advance.cases) (auto simp: same_request_def)

lemma advance_keeps: "advance dg a a' \<Longrightarrow> keeps_results a a'"
  by (erule advance.cases) (auto simp: keeps_results_def)

lemma advance_not_conflict: "advance dg a a' \<Longrightarrow> sat_State a \<noteq> StateConflict"
  by (erule advance.cases) auto

section \<open>The invariant\<close>

definition attempt_ok :: "receipt_digester \<Rightarrow> attempt \<Rightarrow> bool" where
  "attempt_ok dg a \<longleftrightarrow>
     sat_AttemptID a = sgm_AttemptID (sat_Manifest a) \<and> SubagentManifest_Validate (sat_Manifest a) = None
     \<and> sat_State a \<in> {StateIncomplete, StateWaiting, StateTerminal, StateAttached, StateConflict}
     \<and> (sat_State a = StateIncomplete \<longrightarrow> \<not> sat_ChildManifested a)
     \<and> (sat_State a \<in> {StateIncomplete, StateWaiting} \<longrightarrow> sat_Receipt a = None)
     \<and> (sat_State a \<in> {StateTerminal, StateAttached} \<longrightarrow> sat_Receipt a \<noteq> None \<and> sat_WaitingCursor a \<noteq> None)
     \<and> (sat_State a = StateTerminal \<longrightarrow> sat_Attachment a = None)
     \<and> (sat_State a = StateAttached \<longrightarrow> sat_Attachment a \<noteq> None)
     \<and> (sat_State a = StateWaiting \<longrightarrow> sat_WaitingCursor a \<noteq> None)
     \<and> (\<forall>r. sat_Receipt a = Some r \<longrightarrow> sat_ChildManifested a \<and> validateReceipt dg a r = None)
     \<and> (sat_Attachment a \<noteq> None \<longrightarrow> attachmentMatches a \<and> sat_Receipt a \<noteq> None)"

definition in_flight :: "attempt \<Rightarrow> bool" where
  "in_flight a \<longleftrightarrow> sat_State a = StateIncomplete \<or> sat_State a = StateWaiting"

definition in_flight_count :: "attempts \<Rightarrow> nat" where
  "in_flight_count m = length (filter (\<lambda>(k, a). in_flight a) m)"

definition turn_count :: "attempts \<Rightarrow> turn_id \<Rightarrow> nat" where
  "turn_count m turn = length (filter (\<lambda>(k, a). sat_ParentTurnID a = turn) m)"

definition attempts_ok :: "receipt_digester \<Rightarrow> attempts \<Rightarrow> bool" where
  "attempts_ok dg m \<longleftrightarrow> gmap_ok m \<and> (\<forall>k a. map_of m k = Some a \<longrightarrow> sat_AttemptID a = k \<and> attempt_ok dg a)
     \<and> in_flight_count m \<le> 1 \<and> (\<forall>turn. turn_count m turn \<le> MaxSubagentAttemptsPerTurn)"

lemma requested_ok:
  assumes "SubagentRequested_Validate v = None"
  shows "attempt_ok dg (requested_attempt e v)"
  using assms by (simp add: attempt_ok_def requested_attempt_def SubagentRequested_Validate_def)

lemma advance_ok:
  assumes "advance dg a a'" "attempt_ok dg a"
  shows "attempt_ok dg a'"
  using assms
  by cases (auto simp: attempt_ok_def validateReceipt_def attachmentMatches_def split: option.splits)

lemma advance_in_flight: "advance dg a a' \<Longrightarrow> attempt_ok dg a \<Longrightarrow> in_flight a' \<Longrightarrow> in_flight a"
  by (erule advance.cases) (auto simp: in_flight_def)

lemma not_active: "\<not> activeAttempt p \<Longrightarrow> in_flight_count (sgp_Attempts p) = 0"
  by (auto simp: activeAttempt_def in_flight_count_def list_ex_iff active_state_def in_flight_def filter_empty_conv)

section \<open>The steps of the projection\<close>

inductive attempts_step :: "receipt_digester \<Rightarrow> attempts \<Rightarrow> attempts \<Rightarrow> bool" for dg where
  step_none: "attempts_step dg m m"
| step_create: "map_of m (sgm_AttemptID (sgq_Manifest v)) = None \<Longrightarrow> SubagentRequested_Validate v = None \<Longrightarrow>
    list_all (\<lambda>(k, a). \<not> active_state a) m \<Longrightarrow>
    turn_count m (en_TurnID (e_Envelope e)) < MaxSubagentAttemptsPerTurn \<Longrightarrow>
    attempts_step dg m (gput (sgm_AttemptID (sgq_Manifest v)) (requested_attempt e v) m)"
| step_advance: "map_of m k = Some a \<Longrightarrow> advance dg a a' \<Longrightarrow> attempts_step dg m (gput k a' m)"

lemma attempts_step_ok:
  assumes "attempts_step dg m m'" "attempts_ok dg m"
  shows "attempts_ok dg m'"
  using assms(1)
proof cases
  case step_none
  then show ?thesis using assms(2) by simp
next
  case (step_create v e)
  let ?a = "requested_attempt e v"
  have zero: "in_flight_count m = 0"
    using step_create(4) by (auto simp: in_flight_count_def list_all_iff active_state_def in_flight_def filter_empty_conv)
  have "turn_count m' turn \<le> MaxSubagentAttemptsPerTurn" for turn
    using count_gput_new [OF step_create(2), of "\<lambda>a. sat_ParentTurnID a = turn" ?a] assms(2) step_create
    by (auto simp: turn_count_def attempts_ok_def requested_attempt_def)
  moreover have "in_flight_count m' \<le> 1"
    using count_gput_new [OF step_create(2), of in_flight ?a] zero step_create(1)
    by (auto simp: in_flight_count_def)
  ultimately show ?thesis
    using assms(2) step_create(1) requested_ok [OF step_create(3), of dg e]
    by (auto simp: attempts_ok_def requested_attempt_def)
next
  case (step_advance k a a')
  have ok: "attempt_ok dg a" "sat_AttemptID a = k" using assms(2) step_advance(2) by (auto simp: attempts_ok_def)
  have same: "same_request a a'" by (rule advance_same_request [OF step_advance(3)])
  have "turn_count m' turn \<le> turn_count m turn" for turn
    unfolding turn_count_def step_advance(1)
    by (rule count_gput_le [OF step_advance(2)]) (use same in \<open>simp add: same_request_def\<close>)
  moreover have "in_flight_count m' \<le> in_flight_count m"
    unfolding in_flight_count_def step_advance(1)
    by (rule count_gput_le [OF step_advance(2)]) (use advance_in_flight [OF step_advance(3) ok(1)] in simp)
  ultimately show ?thesis
    using assms(2) step_advance(1) advance_ok [OF step_advance(3) ok(1)] ok(2) same
    by (auto simp: attempts_ok_def same_request_def) (meson order_trans)
qed

text \<open>One accepted event is one step.\<close>

abbreviation one_step :: "receipt_digester \<Rightarrow> subagent_projection \<Rightarrow> subagent_projection \<Rightarrow> bool" where
  "one_step dg p p' \<equiv> sgp_Journal p' = sgp_Journal p \<and> attempts_step dg (sgp_Attempts p) (sgp_Attempts p')"

lemma put_step:
  assumes "map_of (sgp_Attempts p) k = Some a" "advance dg a a'"
  shows "one_step dg p (put_attempt k a' p)"
  using step_advance [OF assms] by (simp add: put_attempt_def)

lemma conflict_step:
  assumes "map_of (sgp_Attempts p) k = Some a"
  shows "one_step dg p (attempt_conflict p k reason)"
proof (cases "sat_State a = StateConflict")
  case True
  then show ?thesis using assms by (simp add: attempt_conflict_def step_none)
next
  case False
  then show ?thesis using assms put_step [OF assms adv_conflict [OF False]] by (simp add: attempt_conflict_def)
qed

lemma request_step:
  assumes "applyRequest p e = Inr p'"
  shows "one_step dg p p'"
proof -
  obtain v where v: "e_Decoded e = Some (P_SubagentRequested v)" "SubagentRequested_Validate v = None"
    using assms by (auto simp: applyRequest_def Let_def split: option.splits payload.splits if_splits)
  show ?thesis
  proof (cases "map_of (sgp_Attempts p) (sgm_AttemptID (sgq_Manifest v))")
    case None
    then have p': "p' = put_attempt (sgm_AttemptID (sgq_Manifest v)) (requested_attempt e v) p"
      and "\<not> activeAttempt p" "attemptsForTurn p (en_TurnID (e_Envelope e)) < MaxSubagentAttemptsPerTurn"
      using assms v by (auto simp: applyRequest_def Let_def split: if_splits)
    then have "attempts_step dg (sgp_Attempts p)
      (gput (sgm_AttemptID (sgq_Manifest v)) (requested_attempt e v) (sgp_Attempts p))"
      using None v(2)
      by (intro step_create) (auto simp: activeAttempt_def attemptsForTurn_def turn_count_def list_ex_iff list_all_iff)
    then show ?thesis using p' by (simp add: put_attempt_def)
  next
    case (Some a)
    then show ?thesis
      using assms v conflict_step [OF Some, where dg = dg]
      by (auto simp: applyRequest_def Let_def step_none split: if_splits)
  qed
qed

lemma waiting_step:
  assumes "applyWaiting p e = Inr p'"
  shows "one_step dg p p'"
proof -
  obtain v a where "e_Decoded e = Some (P_SubagentWaiting v)" "map_of (sgp_Attempts p) (sgw_AttemptID v) = Some a"
    using assms by (auto simp: applyWaiting_def split: option.splits payload.splits if_splits)
  then show ?thesis
    using assms put_step [OF _ adv_waiting]
    by (auto simp: applyWaiting_def step_none split: if_splits)
qed

lemma manifest_step:
  assumes "applyManifest p e = Inr p'"
  shows "one_step dg p p'"
proof -
  obtain v a where "e_Decoded e = Some (P_SubagentManifest v)" "map_of (sgp_Attempts p) (sgm_AttemptID v) = Some a"
    using assms by (auto simp: applyManifest_def split: option.splits payload.splits if_splits)
  then show ?thesis
    using assms put_step [OF _ adv_manifest]
    by (auto simp: applyManifest_def step_none split: if_splits)
qed

lemma receipt_step:
  assumes "applyReceipt dg p e = Inr p'"
  shows "one_step dg p p'"
proof -
  obtain v a d where v: "e_Decoded e = Some (P_SubagentReceipt v)" "SubagentReceipt_Validate v = None"
    "map_of (sgp_Attempts p) (sgm_AttemptID (sgr_Manifest v)) = Some a"
    "sat_Manifest a = sgr_Manifest v" "sat_ChildManifested a"
    using assms by (auto simp: applyReceipt_def Let_def split: option.splits payload.splits if_splits)
  have binding: "\<not> (SubagentReceipt_Validate v \<noteq> None \<or> \<not> childEvent e (sgr_Manifest v)
      \<or> sgr_TerminalCursor v \<noteq> eventCursor e)"
    using assms v(1) by (auto simp: applyReceipt_def split: if_splits)
  consider "p' = p" | d where "sat_State a \<noteq> StateConflict" "dg v = Inr d"
    using assms v binding by (auto simp: applyReceipt_def Let_def split: if_splits sum.splits)
  then show ?thesis
  proof cases
    case 1
    then show ?thesis by (simp add: step_none)
  next
    case (2 d)
    show ?thesis
    proof (cases "sat_Receipt a")
      case None
      then have p': "sat_State a = StateWaiting" "p' = put_attempt (sgm_AttemptID (sgr_Manifest v))
          (a\<lparr>sat_State := StateTerminal, sat_Receipt := Some v, sat_ReceiptDigest := d,
            sat_TerminalCursor := sgr_TerminalCursor v\<rparr>) p"
        using assms v binding 2 by (auto simp: applyReceipt_def Let_def split: if_splits)
      show ?thesis
        unfolding p'(2) by (rule put_step [OF v(3) adv_receipt]) (use p'(1) v None 2 in auto)
    next
      case (Some r)
      then show ?thesis
        using assms v binding 2 conflict_step [OF v(3), where dg = dg]
        by (auto simp: applyReceipt_def Let_def step_none split: if_splits)
    qed
  qed
qed

lemma attachment_step:
  assumes "applyAttachment p e = Inr p'" "attempts_ok dg (sgp_Attempts p)"
  shows "one_step dg p p'"
proof -
  obtain v a where v: "e_Decoded e = Some (P_SubagentResultAttached v)"
    "map_of (sgp_Attempts p) (sga_AttemptID v) = Some a" "SubagentResultAttached_Validate v = None"
    using assms by (auto simp: applyAttachment_def split: option.splits payload.splits if_splits)
  have id: "sat_AttemptID a = sga_AttemptID v" "sga_ReceiptEvidenceID v \<noteq> ''''"
    using assms(2) v(2,3) by (auto simp: attempts_ok_def SubagentResultAttached_Validate_def)
  show ?thesis
  proof (cases "sat_Attachment a")
    case None
    have att: "advance dg a (a\<lparr>sat_State := StateAttached, sat_Attachment := Some v\<rparr>)"
      if "sat_State a \<noteq> StateConflict" "sat_Receipt a \<noteq> None" "sga_ChildSessionID v = sgm_ChildSessionID (sat_Manifest a)"
        "sga_TerminalCursor v = sat_TerminalCursor a" "sga_ReceiptDigest v = sat_ReceiptDigest a"
      by (rule adv_attach) (use that None id in \<open>simp_all add: attachmentMatches_def\<close>)
    show ?thesis
      using assms(1) v None att put_step [OF v(2), where dg = dg] conflict_step [OF v(2), where dg = dg]
      by (auto simp: applyAttachment_def parent_binding_def step_none split: if_splits)
  next
    case (Some t)
    then show ?thesis
      using assms(1) v conflict_step [OF v(2), where dg = dg]
      by (auto simp: applyAttachment_def step_none split: if_splits)
  qed
qed

lemma apply_step:
  assumes "subagent_Apply dg p e = Inr p'" "attempts_ok dg (sgp_Attempts p)"
  shows "one_step dg p p'"
  using assms attachment_step [OF _ assms(2)]
  by (auto simp: subagent_Apply_def subagent_cases_def step_none request_step waiting_step manifest_step receipt_step
    simp del: first_err.simps split: option.splits if_splits)

section \<open>Runs\<close>

definition subagent_projector :: "receipt_digester \<Rightarrow> subagent_projection projector" where
  "subagent_projector dg =
     \<lparr>pj_Version = subagent_Version, pj_Zero = subagent_Zero, pj_Apply = subagent_Apply dg\<rparr>"

interpretation subagent_store: projector_contract subagent_Zero "subagent_Apply dg"
    "\<lambda>p. attempts_ok dg (sgp_Attempts p)" "\<lambda>e. True" for dg
proof
  show "attempts_ok dg (sgp_Attempts (subagent_Zero ref))" for ref
    by (simp add: attempts_ok_def subagent_Zero_def in_flight_count_def turn_count_def)
  show "attempts_ok dg (sgp_Attempts t)"
    if "subagent_Apply dg s e = Inr t" "True" "attempts_ok dg (sgp_Attempts s)" for s e t
    using apply_step [OF that(1,3)] attempts_step_ok that(3) by blast
qed

abbreviation subagent_run :: "receipt_digester \<Rightarrow> subagent_projection \<Rightarrow> event list \<Rightarrow> subagent_projection res" where
  "subagent_run dg \<equiv> fold_res (subagent_Apply dg)"

lemma run_ok:
  "subagent_run dg p es = Inr p' \<Longrightarrow> attempts_ok dg (sgp_Attempts p) \<Longrightarrow> attempts_ok dg (sgp_Attempts p')"
  by (erule subagent_store.fold_inv) (simp_all add: list_all_iff)

lemma zero_ok: "attempts_ok dg (sgp_Attempts (subagent_Zero ref))"
  by (rule subagent_store.zero_inv)

text \<open>What a step makes of one attempt.\<close>

lemma step_attempt:
  assumes "attempts_step dg m m'" "map_of m k = Some a"
  obtains a' where "map_of m' k = Some a'" "a' = a \<or> advance dg a a'"
proof -
  have "\<exists>a'. map_of m' k = Some a' \<and> (a' = a \<or> advance dg a a')"
    using assms by cases auto
  then show thesis using that by blast
qed

lemma run_attempt:
  assumes "subagent_run dg p es = Inr p'" "attempts_ok dg (sgp_Attempts p)" "map_of (sgp_Attempts p) k = Some a"
  obtains a' where "map_of (sgp_Attempts p') k = Some a'" "(advance dg)\<^sup>*\<^sup>* a a'"
proof -
  have "\<exists>a'. map_of (sgp_Attempts p') k = Some a' \<and> (advance dg)\<^sup>*\<^sup>* a a'"
    using assms
  proof (induction es arbitrary: p a)
    case Nil
    then show ?case by simp
  next
    case (Cons e es)
    obtain q where q: "subagent_Apply dg p e = Inr q" "subagent_run dg q es = Inr p'"
      using Cons.prems(1) by (auto split: sum.splits)
    have st: "attempts_step dg (sgp_Attempts p) (sgp_Attempts q)"
      using apply_step [OF q(1) Cons.prems(2)] by simp
    obtain b where b: "map_of (sgp_Attempts q) k = Some b" "b = a \<or> advance dg a b"
      by (rule step_attempt [OF st Cons.prems(3)])
    obtain a' where "map_of (sgp_Attempts p') k = Some a'" "(advance dg)\<^sup>*\<^sup>* b a'"
      using Cons.IH [OF q(2) attempts_step_ok [OF st Cons.prems(2)] b(1)] by blast
    then show ?case using b(2) by (auto intro: converse_rtranclp_into_rtranclp)
  qed
  then show thesis using that by blast
qed

lemma later_keeps:
  assumes "(advance dg)\<^sup>*\<^sup>* a a'"
  shows "same_request a a' \<and> keeps_results a a' \<and> (sat_State a = StateConflict \<longrightarrow> a' = a)"
  using assms
proof (induction rule: converse_rtranclp_induct)
  case base
  show ?case by (simp add: same_request_def keeps_results_def)
next
  case (step a b)
  have "same_request a b" "keeps_results a b" "sat_State a \<noteq> StateConflict"
    using step(1) by (simp_all add: advance_same_request advance_keeps advance_not_conflict)
  then show ?case using step(3) unfolding same_request_def keeps_results_def by metis
qed

text \<open>While an attempt is in conflict no other is created.\<close>

lemma step_keys:
  assumes "attempts_step dg m m'" "map_of m k = Some a" "sat_State a = StateConflict"
  shows "gkeys m' = gkeys m"
  using assms(1)
proof cases
  case (step_create v e)
  then show ?thesis using map_of_mem [OF assms(2)] assms(3) by (auto simp: list_all_iff active_state_def)
next
  case (step_advance k' b b')
  then show ?thesis by (auto simp: in_gkeys_iff)
qed simp

lemma run_keys:
  assumes "subagent_run dg p es = Inr p'" "attempts_ok dg (sgp_Attempts p)"
    "map_of (sgp_Attempts p) k = Some a" "sat_State a = StateConflict"
  shows "gkeys (sgp_Attempts p') = gkeys (sgp_Attempts p)"
  using assms
proof (induction es arbitrary: p)
  case Nil
  then show ?case by simp
next
  case (Cons e es)
  obtain q where q: "subagent_Apply dg p e = Inr q" "subagent_run dg q es = Inr p'"
    using Cons.prems(1) by (auto split: sum.splits)
  have st: "attempts_step dg (sgp_Attempts p) (sgp_Attempts q)"
    using apply_step [OF q(1) Cons.prems(2)] by simp
  obtain b where "map_of (sgp_Attempts q) k = Some b" "b = a \<or> advance dg a b"
    by (rule step_attempt [OF st Cons.prems(3)])
  then have "map_of (sgp_Attempts q) k = Some a" using Cons.prems(4) advance_not_conflict by blast
  then show ?case
    using Cons.IH [OF q(2) attempts_step_ok [OF st Cons.prems(2)] _ Cons.prems(4)]
      step_keys [OF st Cons.prems(3,4)] by simp
qed

section \<open>An attempt changes a bounded number of times\<close>

definition attempt_rest :: "attempt option \<Rightarrow> nat" where
  "attempt_rest x = (case x of
     None \<Rightarrow> 6
   | Some a \<Rightarrow> if sat_State a = StateConflict then 0
       else 1 + (if sat_State a = StateIncomplete then 1 else 0) + (if sat_ChildManifested a then 0 else 1)
         + (if sat_Receipt a = None then 1 else 0) + (if sat_Attachment a = None then 1 else 0))"

lemma advance_rest: "advance dg a a' \<Longrightarrow> attempt_rest (Some a') < attempt_rest (Some a)"
  by (erule advance.cases) (auto simp: attempt_rest_def)

lemma step_rest:
  assumes "attempts_step dg m m'"
  shows "map_of m' k = map_of m k \<or> attempt_rest (map_of m' k) < attempt_rest (map_of m k)"
  using assms
proof cases
  case (step_create v e)
  have "attempt_rest (Some b) < attempt_rest None" for b by (simp add: attempt_rest_def)
  then show ?thesis using step_create by simp
next
  case (step_advance k' a a')
  then show ?thesis using advance_rest by auto
qed simp

text \<open>The projections a run goes through, up to the first event that is refused.\<close>

fun run_states :: "receipt_digester \<Rightarrow> subagent_projection \<Rightarrow> event list \<Rightarrow> subagent_projection list" where
  "run_states dg p [] = [p]"
| "run_states dg p (e # es) =
     p # (case subagent_Apply dg p e of Inl _ \<Rightarrow> [] | Inr q \<Rightarrow> run_states dg q es)"

definition attempt_history ::
  "receipt_digester \<Rightarrow> subagent_projection \<Rightarrow> event list \<Rightarrow> delegation_attempt_id \<Rightarrow> attempt option list" where
  "attempt_history dg p es k = remdups_adj (map (\<lambda>q. map_of (sgp_Attempts q) k) (run_states dg p es))"

lemma history_bound:
  assumes "attempts_ok dg (sgp_Attempts p)"
  shows "length (attempt_history dg p es k) \<le> attempt_rest (map_of (sgp_Attempts p) k) + 1"
  using assms
proof (induction es arbitrary: p)
  case Nil
  then show ?case by (simp add: attempt_history_def)
next
  case (Cons e es)
  show ?case
  proof (cases "subagent_Apply dg p e")
    case (Inl m)
    then show ?thesis by (simp add: attempt_history_def)
  next
    case (Inr q)
    let ?v = "\<lambda>q. map_of (sgp_Attempts q) k"
    have st: "attempts_step dg (sgp_Attempts p) (sgp_Attempts q)" using apply_step [OF Inr Cons.prems] by simp
    have ih: "length (remdups_adj (map ?v (run_states dg q es))) \<le> attempt_rest (?v q) + 1"
      using Cons.IH [OF attempts_step_ok [OF st Cons.prems]] by (simp add: attempt_history_def)
    obtain vs where hd: "map ?v (run_states dg q es) = ?v q # vs" by (cases es) auto
    have "length (remdups_adj (?v p # map ?v (run_states dg q es)))
      = length (remdups_adj (map ?v (run_states dg q es))) + (if ?v q = ?v p then 0 else 1)"
      unfolding hd by simp
    then show ?thesis using ih step_rest [OF st, of k] Inr by (auto simp: attempt_history_def)
  qed
qed

end
