(* ===== verification/Subagent_Receipt.thy ===== *)
theory Subagent_Receipt
  imports Message_Rules
begin

text \<open>
  The receipt of a child session, derived from its journal, \<open>internal/subagent/receipt.go\<close>. A Go map used
  as a set is the list of its keys, sorted at the end. \<open>json.Unmarshal\<close> of a payload into its Go type is a
  field of \<open>receipt_decoders\<close>, \<open>None\<close> where it returns an error; a value it returns holds the parts that the
  receipt reads.
\<close>

section \<open>UTF-8\<close>

fun valid_utf8 :: "string \<Rightarrow> bool" where
  "valid_utf8 [] = True"
| "valid_utf8 (c # cs) = (let n = rune_len (c # cs) in n \<noteq> 0 \<and> valid_utf8 (drop (n - 1) cs))"

text \<open>\<open>strings.ToValidUTF8\<close>: each run of ill-formed bytes becomes one replacement; \<open>run\<close> says that one has begun.\<close>

fun to_valid_utf8 :: "bool \<Rightarrow> string \<Rightarrow> string" where
  "to_valid_utf8 run [] = []"
| "to_valid_utf8 run (c # cs) =
     (let n = rune_len (c # cs) in
      if n = 0 then (if run then [] else replacement) @ to_valid_utf8 True cs
      else take n (c # cs) @ to_valid_utf8 False (drop (n - 1) cs))"

fun valid_limit :: "string \<Rightarrow> nat \<Rightarrow> nat" where
  "valid_limit value 0 = 0"
| "valid_limit value (Suc limit) = (if valid_utf8 (take (Suc limit) value) then Suc limit else valid_limit value limit)"

definition boundedUTF8 :: "string \<Rightarrow> nat \<Rightarrow> string" where
  "boundedUTF8 s limit =
     (let value = to_valid_utf8 False s in
      if length value \<le> limit then value else take (valid_limit value limit) value)"

section \<open>Usage\<close>

text \<open>The sum of two \<open>int64\<close> values wraps around.\<close>

definition int64 :: "int \<Rightarrow> int" where
  "int64 x = (x + 2 ^ 63) mod 2 ^ 64 - 2 ^ 63"

definition unknown_value :: usage_value where
  "unknown_value = \<lparr>uv_State = ''unknown'', uv_Value = 0, uv_Provenance = ''''\<rparr>"

definition addUsageValue :: "usage_value \<Rightarrow> usage_value \<Rightarrow> usage_value" where
  "addUsageValue l r =
     (if uv_State l = ''unknown'' \<or> uv_State r = ''unknown'' then unknown_value
      else \<lparr>uv_State = ''provider_reported'', uv_Value = int64 (uv_Value l + uv_Value r),
            uv_Provenance = ''child_journal''\<rparr>)"

definition addUsage :: "model_usage \<Rightarrow> bool \<Rightarrow> model_usage \<Rightarrow> model_usage" where
  "addUsage acc haveTotal nxt =
     (if \<not> haveTotal then nxt
      else \<lparr>mu_Input = addUsageValue (mu_Input acc) (mu_Input nxt),
            mu_Output = addUsageValue (mu_Output acc) (mu_Output nxt),
            mu_Cached = addUsageValue (mu_Cached acc) (mu_Cached nxt),
            mu_CacheWrite = addUsageValue (mu_CacheWrite acc) (mu_CacheWrite nxt),
            mu_Reasoning = addUsageValue (mu_Reasoning acc) (mu_Reasoning nxt)\<rparr>)"

definition unknownUsage :: model_usage where
  "unknownUsage = \<lparr>mu_Input = unknown_value, mu_Output = unknown_value, mu_Cached = unknown_value,
     mu_CacheWrite = unknown_value, mu_Reasoning = unknown_value\<rparr>"

definition zero_usage :: model_usage where
  "zero_usage = (let z = \<lparr>uv_State = '''', uv_Value = 0, uv_Provenance = ''''\<rparr> in
     \<lparr>mu_Input = z, mu_Output = z, mu_Cached = z, mu_CacheWrite = z, mu_Reasoning = z\<rparr>)"

section \<open>The facts of the child's journal\<close>

record receipt_decoders =
  rd_FileChanged :: "raw_message \<Rightarrow> file_changed option"
  rd_PlanDeclared :: "raw_message \<Rightarrow> action_plan option"
  rd_EvidenceRecorded :: "raw_message \<Rightarrow> evidence_record option"
  rd_VerificationEvidence :: "raw_message \<Rightarrow> evidence_id list option"
  rd_AttemptUsage :: "raw_message \<Rightarrow> model_usage option"
  rd_ActivityOutcome :: "raw_message \<Rightarrow> activity_outcome option"

record receipt_facts =
  rf_files :: "string list"
  rf_plannedCommands :: "(activity_id, string list) gomap"
  rf_evidence :: "evidence_id list"
  rf_started :: "activity_id list"
  rf_terminalActivities :: "activity_id list"
  rf_unknown :: "activity_id list"
  rf_usage :: model_usage
  rf_haveUsage :: bool

definition no_facts :: receipt_facts where
  "no_facts = \<lparr>rf_files = [], rf_plannedCommands = [], rf_evidence = [], rf_started = [],
     rf_terminalActivities = [], rf_unknown = [], rf_usage = zero_usage, rf_haveUsage = False\<rparr>"

text \<open>Assignment to a map used as a set.\<close>

definition set_add :: "'a \<Rightarrow> 'a list \<Rightarrow> 'a list" where
  "set_add x xs = (if x \<in> set xs then xs else xs @ [x])"

definition addEvidence :: "evidence_id list \<Rightarrow> evidence_id list \<Rightarrow> evidence_id list" where
  "addEvidence target vs = fold (\<lambda>v t. if v \<noteq> '''' then set_add v t else t) vs target"

text \<open>The events that the loop leaves out.\<close>

definition foreign_event :: "subagent_manifest \<Rightarrow> cursor \<Rightarrow> envelope \<Rightarrow> bool" where
  "foreign_event m terminal en \<longleftrightarrow>
     en_JournalKind en \<noteq> '''' \<and> en_JournalKind en \<noteq> JournalSession
     \<or> en_JournalID en \<noteq> '''' \<and> en_JournalID en \<noteq> cu_JournalID terminal
     \<or> en_SessionID en \<noteq> '''' \<and> en_SessionID en \<noteq> sgm_ChildSessionID m
     \<or> cu_CommitSeq terminal \<noteq> 0 \<and> en_Seq en > cu_CommitSeq terminal
     \<or> cu_CommitSeq terminal \<noteq> 0 \<and> en_Seq en = cu_CommitSeq terminal \<and> cu_TransactionID terminal \<noteq> ''''
       \<and> en_TransactionID en \<noteq> cu_TransactionID terminal"

definition plan_commands :: "resource_target list \<Rightarrow> string list" where
  "plan_commands rs = [ra_Value a. r \<leftarrow> rs, a \<leftarrow> rt_Attributes r, ra_Name a = ''command'' \<and> ra_Value a \<noteq> '''']"

text \<open>The cases of the loop.\<close>

definition receipt_file :: "receipt_decoders \<Rightarrow> raw_message \<Rightarrow> receipt_facts \<Rightarrow> receipt_facts" where
  "receipt_file rd raw f =
     (case rd_FileChanged rd raw of
        Some v \<Rightarrow>
          if sr_Kind (fch_Subject v) = ''file'' \<and> sr_ID (fch_Subject v) \<noteq> '''' then
            f\<lparr>rf_files := set_add (sr_ID (fch_Subject v)) (rf_files f),
              rf_evidence := addEvidence (rf_evidence f) (fch_EvidenceIDs v)\<rparr>
          else f
      | None \<Rightarrow> f)"

definition receipt_plan :: "receipt_decoders \<Rightarrow> activity_id \<Rightarrow> raw_message \<Rightarrow> receipt_facts \<Rightarrow> receipt_facts" where
  "receipt_plan rd act raw f =
     (case rd_PlanDeclared rd raw of
        Some p \<Rightarrow>
          if ti_Name (pb_Tool (pl_Body p)) = ''shell'' \<and> plan_commands (pb_Resources (pl_Body p)) \<noteq> [] then
            f\<lparr>rf_plannedCommands := gput act
                ((case map_of (rf_plannedCommands f) act of None \<Rightarrow> [] | Some cs \<Rightarrow> cs)
                 @ plan_commands (pb_Resources (pl_Body p))) (rf_plannedCommands f)\<rparr>
          else f
      | None \<Rightarrow> f)"

definition receipt_evidence :: "receipt_decoders \<Rightarrow> raw_message \<Rightarrow> receipt_facts \<Rightarrow> receipt_facts" where
  "receipt_evidence rd raw f =
     (case rd_EvidenceRecorded rd raw of
        Some r \<Rightarrow>
          if ev_ID (er_Body r) \<noteq> '''' then f\<lparr>rf_evidence := set_add (ev_ID (er_Body r)) (rf_evidence f)\<rparr> else f
      | None \<Rightarrow> f)"

definition receipt_verification :: "receipt_decoders \<Rightarrow> raw_message \<Rightarrow> receipt_facts \<Rightarrow> receipt_facts" where
  "receipt_verification rd raw f =
     (case rd_VerificationEvidence rd raw of
        Some ids \<Rightarrow> f\<lparr>rf_evidence := addEvidence (rf_evidence f) ids\<rparr>
      | None \<Rightarrow> f)"

definition receipt_usage :: "receipt_decoders \<Rightarrow> raw_message \<Rightarrow> receipt_facts \<Rightarrow> receipt_facts" where
  "receipt_usage rd raw f =
     (case rd_AttemptUsage rd raw of
        Some u \<Rightarrow>
          if ModelUsage_Validate u = None then
            f\<lparr>rf_usage := addUsage (rf_usage f) (rf_haveUsage f) u, rf_haveUsage := True\<rparr>
          else f
      | None \<Rightarrow> f)"

definition receipt_started :: "activity_id \<Rightarrow> receipt_facts \<Rightarrow> receipt_facts" where
  "receipt_started act f = (if act \<noteq> '''' then f\<lparr>rf_started := set_add act (rf_started f)\<rparr> else f)"

definition receipt_ended :: "receipt_decoders \<Rightarrow> activity_id \<Rightarrow> raw_message \<Rightarrow> receipt_facts \<Rightarrow> receipt_facts" where
  "receipt_ended rd act raw f =
     (let f1 = (if act \<noteq> '''' then f\<lparr>rf_terminalActivities := set_add act (rf_terminalActivities f)\<rparr> else f) in
      case rd_ActivityOutcome rd raw of
        Some v \<Rightarrow> f1\<lparr>rf_evidence := addEvidence (rf_evidence f1) (ao_OutputEvidenceIDs v)\<rparr>
      | None \<Rightarrow> f1)"

definition receipt_uncertain :: "activity_id \<Rightarrow> receipt_facts \<Rightarrow> receipt_facts" where
  "receipt_uncertain act f =
     (if act \<noteq> '''' then
        f\<lparr>rf_terminalActivities := set_add act (rf_terminalActivities f), rf_unknown := set_add act (rf_unknown f)\<rparr>
      else f)"

definition receipt_event :: "receipt_decoders \<Rightarrow> envelope \<Rightarrow> receipt_facts \<Rightarrow> receipt_facts" where
  "receipt_event rd en f =
     (let kind = en_Kind en; act = en_ActivityID en; raw = en_Payload en in
      if kind = EventFileChanged then receipt_file rd raw f
      else if kind = EventExecutionPlanDeclared then receipt_plan rd act raw f
      else if kind = EventEvidenceRecorded then receipt_evidence rd raw f
      else if kind = EventVerificationReceiptRecorded then receipt_verification rd raw f
      else if kind = EventProviderAttemptTerminal then receipt_usage rd raw f
      else if kind = EventActivityStarted then receipt_started act f
      else if kind \<in> {EventActivitySucceeded, EventActivityFailed, EventActivityDenied, EventActivityCancelled,
          EventActivityInterruptedNoEffect} then receipt_ended rd act raw f
      else if kind = EventActivityUncertain then receipt_uncertain act f
      else f)"

definition receipt_facts_of ::
  "receipt_decoders \<Rightarrow> subagent_manifest \<Rightarrow> cursor \<Rightarrow> event list \<Rightarrow> receipt_facts" where
  "receipt_facts_of rd m terminal es =
     fold (\<lambda>e f. if foreign_event m terminal (e_Envelope e) then f else receipt_event rd (e_Envelope e) f) es no_facts"

section \<open>The receipt\<close>

text \<open>The activities without a known end, and the commands of the activities that ran.\<close>

definition unknown_activities :: "receipt_facts \<Rightarrow> activity_id list" where
  "unknown_activities f =
     fold (\<lambda>a u. if a \<in> set (rf_terminalActivities f) then u else set_add a u) (rf_started f) (rf_unknown f)"

definition ran_commands :: "receipt_facts \<Rightarrow> string list" where
  "ran_commands f =
     fold (\<lambda>a cs. if a \<in> set (rf_started f)
         then fold set_add (case map_of (rf_plannedCommands f) a of None \<Rightarrow> [] | Some p \<Rightarrow> p) cs else cs)
       (rf_terminalActivities f) []"

definition ProjectReceipt ::
  "receipt_decoders \<Rightarrow> subagent_manifest \<Rightarrow> cursor \<Rightarrow> string \<Rightarrow> string \<Rightarrow> model_usage \<Rightarrow> public_error option \<Rightarrow> event list
     \<Rightarrow> subagent_receipt" where
  "ProjectReceipt rd m terminal status summary fallback public es =
     (let f = receipt_facts_of rd m terminal es;
          unknown = unknown_activities f;
          usage = (if rf_haveUsage f then rf_usage f else fallback) in
      \<lparr>sgr_Status = (if unknown \<noteq> [] then ''uncertain'' else status),
       sgr_Summary = boundedUTF8 summary (nat MaxSubagentReceiptSummaryBytes),
       sgr_Manifest = m, sgr_TerminalCursor = terminal,
       sgr_ChangedFiles = sort (rf_files f), sgr_CommandsAndTests = sort (ran_commands f),
       sgr_Usage = (if usage = zero_usage then unknownUsage else usage),
       sgr_EvidenceIDs = sort (rf_evidence f), sgr_UnknownEffects = sort unknown, sgr_Error = public\<rparr>)"

section \<open>Sets of keys\<close>

lemma set_set_add [simp]: "set (set_add x xs) = insert x (set xs)"
  by (auto simp: set_add_def)

lemma distinct_set_add [simp]: "distinct xs \<Longrightarrow> distinct (set_add x xs)"
  by (auto simp: set_add_def)

lemma sorted_keys_valid:
  assumes "distinct xs" "'''' \<notin> set xs"
  shows "validateSortedStrings (sort xs) = None"
  using assms by (simp add: validateSortedStrings_def sorted_unique_from_iff strict_sorted_iff)

lemma addEvidence_set: "set (addEvidence t vs) = set t \<union> (set vs - {''''})"
  by (induction vs arbitrary: t) (auto simp: addEvidence_def)

lemma addEvidence_distinct: "distinct t \<Longrightarrow> distinct (addEvidence t vs)"
  by (induction vs arbitrary: t) (auto simp: addEvidence_def)

lemma plan_commands_nonempty: "'''' \<notin> set (plan_commands rs)"
  by (auto simp: plan_commands_def)

lemma fold_set_add_set: "set (fold set_add cs xs) = set xs \<union> set cs"
  by (induction cs arbitrary: xs) auto

lemma fold_set_add_distinct: "distinct xs \<Longrightarrow> distinct (fold set_add cs xs)"
  by (induction cs arbitrary: xs) auto

section \<open>The facts are sets of names\<close>

definition facts_ok :: "receipt_facts \<Rightarrow> bool" where
  "facts_ok f \<longleftrightarrow>
     distinct (rf_files f) \<and> '''' \<notin> set (rf_files f) \<and> distinct (rf_evidence f) \<and> '''' \<notin> set (rf_evidence f)
     \<and> distinct (rf_unknown f) \<and> '''' \<notin> set (rf_unknown f) \<and> '''' \<notin> set (rf_started f)
     \<and> (\<forall>a cs. map_of (rf_plannedCommands f) a = Some cs \<longrightarrow> '''' \<notin> set cs)
     \<and> set (rf_unknown f) \<subseteq> set (rf_terminalActivities f)"

lemma no_facts_ok: "facts_ok no_facts"
  by (simp add: facts_ok_def no_facts_def)

lemma facts_ok_set:
  assumes "facts_ok f"
  shows "distinct xs \<Longrightarrow> '''' \<notin> set xs \<Longrightarrow> facts_ok (f\<lparr>rf_files := xs\<rparr>)"
    "distinct xs \<Longrightarrow> '''' \<notin> set xs \<Longrightarrow> facts_ok (f\<lparr>rf_evidence := xs\<rparr>)"
    "'''' \<notin> set xs \<Longrightarrow> facts_ok (f\<lparr>rf_started := xs\<rparr>)"
    "set (rf_terminalActivities f) \<subseteq> set xs \<Longrightarrow> facts_ok (f\<lparr>rf_terminalActivities := xs\<rparr>)"
    "'''' \<notin> set cs \<Longrightarrow> facts_ok (f\<lparr>rf_plannedCommands := gput a cs (rf_plannedCommands f)\<rparr>)"
    "facts_ok (f\<lparr>rf_usage := u, rf_haveUsage := b\<rparr>)"
    "a \<noteq> '''' \<Longrightarrow> facts_ok (f\<lparr>rf_terminalActivities := set_add a (rf_terminalActivities f),
       rf_unknown := set_add a (rf_unknown f)\<rparr>)"
  using assms by (auto simp: facts_ok_def)

lemma facts_okD:
  assumes "facts_ok f"
  shows "distinct (rf_files f)" "'''' \<notin> set (rf_files f)" "distinct (rf_evidence f)" "'''' \<notin> set (rf_evidence f)"
    "'''' \<notin> set (rf_started f)"
    "'''' \<notin> set (case map_of (rf_plannedCommands f) a of None \<Rightarrow> [] | Some cs \<Rightarrow> cs)"
  using assms by (auto simp: facts_ok_def split: option.splits)

lemma receipt_cases_ok:
  assumes "facts_ok f"
  shows "facts_ok (receipt_file rd raw f)" "facts_ok (receipt_plan rd act raw f)"
    "facts_ok (receipt_evidence rd raw f)" "facts_ok (receipt_verification rd raw f)"
    "facts_ok (receipt_usage rd raw f)" "facts_ok (receipt_started act f)"
    "facts_ok (receipt_ended rd act raw f)" "facts_ok (receipt_uncertain act f)"
proof -
  show "facts_ok (receipt_file rd raw f)"
    using assms by (auto simp: receipt_file_def facts_ok_def addEvidence_set addEvidence_distinct split: option.splits)
  show "facts_ok (receipt_plan rd act raw f)"
    using assms plan_commands_nonempty by (auto simp: receipt_plan_def facts_ok_def split: option.splits)
qed (use assms in \<open>simp_all add: receipt_evidence_def receipt_verification_def
      receipt_usage_def receipt_started_def receipt_ended_def receipt_uncertain_def facts_ok_set facts_okD
      addEvidence_set addEvidence_distinct subset_insertI Let_def split: option.split\<close>)

lemma any_case: "facts_ok x \<Longrightarrow> facts_ok y \<Longrightarrow> facts_ok (if c then x else y)"
  by simp

lemma receipt_event_ok: "facts_ok f \<Longrightarrow> facts_ok (receipt_event rd en f)"
  unfolding receipt_event_def Let_def by (intro any_case receipt_cases_ok)

lemma facts_of_ok: "facts_ok (receipt_facts_of rd m terminal es)"
proof -
  have "facts_ok (fold (\<lambda>e f. if foreign_event m terminal (e_Envelope e) then f
      else receipt_event rd (e_Envelope e) f) es f)" if "facts_ok f" for f
    using that by (induction es arbitrary: f) (auto simp: receipt_event_ok)
  then show ?thesis by (simp add: receipt_facts_of_def no_facts_ok)
qed

lemma unknown_activities_set:
  "set (unknown_activities f) = set (rf_unknown f) \<union> (set (rf_started f) - set (rf_terminalActivities f))"
proof -
  have "set (fold (\<lambda>a u. if a \<in> T then u else set_add a u) xs u) = set u \<union> (set xs - T)" for T xs u
    by (induction xs arbitrary: u) auto
  then show ?thesis by (simp add: unknown_activities_def)
qed

lemma unknown_activities_distinct: "distinct (rf_unknown f) \<Longrightarrow> distinct (unknown_activities f)"
proof -
  have "distinct u \<Longrightarrow> distinct (fold (\<lambda>a u. if a \<in> T then u else set_add a u) xs u)" for T xs u
    by (induction xs arbitrary: u) auto
  then show "distinct (rf_unknown f) \<Longrightarrow> distinct (unknown_activities f)" by (simp add: unknown_activities_def)
qed

text \<open>A command is reported when an activity that planned it was started and has ended.\<close>

lemma ran_commands_set:
  "set (ran_commands f) = {c. \<exists>a cs. a \<in> set (rf_started f) \<and> a \<in> set (rf_terminalActivities f)
     \<and> map_of (rf_plannedCommands f) a = Some cs \<and> c \<in> set cs}"
proof -
  let ?p = "\<lambda>a. case map_of (rf_plannedCommands f) a of None \<Rightarrow> [] | Some p \<Rightarrow> p"
  have "set (fold (\<lambda>a cs. if a \<in> S then fold set_add (?p a) cs else cs) xs cs)
      = set cs \<union> (\<Union>a \<in> S \<inter> set xs. set (?p a))" for S xs cs
    by (induction xs arbitrary: cs) (auto simp: fold_set_add_set)
  then show ?thesis by (auto simp: ran_commands_def split: option.splits) metis
qed

lemma ran_commands_distinct: "distinct (ran_commands f)"
proof -
  let ?p = "\<lambda>a. case map_of (rf_plannedCommands f) a of None \<Rightarrow> [] | Some p \<Rightarrow> p"
  have "distinct cs \<Longrightarrow> distinct (fold (\<lambda>a cs. if a \<in> S then fold set_add (?p a) cs else cs) xs cs)" for S xs cs
    by (induction xs arbitrary: cs) (auto simp: fold_set_add_distinct)
  then show ?thesis by (simp add: ran_commands_def)
qed

section \<open>The summary\<close>

lemma valid_limit_le: "valid_limit v n \<le> n"
  by (induction v n rule: valid_limit.induct) auto

lemma valid_limit_valid: "valid_utf8 (take (valid_limit v n) v)"
  by (induction v n rule: valid_limit.induct) auto

lemma boundedUTF8_length: "length (boundedUTF8 s limit) \<le> limit"
  using valid_limit_le [of "to_valid_utf8 False s" limit] by (auto simp: boundedUTF8_def Let_def min_def)

lemma rune_len_length: "rune_len s \<le> length s"
  by (induction s rule: rune_len.induct) (auto simp: Let_def split: list.splits if_splits)

lemma rune_len_take:
  assumes "rune_len s = n" "n \<noteq> 0"
  shows "rune_len (take n s @ t) = n"
  using assms
  by (induction s rule: rune_len.induct) (auto simp: Let_def split: list.splits if_splits)

lemma valid_utf8_rune:
  assumes "rune_len s = n" "n \<noteq> 0" "valid_utf8 t"
  shows "valid_utf8 (take n s @ t)"
proof -
  have len: "length (take n s) = n" using rune_len_length [of s] assms(1) by simp
  obtain c cs where s: "take n s = c # cs" using len assms(2) by (cases "take n s") auto
  have "length cs = n - 1" using len s by simp
  then show ?thesis using rune_len_take [OF assms(1,2), of t] s assms(2,3) by simp
qed

lemma replacement_rune: "rune_len replacement = 3"
  by code_simp

lemma to_valid_utf8_valid: "valid_utf8 (to_valid_utf8 run s)"
proof (induction run s rule: to_valid_utf8.induct)
  case (2 run c cs)
  show ?case
  proof (cases "rune_len (c # cs) = 0")
    case True
    have "valid_utf8 (replacement @ to_valid_utf8 True cs)"
      using valid_utf8_rune [OF replacement_rune _ "2.IH"(1) [OF refl True]] by (simp add: replacement_def)
    then show ?thesis using True "2.IH"(1) [OF refl True] by simp
  next
    case False
    then show ?thesis
      using valid_utf8_rune [OF refl False "2.IH"(2) [OF refl False]] by (simp add: Let_def del: rune_len.simps)
  qed
qed simp

lemma boundedUTF8_valid: "valid_utf8 (boundedUTF8 s limit)"
  by (simp add: boundedUTF8_def Let_def to_valid_utf8_valid valid_limit_valid)

end
