(* ===== verification/Subagent_Properties.thy ===== *)
theory Subagent_Properties
  imports Subagent_Invariants Subagent_Receipt Samples
begin

text \<open>
  What the delegation projection, the recovery and the receipts (\<open>internal/subagent\<close>) guarantee. The
  witnesses run one attempt from its request to the attached result, and a conflicting request.
\<close>

section \<open>A run\<close>

definition sample_manifest :: subagent_manifest where
  "sample_manifest = \<lparr>sgm_AttemptID = ''a1'', sgm_ParentSessionID = ''s1'',
     sgm_ParentCursor = \<lparr>cu_JournalKind = ''session'', cu_JournalID = ''s1'', cu_CommitSeq = 1, cu_TransactionID = ''t0''\<rparr>,
     sgm_ChildSessionID = ''c1'', sgm_ChildTaskID = ''ctask'', sgm_ChildTurnID = ''cturn'',
     sgm_RuntimeGenerationID = ''g'', sgm_SkillCatalogRevision = ''r1'', sgm_MaxToolCalls = 8, sgm_Deadline = 9\<rparr>"

definition sample_call :: "string \<Rightarrow> subagent_call" where
  "sample_call task = \<lparr>sgc_Task = task, sgc_ExpectedOutput = '''', sgc_Context = ''''\<rparr>"

definition in_child :: "event \<Rightarrow> event" where
  "in_child e = e\<lparr>e_Envelope := (e_Envelope e)\<lparr>en_JournalID := ''c1'', en_SessionID := ''c1'', en_TaskID := ''ctask'',
     en_TurnID := ''cturn''\<rparr>\<rparr>"

definition sample_terminal :: cursor where
  "sample_terminal = \<lparr>cu_JournalKind = ''session'', cu_JournalID = ''c1'', cu_CommitSeq = 9, cu_TransactionID = ''t9''\<rparr>"

definition sample_receipt :: subagent_receipt where
  "sample_receipt = \<lparr>sgr_Status = ''succeeded'', sgr_Summary = ''done'', sgr_Manifest = sample_manifest,
     sgr_TerminalCursor = sample_terminal, sgr_ChangedFiles = [''a.go''], sgr_CommandsAndTests = [],
     sgr_Usage = unknownUsage, sgr_EvidenceIDs = [], sgr_UnknownEffects = [], sgr_Error = None\<rparr>"

definition sample_attached :: subagent_attached where
  "sample_attached = \<lparr>sga_AttemptID = ''a1'', sga_ChildSessionID = ''c1'', sga_TerminalCursor = sample_terminal,
     sga_ReceiptDigest = sample_digest, sga_ReceiptEvidenceID = ''ev1''\<rparr>"

definition sample_requested :: "string \<Rightarrow> u64 \<Rightarrow> transaction_id \<Rightarrow> event" where
  "sample_requested task seq tx = sample_event EventSubagentRequested seq tx
     (P_SubagentRequested \<lparr>sgq_Call = sample_call task, sgq_Manifest = sample_manifest\<rparr>)"

definition sample_delegation :: "event list" where
  "sample_delegation =
     [sample_requested ''fix'' 3 ''t1'',
      sample_event EventSubagentWaiting 5 ''t2'' (P_SubagentWaiting \<lparr>sgw_AttemptID = ''a1'', sgw_ChildSessionID = ''c1''\<rparr>),
      in_child (sample_event EventSubagentManifest 1 ''t3'' (P_SubagentManifest sample_manifest)),
      in_child (sample_event EventSubagentReceipt 9 ''t9'' (P_SubagentReceipt sample_receipt)),
      sample_event EventSubagentResultAttached 7 ''t4'' (P_SubagentResultAttached sample_attached)]"

abbreviation sample_dg :: receipt_digester where
  "sample_dg \<equiv> \<lambda>r. Inr sample_digest"

abbreviation delegated :: "event list \<Rightarrow> subagent_projection res" where
  "delegated es \<equiv> subagent_run sample_dg (subagent_Zero sample_ref) es"

lemma delegated_accepts: "delegated sample_delegation = Inr (projr (delegated sample_delegation))"
proof -
  have "\<not> isl (delegated sample_delegation)" by code_simp
  then show ?thesis by simp
qed

section \<open>Properties\<close>

text \<open>
  C31. After any run of accepted events at most one attempt is incomplete or waiting, and no turn has more
  attempts than the limit of four.
\<close>

theorem one_child_at_a_time:
  assumes "subagent_run dg (subagent_Zero ref) es = Inr p"
  shows "in_flight_count (sgp_Attempts p) \<le> 1 \<and> attemptsForTurn p turn \<le> MaxSubagentAttemptsPerTurn"
  using run_ok [OF assms zero_ok] by (simp add: attempts_ok_def turn_count_def attemptsForTurn_def)

theorem one_child_at_a_time_witness:
  "in_flight_count (sgp_Attempts (projr (delegated sample_delegation))) \<le> 1
   \<and> attemptsForTurn (projr (delegated sample_delegation)) ''turn'' \<le> MaxSubagentAttemptsPerTurn"
  by (rule one_child_at_a_time [OF delegated_accepts])

text \<open>
  C32. Whatever events follow, an attempt keeps its request, and its manifest, receipt and attachment once
  it has them; an attempt in conflict stays as it is, and while there is one no other attempt is created.
\<close>

theorem delegation_results_are_kept:
  assumes "subagent_run dg (subagent_Zero ref) es = Inr p" "subagent_run dg p es' = Inr p'"
    and "map_of (sgp_Attempts p) k = Some a"
  shows "\<exists>a'. map_of (sgp_Attempts p') k = Some a' \<and> same_request a a' \<and> keeps_results a a'
    \<and> (sat_State a = StateConflict \<longrightarrow> a' = a \<and> gkeys (sgp_Attempts p') = gkeys (sgp_Attempts p))"
proof -
  have ok: "attempts_ok dg (sgp_Attempts p)" by (rule run_ok [OF assms(1) zero_ok])
  obtain a' where a': "map_of (sgp_Attempts p') k = Some a'" "(advance dg)\<^sup>*\<^sup>* a a'"
    by (rule run_attempt [OF assms(2) ok assms(3)])
  show ?thesis using a'(1) later_keeps [OF a'(2)] run_keys [OF assms(2) ok assms(3)] by blast
qed

theorem delegation_results_are_kept_witness:
  "\<exists>a'. map_of (sgp_Attempts (projr (subagent_run sample_dg (projr (delegated sample_delegation))
          [sample_requested ''other'' 11 ''t5'']))) ''a1'' = Some a'
     \<and> sat_Receipt a' = Some sample_receipt"
proof -
  let ?p = "projr (delegated sample_delegation)"
  let ?q = "subagent_run sample_dg ?p [sample_requested ''other'' 11 ''t5'']"
  have "\<not> isl ?q" by code_simp
  then have q: "?q = Inr (projr ?q)" by simp
  have "map_option sat_Receipt (map_of (sgp_Attempts ?p) ''a1'') = Some (Some sample_receipt)" by code_simp
  then obtain a where a: "map_of (sgp_Attempts ?p) ''a1'' = Some a" "sat_Receipt a = Some sample_receipt" by auto
  from delegation_results_are_kept [OF delegated_accepts q a(1)] show ?thesis
    using a(2) by (auto simp: keeps_results_def)
qed

text \<open>
  Whatever events come, an attempt takes at most seven values, absence included: it is created once
  and changes at most five times.
\<close>

theorem attempts_settle:
  "length (attempt_history dg (subagent_Zero ref) es k) \<le> 7"
  using history_bound [OF zero_ok, of dg ref es k]
  by (simp add: subagent_Zero_def attempt_rest_def)

text \<open>
  C33. For an attempt of a projected parent journal with a valid binding, recovery lets the parent go on
  exactly when the result is attached and the child's journal is there with a known commit, and then on a
  proven receipt; it lets the child be created exactly when the attempt is still in flight and the child
  is known not to exist.
\<close>

theorem recovery_resumes_attached:
  assumes "subagent_run dg (subagent_Zero ref) es = Inr p" "map_of (sgp_Attempts p) k = Some a"
    and "reconcileBinding rq a = None"
  shows "(rcr_ParentResumable (fst (Reconcile dg rq a child)) \<longleftrightarrow>
           sat_State a = StateAttached \<and> chr_Exists child \<and> chr_CommitKnown child)
    \<and> (rcr_CreateOnce (fst (Reconcile dg rq a child)) \<longleftrightarrow>
           in_flight a \<and> \<not> chr_Exists child \<and> chr_CommitKnown child)
    \<and> (rcr_ParentResumable (fst (Reconcile dg rq a child)) \<longrightarrow>
           (\<exists>r. sat_Receipt a = Some r \<and> validateReceipt dg a r = None
              \<and> rcr_ChildStatus (fst (Reconcile dg rq a child)) = sgr_Status r))"
proof -
  have "attempt_ok dg a" using run_ok [OF assms(1) zero_ok] assms(2) by (simp add: attempts_ok_def)
  then show ?thesis
    using assms(3)
    by (auto simp: Reconcile_def Let_def attempt_ok_def in_flight_def simp del: first_err_None
        split: option.splits)
qed

definition sample_reconcile :: reconcile_request where
  "sample_reconcile = \<lparr>rcq_ParentSessionID = ''s1'',
     rcq_ParentCursor = \<lparr>cu_JournalKind = ''session'', cu_JournalID = ''s1'', cu_CommitSeq = 9, cu_TransactionID = ''t4''\<rparr>,
     rcq_RuntimeID = ''g''\<rparr>"

theorem recovery_resumes_attached_witness:
  "rcr_ParentResumable (fst (Reconcile sample_dg sample_reconcile
     (the (map_of (sgp_Attempts (projr (delegated sample_delegation))) ''a1''))
     \<lparr>chr_Exists = True, chr_CommitKnown = True, chr_NoUnmatchedEffect = False\<rparr>))"
proof -
  let ?x = "map_of (sgp_Attempts (projr (delegated sample_delegation))) ''a1''"
  have "?x \<noteq> None" by code_simp
  then have x: "?x = Some (the ?x)" by simp
  have "reconcileBinding sample_reconcile (the ?x) = None" "sat_State (the ?x) = StateAttached" by code_simp+
  from recovery_resumes_attached [OF delegated_accepts x this(1)] this(2) show ?thesis by simp
qed


end
