(* ===== verification/Compaction_Ranges.thy ===== *)
theory Compaction_Ranges
  imports Main "HOL-Library.Product_Lexorder"
begin

text \<open>
  Tool exchanges as ranges of event positions, \<open>internal/compaction/selector.go\<close>: merging them, moving a
  cutoff and a start so that they split no exchange, and the groups of events that stay together. Positions
  are Go's \<open>int\<close>, small against its bounds.
\<close>

section \<open>Ranges\<close>

record exchange =
  xg_assistant :: int
  xg_result :: int

record event_group =
  eg_start :: int
  eg_end :: int

text \<open>The inner loop of \<open>exchangeSafeCutoff\<close>, then the loop until it changes nothing.\<close>

fun cutoff_pass :: "exchange list \<Rightarrow> int \<Rightarrow> int" where
  "cutoff_pass [] adjusted = adjusted"
| "cutoff_pass (x # xs) adjusted =
     cutoff_pass xs (if xg_assistant x \<le> adjusted \<and> adjusted < xg_result x then xg_assistant x - 1 else adjusted)"

lemma cutoff_pass_le: "cutoff_pass xs c \<le> c"
proof (induction xs arbitrary: c)
  case (Cons x xs)
  have "cutoff_pass xs (xg_assistant x - 1) \<le> xg_assistant x - 1" by (rule Cons)
  then show ?case using Cons [of c] by auto
qed simp

lemma cutoff_pass_cause:
  "cutoff_pass xs c \<noteq> c \<Longrightarrow> \<exists>x \<in> set xs. xg_assistant x \<le> c \<and> cutoff_pass xs c < xg_assistant x"
proof (induction xs arbitrary: c)
  case (Cons x xs)
  show ?case
  proof (cases "xg_assistant x \<le> c \<and> c < xg_result x")
    case True
    then show ?thesis using cutoff_pass_le [of xs "xg_assistant x - 1"] by auto
  next
    case False
    then have "cutoff_pass (x # xs) c = cutoff_pass xs c" by auto
    then show ?thesis using Cons by auto
  qed
qed simp

lemma length_filter_less:
  "(\<And>x. P x \<Longrightarrow> Q x) \<Longrightarrow> \<exists>x \<in> set xs. Q x \<and> \<not> P x \<Longrightarrow> length (filter P xs) < length (filter Q xs)"
proof (induction xs)
  case (Cons x xs)
  have le: "length (filter P xs) \<le> length (filter Q xs)"
    using Cons.prems(1) by (induction xs) (auto intro: le_SucI)
  show ?case
  proof (cases "Q x \<and> \<not> P x")
    case True
    then show ?thesis using le by simp
  next
    case False
    then show ?thesis using Cons by auto
  qed
qed simp

function exchangeSafeCutoff :: "exchange list \<Rightarrow> int \<Rightarrow> int" where
  "exchangeSafeCutoff xs c =
     (let adjusted = cutoff_pass xs c in if adjusted = c then c else exchangeSafeCutoff xs adjusted)"
  by pat_completeness auto
termination
proof (relation "measure (\<lambda>(xs, c). length (filter (\<lambda>x. xg_assistant x \<le> c) xs))")
  fix xs :: "exchange list" and c a :: int
  assume a: "a = cutoff_pass xs c" "a \<noteq> c"
  then have "a \<le> c" "\<exists>x \<in> set xs. xg_assistant x \<le> c \<and> a < xg_assistant x"
    using cutoff_pass_le cutoff_pass_cause by blast+
  then have "length (filter (\<lambda>x. xg_assistant x \<le> a) xs) < length (filter (\<lambda>x. xg_assistant x \<le> c) xs)"
    by (intro length_filter_less) auto
  then show "((xs, a), xs, c) \<in> measure (\<lambda>(xs, c). length (filter (\<lambda>x. xg_assistant x \<le> c) xs))" by simp
qed simp

declare exchangeSafeCutoff.simps [simp del]

fun exchangeSafeStart :: "exchange list \<Rightarrow> int \<Rightarrow> int" where
  "exchangeSafeStart [] start = start"
| "exchangeSafeStart (x # xs) start =
     exchangeSafeStart xs (if xg_assistant x < start \<and> start \<le> xg_result x then xg_result x + 1 else start)"

text \<open>The loop of \<open>mergeToolExchangeRanges\<close> over the sorted ranges; the list is built at its end.\<close>

definition merge_into :: "exchange list \<Rightarrow> exchange \<Rightarrow> exchange list" where
  "merge_into merged x =
     (if merged \<noteq> [] \<and> xg_assistant x \<le> xg_result (last merged) then
        (if xg_result x > xg_result (last merged)
         then butlast merged @ [(last merged)\<lparr>xg_result := xg_result x\<rparr>] else merged)
      else merged @ [x])"

definition mergeToolExchangeRanges :: "exchange list \<Rightarrow> exchange list" where
  "mergeToolExchangeRanges xs =
     (if length xs < 2 then xs
      else foldl merge_into [] (sort_key (\<lambda>x. (xg_assistant x, xg_result x)) xs))"

text \<open>
  \<open>eventGroups\<close>: each position is a group of its own, then the positions of an exchange get its group.
\<close>

definition group_exchange :: "event_group list \<Rightarrow> exchange \<Rightarrow> event_group list" where
  "group_exchange groups x =
     foldl (\<lambda>gs i. gs[nat i := \<lparr>eg_start = xg_assistant x, eg_end = xg_result x\<rparr>]) groups
       [xg_assistant x..xg_result x]"

definition eventGroups :: "nat \<Rightarrow> exchange list \<Rightarrow> event_group list" where
  "eventGroups count xs =
     foldl group_exchange (map (\<lambda>i. \<lparr>eg_start = int i, eg_end = int i\<rparr>) [0..<count]) xs"

section \<open>Safe cutoffs and starts\<close>

definition cutoff_safe :: "exchange list \<Rightarrow> int \<Rightarrow> bool" where
  "cutoff_safe xs c \<longleftrightarrow> (\<forall>x \<in> set xs. \<not> (xg_assistant x \<le> c \<and> c < xg_result x))"

definition start_safe :: "exchange list \<Rightarrow> int \<Rightarrow> bool" where
  "start_safe xs s \<longleftrightarrow> (\<forall>x \<in> set xs. \<not> (xg_assistant x < s \<and> s \<le> xg_result x))"

lemma cutoff_pass_fixed: "cutoff_pass xs c = c \<Longrightarrow> cutoff_safe xs c"
proof (induction xs)
  case (Cons x xs)
  show ?case
  proof (cases "xg_assistant x \<le> c \<and> c < xg_result x")
    case True
    then have "cutoff_pass (x # xs) c \<le> xg_assistant x - 1"
      using cutoff_pass_le [of xs "xg_assistant x - 1"] by simp
    then show ?thesis using True Cons.prems by simp
  next
    case False
    then have "cutoff_pass xs c = c" using Cons.prems by auto
    then show ?thesis using False Cons.IH by (auto simp: cutoff_safe_def)
  qed
qed (simp add: cutoff_safe_def)

lemma cutoff_pass_max: "cutoff_safe xs d \<Longrightarrow> d \<le> c \<Longrightarrow> d \<le> cutoff_pass xs c"
proof (induction xs arbitrary: c)
  case (Cons x xs)
  have "cutoff_safe xs d" using Cons.prems(1) by (simp add: cutoff_safe_def)
  moreover have "d \<le> (if xg_assistant x \<le> c \<and> c < xg_result x then xg_assistant x - 1 else c)"
    using Cons.prems by (auto simp: cutoff_safe_def)
  ultimately show ?case using Cons.IH by auto
qed simp

text \<open>The result is the largest safe cutoff that is not above the given one.\<close>

lemma exchangeSafeCutoff_spec:
  "cutoff_safe xs (exchangeSafeCutoff xs c) \<and> exchangeSafeCutoff xs c \<le> c
   \<and> (\<forall>d. cutoff_safe xs d \<longrightarrow> d \<le> c \<longrightarrow> d \<le> exchangeSafeCutoff xs c)"
proof (induction xs c rule: exchangeSafeCutoff.induct)
  case (1 xs c)
  show ?case
  proof (cases "cutoff_pass xs c = c")
    case True
    then show ?thesis using cutoff_pass_fixed by (simp add: exchangeSafeCutoff.simps)
  next
    case False
    have "exchangeSafeCutoff xs c = exchangeSafeCutoff xs (cutoff_pass xs c)"
      using False by (subst exchangeSafeCutoff.simps) simp
    then show ?thesis using "1" [OF refl False] cutoff_pass_le [of xs c] cutoff_pass_max [of xs _ c] by auto
  qed
qed

section \<open>Merged ranges\<close>

definition ranges_ok :: "exchange list \<Rightarrow> bool" where
  "ranges_ok xs \<longleftrightarrow> (\<forall>x \<in> set xs. 0 \<le> xg_assistant x \<and> xg_assistant x \<le> xg_result x)"

definition separated :: "exchange list \<Rightarrow> bool" where
  "separated xs \<longleftrightarrow> sorted_wrt (\<lambda>x y. xg_result x < xg_assistant y) xs"

definition covers :: "exchange \<Rightarrow> exchange \<Rightarrow> bool" where
  "covers y x \<longleftrightarrow> xg_assistant y \<le> xg_assistant x \<and> xg_result x \<le> xg_result y"

definition covered :: "exchange list \<Rightarrow> exchange list \<Rightarrow> bool" where
  "covered xs ys \<longleftrightarrow> (\<forall>x \<in> set xs. \<exists>y \<in> set ys. covers y x)"

lemma covers_trans: "covers z y \<Longrightarrow> covers y x \<Longrightarrow> covers z x"
  by (auto simp: covers_def)

definition bounded_by :: "int \<Rightarrow> exchange list \<Rightarrow> bool" where
  "bounded_by n xs \<longleftrightarrow> (\<forall>x \<in> set xs. xg_result x < n)"

lemma bounded_by_append:
  "bounded_by n (xs @ ys) \<longleftrightarrow> bounded_by n xs \<and> bounded_by n ys"
  "bounded_by n (x # xs) \<longleftrightarrow> xg_result x < n \<and> bounded_by n xs"
  by (auto simp: bounded_by_def)

lemma merge_into_step:
  assumes "separated ys" "ranges_ok (x # ys)" "\<forall>y \<in> set ys. xg_assistant y \<le> xg_assistant x"
  shows "separated (merge_into ys x) \<and> ranges_ok (merge_into ys x) \<and> covered (x # ys) (merge_into ys x)
    \<and> (\<forall>y \<in> set (merge_into ys x). xg_assistant y \<le> xg_assistant x)
    \<and> (bounded_by n (x # ys) \<longrightarrow> bounded_by n (merge_into ys x))"
proof (cases ys rule: rev_cases)
  case Nil
  then show ?thesis
    using assms by (simp add: merge_into_def separated_def ranges_ok_def covered_def covers_def bounded_by_def)
next
  case (snoc zs l)
  have zs: "separated zs" "\<forall>z \<in> set zs. xg_result z < xg_assistant l"
    using assms(1) snoc by (simp_all add: separated_def sorted_wrt_append)
  consider "xg_result l < xg_assistant x" | "xg_assistant x \<le> xg_result l" "xg_result l < xg_result x"
    | "xg_assistant x \<le> xg_result l" "xg_result x \<le> xg_result l" by linarith
  then show ?thesis
  proof cases
    case 1
    then have m: "merge_into ys x = ys @ [x]" using snoc by (simp add: merge_into_def)
    have "\<forall>y \<in> set ys. xg_result y < xg_assistant x" using zs(2) assms(3) snoc 1 by fastforce
    then have "separated (ys @ [x])" using assms(1) by (simp add: separated_def sorted_wrt_append)
    then show ?thesis using m assms(2,3) by (auto simp: ranges_ok_def covered_def covers_def bounded_by_def)
  next
    case 2
    then have m: "merge_into ys x = zs @ [l\<lparr>xg_result := xg_result x\<rparr>]" using snoc by (simp add: merge_into_def)
    have "separated (zs @ [l\<lparr>xg_result := xg_result x\<rparr>])"
      using zs by (simp add: separated_def sorted_wrt_append)
    then show ?thesis
      using m 2 assms(2,3) snoc by (fastforce simp: ranges_ok_def covered_def covers_def bounded_by_def)
  next
    case 3
    then have m: "merge_into ys x = ys" using snoc by (simp add: merge_into_def)
    have "covers l x" using 3 assms(3) snoc by (simp add: covers_def)
    then show ?thesis using m assms snoc by (auto simp: ranges_ok_def covered_def covers_def bounded_by_def)
  qed
qed

lemma merge_all:
  assumes "separated ys" "ranges_ok (ys @ xs)" "sorted (map xg_assistant xs)"
    "\<forall>y \<in> set ys. \<forall>x \<in> set xs. xg_assistant y \<le> xg_assistant x"
  shows "separated (foldl merge_into ys xs) \<and> ranges_ok (foldl merge_into ys xs)
    \<and> covered (ys @ xs) (foldl merge_into ys xs) \<and> (bounded_by n (ys @ xs) \<longrightarrow> bounded_by n (foldl merge_into ys xs))"
  using assms
proof (induction xs arbitrary: ys)
  case Nil
  then show ?case by (auto simp: covered_def covers_def)
next
  case (Cons x xs)
  have ok: "ranges_ok (x # ys)" "\<forall>y \<in> set ys. xg_assistant y \<le> xg_assistant x"
    using Cons.prems by (auto simp: ranges_ok_def)
  have st: "separated (merge_into ys x)" "ranges_ok (merge_into ys x)" "covered (x # ys) (merge_into ys x)"
    "\<forall>y \<in> set (merge_into ys x). xg_assistant y \<le> xg_assistant x"
    "bounded_by n (x # ys) \<longrightarrow> bounded_by n (merge_into ys x)"
    using merge_into_step [OF Cons.prems(1) ok] by simp_all
  have "\<forall>y \<in> set (merge_into ys x). \<forall>z \<in> set xs. xg_assistant y \<le> xg_assistant z"
    using st(4) Cons.prems(3) by fastforce
  moreover have "ranges_ok (merge_into ys x @ xs)" using st(2) Cons.prems(2) by (auto simp: ranges_ok_def)
  ultimately have ih: "separated (foldl merge_into (merge_into ys x) xs)
    \<and> ranges_ok (foldl merge_into (merge_into ys x) xs)
    \<and> covered (merge_into ys x @ xs) (foldl merge_into (merge_into ys x) xs)
    \<and> (bounded_by n (merge_into ys x @ xs) \<longrightarrow> bounded_by n (foldl merge_into (merge_into ys x) xs))"
    using Cons.IH [OF st(1)] Cons.prems(3) by simp
  have "covered (ys @ x # xs) (foldl merge_into (merge_into ys x) xs)"
    unfolding covered_def
  proof
    fix z assume "z \<in> set (ys @ x # xs)"
    then consider "z \<in> set (x # ys)" | "z \<in> set xs" by auto
    then show "\<exists>y \<in> set (foldl merge_into (merge_into ys x) xs). covers y z"
    proof cases
      case 1
      then obtain y where "y \<in> set (merge_into ys x)" "covers y z" using st(3) by (auto simp: covered_def)
      moreover have "\<exists>w \<in> set (foldl merge_into (merge_into ys x) xs). covers w y"
        using ih calculation(1) by (simp add: covered_def)
      ultimately show ?thesis using covers_trans by blast
    next
      case 2
      then show ?thesis using ih by (auto simp: covered_def)
    qed
  qed
  moreover have "bounded_by n (ys @ x # xs) \<longrightarrow> bounded_by n (foldl merge_into (merge_into ys x) xs)"
    using ih st(5) by (simp add: bounded_by_append)
  ultimately show ?case using ih by simp
qed

lemma merged_ranges:
  assumes "ranges_ok xs"
  shows "separated (mergeToolExchangeRanges xs) \<and> ranges_ok (mergeToolExchangeRanges xs)
    \<and> covered xs (mergeToolExchangeRanges xs) \<and> (bounded_by n xs \<longrightarrow> bounded_by n (mergeToolExchangeRanges xs))"
proof (cases "length xs < 2")
  case True
  then have "separated xs" by (cases xs) (auto simp: separated_def)
  then show ?thesis using True assms by (auto simp: mergeToolExchangeRanges_def covered_def covers_def)
next
  case False
  let ?s = "sort_key (\<lambda>x. (xg_assistant x, xg_result x)) xs"
  have "sorted (map (\<lambda>x. (xg_assistant x, xg_result x)) ?s)" by simp
  then have "sorted_wrt (\<lambda>x y. (xg_assistant x, xg_result x) \<le> (xg_assistant y, xg_result y)) ?s"
    unfolding sorted_map .
  then have "sorted_wrt (\<lambda>x y. xg_assistant x \<le> xg_assistant y) ?s"
    by (rule sorted_wrt_mono_rel [rotated]) auto
  then have "sorted (map xg_assistant ?s)" unfolding sorted_map .
  moreover have "ranges_ok ([] @ ?s)" using assms by (simp add: ranges_ok_def)
  ultimately show ?thesis
    using merge_all [of "[]" ?s n] False
    by (simp add: mergeToolExchangeRanges_def separated_def covered_def bounded_by_def)
qed

section \<open>A safe start\<close>

lemma exchangeSafeStart_ge: "start \<le> exchangeSafeStart xs start"
proof (induction xs arbitrary: start)
  case (Cons x xs)
  show ?case using Cons [of "xg_result x + 1"] Cons [of start] by auto
qed simp

lemma exchangeSafeStart_safe:
  assumes "separated xs" "ranges_ok xs"
  shows "start_safe xs (exchangeSafeStart xs start)"
  using assms
proof (induction xs arbitrary: start)
  case (Cons x xs)
  have sep: "separated xs" "ranges_ok xs" and above: "\<forall>y \<in> set xs. xg_result x < xg_assistant y"
    using Cons.prems by (auto simp: separated_def ranges_ok_def)
  show ?case
  proof (cases "xg_assistant x < start \<and> start \<le> xg_result x")
    case True
    have "xg_result x + 1 \<le> exchangeSafeStart xs (xg_result x + 1)" by (rule exchangeSafeStart_ge)
    then show ?thesis using True Cons.IH [OF sep, of "xg_result x + 1"] by (auto simp: start_safe_def)
  next
    case False
    show ?thesis
    proof (cases "start \<le> xg_assistant x")
      case True
      have "exchangeSafeStart ys start = start" if "\<forall>y \<in> set ys. start \<le> xg_assistant y" for ys
        using that by (induction ys) auto
      moreover have "\<forall>y \<in> set xs. start \<le> xg_assistant y" using above True Cons.prems(2) by (fastforce simp: ranges_ok_def)
      ultimately show ?thesis using True False by (auto simp: start_safe_def)
    next
      case no: False
      have "start \<le> exchangeSafeStart xs start" by (rule exchangeSafeStart_ge)
      then show ?thesis using no False Cons.IH [OF sep, of start] by (auto simp: start_safe_def)
    qed
  qed
qed (simp add: start_safe_def)

section \<open>Groups\<close>

lemma foldl_update:
  assumes "j < length gs" "\<forall>i \<in> set is. 0 \<le> i"
  shows "foldl (\<lambda>gs i. gs[nat i := g]) gs is ! j = (if int j \<in> set is then g else gs ! j)
    \<and> length (foldl (\<lambda>gs i. gs[nat i := g]) gs is) = length gs"
  using assms by (induction "is" arbitrary: gs) (auto simp: nth_list_update)

lemma group_exchange_nth:
  assumes "j < length gs" "0 \<le> xg_assistant x"
  shows "group_exchange gs x ! j =
      (if xg_assistant x \<le> int j \<and> int j \<le> xg_result x
       then \<lparr>eg_start = xg_assistant x, eg_end = xg_result x\<rparr> else gs ! j)
    \<and> length (group_exchange gs x) = length gs"
  unfolding group_exchange_def
  by (subst foldl_update) (use assms in \<open>auto simp: foldl_update\<close>)

text \<open>A position's group is that of an exchange around it, or the position alone if there is none.\<close>

definition group_of :: "exchange list \<Rightarrow> int \<Rightarrow> event_group \<Rightarrow> bool" where
  "group_of xs i g \<longleftrightarrow>
     (\<exists>x \<in> set xs. g = \<lparr>eg_start = xg_assistant x, eg_end = xg_result x\<rparr> \<and> xg_assistant x \<le> i \<and> i \<le> xg_result x)
     \<or> (g = \<lparr>eg_start = i, eg_end = i\<rparr> \<and> (\<forall>x \<in> set xs. \<not> (xg_assistant x \<le> i \<and> i \<le> xg_result x)))"

lemma eventGroups_spec:
  assumes "ranges_ok xs" "i < count"
  shows "length (eventGroups count xs) = count \<and> group_of xs (int i) (eventGroups count xs ! i)"
  using assms(1)
proof (induction xs rule: rev_induct)
  case Nil
  then show ?case using assms(2) by (simp add: eventGroups_def group_of_def)
next
  case (snoc x xs)
  have "ranges_ok xs" "0 \<le> xg_assistant x" using snoc.prems by (auto simp: ranges_ok_def)
  moreover have "eventGroups count (xs @ [x]) = group_exchange (eventGroups count xs) x" by (simp add: eventGroups_def)
  ultimately show ?case
    using snoc.IH group_exchange_nth [of i "eventGroups count xs" x] assms(2) by (auto simp: group_of_def)
qed

lemma group_of_bounds: "group_of xs i g \<Longrightarrow> eg_start g \<le> i \<and> i \<le> eg_end g"
  by (auto simp: group_of_def)

lemma group_of_safe:
  assumes "group_of xs i g" "separated xs" "ranges_ok xs"
  shows "start_safe xs (eg_start g)"
proof -
  have apart: "xg_result x < xg_assistant y \<or> xg_result y < xg_assistant x \<or> x = y" if mem: "x \<in> set xs" "y \<in> set xs" for x y
  proof -
    obtain m where m: "m < length xs" "x = xs ! m" using mem(1) by (auto simp: in_set_conv_nth)
    obtain n where n: "n < length xs" "y = xs ! n" using mem(2) by (auto simp: in_set_conv_nth)
    note mn = m n
    have lt: "xg_result (xs ! i) < xg_assistant (xs ! j)" if "i < j" "j < length xs" for i j
      using assms(2) that unfolding separated_def by (rule sorted_wrt_nth_less)
    consider "m < n" | "m = n" | "n < m" by linarith
    then show ?thesis
    proof cases
      case 1
      show ?thesis using lt [OF 1 mn(3)] unfolding mn(2,4) by simp
    next
      case 2
      then show ?thesis unfolding mn(2,4) by simp
    next
      case 3
      show ?thesis using lt [OF 3 mn(1)] unfolding mn(2,4) by simp
    qed
  qed
  have "\<not> (xg_assistant y < eg_start g \<and> eg_start g \<le> xg_result y)" if y: "y \<in> set xs" for y
  proof -
    consider x where "x \<in> set xs" "eg_start g = xg_assistant x" "xg_assistant x \<le> xg_result x"
      | "eg_start g = i" "\<not> (xg_assistant y \<le> i \<and> i \<le> xg_result y)"
      using assms(1,3) y unfolding group_of_def ranges_ok_def by force
    then show ?thesis
    proof cases
      case (1 x)
      then show ?thesis using apart [OF 1(1) y] by auto
    qed auto
  qed
  then show ?thesis by (simp add: start_safe_def)
qed

lemma group_of_within:
  assumes "group_of xs i g" "start_safe xs s" "s \<le> i"
  shows "s \<le> eg_start g"
  using assms by (fastforce simp: group_of_def start_safe_def)

end
