(* ===== verification/Compaction_Selector.thy ===== *)
theory Compaction_Selector
  imports Message_Rules Compaction_Ranges Legacy_Upcast
begin

text \<open>
  The choice of what a compaction summarises, \<open>internal/compaction/selector.go\<close>: the committed events of a
  session are checked, their tool exchanges found, and an older range of events is chosen that ends before
  the recent suffix, splits no exchange, and whose sources, with those of the suffix and of the facts that
  are still needed, fit the input limit. An event that is decoded into another type is decoded again from its
  payload; JSON encoding, decoding and digests are the record \<open>compaction_env\<close>.
\<close>

section \<open>Parameters, sources and selections\<close>

abbreviation TriggerManual :: string where "TriggerManual \<equiv> ''manual''"
abbreviation TriggerAutomatic :: string where "TriggerAutomatic \<equiv> ''automatic''"
abbreviation DefaultManualInputBytes :: int where "DefaultManualInputBytes \<equiv> 262144"
abbreviation (input) recentSuffixEvents :: int where "recentSuffixEvents \<equiv> 4"
abbreviation maxNormalizedEventBytes :: int where "maxNormalizedEventBytes \<equiv> 16384"
abbreviation ErrNothingToCompact :: string where "ErrNothingToCompact \<equiv> ''nothing safe to compact''"

record selection =
  sel_From :: cursor
  sel_Through :: cursor
  sel_Trigger :: string
  sel_RetainedEventIDs :: "event_id list"
  sel_SummarizedEventIDs :: "event_id list"
  sel_Sources :: "content_source list"
  sel_SourceDigest :: digest
  sel_InputLimitBytes :: int

text \<open>
  \<open>ce_SummaryInput\<close> is the canonical encoding of a \<open>summaryRequestBody\<close>; \<open>ce_TextDigest\<close> the value of the digest
  of a string, its error ignored; \<open>ce_Payload\<close> and \<open>ce_Decoded\<close> the canonical encoding of a raw and of a decoded
  payload.
\<close>

record compaction_env =
  ce_SourceDigest :: "content_source list \<Rightarrow> digest res"
  ce_ContentDigest :: "content_block list \<Rightarrow> digest res"
  ce_TextDigest :: "string \<Rightarrow> string"
  ce_Payload :: "string \<Rightarrow> string res"
  ce_Decoded :: "payload option \<Rightarrow> string res"
  ce_SummaryInput :: "cursor \<Rightarrow> cursor \<Rightarrow> digest \<Rightarrow> content_source option \<Rightarrow> content_source list \<Rightarrow> string res"
  ce_AssistantMessage :: "string \<Rightarrow> (content_block list \<times> tool_use_block list) option"
  ce_ToolMessage :: "string \<Rightarrow> tool_result_block list option"

section \<open>Messages of a record\<close>

definition assistantMessage :: "compaction_env \<Rightarrow> event \<Rightarrow> (content_block list \<times> tool_use_block list) option" where
  "assistantMessage ce r =
     (if en_Kind (e_Envelope r) \<noteq> EventAssistantMessage then None
      else case e_Decoded r of
          Some (P_AssistantMessage bs is) \<Rightarrow> Some (bs, is)
        | _ \<Rightarrow> (let raw = raw_bytes (en_Payload (e_Envelope r)) in
            if raw = '''' then None else ce_AssistantMessage ce raw))"

definition toolMessage :: "compaction_env \<Rightarrow> event \<Rightarrow> tool_result_block list option" where
  "toolMessage ce r =
     (if en_Kind (e_Envelope r) \<noteq> EventToolMessage then None
      else case e_Decoded r of
          Some (P_ToolMessage rs) \<Rightarrow> Some rs
        | _ \<Rightarrow> (let raw = raw_bytes (en_Payload (e_Envelope r)) in
            if raw = '''' then None else ce_ToolMessage ce raw))"

definition userMessage :: "event \<Rightarrow> string option" where
  "userMessage r = (case e_Decoded r of Some (P_UserMessage c) \<Rightarrow> Some c | _ \<Rightarrow> None)"

section \<open>Tool calls of an assistant message\<close>

text \<open>The calls seen so far, each with whether a legacy intent named it.\<close>

type_synonym call_occurrences = "(string, tool_use_block \<times> bool) gomap"

fun modern_calls :: "call_occurrences \<Rightarrow> string list \<Rightarrow> content_block list \<Rightarrow> (call_occurrences \<times> string list) res" where
  "modern_calls seen ids [] = Inr (seen, ids)"
| "modern_calls seen ids (b # bs) =
     (if cb_Kind b \<noteq> ''tool_use'' then modern_calls seen ids bs
      else case cb_ToolUse b of
          None \<Rightarrow> Inl ''invalid modern tool intent''
        | Some u \<Rightarrow>
            if ToolUseBlock_Validate u \<noteq> None then Inl ''invalid modern tool intent''
            else if map_of seen (tub_CallID u) \<noteq> None then Inl ''duplicate modern tool intent''
            else modern_calls (gput (tub_CallID u) (u, False) seen) (ids @ [tub_CallID u]) bs)"

fun legacy_calls :: "call_occurrences \<Rightarrow> string list \<Rightarrow> tool_use_block list \<Rightarrow> string list res" where
  "legacy_calls seen ids [] = Inr ids"
| "legacy_calls seen ids (u # us) =
     (if ToolUseBlock_Validate u \<noteq> None then Inl ''invalid legacy tool intent''
      else case map_of seen (tub_CallID u) of
          Some (x, legacy) \<Rightarrow>
            if legacy then Inl ''duplicate legacy tool intent''
            else if tub_Alias x \<noteq> tub_Alias u \<or> raw_bytes (tub_Arguments x) \<noteq> raw_bytes (tub_Arguments u)
            then Inl ''conflicting tool intent''
            else legacy_calls (gput (tub_CallID u) (x, True) seen) ids us
        | None \<Rightarrow> legacy_calls (gput (tub_CallID u) (u, True) seen) (ids @ [tub_CallID u]) us)"

definition assistantToolCallIDs :: "content_block list \<Rightarrow> tool_use_block list \<Rightarrow> string list res" where
  "assistantToolCallIDs bs is =
     (case modern_calls [] [] bs of Inl m \<Rightarrow> Inl m | Inr (seen, ids) \<Rightarrow> legacy_calls seen ids is)"

section \<open>Tool exchanges\<close>

definition turn_terminal_kind :: "string \<Rightarrow> bool" where
  "turn_terminal_kind k \<longleftrightarrow> k = EventTurnCompleted \<or> k = EventTurnFailed \<or> k = EventTurnInterrupted"

definition seq_at :: "event list \<Rightarrow> int \<Rightarrow> u64" where
  "seq_at events i = en_Seq (e_Envelope (events ! nat i))"

fun terminal_loop :: "event list \<Rightarrow> int \<Rightarrow> (turn_id, int) gomap \<Rightarrow> event list \<Rightarrow> (turn_id, int) gomap" where
  "terminal_loop events i m [] = m"
| "terminal_loop events i m (r # rs) =
     (let en = e_Envelope r in
      if turn_terminal_kind (en_Kind en) \<and> en_TurnID en \<noteq> ''''
         \<and> (case map_of m (en_TurnID en) of None \<Rightarrow> True | Some previous \<Rightarrow> seq_at events previous < en_Seq en)
      then terminal_loop events (i + 1) (gput (en_TurnID en) i m) rs
      else terminal_loop events (i + 1) m rs)"

definition terminalTurnIndexes :: "event list \<Rightarrow> (turn_id, int) gomap" where
  "terminalTurnIndexes events = terminal_loop events 0 [] events"

record pending_exchange =
  px_assistant :: int
  px_eventID :: event_id
  px_turnID :: turn_id
  px_sequence :: u64
  px_ordered :: "string list"
  px_remaining :: "string list"

definition flushPending ::
  "event list \<Rightarrow> (turn_id, int) gomap \<Rightarrow> pending_exchange option \<Rightarrow> exchange list \<Rightarrow> exchange list res" where
  "flushPending events terminals pending ranges =
     (case pending of
        None \<Rightarrow> Inr ranges
      | Some p \<Rightarrow>
          (let terminal = map_of terminals (px_turnID p) in
           if (case terminal of None \<Rightarrow> True | Some i \<Rightarrow> seq_at events i \<le> px_sequence p)
              \<and> list_ex (\<lambda>c. c \<in> set (px_remaining p)) (px_ordered p)
           then Inl ''assistant event has unresolved tool call''
           else Inr (ranges @ [\<lparr>xg_assistant = px_assistant p,
                                xg_result = (case terminal of None \<Rightarrow> 0 | Some i \<Rightarrow> i)\<rparr>])))"

text \<open>The loop over the results of a tool message.\<close>

fun settle_results :: "pending_exchange option \<Rightarrow> tool_result_block list \<Rightarrow> pending_exchange option res" where
  "settle_results pending [] = Inr pending"
| "settle_results pending (r # rs) =
     (case pending of
        None \<Rightarrow> Inl ''tool result is late''
      | Some p \<Rightarrow>
          if trb_CallID r \<notin> set (px_remaining p) then
            (if trb_CallID r \<in> set (px_ordered p) then Inl ''tool result is duplicate'' else Inl ''tool result is unknown'')
          else settle_results (Some (p\<lparr>px_remaining := removeAll (trb_CallID r) (px_remaining p)\<rparr>)) rs)"

text \<open>A valid tool message has results, so an exchange is pending after them.\<close>

fun exchange_scan ::
  "compaction_env \<Rightarrow> event list \<Rightarrow> (turn_id, int) gomap \<Rightarrow> int \<Rightarrow> pending_exchange option \<Rightarrow> exchange list \<Rightarrow> event list
     \<Rightarrow> exchange list res" where
  "exchange_scan ce events terminals i pending ranges [] = flushPending events terminals pending ranges"
| "exchange_scan ce events terminals i pending ranges (r # rs) =
     (let en = e_Envelope r in
      if en_Kind en = EventUserMessage then
        (case flushPending events terminals pending ranges of
           Inl m \<Rightarrow> Inl m
         | Inr ranges' \<Rightarrow> exchange_scan ce events terminals (i + 1) None ranges' rs)
      else if en_Kind en = EventAssistantMessage then
        (case flushPending events terminals pending ranges of
           Inl m \<Rightarrow> Inl m
         | Inr ranges' \<Rightarrow>
             (case assistantMessage ce r of
                None \<Rightarrow> Inl ''assistant event is invalid''
              | Some (bs, is) \<Rightarrow>
                  (case assistantToolCallIDs bs is of
                     Inl m \<Rightarrow> Inl m
                   | Inr ids \<Rightarrow>
                       exchange_scan ce events terminals (i + 1)
                         (if ids = [] then None
                          else Some \<lparr>px_assistant = i, px_eventID = en_EventID en, px_turnID = en_TurnID en,
                            px_sequence = en_Seq en, px_ordered = ids, px_remaining = ids\<rparr>) ranges' rs)))
      else if en_Kind en = EventToolMessage then
        (case toolMessage ce r of
           None \<Rightarrow> Inl ''tool message event is invalid''
         | Some results \<Rightarrow>
             (case ToolMessage_Validate results of
                Some m \<Rightarrow> Inl m
              | None \<Rightarrow>
                  (case settle_results pending results of
                     Inl m \<Rightarrow> Inl m
                   | Inr None \<Rightarrow> exchange_scan ce events terminals (i + 1) None ranges rs
                   | Inr (Some p) \<Rightarrow>
                       if px_remaining p = [] then
                         exchange_scan ce events terminals (i + 1) None
                           (ranges @ [\<lparr>xg_assistant = px_assistant p, xg_result = i\<rparr>]) rs
                       else exchange_scan ce events terminals (i + 1) (Some p) ranges rs)))
      else exchange_scan ce events terminals (i + 1) pending ranges rs)"

definition toolExchangeRanges :: "compaction_env \<Rightarrow> event list \<Rightarrow> exchange list res" where
  "toolExchangeRanges ce events =
     (case exchange_scan ce events (terminalTurnIndexes events) 0 None [] events of
        Inl m \<Rightarrow> Inl m
      | Inr ranges \<Rightarrow> Inr (mergeToolExchangeRanges ranges))"

section \<open>The committed events\<close>

definition legacy_tx :: "event_id \<Rightarrow> transaction_id" where
  "legacy_tx i = ''legacy:'' @ i"

definition legacy_envelope :: "cursor \<Rightarrow> legacy_source \<Rightarrow> envelope" where
  "legacy_envelope head l = \<lparr>en_SchemaVersion = EnvelopeVersion, en_PayloadVersion = 1,
     en_JournalKind = cu_JournalKind head, en_JournalID = cu_JournalID head, en_EventID = lg_EventID l,
     en_SessionID = lg_SessionID l, en_Seq = lg_Seq l, en_Time = lg_Time l, en_Kind = lg_Kind l, en_TaskID = '''',
     en_TurnID = '''', en_ActivityID = '''', en_ParentActivityID = '''', en_CausationEventID = '''',
     en_Actor = None, en_RuntimeGenerationID = '''', en_TransactionID = legacy_tx (lg_EventID l),
     en_Payload = lg_Payload l\<rparr>"

definition fill_envelope :: "cursor \<Rightarrow> event \<Rightarrow> event" where
  "fill_envelope head r =
     (case e_Legacy r of
        Some l \<Rightarrow>
          if en_Seq (e_Envelope r) = 0 \<and> en_EventID (e_Envelope r) = '''' then r\<lparr>e_Envelope := legacy_envelope head l\<rparr>
          else r
      | None \<Rightarrow> r)"

definition check_committed :: "cursor \<Rightarrow> bool \<Rightarrow> bool \<Rightarrow> event \<Rightarrow> string option" where
  "check_committed head first legacyPrefix r =
     (let en = e_Envelope r; legacy = (e_Legacy r \<noteq> None) in first_err
      [fail_if (en_Kind en = EventTransactionCommitted) ''transaction marker must not appear in context projection'',
       fail_if (en_JournalKind en \<noteq> cu_JournalKind head \<or> en_JournalID en \<noteq> cu_JournalID head
           \<or> en_SessionID en \<noteq> cu_JournalID head \<or> en_EventID en = '''' \<or> en_TransactionID en = '''')
         ''events are not a valid committed session journal projection: event identity'',
       fail_if (en_Seq en > cu_CommitSeq head)
         ''events are not a valid committed session journal projection: event is beyond head'',
       fail_if (first \<and> en_Seq en \<noteq> 1) ''events are not a valid committed session journal projection'',
       fail_if (legacy \<and> en_TransactionID en \<noteq> legacy_tx (en_EventID en))
         ''legacy event has an invalid derived transaction identity'',
       fail_if (legacy \<and> \<not> legacyPrefix) ''legacy records may only form a contiguous prefix''])"

fun committed_loop :: "cursor \<Rightarrow> bool \<Rightarrow> bool \<Rightarrow> event list \<Rightarrow> event list res" where
  "committed_loop head first legacyPrefix [] = Inr []"
| "committed_loop head first legacyPrefix (r # rs) =
     (let r' = fill_envelope head r in
      case check_committed head first legacyPrefix r' of
        Some m \<Rightarrow> Inl m
      | None \<Rightarrow>
          (case committed_loop head False (legacyPrefix \<and> e_Legacy r' \<noteq> None) rs of
             Inl m \<Rightarrow> Inl m
           | Inr rest \<Rightarrow> Inr (r' # rest)))"

definition legacy_record :: "event \<Rightarrow> bool" where
  "legacy_record r \<longleftrightarrow> e_Legacy r \<noteq> None \<and> en_TransactionID (e_Envelope r) = legacy_tx (en_EventID (e_Envelope r))"

definition check_pair :: "bool \<Rightarrow> event \<Rightarrow> event \<Rightarrow> string option" where
  "check_pair markerBacked prev cur =
     (let p = e_Envelope prev; c = e_Envelope cur in
      if en_Seq c \<le> en_Seq p then Some ''events are not a valid committed session journal projection''
      else if \<not> markerBacked then fail_if (en_Seq c \<noteq> en_Seq p + 1) ''legacy projection is not contiguous''
      else if legacy_record prev \<and> legacy_record cur then
        fail_if (en_Seq c \<noteq> en_Seq p + 1) ''legacy projection is not contiguous''
      else if legacy_record cur then Some ''legacy records may only form a contiguous prefix''
      else if legacy_record prev then
        fail_if (en_Seq c \<noteq> en_Seq p + 1) ''legacy to v2 transition is not contiguous''
      else first_err
        [fail_if (en_TransactionID c = en_TransactionID p \<and> en_Seq c \<noteq> en_Seq p + 1)
           ''v2 transaction has a sequence gap'',
         fail_if (en_TransactionID c \<noteq> en_TransactionID p \<and> en_Seq c \<noteq> en_Seq p + 2)
           ''v2 transactions must be separated by one marker''])"

fun check_pairs :: "bool \<Rightarrow> event list \<Rightarrow> string option" where
  "check_pairs markerBacked (p # c # rs) =
     (case check_pair markerBacked p c of Some m \<Rightarrow> Some m | None \<Rightarrow> check_pairs markerBacked (c # rs))"
| "check_pairs markerBacked rs = None"

definition committedEvents :: "event list \<Rightarrow> cursor \<Rightarrow> event list res" where
  "committedEvents events head =
     (if events = [] then Inl ErrNothingToCompact
      else case committed_loop head True True events of
          Inl m \<Rightarrow> Inl m
        | Inr committed \<Rightarrow>
            (let lst = e_Envelope (last committed);
                 markerBacked = (cu_CommitSeq head = en_Seq lst + 1) in
             if en_TransactionID lst \<noteq> cu_TransactionID head \<or> (\<not> markerBacked \<and> cu_CommitSeq head \<noteq> en_Seq lst)
             then Inl ''committed head is not present in event sequence''
             else (case check_pairs markerBacked committed of Some m \<Rightarrow> Inl m | None \<Rightarrow> Inr committed)))"

section \<open>Earlier compactions\<close>

fun eventIndexAtCursor_from :: "int \<Rightarrow> event list \<Rightarrow> cursor \<Rightarrow> int option" where
  "eventIndexAtCursor_from i [] c = None"
| "eventIndexAtCursor_from i (r # rs) c =
     (if en_Seq (e_Envelope r) = cu_CommitSeq c \<and> en_TransactionID (e_Envelope r) = cu_TransactionID c then Some i
      else eventIndexAtCursor_from (i + 1) rs c)"

definition eventIndexAtCursor :: "event list \<Rightarrow> cursor \<Rightarrow> int option" where
  "eventIndexAtCursor events c = eventIndexAtCursor_from 0 events c"

text \<open>The compaction of a record, when the loop does not pass it over.\<close>

definition usable_compaction :: "cursor \<Rightarrow> event \<Rightarrow> context_compacted option" where
  "usable_compaction head r =
     (if en_Kind (e_Envelope r) \<noteq> EventContextCompacted then None
      else case e_Decoded r of
          Some (P_ContextCompacted v) \<Rightarrow>
            if CommittedCursor_Validate (cmp_From v) \<noteq> None \<or> CommittedCursor_Validate (cmp_Through v) \<noteq> None
               \<or> cu_JournalKind (cmp_From v) \<noteq> cu_JournalKind head \<or> cu_JournalID (cmp_From v) \<noteq> cu_JournalID head
               \<or> cu_JournalKind (cmp_Through v) \<noteq> cu_JournalKind head \<or> cu_JournalID (cmp_Through v) \<noteq> cu_JournalID head
               \<or> cu_CommitSeq (cmp_From v) > cu_CommitSeq (cmp_Through v)
               \<or> cu_CommitSeq (cmp_Through v) \<ge> en_Seq (e_Envelope r)
            then None else Some v
        | _ \<Rightarrow> None)"

fun latest_loop :: "event list \<Rightarrow> cursor \<Rightarrow> int option \<Rightarrow> event list \<Rightarrow> int option" where
  "latest_loop events head latest [] = latest"
| "latest_loop events head latest (r # rs) =
     (case usable_compaction head r of
        None \<Rightarrow> latest_loop events head latest rs
      | Some v \<Rightarrow>
          (case eventIndexAtCursor events (cmp_Through v) of
             None \<Rightarrow> latest_loop events head latest rs
           | Some i \<Rightarrow>
               if (case latest of None \<Rightarrow> True | Some l \<Rightarrow> cu_CommitSeq (cmp_Through v) > seq_at events l)
               then latest_loop events head (Some i) rs else latest_loop events head latest rs))"

definition latestCompactionThrough :: "event list \<Rightarrow> cursor \<Rightarrow> int option" where
  "latestCompactionThrough events head = latest_loop events head None events"

section \<open>Facts that are still needed\<close>

definition taskIdentity :: "event \<Rightarrow> string" where
  "taskIdentity r =
     (if en_TaskID (e_Envelope r) \<noteq> '''' then en_TaskID (e_Envelope r) else ''event:'' @ en_EventID (e_Envelope r))"

definition sel_terminalTaskState :: "string \<Rightarrow> bool" where
  "sel_terminalTaskState s \<longleftrightarrow> s \<in> {''verified'', ''completed_with_waivers'', ''partial'', ''completed'', ''failed'',
     ''unknown'', ''cancelled''}"

definition outcomeIdentity :: "event \<Rightarrow> string option" where
  "outcomeIdentity r =
     (let id = (case e_Decoded r of
          Some (P_ContractDeclared v) \<Rightarrow> od_OutcomeContractID v
        | Some (P_ContractAmended v) \<Rightarrow> oa_OutcomeContractID v
        | Some (P_FinalAssessed v) \<Rightarrow> fa_OutcomeContractID v
        | _ \<Rightarrow> '''') in
      if id = '''' then None else Some id)"

text \<open>The maps are from identities to records; \<open>resolved\<close> is a set.\<close>

record safety_facts =
  sf_tasks :: "(string, event) gomap"
  sf_outcomes :: "(string, event) gomap"
  sf_requests :: "(string, event) gomap"
  sf_resolved :: "string list"

definition safety_step :: "event \<Rightarrow> safety_facts \<Rightarrow> safety_facts" where
  "safety_step r f =
     (let kind = en_Kind (e_Envelope r) in
      if kind = EventTaskCreated then f\<lparr>sf_tasks := gput (taskIdentity r) r (sf_tasks f)\<rparr>
      else if kind = EventTaskStatusChanged then
        (case e_Decoded r of
           Some (P_TaskStatusChanged v) \<Rightarrow>
             if sel_terminalTaskState (ts_To v) then f\<lparr>sf_tasks := AList.delete (taskIdentity r) (sf_tasks f)\<rparr>
             else f\<lparr>sf_tasks := gput (taskIdentity r) r (sf_tasks f)\<rparr>
         | _ \<Rightarrow> f)
      else if kind = EventOutcomeContractDeclared \<or> kind = EventOutcomeContractAmended then
        (case outcomeIdentity r of
           Some k \<Rightarrow> f\<lparr>sf_outcomes := gput k r (sf_outcomes f)\<rparr> | None \<Rightarrow> f)
      else if kind = EventOutcomeFinalAssessed then
        (case outcomeIdentity r of
           Some k \<Rightarrow> f\<lparr>sf_outcomes := AList.delete k (sf_outcomes f)\<rparr> | None \<Rightarrow> f)
      else if kind = EventAuthorizationRequested then
        (case e_Decoded r of
           Some (P_AuthorizationRequested v) \<Rightarrow>
             if rq_RequestID v \<noteq> '''' then f\<lparr>sf_requests := gput (rq_RequestID v) r (sf_requests f)\<rparr> else f
         | _ \<Rightarrow> f)
      else if kind = EventAuthorizationDecided then
        (case e_Decoded r of
           Some (P_AuthorizationDecided v) \<Rightarrow>
             if rq_RequestID (dc_Request v) \<noteq> '''' then f\<lparr>sf_resolved := rq_RequestID (dc_Request v) # sf_resolved f\<rparr>
             else f
         | _ \<Rightarrow> f)
      else f)"

definition safety_scan :: "event list \<Rightarrow> safety_facts" where
  "safety_scan events = fold safety_step events \<lparr>sf_tasks = [], sf_outcomes = [], sf_requests = [], sf_resolved = []\<rparr>"

definition activeSafetyFacts :: "event list \<Rightarrow> event list" where
  "activeSafetyFacts events =
     (let f = safety_scan events in
      sort_key (\<lambda>r. en_Seq (e_Envelope r))
        (map snd (sf_tasks f) @ map snd (sf_outcomes f)
         @ map snd (filter (\<lambda>(k, r). k \<notin> set (sf_resolved f)) (sf_requests f))))"

section \<open>Normalised sources\<close>

fun join :: "string \<Rightarrow> string list \<Rightarrow> string" where
  "join sep [] = ''''"
| "join sep [s] = s"
| "join sep (s # t # ss) = s @ sep @ join sep (t # ss)"

definition newline :: string where
  "newline = [CHR 0x0A]"

definition boundEventText :: "compaction_env \<Rightarrow> string \<Rightarrow> string" where
  "boundEventText ce v =
     (if int (length v) \<le> maxNormalizedEventBytes then v
      else take (nat maxNormalizedEventBytes) v @ newline @ ''payload_truncated_bytes='' @ show_dec (int (length v))
        @ '' digest='' @ ce_TextDigest ce v)"

definition result_text :: "tool_result_block \<Rightarrow> string" where
  "result_text r = ''tool_result call_id='' @ trb_CallID r @ '' status='' @ trb_Status r @ '' evidence_ids=''
     @ join '','' (trb_EvidenceIDs r)"

text \<open>The part of a block, if it has one.\<close>

definition block_text :: "content_block \<Rightarrow> string list" where
  "block_text b =
     (case (cb_Kind b = ''tool_result'', cb_ToolResult b) of
        (True, Some r) \<Rightarrow> [result_text r]
      | _ \<Rightarrow> if cb_Text b \<noteq> '''' then [cb_Text b] else [])"

definition normalizedEventText :: "compaction_env \<Rightarrow> event \<Rightarrow> string res" where
  "normalizedEventText ce r =
     (let en = e_Envelope r; prefix = ''kind='' @ en_Kind en @ '' event_id='' @ en_EventID en @ newline in
      case assistantMessage ce r of
        Some (bs, is) \<Rightarrow> Inr (boundEventText ce (prefix @ join newline (concat (map block_text bs))))
      | None \<Rightarrow>
          (case userMessage r of
             Some c \<Rightarrow> Inr (boundEventText ce (prefix @ c))
           | None \<Rightarrow>
               if en_Kind en = EventToolMessage then
                 (case toolMessage ce r of
                    None \<Rightarrow> Inl ''tool message event is invalid''
                  | Some results \<Rightarrow>
                      (case ToolMessage_Validate results of
                         Some m \<Rightarrow> Inl m
                       | None \<Rightarrow> Inr (boundEventText ce (prefix @ join newline (map result_text results)))))
               else (case (if raw_bytes (en_Payload en) = '''' then ce_Decoded ce (e_Decoded r)
                           else ce_Payload ce (raw_bytes (en_Payload en))) of
                   Inl m \<Rightarrow> Inl m
                 | Inr payload \<Rightarrow> Inr (boundEventText ce (prefix @ payload)))))"

definition normalizedSource :: "compaction_env \<Rightarrow> event \<Rightarrow> content_source res" where
  "normalizedSource ce r =
     (case normalizedEventText ce r of
        Inl m \<Rightarrow> Inl m
      | Inr text \<Rightarrow>
          (let content = [(empty_block ''text'')\<lparr>cb_Text := text\<rparr>] in
           case ce_ContentDigest ce content of
             Inl m \<Rightarrow> Inl m
           | Inr d \<Rightarrow> Inr \<lparr>cso_ID = en_EventID (e_Envelope r), cso_Kind = ''journal_event'', cso_Scope = ''session'',
               cso_Provenance = ''journal:'' @ en_JournalID (e_Envelope r), cso_Digest = d, cso_Content = content\<rparr>))"

fun normalized_sources :: "compaction_env \<Rightarrow> event list \<Rightarrow> content_source list res" where
  "normalized_sources ce [] = Inr []"
| "normalized_sources ce (r # rs) =
     (case normalizedSource ce r of
        Inl m \<Rightarrow> Inl m
      | Inr s \<Rightarrow> (case normalized_sources ce rs of Inl m \<Rightarrow> Inl m | Inr ss \<Rightarrow> Inr (s # ss)))"

section \<open>The bounded selection\<close>

text \<open>The set of included positions is a list.\<close>

definition group_positions :: "event_group \<Rightarrow> int list" where
  "group_positions g = [eg_start g..eg_end g]"

definition includeEventGroup :: "int list \<Rightarrow> event_group \<Rightarrow> int list" where
  "includeEventGroup included g = included @ filter (\<lambda>i. i \<notin> set included) (group_positions g)"

definition eventGroupIncluded :: "int list \<Rightarrow> event_group \<Rightarrow> bool" where
  "eventGroupIncluded included g \<longleftrightarrow> list_ex (\<lambda>i. i \<in> set included) (group_positions g)"

definition cursorFor :: "event \<Rightarrow> cursor" where
  "cursorFor r = \<lparr>cu_JournalKind = en_JournalKind (e_Envelope r), cu_JournalID = en_JournalID (e_Envelope r),
     cu_CommitSeq = en_Seq (e_Envelope r), cu_TransactionID = en_TransactionID (e_Envelope r)\<rparr>"

definition eventIDs :: "event list \<Rightarrow> event_id list" where
  "eventIDs rs = map (\<lambda>r. en_EventID (e_Envelope r)) rs"

definition slice :: "'a list \<Rightarrow> int \<Rightarrow> int \<Rightarrow> 'a list" where
  "slice xs a b = take (nat b - nat a) (drop (nat a) xs)"

fun included_sources :: "int list \<Rightarrow> int \<Rightarrow> content_source list \<Rightarrow> content_source list" where
  "included_sources included i [] = []"
| "included_sources included i (s # ss) =
     (if i \<in> set included then s # included_sources included (i + 1) ss else included_sources included (i + 1) ss)"

definition selectionFromIndexes ::
  "compaction_env \<Rightarrow> event list \<Rightarrow> content_source list \<Rightarrow> int list \<Rightarrow> int \<Rightarrow> int \<Rightarrow> string \<Rightarrow> int \<Rightarrow> selection res" where
  "selectionFromIndexes ce events sources included start cutoff trigger limit =
     (let bounded = included_sources included 0 sources in
      case ce_SourceDigest ce bounded of
        Inl m \<Rightarrow> Inl m
      | Inr d \<Rightarrow> Inr \<lparr>sel_From = cursorFor (events ! nat start), sel_Through = cursorFor (events ! nat cutoff),
          sel_Trigger = trigger, sel_RetainedEventIDs = [],
          sel_SummarizedEventIDs = eventIDs (slice events start (cutoff + 1)), sel_Sources = bounded,
          sel_SourceDigest = d, sel_InputLimitBytes = limit\<rparr>)"

definition summaryRequestInput :: "compaction_env \<Rightarrow> selection \<Rightarrow> content_source option \<Rightarrow> string res" where
  "summaryRequestInput ce sel prior =
     ce_SummaryInput ce (sel_From sel) (sel_Through sel) (sel_SourceDigest sel) prior (sel_Sources sel)"

text \<open>
  The loop from the cutoff down: the included positions and the start that were reached. The outer option is
  \<open>None\<close> when the fuel runs out.
\<close>

fun select_loop ::
  "nat \<Rightarrow> compaction_env \<Rightarrow> event list \<Rightarrow> content_source list \<Rightarrow> event_group list \<Rightarrow> int \<Rightarrow> int \<Rightarrow> string \<Rightarrow> int
     \<Rightarrow> int list \<Rightarrow> int \<Rightarrow> int \<Rightarrow> (int list \<times> int) res option" where
  "select_loop 0 ce events sources groups start cutoff trigger limit included selectedStart index =
     (if index \<ge> start then None else Some (Inr (included, selectedStart)))"
| "select_loop (Suc fuel) ce events sources groups start cutoff trigger limit included selectedStart index =
     (if index < start then Some (Inr (included, selectedStart))
      else (let g = groups ! nat index;
                required = eventGroupIncluded included g;
                included' = includeEventGroup included g in
        case selectionFromIndexes ce events sources included' (eg_start g) cutoff trigger limit of
          Inl m \<Rightarrow> Some (Inl m)
        | Inr candidate \<Rightarrow>
            (case summaryRequestInput ce candidate None of
               Inl m \<Rightarrow> Some (Inl m)
             | Inr input \<Rightarrow>
                 if int (length input) > limit then
                   (if required \<or> selectedStart > cutoff then Some (Inl ''required compaction safety facts exceed limit'')
                    else Some (Inr (included, selectedStart)))
                 else select_loop fuel ce events sources groups start cutoff trigger limit included' (eg_start g)
                        (eg_start g - 1))))"

text \<open>The positions that are included from the start: the groups of the suffix and of the safety facts.\<close>

fun position_of :: "int \<Rightarrow> event list \<Rightarrow> event_id \<Rightarrow> int option" where
  "position_of i [] k = None"
| "position_of i (r # rs) k =
     (case position_of (i + 1) rs k of
        Some j \<Rightarrow> Some j
      | None \<Rightarrow> if en_EventID (e_Envelope r) = k then Some i else None)"

definition required_positions :: "event list \<Rightarrow> event_group list \<Rightarrow> int \<Rightarrow> int list" where
  "required_positions events groups cutoff =
     fold (\<lambda>r inc. includeEventGroup inc
         (groups ! nat (case position_of 0 events (en_EventID (e_Envelope r)) of None \<Rightarrow> 0 | Some i \<Rightarrow> i)))
       (activeSafetyFacts events)
       (fold (\<lambda>i inc. includeEventGroup inc (groups ! nat i)) [cutoff + 1..int (length events) - 1] [])"

definition boundedSelection ::
  "compaction_env \<Rightarrow> event list \<Rightarrow> content_source list \<Rightarrow> event_group list \<Rightarrow> int \<Rightarrow> int \<Rightarrow> string \<Rightarrow> int
     \<Rightarrow> selection res option" where
  "boundedSelection ce events sources groups start cutoff trigger limit =
     (case select_loop (nat (cutoff + 1)) ce events sources groups start cutoff trigger limit
             (required_positions events groups cutoff) (cutoff + 1) cutoff of
        None \<Rightarrow> None
      | Some (Inl m) \<Rightarrow> Some (Inl m)
      | Some (Inr (included, selectedStart)) \<Rightarrow>
          if selectedStart > cutoff then Some (Inl ErrNothingToCompact)
          else Some (selectionFromIndexes ce events sources included selectedStart cutoff trigger limit))"

definition retainedIDs :: "event list \<Rightarrow> int \<Rightarrow> event_id list" where
  "retainedIDs events cutoff =
     (let keep = eventIDs (drop (nat (cutoff + 1)) events) @ eventIDs (activeSafetyFacts events) in
      filter (\<lambda>i. i \<in> set keep) (eventIDs events))"

section \<open>Select\<close>

definition Select ::
  "compaction_env \<Rightarrow> event list \<Rightarrow> cursor \<Rightarrow> string \<Rightarrow> int \<Rightarrow> selection res option" where
  "Select ce events head trigger manualInputBytes =
     (if CommittedCursor_Validate head \<noteq> None \<or> cu_JournalKind head \<noteq> JournalSession
      then Some (Inl ''invalid compaction head'')
      else if trigger \<noteq> TriggerManual \<and> trigger \<noteq> TriggerAutomatic then Some (Inl ''invalid compaction trigger'')
      else
        (let limit = (if manualInputBytes \<le> 0 then DefaultManualInputBytes else manualInputBytes) in
         case committedEvents events head of
           Inl m \<Rightarrow> Some (Inl m)
         | Inr committed \<Rightarrow>
             (case toolExchangeRanges ce committed of
                Inl m \<Rightarrow> Some (Inl m)
              | Inr exchanges \<Rightarrow>
                  if int (length committed) \<le> recentSuffixEvents then Some (Inl ErrNothingToCompact)
                  else
                    (let start = exchangeSafeStart exchanges
                           (case latestCompactionThrough committed head of None \<Rightarrow> 0 | Some i \<Rightarrow> i + 1);
                         cutoff = exchangeSafeCutoff exchanges (int (length committed) - recentSuffixEvents - 1) in
                     if start > cutoff then Some (Inl ErrNothingToCompact)
                     else case normalized_sources ce committed of
                         Inl m \<Rightarrow> Some (Inl m)
                       | Inr sources \<Rightarrow>
                           map_option (map_sum id (\<lambda>s. s\<lparr>sel_RetainedEventIDs := retainedIDs committed cutoff\<rparr>))
                             (boundedSelection ce committed sources (eventGroups (length committed) exchanges)
                                start cutoff trigger limit)))))"

end
