(* ===== verification/Compaction_Facts.thy ===== *)
theory Compaction_Facts
  imports Compaction_Selector
begin

text \<open>
  What the parts of the selection guarantee: committed events have increasing sequence numbers, the exchanges
  are apart and within the events, each result of a tool lies in the exchange of its call, and the loop that
  chooses the start returns and keeps to whole groups.
\<close>

section \<open>Committed events\<close>

lemma check_pairs_increasing:
  "check_pairs mb rs = None \<Longrightarrow> sorted_wrt (\<lambda>p c. en_Seq (e_Envelope p) < en_Seq (e_Envelope c)) rs"
proof (induction mb rs rule: check_pairs.induct)
  case (1 mb p c rs)
  have pair: "check_pair mb p c = None" and rest: "check_pairs mb (c # rs) = None"
    using "1.prems" by (simp_all split: option.splits)
  have "en_Seq (e_Envelope p) < en_Seq (e_Envelope c)"
    using pair by (auto simp: check_pair_def Let_def not_le split: if_splits)
  moreover have "sorted_wrt (\<lambda>p c. en_Seq (e_Envelope p) < en_Seq (e_Envelope c)) (c # rs)"
    using "1.IH" [OF pair rest] .
  ultimately show ?case by (auto intro: less_trans)
qed simp_all

lemma committedEvents_increasing:
  assumes "committedEvents events head = Inr cs"
  shows "cs \<noteq> [] \<and> sorted_wrt (\<lambda>p c. en_Seq (e_Envelope p) < en_Seq (e_Envelope c)) cs"
proof -
  obtain loop: "committed_loop head True True events = Inr cs" and "events \<noteq> []"
    and pairs: "\<exists>mb. check_pairs mb cs = None"
    using assms by (auto simp: committedEvents_def Let_def split: if_splits sum.splits option.splits)
  have "cs \<noteq> []" using loop \<open>events \<noteq> []\<close> by (cases events) (auto simp: Let_def split: option.splits sum.splits)
  then show ?thesis using pairs check_pairs_increasing by blast
qed

lemma committed_loop_checked:
  "committed_loop head first lp events = Inr cs \<Longrightarrow> r \<in> set cs \<Longrightarrow> \<exists>f l. check_committed head f l r = None"
  by (induction events arbitrary: first lp cs) (fastforce simp: Let_def split: option.splits sum.splits)+

text \<open>Every committed event is one of the head's journal, with an identity.\<close>

lemma committed_identity:
  assumes "committedEvents events head = Inr cs" "r \<in> set cs"
  shows "en_JournalKind (e_Envelope r) = cu_JournalKind head \<and> en_JournalID (e_Envelope r) = cu_JournalID head
    \<and> en_EventID (e_Envelope r) \<noteq> '''' \<and> en_TransactionID (e_Envelope r) \<noteq> ''''"
proof -
  have "committed_loop head True True events = Inr cs"
    using assms(1) by (auto simp: committedEvents_def Let_def split: if_splits sum.splits option.splits)
  then obtain f l where "check_committed head f l r = None" using committed_loop_checked assms(2) by blast
  then show ?thesis by (simp add: check_committed_def Let_def)
qed

section \<open>Exchanges\<close>

lemma terminal_loop_bounds:
  assumes "\<forall>t i. map_of m t = Some i \<longrightarrow> 0 \<le> i \<and> i < n" "0 \<le> i" "i + int (length rs) \<le> n"
    and "map_of (terminal_loop events i m rs) t = Some j"
  shows "0 \<le> j \<and> j < n"
  using assms
proof (induction rs arbitrary: i m)
  case (Cons r rs)
  let ?m = "gput (en_TurnID (e_Envelope r)) i m"
  have "\<forall>t k. map_of ?m t = Some k \<longrightarrow> 0 \<le> k \<and> k < n" using Cons.prems(1-3) by auto
  then show ?case
    using Cons.IH [of m "i + 1"] Cons.IH [of ?m "i + 1"] Cons.prems by (simp add: Let_def split: if_splits)
qed simp

lemma terminalTurnIndexes_bounds:
  "map_of (terminalTurnIndexes events) t = Some j \<Longrightarrow> 0 \<le> j \<and> j < int (length events)"
  unfolding terminalTurnIndexes_def by (rule terminal_loop_bounds [of "[]"]) auto

text \<open>An index of the map is that of an event that ends the turn.\<close>

lemma terminal_loop_kind:
  assumes "\<forall>t k. map_of m t = Some k \<longrightarrow> turn_terminal_kind (en_Kind (e_Envelope (events ! nat k)))
      \<and> en_TurnID (e_Envelope (events ! nat k)) = t"
    and "drop (nat i) events = rs" "0 \<le> i" "map_of (terminal_loop events i m rs) t = Some j"
  shows "turn_terminal_kind (en_Kind (e_Envelope (events ! nat j))) \<and> en_TurnID (e_Envelope (events ! nat j)) = t"
  using assms
proof (induction rs arbitrary: i m)
  case (Cons r rs)
  have r: "events ! nat i = r" using Cons.prems(2) by (metis hd_drop_conv_nth drop_eq_Nil list.distinct(1) list.sel(1) not_le)
  have rs: "drop (nat (i + 1)) events = rs"
    using Cons.prems(2,3) by (metis drop_Suc list.sel(3) nat_add_distrib nat_one_as_int plus_1_eq_Suc tl_drop zero_le_one add.commute)
  let ?m = "gput (en_TurnID (e_Envelope r)) i m"
  have "\<forall>t k. map_of ?m t = Some k \<longrightarrow> turn_terminal_kind (en_Kind (e_Envelope (events ! nat k)))
      \<and> en_TurnID (e_Envelope (events ! nat k)) = t" if "turn_terminal_kind (en_Kind (e_Envelope r))"
    using Cons.prems(1) r that by auto
  then show ?case
    using Cons.IH [OF _ rs, of m] Cons.IH [OF _ rs, of ?m] Cons.prems by (auto simp: Let_def split: if_splits)
qed simp

lemma terminalTurnIndexes_kind:
  "map_of (terminalTurnIndexes events) t = Some j \<Longrightarrow>
     turn_terminal_kind (en_Kind (e_Envelope (events ! nat j))) \<and> en_TurnID (e_Envelope (events ! nat j)) = t"
  unfolding terminalTurnIndexes_def by (rule terminal_loop_kind [of "[]"]) auto

section \<open>Results lie in the exchange of their call\<close>

definition event_at :: "event list \<Rightarrow> int \<Rightarrow> event" where
  "event_at events i = events ! nat i"

text \<open>The event at \<open>i\<close> calls \<open>c\<close>; the event at \<open>j\<close> has a result of \<open>c\<close>; the turn of \<open>i\<close> ends before \<open>j\<close>.\<close>

definition call_at :: "compaction_env \<Rightarrow> event list \<Rightarrow> int \<Rightarrow> string \<Rightarrow> bool" where
  "call_at ce events i c \<longleftrightarrow>
     (\<exists>bs is ids. assistantMessage ce (event_at events i) = Some (bs, is) \<and> assistantToolCallIDs bs is = Inr ids
        \<and> c \<in> set ids)"

definition result_at :: "compaction_env \<Rightarrow> event list \<Rightarrow> int \<Rightarrow> string \<Rightarrow> bool" where
  "result_at ce events j c \<longleftrightarrow>
     (\<exists>rs. toolMessage ce (event_at events j) = Some rs \<and> c \<in> trb_CallID ` set rs)"

definition turn_ended :: "event list \<Rightarrow> int \<Rightarrow> int \<Rightarrow> bool" where
  "turn_ended events i j \<longleftrightarrow>
     (\<exists>t. i < t \<and> t < j \<and> turn_terminal_kind (en_Kind (e_Envelope (event_at events t)))
        \<and> en_TurnID (e_Envelope (event_at events t)) = en_TurnID (e_Envelope (event_at events i)))"

definition holds_exchange :: "event list \<Rightarrow> exchange \<Rightarrow> int \<Rightarrow> int \<Rightarrow> bool" where
  "holds_exchange events x i j \<longleftrightarrow>
     xg_assistant x \<le> i \<and> i \<le> xg_result x \<and> (j \<le> xg_result x \<or> turn_ended events i j)"

definition pending_ok :: "compaction_env \<Rightarrow> event list \<Rightarrow> int \<Rightarrow> pending_exchange \<Rightarrow> bool" where
  "pending_ok ce events i p \<longleftrightarrow>
     0 \<le> px_assistant p \<and> px_assistant p < i \<and> px_sequence p = seq_at events (px_assistant p)
     \<and> px_turnID p = en_TurnID (e_Envelope (event_at events (px_assistant p)))
     \<and> px_remaining p \<noteq> [] \<and> set (px_remaining p) \<subseteq> set (px_ordered p)
     \<and> (\<forall>c \<in> set (px_ordered p). call_at ce events (px_assistant p) c)"

definition scan_inv ::
  "compaction_env \<Rightarrow> event list \<Rightarrow> int \<Rightarrow> pending_exchange option \<Rightarrow> exchange list \<Rightarrow> bool" where
  "scan_inv ce events i pending ranges \<longleftrightarrow>
     0 \<le> i \<and> i \<le> int (length events) \<and> ranges_ok ranges \<and> bounded_by (int (length events)) ranges
     \<and> (\<forall>p. pending = Some p \<longrightarrow> pending_ok ce events i p)
     \<and> (\<forall>j c. 0 \<le> j \<longrightarrow> j < i \<longrightarrow> result_at ce events j c \<longrightarrow>
          (\<exists>a. 0 \<le> a \<and> a < j \<and> call_at ce events a c
             \<and> ((\<exists>x \<in> set ranges. holds_exchange events x a j) \<or> (\<exists>p. pending = Some p \<and> px_assistant p = a))))"

abbreviation increasing :: "event list \<Rightarrow> bool" where
  "increasing events \<equiv> sorted_wrt (\<lambda>p c. en_Seq (e_Envelope p) < en_Seq (e_Envelope c)) events"

lemma seq_at_less:
  assumes "increasing events" "seq_at events i < seq_at events j" "0 \<le> i" "i < int (length events)" "0 \<le> j"
  shows "i < j"
proof (rule ccontr)
  assume "\<not> i < j"
  then have "nat j \<le> nat i" "nat i < length events" using assms(3,4) by (simp_all add: nat_less_iff nat_mono)
  then have "nat j = nat i \<or> en_Seq (e_Envelope (events ! nat j)) < en_Seq (e_Envelope (events ! nat i))"
    using sorted_wrt_nth_less [OF assms(1), of "nat j" "nat i"] by linarith
  then show False using assms(2) by (auto simp: seq_at_def)
qed

lemma flush_range:
  assumes "increasing events" "pending_ok ce events i p" "i \<le> int (length events)"
    and "flushPending events (terminalTurnIndexes events) (Some p) ranges = Inr ranges'"
  obtains t where "ranges' = ranges @ [\<lparr>xg_assistant = px_assistant p, xg_result = t\<rparr>]"
    "px_assistant p < t" "t < int (length events)"
    "turn_terminal_kind (en_Kind (e_Envelope (event_at events t)))"
    "en_TurnID (e_Envelope (event_at events t)) = en_TurnID (e_Envelope (event_at events (px_assistant p)))"
proof -
  obtain c where "c \<in> set (px_remaining p)"
    using assms(2) by (cases "px_remaining p") (auto simp: pending_ok_def)
  then have unresolved: "list_ex (\<lambda>c. c \<in> set (px_remaining p)) (px_ordered p)"
    using assms(2) unfolding pending_ok_def list_ex_iff by blast
  have "map_of (terminalTurnIndexes events) (px_turnID p) \<noteq> None"
  proof
    assume "map_of (terminalTurnIndexes events) (px_turnID p) = None"
    then show False using assms(4) unresolved by (simp add: flushPending_def)
  qed
  then obtain t where t1: "map_of (terminalTurnIndexes events) (px_turnID p) = Some t" by blast
  have not_stale: "\<not> seq_at events t \<le> px_sequence p"
    using assms(4) unresolved t1 by (auto simp: flushPending_def)
  then have t: "map_of (terminalTurnIndexes events) (px_turnID p) = Some t" "px_sequence p < seq_at events t"
    using t1 by simp_all
  have out: "ranges' = ranges @ [\<lparr>xg_assistant = px_assistant p, xg_result = t\<rparr>]"
    using assms(4) not_stale t1 by (simp add: flushPending_def)
  have "0 \<le> t" "t < int (length events)" using terminalTurnIndexes_bounds [OF t(1)] by simp_all
  moreover have "px_assistant p < t"
  proof (rule seq_at_less [OF assms(1)])
    show "seq_at events (px_assistant p) < seq_at events t" using assms(2) t(2) by (simp add: pending_ok_def)
    show "0 \<le> px_assistant p" "px_assistant p < int (length events)" "0 \<le> t"
      using assms(2,3) \<open>0 \<le> t\<close> by (simp_all add: pending_ok_def)
  qed
  ultimately show thesis
    using that [OF out] terminalTurnIndexes_kind [OF t(1)] assms(2) by (simp add: event_at_def pending_ok_def)
qed

lemma ranges_ok_append: "ranges_ok (xs @ ys) \<longleftrightarrow> ranges_ok xs \<and> ranges_ok ys"
  by (auto simp: ranges_ok_def)

lemma flush_inv:
  assumes "increasing events" "scan_inv ce events i pending ranges"
    and "flushPending events (terminalTurnIndexes events) pending ranges = Inr ranges'"
  shows "scan_inv ce events i None ranges'"
proof (cases pending)
  case None
  then show ?thesis using assms(2,3) by (simp add: flushPending_def)
next
  case (Some p)
  have p: "pending_ok ce events i p" "i \<le> int (length events)" using assms(2) Some by (simp_all add: scan_inv_def)
  obtain t where t: "ranges' = ranges @ [\<lparr>xg_assistant = px_assistant p, xg_result = t\<rparr>]"
    "px_assistant p < t" "t < int (length events)"
    "turn_terminal_kind (en_Kind (e_Envelope (event_at events t)))"
    "en_TurnID (e_Envelope (event_at events t)) = en_TurnID (e_Envelope (event_at events (px_assistant p)))"
    by (rule flush_range [OF assms(1) p assms(3) [unfolded Some]])
  have "holds_exchange events \<lparr>xg_assistant = px_assistant p, xg_result = t\<rparr> (px_assistant p) j" for j
    using t(2,4,5) by (auto simp: holds_exchange_def turn_ended_def)
  then show ?thesis
    using assms(2) p(1) t(1-3) Some unfolding scan_inv_def
    by (simp add: ranges_ok_append bounded_by_append ranges_ok_def pending_ok_def bounded_by_def) blast
qed

lemma skip_inv:
  assumes "scan_inv ce events i pending ranges" "i < int (length events)"
    and "en_Kind (e_Envelope (event_at events i)) \<noteq> EventToolMessage"
  shows "scan_inv ce events (i + 1) pending ranges"
proof -
  have "\<not> result_at ce events i c" for c using assms(3) by (simp add: result_at_def toolMessage_def)
  then have "j < i" if "j < i + 1" "result_at ce events j c" for j c
    using that by (cases "j = i") auto
  then show ?thesis using assms(1,2) unfolding scan_inv_def pending_ok_def by (simp add: less_SucI) fastforce
qed

lemma settle_spec:
  assumes "settle_results pending rs = Inr q" "pending = Some p"
  shows "\<exists>rem. q = Some (p\<lparr>px_remaining := rem\<rparr>) \<and> set rem \<subseteq> set (px_remaining p)
    \<and> trb_CallID ` set rs \<subseteq> set (px_remaining p)"
  using assms
proof (induction pending rs arbitrary: p rule: settle_results.induct)
  case (1 pending)
  then have "q = Some (p\<lparr>px_remaining := px_remaining p\<rparr>)" by simp
  then show ?case by (intro exI [of _ "px_remaining p"]) simp
next
  case (2 pending r rs)
  have mem: "trb_CallID r \<in> set (px_remaining p)"
    using "2.prems" by (auto split: if_splits)
  let ?p = "p\<lparr>px_remaining := removeAll (trb_CallID r) (px_remaining p)\<rparr>"
  have "settle_results (Some ?p) rs = Inr q" using "2.prems" mem by simp
  then obtain rem where "q = Some (?p\<lparr>px_remaining := rem\<rparr>)" "set rem \<subseteq> set (px_remaining ?p)"
    "trb_CallID ` set rs \<subseteq> set (px_remaining ?p)"
    using "2.IH" [OF "2.prems"(2) _ _ refl] mem by auto
  then show ?case using mem by (intro exI [of _ rem]) auto
qed

lemma tool_message_pending:
  assumes "settle_results pending rs = Inr q" "ToolMessage_Validate rs = None"
  obtains p where "pending = Some p"
  using assms by (cases rs) (auto simp: ToolMessage_Validate_def split: option.splits)

text \<open>The steps at an assistant message that calls tools and at a tool message.\<close>

lemma begin_inv:
  assumes "scan_inv ce events (i + 1) None ranges" "0 \<le> i" "ids \<noteq> []" "\<forall>c \<in> set ids. call_at ce events i c"
    and "event_at events i = r"
  shows "scan_inv ce events (i + 1) (Some \<lparr>px_assistant = i, px_eventID = eid, px_turnID = en_TurnID (e_Envelope r),
    px_sequence = en_Seq (e_Envelope r), px_ordered = ids, px_remaining = ids\<rparr>) ranges"
  using assms unfolding scan_inv_def by (auto simp: pending_ok_def seq_at_def event_at_def) blast+

lemma tool_inv:
  assumes "scan_inv ce events i (Some p) ranges" "i < int (length events)"
    and "toolMessage ce (event_at events i) = Some rs"
    and "set rem \<subseteq> set (px_remaining p)" "trb_CallID ` set rs \<subseteq> set (px_remaining p)"
  shows "rem \<noteq> [] \<Longrightarrow> scan_inv ce events (i + 1) (Some (p\<lparr>px_remaining := rem\<rparr>)) ranges"
    and "scan_inv ce events (i + 1) None (ranges @ [\<lparr>xg_assistant = px_assistant p, xg_result = i\<rparr>])"
proof -
  let ?x = "\<lparr>xg_assistant = px_assistant p, xg_result = i\<rparr>"
  have p: "pending_ok ce events i p" "0 \<le> i" using assms(1) by (simp_all add: scan_inv_def)
  have here: "call_at ce events (px_assistant p) c" if "result_at ce events i c" for c
    using that assms(3,5) p(1) by (auto simp: result_at_def pending_ok_def)
  have old: "\<exists>a. 0 \<le> a \<and> a < j \<and> call_at ce events a c
      \<and> ((\<exists>x \<in> set ranges. holds_exchange events x a j) \<or> px_assistant p = a)"
    if "0 \<le> j" "j < i + 1" "result_at ce events j c" for j c
  proof (cases "j = i")
    case True
    then show ?thesis using here that(3) p(1) by (intro exI [of _ "px_assistant p"]) (auto simp: pending_ok_def)
  next
    case False
    then show ?thesis using assms(1) that unfolding scan_inv_def by auto
  qed
  show "scan_inv ce events (i + 1) (Some (p\<lparr>px_remaining := rem\<rparr>)) ranges" if "rem \<noteq> []"
    using assms(1,2,4) p that old unfolding scan_inv_def by (auto simp: pending_ok_def)
  have "holds_exchange events ?x (px_assistant p) j" if "j < i + 1" for j
    using that p(1) by (simp add: holds_exchange_def pending_ok_def)
  then show "scan_inv ce events (i + 1) None (ranges @ [?x])"
    using assms(1,2) p old unfolding scan_inv_def
    by (simp add: ranges_ok_append bounded_by_append ranges_ok_def pending_ok_def bounded_by_def) metis
qed

lemma drop_nat_Cons:
  assumes "drop (nat i) events = r # rs" "0 \<le> i"
  shows "event_at events i = r" "drop (nat (i + 1)) events = rs" "i < int (length events)"
proof -
  have lt: "nat i < length events" using assms(1) by (metis drop_eq_Nil list.distinct(1) not_le)
  then show "event_at events i = r" "i < int (length events)"
    using assms by (simp_all add: event_at_def nat_less_iff nth_via_drop)
  have "nat (i + 1) = Suc (nat i)" using assms(2) by simp
  then show "drop (nat (i + 1)) events = rs" using assms(1) by (metis drop_Suc list.sel(3) tl_drop)
qed

lemma exchange_scan_inv:
  assumes "increasing events" "exchange_scan ce events (terminalTurnIndexes events) i pending ranges rest = Inr out"
    and "drop (nat i) events = rest" "scan_inv ce events i pending ranges"
  shows "scan_inv ce events (int (length events)) None out"
  using assms(2-4)
proof (induction rest arbitrary: i pending ranges)
  case Nil
  have "length events \<le> nat i" "0 \<le> i" "i \<le> int (length events)"
    using Nil.prems(2,3) unfolding scan_inv_def by simp_all
  then have "i = int (length events)" by linarith
  then show ?case using flush_inv [OF assms(1) Nil.prems(3)] Nil.prems(1) by simp
next
  case (Cons r rs)
  have i: "0 \<le> i" using Cons.prems(3) by (simp add: scan_inv_def)
  note at = drop_nat_Cons [OF Cons.prems(2) i]
  note IH = Cons.IH [OF _ at(2)]
  let ?k = "en_Kind (e_Envelope r)"
  consider (user) "?k = EventUserMessage" | (assistant) "?k = EventAssistantMessage" | (tool) "?k = EventToolMessage"
    | (other) "?k \<noteq> EventUserMessage" "?k \<noteq> EventAssistantMessage" "?k \<noteq> EventToolMessage" by blast
  then show ?case
  proof cases
    case user
    obtain ranges' where f: "flushPending events (terminalTurnIndexes events) pending ranges = Inr ranges'"
      and go: "exchange_scan ce events (terminalTurnIndexes events) (i + 1) None ranges' rs = Inr out"
      using Cons.prems(1) user by (auto split: sum.splits)
    show ?thesis
      by (rule IH [OF go skip_inv [OF flush_inv [OF assms(1) Cons.prems(3) f] at(3)]]) (use at(1) user in simp)
  next
    case assistant
    obtain ranges' bs "is" ids where f: "flushPending events (terminalTurnIndexes events) pending ranges = Inr ranges'"
      and msg: "assistantMessage ce r = Some (bs, is)" "assistantToolCallIDs bs is = Inr ids"
      and go: "exchange_scan ce events (terminalTurnIndexes events) (i + 1)
        (if ids = [] then None else Some \<lparr>px_assistant = i, px_eventID = en_EventID (e_Envelope r),
           px_turnID = en_TurnID (e_Envelope r), px_sequence = en_Seq (e_Envelope r), px_ordered = ids,
           px_remaining = ids\<rparr>) ranges' rs = Inr out"
      using Cons.prems(1) assistant by (auto simp: Let_def split: sum.splits option.splits prod.splits)
    have base: "scan_inv ce events (i + 1) None ranges'"
      by (rule skip_inv [OF flush_inv [OF assms(1) Cons.prems(3) f] at(3)]) (use at(1) assistant in simp)
    have calls: "\<forall>c \<in> set ids. call_at ce events i c" using msg at(1) by (auto simp: call_at_def)
    show ?thesis
      using IH [OF go] base begin_inv [OF base i _ calls at(1)] by (cases "ids = []") simp_all
  next
    case tool
    obtain results where res: "toolMessage ce r = Some results" "ToolMessage_Validate results = None"
      using Cons.prems(1) tool by (auto simp: Let_def split: option.splits)
    obtain q where q: "settle_results pending results = Inr q"
      using Cons.prems(1) tool res by (auto simp: Let_def split: sum.splits)
    obtain p where p: "pending = Some p" by (rule tool_message_pending [OF q res(2)])
    obtain rem where rem: "q = Some (p\<lparr>px_remaining := rem\<rparr>)" "set rem \<subseteq> set (px_remaining p)"
      "trb_CallID ` set results \<subseteq> set (px_remaining p)"
      using settle_spec [OF q p] by blast
    have here: "toolMessage ce (event_at events i) = Some results" using at(1) res(1) by simp
    note next_inv = tool_inv [OF Cons.prems(3) [unfolded p] at(3) here rem(2,3)]
    show ?thesis
    proof (cases "rem = []")
      case True
      then have "exchange_scan ce events (terminalTurnIndexes events) (i + 1) None
          (ranges @ [\<lparr>xg_assistant = px_assistant p, xg_result = i\<rparr>]) rs = Inr out"
        using Cons.prems(1) tool res q rem(1) by (simp add: Let_def)
      then show ?thesis by (rule IH [OF _ next_inv(2)])
    next
      case False
      then have "exchange_scan ce events (terminalTurnIndexes events) (i + 1) (Some (p\<lparr>px_remaining := rem\<rparr>))
          ranges rs = Inr out"
        using Cons.prems(1) tool res q rem(1) by (simp add: Let_def)
      then show ?thesis by (rule IH [OF _ next_inv(1) [OF False]])
    qed
  next
    case other
    then have go: "exchange_scan ce events (terminalTurnIndexes events) (i + 1) pending ranges rs = Inr out"
      using Cons.prems(1) by (simp add: Let_def)
    show ?thesis by (rule IH [OF go skip_inv [OF Cons.prems(3) at(3)]]) (use at(1) other in simp)
  qed
qed

text \<open>The exchanges of committed events.\<close>

lemma tool_exchanges:
  assumes "increasing events" "toolExchangeRanges ce events = Inr xs"
  shows "separated xs" "ranges_ok xs" "bounded_by (int (length events)) xs"
    and "0 \<le> j \<Longrightarrow> j < int (length events) \<Longrightarrow> result_at ce events j c \<Longrightarrow>
      \<exists>i. 0 \<le> i \<and> i < j \<and> call_at ce events i c \<and> (\<exists>x \<in> set xs. holds_exchange events x i j)"
proof -
  obtain raw where raw: "exchange_scan ce events (terminalTurnIndexes events) 0 None [] events = Inr raw"
    and xs: "xs = mergeToolExchangeRanges raw"
    using assms(2) by (auto simp: toolExchangeRanges_def split: sum.splits)
  have inv: "scan_inv ce events (int (length events)) None raw"
    by (rule exchange_scan_inv [OF assms(1) raw]) (simp_all add: scan_inv_def ranges_ok_def bounded_by_def)
  then have ok: "ranges_ok raw" "bounded_by (int (length events)) raw" by (simp_all add: scan_inv_def)
  note m = merged_ranges [OF ok(1), of "int (length events)"]
  show "separated xs" "ranges_ok xs" "bounded_by (int (length events)) xs" using m ok(2) xs by simp_all
  show "\<exists>i. 0 \<le> i \<and> i < j \<and> call_at ce events i c \<and> (\<exists>x \<in> set xs. holds_exchange events x i j)"
    if j: "0 \<le> j" "j < int (length events)" "result_at ce events j c"
  proof -
    obtain i x where ix: "0 \<le> i" "i < j" "call_at ce events i c" "x \<in> set raw" "holds_exchange events x i j"
      using inv j unfolding scan_inv_def by blast
    obtain y where "y \<in> set xs" "covers y x" using m ix(4) xs by (auto simp: covered_def)
    then have "holds_exchange events y i j" using ix(5) by (auto simp: holds_exchange_def covers_def)
    then show ?thesis using ix \<open>y \<in> set xs\<close> by blast
  qed
qed

section \<open>The loop that chooses the start\<close>

definition groups_ok :: "exchange list \<Rightarrow> event_group list \<Rightarrow> bool" where
  "groups_ok xs groups \<longleftrightarrow> (\<forall>i < length groups. group_of xs (int i) (groups ! i))"

lemma groups_okD:
  "groups_ok xs groups \<Longrightarrow> 0 \<le> i \<Longrightarrow> i < int (length groups) \<Longrightarrow> group_of xs i (groups ! nat i)"
  unfolding groups_ok_def using nat_less_iff [of i "length groups"] int_nat_eq [of i] by metis

text \<open>With as much fuel as there are positions from the index down, the loop returns.\<close>

lemma select_loop_returns:
  assumes "groups_ok xs groups" "0 \<le> start" "index < int (length groups)" "nat (index + 1) \<le> fuel"
  shows "select_loop fuel ce events sources groups start cutoff trigger limit included selectedStart index \<noteq> None"
  using assms(3,4)
proof (induction fuel arbitrary: included selectedStart index)
  case 0
  then show ?case using assms(2) by simp
next
  case (Suc fuel)
  show ?case
  proof (cases "index < start")
    case False
    have g: "group_of xs index (groups ! nat index)"
      by (rule groups_okD [OF assms(1)]) (use False assms(2) Suc.prems(1) in simp_all)
    have "eg_start (groups ! nat index) \<le> index" using group_of_bounds [OF g] by simp
    then have "eg_start (groups ! nat index) - 1 < int (length groups)"
      "nat (eg_start (groups ! nat index) - 1 + 1) \<le> fuel"
      using Suc.prems False assms(2) by linarith+
    then show ?thesis using False Suc.IH by (simp add: Let_def split: sum.split)
  qed simp
qed

lemma set_includeEventGroup: "set (includeEventGroup included g) = set included \<union> {eg_start g..eg_end g}"
  by (auto simp: includeEventGroup_def group_positions_def)

text \<open>The candidate for a start fits the limit.\<close>

definition fits ::
  "compaction_env \<Rightarrow> event list \<Rightarrow> content_source list \<Rightarrow> int list \<Rightarrow> int \<Rightarrow> int \<Rightarrow> string \<Rightarrow> int \<Rightarrow> bool" where
  "fits ce events sources included start cutoff trigger limit \<longleftrightarrow>
     (\<exists>sel input. selectionFromIndexes ce events sources included start cutoff trigger limit = Inr sel
        \<and> summaryRequestInput ce sel None = Inr input \<and> int (length input) \<le> limit)"

definition loop_inv ::
  "compaction_env \<Rightarrow> event list \<Rightarrow> content_source list \<Rightarrow> exchange list \<Rightarrow> int \<Rightarrow> int \<Rightarrow> string \<Rightarrow> int \<Rightarrow> int list \<Rightarrow> int \<Rightarrow> bool"
  where
  "loop_inv ce events sources xs start cutoff trigger limit included s \<longleftrightarrow>
     s = cutoff + 1
     \<or> (start \<le> s \<and> s \<le> cutoff \<and> start_safe xs s \<and> {s..cutoff} \<subseteq> set included
        \<and> fits ce events sources included s cutoff trigger limit)"

lemma select_loop_inv:
  assumes "groups_ok xs groups" "separated xs" "ranges_ok xs" "0 \<le> start" "start_safe xs start" "cutoff_safe xs cutoff"
    and "cutoff < int (length groups)"
    and "select_loop fuel ce events sources groups start cutoff trigger limit included s index = Some (Inr (included', s'))"
    and "index = s - 1" "loop_inv ce events sources xs start cutoff trigger limit included s"
  shows "loop_inv ce events sources xs start cutoff trigger limit included' s' \<and> set included \<subseteq> set included'"
  using assms(8-10)
proof (induction fuel arbitrary: included s index)
  case 0
  then show ?case by (simp split: if_splits)
next
  case (Suc fuel)
  show ?case
  proof (cases "index < start")
    case True
    then show ?thesis using Suc.prems by simp
  next
    case False
    let ?g = "groups ! nat index" and ?inc = "includeEventGroup included (groups ! nat index)"
    have index: "0 \<le> index" "index \<le> cutoff" using False assms(4) Suc.prems(2,3) by (auto simp: loop_inv_def)
    have g: "group_of xs index ?g" by (rule groups_okD [OF assms(1)]) (use index assms(7) in simp_all)
    obtain cand input where c: "selectionFromIndexes ce events sources ?inc (eg_start ?g) cutoff trigger limit = Inr cand"
      "summaryRequestInput ce cand None = Inr input"
      using Suc.prems(1) False by (auto simp: Let_def split: sum.splits)
    show ?thesis
    proof (cases "int (length input) > limit")
      case True
      then show ?thesis using Suc.prems False c by (auto simp: Let_def split: if_splits)
    next
      case fit: False
      have go: "select_loop fuel ce events sources groups start cutoff trigger limit ?inc (eg_start ?g) (eg_start ?g - 1)
          = Some (Inr (included', s'))"
        using Suc.prems(1) False c fit by (simp add: Let_def)
      have bounds: "start \<le> eg_start ?g" "eg_start ?g \<le> index" "index \<le> eg_end ?g"
        using group_of_within [OF g assms(5)] group_of_bounds [OF g] False by simp_all
      have "{eg_start ?g..cutoff} \<subseteq> set ?inc"
        using Suc.prems(2,3) bounds index by (auto simp: loop_inv_def set_includeEventGroup)
      moreover have "fits ce events sources ?inc (eg_start ?g) cutoff trigger limit"
        using c fit by (auto simp: fits_def)
      ultimately have "loop_inv ce events sources xs start cutoff trigger limit ?inc (eg_start ?g)"
        using bounds index group_of_safe [OF g assms(2,3)] by (simp add: loop_inv_def)
      then show ?thesis using Suc.IH [OF go refl] by (auto simp: set_includeEventGroup)
    qed
  qed
qed

lemma eventGroups_ok: "ranges_ok xs \<Longrightarrow> groups_ok xs (eventGroups count xs)"
proof (cases count)
  case 0
  have "length (foldl group_exchange [] xs) = 0" for xs
  proof (induction xs rule: rev_induct)
    case (snoc x xs)
    have "foldl (\<lambda>gs i. gs[nat i := g]) [] is = []" for g "is" by (induction "is") auto
    then show ?case using snoc by (simp add: group_exchange_def)
  qed simp
  then show ?thesis using 0 by (simp add: eventGroups_def groups_ok_def)
next
  case (Suc n)
  assume "ranges_ok xs"
  then show ?thesis using eventGroups_spec [of xs _ count] eventGroups_spec [of xs 0 count] Suc by (auto simp: groups_ok_def)
qed

lemma eventGroups_length: "ranges_ok xs \<Longrightarrow> 0 < count \<Longrightarrow> length (eventGroups count xs) = count"
  using eventGroups_spec [of xs 0 count] by simp

section \<open>Earlier compactions\<close>

lemma eventIndexAtCursor_spec:
  assumes "eventIndexAtCursor events c = Some k"
  shows "0 \<le> k \<and> k < int (length events) \<and> en_Seq (e_Envelope (event_at events k)) = cu_CommitSeq c"
proof -
  have "eventIndexAtCursor_from i rs c = Some k \<Longrightarrow>
      i \<le> k \<and> k < i + int (length rs) \<and> en_Seq (e_Envelope (rs ! nat (k - i))) = cu_CommitSeq c" for i rs
  proof (induction rs arbitrary: i)
    case (Cons r rs)
    show ?case
    proof (cases "k = i")
      case True
      then show ?thesis using Cons.prems Cons.IH [of "i + 1"] by (auto split: if_splits)
    next
      case False
      then have "eventIndexAtCursor_from (i + 1) rs c = Some k" using Cons.prems by (auto split: if_splits)
      then have ih: "i + 1 \<le> k \<and> k < i + 1 + int (length rs)
          \<and> en_Seq (e_Envelope (rs ! nat (k - (i + 1)))) = cu_CommitSeq c" by (rule Cons.IH)
      then have "nat (k - i) = Suc (nat (k - (i + 1)))" by linarith
      then show ?thesis using ih by simp
    qed
  qed simp
  from this [of 0 events] show ?thesis using assms by (simp add: eventIndexAtCursor_def event_at_def)
qed

definition at_least :: "event list \<Rightarrow> int option \<Rightarrow> u64 \<Rightarrow> bool" where
  "at_least events x n \<longleftrightarrow> (\<exists>l. x = Some l \<and> 0 \<le> l \<and> l < int (length events) \<and> n \<le> seq_at events l)"

lemma latest_loop_spec:
  assumes "latest = None \<or> at_least events latest 0"
  shows "(latest_loop events head latest rs = None \<or> at_least events (latest_loop events head latest rs) 0)
    \<and> (at_least events latest n \<longrightarrow> at_least events (latest_loop events head latest rs) n)
    \<and> (\<forall>r v k. r \<in> set rs \<longrightarrow> usable_compaction head r = Some v \<longrightarrow> eventIndexAtCursor events (cmp_Through v) = Some k
        \<longrightarrow> at_least events (latest_loop events head latest rs) (seq_at events k))"
  using assms
proof (induction rs arbitrary: latest n)
  case (Cons r rs)
  show ?case
  proof (cases "usable_compaction head r")
    case None
    then show ?thesis using Cons.IH [OF Cons.prems, of n] by auto
  next
    case (Some v)
    show ?thesis
    proof (cases "eventIndexAtCursor events (cmp_Through v)")
      case None
      then show ?thesis using Some Cons.IH [OF Cons.prems, of n] by auto
    next
      case k: (Some k)
      have kk: "0 \<le> k" "k < int (length events)" "seq_at events k = cu_CommitSeq (cmp_Through v)"
        using eventIndexAtCursor_spec [OF k] by (simp_all add: seq_at_def event_at_def)
      let ?new = "case latest of None \<Rightarrow> True | Some l \<Rightarrow> cu_CommitSeq (cmp_Through v) > seq_at events l"
      let ?next = "if ?new then Some k else latest"
      have loop: "latest_loop events head latest (r # rs) = latest_loop events head ?next rs"
        using Some k by simp
      have next_ok: "at_least events ?next 0" "at_least events ?next (seq_at events k)"
        "at_least events latest n \<Longrightarrow> at_least events ?next n"
        using kk Cons.prems by (auto simp: at_least_def split: option.splits)
      show ?thesis
        unfolding loop using Cons.IH [of ?next n] Cons.IH [of ?next "seq_at events k"] next_ok Some k by auto
    qed
  qed
qed simp

lemma latest_bounds:
  assumes "latestCompactionThrough events head = Some l"
  shows "0 \<le> l \<and> l < int (length events)"
  using latest_loop_spec [of None events head events] assms by (auto simp: latestCompactionThrough_def at_least_def)

lemma latest_covers:
  assumes "increasing events" "r \<in> set events" "usable_compaction head r = Some v"
    and "eventIndexAtCursor events (cmp_Through v) = Some k"
  obtains l where "latestCompactionThrough events head = Some l" "k \<le> l"
proof -
  have "at_least events (latestCompactionThrough events head) (seq_at events k)"
    using latest_loop_spec [of None events head events] assms(2-4) unfolding latestCompactionThrough_def by blast
  then obtain l where l: "latestCompactionThrough events head = Some l" "0 \<le> l" "l < int (length events)"
    "seq_at events k \<le> seq_at events l" by (auto simp: at_least_def)
  have k: "0 \<le> k" "k < int (length events)" using eventIndexAtCursor_spec [OF assms(4)] by simp_all
  have "k \<le> l"
  proof (rule ccontr)
    assume "\<not> k \<le> l"
    then have "nat l < nat k" "nat k < length events" using l(2) k by (simp_all add: nat_less_iff nat_mono_iff)
    then have "seq_at events l < seq_at events k" using sorted_wrt_nth_less [OF assms(1)] by (simp add: seq_at_def)
    then show False using l(4) by simp
  qed
  then show thesis using that l(1) by blast
qed

section \<open>What Select gives\<close>

text \<open>How a selection came about, and that the call returns.\<close>

definition selected ::
  "compaction_env \<Rightarrow> event list \<Rightarrow> cursor \<Rightarrow> string \<Rightarrow> int \<Rightarrow> selection
     \<Rightarrow> event list \<Rightarrow> exchange list \<Rightarrow> content_source list \<Rightarrow> int list \<Rightarrow> int \<Rightarrow> int \<Rightarrow> bool" where
  "selected ce events head trigger n sel committed xs sources included s cutoff \<longleftrightarrow>
     committedEvents events head = Inr committed \<and> toolExchangeRanges ce committed = Inr xs
     \<and> normalized_sources ce committed = Inr sources
     \<and> 0 \<le> s \<and> s \<le> cutoff \<and> cutoff + 4 < int (length committed) \<and> start_safe xs s \<and> cutoff_safe xs cutoff
     \<and> (\<forall>l. latestCompactionThrough committed head = Some l \<longrightarrow> l < s)
     \<and> {s..cutoff} \<subseteq> set included
     \<and> set (required_positions committed (eventGroups (length committed) xs) cutoff) \<subseteq> set included
     \<and> fits ce committed sources included s cutoff trigger (if n \<le> 0 then DefaultManualInputBytes else n)
     \<and> (\<exists>sel0. selectionFromIndexes ce committed sources included s cutoff trigger
            (if n \<le> 0 then DefaultManualInputBytes else n) = Inr sel0
          \<and> sel = sel0\<lparr>sel_RetainedEventIDs := retainedIDs committed cutoff\<rparr>)"

lemma select_result:
  assumes "Select ce events head trigger n = Some (Inr sel)"
  shows "\<exists>committed xs sources included s cutoff.
    selected ce events head trigger n sel committed xs sources included s cutoff"
proof -
  define limit where "limit = (if n \<le> 0 then DefaultManualInputBytes else n)"
  obtain committed where committed: "committedEvents events head = Inr committed"
    using assms by (auto simp: Select_def Let_def split: if_splits sum.splits)
  obtain xs where xs: "toolExchangeRanges ce committed = Inr xs"
    using assms committed by (auto simp: Select_def Let_def split: if_splits sum.splits)
  define start where "start = exchangeSafeStart xs
    (case latestCompactionThrough committed head of None \<Rightarrow> 0 | Some i \<Rightarrow> i + 1)"
  define cutoff where "cutoff = exchangeSafeCutoff xs (int (length committed) - recentSuffixEvents - 1)"
  have long: "int (length committed) > recentSuffixEvents" and le: "start \<le> cutoff"
    using assms committed xs by (auto simp: Select_def Let_def start_def cutoff_def split: if_splits)
  obtain sources where sources: "normalized_sources ce committed = Inr sources"
    using assms committed xs long le
    by (auto simp: Select_def Let_def start_def cutoff_def split: if_splits sum.splits)
  define groups where "groups = eventGroups (length committed) xs"
  have head: "CommittedCursor_Validate head = None" "cu_JournalKind head = JournalSession"
    "trigger = TriggerManual \<or> trigger = TriggerAutomatic"
    using assms by (auto simp: Select_def split: if_splits)
  have sel: "map_option (map_sum id (\<lambda>s. s\<lparr>sel_RetainedEventIDs := retainedIDs committed cutoff\<rparr>))
      (boundedSelection ce committed sources groups start cutoff trigger limit) = Some (Inr sel)"
  proof -
    have "\<not> (CommittedCursor_Validate head \<noteq> None \<or> cu_JournalKind head \<noteq> JournalSession)"
      "\<not> (trigger \<noteq> TriggerManual \<and> trigger \<noteq> TriggerAutomatic)" using head by blast+
    moreover have "\<not> int (length committed) \<le> recentSuffixEvents" "\<not> start > cutoff" using long le by simp_all
    ultimately have "Select ce events head trigger n =
        map_option (map_sum id (\<lambda>s. s\<lparr>sel_RetainedEventIDs := retainedIDs committed cutoff\<rparr>))
          (boundedSelection ce committed sources groups start cutoff trigger limit)"
      unfolding Select_def Let_def limit_def start_def cutoff_def groups_def
      by (simp only: if_False committed xs sources sum.case)
    then show ?thesis using assms by simp
  qed
  obtain z where z: "boundedSelection ce committed sources groups start cutoff trigger limit = Some z"
    "map_sum id (\<lambda>s. s\<lparr>sel_RetainedEventIDs := retainedIDs committed cutoff\<rparr>) z = Inr sel"
    using sel by auto
  then obtain sel1 where z1: "z = Inr sel1" "sel = sel1\<lparr>sel_RetainedEventIDs := retainedIDs committed cutoff\<rparr>"
    by (cases z) auto
  obtain included s sel0 where
    loop: "select_loop (nat (cutoff + 1)) ce committed sources groups start cutoff trigger limit
      (required_positions committed groups cutoff) (cutoff + 1) cutoff = Some (Inr (included, s))"
    and s: "s \<le> cutoff" "selectionFromIndexes ce committed sources included s cutoff trigger limit = Inr sel0"
    "sel = sel0\<lparr>sel_RetainedEventIDs := retainedIDs committed cutoff\<rparr>"
    using z(1) z1 by (auto simp: boundedSelection_def split: option.splits sum.splits if_splits)
  have inc: "increasing committed" using committedEvents_increasing [OF committed] by simp
  have ok: "separated xs" "ranges_ok xs" using tool_exchanges(1,2) [OF inc xs] .
  have prior: "0 \<le> (case latestCompactionThrough committed head of None \<Rightarrow> 0 | Some i \<Rightarrow> i + 1)"
    using latest_bounds [of committed head] by (auto split: option.splits)
  have start: "0 \<le> start" "start_safe xs start"
    using prior exchangeSafeStart_ge [of "case latestCompactionThrough committed head of None \<Rightarrow> 0 | Some i \<Rightarrow> i + 1" xs]
      exchangeSafeStart_safe [OF ok] by (simp_all add: start_def)
  have cut: "cutoff_safe xs cutoff" "cutoff + 4 < int (length committed)"
    using exchangeSafeCutoff_spec [of xs "int (length committed) - recentSuffixEvents - 1"]
    by (simp_all add: cutoff_def)
  have "committed \<noteq> []" using long by auto
  then have groups: "groups_ok xs groups" "cutoff < int (length groups)"
    using eventGroups_ok [OF ok(2)] eventGroups_length [OF ok(2), of "length committed"] cut(2)
    by (simp_all add: groups_def)
  have inv: "loop_inv ce committed sources xs start cutoff trigger limit included s
      \<and> set (required_positions committed groups cutoff) \<subseteq> set included"
    by (rule select_loop_inv [OF groups(1) ok start cut(1) groups(2) loop]) (simp_all add: loop_inv_def)
  have "\<forall>l. latestCompactionThrough committed head = Some l \<longrightarrow> l < start"
    using exchangeSafeStart_ge [of "case latestCompactionThrough committed head of None \<Rightarrow> 0 | Some i \<Rightarrow> i + 1" xs]
    by (auto simp: start_def)
  then have "selected ce events head trigger n sel committed xs sources included s cutoff"
    using committed xs sources inv s start(1) cut unfolding selected_def loop_inv_def limit_def groups_def by auto
  then show ?thesis by blast
qed

lemma select_returns: "\<exists>r. Select ce events head trigger n = Some r"
proof (cases "committedEvents events head")
  case (Inr committed)
  show ?thesis
  proof (cases "toolExchangeRanges ce committed")
    case xs: (Inr xs)
    have inc: "increasing committed" "committed \<noteq> []" using committedEvents_increasing [OF Inr] by simp_all
    have ok: "separated xs" "ranges_ok xs" using tool_exchanges(1,2) [OF inc(1) xs] .
    let ?start = "exchangeSafeStart xs (case latestCompactionThrough committed head of None \<Rightarrow> 0 | Some i \<Rightarrow> i + 1)"
    let ?cut = "exchangeSafeCutoff xs (int (length committed) - recentSuffixEvents - 1)"
    have "0 \<le> ?start"
      using exchangeSafeStart_ge [of "case latestCompactionThrough committed head of None \<Rightarrow> 0 | Some i \<Rightarrow> i + 1" xs]
        latest_bounds [of committed head] by (auto split: option.splits)
    moreover have "?cut < int (length (eventGroups (length committed) xs))"
      using exchangeSafeCutoff_spec [of xs "int (length committed) - recentSuffixEvents - 1"]
        eventGroups_length [OF ok(2), of "length committed"] inc(2) by simp
    ultimately have "boundedSelection ce committed sources (eventGroups (length committed) xs) ?start ?cut trigger limit
        \<noteq> None" for sources limit
      using select_loop_returns [OF eventGroups_ok [OF ok(2)]]
      by (auto simp: boundedSelection_def split: option.splits sum.splits)
    then show ?thesis using Inr xs by (auto simp: Select_def Let_def split: sum.splits)
  qed (use Inr in \<open>auto simp: Select_def Let_def\<close>)
qed (auto simp: Select_def Let_def)

section \<open>What a selection contains\<close>

lemma normalized_sources_ids: "normalized_sources ce rs = Inr ss \<Longrightarrow> map cso_ID ss = eventIDs rs"
  by (induction rs arbitrary: ss)
    (auto simp: eventIDs_def normalizedSource_def Let_def split: sum.splits)

lemma included_sources_mem:
  "j < length ss \<Longrightarrow> i + int j \<in> set inc \<Longrightarrow> ss ! j \<in> set (included_sources inc i ss)"
proof (induction ss arbitrary: i j)
  case (Cons s ss)
  then show ?case
  proof (cases j)
    case (Suc k)
    then have "ss ! k \<in> set (included_sources inc (i + 1) ss)"
      using Cons.IH [of k "i + 1"] Cons.prems by (simp add: algebra_simps)
    then show ?thesis using Suc by simp
  qed simp
qed simp

lemma set_fold_include:
  "set (fold (\<lambda>x inc. includeEventGroup inc (g x)) xs inc) = set inc \<union> (\<Union>x \<in> set xs. {eg_start (g x)..eg_end (g x)})"
  by (induction xs arbitrary: inc) (auto simp: set_includeEventGroup)

lemma position_of_spec:
  "position_of i events k = Some p \<Longrightarrow>
     i \<le> p \<and> p < i + int (length events) \<and> en_EventID (e_Envelope (events ! nat (p - i))) = k"
proof (induction events arbitrary: i)
  case (Cons r rs)
  show ?case
  proof (cases "position_of (i + 1) rs k")
    case None
    then show ?thesis using Cons.prems by (auto split: if_splits)
  next
    case (Some q)
    then have "i + 1 \<le> p \<and> p < i + 1 + int (length rs) \<and> en_EventID (e_Envelope (rs ! nat (p - (i + 1)))) = k"
      using Cons by simp
    moreover then have "nat (p - i) = Suc (nat (p - (i + 1)))" by linarith
    ultimately show ?thesis by simp
  qed
qed simp

lemma position_of_mem: "k \<in> set (eventIDs events) \<Longrightarrow> position_of i events k \<noteq> None"
  by (induction events arbitrary: i) (auto simp: eventIDs_def split: option.split)

text \<open>The facts are events.\<close>

definition facts_in :: "event set \<Rightarrow> safety_facts \<Rightarrow> bool" where
  "facts_in E f \<longleftrightarrow> snd ` set (sf_tasks f) \<subseteq> E \<and> snd ` set (sf_outcomes f) \<subseteq> E \<and> snd ` set (sf_requests f) \<subseteq> E"

lemma facts_in_simps:
  assumes "facts_in E f"
  shows "r \<in> E \<Longrightarrow> facts_in E (f\<lparr>sf_tasks := gput k r (sf_tasks f)\<rparr>)"
    "r \<in> E \<Longrightarrow> facts_in E (f\<lparr>sf_outcomes := gput k r (sf_outcomes f)\<rparr>)"
    "r \<in> E \<Longrightarrow> facts_in E (f\<lparr>sf_requests := gput k r (sf_requests f)\<rparr>)"
    "facts_in E (f\<lparr>sf_tasks := AList.delete k (sf_tasks f)\<rparr>)"
    "facts_in E (f\<lparr>sf_outcomes := AList.delete k (sf_outcomes f)\<rparr>)"
    "facts_in E (f\<lparr>sf_resolved := q\<rparr>)"
proof -
  have del: "snd ` set (AList.delete k m) \<subseteq> snd ` set m" for m :: "(string, event) gomap"
    by (auto simp: AList.delete_eq)
  have put: "snd ` set (gput k r m) \<subseteq> E" if "r \<in> E" "snd ` set m \<subseteq> E" for m :: "(string, event) gomap"
    using that set_gput [of _ k r m] by fastforce
  show "r \<in> E \<Longrightarrow> facts_in E (f\<lparr>sf_tasks := gput k r (sf_tasks f)\<rparr>)"
    "r \<in> E \<Longrightarrow> facts_in E (f\<lparr>sf_outcomes := gput k r (sf_outcomes f)\<rparr>)"
    "r \<in> E \<Longrightarrow> facts_in E (f\<lparr>sf_requests := gput k r (sf_requests f)\<rparr>)"
    using assms put by (simp_all add: facts_in_def)
  show "facts_in E (f\<lparr>sf_tasks := AList.delete k (sf_tasks f)\<rparr>)"
    "facts_in E (f\<lparr>sf_outcomes := AList.delete k (sf_outcomes f)\<rparr>)" "facts_in E (f\<lparr>sf_resolved := q\<rparr>)"
    using assms subset_trans [OF del, of "sf_tasks f" E] subset_trans [OF del, of "sf_outcomes f" E]
    by (simp_all add: facts_in_def)
qed

lemma facts_in_if: "facts_in E x \<Longrightarrow> facts_in E y \<Longrightarrow> facts_in E (if c then x else y)"
  by simp

lemma safety_step_in:
  assumes "facts_in E f" "r \<in> E"
  shows "facts_in E (safety_step r f)"
  unfolding safety_step_def Let_def
  by (intro facts_in_if; cases "e_Decoded r")
    (use assms in \<open>auto simp: facts_in_simps split: option.split payload.split\<close>)

lemma safety_scan_in: "facts_in (set events) (safety_scan events)"
proof -
  have "set es \<subseteq> set events \<Longrightarrow> facts_in (set events) f \<Longrightarrow> facts_in (set events) (fold safety_step es f)" for es f
    by (induction es arbitrary: f) (simp_all add: safety_step_in)
  then show ?thesis by (simp add: safety_scan_def facts_in_def)
qed

lemma activeSafetyFacts_mem: "set (activeSafetyFacts events) \<subseteq> set events"
proof -
  have "snd ` set (filter P m) \<subseteq> snd ` set m" for P and m :: "(string, event) gomap" by auto
  then show ?thesis
    using safety_scan_in [of events] unfolding activeSafetyFacts_def Let_def facts_in_def by simp blast
qed

lemma eventIDs_nth: "i < length rs \<Longrightarrow> eventIDs rs ! i = en_EventID (e_Envelope (rs ! i))"
  by (simp add: eventIDs_def)

text \<open>Whatever is summarised or retained is among the sources.\<close>

lemma selected_sources:
  assumes sel: "selected ce events head trigger n sel committed xs sources included s cutoff"
  shows "set (sel_SummarizedEventIDs sel) \<union> set (sel_RetainedEventIDs sel) \<subseteq> cso_ID ` set (sel_Sources sel)"
proof -
  let ?id = "\<lambda>i. en_EventID (e_Envelope (committed ! i))"
  obtain sel0 d where sources: "normalized_sources ce committed = Inr sources"
    and sel_eq: "sel_Sources sel = included_sources included 0 sources"
      "sel_SummarizedEventIDs sel = eventIDs (slice committed s (cutoff + 1))"
      "sel_RetainedEventIDs sel = retainedIDs committed cutoff"
    using sel by (auto simp: selected_def selectionFromIndexes_def Let_def split: sum.splits)
  have inc: "increasing committed" and xs: "toolExchangeRanges ce committed = Inr xs"
    using sel committedEvents_increasing by (auto simp: selected_def)
  have groups: "groups_ok xs (eventGroups (length committed) xs)" "length (eventGroups (length committed) xs) = length committed"
  proof -
    have "committed \<noteq> []" using sel by (auto simp: selected_def)
    then show "groups_ok xs (eventGroups (length committed) xs)"
      "length (eventGroups (length committed) xs) = length committed"
      using eventGroups_ok eventGroups_length tool_exchanges(2) [OF inc xs] by simp_all
  qed
  have ids: "map cso_ID sources = eventIDs committed" by (rule normalized_sources_ids [OF sources])
  then have len: "length sources = length committed" by (metis eventIDs_def length_map)
  have src: "?id j \<in> cso_ID ` set (sel_Sources sel)" if "j < length committed" "int j \<in> set included" for j
  proof -
    have "sources ! j \<in> set (sel_Sources sel)" using included_sources_mem [of j sources 0 included] that len sel_eq(1) by simp
    moreover have "cso_ID (sources ! j) = ?id j" using ids that(1) len by (metis eventIDs_nth nth_map)
    ultimately show ?thesis by force
  qed
  have req: "set (required_positions committed (eventGroups (length committed) xs) cutoff) \<subseteq> set included"
    and range: "{s..cutoff} \<subseteq> set included" "0 \<le> s" "s \<le> cutoff" "cutoff + 4 < int (length committed)"
    using sel by (simp_all add: selected_def)
  have own: "i \<in> {eg_start (eventGroups (length committed) xs ! nat i)..eg_end (eventGroups (length committed) xs ! nat i)}"
    if "0 \<le> i" "i < int (length committed)" for i
    using group_of_bounds [OF groups_okD [OF groups(1) that(1)]] that(2) groups(2) by simp
  have summarised: "k \<in> cso_ID ` set (sel_Sources sel)" if "k \<in> set (sel_SummarizedEventIDs sel)" for k
  proof -
    from that have "k \<in> set (eventIDs (slice committed s (cutoff + 1)))" by (simp add: sel_eq(2))
    then obtain i where i: "i < nat (cutoff + 1) - nat s" "k = ?id (nat s + i)" "nat s + i < length committed"
      by (auto simp: eventIDs_def slice_def in_set_conv_nth)
    have "int (nat s + i) \<in> {s..cutoff}" using i(1) range(2,3) by auto
    then show ?thesis using src [OF i(3)] range(1) i(2) by blast
  qed
  have suffix: "?id j \<in> cso_ID ` set (sel_Sources sel)" if "cutoff < int j" "j < length committed" for j
  proof -
    have "int j \<in> set [cutoff + 1..int (length committed) - 1]" using that by simp
    then have "int j \<in> (\<Union>x \<in> set [cutoff + 1..int (length committed) - 1].
        {eg_start (eventGroups (length committed) xs ! nat x)..eg_end (eventGroups (length committed) xs ! nat x)})"
      using own [of "int j"] that(2) by (intro UN_I [of "int j"]) simp_all
    then have "int j \<in> set (required_positions committed (eventGroups (length committed) xs) cutoff)"
      unfolding required_positions_def set_fold_include by blast
    then show ?thesis using src [OF that(2)] req by blast
  qed
  have fact: "en_EventID (e_Envelope r) \<in> cso_ID ` set (sel_Sources sel)" if r: "r \<in> set (activeSafetyFacts committed)" for r
  proof -
    have "en_EventID (e_Envelope r) \<in> set (eventIDs committed)"
      using r activeSafetyFacts_mem by (auto simp: eventIDs_def)
    then obtain p where p: "position_of 0 committed (en_EventID (e_Envelope r)) = Some p" using position_of_mem by blast
    have pb: "0 \<le> p" "p < int (length committed)" "?id (nat p) = en_EventID (e_Envelope r)"
      using position_of_spec [OF p] by simp_all
    have "p \<in> set (required_positions committed (eventGroups (length committed) xs) cutoff)"
      using own [OF pb(1,2)] r p unfolding required_positions_def set_fold_include by force
    then have "int (nat p) \<in> set included" using req pb(1) by auto
    then show ?thesis using src [of "nat p"] pb by (simp add: nat_less_iff)
  qed
  have "k \<in> cso_ID ` set (sel_Sources sel)" if "k \<in> set (retainedIDs committed cutoff)" for k
  proof -
    from that have "k \<in> set (eventIDs (drop (nat (cutoff + 1)) committed)) \<or> k \<in> set (eventIDs (activeSafetyFacts committed))"
      by (auto simp: retainedIDs_def)
    then show ?thesis
    proof
      assume "k \<in> set (eventIDs (drop (nat (cutoff + 1)) committed))"
      then obtain i where "i < length committed - nat (cutoff + 1)" "k = ?id (nat (cutoff + 1) + i)"
        by (auto simp: eventIDs_def in_set_conv_nth)
      then have "nat (cutoff + 1) + i < length committed" "k = ?id (nat (cutoff + 1) + i)" by simp_all
      then show ?thesis using suffix [of "nat (cutoff + 1) + i"] range(2,3) by simp
    qed (use fact in \<open>auto simp: eventIDs_def\<close>)
  qed
  then show ?thesis using summarised sel_eq(3) by auto
qed

text \<open>Committed events are numbered from one.\<close>

lemma committed_seq_pos:
  assumes "committedEvents events head = Inr cs" "r \<in> set cs"
  shows "en_Seq (e_Envelope r) \<noteq> 0"
proof -
  have loop: "committed_loop head True True events = Inr cs"
    using assms(1) by (auto simp: committedEvents_def Let_def split: if_splits sum.splits option.splits)
  obtain c0 rest where cs: "cs = c0 # rest" using assms(2) by (cases cs) auto
  have "en_Seq (e_Envelope c0) = 1"
    using loop unfolding cs
    by (cases events) (auto simp: Let_def check_committed_def split: option.splits sum.splits)
  moreover have "c0 = r \<or> en_Seq (e_Envelope c0) < en_Seq (e_Envelope r)"
    using committedEvents_increasing [OF assms(1)] assms(2) by (auto simp: cs)
  ultimately show ?thesis by auto
qed

text \<open>A selection starts after the compactions before it.\<close>

lemma selected_after:
  assumes sel: "selected ce events head trigger n sel committed xs sources included s cutoff"
    and r: "r \<in> set committed" "usable_compaction head r = Some v" "eventIndexAtCursor committed (cmp_Through v) = Some k"
  shows "cu_CommitSeq (cmp_Through v) < cu_CommitSeq (sel_From sel)"
proof -
  have inc: "increasing committed" using sel committedEvents_increasing by (auto simp: selected_def)
  obtain l where "latestCompactionThrough committed head = Some l" "k \<le> l" by (rule latest_covers [OF inc r])
  then have "k < s" using sel by (auto simp: selected_def)
  moreover have k: "0 \<le> k" "en_Seq (e_Envelope (event_at committed k)) = cu_CommitSeq (cmp_Through v)"
    using eventIndexAtCursor_spec [OF r(3)] by simp_all
  moreover have "s < int (length committed)" using sel by (auto simp: selected_def)
  ultimately have "en_Seq (e_Envelope (event_at committed k)) < en_Seq (e_Envelope (event_at committed s))"
    using sorted_wrt_nth_less [OF inc, of "nat k" "nat s"] by (simp add: event_at_def nat_less_iff nat_mono_iff)
  then show ?thesis
    using sel k(2) by (auto simp: selected_def selectionFromIndexes_def cursorFor_def event_at_def Let_def split: sum.splits)
qed

end
