(* ===== verification/Compaction_Summary.thy ===== *)
theory Compaction_Summary
  imports Compaction_Facts
begin

text \<open>
  When to compact, \<open>internal/compaction/policy.go\<close>, on signed 64-bit integers, and the request for the summary of
  a selection with the binding of its evidence, \<open>prompt.go\<close>.
\<close>

section \<open>Policy\<close>

type_synonym i64 = "64 word"

abbreviation minCompactReserveTokens :: i64 where "minCompactReserveTokens \<equiv> 2048"
abbreviation MaxInt64 :: i64 where "MaxInt64 \<equiv> 9223372036854775807"

record value_int64 =
  vi_State :: string
  vi_Value :: i64
  vi_Provenance :: string

record compaction_policy =
  cpo_AutoCompact :: bool
  cpo_CompactReserveTokens :: "i64 option"
  cpo_ManualInputBytes :: int

record compaction_decision =
  cdn_Available :: bool
  cdn_ShouldCompact :: bool
  cdn_ReserveTokens :: i64
  cdn_Reason :: string

definition decision_for :: "string \<Rightarrow> compaction_decision" where
  "decision_for reason = \<lparr>cdn_Available = False, cdn_ShouldCompact = False, cdn_ReserveTokens = 0, cdn_Reason = reason\<rparr>"

definition invalid_budget :: "string \<Rightarrow> compaction_decision \<times> string option" where
  "invalid_budget detail = (decision_for ''invalid_budget'', Some (''invalid compaction budget: '' @ detail))"

text \<open>Division of a positive number.\<close>

definition tenth :: "i64 \<Rightarrow> i64" where
  "tenth v = word_of_int (sint v div 10)"

definition Evaluate_compaction :: "i64 \<Rightarrow> i64 \<Rightarrow> value_int64 \<Rightarrow> compaction_policy \<Rightarrow> compaction_decision \<times> string option" where
  "Evaluate_compaction estimatedInput outputReserve window policy =
     (if estimatedInput <s 0 \<or> outputReserve <s 0 then invalid_budget ''negative input or output reserve''
      else if MaxInt64 - outputReserve <s estimatedInput then invalid_budget ''input and output reserve overflow''
      else if (case cpo_CompactReserveTokens policy of None \<Rightarrow> False | Some r \<Rightarrow> r \<le>s 0)
        then invalid_budget ''non-positive configured reserve''
      else if \<not> cpo_AutoCompact policy then (decision_for ''disabled'', None)
      else if vi_State window \<noteq> ValueKnown then (decision_for ''unknown_context_window'', None)
      else if vi_Value window \<le>s 0 then invalid_budget ''non-positive context window''
      else
        (let reserve0 = (if tenth (vi_Value window) <s minCompactReserveTokens then minCompactReserveTokens
                         else tenth (vi_Value window));
             reserve = (case cpo_CompactReserveTokens policy of None \<Rightarrow> reserve0 | Some r \<Rightarrow> r) in
         if vi_Value window \<le>s reserve \<or> vi_Value window - reserve \<le>s outputReserve
         then invalid_budget ''compact and output reserves do not fit''
         else if vi_Value window - reserve - outputReserve \<le>s estimatedInput
         then (\<lparr>cdn_Available = True, cdn_ShouldCompact = True, cdn_ReserveTokens = reserve,
                cdn_Reason = ''threshold_reached''\<rparr>, None)
         else (\<lparr>cdn_Available = True, cdn_ShouldCompact = False, cdn_ReserveTokens = reserve,
                cdn_Reason = ''below_threshold''\<rparr>, None)))"

section \<open>The request for a summary\<close>

abbreviation SummaryContractVersion :: string where "SummaryContractVersion \<equiv> ''compaction_summary_v1''"

definition validateSelection :: "compaction_env \<Rightarrow> selection \<Rightarrow> string option" where
  "validateSelection ce sel = first_err
     [fail_if (CommittedCursor_Validate (sel_From sel) \<noteq> None \<or> CommittedCursor_Validate (sel_Through sel) \<noteq> None
         \<or> cu_JournalKind (sel_From sel) \<noteq> JournalSession
         \<or> cu_JournalKind (sel_From sel) \<noteq> cu_JournalKind (sel_Through sel)
         \<or> cu_JournalID (sel_From sel) \<noteq> cu_JournalID (sel_Through sel)
         \<or> cu_CommitSeq (sel_From sel) > cu_CommitSeq (sel_Through sel)) ''invalid compaction selection range'',
      fail_if (sel_SummarizedEventIDs sel = [] \<or> sel_Sources sel = [] \<or> Digest_Validate (sel_SourceDigest sel) \<noteq> None)
        ''incomplete compaction selection'',
      (case ce_SourceDigest ce (sel_Sources sel) of
         Inl m \<Rightarrow> Some m
       | Inr d \<Rightarrow> fail_if (d \<noteq> sel_SourceDigest sel) ''compaction selection source digest mismatch'')]"

definition effectiveInputLimit :: "selection \<Rightarrow> int" where
  "effectiveInputLimit sel =
     (if sel_InputLimitBytes sel > 0 then sel_InputLimitBytes sel else DefaultManualInputBytes)"

text \<open>The fields of a \<open>ModelRequest\<close> that are set here; the others are zero until the orchestrator fills them.\<close>

record model_message =
  mm_Role :: string
  mm_Blocks :: "content_block list"

record model_request =
  mrq_RequestID :: string
  mrq_Messages :: "model_message list"

definition summary_contract :: string where
  "summary_contract = ''Return only canonical JSON with exactly these fields: {\"goal\":\"\",\"constraints\":[],\"decisions\":[],\"files\":[],\"commands_and_tests\":[],\"unresolved\":[],\"children\":[],\"skills\":[],\"unknown_effects\":[]}. Do not add keys or prose.''"

definition text_message :: "string \<Rightarrow> string \<Rightarrow> model_message" where
  "text_message role text = \<lparr>mm_Role = role, mm_Blocks = [(empty_block ''text'')\<lparr>cb_Text := text\<rparr>]\<rparr>"

definition BuildSummaryRequest :: "compaction_env \<Rightarrow> selection \<Rightarrow> content_source option \<Rightarrow> model_request res" where
  "BuildSummaryRequest ce sel prior =
     (case first_err
        [validateSelection ce sel,
         (case prior of
            None \<Rightarrow> None
          | Some s \<Rightarrow> fail_if (ContentSource_Validate s \<noteq> None) ''invalid prior compaction summary'')] of
        Some m \<Rightarrow> Inl m
      | None \<Rightarrow>
          (case summaryRequestInput ce sel prior of
             Inl m \<Rightarrow> Inl m
           | Inr input \<Rightarrow>
               if int (length input) > effectiveInputLimit sel then Inl ''compaction summary input exceeds limit''
               else Inr \<lparr>mrq_RequestID = ''compaction-summary-v1'',
                 mrq_Messages = [text_message ''system'' summary_contract, text_message ''user'' input]\<rparr>))"

record evidence_binding =
  ebd_ContractVersion :: string
  ebd_From :: cursor
  ebd_Through :: cursor
  ebd_SourceDigest :: digest

definition NewEvidenceBinding :: "compaction_env \<Rightarrow> selection \<Rightarrow> evidence_binding res" where
  "NewEvidenceBinding ce sel =
     (case validateSelection ce sel of
        Some m \<Rightarrow> Inl m
      | None \<Rightarrow> Inr \<lparr>ebd_ContractVersion = SummaryContractVersion, ebd_From = sel_From sel, ebd_Through = sel_Through sel,
          ebd_SourceDigest = sel_SourceDigest sel\<rparr>)"

definition EvidenceBinding_Validate :: "evidence_binding \<Rightarrow> string option" where
  "EvidenceBinding_Validate b =
     fail_if (ebd_ContractVersion b \<noteq> SummaryContractVersion \<or> CommittedCursor_Validate (ebd_From b) \<noteq> None
         \<or> CommittedCursor_Validate (ebd_Through b) \<noteq> None
         \<or> cu_JournalKind (ebd_From b) \<noteq> JournalSession \<or> cu_JournalKind (ebd_Through b) \<noteq> JournalSession
         \<or> cu_JournalKind (ebd_From b) \<noteq> cu_JournalKind (ebd_Through b)
         \<or> cu_JournalID (ebd_From b) \<noteq> cu_JournalID (ebd_Through b)
         \<or> cu_CommitSeq (ebd_From b) > cu_CommitSeq (ebd_Through b) \<or> Digest_Validate (ebd_SourceDigest b) \<noteq> None)
       ''invalid compaction evidence binding''"

section \<open>Exact arithmetic\<close>

lemma sint_sub:
  fixes a b :: i64
  assumes "- (2 ^ 63) \<le> sint a - sint b" "sint a - sint b < 2 ^ 63"
  shows "sint (a - b) = sint a - sint b"
proof -
  have "sint (a - b) = signed_take_bit 63 (sint a - sint b)" by (simp add: sint_word_ariths)
  also have "\<dots> = sint a - sint b" using assms by (intro signed_take_bit_int_eq_self) auto
  finally show ?thesis .
qed

lemma i64_range: "- (2 ^ 63) \<le> sint (a :: i64)" "sint (a :: i64) < 2 ^ 63"
  using sint_greater_eq [of a] sint_less [of a] by simp_all

lemma sint_of_range:
  assumes "- (2 ^ 63) \<le> k" "k < 2 ^ 63"
  shows "sint (word_of_int k :: i64) = k"
  using assms by (simp add: sint_sbintrunc' signed_take_bit_int_eq_self)

lemma sint_tenth: "sint (tenth v) = sint v div 10"
  using i64_range [of v] unfolding tenth_def by (intro sint_of_range) auto

lemmas i64_simps = word_sless_alt word_sle_eq sint_tenth

text \<open>The reserve over the integers.\<close>

definition compact_reserve :: "compaction_policy \<Rightarrow> int \<Rightarrow> int" where
  "compact_reserve policy window =
     (case cpo_CompactReserveTokens policy of None \<Rightarrow> max 2048 (window div 10) | Some r \<Rightarrow> sint r)"

text \<open>
  The comparisons of \<open>Evaluate\<close> are those of the integers: no subtraction it makes wraps around.
\<close>

lemma Evaluate_exact:
  assumes "Evaluate_compaction inp outp window policy = (d, err)"
  defines "w \<equiv> sint (vi_Value window)"
  defines "r \<equiv> compact_reserve policy w"
  shows "(cdn_Available d \<longleftrightarrow> 0 \<le> sint inp \<and> 0 \<le> sint outp \<and> sint inp + sint outp < 2 ^ 63
      \<and> (\<forall>c. cpo_CompactReserveTokens policy = Some c \<longrightarrow> 0 < sint c) \<and> cpo_AutoCompact policy
      \<and> vi_State window = ValueKnown \<and> 0 < w \<and> r + sint outp < w)
    \<and> (cdn_Available d \<longrightarrow> err = None \<and> sint (cdn_ReserveTokens d) = r
      \<and> (cdn_ShouldCompact d \<longleftrightarrow> w \<le> sint inp + sint outp + r))"
proof -
  have maxi: "sint MaxInt64 = 2 ^ 63 - 1" by simp
  let ?reserve = "case cpo_CompactReserveTokens policy of
    None \<Rightarrow> (if tenth (vi_Value window) <s minCompactReserveTokens then minCompactReserveTokens else tenth (vi_Value window))
    | Some r \<Rightarrow> r"
  have res: "sint ?reserve = r"
    by (simp add: r_def w_def compact_reserve_def i64_simps split: option.split)
  have out: "sint (MaxInt64 - outp) = 2 ^ 63 - 1 - sint outp" if "0 \<le> sint outp"
    using sint_sub [of MaxInt64 outp] that i64_range [of outp] maxi by simp
  have sub1: "sint (vi_Value window - ?reserve) = w - r" if "0 < w" "0 < r"
    using sint_sub [of "vi_Value window" ?reserve] that res i64_range [of "vi_Value window"] i64_range [of ?reserve]
    by (simp add: w_def)
  have sub2: "sint (vi_Value window - ?reserve - outp) = w - r - sint outp"
    if "0 < w" "0 < r" "0 \<le> sint outp" "r < w"
    using sint_sub [of "vi_Value window - ?reserve" outp] that sub1 i64_range [of "vi_Value window"] i64_range [of outp]
    by (simp add: w_def)
  have pos: "0 < r" if "\<forall>c. cpo_CompactReserveTokens policy = Some c \<longrightarrow> 0 < sint c"
    using that by (auto simp: r_def compact_reserve_def split: option.splits)
  show ?thesis
  proof (cases "0 \<le> sint inp \<and> 0 \<le> sint outp \<and> sint inp + sint outp < 2 ^ 63
      \<and> (\<forall>c. cpo_CompactReserveTokens policy = Some c \<longrightarrow> 0 < sint c) \<and> cpo_AutoCompact policy
      \<and> vi_State window = ValueKnown \<and> 0 < w")
    case True
    then have p: "0 < w" "0 < r" "0 \<le> sint outp" using pos by simp_all
    have "\<not> (inp <s 0 \<or> outp <s 0)" "\<not> MaxInt64 - outp <s inp" "\<not> vi_Value window \<le>s 0"
      "\<not> (case cpo_CompactReserveTokens policy of None \<Rightarrow> False | Some r \<Rightarrow> r \<le>s 0)"
      using True out p by (auto simp: i64_simps w_def split: option.splits)
    then have "Evaluate_compaction inp outp window policy =
       (if vi_Value window \<le>s ?reserve \<or> vi_Value window - ?reserve \<le>s outp
        then invalid_budget ''compact and output reserves do not fit''
        else if vi_Value window - ?reserve - outp \<le>s inp
        then (\<lparr>cdn_Available = True, cdn_ShouldCompact = True, cdn_ReserveTokens = ?reserve,
               cdn_Reason = ''threshold_reached''\<rparr>, None)
        else (\<lparr>cdn_Available = True, cdn_ShouldCompact = False, cdn_ReserveTokens = ?reserve,
               cdn_Reason = ''below_threshold''\<rparr>, None))"
      using True by (simp add: Evaluate_compaction_def Let_def)
    moreover have "vi_Value window \<le>s ?reserve \<longleftrightarrow> w \<le> r" using res by (simp add: word_sle_eq w_def)
    moreover have "vi_Value window - ?reserve \<le>s outp \<longleftrightarrow> w - r \<le> sint outp" using sub1 p by (simp add: word_sle_eq)
    moreover have "vi_Value window - ?reserve - outp \<le>s inp \<longleftrightarrow> w - r - sint outp \<le> sint inp" if "r < w"
      using sub2 p that by (simp add: word_sle_eq)
    ultimately show ?thesis
      using assms(1) True res p by (auto simp: invalid_budget_def decision_for_def split: if_splits)
  next
    case False
    have "\<not> cdn_Available (fst (Evaluate_compaction inp outp window policy))"
      using False out
      by (auto simp: Evaluate_compaction_def invalid_budget_def decision_for_def i64_simps w_def split: option.splits)
    then show ?thesis using assms(1) False by auto
  qed
qed

section \<open>Requests for selections\<close>

lemma selected_fits:
  assumes "selected ce events head trigger n sel committed xs sources included s cutoff"
  shows "\<exists>input. summaryRequestInput ce sel None = Inr input \<and> int (length input) \<le> effectiveInputLimit sel"
  using assms
  by (auto simp: selected_def fits_def summaryRequestInput_def effectiveInputLimit_def selectionFromIndexes_def Let_def
      split: sum.splits)

lemma selection_valid:
  assumes Select: "Select ce events head trigger n = Some (Inr sel)"
    and sel: "selected ce events head trigger n sel committed xs sources included s cutoff"
    and digest: "\<And>ss d. ce_SourceDigest ce ss = Inr d \<Longrightarrow> Digest_Validate d = None"
  shows "validateSelection ce sel = None"
proof -
  have head: "CommittedCursor_Validate head = None" "cu_JournalKind head = JournalSession"
    using Select by (auto simp: Select_def split: if_splits)
  have committed: "committedEvents events head = Inr committed" and range: "0 \<le> s" "s \<le> cutoff" "cutoff + 4 < int (length committed)"
    and ids: "normalized_sources ce committed = Inr sources" "{s..cutoff} \<subseteq> set included"
    using sel by (simp_all add: selected_def)
  have at: "committed ! nat i \<in> set committed" if "0 \<le> i" "i \<le> cutoff" for i
    using that range by (intro nth_mem) linarith
  have cursor: "CommittedCursor_Validate (cursorFor (committed ! nat i)) = None
      \<and> cu_JournalKind (cursorFor (committed ! nat i)) = JournalSession
      \<and> cu_JournalID (cursorFor (committed ! nat i)) = cu_JournalID head" if "0 \<le> i" "i \<le> cutoff" for i
    using committed_identity [OF committed at [OF that]] committed_seq_pos [OF committed at [OF that]] head
    by (simp add: CommittedCursor_Validate_def cursorFor_def)
  have le: "en_Seq (e_Envelope (committed ! nat s)) \<le> en_Seq (e_Envelope (committed ! nat cutoff))"
  proof (cases "s = cutoff")
    case False
    then have "nat s < nat cutoff" "nat cutoff < length committed" using range by linarith+
    then show ?thesis
      using sorted_wrt_nth_less committedEvents_increasing [OF committed] by (metis less_imp_le)
  qed simp
  have "length sources = length committed"
    using normalized_sources_ids [OF ids(1)] by (metis eventIDs_def length_map)
  then have "sources ! nat s \<in> set (included_sources included 0 sources)"
    using included_sources_mem [of "nat s" sources 0 included] ids(2) range by auto
  then have src: "included_sources included 0 sources \<noteq> []" by auto
  have sum: "eventIDs (slice committed s (cutoff + 1)) \<noteq> []"
    using range nat_less_iff [of s "length committed"] by (auto simp: eventIDs_def slice_def not_le)
  obtain d where d: "ce_SourceDigest ce (included_sources included 0 sources) = Inr d"
    and fields: "sel_From sel = cursorFor (committed ! nat s)" "sel_Through sel = cursorFor (committed ! nat cutoff)"
      "sel_SummarizedEventIDs sel = eventIDs (slice committed s (cutoff + 1))"
      "sel_Sources sel = included_sources included 0 sources" "sel_SourceDigest sel = d"
    using sel by (auto simp: selected_def selectionFromIndexes_def Let_def split: sum.splits)
  have seqs: "cu_CommitSeq (cursorFor (committed ! nat s)) \<le> cu_CommitSeq (cursorFor (committed ! nat cutoff))"
    using le by (simp add: cursorFor_def)
  show ?thesis
    using cursor [of s] cursor [of cutoff] range seqs src sum d digest [OF d]
    by (auto simp: validateSelection_def fields not_less)
qed

end
