(* ===== verification/Compaction_Properties.thy ===== *)
theory Compaction_Properties
  imports Compaction_Summary Samples
begin

text \<open>
  What the compaction of a session (\<open>internal/compaction\<close>) guarantees. The witnesses compact a session of eight
  events in which a tool is called.
\<close>

section \<open>A session\<close>

definition session_event :: "string \<Rightarrow> nat \<Rightarrow> payload \<Rightarrow> event" where
  "session_event kind n v = (sample_event kind (of_nat n) ''t1'' v)\<lparr>e_Envelope :=
     (sample_envelope kind (of_nat n) ''t1'')\<lparr>en_EventID := ''e'' @ show_dec (int n)\<rparr>\<rparr>"

definition sample_call_block :: content_block where
  "sample_call_block = (empty_block ''tool_use'')\<lparr>cb_ToolUse :=
     Some \<lparr>tub_CallID = ''c'', tub_Alias = ''read'', tub_Arguments = Some ''{}''\<rparr>\<rparr>"

definition sample_session :: "event list" where
  "sample_session =
     [session_event EventUserMessage 1 (P_UserMessage ''go''),
      session_event EventAssistantMessage 2 (P_AssistantMessage [sample_call_block] []),
      session_event EventToolMessage 3 (P_ToolMessage
        [\<lparr>trb_CallID = ''c'', trb_Status = ''succeeded'', trb_Text = ''ok'', trb_JSON = None, trb_EvidenceIDs = []\<rparr>]),
      session_event EventUserMessage 4 (P_UserMessage ''on''),
      session_event EventUserMessage 5 (P_UserMessage ''a''), session_event EventUserMessage 6 (P_UserMessage ''b''),
      session_event EventUserMessage 7 (P_UserMessage ''c''), session_event EventUserMessage 8 (P_UserMessage ''d'')]"

definition sample_head :: cursor where
  "sample_head = \<lparr>cu_JournalKind = ''session'', cu_JournalID = ''s1'', cu_CommitSeq = 9, cu_TransactionID = ''t1''\<rparr>"

definition sample_compaction :: compaction_env where
  "sample_compaction = \<lparr>ce_SourceDigest = \<lambda>_. Inr sample_digest, ce_ContentDigest = \<lambda>_. Inr sample_digest,
     ce_TextDigest = \<lambda>_. sample_hex, ce_Payload = Inr, ce_Decoded = \<lambda>_. Inr ''null'',
     ce_SummaryInput = \<lambda>f t d p ss. Inr (replicate (length ss) CHR ''s''),
     ce_AssistantMessage = \<lambda>_. None, ce_ToolMessage = \<lambda>_. None\<rparr>"

definition compacted :: selection where
  "compacted = projr (the (Select sample_compaction sample_session sample_head TriggerManual 0))"

lemma compacts: "Select sample_compaction sample_session sample_head TriggerManual 0 = Some (Inr compacted)"
proof -
  let ?r = "Select sample_compaction sample_session sample_head TriggerManual 0"
  have "map_option isl ?r = Some False" by code_simp
  then show ?thesis unfolding compacted_def by (cases "the ?r") auto
qed

text \<open>The same session after that compaction was recorded and more was said.\<close>

definition sample_compacted :: context_compacted where
  "sample_compacted = \<lparr>cmp_From = cursorFor (sample_session ! 0), cmp_Through = cursorFor (sample_session ! 2),
     cmp_SummaryEvidenceID = ''ev'', cmp_Revision = sample_hex\<rparr>"

definition later_session :: "event list" where
  "later_session = sample_session @
     [session_event EventContextCompacted 9 (P_ContextCompacted sample_compacted),
      session_event EventUserMessage 10 (P_UserMessage ''e''), session_event EventUserMessage 11 (P_UserMessage ''f''),
      session_event EventUserMessage 12 (P_UserMessage ''g'')]"

definition later_head :: cursor where
  "later_head = sample_head\<lparr>cu_CommitSeq := 13\<rparr>"

definition recompacted :: selection where
  "recompacted = projr (the (Select sample_compaction later_session later_head TriggerManual 0))"

lemma recompacts: "Select sample_compaction later_session later_head TriggerManual 0 = Some (Inr recompacted)"
proof -
  let ?r = "Select sample_compaction later_session later_head TriggerManual 0"
  have "map_option isl ?r = Some False" by code_simp
  then show ?thesis unfolding recompacted_def by (cases "the ?r") auto
qed

definition sample_window :: value_int64 where
  "sample_window = \<lparr>vi_State = ''known'', vi_Value = 120000, vi_Provenance = ''''\<rparr>"

definition sample_policy :: compaction_policy where
  "sample_policy = \<lparr>cpo_AutoCompact = True, cpo_CompactReserveTokens = None, cpo_ManualInputBytes = 0\<rparr>"

section \<open>Properties\<close>

text \<open>The summarised events are those between two positions, both ends included.\<close>

definition summarises :: "event list \<Rightarrow> selection \<Rightarrow> int \<Rightarrow> int \<Rightarrow> bool" where
  "summarises committed sel s cutoff \<longleftrightarrow>
     0 \<le> s \<and> s \<le> cutoff \<and> cutoff + 4 < int (length committed)
     \<and> sel_From sel = cursorFor (event_at committed s) \<and> sel_Through sel = cursorFor (event_at committed cutoff)
     \<and> sel_SummarizedEventIDs sel = eventIDs (slice committed s (cutoff + 1))"

lemma selected_summarises:
  "selected ce events head trigger n sel committed xs sources included s cutoff \<Longrightarrow> summarises committed sel s cutoff"
  by (auto simp: selected_def summarises_def selectionFromIndexes_def Let_def event_at_def split: sum.splits)


lemma request_of_selection:
  assumes sel: "Select ce events head trigger n = Some (Inr sel)"
    and digest: "\<And>ss d. ce_SourceDigest ce ss = Inr d \<Longrightarrow> Digest_Validate d = None"
  shows "(\<exists>input. summaryRequestInput ce sel None = Inr input \<and> int (length input) \<le> effectiveInputLimit sel
      \<and> BuildSummaryRequest ce sel None = Inr \<lparr>mrq_RequestID = ''compaction-summary-v1'',
          mrq_Messages = [text_message ''system'' summary_contract, text_message ''user'' input]\<rparr>)
    \<and> (\<exists>b. NewEvidenceBinding ce sel = Inr b \<and> EvidenceBinding_Validate b = None)"
proof -
  obtain committed xs sources included s cutoff
    where selected: "selected ce events head trigger n sel committed xs sources included s cutoff"
    using select_result [OF sel] by blast
  have valid: "validateSelection ce sel = None" using selection_valid [OF sel selected] digest by blast
  obtain input where input: "summaryRequestInput ce sel None = Inr input" "int (length input) \<le> effectiveInputLimit sel"
    using selected_fits [OF selected] by blast
  then have "BuildSummaryRequest ce sel None = Inr \<lparr>mrq_RequestID = ''compaction-summary-v1'',
      mrq_Messages = [text_message ''system'' summary_contract, text_message ''user'' input]\<rparr>"
    using valid by (simp add: BuildSummaryRequest_def)
  moreover have "\<exists>b. NewEvidenceBinding ce sel = Inr b \<and> EvidenceBinding_Validate b = None"
    using valid by (simp add: NewEvidenceBinding_def EvidenceBinding_Validate_def validateSelection_def split: sum.splits)
  ultimately show ?thesis using input by blast
qed

text \<open>
  C35. A selection summarises a contiguous range of the committed events before the last four, and each result
  of a tool and a call it answers are both in the range or both outside, unless the turn of the call had
  ended before the result.
\<close>

theorem compaction_splits_no_exchange:
  assumes "Select ce events head trigger n = Some (Inr sel)"
  shows "\<exists>committed s cutoff. committedEvents events head = Inr committed \<and> summarises committed sel s cutoff
    \<and> (\<forall>j c. 0 \<le> j \<longrightarrow> j < int (length committed) \<longrightarrow> result_at ce committed j c \<longrightarrow>
        (\<exists>i. 0 \<le> i \<and> i < j \<and> call_at ce committed i c
          \<and> (((s \<le> i \<and> i \<le> cutoff) = (s \<le> j \<and> j \<le> cutoff)) \<or> turn_ended committed i j)))"
proof -
  obtain committed xs sources included s cutoff
    where sel: "selected ce events head trigger n sel committed xs sources included s cutoff"
    using select_result [OF assms] by blast
  then have committed: "committedEvents events head = Inr committed" and xs: "toolExchangeRanges ce committed = Inr xs"
    and safe: "start_safe xs s" "cutoff_safe xs cutoff" by (simp_all add: selected_def)
  have inc: "increasing committed" using committedEvents_increasing [OF committed] by simp
  have same: "((s \<le> i \<and> i \<le> cutoff) = (s \<le> j \<and> j \<le> cutoff)) \<or> turn_ended committed i j"
    if "x \<in> set xs" "holds_exchange committed x i j" "i < j" for x i j
    using that safe by (fastforce simp: holds_exchange_def start_safe_def cutoff_safe_def)
  have "\<exists>i. 0 \<le> i \<and> i < j \<and> call_at ce committed i c
      \<and> (((s \<le> i \<and> i \<le> cutoff) = (s \<le> j \<and> j \<le> cutoff)) \<or> turn_ended committed i j)"
    if "0 \<le> j" "j < int (length committed)" "result_at ce committed j c" for j c
    using tool_exchanges(4) [OF inc xs that] same by blast
  then show ?thesis using committed selected_summarises [OF sel] by blast
qed

theorem compaction_splits_no_exchange_witness:
  "\<exists>s cutoff. summarises (projr (committedEvents sample_session sample_head)) compacted s cutoff"
proof -
  obtain committed s cutoff where "committedEvents sample_session sample_head = Inr committed" "summarises committed compacted s cutoff"
    using compaction_splits_no_exchange [OF compacts] by blast
  then have "summarises (projr (committedEvents sample_session sample_head)) compacted s cutoff" by simp
  then show ?thesis by blast
qed

text \<open>C37. Selecting what to compact always comes back, with a selection or an error.\<close>

theorem select_terminates: "\<exists>r. Select ce events head trigger n = Some r"
  by (rule select_returns)



text \<open>
  C38. A selection can be summarised as it is: its request is built and its input is no longer than the limit of the
  selection, and the binding made for the summary's evidence is valid, when source digests are.
\<close>

theorem compaction_request_fits:
  assumes "Select ce events head trigger n = Some (Inr sel)"
    and "\<And>ss d. ce_SourceDigest ce ss = Inr d \<Longrightarrow> Digest_Validate d = None"
  shows "(\<exists>input. summaryRequestInput ce sel None = Inr input \<and> int (length input) \<le> effectiveInputLimit sel
      \<and> BuildSummaryRequest ce sel None = Inr \<lparr>mrq_RequestID = ''compaction-summary-v1'',
          mrq_Messages = [text_message ''system'' summary_contract, text_message ''user'' input]\<rparr>)
    \<and> (\<exists>b. NewEvidenceBinding ce sel = Inr b \<and> EvidenceBinding_Validate b = None)"
  using request_of_selection assms by blast

theorem compaction_request_fits_witness:
  "\<exists>b. NewEvidenceBinding sample_compaction compacted = Inr b \<and> EvidenceBinding_Validate b = None"
proof -
  have "ce_SourceDigest sample_compaction ss = Inr d \<Longrightarrow> Digest_Validate d = None" for ss d
    using sample_digest_valid by (auto simp: sample_compaction_def)
  then show ?thesis using compaction_request_fits [OF compacts] by blast
qed

text \<open>
  C39. Compactions go forward: a selection begins after the end of every compaction the session has recorded with
  an end that is one of its events.
\<close>

theorem compactions_advance:
  assumes "Select ce events head trigger n = Some (Inr sel)"
  shows "\<exists>committed. committedEvents events head = Inr committed
    \<and> (\<forall>r v k. r \<in> set committed \<longrightarrow> usable_compaction head r = Some v
        \<longrightarrow> eventIndexAtCursor committed (cmp_Through v) = Some k
        \<longrightarrow> cu_CommitSeq (cmp_Through v) < cu_CommitSeq (sel_From sel))"
proof -
  obtain committed xs sources included s cutoff
    where sel: "selected ce events head trigger n sel committed xs sources included s cutoff"
    using select_result [OF assms] by blast
  then have "committedEvents events head = Inr committed" by (simp add: selected_def)
  then show ?thesis using selected_after [OF sel] by blast
qed

theorem compactions_advance_witness:
  "\<exists>committed. committedEvents later_session later_head = Inr committed \<and> latestCompactionThrough committed later_head = Some 2
    \<and> (\<forall>r v k. r \<in> set committed \<longrightarrow> usable_compaction later_head r = Some v
        \<longrightarrow> eventIndexAtCursor committed (cmp_Through v) = Some k
        \<longrightarrow> cu_CommitSeq (cmp_Through v) < cu_CommitSeq (sel_From recompacted))"
proof -
  have latest: "(case committedEvents later_session later_head of
      Inl m \<Rightarrow> False | Inr c \<Rightarrow> latestCompactionThrough c later_head = Some 2)" by code_simp
  obtain committed where "committedEvents later_session later_head = Inr committed"
    "\<forall>r v k. r \<in> set committed \<longrightarrow> usable_compaction later_head r = Some v
        \<longrightarrow> eventIndexAtCursor committed (cmp_Through v) = Some k
        \<longrightarrow> cu_CommitSeq (cmp_Through v) < cu_CommitSeq (sel_From recompacted)"
    using compactions_advance [OF recompacts] by blast
  then show ?thesis using latest by auto
qed

text \<open>
  C40. The policy's arithmetic is exact, with no wrap-around on 64 bits: a decision is available when the compaction
  reserve and the output reserve leave room in a known window, and then it asks for a compaction exactly when
  input, output reserve and compaction reserve reach the window.
\<close>

theorem compaction_policy_exact:
  assumes "Evaluate_compaction inp outp window policy = (d, err)"
  shows "(cdn_Available d \<longleftrightarrow> 0 \<le> sint inp \<and> 0 \<le> sint outp \<and> sint inp + sint outp < 2 ^ 63
      \<and> (\<forall>c. cpo_CompactReserveTokens policy = Some c \<longrightarrow> 0 < sint c) \<and> cpo_AutoCompact policy
      \<and> vi_State window = ValueKnown \<and> 0 < sint (vi_Value window)
      \<and> compact_reserve policy (sint (vi_Value window)) + sint outp < sint (vi_Value window))
    \<and> (cdn_Available d \<longrightarrow> err = None \<and> sint (cdn_ReserveTokens d) = compact_reserve policy (sint (vi_Value window))
      \<and> (cdn_ShouldCompact d \<longleftrightarrow>
          sint (vi_Value window) \<le> sint inp + sint outp + compact_reserve policy (sint (vi_Value window))))"
  using Evaluate_exact [OF assms] .

theorem compaction_policy_exact_witness:
  "cdn_Available (fst (Evaluate_compaction 100000 4000 sample_window sample_policy))
    \<and> \<not> cdn_ShouldCompact (fst (Evaluate_compaction 100000 4000 sample_window sample_policy))"
proof -
  obtain d err where e: "Evaluate_compaction 100000 4000 sample_window sample_policy = (d, err)"
    by (cases "Evaluate_compaction 100000 4000 sample_window sample_policy")
  have "cdn_Available d \<and> \<not> cdn_ShouldCompact d"
    using compaction_policy_exact [OF e] by (simp add: compact_reserve_def sample_window_def sample_policy_def)
  then show ?thesis unfolding e fst_conv .
qed

end
